(* ===== verification/Prelude.thy ===== *)
theory Prelude
  imports Complex_Main "HOL-Library.Word" "HOL-Library.AList"
begin

text \<open>
  Shared vocabulary of the development: bytes, the exceptions of the program as values, Python
  list indexing and slicing, Python dictionaries as insertion-ordered association lists, generators
  as the list of values they yield, and the little-endian integer layouts of the \<^verbatim>\<open>struct\<close> module.
  The lemmas here are the ones several components use; those that are safe rewrite rules are
  declared \<^theory_text>\<open>[simp]\<close>, the others are collected in \<^theory_text>\<open>py_slices\<close> and \<^theory_text>\<open>py_dicts\<close>.
\<close>

unbundle bit_operations_syntax

named_theorems py_slices \<open>definitions of Python indexing and slicing\<close>
named_theorems py_dicts \<open>lookup laws of dictionaries\<close>

section \<open>Bytes and exceptions\<close>

text \<open>An element of a \<^verbatim>\<open>bytearray\<close> is an 8-bit word; a payload is a list of them.\<close>

type_synonym byte = "8 word"
type_synonym bytes = "byte list"

text \<open>The exceptions the modelled code raises or lets escape, by their Python class. The last one is no
  exception of the program: it marks a result that the model does not describe.\<close>

datatype py_error =
    IndexError | KeyError | ValueError | TypeError | StructError | AttributeError
  | UnboundLocalError | NotImplementedError | AssertionError | UnicodeError
  | FastPacketException | IsoTransportException | NMEAInvalidFrame | IncompleteMessage
  | N2KDecodeException | N2KDecodeEOLException | N2KDefinitionError | N2KUnknownPGN
  | N2KMissingEnumKeyException | N2KRawDecodeError | N2KEncodeError
  | N2KMissingDecodeEncodeException | BitFieldSplitException
  | PublisherOverflow | CouplerReadError | CouplerTimeOut | CouplerWriteError
  | CouplerOpenRefused | QueueFull | QueueEmpty | SocketCanError | SocketCanReadInvalid
  | N2KReadTimeOut | ZeroDivisionError | OSError | RuntimeError | N2KInvalidMessageException
  | N2KEncodeException | ObjectCreationError | ConfigurationException | ObjectFatalError
  | BinasciiError | GrpcError | EOFError | SerialException | CouplerNotPresent | MessageTraceError
  | NMEA2000EncodeDecodeError | OverflowError | VEDirectException | LogReadError | NotModelled

text \<open>A call that can raise returns \<open>Inl\<close> of the exception or \<open>Inr\<close> of its result.\<close>

type_synonym 'a result = "py_error + 'a"

definition bind_r :: "'a result \<Rightarrow> ('a \<Rightarrow> 'b result) \<Rightarrow> 'b result" where
  "bind_r r f = (case r of Inl e \<Rightarrow> Inl e | Inr x \<Rightarrow> f x)"

lemma bind_r_simps [simp]:
  "bind_r (Inl e) f = Inl e"
  "bind_r (Inr x) f = f x"
  by (simp_all add: bind_r_def)

lemma bind_r_Inr_iff: "bind_r r f = Inr y \<longleftrightarrow> (\<exists>x. r = Inr x \<and> f x = Inr y)"
  by (cases r) auto

lemma map_sum_Inr_iff: "map_sum f g r = Inr y \<longleftrightarrow> (\<exists>x. r = Inr x \<and> g x = y)"
  by (cases r) auto

fun is_ok :: "'a result \<Rightarrow> bool" where
  "is_ok (Inl _) = False"
| "is_ok (Inr _) = True"

text \<open>A generator: the values it yields, in order, and the exception that ends it, if one does.\<close>

type_synonym 'a generator = "'a list \<times> py_error option"

definition gen_cons :: "'a \<Rightarrow> 'a generator \<Rightarrow> 'a generator" where
  "gen_cons x g = (x # fst g, snd g)"

lemma gen_cons_simps [simp]:
  "fst (gen_cons x g) = x # fst g"
  "snd (gen_cons x g) = snd g"
  by (simp_all add: gen_cons_def)

section \<open>Indexing and slicing\<close>

text \<open>The position an index stands for: a negative one counts from the end, and one out of range
  stands for none.\<close>

definition py_pos :: "nat \<Rightarrow> int \<Rightarrow> nat option" where
  "py_pos n i =
     (if 0 \<le> i \<and> nat i < n then Some (nat i)
      else if i < 0 \<and> nat (- i) \<le> n then Some (n - nat (- i)) else None)"

text \<open>\<^verbatim>\<open>xs[i]\<close>, and \<^verbatim>\<open>xs[i] = v\<close> on a list or bytearray: an index out of range raises.\<close>

definition py_get :: "'a list \<Rightarrow> int \<Rightarrow> 'a result" where
  "py_get xs i = (case py_pos (length xs) i of Some p \<Rightarrow> Inr (xs ! p) | None \<Rightarrow> Inl IndexError)"

definition py_set :: "'a list \<Rightarrow> int \<Rightarrow> 'a \<Rightarrow> 'a list result" where
  "py_set xs i v = (case py_pos (length xs) i of Some p \<Rightarrow> Inr (xs[p := v]) | None \<Rightarrow> Inl IndexError)"

text \<open>The bound of a slice: negative values count from the end, then it is clipped to the list.\<close>

definition py_clip :: "nat \<Rightarrow> int \<Rightarrow> nat" where
  "py_clip n i = nat (min (int n) (max 0 (if i < 0 then int n + i else i)))"

definition py_slice :: "'a list \<Rightarrow> int \<Rightarrow> int \<Rightarrow> 'a list" where
  "py_slice xs i j =
     (let a = py_clip (length xs) i; b = py_clip (length xs) j in take (b - a) (drop a xs))"

text \<open>\<^verbatim>\<open>xs[i:j] = ys\<close>, which may grow or shrink the list.\<close>

definition py_slice_assign :: "'a list \<Rightarrow> int \<Rightarrow> int \<Rightarrow> 'a list \<Rightarrow> 'a list" where
  "py_slice_assign xs i j ys =
     (let a = py_clip (length xs) i; b = max a (py_clip (length xs) j)
      in take a xs @ ys @ drop b xs)"

text \<open>\<^verbatim>\<open>xs[i:] = ys\<close>.\<close>

definition py_assign_from :: "'a list \<Rightarrow> nat \<Rightarrow> 'a list \<Rightarrow> 'a list" where
  "py_assign_from xs i ys = take i xs @ ys"

declare py_pos_def [py_slices] py_get_def [py_slices] py_set_def [py_slices] py_clip_def [py_slices]
  py_slice_def [py_slices] py_slice_assign_def [py_slices] py_assign_from_def [py_slices]

lemma py_get_nat [simp]: "i < length xs \<Longrightarrow> py_get xs (int i) = Inr (xs ! i)"
  by (simp add: py_get_def py_pos_def)

lemma py_get_out [simp]: "length xs \<le> i \<Longrightarrow> py_get xs (int i) = Inl IndexError"
  by (simp add: py_get_def py_pos_def)

lemma py_clip_nat [simp]: "py_clip n (int i) = min n i"
  by (simp add: py_clip_def)

lemma py_slice_nat: "py_slice xs (int i) (int j) = take (j - i) (drop i xs)"
proof -
  have "take (min (length xs) j - min (length xs) i) (drop (min (length xs) i) xs)
      = take (j - i) (drop i xs)"
    by (cases "i \<le> length xs"; cases "j \<le> length xs") (auto simp: min_def)
  then show ?thesis by (simp add: py_slice_def Let_def)
qed

lemma py_slice_to_nonneg: "0 \<le> j \<Longrightarrow> py_slice xs 0 j = take (nat j) xs"
  using py_slice_nat [of xs 0 "nat j"] by simp

lemma length_py_slice_assign:
  "length (py_slice_assign xs (int i) (int j) ys)
     = (if i \<le> length xs \<and> i \<le> j \<and> j \<le> length xs then length xs - (j - i) + length ys
        else length (py_slice_assign xs (int i) (int j) ys))"
  by (auto simp: py_slice_assign_def Let_def)

lemma py_slice_assign_same:
  assumes "i \<le> j" "j \<le> length xs" "length ys = j - i"
  shows "py_slice_assign xs (int i) (int j) ys = take i xs @ ys @ drop j xs"
    and "length (py_slice_assign xs (int i) (int j) ys) = length xs"
  using assms by (auto simp: py_slice_assign_def Let_def max_def min_def)

section \<open>Dictionaries\<close>

text \<open>
  A Python dictionary keeps its insertion order: storing to an existing key replaces the value in
  place, a new key goes to the end. \<open>AList.update\<close> and \<open>AList.delete\<close> do exactly that.
\<close>

type_synonym ('k, 'v) dict = "('k \<times> 'v) list"

abbreviation dict_get :: "('k, 'v) dict \<Rightarrow> 'k \<Rightarrow> 'v option" where
  "dict_get d k \<equiv> map_of d k"

abbreviation dict_set :: "'k \<Rightarrow> 'v \<Rightarrow> ('k, 'v) dict \<Rightarrow> ('k, 'v) dict" where
  "dict_set k v d \<equiv> AList.update k v d"

abbreviation dict_del :: "'k \<Rightarrow> ('k, 'v) dict \<Rightarrow> ('k, 'v) dict" where
  "dict_del k d \<equiv> AList.delete k d"

abbreviation dict_keys :: "('k, 'v) dict \<Rightarrow> 'k list" where
  "dict_keys d \<equiv> map fst d"

text \<open>What the components rely on of a dictionary, as an interface.\<close>

locale py_dict =
  fixes get :: "'d \<Rightarrow> 'k \<Rightarrow> 'v option"
    and put :: "'k \<Rightarrow> 'v \<Rightarrow> 'd \<Rightarrow> 'd"
    and del :: "'k \<Rightarrow> 'd \<Rightarrow> 'd"
    and keys :: "'d \<Rightarrow> 'k list"
    and empty :: "'d"
  assumes get_empty: "get empty k = None"
    and get_put: "get (put k v d) k' = (if k' = k then Some v else get d k')"
    and get_del: "get (del k d) k' = (if k' = k then None else get d k')"
    and keys_iff: "k \<in> set (keys d) \<longleftrightarrow> get d k \<noteq> None"
    and distinct_put: "distinct (keys d) \<Longrightarrow> distinct (keys (put k v d))"
    and distinct_del: "distinct (keys d) \<Longrightarrow> distinct (keys (del k d))"
begin

lemma get_put_same [simp]: "get (put k v d) k = Some v"
  by (simp add: get_put)

lemma get_put_other: "k' \<noteq> k \<Longrightarrow> get (put k v d) k' = get d k'"
  by (simp add: get_put)

lemma get_del_same [simp]: "get (del k d) k = None"
  by (simp add: get_del)

lemma get_del_other: "k' \<noteq> k \<Longrightarrow> get (del k d) k' = get d k'"
  by (simp add: get_del)

lemma get_del_put: "get (del k (put k v d)) k' = (if k' = k then None else get d k')"
  by (simp add: get_put get_del)

lemma set_keys_put: "set (keys (put k v d)) = insert k (set (keys d))"
  by (auto simp: keys_iff get_put split: if_splits)

lemma set_keys_del: "set (keys (del k d)) = set (keys d) - {k}"
  by (auto simp: keys_iff get_del split: if_splits)

lemma get_dels: "get (fold del ks d) k = (if k \<in> set ks then None else get d k)"
  by (induction ks arbitrary: d) (auto simp: get_del)

end

interpretation al: py_dict map_of AList.update AList.delete "map fst" "[]"
proof unfold_locales
  fix k k' :: 'a and v :: 'b and d :: "('a, 'b) dict"
  show "map_of [] k = (None :: 'b option)" by simp
  show "map_of (dict_set k v d) k' = (if k' = k then Some v else map_of d k')"
    by (simp add: update_conv')
  show "map_of (dict_del k d) k' = (if k' = k then None else map_of d k')"
    by (simp add: delete_conv')
  show "k \<in> set (map fst d) \<longleftrightarrow> map_of d k \<noteq> None"
    by (simp add: map_of_eq_None_iff)
  show "distinct (map fst d) \<Longrightarrow> distinct (map fst (dict_set k v d))"
    by (rule distinct_update)
  show "distinct (map fst d) \<Longrightarrow> distinct (map fst (dict_del k d))"
    by (rule distinct_delete)
qed

lemmas al_gets [py_dicts] = al.get_put al.get_del al.get_dels

section \<open>Integers on bytes\<close>

text \<open>Storing an integer in a bytearray element: outside \<open>0..255\<close> Python raises ValueError.\<close>

definition to_byte :: "nat \<Rightarrow> byte result" where
  "to_byte v = (if v < 256 then Inr (of_nat v) else Inl ValueError)"

lemma unat_of_nat_byte [simp]: "v < 256 \<Longrightarrow> unat (of_nat v :: byte) = v"
  by (simp add: unat_of_nat)

lemma unat_byte_less [simp]: "unat (b :: byte) < 256"
  using unsigned_less [of b] by simp

lemma of_nat_unat_byte [simp]: "(of_nat (unat b) :: byte) = b"
  by simp

text \<open>Little-endian layout of an unsigned integer on \<open>n\<close> bytes, and its reading.\<close>

fun le_encode :: "nat \<Rightarrow> nat \<Rightarrow> bytes" where
  "le_encode 0 v = []"
| "le_encode (Suc n) v = of_nat (v mod 256) # le_encode n (v div 256)"

fun le_decode :: "bytes \<Rightarrow> nat" where
  "le_decode [] = 0"
| "le_decode (b # bs) = unat b + 256 * le_decode bs"

lemma length_le_encode [simp]: "length (le_encode n v) = n"
  by (induction n arbitrary: v) auto

lemma le_encode_small:
  "le_encode 1 v = [of_nat (v mod 256)]"
  "le_encode 2 v = [of_nat (v mod 256), of_nat (v div 256 mod 256)]"
  "le_encode 3 v = [of_nat (v mod 256), of_nat (v div 256 mod 256), of_nat (v div 65536 mod 256)]"
  "le_encode 4 v = [of_nat (v mod 256), of_nat (v div 256 mod 256), of_nat (v div 65536 mod 256),
     of_nat (v div 16777216 mod 256)]"
proof -
  have n: "1 = Suc 0" "2 = Suc (Suc 0)" "3 = Suc (Suc (Suc 0))" "4 = Suc (Suc (Suc (Suc 0)))" by simp_all
  show "le_encode 1 v = [of_nat (v mod 256)]"
    by (simp only: n(1) le_encode.simps)
  show "le_encode 2 v = [of_nat (v mod 256), of_nat (v div 256 mod 256)]"
    by (simp only: n(2) le_encode.simps)
  show "le_encode 3 v = [of_nat (v mod 256), of_nat (v div 256 mod 256), of_nat (v div 65536 mod 256)]"
    by (simp only: n(3) le_encode.simps) (simp flip: div_mult2_eq)
  show "le_encode 4 v = [of_nat (v mod 256), of_nat (v div 256 mod 256), of_nat (v div 65536 mod 256),
     of_nat (v div 16777216 mod 256)]"
    by (simp only: n(4) le_encode.simps) (simp flip: div_mult2_eq)
qed

lemma le_decode_encode: "le_decode (le_encode n v) = v mod 256 ^ n"
proof (induction n arbitrary: v)
  case (Suc n)
  have "v mod 256 + 256 * (v div 256 mod 256 ^ n) = v mod (256 * 256 ^ n)"
    by (simp add: mod_mult2_eq)
  with Suc show ?case by simp
qed simp

lemma le_decode_encode_id [simp]: "v < 256 ^ n \<Longrightarrow> le_decode (le_encode n v) = v"
  by (simp add: le_decode_encode)

lemma le_decode_bound: "le_decode bs < 256 ^ length bs"
proof (induction bs)
  case (Cons b bs)
  have "unat b + 256 * le_decode bs < 256 + 256 * (256 ^ length bs - 1)"
    using Cons unat_byte_less [of b]
    by (intro add_less_le_mono mult_le_mono2) auto
  then show ?case by (simp add: diff_mult_distrib2)
qed simp

lemma le_encode_decode [simp]: "le_encode (length bs) (le_decode bs) = bs"
  by (induction bs) auto

lemma le_encode_decode_n: "length bs = n \<Longrightarrow> le_encode n (le_decode bs) = bs"
  by (metis le_encode_decode)

section \<open>Python truncating quotient\<close>

text \<open>\<^verbatim>\<open>int(a / b)\<close> on integers: the quotient rounded towards zero.\<close>

definition trunc_quot :: "int \<Rightarrow> int \<Rightarrow> int" where
  "trunc_quot a b = sgn a * sgn b * (\<bar>a\<bar> div \<bar>b\<bar>)"

section \<open>Splitting and joining\<close>

text \<open>\<^verbatim>\<open>xs.split(sep)\<close> and \<^verbatim>\<open>sep.join(ys)\<close> for a separator of one element.\<close>

fun split_on :: "'a \<Rightarrow> 'a list \<Rightarrow> 'a list list" where
  "split_on s [] = [[]]"
| "split_on s (x # xs) =
     (if x = s then [] # split_on s xs
      else (case split_on s xs of [] \<Rightarrow> [[x]] | h # t \<Rightarrow> (x # h) # t))"

fun join_on :: "'a \<Rightarrow> 'a list list \<Rightarrow> 'a list" where
  "join_on s [] = []"
| "join_on s [x] = x"
| "join_on s (x # y # ys) = x @ s # join_on s (y # ys)"

lemma split_on_ne [simp]: "split_on s xs \<noteq> []"
  by (induction xs) (auto split: list.splits)

lemma split_on_plain: "s \<notin> set xs \<Longrightarrow> split_on s xs = [xs]"
  by (induction xs) auto

lemma split_on_append: "s \<notin> set xs \<Longrightarrow> split_on s (xs @ s # ys) = xs # split_on s ys"
  by (induction xs) auto

lemma split_on_join:
  "xs \<noteq> [] \<Longrightarrow> \<forall>x \<in> set xs. s \<notin> set x \<Longrightarrow> split_on s (join_on s xs) = xs"
  by (induction s xs rule: join_on.induct) (auto simp: split_on_plain split_on_append)

lemma join_on_split: "join_on s (split_on s xs) = xs"
proof (induction xs)
  case (Cons x xs)
  then show ?case
    by (cases "split_on s xs"; cases "tl (split_on s xs)") (auto split: list.splits)
qed simp

section \<open>Masks and bit fields of natural numbers\<close>

lemma and_mask_mod: "(n :: nat) AND mask k = n mod 2 ^ k"
  by (simp flip: take_bit_eq_mask add: take_bit_eq_mod)

lemma and_masks [simp]:
  "(n :: nat) AND 7 = n mod 8" "n AND 0xFF = n mod 256" "n AND 0x7FF = n mod 2048"
  "n AND 0xFFFF = n mod 0x10000" "n AND 0x1FFFF = n mod 0x20000"
  using and_mask_mod [of n 3] and_mask_mod [of n 8] and_mask_mod [of n 11] and_mask_mod [of n 16]
    and_mask_mod [of n 17]
  by (simp_all add: mask_eq_exp_minus_1)

text \<open>A disjunction of fields that do not overlap is a sum.\<close>

lemma or_push_bit:
  assumes "(a :: nat) < 2 ^ n"
  shows "a OR push_bit n b = a + 2 ^ n * b"
proof -
  have "take_bit n a = a" using assms by (simp add: take_bit_nat_eq_self_iff)
  then have "a AND push_bit n b = 0"
    by (metis (no_types, lifting) bit_0_eq bit_and_iff bit_eqI bit_push_bit_iff bit_take_bit_iff bot_apply
        bot_bool_def linorder_not_le)
  with disjunctive_add_eq_or [of a "push_bit n b"] show ?thesis
    by (simp add: push_bit_eq_mult mult.commute)
qed

end
