(* ===== verification/Reassembly.thy ===== *)
theory Reassembly
  imports Prelude "HOL-Library.Multiset"
begin

text \<open>
  The contract of a keyed reassembler: a table of open transactions, fed one event (a CAN frame) at
  a time, where the event's key selects the transaction. Its client is the receiving thread of the
  CAN interface and of the couplers, which mixes the frames of many senders: under the contract the
  transactions do not interfere. \<open>run_events\<close> is the client's loop.
\<close>

fun run_events :: "('h \<Rightarrow> 'e \<Rightarrow> 'h \<times> 'r) \<Rightarrow> 'h \<Rightarrow> 'e list \<Rightarrow> 'h \<times> ('e \<times> 'r) list" where
  "run_events feed h [] = (h, [])"
| "run_events feed h (e # es) =
     (let (h1, r) = feed h e; (h2, rs) = run_events feed h1 es in (h2, (e, r) # rs))"

lemma run_events_Cons:
  "fst (run_events feed h (e # es)) = fst (run_events feed (fst (feed h e)) es)"
  "snd (run_events feed h (e # es))
     = (e, snd (feed h e)) # snd (run_events feed (fst (feed h e)) es)"
  by (simp_all add: case_prod_beta Let_def)

lemma run_events_append:
  "fst (run_events feed h (es @ fs)) = fst (run_events feed (fst (run_events feed h es)) fs)"
  "snd (run_events feed h (es @ fs))
     = snd (run_events feed h es) @ snd (run_events feed (fst (run_events feed h es)) fs)"
  by (induction es arbitrary: h) (simp_all add: run_events_Cons del: run_events.simps(2))

text \<open>A reordering of the images is the image of a reordering.\<close>

lemma list_of_image_mset:
  "mset ys = image_mset f M \<Longrightarrow> \<exists>xs. mset xs = M \<and> ys = map f xs"
proof (induction ys arbitrary: M)
  case Nil
  then show ?case by simp
next
  case (Cons y ys)
  then have "image_mset f M = add_mset y (mset ys)" by simp
  then obtain M1 a where M: "M = add_mset a M1" "f a = y" "image_mset f M1 = mset ys"
    by (metis msed_map_invR)
  from Cons.IH [OF M(3) [symmetric]] obtain xs where "mset xs = M1" "ys = map f xs" by blast
  with M show ?case by (intro exI [of _ "a # xs"]) simp
qed

locale keyed_reassembly =
  fixes feed :: "'h \<Rightarrow> 'e \<Rightarrow> 'h \<times> 'r"
    and key_of :: "'e \<Rightarrow> 'k"
    and slot :: "'h \<Rightarrow> 'k \<Rightarrow> 't option"
  assumes feed_other: "key_of e \<noteq> k \<Longrightarrow> slot (fst (feed h e)) k = slot h k"
    and feed_local: "slot h (key_of e) = slot h' (key_of e) \<Longrightarrow>
       snd (feed h e) = snd (feed h' e) \<and>
       slot (fst (feed h e)) (key_of e) = slot (fst (feed h' e)) (key_of e)"
begin

lemma run_slot_local:
  assumes "slot h k = slot h' k"
  shows "slot (fst (run_events feed h es)) k
           = slot (fst (run_events feed h' (filter (\<lambda>e. key_of e = k) es))) k
       \<and> map snd (filter (\<lambda>(e, r). key_of e = k) (snd (run_events feed h es)))
           = map snd (snd (run_events feed h' (filter (\<lambda>e. key_of e = k) es)))"
  using assms
proof (induction es arbitrary: h h')
  case Nil
  then show ?case by simp
next
  case (Cons e es)
  show ?case
  proof (cases "key_of e = k")
    case True
    with Cons.prems feed_local [of h e h']
    have "snd (feed h e) = snd (feed h' e)"
      and "slot (fst (feed h e)) k = slot (fst (feed h' e)) k"
      by auto
    with True Cons.IH [of "fst (feed h e)" "fst (feed h' e)"] show ?thesis
      by (simp add: run_events_Cons del: run_events.simps(2))
  next
    case False
    with Cons.prems have "slot (fst (feed h e)) k = slot h' k"
      by (simp add: feed_other)
    with False Cons.IH [of "fst (feed h e)" h'] show ?thesis
      by (simp add: run_events_Cons del: run_events.simps(2))
  qed
qed

lemma interleaving_slot:
  "slot (fst (run_events feed h es)) k
     = slot (fst (run_events feed h (filter (\<lambda>e. key_of e = k) es))) k"
  using run_slot_local [of h k h es] by simp

lemma interleaving_results:
  "map snd (filter (\<lambda>(e, r). key_of e = k) (snd (run_events feed h es)))
     = map snd (snd (run_events feed h (filter (\<lambda>e. key_of e = k) es)))"
  using run_slot_local [of h k h es] by simp

lemma untouched_slot:
  "k \<notin> key_of ` set es \<Longrightarrow> slot (fst (run_events feed h es)) k = slot h k"
  by (induction es arbitrary: h) (auto simp: run_events_Cons feed_other simp del: run_events.simps(2))

end

end
