(* ===== verification/FastPacket.thy ===== *)
theory FastPacket
  imports Reassembly
begin

text \<open>
  \<^verbatim>\<open>navigation_server/nmea2000/nmea2k_fast_packet.py\<close>: the NMEA 2000 fast packet transport. A payload of
  more than 8 bytes travels as up to 32 CAN frames; the first byte of each carries a 3-bit sequence
  and a 5-bit frame index, the second byte of frame 0 the payload length. \<open>fast_packet\<close> is one
  reassembly (class \<^verbatim>\<open>FastPacket\<close>), \<open>fp_handler\<close> the table of them and the sequence numbers in use for
  sending (class \<^verbatim>\<open>FastPacketHandler\<close>). The clock is an argument \<open>now\<close>.
\<close>

section \<open>One reassembly\<close>

record fast_packet =
  fp_key :: nat
  fp_source :: nat
  fp_seq :: nat
  fp_byte_length :: nat
  fp_length :: nat
  fp_pgn :: nat
  fp_frames :: "(nat, bytes) dict"
  fp_count :: nat
  fp_nbframes :: nat
  fp_timestamp :: real

definition compute_key :: "nat \<Rightarrow> nat \<Rightarrow> nat \<Rightarrow> nat" where
  "compute_key pgn addr seq = pgn + push_bit 20 addr + push_bit 28 seq"

definition new_fast_packet :: "real \<Rightarrow> nat \<Rightarrow> nat \<Rightarrow> nat \<Rightarrow> fast_packet" where
  "new_fast_packet now pgn addr seq =
     \<lparr>fp_key = compute_key pgn addr seq, fp_source = addr, fp_seq = seq, fp_byte_length = 0,
      fp_length = 0, fp_pgn = pgn, fp_frames = [], fp_count = 0, fp_nbframes = 0,
      fp_timestamp = now\<rparr>"

text \<open>The number of frames announced by a byte length, as \<^verbatim>\<open>first_packet\<close> computes it.\<close>

definition nb_frames_of :: "nat \<Rightarrow> nat" where
  "nb_frames_of byte_length =
     (let l7 = int byte_length - 6;
          nb7 = trunc_quot l7 7;
          nb7 = (if l7 mod 7 \<noteq> 0 then nb7 + 1 else nb7)
      in nat (nb7 + 1))"

definition first_packet :: "fast_packet \<Rightarrow> bytes \<Rightarrow> fast_packet result" where
  "first_packet p frame =
     bind_r (py_get frame 1) (\<lambda>b1.
       Inr (p\<lparr>fp_byte_length := unat b1,
              fp_nbframes := nb_frames_of (unat b1),
              fp_length := fp_length p + 6,
              fp_frames := dict_set 0 (drop 2 frame) (fp_frames p),
              fp_count := fp_count p + 1\<rparr>))"

definition frame_counter :: "byte \<Rightarrow> nat" where
  "frame_counter b = unat (b AND 0x1F)"

definition frame_seq :: "byte \<Rightarrow> nat" where
  "frame_seq b = unat (drop_bit 5 b AND 7)"

definition add_packet :: "fast_packet \<Rightarrow> bytes \<Rightarrow> fast_packet result" where
  "add_packet p frame =
     bind_r (py_get frame 0) (\<lambda>b0.
       let counter = frame_counter b0 in
       case dict_get (fp_frames p) counter of
         Some _ \<Rightarrow> Inl FastPacketException
       | None \<Rightarrow>
           Inr (p\<lparr>fp_frames := dict_set counter (drop 1 frame) (fp_frames p),
                  fp_count := fp_count p + 1,
                  fp_length := fp_length p + (length frame - 1)\<rparr>))"

definition check_complete :: "fast_packet \<Rightarrow> bool" where
  "check_complete p =
     (if fp_nbframes p = 0 then False
      else if fp_byte_length p \<le> fp_length p \<or> fp_nbframes p \<le> fp_count p then True
      else False)"

fun total_loop :: "(nat, bytes) dict \<Rightarrow> nat \<Rightarrow> nat list \<Rightarrow> nat \<Rightarrow> bytes \<Rightarrow> bytes result" where
  "total_loop frames byte_length [] start_idx result = Inr result"
| "total_loop frames byte_length (i # is) start_idx result =
     (case dict_get frames i of
        None \<Rightarrow> Inl FastPacketException
      | Some f \<Rightarrow>
          let l = length f;
              piece = (if byte_length \<le> start_idx + l
                       then py_slice f 0 (int byte_length - int start_idx + 1) else f)
          in total_loop frames byte_length is (start_idx + l)
               (py_assign_from result start_idx piece))"

definition total_frame :: "fast_packet \<Rightarrow> bytes result" where
  "total_frame p =
     total_loop (fp_frames p) (fp_byte_length p) [0..<fp_nbframes p] 0
       (replicate (fp_byte_length p) 0)"

definition check_validity :: "real \<Rightarrow> fast_packet \<Rightarrow> bool" where
  "check_validity now p =
     (if 0 < fp_nbframes p
      then (if now - fp_timestamp p < 0.01 * real (fp_nbframes p) then True else False)
      else False)"

section \<open>The handler\<close>

record fp_handler =
  sequences :: "(nat, fast_packet) dict"
  write_sequences :: "(nat, nat) dict"

definition new_fp_handler :: fp_handler where
  "new_fp_handler = \<lparr>sequences = [], write_sequences = []\<rparr>"

text \<open>
  \<open>process_frame\<close> returns the handler after the call, which an exception also leaves behind, and
  \<open>Inr None\<close> while the message is incomplete.
\<close>

definition process_frame ::
    "real \<Rightarrow> fp_handler \<Rightarrow> nat \<Rightarrow> nat \<Rightarrow> bytes \<Rightarrow> fp_handler \<times> bytes option result" where
  "process_frame now h pgn addr frame =
     (case py_get frame 0 of
        Inl e \<Rightarrow> (h, Inl e)
      | Inr b0 \<Rightarrow>
          let seq = frame_seq b0; key = compute_key pgn addr seq; counter = frame_counter b0;
              found = dict_get (sequences h) key
          in if found = None \<and> counter \<noteq> 0 then (h, Inl FastPacketException)
             else
               let handle = (case found of None \<Rightarrow> new_fast_packet now pgn addr seq | Some p \<Rightarrow> p);
                   h1 = (if found = None
                         then h\<lparr>sequences := dict_set key handle (sequences h)\<rparr> else h);
                   fed = (if counter = 0 then first_packet handle frame
                          else add_packet handle frame)
               in case fed of
                    Inl e \<Rightarrow>
                      (if counter \<noteq> 0 \<and> e = FastPacketException
                       then h1\<lparr>sequences := dict_del key (sequences h1)\<rparr> else h1, Inl e)
                  | Inr p \<Rightarrow>
                      if check_complete p
                      then (h1\<lparr>sequences := dict_del key (sequences h1)\<rparr>,
                            map_sum id Some (total_frame p))
                      else (h1\<lparr>sequences := dict_set key p (sequences h1)\<rparr>, Inr None))"

definition is_pgn_active :: "fp_handler \<Rightarrow> nat \<Rightarrow> nat \<Rightarrow> bytes \<Rightarrow> bool result" where
  "is_pgn_active h pgn addr frame =
     bind_r (py_get frame 0) (\<lambda>b0.
       let seq = frame_seq b0; key = compute_key pgn addr seq
       in Inr (case dict_get (sequences h) key of Some _ \<Rightarrow> True | None \<Rightarrow> False))"

definition collect_garbage :: "real \<Rightarrow> fp_handler \<Rightarrow> fp_handler" where
  "collect_garbage now h =
     (let to_be_removed = map (fp_key \<circ> snd) (filter (\<lambda>(k, s). \<not> check_validity now s) (sequences h))
      in h\<lparr>sequences := fold dict_del to_be_removed (sequences h)\<rparr>)"

section \<open>Splitting a payload\<close>

text \<open>
  \<^verbatim>\<open>split_message\<close> is a generator: it allocates the sequence number of the PGN, yields the frames
  and frees the number only when the consumer has drawn them all. \<open>copy_loop\<close> and \<open>pad_loop\<close> are its
  two inner loops over the frame under construction; \<open>split_loop\<close> is the outer loop, whose guard
  \<^verbatim>\<open>counter < (len(data) - 6) / 7 + 1\<close> is a comparison of rationals, here multiplied by 7.
\<close>

definition allocate_seq :: "fp_handler \<Rightarrow> nat \<Rightarrow> fp_handler \<times> nat result" where
  "allocate_seq h pgn =
     (let seq = (case dict_get (write_sequences h) pgn of Some s \<Rightarrow> s | None \<Rightarrow> 0)
      in if seq = 0
         then (h\<lparr>write_sequences := dict_set pgn 1 (write_sequences h)\<rparr>, Inr 1)
         else (h, Inl ValueError))"

definition free_seq :: "fp_handler \<Rightarrow> nat \<Rightarrow> fp_handler" where
  "free_seq h pgn = h\<lparr>write_sequences := dict_set pgn 0 (write_sequences h)\<rparr>"

function copy_loop :: "bytes \<Rightarrow> bytes \<Rightarrow> nat \<Rightarrow> nat \<Rightarrow> nat \<Rightarrow> (bytes \<times> nat \<times> nat) result" where
  "copy_loop frame data frame_len ptr data_ptr =
     (if ptr < frame_len
      then bind_r (py_get data (int data_ptr)) (\<lambda>b.
             copy_loop (frame[ptr := b]) data frame_len (ptr + 1) (data_ptr + 1))
      else Inr (frame, ptr, data_ptr))"
  by pat_completeness auto
termination
  by (relation "measure (\<lambda>(frame, data, frame_len, ptr, data_ptr). frame_len - ptr)") auto

function pad_loop :: "bytes \<Rightarrow> nat \<Rightarrow> bytes" where
  "pad_loop frame ptr = (if ptr < 8 then pad_loop (frame[ptr := 0xFF]) (ptr + 1) else frame)"
  by pat_completeness auto
termination
  by (relation "measure (\<lambda>(frame, ptr). 8 - ptr)") auto

declare copy_loop.simps [simp del] pad_loop.simps [simp del]

definition split_frame :: "nat \<Rightarrow> bytes \<Rightarrow> nat \<Rightarrow> nat \<Rightarrow> (bytes \<times> nat) result" where
  "split_frame seq_en data counter data_ptr =
     (let total_len = length data;
          remaining_bytes = total_len - data_ptr;
          frame_len = min 8 (remaining_bytes + 1)
      in bind_r (to_byte (seq_en OR counter)) (\<lambda>b0.
         bind_r (if counter = 0 then map_sum id Some (to_byte total_len) else Inr None) (\<lambda>b1.
         let frame = (replicate 8 0)[0 := b0];
             frame = (case b1 of Some b \<Rightarrow> frame[1 := b] | None \<Rightarrow> frame);
             ptr = (if counter = 0 then 2 else 1)
         in bind_r (copy_loop frame data frame_len ptr data_ptr) (\<lambda>(frame, ptr, data_ptr).
              Inr (if frame_len < 8 then pad_loop frame ptr else frame, data_ptr)))))"

function split_loop :: "nat \<Rightarrow> bytes \<Rightarrow> nat \<Rightarrow> nat \<Rightarrow> bytes generator" where
  "split_loop seq_en data counter data_ptr =
     (if 7 * (int counter - 1) < int (length data) - 6
      then (case split_frame seq_en data counter data_ptr of
              Inl e \<Rightarrow> ([], Some e)
            | Inr (frame, data_ptr') \<Rightarrow>
                gen_cons frame (split_loop seq_en data (counter + 1) data_ptr'))
      else ([], None))"
  by pat_completeness auto
termination
  by (relation "measure (\<lambda>(seq_en, data, counter, data_ptr). length data + 8 - 7 * counter)") auto

declare split_loop.simps [simp del]

text \<open>
  The generator drawn \<open>n\<close> times and then dropped (\<open>Some n\<close>), or drawn to its end (\<open>None\<close>): the
  frames the consumer gets and the handler left behind.
\<close>

definition split_message :: "fp_handler \<Rightarrow> nat \<Rightarrow> bytes \<Rightarrow> nat option \<Rightarrow> fp_handler \<times> bytes generator" where
  "split_message h pgn data drawn =
     (if drawn = Some 0 then (h, ([], None))
      else case allocate_seq h pgn of
        (h1, Inl e) \<Rightarrow> (h1, ([], Some e))
      | (h1, Inr seq) \<Rightarrow>
          let g = split_loop (push_bit 5 seq) data 0 0
          in (case drawn of
                Some n \<Rightarrow> (if n \<le> length (fst g) then (h1, (take n (fst g), None))
                           else if snd g = None then (free_seq h1 pgn, g) else (h1, g))
              | None \<Rightarrow> if snd g = None then (free_seq h1 pgn, g) else (h1, g)))"

section \<open>Lemmas on splitting\<close>

lemma zeros_8: "(replicate 8 0 :: bytes) = [0, 0, 0, 0, 0, 0, 0, 0]"
  by (simp add: eval_nat_numeral)

lemma copy_loop_eq:
  assumes "ptr \<le> frame_len" "frame_len \<le> length frame" "data_ptr + (frame_len - ptr) \<le> length data"
  shows "copy_loop frame data frame_len ptr data_ptr
    = Inr (take ptr frame @ take (frame_len - ptr) (drop data_ptr data) @ drop frame_len frame,
           frame_len, data_ptr + (frame_len - ptr))"
  using assms
proof (induction frame data frame_len ptr data_ptr rule: copy_loop.induct)
  case (1 frame data frame_len ptr data_ptr)
  show ?case
  proof (cases "ptr < frame_len")
    case True
    with 1 have lt: "data_ptr < length data" by simp
    let ?b = "data ! data_ptr"
    have "copy_loop (frame[ptr := ?b]) data frame_len (ptr + 1) (data_ptr + 1)
        = Inr (take (ptr + 1) (frame[ptr := ?b]) @ take (frame_len - (ptr + 1)) (drop (data_ptr + 1) data)
                 @ drop frame_len (frame[ptr := ?b]), frame_len, data_ptr + 1 + (frame_len - (ptr + 1)))"
      using 1 True lt by simp
    moreover have "take (ptr + 1) (frame[ptr := ?b]) = take ptr frame @ [?b]"
      using True 1 by (simp add: take_Suc_conv_app_nth)
    moreover have "take (frame_len - ptr) (drop data_ptr data)
        = ?b # take (frame_len - (ptr + 1)) (drop (data_ptr + 1) data)"
      using True lt by (metis Cons_nth_drop_Suc Suc_diff_Suc Suc_eq_plus1 take_Suc_Cons)
    moreover have "drop frame_len (frame[ptr := ?b]) = drop frame_len frame"
      using True by simp
    ultimately show ?thesis
      using True lt by (simp add: copy_loop.simps [of frame data frame_len ptr])
  next
    case False
    with 1 have "ptr = frame_len" by simp
    with 1 show ?thesis by (simp add: copy_loop.simps [of frame data frame_len frame_len])
  qed
qed

lemma pad_loop_eq:
  "ptr \<le> 8 \<Longrightarrow> length frame = 8 \<Longrightarrow> pad_loop frame ptr = take ptr frame @ replicate (8 - ptr) 0xFF"
proof (induction frame ptr rule: pad_loop.induct)
  case (1 frame ptr)
  show ?case
  proof (cases "ptr < 8")
    case True
    have "pad_loop (frame[ptr := 0xFF]) (ptr + 1)
        = take (ptr + 1) (frame[ptr := 0xFF]) @ replicate (8 - (ptr + 1)) 0xFF"
      using 1 True by simp
    also have "\<dots> = take ptr frame @ replicate (8 - ptr) 0xFF"
      using True 1 by (simp add: take_Suc_conv_app_nth Suc_diff_Suc flip: replicate_Suc)
    finally show ?thesis using True by (simp add: pad_loop.simps [of frame ptr])
  next
    case False
    with 1 have "ptr = 8" by simp
    with 1 show ?thesis by (simp add: pad_loop.simps [of frame 8])
  qed
qed

text \<open>What a continuation frame and the first frame carry.\<close>

definition cont_payload :: "bytes \<Rightarrow> nat \<Rightarrow> bytes" where
  "cont_payload data c =
     (let d = take 7 (drop (6 + 7 * (c - 1)) data) in d @ replicate (7 - length d) 0xFF)"

definition cont_frame :: "bytes \<Rightarrow> nat \<Rightarrow> bytes" where
  "cont_frame data c = of_nat (32 OR c) # cont_payload data c"

definition first_payload :: "bytes \<Rightarrow> bytes" where
  "first_payload data = take (min 6 (length data - 1)) data @ replicate (6 - (length data - 1)) 0xFF"

definition first_frame :: "bytes \<Rightarrow> bytes" where
  "first_frame data = 32 # of_nat (length data) # first_payload data"

lemma length_cont_payload [simp]: "length (cont_payload data c) = 7"
  by (simp add: cont_payload_def Let_def)

lemma length_first_payload [simp]: "length (first_payload data) = 6"
  by (simp add: first_payload_def)

lemma header_bytes: "list_all (\<lambda>c. 32 OR c < 256 \<and> frame_counter (of_nat (32 OR c)) = c
    \<and> frame_seq (of_nat (32 OR c)) = 1) [0..<32]"
  by code_simp

lemma header_byte:
  assumes "c < 32"
  shows "32 OR c < 256" "frame_counter (of_nat (32 OR c)) = c" "frame_seq (of_nat (32 OR c)) = 1"
  using header_bytes assms by (auto simp: list_all_iff)

lemma frame_counter_32 [simp]: "frame_counter 32 = 0" and frame_seq_32 [simp]: "frame_seq 32 = 1"
  using header_byte [of 0] by simp_all

lemma split_frame_first:
  assumes "length data < 256"
  shows "split_frame 32 data 0 0
    = Inr (first_frame data, if length data = 0 then 0 else min 6 (length data - 1))"
proof (cases "length data < 7")
  case False
  then have "data \<noteq> []" by auto
  with assms False show ?thesis
    by (simp add: split_frame_def to_byte_def copy_loop_eq first_frame_def first_payload_def
        Let_def zeros_8)
next
  case True
  then have m: "min 8 (length data + 1) = length data + 1" by simp
  show ?thesis
  proof (cases "data = []")
    case True
    then show ?thesis
      by (simp add: split_frame_def to_byte_def first_frame_def first_payload_def Let_def
          copy_loop.simps pad_loop_eq numeral_eq_Suc)
  next
    case False
    then have "1 \<le> length data" by (cases data) auto
    with False True assms m show ?thesis
      by (simp add: split_frame_def to_byte_def copy_loop_eq pad_loop_eq first_frame_def
          first_payload_def Let_def zeros_8 take_Cons')
  qed
qed

lemma split_frame_cont:
  assumes "0 < c" "c < 32" "data_ptr \<le> length data"
  shows "split_frame 32 data c data_ptr
    = Inr (of_nat (32 OR c) # take 7 (drop data_ptr data)
             @ replicate (7 - length (take 7 (drop data_ptr data))) 0xFF,
           data_ptr + min 7 (length data - data_ptr))"
proof (cases "length data - data_ptr < 7")
  case False
  then have m: "min 8 (length data - data_ptr + 1) = 8" by simp
  with assms False show ?thesis
    by (simp add: split_frame_def to_byte_def header_byte copy_loop_eq Let_def zeros_8)
next
  case True
  then have m: "min 8 (length data - data_ptr + 1) = length data - data_ptr + 1" by simp
  with assms True show ?thesis
    by (simp add: split_frame_def to_byte_def header_byte copy_loop_eq pad_loop_eq Let_def zeros_8)
qed

lemma split_loop_cont:
  assumes "0 < c" "6 \<le> length data" "length data \<le> 223" "c \<le> length data div 7 + 1"
  shows "split_loop 32 data c (min (length data) (6 + 7 * (c - 1)))
    = (map (cont_frame data) [c..<length data div 7 + 1], None)"
  using assms
proof (induction "length data div 7 + 1 - c" arbitrary: c)
  case 0
  have "length data < 7 * (length data div 7 + 1)" by presburger
  with 0 have "length data < 7 * c" by simp
  then have "int (length data) < 7 * int c" by (simp flip: of_nat_mult of_nat_less_iff)
  then have "\<not> 7 * (int c - 1) < int (length data) - 6" by (simp add: algebra_simps)
  then have "split_loop 32 data c ptr = ([], None)" for ptr
    by (subst split_loop.simps) (rule if_not_P)
  with 0 show ?case by simp
next
  case (Suc n)
  then have le: "c \<le> length data div 7" by simp
  then have c7: "7 * c \<le> length data" by presburger
  then have "7 * int c \<le> int (length data)" by (simp flip: of_nat_mult of_nat_le_iff)
  then have guard: "7 * (int c - 1) < int (length data) - 6" by (simp add: algebra_simps)
  have c32: "c < 32" using le Suc.prems by linarith
  have ptr_le: "6 + 7 * (c - 1) \<le> length data" using c7 Suc.prems(1) by (cases c) auto
  then have ptr: "min (length data) (6 + 7 * (c - 1)) = 6 + 7 * (c - 1)" by simp
  have next_ptr: "6 + 7 * (c - 1) + min 7 (length data - (6 + 7 * (c - 1)))
      = min (length data) (6 + 7 * (c + 1 - 1))"
    using ptr_le Suc.prems(1) by (auto simp: min_def)
  have IH: "split_loop 32 data (c + 1) (min (length data) (6 + 7 * (c + 1 - 1)))
      = (map (cont_frame data) [c + 1..<length data div 7 + 1], None)"
    using Suc le by (intro Suc.hyps(1)) auto
  have frame: "split_frame 32 data c (6 + 7 * (c - 1))
      = Inr (cont_frame data c, min (length data) (6 + 7 * (c + 1 - 1)))"
    unfolding split_frame_cont [OF Suc.prems(1) c32 ptr_le] next_ptr
    by (simp only: cont_frame_def cont_payload_def Let_def)
  have "split_loop 32 data c (6 + 7 * (c - 1))
      = gen_cons (cont_frame data c)
          (split_loop 32 data (c + 1) (min (length data) (6 + 7 * (c + 1 - 1))))"
    by (subst split_loop.simps, subst if_P [OF guard], subst frame) simp
  also have "\<dots> = (map (cont_frame data) [c..<length data div 7 + 1], None)"
    using le unfolding IH by (simp add: gen_cons_def upt_conv_Cons del: upt_Suc)
  finally show ?case unfolding ptr .
qed

lemma split_loop_eq:
  assumes "7 \<le> length data" "length data \<le> 223"
  shows "split_loop 32 data 0 0
    = (first_frame data # map (cont_frame data) [1..<length data div 7 + 1], None)"
proof -
  have "split_loop 32 data 1 6 = (map (cont_frame data) [1..<length data div 7 + 1], None)"
    using split_loop_cont [of 1 data] assms by simp
  moreover have "split_frame 32 data 0 0 = Inr (first_frame data, 6)"
    using assms split_frame_first [of data] by auto
  moreover have "7 * (int 0 - 1) < int (length data) - 6" using assms by simp
  ultimately show ?thesis
    by (subst split_loop.simps) (simp add: gen_cons_def)
qed

section \<open>Lemmas on reassembly\<close>

lemma nb_frames_of_eq: "nb_frames_of n = (if n < 6 then 2 else n div 7 + 1)"
proof (cases "n < 6")
  case True
  then have "n \<in> {0, 1, 2, 3, 4, 5}" by auto
  then show ?thesis by (auto simp: nb_frames_of_def trunc_quot_def)
next
  case False
  then obtain m where n: "n = m + 6" by (metis add.commute le_Suc_ex not_less)
  have q: "trunc_quot (int m) 7 = int (m div 7)"
    by (simp add: trunc_quot_def sgn_if zdiv_int)
  have r: "int m mod 7 = int (m mod 7)" by (simp add: zmod_int)
  have "(if m mod 7 \<noteq> 0 then m div 7 + 1 else m div 7) = (m + 6) div 7" by presburger
  then show ?thesis
    unfolding n by (auto simp: nb_frames_of_def Let_def q r nat_add_distrib)
qed

lemma total_loop_frames:
  assumes "\<forall>j<length xs. dict_get frames (i + j) = Some (xs ! j)"
    and "take start res = acc" "length acc = start" "xs \<noteq> []"
    and "start + length (concat (butlast xs)) < bl" "bl \<le> start + length (concat xs)"
  shows "total_loop frames bl [i..<i + length xs] start res = Inr (take (bl + 1) (acc @ concat xs))"
  using assms
proof (induction xs arbitrary: i start res acc)
  case Nil
  then show ?case by simp
next
  case (Cons x xs)
  have x: "dict_get frames i = Some x" using Cons.prems(1) by auto
  show ?case
  proof (cases xs)
    case Nil
    with Cons.prems have "0 \<le> int bl - int start + 1" "nat (int bl - int start + 1) = bl + 1 - start"
      by simp_all
    with Nil Cons.prems x show ?thesis
      by (auto simp: py_assign_from_def py_slice_to_nonneg Let_def)
  next
    case (Cons y ys)
    with Cons.prems have small: "\<not> bl \<le> start + length x" by simp
    have "total_loop frames bl [Suc i..<Suc i + length xs] (start + length x)
        (py_assign_from res start x) = Inr (take (bl + 1) ((acc @ x) @ concat xs))"
    proof (rule Cons.IH)
      show "\<forall>j<length xs. dict_get frames (Suc i + j) = Some (xs ! j)"
        using Cons.prems(1) by auto
      show "take (start + length x) (py_assign_from res start x) = acc @ x"
        using Cons.prems(2,3) by (auto simp: py_assign_from_def)
    qed (use Cons.prems Cons in auto)
    with x small show ?thesis
      by (simp add: upt_conv_Cons Let_def del: upt_Suc)
  qed
qed

definition fast_pad :: "bytes \<Rightarrow> bytes" where
  "fast_pad data = (if length data mod 7 = 6 then [] else [0xFF])"

lemma concat_cont_payload:
  assumes "1 \<le> c" "c \<le> length data div 7 + 1" "6 \<le> length data"
  shows "concat (map (cont_payload data) [c..<length data div 7 + 1])
    = drop (6 + 7 * (c - 1)) data
        @ replicate (6 + 7 * (length data div 7) - max (length data) (6 + 7 * (c - 1))) 0xFF"
  using assms
proof (induction "length data div 7 + 1 - c" arbitrary: c)
  case 0
  have "length data \<le> 6 + 7 * (length data div 7)" by presburger
  with 0 show ?case by (auto simp: max_def)
next
  case (Suc n)
  then have le: "c \<le> length data div 7" by simp
  then have c7: "7 * c \<le> length data" by presburger
  let ?d = "6 + 7 * (c - 1)"
  have dle: "?d \<le> length data" and next_d: "6 + 7 * (c + 1 - 1) = ?d + 7"
    using c7 Suc.prems(1) by (cases c; simp)+
  have IH: "concat (map (cont_payload data) [c + 1..<length data div 7 + 1])
    = drop (?d + 7) data @ replicate (6 + 7 * (length data div 7) - max (length data) (?d + 7)) 0xFF"
    using Suc.hyps(1) [of "c + 1"] Suc.hyps(2) Suc.prems le unfolding next_d by simp
  have here: "concat (map (cont_payload data) [c..<length data div 7 + 1])
      = cont_payload data c @ concat (map (cont_payload data) [c + 1..<length data div 7 + 1])"
    using le by (simp add: upt_conv_Cons del: upt_Suc)
  show ?case
  proof (cases "?d + 7 \<le> length data")
    case True
    then have "cont_payload data c = take 7 (drop ?d data)"
      by (simp add: cont_payload_def Let_def)
    moreover have "take 7 (drop ?d data) @ drop (?d + 7) data = drop ?d data"
      by (metis append_take_drop_id drop_drop add.commute)
    ultimately show ?thesis
      unfolding here IH using True dle by (simp add: max_def)
  next
    case False
    have last: "c = length data div 7"
    proof -
      have "length data < 7 * c + 6" using False Suc.prems(1) by (cases c) auto
      with c7 have "length data div 7 = c" by (intro div_nat_eqI) auto
      then show ?thesis ..
    qed
    have total: "6 + 7 * (length data div 7) = ?d + 7"
      using last Suc.prems(1) by (cases c) auto
    have "cont_payload data c = drop ?d data @ replicate (?d + 7 - length data) 0xFF"
      using False dle by (simp add: cont_payload_def Let_def)
    then show ?thesis
      unfolding here IH total using False dle by (simp add: max_absorb1 max_absorb2)
  qed
qed

lemma concat_payloads:
  assumes "7 \<le> length data"
  shows "take (length data + 1)
      (concat (take 6 data # map (cont_payload data) [1..<length data div 7 + 1]))
    = data @ fast_pad data"
proof -
  let ?m = "6 + 7 * (length data div 7) - length data"
  have c: "concat (take 6 data # map (cont_payload data) [1..<length data div 7 + 1])
      = data @ replicate ?m 0xFF"
    using concat_cont_payload [of 1 data] assms by (simp add: max_def)
  have "(?m = 0) = (length data mod 7 = 6)" by presburger
  then have "take 1 (replicate ?m 0xFF) = fast_pad data"
    unfolding fast_pad_def by (cases ?m) auto
  then show ?thesis unfolding c by simp
qed

section \<open>The handler as a keyed reassembler\<close>

type_synonym fp_event = "real \<times> nat \<times> nat \<times> bytes"

fun fp_feed :: "fp_handler \<Rightarrow> fp_event \<Rightarrow> fp_handler \<times> bytes option result" where
  "fp_feed h (now, pgn, addr, frame) = process_frame now h pgn addr frame"

fun fp_event_key :: "fp_event \<Rightarrow> nat" where
  "fp_event_key (now, pgn, addr, frame) = compute_key pgn addr (frame_seq (frame ! 0))"

abbreviation fp_slot :: "fp_handler \<Rightarrow> nat \<Rightarrow> fast_packet option" where
  "fp_slot h k \<equiv> dict_get (sequences h) k"

lemma process_frame_nil [simp]: "process_frame now h pgn addr [] = (h, Inl IndexError)"
  by (simp add: process_frame_def py_get_def py_pos_def)

lemma py_get_0_Cons [simp]: "py_get (x # xs) 0 = Inr x"
  by (simp add: py_get_def py_pos_def)

lemma py_get_1_Cons2 [simp]: "py_get (x # y # xs) 1 = Inr y"
  by (simp add: py_get_def py_pos_def)

text \<open>
  The effect of one frame on its own transaction: what the table holds for its key afterwards
  (\<open>None\<close>: no entry) and the result, as a function of what it held before.
\<close>

definition frame_effect ::
    "real \<Rightarrow> nat \<Rightarrow> nat \<Rightarrow> byte \<Rightarrow> bytes \<Rightarrow> fast_packet option \<Rightarrow> fast_packet option \<times> bytes option result"
  where
  "frame_effect now pgn addr b0 frame found =
     (if found = None \<and> frame_counter b0 \<noteq> 0 then (None, Inl FastPacketException)
      else let handle = (case found of None \<Rightarrow> new_fast_packet now pgn addr (frame_seq b0) | Some p \<Rightarrow> p)
        in case (if frame_counter b0 = 0 then first_packet handle frame else add_packet handle frame) of
             Inl e \<Rightarrow> (if frame_counter b0 \<noteq> 0 \<and> e = FastPacketException then None else Some handle, Inl e)
           | Inr p \<Rightarrow> if check_complete p then (None, map_sum id Some (total_frame p))
                      else (Some p, Inr None))"

lemma process_frame_effect:
  shows "snd (process_frame now h pgn addr (b0 # rest))
           = snd (frame_effect now pgn addr b0 (b0 # rest)
                    (fp_slot h (compute_key pgn addr (frame_seq b0))))" (is ?r)
    and "fp_slot (fst (process_frame now h pgn addr (b0 # rest))) k'
           = (if k' = compute_key pgn addr (frame_seq b0)
              then fst (frame_effect now pgn addr b0 (b0 # rest)
                          (fp_slot h (compute_key pgn addr (frame_seq b0))))
              else fp_slot h k')" (is ?s)
    and "distinct (dict_keys (sequences h)) \<Longrightarrow>
           distinct (dict_keys (sequences (fst (process_frame now h pgn addr (b0 # rest)))))"
      (is "_ \<Longrightarrow> ?d")
proof -
  let ?k = "compute_key pgn addr (frame_seq b0)"
  show ?r
    by (cases "fp_slot h ?k"; cases "frame_counter b0 = 0")
       (simp_all add: process_frame_def frame_effect_def Let_def split: sum.split)
  show ?s
    by (cases "fp_slot h ?k"; cases "frame_counter b0 = 0")
       (simp_all add: process_frame_def frame_effect_def Let_def py_dicts split: sum.split)
  show ?d if "distinct (dict_keys (sequences h))"
    using that
    by (cases "fp_slot h ?k"; cases "frame_counter b0 = 0")
       (simp_all add: process_frame_def Let_def distinct_update distinct_delete split: sum.split)
qed

lemma process_frame_other:
  "k \<noteq> compute_key pgn addr (frame_seq (frame ! 0)) \<Longrightarrow>
     fp_slot (fst (process_frame now h pgn addr frame)) k = fp_slot h k"
  by (cases frame) (simp_all add: process_frame_effect)

lemma process_frame_local:
  assumes "fp_slot h k = fp_slot h' k" "k = compute_key pgn addr (frame_seq (frame ! 0))"
  shows "snd (process_frame now h pgn addr frame) = snd (process_frame now h' pgn addr frame)"
    and "fp_slot (fst (process_frame now h pgn addr frame)) k
           = fp_slot (fst (process_frame now h' pgn addr frame)) k"
  using assms by (cases frame; simp add: process_frame_effect)+

interpretation fp: keyed_reassembly fp_feed fp_event_key "\<lambda>h. dict_get (sequences h)"
proof unfold_locales
  fix h h' :: fp_handler and e :: fp_event and k :: nat
  obtain now pgn addr frame where e: "e = (now, pgn, addr, frame)" by (cases e)
  show "fp_event_key e \<noteq> k \<Longrightarrow> fp_slot (fst (fp_feed h e)) k = fp_slot h k"
    unfolding e by (simp add: process_frame_other)
  show "fp_slot h (fp_event_key e) = fp_slot h' (fp_event_key e) \<Longrightarrow>
      snd (fp_feed h e) = snd (fp_feed h' e) \<and>
      fp_slot (fst (fp_feed h e)) (fp_event_key e) = fp_slot (fst (fp_feed h' e)) (fp_event_key e)"
    unfolding e fp_feed.simps fp_event_key.simps by (blast intro: process_frame_local)
qed

section \<open>Invariant of the table\<close>

text \<open>
  No key occurs twice, a transaction is stored under its own key, and what is stored is incomplete:
  a finished transaction has been taken out.
\<close>

definition fp_ok :: "fp_handler \<Rightarrow> bool" where
  "fp_ok h \<longleftrightarrow> distinct (dict_keys (sequences h)) \<and>
     (\<forall>k p. fp_slot h k = Some p \<longrightarrow> fp_key p = k \<and> \<not> check_complete p)"

lemma fp_ok_new: "fp_ok new_fp_handler"
  by (simp add: fp_ok_def new_fp_handler_def)

lemma first_packet_key: "first_packet p frame = Inr p' \<Longrightarrow> fp_key p' = fp_key p"
  by (auto simp: first_packet_def bind_r_Inr_iff)

lemma add_packet_key: "add_packet p frame = Inr p' \<Longrightarrow> fp_key p' = fp_key p"
  by (auto simp: add_packet_def bind_r_Inr_iff Let_def split: option.splits)

lemma new_incomplete [simp]: "\<not> check_complete (new_fast_packet now pgn addr seq)"
  by (simp add: check_complete_def new_fast_packet_def)

lemma key_new [simp]: "fp_key (new_fast_packet now pgn addr seq) = compute_key pgn addr seq"
  by (simp add: new_fast_packet_def)

lemma frame_effect_ok:
  assumes "fst (frame_effect now pgn addr b0 frame found) = Some p"
    and "\<And>q. found = Some q \<Longrightarrow> fp_key q = compute_key pgn addr (frame_seq b0) \<and> \<not> check_complete q"
  shows "fp_key p = compute_key pgn addr (frame_seq b0) \<and> \<not> check_complete p"
  using assms
  by (auto simp: frame_effect_def Let_def split: if_splits sum.splits option.splits
      dest!: first_packet_key add_packet_key)

lemma process_frame_ok:
  assumes "fp_ok h"
  shows "fp_ok (fst (process_frame now h pgn addr frame))"
proof (cases frame)
  case Nil
  with assms show ?thesis by simp
next
  case (Cons b0 rest)
  have "\<And>q. fp_slot h (compute_key pgn addr (frame_seq b0)) = Some q \<Longrightarrow>
      fp_key q = compute_key pgn addr (frame_seq b0) \<and> \<not> check_complete q"
    using assms by (simp add: fp_ok_def)
  with assms show ?thesis
    unfolding Cons fp_ok_def
    by (simp add: process_frame_effect) (metis frame_effect_ok)
qed

lemma run_events_fp_ok: "fp_ok h \<Longrightarrow> fp_ok (fst (run_events fp_feed h es))"
proof (induction es arbitrary: h)
  case (Cons e es)
  obtain now pgn addr frame where "e = (now, pgn, addr, frame)" by (cases e)
  with Cons show ?case
    by (simp add: run_events_Cons process_frame_ok del: run_events.simps(2))
qed simp

lemma collect_garbage_slot:
  assumes "fp_ok h"
  shows "fp_slot (collect_garbage now h) k
    = (case fp_slot h k of Some p \<Rightarrow> if check_validity now p then Some p else None | None \<Rightarrow> None)"
proof -
  let ?rem = "map (fp_key \<circ> snd) (filter (\<lambda>(k, s). \<not> check_validity now s) (sequences h))"
  have d: "distinct (map fst (sequences h))" using assms by (simp add: fp_ok_def)
  have "k \<in> set ?rem \<longleftrightarrow> (\<exists>p. fp_slot h k = Some p \<and> \<not> check_validity now p)"
  proof
    assume "k \<in> set ?rem"
    then obtain k' p where "(k', p) \<in> set (sequences h)" "\<not> check_validity now p" "fp_key p = k"
      by auto
    moreover from this d have "fp_slot h k' = Some p" by simp
    ultimately show "\<exists>p. fp_slot h k = Some p \<and> \<not> check_validity now p"
      using assms by (auto simp: fp_ok_def)
  next
    assume "\<exists>p. fp_slot h k = Some p \<and> \<not> check_validity now p"
    then obtain p where p: "fp_slot h k = Some p" "\<not> check_validity now p" by blast
    then have "(k, p) \<in> set (sequences h)" by (simp add: map_of_SomeD)
    moreover have "fp_key p = k" using assms p by (auto simp: fp_ok_def)
    ultimately show "k \<in> set ?rem" using p by force
  qed
  then show ?thesis
    by (auto simp: collect_garbage_def Let_def al.get_dels split: option.splits)
qed

section \<open>Feeding the frames of a split payload\<close>

text \<open>The state of a reassembly that has received frame 0 and the continuation frames in \<open>got\<close>.\<close>

definition fp_progress :: "bytes \<Rightarrow> nat set \<Rightarrow> fast_packet \<Rightarrow> bool" where
  "fp_progress data got p \<longleftrightarrow>
     fp_byte_length p = length data \<and> fp_nbframes p = length data div 7 + 1 \<and>
     fp_length p = 6 + 7 * card got \<and> fp_count p = 1 + card got \<and>
     (\<forall>i. dict_get (fp_frames p) i
        = (if i = 0 then Some (take 6 data)
           else if i \<in> got then Some (cont_payload data i) else None))"

lemma progress_complete:
  assumes "fp_progress data got p" "7 \<le> length data" "got \<subseteq> {1..<length data div 7 + 1}"
  shows "check_complete p \<longleftrightarrow> got = {1..<length data div 7 + 1}"
proof -
  have fin: "finite got" using assms(3) finite_subset by blast
  show ?thesis
  proof (cases "got = {1..<length data div 7 + 1}")
    case True
    then have "card got = length data div 7" by simp
    with assms True show ?thesis by (simp add: check_complete_def fp_progress_def)
  next
    case False
    with assms(3) have "card got < card {1..<length data div 7 + 1}"
      by (intro psubset_card_mono) auto
    then have lt: "card got < length data div 7" by simp
    then have "7 * card got + 7 \<le> 7 * (length data div 7)" by linarith
    also have "\<dots> \<le> length data" by simp
    finally have "6 + 7 * card got < length data" by simp
    with False lt assms show ?thesis by (simp add: check_complete_def fp_progress_def)
  qed
qed

lemma progress_total_frame:
  assumes "fp_progress data {1..<length data div 7 + 1} p" "7 \<le> length data"
  shows "total_frame p = Inr (data @ fast_pad data)"
proof -
  let ?N = "length data div 7 + 1"
  let ?xs = "take 6 data # map (cont_payload data) [1..<?N]"
  have len: "length ?xs = ?N" by simp
  have cat: "length (concat (map (cont_payload data) ys)) = 7 * length ys" for ys
    by (induction ys) auto
  have pos: "1 \<le> length data div 7" using assms(2) by (simp add: Suc_le_eq div_greater_zero_iff)
  have butl: "butlast ?xs = take 6 data # map (cont_payload data) [1..<length data div 7]"
    using pos by (simp add: map_butlast[symmetric] del: upt_Suc) (simp add: upt_Suc_append)
  have "total_loop (fp_frames p) (length data) [0..<0 + length ?xs] 0 (replicate (length data) 0)
      = Inr (take (length data + 1) ([] @ concat ?xs))"
  proof (rule total_loop_frames)
    show "\<forall>j<length ?xs. dict_get (fp_frames p) (0 + j) = Some (?xs ! j)"
      using assms(1) by (auto simp: fp_progress_def nth_Cons' simp del: upt_Suc)
    have "7 * (length data div 7) \<le> length data" by simp
    then have "6 + 7 * (length data div 7 - 1) < length data" using pos by linarith
    then show "0 + length (concat (butlast ?xs)) < length data"
      unfolding butl using assms(2) by (simp add: cat)
    have "length data < 7 * (length data div 7) + 7" by presburger
    then show "length data \<le> 0 + length (concat ?xs)"
      using assms(2) by (simp add: cat del: upt_Suc)
  qed simp_all
  then have "total_loop (fp_frames p) (length data) [0..<?N] 0 (replicate (length data) 0)
      = Inr (data @ fast_pad data)"
    using concat_payloads [OF assms(2)] unfolding len by (simp only: append_Nil add_0)
  with assms(1) show ?thesis by (simp only: total_frame_def fp_progress_def)
qed

lemma first_frame_effect:
  assumes "7 \<le> length data" "length data \<le> 223"
  shows "\<exists>p. frame_effect now pgn addr 32 (first_frame data) None = (Some p, Inr None)
    \<and> fp_progress data {} p"
proof -
  let ?p = "(new_fast_packet now pgn addr 1)
    \<lparr>fp_byte_length := length data, fp_nbframes := length data div 7 + 1, fp_length := 6,
     fp_frames := [(0, take 6 data)], fp_count := 1\<rparr>"
  have "first_packet (new_fast_packet now pgn addr 1) (first_frame data) = Inr ?p"
    using assms
    by (simp add: first_packet_def first_frame_def first_payload_def nb_frames_of_eq new_fast_packet_def)
  moreover have prog: "fp_progress data {} ?p" by (simp add: fp_progress_def)
  moreover have "\<not> check_complete ?p"
    using progress_complete [OF prog assms(1)] assms(1)
    by (auto simp: div_eq_0_iff)
  ultimately show ?thesis by (simp add: frame_effect_def)
qed

lemma cont_frame_effect:
  assumes "fp_progress data got p" "7 \<le> length data" "length data \<le> 223"
    and "got \<subseteq> {1..<length data div 7 + 1}" "c \<in> {1..<length data div 7 + 1}" "c \<notin> got"
  shows "if insert c got = {1..<length data div 7 + 1}
    then frame_effect now pgn addr (of_nat (32 OR c)) (cont_frame data c) (Some p)
           = (None, Inr (Some (data @ fast_pad data)))
    else \<exists>q. frame_effect now pgn addr (of_nat (32 OR c)) (cont_frame data c) (Some p)
           = (Some q, Inr None) \<and> fp_progress data (insert c got) q"
proof -
  let ?q = "p\<lparr>fp_frames := dict_set c (cont_payload data c) (fp_frames p),
              fp_count := fp_count p + 1, fp_length := fp_length p + 7\<rparr>"
  have c: "c < 32" "0 < c" using assms(3,5) by auto
  have fin: "finite got" using assms(4) finite_subset by blast
  have add: "add_packet p (cont_frame data c) = Inr ?q"
    using assms(1,6) c
    by (simp add: add_packet_def cont_frame_def header_byte fp_progress_def)
  have prog: "fp_progress data (insert c got) ?q"
    using assms(1,6) c fin by (auto simp: fp_progress_def py_dicts)
  have "check_complete ?q \<longleftrightarrow> insert c got = {1..<length data div 7 + 1}"
    using assms(4,5) by (intro progress_complete [OF prog assms(2)]) auto
  then show ?thesis
    using add c prog progress_total_frame [OF _ assms(2), of ?q]
    by (auto simp: frame_effect_def header_byte)
qed

lemma cont_frames_run:
  assumes "fp_slot h k = Some p" "k = compute_key pgn addr 1"
    and "fp_progress data got p" "7 \<le> length data" "length data \<le> 223"
    and "got \<union> set cs = {1..<length data div 7 + 1}" "distinct cs" "got \<inter> set cs = {}" "cs \<noteq> []"
  shows "map snd (snd (run_events fp_feed h (map (\<lambda>c. (now, pgn, addr, cont_frame data c)) cs)))
      = replicate (length cs - 1) (Inr None) @ [Inr (Some (data @ fast_pad data))]
    \<and> fp_slot (fst (run_events fp_feed h (map (\<lambda>c. (now, pgn, addr, cont_frame data c)) cs))) k = None"
  using assms
proof (induction cs arbitrary: h p got)
  case Nil
  then show ?case by simp
next
  case (Cons c cs)
  have c: "c \<in> {1..<length data div 7 + 1}" "c \<notin> got" "got \<subseteq> {1..<length data div 7 + 1}"
    using Cons.prems by auto
  then have c32: "c < 32" using Cons.prems(5) by auto
  note eff = cont_frame_effect [OF Cons.prems(3-5) c(3,1,2), of now pgn addr]
  have slot: "fp_slot (fst (process_frame now h pgn addr (cont_frame data c))) k
      = fst (frame_effect now pgn addr (of_nat (32 OR c)) (cont_frame data c) (Some p))"
    and res: "snd (process_frame now h pgn addr (cont_frame data c))
      = snd (frame_effect now pgn addr (of_nat (32 OR c)) (cont_frame data c) (Some p))"
    using Cons.prems(1,2) c32 by (simp_all add: cont_frame_def process_frame_effect header_byte)
  show ?case
  proof (cases cs)
    case Nil
    then have "insert c got = {1..<length data div 7 + 1}" using Cons.prems by auto
    with eff Nil slot res show ?thesis by (simp add: run_events_Cons del: run_events.simps(2))
  next
    case (Cons c' cs')
    then have "insert c got \<noteq> {1..<length data div 7 + 1}" using Cons.prems by auto
    with eff obtain q
      where q: "frame_effect now pgn addr (of_nat (32 OR c)) (cont_frame data c) (Some p)
          = (Some q, Inr None)" "fp_progress data (insert c got) q"
      by auto
    let ?h1 = "fst (process_frame now h pgn addr (cont_frame data c))"
    have "map snd (snd (run_events fp_feed ?h1 (map (\<lambda>c. (now, pgn, addr, cont_frame data c)) cs)))
        = replicate (length cs - 1) (Inr None) @ [Inr (Some (data @ fast_pad data))]
      \<and> fp_slot (fst (run_events fp_feed ?h1 (map (\<lambda>c. (now, pgn, addr, cont_frame data c)) cs))) k
        = None"
      using Cons.prems Cons slot q
      by (intro Cons.IH [of ?h1 q "insert c got"]) auto
    with Cons slot res q show ?thesis
      by (simp add: run_events_Cons del: run_events.simps(2))
  qed
qed

lemma fast_packet_delivery:
  assumes "7 \<le> length data" "length data \<le> 223"
    and "split_message hs pgn data None = (hs', frames, None)"
    and "mset conts = mset (tl frames)"
    and "fp_slot h (compute_key pgn addr 1) = None"
    and "run_events fp_feed h (map (\<lambda>f. (now, pgn, addr, f)) (hd frames # conts)) = (h', out)"
  shows "map snd out = replicate (length frames - 1) (Inr None) @ [Inr (Some (data @ fast_pad data))]
    \<and> fp_slot h' (compute_key pgn addr 1) = None"
proof -
  let ?N = "length data div 7 + 1"
  let ?k = "compute_key pgn addr 1"
  have frames: "frames = first_frame data # map (cont_frame data) [1..<?N]"
    using assms(3) split_loop_eq [OF assms(1,2)]
    by (auto simp: split_message_def allocate_seq_def Let_def split: prod.splits sum.splits if_splits
        simp del: upt_Suc)
  then have "mset conts = image_mset (cont_frame data) (mset [1..<?N])"
    using assms(4) by (simp del: upt_Suc)
  then obtain cs where cs: "mset cs = mset [1..<?N]" "conts = map (cont_frame data) cs"
    using list_of_image_mset by metis
  then have perm: "set cs = {1..<?N}" "distinct cs" "length cs = length frames - 1"
    using frames
    by (metis atLeastLessThan_upt mset_eq_setD, metis distinct_upt mset_eq_imp_distinct_iff,
        metis length_map length_tl list.sel(3) mset_eq_length)
  have "{1..<?N} \<noteq> {}" using assms(1) by (auto simp: Suc_le_eq div_greater_zero_iff)
  with perm have "cs \<noteq> []" by auto
  obtain p where p: "frame_effect now pgn addr 32 (first_frame data) None = (Some p, Inr None)"
    "fp_progress data {} p"
    using first_frame_effect [OF assms(1,2)] by blast
  let ?h1 = "fst (process_frame now h pgn addr (first_frame data))"
  have slot1: "fp_slot ?h1 ?k = Some p" and res1: "snd (process_frame now h pgn addr (first_frame data)) = Inr None"
    using p assms(5) by (simp_all add: first_frame_def process_frame_effect)
  have run: "map snd (snd (run_events fp_feed ?h1 (map (\<lambda>c. (now, pgn, addr, cont_frame data c)) cs)))
      = replicate (length cs - 1) (Inr None) @ [Inr (Some (data @ fast_pad data))]
    \<and> fp_slot (fst (run_events fp_feed ?h1 (map (\<lambda>c. (now, pgn, addr, cont_frame data c)) cs))) ?k = None"
    by (rule cont_frames_run [OF slot1 refl p(2) assms(1,2)]) (use perm \<open>cs \<noteq> []\<close> in auto)
  obtain m where "length cs = Suc m" using \<open>cs \<noteq> []\<close> by (cases cs) auto
  with perm(3) have m: "length cs = Suc m" "length frames = Suc (Suc m)" by linarith+
  have events: "map (\<lambda>f. (now, pgn, addr, f)) (hd frames # conts)
      = (now, pgn, addr, first_frame data) # map (\<lambda>c. (now, pgn, addr, cont_frame data c)) cs"
    using frames cs(2) by simp
  have "h' = fst (run_events fp_feed h (map (\<lambda>f. (now, pgn, addr, f)) (hd frames # conts)))"
    and "out = snd (run_events fp_feed h (map (\<lambda>f. (now, pgn, addr, f)) (hd frames # conts)))"
    using assms(6) by simp_all
  with run res1 perm(3) m show ?thesis
    unfolding events by (simp add: run_events_Cons del: run_events.simps(2))
qed

section \<open>Properties\<close>

text \<open>C1. Round trip, in any order of the continuation frames: a payload of 7 to 223 bytes that
  \<^verbatim>\<open>split_message\<close> cut into frames is delivered by \<^verbatim>\<open>process_frame\<close> on the last of them and not before,
  provided frame 0 comes first and no transaction is open under the key; the key is free again
  afterwards. The delivered payload is the one sent, followed by one padding byte 0xFF whenever the
  last frame was padded (\<open>fast_pad\<close>): the slice bound in \<^verbatim>\<open>total_frame\<close> takes one byte too many.\<close>

theorem fast_packet_roundtrip:
  assumes "7 \<le> length data" "length data \<le> 223"
    and "split_message hs pgn data None = (hs', frames, None)"
    and "mset conts = mset (tl frames)"
    and "fp_slot h (compute_key pgn addr 1) = None"
    and "run_events fp_feed h (map (\<lambda>f. (now, pgn, addr, f)) (hd frames # conts)) = (h', out)"
  shows "map snd out = replicate (length frames - 1) (Inr None) @ [Inr (Some (data @ fast_pad data))]
    \<and> fp_slot h' (compute_key pgn addr 1) = None"
  by (rule fast_packet_delivery [OF assms])

theorem fast_packet_roundtrip_witness:
  "map snd (snd (run_events fp_feed new_fp_handler
      (map (\<lambda>f. (0, 129029, 3, f)) (fst (snd (split_message new_fp_handler 129029 [1, 2, 3, 4, 5, 6, 7, 8, 9] None))))))
   = [Inr None, Inr (Some [1, 2, 3, 4, 5, 6, 7, 8, 9, 0xFF])]"
proof -
  let ?data = "[1, 2, 3, 4, 5, 6, 7, 8, 9] :: bytes"
  let ?frames = "[first_frame ?data, cont_frame ?data 1]"
  have "split_loop 32 ?data 0 0 = (?frames, None)"
    by (subst split_loop_eq) (simp_all add: upt_rec)
  then have split: "split_message new_fp_handler 129029 ?data None
      = (free_seq (fst (allocate_seq new_fp_handler 129029)) 129029, ?frames, None)"
    by (simp add: split_message_def allocate_seq_def new_fp_handler_def)
  obtain h' out where run: "run_events fp_feed new_fp_handler
      (map (\<lambda>f. (0, 129029, 3, f)) (hd ?frames # tl ?frames)) = (h', out)"
    by fastforce
  have "map snd out = replicate (length ?frames - 1) (Inr None) @ [Inr (Some (?data @ fast_pad ?data))]"
    using fast_packet_roundtrip [OF _ _ split _ _ run] by (simp add: new_fp_handler_def)
  with run show ?thesis unfolding split by (simp add: fast_pad_def)
qed

text \<open>Payloads of 1 to 6 bytes do not survive the fast packet transport, although the sender uses it
  for them (the frame count announced to the receiver and the copy loop of frame 0 are off): one frame
  is sent, in which the last byte is lost; the receiver waits for a second frame and drops the message
  with an exception when the length is below 6, and delivers the truncated bytes when it is 6.\<close>

theorem fast_packet_short_payload:
  assumes "1 \<le> length data" "length data \<le> 6"
    and "split_message hs pgn data None = (hs', frames, None)"
    and "fp_slot h (compute_key pgn addr 1) = None"
  shows "length frames = 1 \<and>
    process_frame now h pgn addr (hd frames)
      = (fst (process_frame now h pgn addr (hd frames)),
         if length data = 6 then Inr (Some (take 5 data @ [0xFF])) else Inl FastPacketException) \<and>
    fp_slot (fst (process_frame now h pgn addr (hd frames))) (compute_key pgn addr 1) = None"
proof -
  have "split_loop 32 data 1 n = ([], None)" for n
    using assms(2) by (subst split_loop.simps) simp
  moreover have "split_frame 32 data 0 0 = Inr (first_frame data, length data - 1)"
    using assms(1,2) split_frame_first [of data] by auto
  ultimately have "split_loop 32 data 0 0 = ([first_frame data], None)"
    by (subst split_loop.simps) (simp add: gen_cons_def)
  then have frames: "frames = [first_frame data]"
    using assms(3)
    by (auto simp: split_message_def allocate_seq_def Let_def split: prod.splits sum.splits if_splits)
  let ?p = "(new_fast_packet now pgn addr 1)
    \<lparr>fp_byte_length := length data, fp_nbframes := nb_frames_of (length data), fp_length := 6,
     fp_frames := [(0, first_payload data)], fp_count := 1\<rparr>"
  have "first_packet (new_fast_packet now pgn addr 1) (first_frame data) = Inr ?p"
    using assms(2) by (simp add: first_packet_def first_frame_def new_fast_packet_def)
  moreover have "check_complete ?p"
    using assms(2) by (simp add: check_complete_def nb_frames_of_eq)
  moreover have "total_frame ?p
      = (if length data = 6 then Inr (take 5 data @ [0xFF]) else Inl FastPacketException)"
    using assms(1,2)
    by (auto simp: total_frame_def nb_frames_of_eq upt_rec py_assign_from_def py_slice_to_nonneg
        first_payload_def Let_def)
  ultimately have "frame_effect now pgn addr 32 (first_frame data) None
      = (None, if length data = 6 then Inr (Some (take 5 data @ [0xFF])) else Inl FastPacketException)"
    by (simp add: frame_effect_def)
  with assms(4) have "snd (process_frame now h pgn addr (first_frame data))
      = (if length data = 6 then Inr (Some (take 5 data @ [0xFF])) else Inl FastPacketException)"
    "fp_slot (fst (process_frame now h pgn addr (first_frame data))) (compute_key pgn addr 1) = None"
    by (simp_all add: first_frame_def process_frame_effect)
  then show ?thesis unfolding frames by (simp add: prod_eq_iff)
qed

theorem fast_packet_short_payload_witness:
  "snd (process_frame 0 new_fp_handler 130000 3 (first_frame [10, 20, 30, 40, 50, 60]))
     = Inr (Some [10, 20, 30, 40, 50, 0xFF])"
proof -
  let ?data = "[10, 20, 30, 40, 50, 60] :: bytes"
  have "split_loop 32 ?data 1 n = ([], None)" for n by (subst split_loop.simps) simp
  then have "split_loop 32 ?data 0 0 = ([first_frame ?data], None)"
    by (subst split_loop.simps) (simp add: split_frame_first gen_cons_def)
  then have split: "split_message new_fp_handler 130000 ?data None
      = (free_seq (fst (allocate_seq new_fp_handler 130000)) 130000, [first_frame ?data], None)"
    by (simp add: split_message_def allocate_seq_def new_fp_handler_def)
  have "process_frame 0 new_fp_handler 130000 3 (hd [first_frame ?data])
      = (fst (process_frame 0 new_fp_handler 130000 3 (hd [first_frame ?data])),
         if length ?data = 6 then Inr (Some (take 5 ?data @ [0xFF])) else Inl FastPacketException)"
    using fast_packet_short_payload [OF _ _ split, of new_fp_handler 3 0] by (simp add: new_fp_handler_def)
  from arg_cong [OF this, of snd] show ?thesis by simp
qed

text \<open>The key of a transaction determines the PGN, the source address and the sequence number.\<close>

lemma compute_key_inj:
  assumes "compute_key pgn addr seq = compute_key pgn' addr' seq'"
    and "pgn < 2 ^ 20" "pgn' < 2 ^ 20" "addr < 256" "addr' < 256"
  shows "pgn = pgn' \<and> addr = addr' \<and> seq = seq'"
proof -
  have eq: "pgn + 1048576 * (addr + 256 * seq) = pgn' + 1048576 * (addr' + 256 * seq')"
    using assms(1) by (simp add: compute_key_def push_bit_eq_mult algebra_simps)
  have low: "(p + 1048576 * x) mod 1048576 = p" if "p < 2 ^ 20" for p x :: nat
    using that by (simp only: mod_mult_self2) simp
  have p: "pgn = pgn'" using low assms(2,3) eq by metis
  with eq have eq': "addr + 256 * seq = addr' + 256 * seq'" by simp
  have low': "(a + 256 * x) mod 256 = a" if "a < 256" for a x :: nat
    using that by (simp only: mod_mult_self2) simp
  have "addr = addr'" using low' assms(4,5) eq' by metis
  with p eq' show ?thesis by simp
qed

text \<open>The stream an event belongs to: PGN, source address, sequence number of its first byte.\<close>

fun fp_stream :: "fp_event \<Rightarrow> nat \<times> nat \<times> nat" where
  "fp_stream (now, pgn, addr, frame) = (pgn, addr, frame_seq (frame ! 0))"

fun fp_event_ok :: "fp_event \<Rightarrow> bool" where
  "fp_event_ok (now, pgn, addr, frame) \<longleftrightarrow> pgn < 2 ^ 20 \<and> addr < 256"

lemma fp_event_key_stream:
  assumes "fp_event_ok e" "fp_event_ok e'"
  shows "fp_event_key e = fp_event_key e' \<longleftrightarrow> fp_stream e = fp_stream e'"
  using assms by (cases e; cases e') (auto dest: compute_key_inj)

text \<open>C2. Frames of different streams can be interleaved at will: the results of one stream in any mixed
  run of a handler are the results of that stream run alone on the same handler.\<close>

theorem fast_packet_interleaving:
  assumes "\<forall>e \<in> set es. fp_event_ok e" "fp_event_ok e0"
  shows "map snd (filter (\<lambda>(e, r). fp_stream e = fp_stream e0) (snd (run_events fp_feed h es)))
    = map snd (snd (run_events fp_feed h (filter (\<lambda>e. fp_stream e = fp_stream e0) es)))"
proof -
  have events: "map fst (snd (run_events fp_feed h es)) = es" for h
    by (induction es arbitrary: h) (simp_all add: run_events_Cons del: run_events.simps(2))
  have in_es: "e \<in> set es" if "(e, r) \<in> set (snd (run_events fp_feed h es))" for e r
    using that events [of h] by (metis fst_conv image_eqI list.set_map)
  then have same: "(case x of (e, r) \<Rightarrow> fp_stream e = fp_stream e0)
      = (case x of (e, r) \<Rightarrow> fp_event_key e = fp_event_key e0)"
    if "x \<in> set (snd (run_events fp_feed h es))" for x
  proof -
    obtain e r where x: "x = (e, r)" by (cases x)
    with that have "e \<in> set es" by (auto intro: in_es)
    with assms fp_event_key_stream [of e e0] show ?thesis unfolding x by simp
  qed
  have "filter (\<lambda>(e, r). fp_stream e = fp_stream e0) (snd (run_events fp_feed h es))
      = filter (\<lambda>(e, r). fp_event_key e = fp_event_key e0) (snd (run_events fp_feed h es))"
    by (rule filter_cong [OF refl same])
  moreover have "filter (\<lambda>e. fp_stream e = fp_stream e0) es
      = filter (\<lambda>e. fp_event_key e = fp_event_key e0) es"
    using assms fp_event_key_stream [of _ e0] by (intro filter_cong) blast+
  ultimately show ?thesis by (simp add: fp.interleaving_results)
qed

theorem fast_packet_interleaving_witness:
  "map snd (filter (\<lambda>(e, r). fp_stream e = fp_stream (0, 129029, 3, [32]))
     (snd (run_events fp_feed new_fp_handler
        [(0, 129029, 3, [32, 6, 1, 2, 3, 4, 5, 6]), (0, 129029, 4, [33, 7]), (0, 129029, 3, [33, 8])])))
   = [Inr (Some [1, 2, 3, 4, 5, 6]), Inl FastPacketException]"
proof -
  let ?es = "[(0, 129029, 3, [32, 6, 1, 2, 3, 4, 5, 6]), (0, 129029, 4, [33, 7]), (0, 129029, 3, [33, 8])]
    :: fp_event list"
  have b: "frame_seq 33 = 1" "frame_counter 33 = 1"
    using header_byte [of 1] by simp_all
  have "snd (run_events fp_feed new_fp_handler (filter (\<lambda>e. fp_stream e = fp_stream (0, 129029, 3, [32])) ?es))
      = [((0, 129029, 3, [32, 6, 1, 2, 3, 4, 5, 6]), Inr (Some [1, 2, 3, 4, 5, 6])),
         ((0, 129029, 3, [33, 8]), Inl FastPacketException)]"
    by (simp add: b process_frame_def new_fp_handler_def first_packet_def new_fast_packet_def
        check_complete_def total_frame_def nb_frames_of_eq upt_rec py_assign_from_def
        py_slice_to_nonneg Let_def)
  then show ?thesis
    by (subst fast_packet_interleaving) simp_all
qed

text \<open>C3. Starting from a new handler, after any frames received and any garbage collections, no key occurs
  twice in the table, every transaction is stored under the key computed from it, and none that is
  complete is left in it.\<close>

inductive fp_reachable :: "fp_handler \<Rightarrow> bool" where
  fp_start: "fp_reachable new_fp_handler"
| fp_frame: "fp_reachable h \<Longrightarrow> fp_reachable (fst (process_frame now h pgn addr frame))"
| fp_gc: "fp_reachable h \<Longrightarrow> fp_reachable (collect_garbage now h)"
| fp_send: "fp_reachable h \<Longrightarrow> fp_reachable (fst (split_message h pgn data drawn))"

lemma distinct_fold_delete: "distinct (map fst d) \<Longrightarrow> distinct (map fst (fold dict_del ks d))"
  by (induction ks arbitrary: d) (simp_all add: distinct_delete)

lemma collect_garbage_ok:
  assumes "fp_ok h"
  shows "fp_ok (collect_garbage now h)"
proof -
  have "distinct (dict_keys (sequences (collect_garbage now h)))"
    using assms by (simp add: collect_garbage_def Let_def fp_ok_def distinct_fold_delete)
  with assms collect_garbage_slot [OF assms] show ?thesis
    by (auto simp: fp_ok_def split: option.splits if_splits)
qed

lemma split_message_sequences [simp]:
  "sequences (fst (split_message h pgn data drawn)) = sequences h"
  by (simp add: split_message_def allocate_seq_def free_seq_def Let_def split: option.split)

theorem fast_packet_table_invariant: "fp_reachable h \<Longrightarrow> fp_ok h"
proof (induction rule: fp_reachable.induct)
  case (fp_send h pgn data drawn)
  then show ?case by (simp add: fp_ok_def)
qed (simp_all add: fp_ok_new process_frame_ok collect_garbage_ok)

theorem fast_packet_table_invariant_witness:
  "fp_ok (fst (process_frame 0 new_fp_handler 129029 3 [32, 9, 1, 2, 3, 4, 5, 6]))"
  by (rule fast_packet_table_invariant [OF fp_frame [OF fp_start]])

text \<open>The sequence number of a PGN is in use while its frames are drawn. A consumer that draws them all
  leaves it free; one that stops early (as the CAN interface does when its output queue is full) never
  returns it: every later attempt to send that PGN in fast packets raises ValueError without a frame.\<close>

theorem fast_packet_sequence_leak:
  assumes "split_message h pgn data None = (h1, frames, None)"
    and "0 < n" "n \<le> length frames"
  shows "dict_get (write_sequences h1) pgn = Some 0
    \<and> split_message (fst (split_message h pgn data (Some n))) pgn data' None
        = (fst (split_message h pgn data (Some n)), [], Some ValueError)"
  using assms
  by (auto simp: split_message_def allocate_seq_def free_seq_def Let_def py_dicts
      split: if_splits prod.splits option.splits sum.splits)

theorem fast_packet_sequence_leak_witness:
  "snd (split_message (fst (split_message new_fp_handler 129029 [1, 2, 3, 4, 5, 6, 7] (Some 1)))
          129029 [1, 2, 3, 4, 5, 6, 7] None)
     = ([], Some ValueError)"
proof -
  let ?data = "[1, 2, 3, 4, 5, 6, 7] :: bytes"
  let ?frames = "[first_frame ?data, cont_frame ?data 1]"
  have "split_loop 32 ?data 0 0 = (?frames, None)"
    by (subst split_loop_eq) (simp_all add: upt_rec)
  then have "split_message new_fp_handler 129029 ?data None
      = (free_seq (fst (allocate_seq new_fp_handler 129029)) 129029, ?frames, None)"
    by (simp add: split_message_def allocate_seq_def new_fp_handler_def)
  from fast_packet_sequence_leak [OF this, of 1 ?data] show ?thesis by simp
qed

end
