(* ===== verification/PgnDefs.thy ===== *)
theory PgnDefs
  imports Prelude
begin

text \<open>
  \<^verbatim>\<open>navigation_server/nmea2000_datamodel/nmea2k_pgn_definition.py\<close> and \<^verbatim>\<open>nmea2k_pgndefs.py\<close>: the table of
  PGN ranges, the classification of a PGN number, the header of a PGN definition (everything but its
  fields, whose type is the parameter \<open>'f\<close>, see \<^verbatim>\<open>FieldDefs\<close>) and the dictionary of definitions with
  the manufacturer variants of the proprietary ones.
\<close>

section \<open>Ranges of PGN numbers\<close>

datatype pdu = PDU1 | PDU2

datatype pgn_kind =
    CAN_J1939 | STD_SINGLE_FRAME_ADDRESSED | PROP_SINGLE_FRAME_ADDRESSED | STD_SINGLE_FRAME
  | PROP_SINGLE_FRAME | STD_FAST_PACKET_ADDRESSED | PROP_FAST_PACKET_ADDRESSED | STD_MIXED
  | PROP_FAST_PACKET

record pgn_range =
  range_start :: nat
  range_to :: nat
  range_pdu :: pdu
  range_value :: pgn_kind

definition pgn_ranges :: "pgn_range list" where
  "pgn_ranges =
    [\<lparr>range_start = 0, range_to = 0xE7FF, range_pdu = PDU1, range_value = CAN_J1939\<rparr>,
     \<lparr>range_start = 0xE800, range_to = 0xEEFF, range_pdu = PDU1,
       range_value = STD_SINGLE_FRAME_ADDRESSED\<rparr>,
     \<lparr>range_start = 0xEF00, range_to = 0xEFFF, range_pdu = PDU1,
       range_value = PROP_SINGLE_FRAME_ADDRESSED\<rparr>,
     \<lparr>range_start = 0xF000, range_to = 0xFEFF, range_pdu = PDU2, range_value = STD_SINGLE_FRAME\<rparr>,
     \<lparr>range_start = 0xFF00, range_to = 0xFFFF, range_pdu = PDU2, range_value = PROP_SINGLE_FRAME\<rparr>,
     \<lparr>range_start = 0x10000, range_to = 0x1EE00, range_pdu = PDU1,
       range_value = STD_FAST_PACKET_ADDRESSED\<rparr>,
     \<lparr>range_start = 0x1EF00, range_to = 0x1EFFF, range_pdu = PDU1,
       range_value = PROP_FAST_PACKET_ADDRESSED\<rparr>,
     \<lparr>range_start = 0x1F000, range_to = 0x1FEFF, range_pdu = PDU2, range_value = STD_MIXED\<rparr>,
     \<lparr>range_start = 0x1FF00, range_to = 0x1FFFF, range_pdu = PDU2, range_value = PROP_FAST_PACKET\<rparr>]"

definition pgn_service :: "nat list" where
  "pgn_service = [59392, 59904, 60928, 65240, 126208, 126464, 126993, 126996, 126998]"

fun first_range :: "nat \<Rightarrow> pgn_range list \<Rightarrow> pgn_range result" where
  "first_range pgn [] = Inl N2KDefinitionError"
| "first_range pgn (r # rs) = (if pgn \<le> range_to r then Inr r else first_range pgn rs)"

definition find_range :: "nat \<Rightarrow> pgn_range result" where
  "find_range pgn =
     (if pgn \<le> range_to (pgn_ranges ! 4) then first_range pgn (take 5 pgn_ranges)
      else first_range pgn (drop 5 pgn_ranges))"

definition is_pgn_proprietary :: "nat \<Rightarrow> bool result" where
  "is_pgn_proprietary pgn =
     bind_r (find_range pgn) (\<lambda>r.
       Inr (if range_value r \<in> {PROP_SINGLE_FRAME_ADDRESSED, PROP_SINGLE_FRAME,
                                PROP_FAST_PACKET_ADDRESSED, PROP_FAST_PACKET}
            then True else False))"

definition pdu_format_of :: "nat \<Rightarrow> nat" where
  "pdu_format_of pgn = drop_bit 8 pgn AND 0xFF"

definition pgn_pdu1_adjust :: "nat \<Rightarrow> nat \<times> nat" where
  "pgn_pdu1_adjust pgn =
     (if pdu_format_of pgn < 240 then (pgn AND 0x1FF00, pgn AND 0xFF) else (pgn, 0xFF))"

definition pgn_for_controller :: "nat \<Rightarrow> bool" where
  "pgn_for_controller pgn =
     (if pgn \<le> range_to (pgn_ranges ! 0) then True
      else if pgn \<in> set pgn_service then True else False)"

section \<open>PGN definitions\<close>

text \<open>The attributes of a \<^verbatim>\<open>PGNDefn\<close> element, and the header of the definition built from it.\<close>

record pgn_xml =
  xml_pgn :: nat
  xml_name :: string
  xml_scope :: "string option"
  xml_flags :: "string option"
  xml_byte_length :: "int option"

record 'f pgn_def =
  pd_id :: nat
  pd_name :: string
  pd_generate :: bool
  pd_flags :: "string list option"
  pd_pdu_type :: pdu
  pd_range :: pgn_range
  pd_proprietary :: bool
  pd_manufacturer_id :: "nat option"
  pd_byte_length :: int
  pd_variable_length :: bool
  pd_fast_packet :: bool
  pd_field_list :: "'f list"

definition mixed_fast_packet :: "nat \<Rightarrow> bool \<Rightarrow> int \<Rightarrow> bool result" where
  "mixed_fast_packet pgn variable_length byte_length =
     (if pgn \<le> range_to (pgn_ranges ! 4) then Inr False
      else bind_r (find_range pgn) (\<lambda>r.
        if range_value r \<noteq> STD_MIXED then Inr True
        else if variable_length \<or> 8 < byte_length then Inr True else Inr False))"

definition pgn_header :: "pgn_xml \<Rightarrow> 'f pgn_def result" where
  "pgn_header xml =
     (let pgn = xml_pgn xml in
      if xml_scope xml = Some ''Ignored'' then Inl N2KDefinitionError
      else
        let generate = (xml_scope xml = Some ''Generate'');
            flags = map_option (split_on CHR '','') (xml_flags xml)
        in if pdu_format_of pgn < 240 \<and> pgn AND 0xFF \<noteq> 0 then Inl N2KDefinitionError
           else
             let pdu_type = (if pdu_format_of pgn < 240 then PDU1 else PDU2);
                 (byte_length, variable_length) =
                   (case xml_byte_length xml of Some bl \<Rightarrow> (bl, bl \<le> 0) | None \<Rightarrow> (0, True))
             in bind_r (find_range pgn) (\<lambda>r.
                bind_r (is_pgn_proprietary pgn) (\<lambda>prop.
                bind_r (mixed_fast_packet pgn variable_length byte_length) (\<lambda>fp.
                  Inr \<lparr>pd_id = pgn, pd_name = xml_name xml, pd_generate = generate, pd_flags = flags,
                       pd_pdu_type = pdu_type, pd_range = r, pd_proprietary = prop,
                       pd_manufacturer_id = None, pd_byte_length = byte_length,
                       pd_variable_length = variable_length, pd_fast_packet = fp,
                       pd_field_list = []\<rparr>))))"

definition manufacturer_id :: "'f pgn_def \<Rightarrow> nat result" where
  "manufacturer_id d =
     (case pd_manufacturer_id d of Some m \<Rightarrow> Inr m | None \<Rightarrow> Inl ValueError)"

definition has_flag :: "'f pgn_def \<Rightarrow> string \<Rightarrow> bool" where
  "has_flag d flag = (case pd_flags d of None \<Rightarrow> False | Some fs \<Rightarrow> flag \<in> set fs)"

section \<open>The dictionary of definitions\<close>

record 'f prop_set =
  variants :: "(nat, 'f pgn_def) dict"
  default_variant :: "'f pgn_def option"

definition new_prop_set :: "'f prop_set" where
  "new_prop_set = \<lparr>variants = [], default_variant = None\<rparr>"

definition add_variant :: "nat \<Rightarrow> 'f pgn_def \<Rightarrow> 'f prop_set \<Rightarrow> 'f prop_set" where
  "add_variant m d s =
     s\<lparr>variants := dict_set m d (variants s),
       default_variant := (if default_variant s = None then Some d else default_variant s)\<rparr>"

definition get_variant :: "'f prop_set \<Rightarrow> nat \<Rightarrow> 'f pgn_def option result" where
  "get_variant s m =
     (if m = 0 then Inr (default_variant s)
      else case dict_get (variants s) m of
        Some d \<Rightarrow> Inr (Some d)
      | None \<Rightarrow> Inl N2KUnknownPGN)"

datatype 'f pgn_entry = PgnEntry "'f pgn_def" | PropEntry "'f prop_set"

record 'f pgn_definitions =
  pgn_defs :: "(nat, 'f pgn_entry) dict"
  pgn_count :: nat
  to_be_generated :: "'f pgn_def list"

definition new_pgn_definitions :: "'f pgn_definitions" where
  "new_pgn_definitions = \<lparr>pgn_defs = [], pgn_count = 0, to_be_generated = []\<rparr>"

text \<open>
  One turn of the loading loop: \<open>r\<close> is what \<^verbatim>\<open>PGNDef(pgnxml)\<close> returned or raised. Only
  N2KDefinitionError is caught; a proprietary number always meets a proprietary entry, since the
  classification depends on the number alone.
\<close>

definition load_pgn :: "'f pgn_def result \<Rightarrow> 'f pgn_definitions \<Rightarrow> 'f pgn_definitions result" where
  "load_pgn r ds =
     (case r of
        Inl e \<Rightarrow> (if e = N2KDefinitionError then Inr ds else Inl e)
      | Inr d \<Rightarrow>
          let ds1 = (if pd_generate d then ds\<lparr>to_be_generated := to_be_generated ds @ [d]\<rparr> else ds);
              existing = dict_get (pgn_defs ds) (pd_id d)
          in if pd_field_list d = [] then Inr ds1
             else if pd_proprietary d then
               bind_r (manufacturer_id d) (\<lambda>m.
               case existing of
                 None \<Rightarrow> Inr (ds1\<lparr>pgn_defs := dict_set (pd_id d)
                                    (PropEntry (add_variant m d new_prop_set)) (pgn_defs ds1),
                                 pgn_count := pgn_count ds1 + 1\<rparr>)
               | Some (PropEntry s) \<Rightarrow>
                   Inr (ds1\<lparr>pgn_defs := dict_set (pd_id d) (PropEntry (add_variant m d s)) (pgn_defs ds1),
                            pgn_count := pgn_count ds1 + 1\<rparr>)
               | Some (PgnEntry _) \<Rightarrow> Inl AttributeError)
             else case existing of
               None \<Rightarrow> Inr (ds1\<lparr>pgn_defs := dict_set (pd_id d) (PgnEntry d) (pgn_defs ds1),
                               pgn_count := pgn_count ds1 + 1\<rparr>)
             | Some _ \<Rightarrow> Inr ds1)"

fun load_pgns :: "'f pgn_def result list \<Rightarrow> 'f pgn_definitions \<Rightarrow> 'f pgn_definitions result" where
  "load_pgns [] ds = Inr ds"
| "load_pgns (r # rs) ds = bind_r (load_pgn r ds) (load_pgns rs)"

definition pgn_definition :: "'f pgn_definitions \<Rightarrow> nat \<Rightarrow> nat \<Rightarrow> 'f pgn_def option result" where
  "pgn_definition ds number m =
     (case dict_get (pgn_defs ds) number of
        None \<Rightarrow> Inl N2KUnknownPGN
      | Some (PropEntry s) \<Rightarrow> get_variant s m
      | Some (PgnEntry d) \<Rightarrow> Inr (Some d))"

definition is_proprietary_entry :: "'f pgn_definitions \<Rightarrow> nat \<Rightarrow> bool result" where
  "is_proprietary_entry ds number =
     (case dict_get (pgn_defs ds) number of
        None \<Rightarrow> Inl N2KUnknownPGN
      | Some (PropEntry s) \<Rightarrow> Inr True
      | Some (PgnEntry d) \<Rightarrow> Inr (pd_proprietary d))"

definition all_pgns :: "'f pgn_definitions \<Rightarrow> 'f pgn_def list" where
  "all_pgns ds =
     concat (map (\<lambda>(k, e). case e of PropEntry s \<Rightarrow> map snd (variants s) | PgnEntry d \<Rightarrow> [d])
               (pgn_defs ds))"

text \<open>A \<^verbatim>\<open>None\<close> default variant would make \<^verbatim>\<open>.fast_packet()\<close> an AttributeError.\<close>

definition fast_packet_check :: "'f pgn_definitions \<Rightarrow> nat \<Rightarrow> bool result" where
  "fast_packet_check ds pgn =
     (if pgn \<le> range_to (pgn_ranges ! 4) then Inr False
      else bind_r (find_range pgn) (\<lambda>r.
        if range_value r \<noteq> STD_MIXED then Inr True
        else bind_r (pgn_definition ds pgn 0) (\<lambda>d.
          case d of None \<Rightarrow> Inl AttributeError | Some d \<Rightarrow> Inr (pd_fast_packet d))))"

section \<open>Lemmas\<close>

lemma and_1FF00:
  assumes "(n :: nat) < 0x20000"
  shows "n AND 0x1FF00 = n - n mod 256"
proof -
  have "n AND push_bit 8 (mask 9) = push_bit 8 (take_bit 9 (drop_bit 8 n))"
    by (rule bit_eqI) (auto simp: bit_simps)
  moreover have "push_bit 8 (mask 9) = (0x1FF00 :: nat)" by (simp add: mask_eq_exp_minus_1 push_bit_eq_mult)
  moreover have "push_bit 8 (take_bit 9 (drop_bit 8 n)) = 256 * (n div 256 mod 512)"
    by (simp add: push_bit_eq_mult take_bit_eq_mod drop_bit_eq_div)
  moreover have "n div 256 mod 512 = n div 256" using assms by simp
  ultimately show ?thesis by (simp add: minus_mod_eq_mult_div)
qed

lemma pdu_format_of_eq: "pdu_format_of pgn = pgn div 256 mod 256"
  by (simp add: pdu_format_of_def drop_bit_eq_div)

lemma pgn_pdu1_adjust_eq:
  "pgn < 0x20000 \<Longrightarrow> pgn_pdu1_adjust pgn
     = (if pgn div 256 mod 256 < 240 then (pgn - pgn mod 256, pgn mod 256) else (pgn, 255))"
  by (simp add: pgn_pdu1_adjust_def pdu_format_of_eq and_1FF00)

lemma pdu1_iff: "pgn div 256 mod 256 < 240 \<longleftrightarrow> pgn mod 65536 < (61440 :: nat)"
proof -
  have "pgn mod 65536 = 256 * (pgn div 256 mod 256) + pgn mod 256"
    using mod_mult2_eq [of pgn 256 256] by simp
  moreover have "pgn mod 256 < 256" by simp
  ultimately show ?thesis by linarith
qed

lemma find_range_eq:
  "find_range pgn =
     (if pgn \<le> 0xE7FF then Inr (pgn_ranges ! 0) else if pgn \<le> 0xEEFF then Inr (pgn_ranges ! 1)
      else if pgn \<le> 0xEFFF then Inr (pgn_ranges ! 2) else if pgn \<le> 0xFEFF then Inr (pgn_ranges ! 3)
      else if pgn \<le> 0xFFFF then Inr (pgn_ranges ! 4) else if pgn \<le> 0x1EE00 then Inr (pgn_ranges ! 5)
      else if pgn \<le> 0x1EFFF then Inr (pgn_ranges ! 6) else if pgn \<le> 0x1FEFF then Inr (pgn_ranges ! 7)
      else if pgn \<le> 0x1FFFF then Inr (pgn_ranges ! 8) else Inl N2KDefinitionError)"
  by (auto simp: find_range_def pgn_ranges_def)

lemma pgn_ranges_nth:
  "range_value (pgn_ranges ! 7) = STD_MIXED" "range_value (pgn_ranges ! 5) = STD_FAST_PACKET_ADDRESSED"
  "range_value (pgn_ranges ! 6) = PROP_FAST_PACKET_ADDRESSED"
  "range_value (pgn_ranges ! 8) = PROP_FAST_PACKET" "range_to (pgn_ranges ! 4) = 0xFFFF"
  by (simp_all add: pgn_ranges_def)

text \<open>The classification needs the definitions for the mixed range only.\<close>

lemma fast_packet_check_eq:
  assumes "pgn \<le> 0x1FFFF"
  shows "fast_packet_check ds pgn =
     (if pgn \<le> 0xFFFF then Inr False
      else if 0x1F000 \<le> pgn \<and> pgn \<le> 0x1FEFF
        then bind_r (pgn_definition ds pgn 0) (\<lambda>d. case d of None \<Rightarrow> Inl AttributeError | Some d \<Rightarrow> Inr (pd_fast_packet d))
      else Inr True)"
  using assms by (auto simp: fast_packet_check_def find_range_eq pgn_ranges_nth)

lemma pgn_header_id: "pgn_header xml = Inr d \<Longrightarrow> pd_id d = xml_pgn xml \<and> pd_field_list d = []"
  by (auto simp: pgn_header_def Let_def bind_r_Inr_iff split: if_splits option.splits)

section \<open>Properties\<close>

text \<open>Every 17-bit PGN number has a range, whose PDU type agrees with the PDU format byte of the
  number, so the two ways the code tells addressed from broadcast PGNs (the table of ranges, and the
  test \<^verbatim>\<open>pf < 240\<close> in \<^verbatim>\<open>pgn_pdu1_adjust\<close>) never disagree; larger numbers are refused.\<close>

theorem pgn_range_pdu:
  "case find_range pgn of
     Inr r \<Rightarrow> pgn \<le> 0x1FFFF \<and> pgn \<le> range_to r \<and>
       pgn_pdu1_adjust pgn
         = (if range_pdu r = PDU1 then (pgn - pgn mod 256, pgn mod 256) else (pgn, 255))
   | Inl e \<Rightarrow> 0x1FFFF < pgn \<and> e = N2KDefinitionError"
proof (cases "pgn \<le> 0x1FFFF")
  case True
  then have adj: "pgn_pdu1_adjust pgn
      = (if pgn mod 65536 < 61440 then (pgn - pgn mod 256, pgn mod 256) else (pgn, 255))"
    by (simp add: pgn_pdu1_adjust_eq pdu1_iff)
  show ?thesis
  proof (cases "pgn < 0x10000")
    case True
    then show ?thesis unfolding adj by (simp add: find_range_eq pgn_ranges_def)
  next
    case False
    with True have "pgn mod 65536 = pgn - 65536" by (simp add: le_mod_geq)
    with \<open>pgn \<le> 0x1FFFF\<close> have lt: "pgn mod 65536 < 61440 \<longleftrightarrow> pgn < 0x1F000" using False by linarith
    define m where "m = pgn mod 256"
    from False \<open>pgn \<le> 0x1FFFF\<close> show ?thesis unfolding adj lt m_def [symmetric] find_range_eq
      by (simp add: pgn_ranges_def)
  qed
next
  case False
  then show ?thesis by (simp add: find_range_eq)
qed

end
