(* ===== verification/N2kMessage.thy ===== *)
theory N2kMessage
  imports PgnDefs
begin

text \<open>
  \<^verbatim>\<open>navigation_server/router_core/nmea2000_msg.py\<close>: the undecoded NMEA 2000 message (class
  \<^verbatim>\<open>NMEA2000Msg\<close>) and its protobuf form \<^verbatim>\<open>nmea2000pb\<close> (a record of the fields the code reads and
  writes), and the 29-bit CAN identifier that carries its header (\<^verbatim>\<open>build_arbitration_id\<close> and the
  reading of it in \<^verbatim>\<open>can_interface/nmea2k_can_interface.py\<close>). Timestamps are reals; \<open>now\<close> is the clock.
\<close>

section \<open>Messages\<close>

record n2k_msg =
  m_pgn :: nat
  m_prio :: nat
  m_sa :: nat
  m_da :: nat
  m_is_iso :: bool
  m_ts :: real
  m_fast_packet :: bool
  m_payload :: bytes

definition msg_fast_packet :: "nat \<Rightarrow> bytes \<Rightarrow> bool" where
  "msg_fast_packet pgn payload =
     (if pgn < 0x10000 then False
      else if 0x10000 \<ge> pgn \<and> pgn < 0x1F000 then True
      else if pgn \<ge> 0x1FF00 then True
      else if 8 < length payload then True
      else False)"

definition msg_is_iso :: "nat \<Rightarrow> bool" where
  "msg_is_iso pgn = (if pgn \<in> set pgn_service then True else False)"

definition new_n2k_msg ::
    "real \<Rightarrow> nat \<Rightarrow> nat \<Rightarrow> nat \<Rightarrow> nat \<Rightarrow> bytes option \<Rightarrow> real \<Rightarrow> n2k_msg result" where
  "new_n2k_msg now pgn prio sa da payload timestamp =
     (case payload of
        None \<Rightarrow> Inl ValueError
      | Some p \<Rightarrow>
          Inr \<lparr>m_pgn = pgn, m_prio = prio, m_sa = sa, m_da = da, m_is_iso = msg_is_iso pgn,
               m_ts = (if timestamp = 0 then now else timestamp),
               m_fast_packet = msg_fast_packet pgn p, m_payload = p\<rparr>)"

record n2k_pb =
  pb_pgn :: nat
  pb_priority :: nat
  pb_sa :: nat
  pb_da :: nat
  pb_timestamp :: real
  pb_payload :: bytes

definition n2k_from_protobuf :: "nat \<Rightarrow> n2k_pb \<Rightarrow> n2k_msg" where
  "n2k_from_protobuf pgn pb =
     \<lparr>m_pgn = pgn, m_prio = pb_priority pb, m_sa = pb_sa pb, m_da = pb_da pb,
      m_is_iso = msg_is_iso pgn, m_ts = pb_timestamp pb,
      m_fast_packet = msg_fast_packet pgn (pb_payload pb), m_payload = pb_payload pb\<rparr>"

definition n2k_as_protobuf :: "n2k_msg \<Rightarrow> n2k_pb" where
  "n2k_as_protobuf m =
     \<lparr>pb_pgn = m_pgn m, pb_priority = m_prio m, pb_sa = m_sa m, pb_da = m_da m,
      pb_timestamp = m_ts m, pb_payload = m_payload m\<rparr>"

definition get_manufacturer :: "n2k_msg \<Rightarrow> nat result" where
  "get_manufacturer m =
     (case py_slice (m_payload m) 0 2 of
        [a, b] \<Rightarrow> Inr (le_decode [a, b] AND (2 ^ 11 - 1))
      | _ \<Rightarrow> Inl StructError)"

section \<open>The CAN identifier\<close>

definition build_arbitration_id :: "n2k_msg \<Rightarrow> nat" where
  "build_arbitration_id m =
     (let can_id = m_sa m;
          pf = drop_bit 8 (m_pgn m) AND 0xFF;
          can_id = (if pf < 240 then can_id OR push_bit 8 (m_pgn m + m_da m)
                    else can_id OR push_bit 8 (m_pgn m))
      in can_id OR push_bit 26 (m_prio m AND 7))"

text \<open>The reading of it: PGN, destination, source and priority.\<close>

definition parse_arbitration_id :: "nat \<Rightarrow> nat \<times> nat \<times> nat \<times> nat" where
  "parse_arbitration_id can_id =
     (let (pgn, da) = pgn_pdu1_adjust (drop_bit 8 can_id AND 0x1FFFF);
          sa = can_id AND 0xFF;
          prio = drop_bit 26 can_id AND 0x7
      in (pgn, da, sa, prio))"

section \<open>Lemmas\<close>

lemma build_arbitration_id_eq:
  assumes "m_sa m < 256" "m_pgn m < 0x20000" "pdu_format_of (m_pgn m) < 240 \<Longrightarrow> m_pgn m + m_da m < 0x20000"
  shows "build_arbitration_id m
    = m_sa m + 256 * (m_pgn m + (if pdu_format_of (m_pgn m) < 240 then m_da m else 0))
        + 0x4000000 * (m_prio m mod 8)"
proof -
  let ?x = "m_pgn m + (if pdu_format_of (m_pgn m) < 240 then m_da m else 0)"
  have "?x < 0x20000" using assms by simp
  then have "m_sa m + 256 * ?x < 2 ^ 26" using assms(1) by simp
  then have "(m_sa m + 256 * ?x) OR push_bit 26 (m_prio m mod 8)
      = m_sa m + 256 * ?x + 0x4000000 * (m_prio m mod 8)"
    by (subst or_push_bit) simp_all
  moreover have "m_sa m OR push_bit 8 y = m_sa m + 256 * y" for y
    using assms(1) by (simp add: or_push_bit)
  ultimately show ?thesis
    by (cases "drop_bit 8 (m_pgn m) mod 256 < 240")
      (simp_all add: build_arbitration_id_def Let_def pdu_format_of_def)
qed

lemma arbitration_parts:
  assumes "(sa :: nat) < 256" "x < 0x20000" "prio < 8"
  shows "(sa + 256 * x + 0x4000000 * prio) mod 256 = sa"
    and "(sa + 256 * x + 0x4000000 * prio) div 256 mod 0x20000 = x"
    and "(sa + 256 * x + 0x4000000 * prio) div 0x4000000 mod 8 = prio"
proof -
  let ?n = "sa + 256 * x + 0x4000000 * prio"
  have "?n = sa + 256 * (x + 0x40000 * prio)" by simp
  then have "?n div 256 = x + 0x40000 * prio" "?n mod 256 = sa"
    using assms(1) by (simp_all only: mod_mult_self2 div_mult_self2) simp_all
  moreover have "(x + 0x20000 * (2 * prio)) mod 0x20000 = x"
    using assms(2) by (simp only: mod_mult_self2) simp
  ultimately show "?n mod 256 = sa" "?n div 256 mod 0x20000 = x" by (simp_all only:) simp
  have "sa + 256 * x < 0x4000000" using assms by simp
  then show "?n div 0x4000000 mod 8 = prio" using assms(3) by simp
qed

lemma pdu1_bound:
  assumes "(pgn :: nat) < 0x20000" "pgn mod 256 = 0" "da < 256"
  shows "pgn + da < 0x20000"
proof -
  have "pgn = 256 * (pgn div 256)" using assms(2) by auto
  moreover have "pgn div 256 < 512" using assms(1) by simp
  ultimately show ?thesis using assms(3) by linarith
qed

lemma parse_build_arbitration_id:
  assumes "m_sa m < 256" "m_prio m < 8" "m_pgn m < 0x20000"
    and "pdu_format_of (m_pgn m) < 240 \<Longrightarrow> m_pgn m mod 256 = 0 \<and> m_da m < 256"
  shows "parse_arbitration_id (build_arbitration_id m)
    = (m_pgn m, if pdu_format_of (m_pgn m) < 240 then m_da m else 255, m_sa m, m_prio m)"
proof -
  let ?p1 = "pdu_format_of (m_pgn m) < 240"
  let ?x = "m_pgn m + (if ?p1 then m_da m else 0)"
  have x: "?x < 0x20000" using assms pdu1_bound by auto
  with assms have id: "build_arbitration_id m = m_sa m + 256 * ?x + 0x4000000 * m_prio m"
    by (subst build_arbitration_id_eq) auto
  note parts = arbitration_parts [OF assms(1) x assms(2)]
  have adj: "pgn_pdu1_adjust ?x = (m_pgn m, if ?p1 then m_da m else 255)"
  proof (cases ?p1)
    case True
    with assms have da: "m_da m < 256" "m_pgn m mod 256 = 0" by auto
    then obtain q where q: "m_pgn m = 256 * q" by auto
    with da(1) have "(m_pgn m + m_da m) div 256 = q" "(m_pgn m + m_da m) mod 256 = m_da m"
      by simp_all
    with True x q show ?thesis by (simp add: pgn_pdu1_adjust_eq pdu_format_of_eq)
  next
    case False
    with x show ?thesis by (simp add: pgn_pdu1_adjust_eq pdu_format_of_eq)
  qed
  show ?thesis
    unfolding parse_arbitration_id_def id using parts adj by (simp add: drop_bit_eq_div)
qed

section \<open>Properties\<close>

text \<open>C4. The CAN identifier carries the header: reading what \<^verbatim>\<open>build_arbitration_id\<close> wrote gives back the
  PGN, the source, the priority and, for an addressed (PDU1) PGN, the destination; a broadcast PGN is
  read with destination 255.\<close>

theorem arbitration_id_roundtrip:
  assumes "m_sa m < 256" "m_prio m < 8" "m_pgn m < 0x20000"
    and "pdu_format_of (m_pgn m) < 240 \<Longrightarrow> m_pgn m mod 256 = 0 \<and> m_da m < 256"
  shows "parse_arbitration_id (build_arbitration_id m)
    = (m_pgn m, if pdu_format_of (m_pgn m) < 240 then m_da m else 255, m_sa m, m_prio m)"
  using parse_build_arbitration_id [OF assms(1-3)] assms(4) by blast

theorem arbitration_id_roundtrip_witness:
  "parse_arbitration_id (build_arbitration_id
     \<lparr>m_pgn = 59904, m_prio = 6, m_sa = 12, m_da = 35, m_is_iso = True, m_ts = 0,
      m_fast_packet = False, m_payload = []\<rparr>) = (59904, 35, 12, 6)"
  by (subst arbitration_id_roundtrip) (simp_all add: pdu_format_of_eq)

text \<open>The two fast packet rules of the program, the flag a message computes for itself and the
  classification the receiver uses, agree on every PGN outside the mixed range except those the
  mistyped comparison \<^verbatim>\<open>0x10000 >= pgn < 0x1F000\<close> of the flag lets through: for the addressed fast
  packet PGNs \<open>0x10001..0x1EFFF\<close> with at most 8 bytes, the sender uses a single frame while the
  receiver waits for fast packet frames.\<close>

theorem fast_packet_flag_vs_check:
  assumes "pgn \<le> 0x1FFFF" "\<not> (0x1F000 \<le> pgn \<and> pgn \<le> 0x1FEFF)"
    and "new_n2k_msg now pgn prio sa da (Some payload) ts = Inr m"
  shows "fast_packet_check ds pgn = Inr (m_fast_packet m)
    \<longleftrightarrow> \<not> (0x10000 < pgn \<and> pgn < 0x1F000 \<and> length payload \<le> 8)"
proof -
  have "m_fast_packet m = msg_fast_packet pgn payload"
    using assms(3) by (auto simp: new_n2k_msg_def)
  with assms(1,2) show ?thesis
    by (auto simp: fast_packet_check_eq msg_fast_packet_def)
qed

theorem fast_packet_flag_vs_check_witness:
  "fast_packet_check new_pgn_definitions 126208
     \<noteq> Inr (m_fast_packet (n2k_from_protobuf 126208 (n2k_as_protobuf
         \<lparr>m_pgn = 126208, m_prio = 3, m_sa = 1, m_da = 2, m_is_iso = True, m_ts = 1,
          m_fast_packet = False, m_payload = [0, 0, 0, 0, 0]\<rparr>)))"
proof -
  have "new_n2k_msg 0 126208 3 1 2 (Some [0, 0, 0, 0, 0]) 1
      = Inr (n2k_from_protobuf 126208 (n2k_as_protobuf
         \<lparr>m_pgn = 126208, m_prio = 3, m_sa = 1, m_da = 2, m_is_iso = True, m_ts = 1,
          m_fast_packet = False, m_payload = [0, 0, 0, 0, 0]\<rparr>))"
    by (simp add: new_n2k_msg_def n2k_from_protobuf_def n2k_as_protobuf_def)
  from fast_packet_flag_vs_check [OF _ _ this] show ?thesis by simp
qed

end
