(* ===== verification/IsoTransport.thy ===== *)
theory IsoTransport
  imports Reassembly N2kMessage
begin

text \<open>
  \<^verbatim>\<open>navigation_server/nmea2000/nmea2k_iso_transport.py\<close>: the ISO 11783 (J1939/21) broadcast transport. A
  payload is announced in a TP.CM frame (class \<^verbatim>\<open>IsoTransportTransaction\<close>, \<^verbatim>\<open>outgoing_bam_transaction\<close>)
  and travels in TP.DT frames of 7 bytes numbered from 1; the receiver keeps one open transaction per
  source address (\<open>tp_handler\<close>). The timer of a transaction is created and never started, so
  \<open>timer_lapse\<close> is an operation nothing calls.
\<close>

section \<open>One transaction\<close>

datatype tp_state = TP_CREATED | TP_ANNOUNCED | TP_IN_TRANSMISSION | TP_END

record tp_transaction =
  tp_pgn :: nat
  tp_total_size :: nat
  tp_nb_packets :: nat
  tp_state :: tp_state
  tp_transmitted_packets :: nat
  tp_buffer :: bytes
  tp_start_time :: real
  tp_sa :: nat
  tp_prio :: nat

definition new_tp_transaction :: tp_transaction where
  "new_tp_transaction =
     \<lparr>tp_pgn = 0, tp_total_size = 0, tp_nb_packets = 0, tp_state = TP_CREATED,
      tp_transmitted_packets = 0, tp_buffer = [], tp_start_time = 0, tp_sa = 0, tp_prio = 0\<rparr>"

text \<open>\<^verbatim>\<open>struct.Struct("<BHBBHB")\<close>: the values of an 8-byte frame, and the frame of the values.\<close>

definition bam_unpack :: "bytes \<Rightarrow> (nat \<times> nat \<times> nat \<times> nat \<times> nat \<times> nat) result" where
  "bam_unpack frame =
     (case frame of
        [a, b0, b1, c, d, e0, e1, f] \<Rightarrow>
          Inr (unat a, le_decode [b0, b1], unat c, unat d, le_decode [e0, e1], unat f)
      | _ \<Rightarrow> Inl StructError)"

definition bam_pack :: "nat \<Rightarrow> nat \<Rightarrow> nat \<Rightarrow> nat \<Rightarrow> nat \<Rightarrow> nat \<Rightarrow> bytes result" where
  "bam_pack a b c d e f =
     (if a < 256 \<and> b < 65536 \<and> c < 256 \<and> d < 256 \<and> e < 65536 \<and> f < 256
      then Inr (le_encode 1 a @ le_encode 2 b @ le_encode 1 c @ le_encode 1 d @ le_encode 2 e
                  @ le_encode 1 f)
      else Inl StructError)"

definition incoming_bam_transaction ::
    "real \<Rightarrow> tp_transaction \<Rightarrow> nat \<Rightarrow> nat \<Rightarrow> bytes \<Rightarrow> tp_transaction result" where
  "incoming_bam_transaction now t sa prio frame =
     bind_r (py_get frame 0) (\<lambda>b0.
     if unat b0 \<noteq> 32 then Inl IsoTransportException
     else bind_r (bam_unpack frame) (\<lambda>(ctrl, tsize, nb, ff, low, up).
       Inr (t\<lparr>tp_sa := sa, tp_prio := prio, tp_total_size := tsize, tp_nb_packets := nb,
              tp_pgn := fst (pgn_pdu1_adjust (low OR push_bit 16 up)),
              tp_state := TP_IN_TRANSMISSION, tp_buffer := replicate tsize 0,
              tp_start_time := now\<rparr>)))"

definition tp_store :: "bytes \<Rightarrow> nat \<Rightarrow> nat \<Rightarrow> bytes \<Rightarrow> bytes" where
  "tp_store buffer total_size seq_num frame =
     (let ptr = (int seq_num - 1) * 7;
          len = (if ptr + 7 > int total_size then int total_size - ptr else 7)
      in py_slice_assign buffer ptr (ptr + len) (py_slice frame 1 (len + 1)))"

definition incoming_packet ::
    "real \<Rightarrow> tp_transaction \<Rightarrow> bytes \<Rightarrow> (tp_transaction \<times> n2k_msg option) result" where
  "incoming_packet now t frame =
     (if tp_state t \<noteq> TP_IN_TRANSMISSION then Inl IsoTransportException
      else bind_r (py_get frame 0) (\<lambda>b0.
        let t1 = t\<lparr>tp_buffer := tp_store (tp_buffer t) (tp_total_size t) (unat b0) frame,
                   tp_transmitted_packets := tp_transmitted_packets t + 1\<rparr>
        in if tp_transmitted_packets t1 = tp_nb_packets t1
           then bind_r (new_n2k_msg now (tp_pgn t1) (tp_prio t1) (tp_sa t1) 255 (Some (tp_buffer t1))
                          (tp_start_time t1)) (\<lambda>msg.
                  Inr (t1\<lparr>tp_state := TP_END\<rparr>, Some msg))
           else Inr (t1, None)))"

definition timer_lapse :: "tp_transaction \<Rightarrow> tp_transaction" where
  "timer_lapse t = t\<lparr>tp_state := TP_END\<rparr>"

definition outgoing_bam_transaction ::
    "real \<Rightarrow> tp_transaction \<Rightarrow> n2k_msg \<Rightarrow> (tp_transaction \<times> n2k_msg) result" where
  "outgoing_bam_transaction now t msg =
     (let tsize = length (m_payload msg);
          nb = tsize div 7 + (if tsize mod 7 \<noteq> 0 then 1 else 0);
          pgn_low = m_pgn msg AND 0xFFFF;
          pgn_up = drop_bit 16 (m_pgn msg) AND 0xFF;
          t1 = t\<lparr>tp_total_size := tsize, tp_buffer := m_payload msg, tp_nb_packets := nb\<rparr>
      in bind_r (bam_pack 32 tsize nb 0xFF pgn_low pgn_up) (\<lambda>payload.
         bind_r (new_n2k_msg now 60416 7 (m_sa msg) 255 (Some payload) 0) (\<lambda>m. Inr (t1, m))))"

text \<open>
  The generator of the TP.DT payloads. It yields the same bytearray \<open>data\<close> every time; the list below
  holds its contents at each yield. When the last packet is partial, \<^verbatim>\<open>for p in (l, 7)\<close> writes 0xFF at
  the two positions \<open>l\<close> and 7 only.
\<close>

function tp_split_loop :: "nat \<Rightarrow> nat \<Rightarrow> bytes \<Rightarrow> bytes \<Rightarrow> nat \<Rightarrow> nat \<Rightarrow> bytes generator" where
  "tp_split_loop tsize nb buffer data seq_num ptr =
     (if seq_num \<le> nb then
        (case bind_r (to_byte seq_num) (\<lambda>b. py_set data 0 b) of
           Inl e \<Rightarrow> ([], Some e)
         | Inr data1 \<Rightarrow>
             if seq_num = nb then
               (let l = int tsize - int ptr;
                    data2 = py_slice_assign data1 1 (l + 1) (py_slice buffer (int ptr) (int (length buffer)))
                in if 7 - l \<noteq> 0
                   then (case bind_r (py_set data2 l 0xFF) (\<lambda>d. py_set d 7 0xFF) of
                           Inl e \<Rightarrow> ([], Some e)
                         | Inr data3 \<Rightarrow> gen_cons data3 (tp_split_loop tsize nb buffer data3 (seq_num + 1) ptr))
                   else gen_cons data2 (tp_split_loop tsize nb buffer data2 (seq_num + 1) ptr))
             else
               (let data2 = py_assign_from data1 1 (py_slice buffer (int ptr) (int ptr + 7))
                in gen_cons data2 (tp_split_loop tsize nb buffer data2 (seq_num + 1) (ptr + 7))))
      else ([], None))"
  by pat_completeness auto
termination
  by (relation "measure (\<lambda>(tsize, nb, buffer, data, seq_num, ptr). Suc nb - seq_num)") auto

declare tp_split_loop.simps [simp del]

definition tp_split_message :: "tp_transaction \<Rightarrow> bytes generator" where
  "tp_split_message t =
     tp_split_loop (tp_total_size t) (tp_nb_packets t) (tp_buffer t) (replicate 8 0) 1 0"

section \<open>The handler\<close>

record tp_handler =
  transactions :: "(nat, tp_transaction) dict"

definition new_tp_handler :: tp_handler where
  "new_tp_handler = \<lparr>transactions = []\<rparr>"

definition new_transaction ::
    "real \<Rightarrow> tp_handler \<Rightarrow> nat \<Rightarrow> nat \<Rightarrow> bytes \<Rightarrow> tp_handler \<times> unit result" where
  "new_transaction now h sa prio frame =
     (case incoming_bam_transaction now new_tp_transaction sa prio frame of
        Inl e \<Rightarrow> if e = IsoTransportException then (h, Inr ()) else (h, Inl e)
      | Inr t \<Rightarrow> (h\<lparr>transactions := dict_set sa t (transactions h)\<rparr>, Inr ()))"

definition new_output_transaction :: "real \<Rightarrow> n2k_msg \<Rightarrow> (tp_transaction \<times> n2k_msg) result" where
  "new_output_transaction now msg = outgoing_bam_transaction now new_tp_transaction msg"

definition handler_incoming_packet ::
    "real \<Rightarrow> tp_handler \<Rightarrow> nat \<Rightarrow> bytes \<Rightarrow> tp_handler \<times> n2k_msg option result" where
  "handler_incoming_packet now h sa frame =
     (case dict_get (transactions h) sa of
        None \<Rightarrow> (h, Inl IsoTransportException)
      | Some t \<Rightarrow>
          (case incoming_packet now t frame of
             Inl e \<Rightarrow>
               (if e = IsoTransportException
                then h\<lparr>transactions := dict_del sa (transactions h)\<rparr> else h, Inl e)
           | Inr (t1, result) \<Rightarrow>
               ((case result of
                   Some _ \<Rightarrow> h\<lparr>transactions := dict_del sa (transactions h)\<rparr>
                 | None \<Rightarrow> h\<lparr>transactions := dict_set sa t1 (transactions h)\<rparr>), Inr result)))"

text \<open>The two entry points as the events of a run: time, source address and what arrived.\<close>

datatype tp_event = Announce nat bytes | Data bytes

fun tp_feed :: "tp_handler \<Rightarrow> real \<times> nat \<times> tp_event \<Rightarrow> tp_handler \<times> n2k_msg option result" where
  "tp_feed h (now, sa, Announce prio frame) =
     (let (h1, r) = new_transaction now h sa prio frame in (h1, map_sum id (\<lambda>_. None) r))"
| "tp_feed h (now, sa, Data frame) = handler_incoming_packet now h sa frame"

definition tp_event_key :: "real \<times> nat \<times> tp_event \<Rightarrow> nat" where
  "tp_event_key e = fst (snd e)"

abbreviation tp_slot :: "tp_handler \<Rightarrow> nat \<Rightarrow> tp_transaction option" where
  "tp_slot h \<equiv> dict_get (transactions h)"

interpretation tp: keyed_reassembly tp_feed tp_event_key "\<lambda>h. dict_get (transactions h)"
proof unfold_locales
  fix e :: "real \<times> nat \<times> tp_event" and h h' :: tp_handler and k :: nat
  obtain now sa ev where e: "e = (now, sa, ev)" by (cases e)
  show "tp_event_key e \<noteq> k \<Longrightarrow> tp_slot (fst (tp_feed h e)) k = tp_slot h k"
    unfolding e
    by (cases ev)
      (auto simp: tp_event_key_def new_transaction_def handler_incoming_packet_def py_dicts
        split: sum.splits option.splits prod.splits)
  show "snd (tp_feed h e) = snd (tp_feed h' e) \<and>
      tp_slot (fst (tp_feed h e)) (tp_event_key e) = tp_slot (fst (tp_feed h' e)) (tp_event_key e)"
    if "tp_slot h (tp_event_key e) = tp_slot h' (tp_event_key e)"
    using that unfolding e
    by (cases ev)
      (auto simp: tp_event_key_def new_transaction_def handler_incoming_packet_def py_dicts
        split: sum.splits option.splits prod.splits)
qed

section \<open>Lemmas on sending\<close>

text \<open>What reaches the receiver: the payload, whose last byte the padding overwrites unless the payload
  fills its last packet.\<close>

definition tp_sent :: "bytes \<Rightarrow> bytes" where
  "tp_sent data = (if length data mod 7 = 0 then data else data[length data - 1 := 0xFF])"

definition tp_packets :: "nat \<Rightarrow> nat" where
  "tp_packets n = n div 7 + (if n mod 7 \<noteq> 0 then 1 else 0)"

definition tp_frame_ok :: "bytes \<Rightarrow> nat \<Rightarrow> bytes \<Rightarrow> bool" where
  "tp_frame_ok sent k frame \<longleftrightarrow>
     length frame = 8 \<and> unat (frame ! 0) = k + 1 \<and>
     (\<forall>j < 7. 7 * k + j < length sent \<longrightarrow> frame ! (j + 1) = sent ! (7 * k + j))"

lemma length_tp_sent [simp]: "length (tp_sent data) = length data"
  by (simp add: tp_sent_def)

lemma tp_packets_bounds:
  "7 * tp_packets n < n + 7" "n \<le> 7 * tp_packets n" "tp_packets n \<le> n"
  "n mod 7 = 0 \<Longrightarrow> 7 * tp_packets n = n"
  unfolding tp_packets_def by (auto; presburger)+

lemma py_set_nat: "i < length xs \<Longrightarrow> py_set xs (int i) v = Inr (xs[i := v])"
  by (simp add: py_set_def py_pos_def)

lemma py_set_0: "xs \<noteq> [] \<Longrightarrow> py_set xs 0 v = Inr (xs[0 := v])"
  using py_set_nat [of 0 xs v] by simp

lemma py_set_7: "length xs = 8 \<Longrightarrow> py_set xs 7 v = Inr (xs[7 := v])"
  using py_set_nat [of 7 xs v] by simp

lemma tp_split_done: "nb < s \<Longrightarrow> tp_split_loop n nb b d s p = ([], None)"
  by (subst tp_split_loop.simps) simp

lemma tp_split_mid:
  assumes "length d = 8" "7 * k + 7 < length data" "k + 1 < tp_packets (length data)" "k < 255"
  shows "\<exists>f. tp_split_loop (length data) (tp_packets (length data)) data d (k + 1) (7 * k)
      = gen_cons f (tp_split_loop (length data) (tp_packets (length data)) data f (k + 2) (7 * (k + 1)))
    \<and> tp_frame_ok (tp_sent data) k f"
proof -
  let ?f = "of_nat (k + 1) # take 7 (drop (7 * k) data)"
  obtain d0 ds where d: "d = d0 # ds" using assms(1) by (cases d) auto
  have "py_slice data (int (7 * k)) (int (7 * k) + 7) = take 7 (drop (7 * k) data)"
    using py_slice_nat [of data "7 * k" "7 * k + 7"] by (simp add: algebra_simps)
  then have "tp_split_loop (length data) (tp_packets (length data)) data d (k + 1) (7 * k)
      = gen_cons ?f (tp_split_loop (length data) (tp_packets (length data)) data ?f (k + 2) (7 * (k + 1)))"
    using assms d
    by (subst tp_split_loop.simps)
      (simp add: to_byte_def py_set_0 py_assign_from_def Let_def algebra_simps del: of_nat_add of_nat_Suc)
  moreover have "tp_frame_ok (tp_sent data) k ?f"
    using assms unat_of_nat_byte [of "k + 1"]
    by (auto simp: tp_frame_ok_def tp_sent_def nth_list_update simp del: unat_of_nat_byte)
  ultimately show ?thesis by blast
qed

lemma tp_split_last:
  assumes "length d = 8" "7 * k < length data" "k + 1 = tp_packets (length data)" "k < 255"
  shows "\<exists>f. tp_split_loop (length data) (tp_packets (length data)) data d (k + 1) (7 * k) = ([f], None)
    \<and> tp_frame_ok (tp_sent data) k f"
proof -
  let ?n = "length data" and ?l = "length data - 7 * k"
  let ?d1 = "d[0 := of_nat (k + 1)]"
  let ?d2 = "take 1 ?d1 @ drop (7 * k) data @ drop (?l + 1) ?d1"
  let ?f = "if ?l = 7 then ?d2 else ?d2[?l := 0xFF, 7 := 0xFF]"
  have l: "1 \<le> ?l" "?l \<le> 7" "int ?n - int (7 * k) = int ?l" "int ?l + 1 = int (?l + 1)"
    using assms(2) tp_packets_bounds(2) [of ?n] unfolding assms(3) [symmetric] by simp_all
  have mod: "?l = 7 \<longleftrightarrow> ?n mod 7 = 0"
  proof
    assume "?l = 7"
    then have "?n = 7 * (k + 1)" using assms(2) by simp
    then show "?n mod 7 = 0" by simp
  next
    assume "?n mod 7 = 0"
    then have "7 * (k + 1) = ?n" using tp_packets_bounds(4) [of ?n] assms(3) by simp
    then show "?l = 7" by simp
  qed
  have len: "length ?d2 = 8" using assms(1) l by (simp add: min_def)
  have asg: "py_slice_assign ?d1 1 (int ?l + 1) (drop (7 * k) data) = ?d2"
    using py_slice_assign_same(1) [of 1 "?l + 1" ?d1 "drop (7 * k) data"] assms(1) l
    by (simp only: l(4)) simp
  have sl: "py_slice data (int (7 * k)) (int ?n) = drop (7 * k) data"
    by (simp only: py_slice_nat) simp
  have b: "to_byte (Suc k) = Inr (of_nat (k + 1))" using assms(4) by (simp add: to_byte_def)
  have nb: "tp_packets ?n = Suc k" using assms(3) by simp
  have "d \<noteq> []" using assms(1) by auto
  have step: "tp_split_loop ?n (Suc k) data d (Suc k) (7 * k)
      = (if 7 - int ?l \<noteq> 0
         then (case bind_r (py_set ?d2 (int ?l) 0xFF) (\<lambda>d. py_set d 7 0xFF) of
                 Inl e \<Rightarrow> ([], Some e)
               | Inr data3 \<Rightarrow> gen_cons data3 ([], None))
         else gen_cons ?d2 ([], None))"
    by (subst tp_split_loop.simps)
      (simp only: b bind_r_simps py_set_0 [OF \<open>d \<noteq> []\<close>] sum.case Let_def l(3) sl asg tp_split_done
        le_refl if_True refl less_add_one)
  have "tp_split_loop ?n (tp_packets ?n) data d (k + 1) (7 * k) = ([?f], None)"
  proof (cases "?l = 7")
    case True
    then show ?thesis using step by (simp add: nb gen_cons_def)
  next
    case False
    then have "int ?l \<noteq> 7" "?l < 8" using l by simp_all
    with False len step show ?thesis
      by (simp add: nb gen_cons_def py_set_nat py_set_7 del: of_nat_diff)
  qed
  moreover have "tp_frame_ok (tp_sent data) k ?f"
  proof -
    have "length ?f = 8" using len by simp
    moreover have "?f ! 0 = of_nat (k + 1)" using l assms(1) by (simp add: nth_append)
    moreover have "?f ! (j + 1) = tp_sent data ! (7 * k + j)" if "j < 7" "7 * k + j < ?n" for j
    proof -
      have "?d2 ! (j + 1) = data ! (7 * k + j)"
      proof -
        have "j < length data - 7 * k" using that by linarith
        with assms(1) show ?thesis by (simp add: nth_append)
      qed
      moreover have "7 * k + j = ?n - 1 \<longleftrightarrow> j + 1 = ?l" using that by linarith
      ultimately show ?thesis using that l len mod by (auto simp: tp_sent_def nth_list_update)
    qed
    ultimately show ?thesis using assms(4) unat_of_nat_byte [of "k + 1"]
      by (simp add: tp_frame_ok_def del: unat_of_nat_byte)
  qed
  ultimately show ?thesis by blast
qed

lemma tp_split_frames:
  assumes "n = length data" "nb = tp_packets n" "nb \<le> 255" "length d = 8" "k < nb"
  shows "\<exists>fs. tp_split_loop n nb data d (k + 1) (7 * k) = (fs, None) \<and> length fs = nb - k
    \<and> (\<forall>i < nb - k. tp_frame_ok (tp_sent data) (k + i) (fs ! i))"
  using assms
proof (induction "nb - k" arbitrary: k d)
  case 0
  then show ?case by simp
next
  case (Suc m)
  show ?case
  proof (cases "k + 1 = nb")
    case True
    have "7 * k < length data" using tp_packets_bounds(1) [of n] True Suc.prems by simp
    with tp_split_last [of d k data] True Suc.prems
    obtain f where "tp_split_loop n nb data d (k + 1) (7 * k) = ([f], None)" "tp_frame_ok (tp_sent data) k f"
      by auto
    with True show ?thesis by (intro exI [of _ "[f]"]) auto
  next
    case False
    with Suc.prems have k: "k + 1 < nb" by simp
    then have "7 * k + 7 < length data" using tp_packets_bounds(1) [of n] Suc.prems by simp
    with tp_split_mid [of d k data] k Suc.prems obtain f where f:
      "tp_split_loop n nb data d (k + 1) (7 * k) = gen_cons f (tp_split_loop n nb data f (k + 2) (7 * (k + 1)))"
      "tp_frame_ok (tp_sent data) k f" by auto
    then have "length f = 8" by (simp add: tp_frame_ok_def)
    moreover have "m = nb - (k + 1)" using Suc.hyps(2) by simp
    ultimately obtain fs where fs:
      "tp_split_loop n nb data f (k + 2) (7 * (k + 1)) = (fs, None)" "length fs = nb - (k + 1)"
      "\<forall>i < nb - (k + 1). tp_frame_ok (tp_sent data) (k + 1 + i) (fs ! i)"
      using Suc.hyps(1) [OF _ Suc.prems(1-3) _ k] by (auto simp: add.assoc)
    have "tp_frame_ok (tp_sent data) (k + i) ((f # fs) ! i)" if "i < nb - k" for i
      using f(2) fs(3) that by (cases i) auto
    with f(1) fs(1,2) k show ?thesis
      by (intro exI [of _ "f # fs"]) (auto simp: gen_cons_def)
  qed
qed

section \<open>Lemmas on receiving\<close>

text \<open>The receiver after the packets \<open>S\<close> (numbered from 0): their bytes are in place.\<close>

definition tp_filled :: "bytes \<Rightarrow> nat \<Rightarrow> nat \<Rightarrow> nat \<Rightarrow> nat set \<Rightarrow> tp_transaction \<Rightarrow> bool" where
  "tp_filled sent pgn sa prio S t \<longleftrightarrow>
     tp_state t = TP_IN_TRANSMISSION \<and> tp_total_size t = length sent \<and>
     tp_nb_packets t = tp_packets (length sent) \<and> tp_transmitted_packets t = card S \<and>
     length (tp_buffer t) = length sent \<and> tp_pgn t = pgn \<and> tp_sa t = sa \<and> tp_prio t = prio \<and>
     (\<forall>i < length sent. i div 7 \<in> S \<longrightarrow> tp_buffer t ! i = sent ! i)"

lemma tp_store_nth:
  assumes "tp_frame_ok sent k frame" "length buf = length sent" "7 * k < length sent"
  shows "length (tp_store buf (length sent) (k + 1) frame) = length sent"
    and "i < length sent \<Longrightarrow>
      tp_store buf (length sent) (k + 1) frame ! i = (if i div 7 = k then sent ! i else buf ! i)"
proof -
  let ?n = "length sent" and ?l = "min 7 (length sent - 7 * k)"
  have f: "length frame = 8" using assms(1) by (simp add: tp_frame_ok_def)
  have len: "(if int (7 * k) + 7 > int ?n then int ?n - int (7 * k) else 7) = int ?l"
    using assms(3) by auto
  have sl: "py_slice frame 1 (int ?l + 1) = take ?l (drop 1 frame)"
    using py_slice_nat [of frame 1 "?l + 1"] by (simp add: add.commute)
  have "py_slice_assign buf (int (7 * k)) (int (7 * k + ?l)) (take ?l (drop 1 frame))
      = take (7 * k) buf @ take ?l (drop 1 frame) @ drop (7 * k + ?l) buf"
    by (rule py_slice_assign_same) (use assms f in auto)
  moreover have "(int (k + 1) - 1) * 7 = int (7 * k)" by simp
  ultimately have st: "tp_store buf ?n (k + 1) frame
      = take (7 * k) buf @ take ?l (drop 1 frame) @ drop (7 * k + ?l) buf"
    unfolding tp_store_def Let_def by (simp only: len sl of_nat_add)
  then show "length (tp_store buf ?n (k + 1) frame) = ?n" using assms f by auto
  assume i: "i < ?n"
  consider "i < 7 * k" | "7 * k \<le> i" "i < 7 * k + ?l" | "7 * k + ?l \<le> i" by linarith
  then show "tp_store buf ?n (k + 1) frame ! i = (if i div 7 = k then sent ! i else buf ! i)"
  proof cases
    case 1
    then have "i div 7 \<noteq> k" by auto
    with 1 st assms(2,3) show ?thesis by (simp add: nth_append)
  next
    case 2
    then obtain j where j: "i = 7 * k + j" using le_Suc_ex by blast
    with 2 have jl: "j < ?l" by simp
    then have "frame ! (j + 1) = sent ! i" "i div 7 = k"
      using assms(1) i j jl by (auto simp: tp_frame_ok_def)
    with j jl st assms(2,3) f show ?thesis by (auto simp: nth_append)
  next
    case 3
    with i have "i div 7 \<noteq> k" by (auto simp: min_def split: if_splits)
    with 3 st assms(2,3) i f show ?thesis by (auto simp: nth_append)
  qed
qed

lemma tp_feed_packet:
  assumes t: "tp_slot h sa = Some t" "tp_filled sent pgn sa prio S t"
    and k: "tp_frame_ok sent k frame" "k < tp_packets (length sent)" "k \<notin> S" "finite S"
  shows "if card S + 1 = tp_packets (length sent)
    then \<exists>m. snd (tp_feed h (now, sa, Data frame)) = Inr (Some m) \<and> m_pgn m = pgn \<and> m_sa m = sa \<and>
           m_prio m = prio \<and> m_da m = 255 \<and>
           length (m_payload m) = length sent \<and>
           (\<forall>i < length sent. i div 7 \<in> insert k S \<longrightarrow> m_payload m ! i = sent ! i) \<and>
           tp_slot (fst (tp_feed h (now, sa, Data frame))) sa = None
    else snd (tp_feed h (now, sa, Data frame)) = Inr None \<and>
         (\<exists>t'. tp_slot (fst (tp_feed h (now, sa, Data frame))) sa = Some t' \<and>
               tp_filled sent pgn sa prio (insert k S) t')"
proof -
  have "7 * k < length sent" using k(2) tp_packets_bounds(1) [of "length sent"] by linarith
  note st = tp_store_nth [OF k(1) _ this]
  have "frame \<noteq> []" "unat (frame ! 0) = k + 1" using k(1) by (auto simp: tp_frame_ok_def)
  then have b0: "py_get frame 0 = Inr (frame ! 0)" using py_get_nat [of 0 frame] by simp
  show ?thesis
    using t k(3,4) st b0 \<open>unat (frame ! 0) = k + 1\<close>
    by (auto simp: handler_incoming_packet_def incoming_packet_def tp_filled_def new_n2k_msg_def py_dicts Let_def)
qed

lemma tp_run_packets:
  assumes "tp_slot h sa = Some t" "tp_filled sent pgn sa prio S t" "finite S"
    and "distinct ks" "set ks \<inter> S = {}" "set ks \<union> S = {..<tp_packets (length sent)}" "ks \<noteq> []"
    and "\<forall>k \<in> set ks. tp_frame_ok sent k (fr k)"
  shows "\<exists>m. map snd (snd (run_events tp_feed h (map (\<lambda>k. (now, sa, Data (fr k))) ks)))
        = replicate (length ks - 1) (Inr None) @ [Inr (Some m)]
      \<and> m_pgn m = pgn \<and> m_sa m = sa \<and> m_prio m = prio \<and> m_da m = 255 \<and> m_payload m = sent
      \<and> tp_slot (fst (run_events tp_feed h (map (\<lambda>k. (now, sa, Data (fr k))) ks))) sa = None"
  using assms
proof (induction ks arbitrary: h t S)
  case (Cons k ks)
  let ?nb = "tp_packets (length sent)" and ?e = "(now, sa, Data (fr k))"
  have k: "tp_frame_ok sent k (fr k)" "k < ?nb" "k \<notin> S" using Cons.prems by auto
  have "card (set (k # ks) \<union> S) = ?nb" using Cons.prems(6) by simp
  moreover have "card (set (k # ks) \<union> S) = length (k # ks) + card S"
    using Cons.prems by (subst card_Un_disjoint) (auto simp: distinct_card)
  ultimately have card: "card S + 1 + length ks = ?nb" by simp
  note fed = tp_feed_packet [OF Cons.prems(1,2) k Cons.prems(3), of now]
  show ?case
  proof (cases "ks = []")
    case True
    with card fed obtain m where m: "snd (tp_feed h ?e) = Inr (Some m)" "m_pgn m = pgn" "m_sa m = sa"
      "m_prio m = prio" "m_da m = 255" "length (m_payload m) = length sent"
      "\<forall>i < length sent. i div 7 \<in> insert k S \<longrightarrow> m_payload m ! i = sent ! i"
      "tp_slot (fst (tp_feed h ?e)) sa = None" by auto
    have "i div 7 \<in> insert k S" if "i < length sent" for i
    proof -
      have "i div 7 < ?nb" using that tp_packets_bounds(2) [of "length sent"] by linarith
      then show ?thesis using Cons.prems(6) True by auto
    qed
    with m(6,7) have "m_payload m = sent" by (intro nth_equalityI) auto
    with m True show ?thesis by (simp add: run_events_Cons del: run_events.simps(2) tp_feed.simps)
  next
    case False
    then have "0 < length ks" by simp
    with card have "card S + 1 \<noteq> ?nb" by linarith
    with fed obtain t' where t': "snd (tp_feed h ?e) = Inr None"
      "tp_slot (fst (tp_feed h ?e)) sa = Some t'" "tp_filled sent pgn sa prio (insert k S) t'"
      by (auto simp del: tp_feed.simps)
    have "set ks \<inter> insert k S = {}" "set ks \<union> insert k S = {..<?nb}" "distinct ks"
      using Cons.prems by auto
    with Cons.IH [OF t'(2,3)] Cons.prems False obtain m where
      "map snd (snd (run_events tp_feed (fst (tp_feed h ?e)) (map (\<lambda>k. (now, sa, Data (fr k))) ks)))
        = replicate (length ks - 1) (Inr None) @ [Inr (Some m)]"
      "m_pgn m = pgn \<and> m_sa m = sa \<and> m_prio m = prio \<and> m_da m = 255 \<and> m_payload m = sent"
      "tp_slot (fst (run_events tp_feed (fst (tp_feed h ?e)) (map (\<lambda>k. (now, sa, Data (fr k))) ks))) sa = None"
      by auto
    moreover obtain l where "length ks = Suc l" using False by (cases ks) auto
    ultimately show ?thesis using t'(1)
      by (auto simp: run_events_Cons simp del: run_events.simps(2) tp_feed.simps)
  qed
qed simp

lemma bam_roundtrip:
  "bam_pack a b c d e f = Inr frame \<Longrightarrow> length frame = 8 \<and> bam_unpack frame = Inr (a, b, c, d, e, f)
     \<and> unat (frame ! 0) = a"
proof -
  have *: "v mod 256 + 256 * (v div 256 mod 256) = v" if "v < 65536" for v :: nat
    using that mod_mult2_eq [of v 256 256] by simp
  assume "bam_pack a b c d e f = Inr frame"
  then show ?thesis
    by (auto simp: bam_pack_def bam_unpack_def numeral_2_eq_2 * unat_of_nat split: if_splits)
qed

lemma tp_announce:
  assumes "new_output_transaction now msg = Inr (t, cm)" "m_pgn msg < 0x20000"
    and "pdu_format_of (m_pgn msg) < 240 \<Longrightarrow> m_pgn msg mod 256 = 0"
  shows "tp_packets (length (m_payload msg)) \<le> 255"
    and "tp_split_message t = tp_split_loop (length (m_payload msg)) (tp_packets (length (m_payload msg)))
           (m_payload msg) (replicate 8 0) 1 0"
    and "\<exists>t'. tp_feed h (now', sa, Announce prio (m_payload cm))
           = (h\<lparr>transactions := dict_set sa t' (transactions h)\<rparr>, Inr None)
         \<and> tp_filled (tp_sent (m_payload msg)) (m_pgn msg) sa prio {} t'"
proof -
  let ?n = "length (m_payload msg)" and ?low = "m_pgn msg mod 0x10000" and ?up = "m_pgn msg div 0x10000"
  have up: "?up mod 256 = ?up" using assms(2) by simp
  obtain payload where p: "bam_pack 32 ?n (tp_packets ?n) 0xFF ?low ?up = Inr payload"
    "m_payload cm = payload"
    "t = new_tp_transaction\<lparr>tp_total_size := ?n, tp_buffer := m_payload msg, tp_nb_packets := tp_packets ?n\<rparr>"
    using assms(1) up
    by (auto simp: new_output_transaction_def outgoing_bam_transaction_def Let_def bind_r_Inr_iff
        new_n2k_msg_def tp_packets_def drop_bit_eq_div split: prod.splits)
  then show "tp_packets ?n \<le> 255" by (auto simp: bam_pack_def split: if_splits)
  show "tp_split_message t = tp_split_loop ?n (tp_packets ?n) (m_payload msg) (replicate 8 0) 1 0"
    using p(3) by (simp add: tp_split_message_def)
  note un = bam_roundtrip [OF p(1)]
  then have g: "py_get payload 0 = Inr (payload ! 0)" using py_get_nat [of 0 payload] by simp
  have "?low OR push_bit 16 ?up = ?low + 2 ^ 16 * ?up" by (rule or_push_bit) simp
  also have "\<dots> = m_pgn msg" by simp
  finally have pgn: "?low OR push_bit 16 ?up = m_pgn msg" .
  have "fst (pgn_pdu1_adjust (m_pgn msg)) = m_pgn msg"
    using assms(2,3) by (auto simp: pgn_pdu1_adjust_eq pdu_format_of_eq)
  then show "\<exists>t'. tp_feed h (now', sa, Announce prio (m_payload cm))
           = (h\<lparr>transactions := dict_set sa t' (transactions h)\<rparr>, Inr None)
         \<and> tp_filled (tp_sent (m_payload msg)) (m_pgn msg) sa prio {} t'"
    using un g pgn p(2)
    by (intro exI [of _ "new_tp_transaction\<lparr>tp_sa := sa, tp_prio := prio, tp_total_size := ?n,
        tp_nb_packets := tp_packets ?n, tp_pgn := m_pgn msg, tp_state := TP_IN_TRANSMISSION,
        tp_buffer := replicate ?n 0, tp_start_time := now'\<rparr>"])
      (simp add: new_transaction_def incoming_bam_transaction_def tp_filled_def new_tp_transaction_def)
qed

section \<open>Properties\<close>

text \<open>C5. Round trip over the broadcast transport, in any order of the data packets: when the sender could
  announce a payload (of at most 1785 bytes), the receiver that got the announcement delivers one
  message, on the last packet and not before, with the PGN announced, the source and priority of the
  announcement and destination 255; its transaction is closed. The payload is the one sent, except that
  its last byte reads 0xFF unless the payload fills its last packet: \<^verbatim>\<open>for p in (l, 7)\<close> pads at the two
  indexes \<open>l\<close> and 7 where the range between them was meant.\<close>

theorem iso_transport_roundtrip:
  assumes "new_output_transaction now msg = Inr (t, cm)" "m_payload msg \<noteq> []" "m_pgn msg < 0x20000"
    and "pdu_format_of (m_pgn msg) < 240 \<Longrightarrow> m_pgn msg mod 256 = 0"
    and "tp_split_message t = (frames, e)" "mset packets = mset frames"
    and "run_events tp_feed h ((now', sa, Announce prio (m_payload cm))
           # map (\<lambda>f. (now', sa, Data f)) packets) = (h', out)"
  shows "e = None \<and> (\<exists>m. map snd out = replicate (length frames) (Inr None) @ [Inr (Some m)]
    \<and> m_pgn m = m_pgn msg \<and> m_sa m = sa \<and> m_prio m = prio \<and> m_da m = 255
    \<and> m_payload m = (if length (m_payload msg) mod 7 = 0 then m_payload msg
                     else (m_payload msg)[length (m_payload msg) - 1 := 0xFF])
    \<and> tp_slot h' sa = None)"
proof -
  let ?data = "m_payload msg" and ?nb = "tp_packets (length (m_payload msg))"
  note ann = tp_announce [OF assms(1,3,4)]
  have "0 < ?nb" using assms(2) tp_packets_bounds(2) [of "length ?data"] by (cases "?nb = 0") auto
  with tp_split_frames [of _ ?data ?nb "replicate 8 0" 0] ann(1,2) assms(5)
  have fs: "e = None" "length frames = ?nb" "\<forall>i < ?nb. tp_frame_ok (tp_sent ?data) i (frames ! i)" by auto
  have "mset packets = image_mset (\<lambda>i. frames ! i) (mset [0..<?nb])"
    using assms(6) fs(2) by (metis map_nth mset_map)
  then obtain ks where ks: "mset ks = mset [0..<?nb]" "packets = map (\<lambda>i. frames ! i) ks"
    using list_of_image_mset by metis
  then have perm: "set ks = {..<?nb}" "distinct ks" "length ks = ?nb"
    by (metis atLeast_upt mset_eq_setD, metis distinct_upt mset_eq_imp_distinct_iff,
        metis diff_zero length_upt mset_eq_length)
  obtain t' where t': "tp_feed h (now', sa, Announce prio (m_payload cm))
      = (h\<lparr>transactions := dict_set sa t' (transactions h)\<rparr>, Inr None)"
    "tp_filled (tp_sent ?data) (m_pgn msg) sa prio {} t'" using ann(3) by blast
  let ?h1 = "h\<lparr>transactions := dict_set sa t' (transactions h)\<rparr>"
  have "\<exists>m. map snd (snd (run_events tp_feed ?h1 (map (\<lambda>k. (now', sa, Data (frames ! k))) ks)))
        = replicate (length ks - 1) (Inr None) @ [Inr (Some m)]
      \<and> m_pgn m = m_pgn msg \<and> m_sa m = sa \<and> m_prio m = prio \<and> m_da m = 255 \<and> m_payload m = tp_sent ?data
      \<and> tp_slot (fst (run_events tp_feed ?h1 (map (\<lambda>k. (now', sa, Data (frames ! k))) ks))) sa = None"
    by (rule tp_run_packets [OF _ t'(2)]) (use perm fs \<open>0 < ?nb\<close> in \<open>auto simp: py_dicts\<close>)
  moreover obtain l where "?nb = Suc l" using \<open>0 < ?nb\<close> by (cases ?nb) auto
  moreover have "h' = fst (run_events tp_feed h ((now', sa, Announce prio (m_payload cm))
           # map (\<lambda>f. (now', sa, Data f)) packets))"
    "out = snd (run_events tp_feed h ((now', sa, Announce prio (m_payload cm))
           # map (\<lambda>f. (now', sa, Data f)) packets))" using assms(7) by simp_all
  ultimately show ?thesis
    using t'(1) perm fs ks(2)
    by (auto simp: run_events_Cons tp_sent_def comp_def simp del: run_events.simps(2) tp_feed.simps)
qed

theorem iso_transport_roundtrip_witness:
  "\<exists>m. map snd (snd (run_events tp_feed new_tp_handler
        [(0, 7, Announce 6 [32, 9, 0, 2, 0xFF, 0x14, 0xF0, 1]),
         (0, 7, Data [2, 8, 0xFF, 3, 4, 5, 6, 0xFF]), (0, 7, Data [1, 1, 2, 3, 4, 5, 6, 7])]))
     = [Inr None, Inr None, Inr (Some m)]
   \<and> m_pgn m = 126996 \<and> m_payload m = [1, 2, 3, 4, 5, 6, 7, 8, 0xFF]"
proof -
  let ?data = "[1, 2, 3, 4, 5, 6, 7, 8, 9] :: bytes"
  let ?msg = "\<lparr>m_pgn = 126996, m_prio = 6, m_sa = 7, m_da = 255, m_is_iso = True, m_ts = 0,
    m_fast_packet = True, m_payload = ?data\<rparr>"
  let ?cm = "\<lparr>m_pgn = 60416, m_prio = 7, m_sa = 7, m_da = 255, m_is_iso = False, m_ts = 0,
    m_fast_packet = False, m_payload = [32, 9, 0, 2, 0xFF, 0x14, 0xF0, 1]\<rparr>"
  let ?t = "new_tp_transaction\<lparr>tp_total_size := 9, tp_buffer := ?data, tp_nb_packets := 2\<rparr>"
  let ?frames = "[[1, 1, 2, 3, 4, 5, 6, 7], [2, 8, 0xFF, 3, 4, 5, 6, 0xFF]] :: bytes list"
  have "bam_pack 32 9 2 0xFF 0xF014 1 = Inr [32, 9, 0, 2, 0xFF, 0x14, 0xF0, 1]"
    by (simp add: bam_pack_def le_encode_small)
  moreover have "length ?data = 9" by simp
  ultimately have out: "new_output_transaction 0 ?msg = Inr (?t, ?cm)"
    by (simp del: list.size add: new_output_transaction_def outgoing_bam_transaction_def new_n2k_msg_def
        msg_is_iso_def pgn_service_def msg_fast_packet_def drop_bit_eq_div
        flip: numeral_2_eq_2)
  have "tp_split_loop 9 2 ?data [0, 0, 0, 0, 0, 0, 0, 0] 1 0
      = gen_cons (?frames ! 0) (tp_split_loop 9 2 ?data (?frames ! 0) 2 7)"
    by (subst tp_split_loop.simps) (simp add: to_byte_def py_slices Let_def flip: numeral_2_eq_2)
  moreover have "tp_split_loop 9 2 ?data (?frames ! 0) 2 7 = ([?frames ! 1], None)"
    by (subst tp_split_loop.simps) (simp add: to_byte_def py_slices tp_split_done gen_cons_def)
  ultimately have split: "tp_split_message ?t = (?frames, None)"
    by (simp add: tp_split_message_def new_tp_transaction_def gen_cons_def numeral_eq_Suc)
  obtain h' out where run: "run_events tp_feed new_tp_handler
      ((0, 7, Announce 6 (m_payload ?cm)) # map (\<lambda>f. (0, 7, Data f)) (rev ?frames)) = (h', out)"
    by fastforce
  from iso_transport_roundtrip [OF out _ _ _ split _ run] run show ?thesis
    by (auto simp: pdu_format_of_eq)
qed

text \<open>Broadcasts of different sources do not interfere: however their frames are interleaved, a
  source's results are those of its frames alone.\<close>

theorem iso_transport_interleaving:
  "map snd (filter (\<lambda>(e, r). tp_event_key e = sa) (snd (run_events tp_feed h es)))
     = map snd (snd (run_events tp_feed h (filter (\<lambda>e. tp_event_key e = sa) es)))
   \<and> tp_slot (fst (run_events tp_feed h es)) sa
     = tp_slot (fst (run_events tp_feed h (filter (\<lambda>e. tp_event_key e = sa) es))) sa"
  using tp.interleaving_results tp.interleaving_slot by blast

end
