(* ===== verification/Queues.thy ===== *)
theory Queues
  imports Prelude
begin

text \<open>
  The bounded FIFO of Python's \<^verbatim>\<open>queue.Queue\<close>, which carries the messages between the threads of the
  program, and the contract its clients rely on: whatever the interleaving of one side putting and the
  other side getting, what comes out is what was accepted, in order. A put with a timeout that expires
  and a put that does not block are the same step here: both raise \<^verbatim>\<open>queue.Full\<close> on a full queue.
\<close>

record 'a bqueue =
  q_items :: "'a list"
  q_max :: nat

definition new_queue :: "nat \<Rightarrow> 'a bqueue" where
  "new_queue n = \<lparr>q_items = [], q_max = n\<rparr>"

definition q_full :: "'a bqueue \<Rightarrow> bool" where
  "q_full q \<longleftrightarrow> 0 < q_max q \<and> q_max q \<le> length (q_items q)"

definition q_put :: "'a \<Rightarrow> 'a bqueue \<Rightarrow> 'a bqueue result" where
  "q_put x q = (if q_full q then Inl QueueFull else Inr (q\<lparr>q_items := q_items q @ [x]\<rparr>))"

definition q_get :: "'a bqueue \<Rightarrow> ('a \<times> 'a bqueue) result" where
  "q_get q = (case q_items q of [] \<Rightarrow> Inl QueueEmpty | x # xs \<Rightarrow> Inr (x, q\<lparr>q_items := xs\<rparr>))"

text \<open>One side puts, the other gets, in any order; a refused put is dropped, a get on an empty queue
  does nothing.\<close>

datatype 'a q_event = Put 'a | Get

locale fifo =
  fixes put :: "'a \<Rightarrow> 'q \<Rightarrow> 'q result"
    and get :: "'q \<Rightarrow> ('a \<times> 'q) result"
    and items :: "'q \<Rightarrow> 'a list"
    and bound :: "'q \<Rightarrow> nat"
  assumes put_ok: "put x q = Inr q' \<Longrightarrow> items q' = items q @ [x] \<and> bound q' = bound q"
    and put_full: "put x q = Inl e \<Longrightarrow> 0 < bound q \<and> bound q \<le> length (items q)"
    and put_bound: "put x q = Inr q' \<Longrightarrow> 0 < bound q \<Longrightarrow> length (items q) < bound q"
    and get_ok: "get q = Inr (x, q') \<Longrightarrow> items q = x # items q' \<and> bound q' = bound q"
    and get_empty: "get q = Inl e \<Longrightarrow> items q = []"
begin

fun run :: "'q \<Rightarrow> 'a q_event list \<Rightarrow> 'q \<times> 'a list \<times> 'a list" where
  "run q [] = (q, [], [])"
| "run q (Put x # es) =
     (case put x q of
        Inl _ \<Rightarrow> run q es
      | Inr q1 \<Rightarrow> (case run q1 es of (q2, accepted, got) \<Rightarrow> (q2, x # accepted, got)))"
| "run q (Get # es) =
     (case get q of
        Inl _ \<Rightarrow> run q es
      | Inr (x, q1) \<Rightarrow> (case run q1 es of (q2, accepted, got) \<Rightarrow> (q2, accepted, x # got)))"

lemma run_order:
  "run q es = (q', accepted, got) \<Longrightarrow> items q @ accepted = got @ items q'"
proof (induction q es arbitrary: accepted got rule: run.induct)
  case (1 q)
  then show ?case by simp
next
  case (2 q x es)
  show ?case
  proof (cases "put x q")
    case (Inl e)
    with 2 show ?thesis by simp
  next
    case (Inr q1)
    with "2.prems" obtain acc where "run q1 es = (q', acc, got)" "accepted = x # acc"
      by (auto split: prod.splits)
    with "2.IH"(2) [OF Inr] put_ok [OF Inr] show ?thesis by simp
  qed
next
  case (3 q es)
  show ?case
  proof (cases "get q")
    case (Inl e)
    with 3 show ?thesis by simp
  next
    case (Inr r)
    obtain x q1 where r: "r = (x, q1)" by (cases r)
    with Inr "3.prems" obtain g where "run q1 es = (q', accepted, g)" "got = x # g"
      by (auto split: prod.splits)
    with "3.IH"(2) [OF Inr r [symmetric]] get_ok [of q x q1] Inr r show ?thesis by simp
  qed
qed

lemma run_bound:
  "run q es = (q', accepted, got) \<Longrightarrow> 0 < bound q \<Longrightarrow> length (items q) \<le> bound q \<Longrightarrow>
     bound q' = bound q \<and> length (items q') \<le> bound q'"
proof (induction q es arbitrary: accepted got rule: run.induct)
  case (1 q)
  then show ?case by simp
next
  case (2 q x es)
  show ?case
  proof (cases "put x q")
    case (Inl e)
    with "2.prems" have "run q es = (q', accepted, got)" by simp
    from "2.IH"(1) [OF Inl this "2.prems"(2,3)] show ?thesis .
  next
    case (Inr q1)
    with "2.prems" obtain acc where "run q1 es = (q', acc, got)" by (auto split: prod.splits)
    with "2.IH"(2) [OF Inr] put_ok [OF Inr] put_bound [OF Inr] "2.prems" show ?thesis by simp
  qed
next
  case (3 q es)
  show ?case
  proof (cases "get q")
    case (Inl e)
    with "3.prems" have "run q es = (q', accepted, got)" by simp
    from "3.IH"(1) [OF Inl this "3.prems"(2,3)] show ?thesis .
  next
    case (Inr r)
    obtain x q1 where r: "r = (x, q1)" by (cases r)
    with Inr "3.prems" obtain g where "run q1 es = (q', accepted, g)" by (auto split: prod.splits)
    with "3.IH"(2) [OF Inr r [symmetric]] get_ok [of q x q1] Inr r "3.prems" show ?thesis by simp
  qed
qed

end

interpretation bq: fifo q_put q_get q_items q_max
proof unfold_locales
  fix q q' :: "'a bqueue" and x :: 'a and e :: py_error
  show "q_put x q = Inr q' \<Longrightarrow> q_items q' = q_items q @ [x] \<and> q_max q' = q_max q"
    by (auto simp: q_put_def split: if_splits)
  show "q_put x q = Inl e \<Longrightarrow> 0 < q_max q \<and> q_max q \<le> length (q_items q)"
    by (auto simp: q_put_def q_full_def split: if_splits)
  show "q_put x q = Inr q' \<Longrightarrow> 0 < q_max q \<Longrightarrow> length (q_items q) < q_max q"
    by (auto simp: q_put_def q_full_def split: if_splits)
  show "q_get q = Inr (x, q') \<Longrightarrow> q_items q = x # q_items q' \<and> q_max q' = q_max q"
    by (auto simp: q_get_def split: list.splits)
  show "q_get q = Inl e \<Longrightarrow> q_items q = []"
    by (auto simp: q_get_def split: list.splits)
qed

lemma q_put_unbounded [simp]: "q_max q = 0 \<Longrightarrow> q_put x q = Inr (q\<lparr>q_items := q_items q @ [x]\<rparr>)"
  by (simp add: q_put_def q_full_def)

lemma q_put_room: "length (q_items q) < q_max q \<Longrightarrow> q_put x q = Inr (q\<lparr>q_items := q_items q @ [x]\<rparr>)"
  by (simp add: q_put_def q_full_def)

end
