(* ===== verification/CanInterface.thy ===== *)
theory CanInterface
  imports FastPacket IsoTransport Queues
begin

text \<open>
  \<^verbatim>\<open>navigation_server/can_interface/nmea2k_can_interface.py\<close>: the SocketCAN interface, with the reading
  thread (\<open>process_receive_msg\<close>, \<open>can_nrun\<close>), the sending side (\<open>put_can_msg\<close>, \<open>can_send\<close>,
  \<open>send_broadcast_with_iso_tp\<close>) and the writer thread (\<open>writer_iter\<close>). The CAN bus is the sequence of
  what \<^verbatim>\<open>recv\<close> and \<^verbatim>\<open>send\<close> of the python-can package give, an argument of the steps; traces are not
  modelled. An exception that leaves \<^verbatim>\<open>nrun\<close> ends the thread (\<^verbatim>\<open>NavThread._run\<close>).
\<close>

section \<open>State\<close>

record can_frame =
  cf_id :: nat
  cf_data :: bytes

record can_if =
  if_queue :: "n2k_msg bqueue"
  if_in_queue :: "can_frame bqueue"
  if_fp :: fp_handler
  if_tp :: tp_handler
  if_addresses :: "nat list"
  if_total_msg_in :: nat
  if_write_errors :: nat
  if_allowed_send :: bool

definition new_can_if :: "n2k_msg bqueue \<Rightarrow> can_if" where
  "new_can_if out_queue =
     \<lparr>if_queue = out_queue, if_in_queue = new_queue 40, if_fp = new_fp_handler,
      if_tp = new_tp_handler, if_addresses = [255], if_total_msg_in = 0, if_write_errors = 0,
      if_allowed_send = False\<rparr>"

definition add_address :: "nat \<Rightarrow> can_if \<Rightarrow> can_if" where
  "add_address a s = s\<lparr>if_addresses := if_addresses s @ [a AND 0xFF]\<rparr>"

definition remove_address :: "nat \<Rightarrow> can_if \<Rightarrow> can_if" where
  "remove_address a s = s\<lparr>if_addresses := remove1 a (if_addresses s)\<rparr>"

definition allow_send :: "can_if \<Rightarrow> can_if" where
  "allow_send s = s\<lparr>if_allowed_send := True\<rparr>"

section \<open>Receiving\<close>

text \<open>A message the queue has no room for is logged and dropped.\<close>

definition push_received :: "n2k_msg \<Rightarrow> can_if \<Rightarrow> can_if" where
  "push_received m s =
     (case q_put m (if_queue s) of Inl _ \<Rightarrow> s | Inr q \<Rightarrow> s\<lparr>if_queue := q\<rparr>)"

definition reassemble ::
    "real \<Rightarrow> can_if \<Rightarrow> nat \<Rightarrow> nat \<Rightarrow> bytes \<Rightarrow> can_if \<times> bytes option result" where
  "reassemble now s pgn sa data =
     (let (fp, r) = process_frame now (if_fp s) pgn sa data
      in (s\<lparr>if_fp := fp\<rparr>,
          case r of
            Inl e \<Rightarrow> (if e = FastPacketException then Inr None else Inl e)
          | Inr d \<Rightarrow> Inr d))"

definition process_receive_msg ::
    "'f pgn_definitions \<Rightarrow> real \<Rightarrow> can_if \<Rightarrow> can_frame \<Rightarrow> can_if \<times> unit result" where
  "process_receive_msg ds now s frame =
     (let (pgn, da, sa, prio) = parse_arbitration_id (cf_id frame); data = cf_data frame in
      if da \<notin> set (if_addresses s) then (s, Inr ())
      else
        let s1 = s\<lparr>if_total_msg_in := if_total_msg_in s + 1\<rparr> in
        if pgn = 60416 then
          let (tp, r) = new_transaction now (if_tp s1) sa prio data in (s1\<lparr>if_tp := tp\<rparr>, r)
        else if pgn = 60160 then
          let (tp, r) = handler_incoming_packet now (if_tp s1) sa data; s2 = s1\<lparr>if_tp := tp\<rparr> in
          (case r of
             Inl e \<Rightarrow> (s2, if e = IsoTransportException then Inr () else Inl e)
           | Inr None \<Rightarrow> (s2, Inr ())
           | Inr (Some m) \<Rightarrow> (push_received m s2, Inr ()))
        else
          (case is_pgn_active (if_fp s1) pgn sa data of
             Inl e \<Rightarrow> (s1, if e = FastPacketException then Inr () else Inl e)
           | Inr fp_active \<Rightarrow>
               let (s2, r) =
                 (if fp_active then reassemble now s1 pgn sa data
                  else case fast_packet_check ds pgn of
                    Inl e \<Rightarrow> (s1, Inl e)
                  | Inr True \<Rightarrow> reassemble now s1 pgn sa data
                  | Inr False \<Rightarrow> (s1, Inr (Some data)))
               in case r of
                    Inl e \<Rightarrow> (s2, Inl e)
                  | Inr None \<Rightarrow> (s2, Inr ())
                  | Inr (Some d) \<Rightarrow>
                      (case new_n2k_msg now pgn prio sa da (Some d) 0 of
                         Inl e \<Rightarrow> (s2, Inl e)
                       | Inr m \<Rightarrow> (push_received m s2, Inr ()))))"

text \<open>What \<^verbatim>\<open>recv\<close> may give: an error, nothing within the timeout, or a frame with its two flags.\<close>

datatype bus_read = BusError | BusSilent | BusFrame can_frame bool bool

fun read_can :: "bus_read \<Rightarrow> can_frame result" where
  "read_can BusError = Inl SocketCanReadInvalid"
| "read_can BusSilent = Inl SocketCanReadInvalid"
| "read_can (BusFrame f extended remote) =
     (if \<not> extended \<or> remote then Inl SocketCanReadInvalid else Inr f)"

text \<open>The reading loop on a finite sequence of reads, which stops with the first exception that
  \<open>process_receive_msg\<close> lets escape.\<close>

fun can_nrun ::
    "'f pgn_definitions \<Rightarrow> can_if \<Rightarrow> (real \<times> bus_read) list \<Rightarrow> can_if \<times> unit result" where
  "can_nrun ds s [] = (s, Inr ())"
| "can_nrun ds s ((now, r) # rs) =
     (case read_can r of
        Inl _ \<Rightarrow> can_nrun ds s rs
      | Inr frame \<Rightarrow>
          (case process_receive_msg ds now s frame of
             (s1, Inl e) \<Rightarrow> (s1, Inl e)
           | (s1, Inr _) \<Rightarrow> can_nrun ds s1 rs))"

section \<open>Sending\<close>

definition put_can_msg :: "nat \<Rightarrow> bytes \<Rightarrow> can_if \<Rightarrow> can_if \<times> bool result" where
  "put_can_msg can_id data s =
     (case q_put \<lparr>cf_id = can_id, cf_data = data\<rparr> (if_in_queue s) of
        Inr q \<Rightarrow> (s\<lparr>if_in_queue := q, if_write_errors := 0\<rparr>, Inr True)
      | Inl _ \<Rightarrow>
          let s1 = s\<lparr>if_write_errors := if_write_errors s + 1\<rparr>
          in (s1, if 10 < if_write_errors s1 then Inl SocketCanError else Inr False))"

text \<open>The loops over a frame generator: the state, the first refusal or error if there is one, and how
  many frames were drawn.\<close>

fun put_frames :: "nat \<Rightarrow> bytes list \<Rightarrow> can_if \<Rightarrow> can_if \<times> bool result \<times> nat" where
  "put_frames can_id [] s = (s, Inr True, 0)"
| "put_frames can_id (d # ds) s =
     (case put_can_msg can_id d s of
        (s1, Inr True) \<Rightarrow> (let (s2, r, n) = put_frames can_id ds s1 in (s2, r, n + 1))
      | (s1, r) \<Rightarrow> (s1, r, 1))"

text \<open>\<open>Inr None\<close> is the \<^verbatim>\<open>None\<close> that falls out of the end of \<^verbatim>\<open>send\<close> after its fast packet loop.\<close>

definition can_send :: "n2k_msg \<Rightarrow> bool \<Rightarrow> can_if \<Rightarrow> can_if \<times> bool option result" where
  "can_send m force_send s =
     (if \<not> if_allowed_send s \<and> \<not> force_send then (s, Inr (Some False))
      else
        let can_id = build_arbitration_id m in
        if m_fast_packet m then
          let (frames, ending) = snd (split_message (if_fp s) (m_pgn m) (m_payload m) None);
              (s1, r, n) = put_frames can_id frames s;
              drawn = (if r = Inr True then None else Some n);
              s2 = s1\<lparr>if_fp := fst (split_message (if_fp s) (m_pgn m) (m_payload m) drawn)\<rparr>
          in (s2, case r of
                    Inl e \<Rightarrow> Inl e
                  | Inr False \<Rightarrow> Inr (Some False)
                  | Inr True \<Rightarrow> (case ending of Some e \<Rightarrow> Inl e | None \<Rightarrow> Inr None))
        else map_prod id (map_sum id Some) (put_can_msg can_id (m_payload m) s))"

definition send_broadcast_with_iso_tp :: "real \<Rightarrow> n2k_msg \<Rightarrow> can_if \<Rightarrow> can_if \<times> bool result" where
  "send_broadcast_with_iso_tp now msg s =
     (case new_output_transaction now msg of
        Inl e \<Rightarrow> (s, Inl e)
      | Inr (t, tpcm) \<Rightarrow>
          (case put_can_msg (build_arbitration_id tpcm) (m_payload tpcm) s of
             (s1, Inl e) \<Rightarrow> (s1, Inl e)
           | (s1, Inr False) \<Rightarrow> (s1, Inr False)
           | (s1, Inr True) \<Rightarrow>
               (case new_n2k_msg now 60160 7 (m_sa msg) 255 None 0 of
                  Inl e \<Rightarrow> (s1, Inl e)
                | Inr dt \<Rightarrow>
                    let (frames, ending) = tp_split_message t;
                        (s2, r, n) = put_frames (build_arbitration_id dt) frames s1
                    in (s2, if r = Inr True then (case ending of Some e \<Rightarrow> Inl e | None \<Rightarrow> Inr True)
                            else r))))"

section \<open>The writer thread\<close>

text \<open>
  The state between two turns of the writer's loop: the frame to try again, if the last attempt failed,
  and the count of consecutive errors. The bus answers each \<^verbatim>\<open>send\<close> with one of three outcomes.
\<close>

datatype bus_write = BusSent | BusWriteError | BusClosed

record can_writer =
  w_retry :: "can_frame option"
  w_nberr :: nat
  w_total_msg :: nat

definition new_writer :: can_writer where
  "new_writer = \<lparr>w_retry = None, w_nberr = 0, w_total_msg = 0\<rparr>"

text \<open>The inner loop: at most \<open>burst\<close> frames, the frames really sent are the last component. It ends
  when an outcome is missing, which stands for a bus that does not answer.\<close>

fun burst_loop ::
    "nat \<Rightarrow> can_frame \<Rightarrow> can_writer \<Rightarrow> can_frame bqueue \<Rightarrow> bus_write list
     \<Rightarrow> (can_writer \<times> can_frame bqueue \<times> bus_write list \<times> can_frame list) result" where
  "burst_loop 0 msg w q outs = Inr (w, q, outs, [])"
| "burst_loop (Suc burst) msg w q [] = Inr (w\<lparr>w_retry := Some msg\<rparr>, q, [], [])"
| "burst_loop (Suc burst) msg w q (BusClosed # outs) = Inl SocketCanError"
| "burst_loop (Suc burst) msg w q (BusWriteError # outs) =
     (let w1 = w\<lparr>w_total_msg := w_total_msg w + 1, w_nberr := w_nberr w + 1, w_retry := Some msg\<rparr>
      in if 20 < w_nberr w1 then Inl SocketCanError else Inr (w1, q, outs, []))"
| "burst_loop (Suc burst) msg w q (BusSent # outs) =
     (let w1 = w\<lparr>w_total_msg := w_total_msg w + 1, w_nberr := 0, w_retry := None\<rparr>
      in if 0 < burst then
           (case q_get q of
              Inl _ \<Rightarrow> Inr (w1, q, outs, [msg])
            | Inr (msg1, q1) \<Rightarrow>
                (case burst_loop burst msg1 w1 q1 outs of
                   Inl e \<Rightarrow> Inl e
                 | Inr (w2, q2, outs2, sent) \<Rightarrow> Inr (w2, q2, outs2, msg # sent)))
         else Inr (w1, q, outs, [msg]))"

definition writer_iter ::
    "can_writer \<Rightarrow> can_frame bqueue \<Rightarrow> bus_write list
     \<Rightarrow> (can_writer \<times> can_frame bqueue \<times> bus_write list \<times> can_frame list) result" where
  "writer_iter w q outs =
     (case (case w_retry w of Some m \<Rightarrow> Inr (m, q) | None \<Rightarrow> q_get q) of
        Inl _ \<Rightarrow> Inr (w, q, outs, [])
      | Inr (msg, q1) \<Rightarrow>
          burst_loop (if int (q_max q1) - 2 < int (length (q_items q1)) then 5 else 1) msg w q1 outs)"

definition change_bandwidth :: "real \<Rightarrow> real \<Rightarrow> real" where
  "change_bandwidth bandwidth min_interval =
     (if 5 < bandwidth \<and> bandwidth \<le> 50 then 100 / bandwidth * (1 / 2000) else min_interval)"

section \<open>Lemmas on sending\<close>

lemma put_can_msg_room:
  assumes "q_max (if_in_queue s) = 0 \<or> length (q_items (if_in_queue s)) < q_max (if_in_queue s)"
  shows "put_can_msg can_id d s
    = (s\<lparr>if_in_queue := (if_in_queue s)\<lparr>q_items := q_items (if_in_queue s) @ [\<lparr>cf_id = can_id, cf_data = d\<rparr>]\<rparr>,
         if_write_errors := 0\<rparr>, Inr True)"
  using assms by (auto simp: put_can_msg_def q_put_room)

lemma put_frames_room:
  assumes "q_max (if_in_queue s) = 0 \<or>
    length (q_items (if_in_queue s)) + length ds \<le> q_max (if_in_queue s)"
  shows "\<exists>s1. put_frames can_id ds s = (s1, Inr True, length ds) \<and> if_fp s1 = if_fp s
    \<and> q_items (if_in_queue s1) = q_items (if_in_queue s) @ map (\<lambda>d. \<lparr>cf_id = can_id, cf_data = d\<rparr>) ds"
  using assms
proof (induction ds arbitrary: s)
  case (Cons d ds)
  obtain s1 where put: "put_can_msg can_id d s = (s1, Inr True)" "if_fp s1 = if_fp s"
    "if_in_queue s1 = (if_in_queue s)\<lparr>q_items := q_items (if_in_queue s) @ [\<lparr>cf_id = can_id, cf_data = d\<rparr>]\<rparr>"
    using Cons.prems by (auto simp: put_can_msg_room)
  with Cons.IH [of s1] Cons.prems obtain s2 where "put_frames can_id ds s1 = (s2, Inr True, length ds)" "if_fp s2 = if_fp s1"
    "q_items (if_in_queue s2) = q_items (if_in_queue s1) @ map (\<lambda>d. \<lparr>cf_id = can_id, cf_data = d\<rparr>) ds"
    by auto
  with put show ?case by simp
qed simp

section \<open>Lemmas on receiving\<close>

fun delivered :: "bytes option result list \<Rightarrow> bytes list" where
  "delivered [] = []"
| "delivered (Inr (Some d) # rs) = d # delivered rs"
| "delivered (_ # rs) = delivered rs"

lemma delivered_append [simp]: "delivered (xs @ ys) = delivered xs @ delivered ys"
  by (induction xs rule: delivered.induct) auto

lemma delivered_none [simp]: "delivered (replicate n (Inr None)) = []"
  by (induction n) auto

definition received_msg :: "real \<Rightarrow> nat \<Rightarrow> nat \<Rightarrow> nat \<Rightarrow> nat \<Rightarrow> bytes \<Rightarrow> n2k_msg" where
  "received_msg now pgn prio sa da d =
     \<lparr>m_pgn = pgn, m_prio = prio, m_sa = sa, m_da = da, m_is_iso = msg_is_iso pgn, m_ts = now,
      m_fast_packet = msg_fast_packet pgn d, m_payload = d\<rparr>"

text \<open>On frames of a fast packet PGN the interface is its fast packet handler followed by the queue.\<close>

lemma receive_fast_step:
  assumes "parse_arbitration_id can_id = (pgn, da, sa, prio)" "da \<in> set (if_addresses s)"
    and "pgn \<notin> {60416, 60160}" "fast_packet_check ds pgn = Inr True" "data \<noteq> []"
    and "snd (process_frame now (if_fp s) pgn sa data) = Inr r"
    and "q_max (if_queue s) = 0 \<or> length (q_items (if_queue s)) < q_max (if_queue s)"
  shows "\<exists>s1. process_receive_msg ds now s \<lparr>cf_id = can_id, cf_data = data\<rparr> = (s1, Inr ())
    \<and> if_fp s1 = fst (process_frame now (if_fp s) pgn sa data) \<and> if_addresses s1 = if_addresses s
    \<and> if_queue s1 = (case r of None \<Rightarrow> if_queue s
        | Some d \<Rightarrow> (if_queue s)\<lparr>q_items := q_items (if_queue s) @ [received_msg now pgn prio sa da d]\<rparr>)"
proof -
  let ?s1 = "s\<lparr>if_total_msg_in := if_total_msg_in s + 1\<rparr>"
  have get: "py_get data 0 = Inr (data ! 0)" using assms(5) py_get_nat [of 0 data] by simp
  have "q_put m (if_queue s) = Inr ((if_queue s)\<lparr>q_items := q_items (if_queue s) @ [m]\<rparr>)" for m
    using assms(7) by (auto simp: q_put_room)
  moreover have "reassemble now ?s1 pgn sa data
      = (?s1\<lparr>if_fp := fst (process_frame now (if_fp s) pgn sa data)\<rparr>, Inr r)"
    using assms(6) by (simp add: reassemble_def split_beta)
  ultimately show ?thesis
    using assms(1-4) get
    by (cases "is_pgn_active (if_fp s) pgn sa data")
      (auto simp: process_receive_msg_def Let_def is_pgn_active_def new_n2k_msg_def received_msg_def
        push_received_def split: option.splits)
qed

lemma receive_fast_run:
  assumes "parse_arbitration_id can_id = (pgn, da, sa, prio)" "da \<in> set (if_addresses s)"
    and "pgn \<notin> {60416, 60160}" "fast_packet_check ds pgn = Inr True" "[] \<notin> set frames"
    and "run_events fp_feed (if_fp s) (map (\<lambda>d. (now, pgn, sa, d)) frames) = (h', out)"
    and "\<forall>r \<in> set (map snd out). is_ok r"
    and "q_max (if_queue s) = 0 \<or>
      length (q_items (if_queue s)) + length frames \<le> q_max (if_queue s)"
  shows "\<exists>s1. can_nrun ds s (map (\<lambda>d. (now, BusFrame \<lparr>cf_id = can_id, cf_data = d\<rparr> True False)) frames)
      = (s1, Inr ()) \<and> if_fp s1 = h'
    \<and> q_items (if_queue s1) = q_items (if_queue s) @ map (received_msg now pgn prio sa da) (delivered (map snd out))"
  using assms(2,5-8)
proof (induction frames arbitrary: s out)
  case (Cons d frames)
  let ?r = "snd (process_frame now (if_fp s) pgn sa d)" and ?h1 = "fst (process_frame now (if_fp s) pgn sa d)"
  have out: "out = ((now, pgn, sa, d), ?r) # snd (run_events fp_feed ?h1 (map (\<lambda>d. (now, pgn, sa, d)) frames))"
    "h' = fst (run_events fp_feed ?h1 (map (\<lambda>d. (now, pgn, sa, d)) frames))"
    using Cons.prems(3) by (auto simp: split_beta)
  then obtain r where r: "?r = Inr r" using Cons.prems(4) by (cases ?r) auto
  have "d \<noteq> []" using Cons.prems(2) by auto
  from receive_fast_step [OF assms(1) Cons.prems(1) assms(3,4) this r] Cons.prems(5)
  obtain s1 where s1: "process_receive_msg ds now s \<lparr>cf_id = can_id, cf_data = d\<rparr> = (s1, Inr ())"
    "if_fp s1 = ?h1" "if_addresses s1 = if_addresses s"
    "if_queue s1 = (case r of None \<Rightarrow> if_queue s
        | Some d \<Rightarrow> (if_queue s)\<lparr>q_items := q_items (if_queue s) @ [received_msg now pgn prio sa da d]\<rparr>)"
    by auto
  let ?out = "snd (run_events fp_feed ?h1 (map (\<lambda>d. (now, pgn, sa, d)) frames))"
  have "run_events fp_feed (if_fp s1) (map (\<lambda>d. (now, pgn, sa, d)) frames) = (h', ?out)"
    by (simp add: s1(2) out(2))
  moreover have "\<forall>r \<in> set (map snd ?out). is_ok r" using Cons.prems(4) unfolding out(1) by simp
  moreover have "q_max (if_queue s1) = 0 \<or> length (q_items (if_queue s1)) + length frames \<le> q_max (if_queue s1)"
    using Cons.prems(5) s1(4) by (cases r) auto
  ultimately obtain s2 where s2: "can_nrun ds s1
      (map (\<lambda>d. (now, BusFrame \<lparr>cf_id = can_id, cf_data = d\<rparr> True False)) frames) = (s2, Inr ())" "if_fp s2 = h'"
    "q_items (if_queue s2) = q_items (if_queue s1) @ map (received_msg now pgn prio sa da) (delivered (map snd ?out))"
    using Cons.IH [of s1 ?out] Cons.prems(1,2) s1(3) by auto
  have "map snd out = Inr r # map snd ?out" by (subst out(1)) (simp add: r)
  with s1(4) s2(3) have "q_items (if_queue s2) = q_items (if_queue s)
      @ map (received_msg now pgn prio sa da) (delivered (map snd out))"
    by (cases r) simp_all
  with s1(1) s2(1,2) show ?case by (intro exI [of _ s2]) simp
qed simp

section \<open>Lemmas on the writer\<close>

text \<open>The frames the writer still owes the bus, in order.\<close>

definition w_pending :: "can_writer \<Rightarrow> can_frame bqueue \<Rightarrow> can_frame list" where
  "w_pending w q = (case w_retry w of Some m \<Rightarrow> m # q_items q | None \<Rightarrow> q_items q)"

lemma burst_loop_order:
  assumes "burst_loop burst msg w q outs = Inr (w', q', outs', sent)" "0 < burst"
  shows "msg # q_items q = sent @ w_pending w' q'"
  using assms
proof (induction burst msg w q outs arbitrary: w' q' outs' sent rule: burst_loop.induct)
  case (5 burst msg w q outs)
  show ?case
  proof (cases "0 < burst \<and> q_items q \<noteq> []")
    case True
    then obtain x xs where q: "q_items q = x # xs" by (cases "q_items q") auto
    with True 5 show ?thesis
      by (auto simp: Let_def q_get_def split: sum.splits)
  next
    case False
    with "5.prems" show ?thesis
      by (auto simp: Let_def q_get_def w_pending_def split: sum.splits if_splits list.splits)
  qed
qed (auto simp: w_pending_def Let_def split: if_splits)

lemma writer_iter_order:
  assumes "writer_iter w q outs = Inr (w', q', outs', sent)"
  shows "w_pending w q = sent @ w_pending w' q'"
proof (cases "w_retry w")
  case None
  show ?thesis
  proof (cases "q_items q")
    case Nil
    with None assms show ?thesis by (auto simp: writer_iter_def q_get_def w_pending_def)
  next
    case (Cons x xs)
    with None assms have "x # q_items (q\<lparr>q_items := xs\<rparr>) = sent @ w_pending w' q'"
      by (intro burst_loop_order) (auto simp: writer_iter_def q_get_def)
    with None Cons show ?thesis by (simp add: w_pending_def)
  qed
next
  case (Some m)
  with assms have "m # q_items q = sent @ w_pending w' q'"
    by (intro burst_loop_order) (auto simp: writer_iter_def)
  with Some show ?thesis by (simp add: w_pending_def)
qed

text \<open>The writer's turns interleaved with the puts of the other threads; the run ends with the error
  that ends the thread.\<close>

datatype writer_event = PutFrame can_frame | Turn "bus_write list"

fun writer_run ::
    "can_writer \<Rightarrow> can_frame bqueue \<Rightarrow> writer_event list
     \<Rightarrow> (can_writer \<times> can_frame bqueue \<times> can_frame list \<times> can_frame list) result" where
  "writer_run w q [] = Inr (w, q, [], [])"
| "writer_run w q (PutFrame f # es) =
     (case q_put f q of
        Inl _ \<Rightarrow> writer_run w q es
      | Inr q1 \<Rightarrow> map_sum id (\<lambda>(w2, q2, acc, sent). (w2, q2, f # acc, sent)) (writer_run w q1 es))"
| "writer_run w q (Turn outs # es) =
     (case writer_iter w q outs of
        Inl e \<Rightarrow> Inl e
      | Inr (w1, q1, _, now_sent) \<Rightarrow>
          map_sum id (\<lambda>(w2, q2, acc, sent). (w2, q2, acc, now_sent @ sent)) (writer_run w1 q1 es))"

section \<open>Properties\<close>



text \<open>C7. The writer thread loses, duplicates and reorders nothing as long as it lives: whatever the bus
  answers, with its retries and bursts, and however the other threads' puts fall between its turns, the
  frames it sent, followed by those it still owes, are those that were pending followed by those the
  queue accepted.\<close>

theorem writer_order:
  "writer_run w q es = Inr (w', q', accepted, sent)
     \<Longrightarrow> w_pending w q @ accepted = sent @ w_pending w' q'"
proof (induction w q es arbitrary: accepted sent rule: writer_run.induct)
  case (1 w q)
  then show ?case by simp
next
  case (2 w q f es)
  show ?case
  proof (cases "q_put f q")
    case (Inl e)
    with 2 show ?thesis by simp
  next
    case (Inr q1)
    with "2.prems" obtain acc where "writer_run w q1 es = Inr (w', q', acc, sent)" "accepted = f # acc"
      by (auto simp: map_sum_Inr_iff)
    with "2.IH"(2) [OF Inr] bq.put_ok [OF Inr] show ?thesis
      by (simp add: w_pending_def split: option.splits)
  qed
next
  case (3 w q outs es)
  then obtain w1 q1 o1 s1 s2 where it: "writer_iter w q outs = Inr (w1, q1, o1, s1)"
    and run: "writer_run w1 q1 es = Inr (w', q', accepted, s2)" "sent = s1 @ s2"
    by (auto simp: map_sum_Inr_iff split: sum.splits)
  have "w_pending w1 q1 @ accepted = s2 @ w_pending w' q'"
    using "3.IH" [OF it refl refl refl] run by simp
  with writer_iter_order [OF it] run(2) show ?case by simp
qed

theorem writer_order_witness:
  "w_pending new_writer (new_queue 40) @ [\<lparr>cf_id = 1, cf_data = [1]\<rparr>, \<lparr>cf_id = 2, cf_data = [2]\<rparr>]
     = [\<lparr>cf_id = 1, cf_data = [1]\<rparr>] @ w_pending \<lparr>w_retry = None, w_nberr = 0, w_total_msg = 2\<rparr>
         \<lparr>q_items = [\<lparr>cf_id = 2, cf_data = [2]\<rparr>], q_max = 40\<rparr>"
  by (rule writer_order [of _ _ "[PutFrame \<lparr>cf_id = 1, cf_data = [1]\<rparr>, Turn [BusWriteError],
      PutFrame \<lparr>cf_id = 2, cf_data = [2]\<rparr>, Turn [BusSent]]"])
    (simp add: new_writer_def new_queue_def q_put_room writer_iter_def q_get_def)

text \<open>\<^verbatim>\<open>send_broadcast_with_iso_tp\<close> never broadcasts: after the announcement it builds the header of the
  data frames from a message without payload, which raises ValueError, so at most one frame is queued
  and the receivers are left with a transaction that no packet follows.\<close>

theorem iso_broadcast_never_sent:
  "(case send_broadcast_with_iso_tp now msg s of (s', r) \<Rightarrow>
     r \<noteq> Inr True \<and>
     (\<exists>fs. length fs \<le> 1 \<and> q_items (if_in_queue s') = q_items (if_in_queue s) @ fs) \<and>
     (r = Inl ValueError \<or> q_items (if_in_queue s') = q_items (if_in_queue s)))"
  by (auto simp: send_broadcast_with_iso_tp_def put_can_msg_def new_n2k_msg_def q_put_def Let_def
      split: sum.splits prod.splits bool.splits)

text \<open>One frame of a PGN the definitions do not know stops the reception: when its number lies in the
  mixed range and no reassembly of it is open, N2KUnknownPGN leaves \<^verbatim>\<open>process_receive_msg\<close> and ends the
  reading loop, whatever frames follow.\<close>

theorem can_reader_stops_on_unknown_pgn:
  assumes "parse_arbitration_id (cf_id frame) = (pgn, da, sa, prio)" "da \<in> set (if_addresses s)"
    and "0x1F000 \<le> pgn" "pgn \<le> 0x1FEFF" "dict_get (pgn_defs ds) pgn = None"
    and "cf_data frame \<noteq> []" "is_pgn_active (if_fp s) pgn sa (cf_data frame) = Inr False"
  shows "can_nrun ds s ((now, BusFrame frame True False) # rest)
    = (s\<lparr>if_total_msg_in := if_total_msg_in s + 1\<rparr>, Inl N2KUnknownPGN)"
proof -
  have "fast_packet_check ds pgn = Inl N2KUnknownPGN"
    using assms(3-5) by (simp add: fast_packet_check_eq pgn_definition_def)
  with assms show ?thesis by (simp add: process_receive_msg_def Let_def)
qed

theorem can_reader_stops_on_unknown_pgn_witness:
  "snd (can_nrun (new_pgn_definitions :: unit pgn_definitions) (new_can_if (new_queue 20))
     [(0, BusFrame \<lparr>cf_id = 0x19F21103, cf_data = [0]\<rparr> True False),
      (1, BusFrame \<lparr>cf_id = 0x18EEFF03, cf_data = [0, 0, 0, 0, 0, 0, 0, 0]\<rparr> True False)]) = Inl N2KUnknownPGN"
proof -
  have "parse_arbitration_id 0x19F21103 = (0x1F211, 255, 3, 6)"
    by (simp add: parse_arbitration_id_def drop_bit_eq_div pgn_pdu1_adjust_eq)
  then show ?thesis
    by (subst can_reader_stops_on_unknown_pgn [where pgn = "0x1F211" and da = 255 and sa = 3 and prio = 6])
      (simp_all add: new_can_if_def new_pgn_definitions_def is_pgn_active_def new_fp_handler_def py_get_def py_pos_def)
qed

end
