(* ===== verification/ValueCoders.thy ===== *)
theory ValueCoders
  imports Prelude
begin

text \<open>
  \<^verbatim>\<open>navigation_server/nmea2000_datamodel/nmea2k_encode_decode.py\<close>, the coders of fixed-length numbers
  (\<^verbatim>\<open>ValueCoderUnsigned\<close>, \<^verbatim>\<open>ValueCoderSigned\<close> and the tables of \<^verbatim>\<open>DecodeDefinitions\<close>). A coder is its
  signedness and its length; the struct formats are the little-endian layouts of \<^verbatim>\<open>Prelude\<close>, the
  three-byte ones being a 16-bit number followed by a byte. The contract of a family of coders is the
  locale \<open>value_coding\<close>, in which the round trip of a record of consecutive values is proved once.
\<close>

section \<open>Packing into a buffer\<close>

text \<open>\<^verbatim>\<open>struct.pack_into\<close> at a non-negative index: the buffer must have room.\<close>

definition pack_into :: "bytes \<Rightarrow> nat \<Rightarrow> bytes \<Rightarrow> bytes result" where
  "pack_into buffer index bs =
     (if index + length bs \<le> length buffer
      then Inr (take index buffer @ bs @ drop (index + length bs) buffer) else Inl StructError)"

definition to_signed :: "nat \<Rightarrow> nat \<Rightarrow> int" where
  "to_signed bits v = (if v < 2 ^ (bits - 1) then int v else int v - 2 ^ bits)"

definition of_signed :: "nat \<Rightarrow> int \<Rightarrow> nat" where
  "of_signed bits v = nat (v mod 2 ^ bits)"

section \<open>The coders\<close>

datatype value_coder = CoderUnsigned nat | CoderSigned nat

fun coder_length :: "value_coder \<Rightarrow> nat" where
  "coder_length (CoderUnsigned n) = n"
| "coder_length (CoderSigned n) = n"

definition invalid_value :: "nat \<Rightarrow> nat" where
  "invalid_value n = 2 ^ (n * 8) - 1"

definition max_value :: "nat \<Rightarrow> int" where
  "max_value n = 2 ^ (n * 8 - 1) - 1"

fun coder_decode :: "value_coder \<Rightarrow> bytes \<Rightarrow> int result" where
  "coder_decode (CoderUnsigned n) bs =
     (if length bs \<noteq> n then Inl StructError
      else if le_decode bs = invalid_value n then Inl ValueError
      else Inr (int (le_decode bs)))"
| "coder_decode (CoderSigned n) bs =
     (if length bs \<noteq> n then Inl StructError
      else if n = 3 then Inr (to_signed 16 (le_decode (take 2 bs)))
      else Inr (to_signed (8 * n) (le_decode bs)))"

text \<open>\<^verbatim>\<open>encode\<close> returns the buffer it filled and the number of bytes. The three-byte signed coder hands
  one value to a format of two and fails.\<close>

fun coder_encode :: "value_coder \<Rightarrow> int \<Rightarrow> bytes \<Rightarrow> nat \<Rightarrow> (bytes \<times> nat) result" where
  "coder_encode (CoderUnsigned n) v buffer index =
     bind_r (pack_into buffer index (le_encode n (nat (v mod 2 ^ (n * 8))))) (\<lambda>b. Inr (b, n))"
| "coder_encode (CoderSigned n) v buffer index =
     (if max_value n < v \<or> v < - max_value n then Inl ValueError
      else if n = 3 then Inl StructError
      else bind_r (pack_into buffer index (le_encode n (of_signed (8 * n) v))) (\<lambda>b. Inr (b, n)))"

definition uint_table :: "nat \<Rightarrow> value_coder result" where
  "uint_table n = (if n \<in> {1, 2, 3, 4, 8} then Inr (CoderUnsigned n) else Inl KeyError)"

definition int_table :: "nat \<Rightarrow> value_coder result" where
  "int_table n = (if n \<in> {1, 2, 3, 4, 8} then Inr (CoderSigned n) else Inl KeyError)"

definition uint_invalid :: "nat list" where
  "uint_invalid = [0x00, 0xFF, 0xFFFF, 0xFFFFFF, 0xFFFFFFFF]"

text \<open>The values a coder can carry: all ones is the mark of an absent unsigned value; the three-byte
  signed coder carries nothing.\<close>

fun coder_valid :: "value_coder \<Rightarrow> int \<Rightarrow> bool" where
  "coder_valid (CoderUnsigned n) v \<longleftrightarrow> 0 \<le> v \<and> v < int (invalid_value n)"
| "coder_valid (CoderSigned n) v \<longleftrightarrow> 0 < n \<and> n \<noteq> 3 \<and> - max_value n \<le> v \<and> v \<le> max_value n"

section \<open>The contract\<close>

locale value_coding =
  fixes decode :: "'c \<Rightarrow> bytes \<Rightarrow> 'v result"
    and encode :: "'c \<Rightarrow> 'v \<Rightarrow> bytes \<Rightarrow> nat \<Rightarrow> (bytes \<times> nat) result"
    and size_of :: "'c \<Rightarrow> nat"
    and valid :: "'c \<Rightarrow> 'v \<Rightarrow> bool"
  assumes encode_room: "valid c v \<Longrightarrow> index + size_of c \<le> length buffer \<Longrightarrow>
      \<exists>bs. length bs = size_of c \<and> decode c bs = Inr v \<and>
        encode c v buffer index
          = Inr (take index buffer @ bs @ drop (index + size_of c) buffer, size_of c)"
begin

text \<open>Values written one after the other, and read back from where they were written.\<close>

fun encode_all :: "('c \<times> 'v) list \<Rightarrow> bytes \<Rightarrow> nat \<Rightarrow> (bytes \<times> nat) result" where
  "encode_all [] buffer index = Inr (buffer, index)"
| "encode_all ((c, v) # cvs) buffer index =
     bind_r (encode c v buffer index) (\<lambda>(buffer1, n). encode_all cvs buffer1 (index + n))"

fun decode_all :: "'c list \<Rightarrow> bytes \<Rightarrow> nat \<Rightarrow> 'v result list" where
  "decode_all [] data index = []"
| "decode_all (c # cs) data index =
     decode c (take (size_of c) (drop index data)) # decode_all cs data (index + size_of c)"

definition total_size :: "'c list \<Rightarrow> nat" where
  "total_size cs = sum_list (map size_of cs)"

lemma total_size_simps [simp]:
  "total_size [] = 0" "total_size (c # cs) = size_of c + total_size cs"
  by (simp_all add: total_size_def)

lemma encode_all_ok:
  assumes "\<forall>(c, v) \<in> set cvs. valid c v" "index + total_size (map fst cvs) \<le> length buffer"
  shows "\<exists>out. encode_all cvs buffer index = Inr (out, index + total_size (map fst cvs))
    \<and> length out = length buffer \<and> take index out = take index buffer
    \<and> drop (index + total_size (map fst cvs)) out = drop (index + total_size (map fst cvs)) buffer
    \<and> decode_all (map fst cvs) out index = map (Inr \<circ> snd) cvs"
  using assms
proof (induction cvs arbitrary: buffer index)
  case (Cons cv cvs)
  obtain c v where cv: "cv = (c, v)" by (cases cv)
  with Cons.prems obtain bs where bs: "length bs = size_of c" "decode c bs = Inr v"
    "encode c v buffer index = Inr (take index buffer @ bs @ drop (index + size_of c) buffer, size_of c)"
    using encode_room [of c v index buffer] by auto
  let ?b = "take index buffer @ bs @ drop (index + size_of c) buffer"
  have len: "length ?b = length buffer" using Cons.prems cv bs(1) by simp
  have "index + size_of c + total_size (map fst cvs) \<le> length ?b" unfolding len
    using Cons.prems cv by simp
  moreover have "\<forall>(c, v) \<in> set cvs. valid c v" using Cons.prems by simp
  ultimately obtain out where out:
    "encode_all cvs ?b (index + size_of c) = Inr (out, index + size_of c + total_size (map fst cvs))"
    "length out = length ?b" "take (index + size_of c) out = take (index + size_of c) ?b"
    "drop (index + size_of c + total_size (map fst cvs)) out
       = drop (index + size_of c + total_size (map fst cvs)) ?b"
    "decode_all (map fst cvs) out (index + size_of c) = map (Inr \<circ> snd) cvs"
    using Cons.IH [of "index + size_of c" ?b] by blast
  have pre: "take (index + size_of c) ?b = take index buffer @ bs"
    using Cons.prems cv bs(1) by simp
  have "take index out = take index (take (index + size_of c) out)" by simp
  also have "\<dots> = take index buffer" using out(3) pre Cons.prems cv by simp
  finally have tk: "take index out = take index buffer" .
  have "take (size_of c) (drop index out) = drop index (take (index + size_of c) out)"
    by (simp add: take_drop add.commute)
  also have "\<dots> = bs" using out(3) pre Cons.prems cv by simp
  finally have "take (size_of c) (drop index out) = bs" .
  moreover have "drop (index + size_of c + total_size (map fst cvs)) ?b
      = drop (index + size_of c + total_size (map fst cvs)) buffer"
    using Cons.prems cv bs(1) by (simp add: add_ac)
  ultimately show ?case using cv bs out tk len by (simp add: add.assoc)
qed simp

end

section \<open>The coders keep the contract\<close>

lemma pow8: "(256 :: nat) ^ n = 2 ^ (n * 8)"
  by (simp add: power_mult mult.commute [of n 8])

lemma to_signed_of_signed:
  assumes "0 < bits" "- (2 ^ (bits - 1)) \<le> v" "v < 2 ^ (bits - 1)"
  shows "to_signed bits (of_signed bits v) = v"
proof -
  have p: "(2 :: int) ^ bits = 2 * 2 ^ (bits - 1)" using assms(1) by (metis Suc_diff_1 power_Suc)
  have n: "of_signed bits v < 2 ^ (bits - 1) \<longleftrightarrow> v mod 2 ^ bits < 2 ^ (bits - 1)"
    by (auto simp: of_signed_def nat_less_iff)
  have i: "int (of_signed bits v) = v mod 2 ^ bits" by (simp add: of_signed_def)
  show ?thesis
  proof (cases "0 \<le> v")
    case True
    then have "v mod 2 ^ bits = v" using assms p by simp
    with True n i assms show ?thesis by (simp add: to_signed_def)
  next
    case False
    then have "(v + 2 ^ bits) mod 2 ^ bits = v + 2 ^ bits" using assms p
      by (intro mod_pos_pos_trivial) auto
    then have "v mod 2 ^ bits = v + 2 ^ bits" by simp
    with False n i assms p show ?thesis by (simp add: to_signed_def)
  qed
qed

lemma coder_encode_room:
  assumes "coder_valid c v" "index + coder_length c \<le> length buffer"
  shows "\<exists>bs. length bs = coder_length c \<and> coder_decode c bs = Inr v \<and>
    coder_encode c v buffer index
      = Inr (take index buffer @ bs @ drop (index + coder_length c) buffer, coder_length c)"
proof (cases c)
  case (CoderUnsigned n)
  have v: "0 \<le> v" "v < 2 ^ (n * 8) - 1"
    using assms(1) by (auto simp: CoderUnsigned invalid_value_def of_nat_diff)
  then have "nat v < 256 ^ n" unfolding pow8 by (auto simp: nat_less_iff)
  moreover have "nat v \<noteq> invalid_value n"
    using assms(1) by (auto simp: CoderUnsigned)
  ultimately show ?thesis
    using assms(2) v by (auto simp: CoderUnsigned pack_into_def)
next
  case (CoderSigned n)
  have v: "0 < n" "n \<noteq> 3" "- max_value n \<le> v" "v \<le> max_value n"
    using assms(1) by (auto simp: CoderSigned)
  have "of_signed (8 * n) v < 256 ^ n"
    unfolding pow8 by (simp add: of_signed_def nat_less_iff mult.commute)
  moreover have "to_signed (8 * n) (of_signed (8 * n) v) = v"
    using v by (intro to_signed_of_signed) (auto simp: max_value_def mult.commute)
  ultimately show ?thesis
    using assms(2) v by (auto simp: CoderSigned pack_into_def)
qed

interpretation vc: value_coding coder_decode coder_encode coder_length coder_valid
  by unfold_locales (rule coder_encode_room)

end
