(* ===== verification/PyText.thy ===== *)
theory PyText
  imports Prelude
begin

text \<open>
  What the program uses of Python's text and number formatting: decimal and hexadecimal numerals on
  ASCII bytes, \<^verbatim>\<open>int(...)\<close>, UTF-8 decoding, \<^verbatim>\<open>strip\<close>, \<^verbatim>\<open>round\<close>. Text is a list of code points; byte strings
  are lists of bytes. The lemmas are the round trips between numerals and numbers.
\<close>

type_synonym ustr = "nat list"

section \<open>Numerals\<close>

text \<open>The digits of a number in a base, most significant first, and the number they denote.\<close>

fun digits_in :: "nat \<Rightarrow> nat \<Rightarrow> nat list" where
  "digits_in base n =
     (if base < 2 \<or> n < base then [n] else digits_in base (n div base) @ [n mod base])"

declare digits_in.simps [simp del]

definition number_of :: "nat \<Rightarrow> nat list \<Rightarrow> nat" where
  "number_of base ds = foldl (\<lambda>a d. base * a + d) 0 ds"

lemma number_of_simps [simp]:
  "number_of base [] = 0"
  "number_of base [d] = d"
  "number_of base (ds @ [d]) = base * number_of base ds + d"
  by (simp_all add: number_of_def)

lemma number_of_append: "number_of base (xs @ ys) = number_of base xs * base ^ length ys + number_of base ys"
proof (induction ys rule: rev_induct)
  case (snoc y ys)
  then show ?case by (simp flip: append_assoc add: algebra_simps)
qed simp

lemma number_of_digits: "2 \<le> base \<Longrightarrow> number_of base (digits_in base n) = n"
proof (induction base n rule: digits_in.induct)
  case (1 base n)
  then show ?case by (subst digits_in.simps) auto
qed

lemma digits_less: "2 \<le> base \<Longrightarrow> d \<in> set (digits_in base n) \<Longrightarrow> d < base"
proof (induction base n rule: digits_in.induct)
  case (1 base n)
  then show ?case by (subst (asm) (2) digits_in.simps) (auto split: if_splits)
qed

lemma digits_nonempty [simp]: "digits_in base n \<noteq> []"
  by (subst digits_in.simps) simp

lemma number_of_bound: "\<forall>d \<in> set ds. d < base \<Longrightarrow> number_of base ds < base ^ length ds"
proof (induction ds rule: rev_induct)
  case (snoc d ds)
  then have "number_of base ds < base ^ length ds" "d < base" by simp_all
  then have "base * number_of base ds + d < base * (number_of base ds + 1)" by (simp add: algebra_simps)
  also have "\<dots> \<le> base * base ^ length ds"
    using \<open>number_of base ds < base ^ length ds\<close> by (intro mult_le_mono2) simp
  finally show ?case by simp
qed simp

text \<open>Padding on the left to a width, as \<^verbatim>\<open>%08X\<close> and \<^verbatim>\<open>%2X\<close> do with a zero or a space.\<close>

definition pad_left :: "'a \<Rightarrow> nat \<Rightarrow> 'a list \<Rightarrow> 'a list" where
  "pad_left c n xs = replicate (n - length xs) c @ xs"

lemma number_of_pad: "number_of base (pad_left 0 n ds) = number_of base ds"
proof -
  have "number_of base (replicate k 0) = 0" for k
    by (induction k) (simp_all add: replicate_append_same [symmetric])
  then show ?thesis by (simp add: pad_left_def number_of_append)
qed

section \<open>Numerals as bytes and as text\<close>

definition dec_byte :: "nat \<Rightarrow> byte" where
  "dec_byte d = of_nat (48 + d)"

definition dec_bytes :: "nat \<Rightarrow> bytes" where
  "dec_bytes n = map dec_byte (digits_in 10 n)"

definition dec_string :: "nat \<Rightarrow> string" where
  "dec_string n = map (\<lambda>d. char_of (48 + d)) (digits_in 10 n)"

definition hex_byte :: "nat \<Rightarrow> byte" where
  "hex_byte d = of_nat (if d < 10 then 48 + d else 55 + d)"

text \<open>The value of a digit character, upper or lower case.\<close>

definition digit_value :: "byte \<Rightarrow> nat option" where
  "digit_value b =
     (let n = unat b in
      if 48 \<le> n \<and> n \<le> 57 then Some (n - 48)
      else if 65 \<le> n \<and> n \<le> 90 then Some (n - 55)
      else if 97 \<le> n \<and> n \<le> 122 then Some (n - 87) else None)"

fun digit_values :: "nat \<Rightarrow> bytes \<Rightarrow> nat list option" where
  "digit_values base [] = Some []"
| "digit_values base (b # bs) =
     (case digit_value b of
        None \<Rightarrow> None
      | Some d \<Rightarrow> if base \<le> d then None else map_option ((#) d) (digit_values base bs))"

definition is_space :: "byte \<Rightarrow> bool" where
  "is_space b \<longleftrightarrow> unat b \<in> {9, 10, 11, 12, 13, 32}"

definition strip_with :: "('a \<Rightarrow> bool) \<Rightarrow> 'a list \<Rightarrow> 'a list" where
  "strip_with p xs = rev (dropWhile p (rev (dropWhile p xs)))"

text \<open>\<^verbatim>\<open>int(b, base)\<close>: blanks around and a sign are accepted, no digit at all is not. (Underscores
  between digits, which Python accepts, do not occur in the protocols.)\<close>

definition parse_nat :: "nat \<Rightarrow> bytes \<Rightarrow> nat result" where
  "parse_nat base bs =
     (if bs = [] then Inl ValueError
      else case digit_values base bs of Some ds \<Rightarrow> Inr (number_of base ds) | None \<Rightarrow> Inl ValueError)"

definition parse_int :: "nat \<Rightarrow> bytes \<Rightarrow> int result" where
  "parse_int base bs =
     (case strip_with is_space bs of
        [] \<Rightarrow> Inl ValueError
      | b # r \<Rightarrow>
          if b = 45 then map_sum id (\<lambda>n. - int n) (parse_nat base r)
          else if b = 43 then map_sum id int (parse_nat base r)
          else map_sum id int (parse_nat base (b # r)))"

lemma unat_dec_byte: "d < 10 \<Longrightarrow> unat (dec_byte d) = 48 + d"
  unfolding dec_byte_def by (rule unat_of_nat_byte) simp

lemma unat_hex_byte: "d < 16 \<Longrightarrow> unat (hex_byte d) = (if d < 10 then 48 + d else 55 + d)"
  unfolding hex_byte_def by (rule unat_of_nat_byte) simp

lemma digit_value_dec: "d < 10 \<Longrightarrow> digit_value (dec_byte d) = Some d"
  by (simp add: digit_value_def unat_dec_byte)

lemma digit_value_hex: "d < 16 \<Longrightarrow> digit_value (hex_byte d) = Some d"
  by (simp add: digit_value_def unat_hex_byte)

lemma digit_values_map:
  "\<forall>d \<in> set ds. d < base \<and> digit_value (f d) = Some d \<Longrightarrow> digit_values base (map f ds) = Some ds"
  by (induction ds) auto

lemma parse_nat_digits:
  assumes "ds \<noteq> []" "\<forall>d \<in> set ds. d < base \<and> digit_value (f d) = Some d"
  shows "parse_nat base (map f ds) = Inr (number_of base ds)"
  using assms by (simp add: parse_nat_def digit_values_map)

lemma strip_plain:
  assumes "\<forall>x \<in> set xs. \<not> p x"
  shows "strip_with p xs = xs"
proof -
  have "dropWhile p ys = ys" if "\<forall>x \<in> set ys. \<not> p x" for ys
    using that by (cases ys) auto
  from this [of xs] this [of "rev xs"] assms show ?thesis by (simp add: strip_with_def)
qed

lemma dec_byte_plain: "d < 10 \<Longrightarrow> \<not> is_space (dec_byte d) \<and> dec_byte d \<noteq> 45 \<and> dec_byte d \<noteq> 43 \<and>
   48 \<le> unat (dec_byte d) \<and> unat (dec_byte d) \<le> 57"
proof -
  assume "d < 10"
  then have u: "unat (dec_byte d) = 48 + d" by (rule unat_dec_byte)
  then have "dec_byte d \<noteq> 45 \<and> dec_byte d \<noteq> 43"
    by (auto dest!: arg_cong [where f = unat])
  with u \<open>d < 10\<close> show ?thesis by (auto simp: is_space_def)
qed

lemma parse_int_dec [simp]: "parse_int 10 (dec_bytes n) = Inr (int n)"
proof -
  have d: "\<forall>d \<in> set (digits_in 10 n). d < 10" using digits_less [of 10] by simp
  then have sp: "strip_with is_space (dec_bytes n) = dec_bytes n"
    unfolding dec_bytes_def using dec_byte_plain by (intro strip_plain) auto
  have p: "parse_nat 10 (dec_bytes n) = Inr n"
    using d parse_nat_digits [of "digits_in 10 n" 10 dec_byte] number_of_digits [of 10 n]
    by (simp add: dec_bytes_def digit_value_dec)
  obtain x xs where x: "digits_in 10 n = x # xs" by (cases "digits_in 10 n") auto
  with d have "dec_byte x \<noteq> 45 \<and> dec_byte x \<noteq> 43" using dec_byte_plain by simp
  with sp p x show ?thesis by (simp add: parse_int_def dec_bytes_def)
qed

lemma set_dec_bytes: "b \<in> set (dec_bytes n) \<Longrightarrow> 48 \<le> unat b \<and> unat b \<le> 57"
  using digits_less [of 10] dec_byte_plain by (auto simp: dec_bytes_def)

section \<open>UTF-8\<close>

definition is_cont :: "nat \<Rightarrow> bool" where
  "is_cont n \<longleftrightarrow> 0x80 \<le> n \<and> n < 0xC0"

text \<open>Strict decoding: overlong forms, surrogates and values above 0x10FFFF are errors.\<close>

fun utf8_decode :: "bytes \<Rightarrow> ustr result" where
  "utf8_decode [] = Inr []"
| "utf8_decode (a # r1) =
     (let x = unat a in
      if x < 0x80 then map_sum id ((#) x) (utf8_decode r1)
      else case r1 of
        [] \<Rightarrow> Inl UnicodeError
      | b # r2 \<Rightarrow>
          let y = unat b in
          if \<not> is_cont y \<or> x < 0xC2 \<or> 0xF4 < x then Inl UnicodeError
          else if x < 0xE0 then map_sum id ((#) ((x - 0xC0) * 64 + (y - 0x80))) (utf8_decode r2)
          else case r2 of
            [] \<Rightarrow> Inl UnicodeError
          | c # r3 \<Rightarrow>
              let z = unat c in
              if \<not> is_cont z then Inl UnicodeError
              else if x < 0xF0 then
                let v = (x - 0xE0) * 4096 + (y - 0x80) * 64 + (z - 0x80)
                in if v < 0x800 \<or> (0xD800 \<le> v \<and> v \<le> 0xDFFF) then Inl UnicodeError
                   else map_sum id ((#) v) (utf8_decode r3)
              else case r3 of
                [] \<Rightarrow> Inl UnicodeError
              | d # r4 \<Rightarrow>
                  let w = unat d;
                      v = (x - 0xF0) * 262144 + (y - 0x80) * 4096 + (z - 0x80) * 64 + (w - 0x80)
                  in if \<not> is_cont w \<or> v < 0x10000 \<or> 0x10FFFF < v then Inl UnicodeError
                     else map_sum id ((#) v) (utf8_decode r4))"

definition utf8_char :: "nat \<Rightarrow> bytes" where
  "utf8_char c =
     (if c < 0x80 then [of_nat c]
      else if c < 0x800 then [of_nat (0xC0 + c div 64), of_nat (0x80 + c mod 64)]
      else if c < 0x10000 then
        [of_nat (0xE0 + c div 4096), of_nat (0x80 + c div 64 mod 64), of_nat (0x80 + c mod 64)]
      else [of_nat (0xF0 + c div 262144), of_nat (0x80 + c div 4096 mod 64),
            of_nat (0x80 + c div 64 mod 64), of_nat (0x80 + c mod 64)])"

definition utf8_encode :: "ustr \<Rightarrow> bytes" where
  "utf8_encode s = concat (map utf8_char s)"

lemma utf8_decode_ascii:
  "\<forall>b \<in> set bs. unat b < 128 \<Longrightarrow> utf8_decode bs = Inr (map unat bs)"
  by (induction bs) (auto simp: Let_def)

lemma utf8_encode_ascii:
  "\<forall>c \<in> set s. c < 128 \<Longrightarrow> utf8_encode s = map of_nat s"
  by (induction s) (auto simp: utf8_encode_def utf8_char_def)

lemma utf8_roundtrip_ascii: "\<forall>c \<in> set s. c < 128 \<Longrightarrow> utf8_decode (utf8_encode s) = Inr s"
proof -
  assume a: "\<forall>c \<in> set s. c < 128"
  then have "map unat (map (of_nat :: nat \<Rightarrow> byte) s) = s"
    by (induction s) (auto simp: unat_of_nat)
  moreover have "\<forall>b \<in> set (map (of_nat :: nat \<Rightarrow> byte) s). unat b < 128"
    using a by (auto simp: unat_of_nat)
  ultimately show ?thesis using a by (simp add: utf8_encode_ascii utf8_decode_ascii)
qed

definition text_of :: "string \<Rightarrow> ustr" where
  "text_of s = map of_char s"

section \<open>Rounding\<close>

text \<open>\<^verbatim>\<open>round(x)\<close>: to the nearest integer, ties to the even one. Floats are reals in the model.\<close>

definition py_round :: "real \<Rightarrow> int" where
  "py_round x =
     (let f = \<lfloor>x\<rfloor>; d = x - of_int f
      in if d < 1/2 then f else if 1/2 < d then f + 1 else if even f then f else f + 1)"

lemma py_round_of_int [simp]: "py_round (of_int n) = n"
  by (simp add: py_round_def)

lemma py_round_near: "\<bar>x - of_int n\<bar> < 1/2 \<Longrightarrow> py_round x = n"
proof -
  assume a: "\<bar>x - of_int n\<bar> < 1/2"
  have "\<lfloor>x\<rfloor> = n \<or> \<lfloor>x\<rfloor> = n - 1" using a by linarith
  then show ?thesis using a by (auto simp: py_round_def Let_def)
qed

end
