(* ===== verification/FieldDefs.thy ===== *)
theory FieldDefs
  imports ValueCoders PyText
begin

text \<open>
  \<^verbatim>\<open>navigation_server/nmea2000_datamodel/nmea2k_fielddefs.py\<close>, the classes of single fields: a \<open>field\<close> is
  what the constructor of \<^verbatim>\<open>Field\<close> and of its subclass (\<open>field_class\<close>) computes from the attributes of
  the XML element (\<open>field_xml\<close>); \<open>field_decode\<close> and \<open>field_encode\<close> are the methods \<^verbatim>\<open>decode\<close> and
  \<^verbatim>\<open>encode_value\<close>. Python floats are reals. A field that uses a global enumeration calls an object that
  has no \<^verbatim>\<open>__call__\<close> (\<^verbatim>\<open>NMEA2000Enum\<close>), which raises TypeError.
\<close>

section \<open>Values\<close>

datatype n2k_value =
    VInt int
  | VReal real
  | VStr string
  | VText ustr
  | VBytes bytes
  | VName nat
  | VList "(string \<times> n2k_value) list"
  | VNone

text \<open>\<^verbatim>\<open>N2KDecodeResult\<close>.\<close>

record decode_result =
  rs_length :: nat
  rs_name :: string
  rs_valid :: bool
  rs_value :: n2k_value
  rs_increment :: bool

definition new_result :: "string \<Rightarrow> decode_result" where
  "new_result name =
     \<lparr>rs_length = 0, rs_name = name, rs_valid = True, rs_value = VNone, rs_increment = True\<rparr>"

section \<open>Fields\<close>

datatype field_class =
    UIntField | InstanceField | EnumField | EnumIntField | IntField | DblField | UDblField
  | VarLengthStringField | FixLengthStringField | NameField | BytesField

record field_xml =
  fx_class :: field_class
  fx_name :: string
  fx_bit_offset :: "nat option"
  fx_bit_length :: "int option"
  fx_description :: "string option"
  fx_scale :: "real option"
  fx_offset :: "real option"
  fx_pairs :: "(nat, string) dict option"
  fx_global_bits :: "int option"

record field =
  fl_class :: field_class
  fl_name :: string
  fl_bit_offset :: nat
  fl_bit_length :: int
  fl_start_byte :: nat
  fl_end_byte :: nat
  fl_rel_bit :: nat
  fl_byte_length :: nat
  fl_variable_length :: bool
  fl_description :: "string option"
  fl_scale :: "real option"
  fl_offset :: "real option"
  fl_coder :: "value_coder option"
  fl_pairs :: "(nat, string) dict option"

definition is_enum_class :: "field_class \<Rightarrow> bool" where
  "is_enum_class c \<longleftrightarrow> c = EnumField \<or> c = EnumIntField"

definition extract_values_param :: "nat \<Rightarrow> int \<Rightarrow> nat \<times> nat \<times> nat \<times> nat \<times> bool" where
  "extract_values_param bit_offset bit_length =
     (let start_byte = bit_offset div 8; rel = bit_offset mod 8
      in if 0 < bit_length
         then let bl = nat bit_length div 8 + (if nat bit_length mod 8 \<noteq> 0 then 1 else 0)
              in (start_byte, rel, bl, start_byte + bl, False)
         else (start_byte, rel, 0, 0, True))"

text \<open>The default coder of the base class, and the one the signed classes put in its place. \<open>fl_pairs\<close> is
  \<open>None\<close> for a field that names a known global enumeration.\<close>

definition field_coder :: "field_class \<Rightarrow> nat \<Rightarrow> value_coder option result" where
  "field_coder c byte_length =
     (if c = IntField \<or> c = DblField then map_sum id Some (int_table byte_length)
      else if 0 < byte_length \<and> byte_length \<le> 4 then map_sum id Some (uint_table byte_length)
      else Inr None)"

definition new_field :: "field_xml \<Rightarrow> field result" where
  "new_field x =
     (let is_global = is_enum_class (fx_class x) \<and> fx_global_bits x \<noteq> None;
          bits = (if is_global then fx_global_bits x else fx_bit_length x)
      in case (fx_bit_offset x, bits) of
           (Some off, Some bl) \<Rightarrow>
             (case extract_values_param off bl of (start_byte, rel, byte_length, end_byte, variable) \<Rightarrow>
               bind_r (field_coder (fx_class x) byte_length) (\<lambda>coder.
                 Inr \<lparr>fl_class = fx_class x, fl_name = fx_name x, fl_bit_offset = off,
                      fl_bit_length = bl, fl_start_byte = start_byte, fl_end_byte = end_byte,
                      fl_rel_bit = rel, fl_byte_length = byte_length, fl_variable_length = variable,
                      fl_description = fx_description x, fl_scale = fx_scale x,
                      fl_offset = fx_offset x, fl_coder = coder,
                      fl_pairs = (if is_global then None
                                  else case fx_pairs x of None \<Rightarrow> Some [] | Some ps \<Rightarrow> Some ps)\<rparr>))
         | _ \<Rightarrow> Inl AttributeError)"

definition is_bit_value :: "field \<Rightarrow> bool" where
  "is_bit_value f =
     (if fl_class f \<in> {IntField, DblField, UDblField, VarLengthStringField} then False
      else fl_rel_bit f \<noteq> 0 \<or> fl_bit_length f mod 8 \<noteq> 0)"

definition get_name :: "field \<Rightarrow> nat \<Rightarrow> string result" where
  "get_name f value =
     (case fl_pairs f of
        None \<Rightarrow> Inl TypeError
      | Some ps \<Rightarrow> (case dict_get ps value of Some s \<Rightarrow> Inr s | None \<Rightarrow> Inl KeyError))"

definition apply_scale_offset :: "field \<Rightarrow> real \<Rightarrow> real" where
  "apply_scale_offset f value =
     (let v = (case fl_scale f of Some s \<Rightarrow> value * s | None \<Rightarrow> value)
      in case fl_offset f of Some k \<Rightarrow> v + k | None \<Rightarrow> v)"

definition convert_to_int :: "field \<Rightarrow> real \<Rightarrow> int result" where
  "convert_to_int f value =
     (let v = (case fl_offset f of Some k \<Rightarrow> value - k | None \<Rightarrow> value)
      in case fl_scale f of
           Some s \<Rightarrow> if s = 0 then Inl ZeroDivisionError else Inr (py_round (v / s))
         | None \<Rightarrow> Inr (py_round v))"

definition no_value :: "field \<Rightarrow> int result" where
  "no_value f =
     (if fl_byte_length f \<le> 4 then Inr (int (uint_invalid ! fl_byte_length f))
      else Inl N2KDecodeException)"

section \<open>Decoding\<close>

definition extract_value :: "field \<Rightarrow> bytes \<Rightarrow> nat \<Rightarrow> nat \<Rightarrow> decode_result result" where
  "extract_value f payload start stop =
     (let b_dec = py_slice payload (int start) (int stop);
          res = (new_result (fl_name f))\<lparr>rs_length := fl_byte_length f\<rparr>
      in case fl_coder f of
           None \<Rightarrow> Inl AttributeError
         | Some c \<Rightarrow>
             (case coder_decode c b_dec of
                Inr v \<Rightarrow> Inr (res\<lparr>rs_value := VInt v\<rparr>)
              | Inl e \<Rightarrow> if e = ValueError then Inr (res\<lparr>rs_valid := False\<rparr>) else Inl e))"

text \<open>\<open>Inr (None, _)\<close> is a method that falls out without a result; the second component is the end of
  the field, which \<^verbatim>\<open>extract_var_str\<close> moves for its caller.\<close>

definition extract_var_str ::
    "field \<Rightarrow> bytes \<Rightarrow> nat \<Rightarrow> nat \<Rightarrow> (decode_result option \<times> nat) result" where
  "extract_var_str f payload start stop =
     bind_r (py_get payload (int start)) (\<lambda>lgb.
     bind_r (py_get payload (int start + 1)) (\<lambda>ty.
       let lg = unat lgb; res = (new_result (fl_name f))\<lparr>rs_length := lg\<rparr> in
       if ty \<noteq> 1 \<and> 2 < lg then Inr (None, stop)
       else
         let e = start + lg in
         if lg = 2 then Inr (Some (res\<lparr>rs_value := VText (text_of ''None'')\<rparr>), e)
         else if length payload < e then Inl N2KDecodeEOLException
         else bind_r (utf8_decode (py_slice payload (int start + 2) (int e))) (\<lambda>s.
                Inr (Some (res\<lparr>rs_value := VText s\<rparr>), e))))"

definition pad_chars :: "ustr" where
  "pad_chars = [64, 32, 0]"

definition decode_fix_str :: "field \<Rightarrow> bytes \<Rightarrow> nat \<Rightarrow> nat \<Rightarrow> decode_result" where
  "decode_fix_str f payload start stop =
     (case utf8_decode (py_slice payload (int start) (int stop)) of
        Inl _ \<Rightarrow> (new_result (fl_name f))\<lparr>rs_valid := False\<rparr>
      | Inr s \<Rightarrow> (new_result (fl_name f))\<lparr>rs_value := VText (strip_with (\<lambda>c. c \<in> set pad_chars) s)\<rparr>)"

fun enum_value :: "field \<Rightarrow> n2k_value \<Rightarrow> n2k_value result" where
  "enum_value f (VInt v) =
     (case fl_pairs f of
        None \<Rightarrow> Inl TypeError
      | Some ps \<Rightarrow>
          Inr (VStr (case dict_get ps (nat v) of
                       Some s \<Rightarrow> s
                     | None \<Rightarrow> ''InvalidKey#'' @ dec_string (nat v))))"
| "enum_value f v = Inl TypeError"

fun enum_int_value :: "field \<Rightarrow> n2k_value \<Rightarrow> n2k_value result" where
  "enum_int_value f (VInt v) =
     (case fl_pairs f of
        None \<Rightarrow> Inl AttributeError
      | Some ps \<Rightarrow> Inr (case dict_get ps (nat v) of Some s \<Rightarrow> VStr s | None \<Rightarrow> VInt v))"
| "enum_int_value f v = Inl TypeError"

fun float_value :: "field \<Rightarrow> n2k_value \<Rightarrow> n2k_value result" where
  "float_value f (VInt v) = Inr (VReal (apply_scale_offset f (of_int v)))"
| "float_value f v = Inl TypeError"

definition map_valid ::
    "(n2k_value \<Rightarrow> n2k_value result) \<Rightarrow> decode_result \<Rightarrow> decode_result result" where
  "map_valid g res =
     (if \<not> rs_valid res then Inr res
      else bind_r (g (rs_value res)) (\<lambda>v. Inr (res\<lparr>rs_value := v\<rparr>)))"

definition decode_value ::
    "field \<Rightarrow> bytes \<Rightarrow> nat \<Rightarrow> nat \<Rightarrow> (decode_result option \<times> nat) result" where
  "decode_value f payload start stop =
     (let value = extract_value f payload start stop; ret = map_sum id (\<lambda>r. (Some r, stop)) in
      case fl_class f of
        EnumField \<Rightarrow> ret (bind_r value (map_valid (enum_value f)))
      | EnumIntField \<Rightarrow> ret (bind_r value (map_valid (enum_int_value f)))
      | DblField \<Rightarrow> ret (bind_r value (map_valid (float_value f)))
      | UDblField \<Rightarrow> ret (bind_r value (map_valid (float_value f)))
      | VarLengthStringField \<Rightarrow> extract_var_str f payload start stop
      | FixLengthStringField \<Rightarrow> Inr (Some (decode_fix_str f payload start stop), stop)
      | NameField \<Rightarrow>
          let b_dec = py_slice payload (int start) (int stop) in
          if length b_dec \<noteq> 8 then Inr (None, stop)
          else Inr (Some ((new_result (fl_name f))
                            \<lparr>rs_value := VName (le_decode b_dec), rs_length := 8\<rparr>), stop)
      | _ \<Rightarrow> ret value)"

definition field_decode :: "field \<Rightarrow> bytes \<Rightarrow> nat \<Rightarrow> decode_result result" where
  "field_decode f payload index =
     (let start = (if fl_start_byte f = 0 then index else fl_start_byte f);
          stop = (if fl_byte_length f \<noteq> 0 then start + fl_byte_length f else 0)
      in if length payload < stop
         then if fl_name f \<noteq> ''Spare'' then Inl N2KDecodeEOLException
              else Inr ((new_result (fl_name f))\<lparr>rs_valid := False\<rparr>)
         else case decode_value f payload start stop of
                Inl _ \<Rightarrow> Inl N2KDecodeException
              | Inr (None, _) \<Rightarrow> Inl N2KDecodeException
              | Inr (Some res, _) \<Rightarrow> Inr res)"

section \<open>Encoding\<close>

text \<open>What a coder does with a value that is not an integer: \<^verbatim>\<open>&\<close> refuses it, the comparisons of the
  signed coder accept a float, which the struct format refuses.\<close>

fun encode_coder :: "value_coder option \<Rightarrow> n2k_value \<Rightarrow> bytes \<Rightarrow> nat \<Rightarrow> (bytes \<times> nat) result" where
  "encode_coder None v buffer index = Inl AttributeError"
| "encode_coder (Some c) (VInt v) buffer index = coder_encode c v buffer index"
| "encode_coder (Some (CoderSigned n)) (VReal x) buffer index =
     (if of_int (max_value n) < x \<or> x < - of_int (max_value n) then Inl ValueError
      else Inl StructError)"
| "encode_coder (Some c) v buffer index = Inl TypeError"

fun number_value :: "n2k_value \<Rightarrow> real option" where
  "number_value (VInt v) = Some (of_int v)"
| "number_value (VReal x) = Some x"
| "number_value v = None"

text \<open>\<^verbatim>\<open>encode_str\<close>: the slice is as long as the text, the bytes are its UTF-8 encoding.\<close>

definition encode_str :: "field \<Rightarrow> ustr \<Rightarrow> bytes \<Rightarrow> nat \<Rightarrow> bytes \<times> nat" where
  "encode_str f s buffer index =
     (if fl_variable_length f
      then (py_slice_assign buffer (int index) (int (index + length s)) (utf8_encode s), length s)
      else (py_slice_assign buffer (int index) (int (index + fl_byte_length f))
              (take (fl_byte_length f) (utf8_encode s)), fl_byte_length f))"

text \<open>Fixed-length strings: only bytes of at least the field's length are accepted (padding calls
  \<^verbatim>\<open>bytes.rjust\<close> with a text fill character; a text cannot be assigned to a bytearray).\<close>

fun encode_fix_str :: "field \<Rightarrow> n2k_value \<Rightarrow> bytes \<Rightarrow> nat \<Rightarrow> (bytes \<times> nat) result" where
  "encode_fix_str f (VBytes b) buffer index =
     (if length b < fl_byte_length f then Inl TypeError
      else Inr (py_slice_assign buffer (int index) (int (index + fl_byte_length f))
                  (take (fl_byte_length f) b), fl_byte_length f))"
| "encode_fix_str f v buffer index = Inl TypeError"

definition field_encode :: "field \<Rightarrow> n2k_value \<Rightarrow> bytes \<Rightarrow> nat \<Rightarrow> (bytes \<times> nat) result" where
  "field_encode f v buffer index =
     (case fl_class f of
        DblField \<Rightarrow>
          (case number_value v of
             None \<Rightarrow> Inl TypeError
           | Some x \<Rightarrow> bind_r (convert_to_int f x) (\<lambda>i. encode_coder (fl_coder f) (VInt i) buffer index))
      | UDblField \<Rightarrow>
          (case number_value v of
             None \<Rightarrow> Inl TypeError
           | Some x \<Rightarrow> bind_r (convert_to_int f x) (\<lambda>i. encode_coder (fl_coder f) (VInt i) buffer index))
      | VarLengthStringField \<Rightarrow>
          (case v of
             VText s \<Rightarrow> Inr (encode_str f s buffer index)
           | VStr s \<Rightarrow> Inr (encode_str f (text_of s) buffer index)
           | VBytes b \<Rightarrow> Inl AttributeError
           | _ \<Rightarrow> Inl TypeError)
      | FixLengthStringField \<Rightarrow> encode_fix_str f v buffer index
      | NameField \<Rightarrow>
          (case v of
             VName n \<Rightarrow> Inr (py_assign_from buffer index (le_encode 8 n), 8)
           | _ \<Rightarrow> Inl AttributeError)
      | _ \<Rightarrow> encode_coder (fl_coder f) v buffer index)"

section \<open>Lemmas\<close>

text \<open>The number fields with the values they carry: \<open>v\<close> is given to \<^verbatim>\<open>encode_value\<close>, \<open>w\<close> comes back.\<close>

definition carries :: "field \<Rightarrow> n2k_value \<Rightarrow> n2k_value \<Rightarrow> bool" where
  "carries f v w \<longleftrightarrow>
     (\<exists>c i. fl_coder f = Some c \<and> coder_length c = fl_byte_length f \<and> 0 < fl_byte_length f \<and>
        coder_valid c i \<and>
        (case fl_class f of
           UIntField \<Rightarrow> v = VInt i \<and> w = VInt i
         | InstanceField \<Rightarrow> v = VInt i \<and> w = VInt i
         | IntField \<Rightarrow> v = VInt i \<and> w = VInt i
         | EnumField \<Rightarrow> v = VInt i \<and> enum_value f (VInt i) = Inr w
         | DblField \<Rightarrow> (\<exists>x. v = VReal x \<and> convert_to_int f x = Inr i) \<and> w = VReal (apply_scale_offset f (of_int i))
         | UDblField \<Rightarrow> (\<exists>x. v = VReal x \<and> convert_to_int f x = Inr i) \<and> w = VReal (apply_scale_offset f (of_int i))
         | _ \<Rightarrow> False))"

definition at_index :: "field \<Rightarrow> nat \<Rightarrow> bool" where
  "at_index f index \<longleftrightarrow> fl_start_byte f = 0 \<or> fl_start_byte f = index"

lemma field_decode_at:
  assumes "at_index f index" "fl_byte_length f \<noteq> 0" "index + fl_byte_length f \<le> length payload"
    and "fl_coder f = Some c" "coder_decode c (take (fl_byte_length f) (drop index payload)) = Inr i"
    and "fl_class f \<in> {UIntField, InstanceField, IntField, EnumField, DblField, UDblField}"
    and "w = (if fl_class f = EnumField then enum_value f (VInt i)
              else if fl_class f \<in> {DblField, UDblField} then float_value f (VInt i) else Inr (VInt i))"
  shows "field_decode f payload index =
    (case w of Inr v \<Rightarrow> Inr \<lparr>rs_length = fl_byte_length f, rs_name = fl_name f, rs_valid = True, rs_value = v,
                          rs_increment = True\<rparr>
     | Inl _ \<Rightarrow> Inl N2KDecodeException)"
proof -
  have "(if fl_start_byte f = 0 then index else fl_start_byte f) = index"
    using assms(1) by (auto simp: at_index_def)
  moreover have "py_slice payload (int index) (int (index + fl_byte_length f))
      = take (fl_byte_length f) (drop index payload)" by (simp only: py_slice_nat) simp
  then have "extract_value f payload index (index + fl_byte_length f)
      = Inr \<lparr>rs_length = fl_byte_length f, rs_name = fl_name f, rs_valid = True, rs_value = VInt i,
             rs_increment = True\<rparr>"
    using assms(4,5) by (simp add: extract_value_def new_result_def)
  ultimately show ?thesis
    using assms
    by (cases "enum_value f (VInt i)"; cases "fl_class f")
      (auto simp: field_decode_def decode_value_def Let_def map_valid_def simp del: enum_value.simps)
qed

lemma field_encode_coder:
  assumes "fl_class f \<in> {UIntField, InstanceField, IntField, EnumField}" "fl_coder f = Some c"
  shows "field_encode f (VInt i) buffer index = coder_encode c i buffer index"
  using assms by (auto simp: field_encode_def)

lemma field_encode_float:
  assumes "fl_class f \<in> {DblField, UDblField}" "fl_coder f = Some c" "convert_to_int f x = Inr i"
  shows "field_encode f (VReal x) buffer index = coder_encode c i buffer index"
  using assms by (auto simp: field_encode_def)

text \<open>One field written and read back, whatever is written around it.\<close>

lemma field_roundtrip:
  assumes "carries f v w" "index + fl_byte_length f \<le> length buffer" "at_index f index"
  shows "\<exists>bs. length bs = fl_byte_length f
    \<and> field_encode f v buffer index
        = Inr (take index buffer @ bs @ drop (index + fl_byte_length f) buffer, fl_byte_length f)
    \<and> (\<forall>payload. index + fl_byte_length f \<le> length payload
          \<longrightarrow> take (fl_byte_length f) (drop index payload) = bs
          \<longrightarrow> field_decode f payload index
                = Inr \<lparr>rs_length = fl_byte_length f, rs_name = fl_name f, rs_valid = True, rs_value = w,
                       rs_increment = True\<rparr>)"
proof -
  from assms(1) obtain c i where c: "fl_coder f = Some c" "coder_length c = fl_byte_length f"
    "0 < fl_byte_length f" "coder_valid c i" and cl:
    "case fl_class f of
           UIntField \<Rightarrow> v = VInt i \<and> w = VInt i
         | InstanceField \<Rightarrow> v = VInt i \<and> w = VInt i
         | IntField \<Rightarrow> v = VInt i \<and> w = VInt i
         | EnumField \<Rightarrow> v = VInt i \<and> enum_value f (VInt i) = Inr w
         | DblField \<Rightarrow> (\<exists>x. v = VReal x \<and> convert_to_int f x = Inr i) \<and> w = VReal (apply_scale_offset f (of_int i))
         | UDblField \<Rightarrow> (\<exists>x. v = VReal x \<and> convert_to_int f x = Inr i) \<and> w = VReal (apply_scale_offset f (of_int i))
         | _ \<Rightarrow> False" unfolding carries_def by blast
  have enc: "field_encode f v buffer index = coder_encode c i buffer index"
    using cl field_encode_coder [OF _ c(1), of i] field_encode_float [OF _ c(1), of _ i]
    by (cases "fl_class f") auto
  have cls: "fl_class f \<in> {UIntField, InstanceField, IntField, EnumField, DblField, UDblField}"
    and w: "Inr w = (if fl_class f = EnumField then enum_value f (VInt i)
              else if fl_class f \<in> {DblField, UDblField} then float_value f (VInt i) else Inr (VInt i))"
    using cl by (cases "fl_class f"; simp)+
  obtain bs where bs: "length bs = fl_byte_length f" "coder_decode c bs = Inr i"
    "coder_encode c i buffer index
       = Inr (take index buffer @ bs @ drop (index + fl_byte_length f) buffer, fl_byte_length f)"
    using vc.encode_room [OF c(4), of index buffer] assms(2) c(2) by auto
  have dec: "field_decode f payload index
      = Inr \<lparr>rs_length = fl_byte_length f, rs_name = fl_name f, rs_valid = True, rs_value = w,
             rs_increment = True\<rparr>"
    if "index + fl_byte_length f \<le> length payload" "take (fl_byte_length f) (drop index payload) = bs"
    for payload
    using field_decode_at [OF assms(3) _ that(1) c(1) _ cls w] that(2) bs(2) c(3) by simp
  then show ?thesis using enc bs(1,3) by auto
qed

lemma py_round_error: "\<bar>of_int (py_round x) - x\<bar> \<le> 1 / 2"
proof -
  have "0 \<le> x - of_int \<lfloor>x\<rfloor>" "x - of_int \<lfloor>x\<rfloor> < 1" by linarith+
  then show ?thesis by (auto simp: py_round_def Let_def)
qed

lemma quantisation_error:
  assumes "fl_scale f = Some s" "0 < s" "convert_to_int f x = Inr i"
  shows "\<bar>apply_scale_offset f (of_int i) - x\<bar> \<le> s / 2"
proof -
  define k where "k = (case fl_offset f of Some k \<Rightarrow> k | None \<Rightarrow> 0)"
  have i: "i = py_round ((x - k) / s)" using assms by (auto simp: convert_to_int_def k_def split: option.splits)
  have "apply_scale_offset f (of_int i) = of_int i * s + k"
    using assms by (simp add: apply_scale_offset_def k_def split: option.splits)
  then have "apply_scale_offset f (of_int i) - x = (of_int i - (x - k) / s) * s"
  proof -
    have "(x - k) / s * s = x - k" using assms(2) by simp
    with \<open>apply_scale_offset f (of_int i) = of_int i * s + k\<close> show ?thesis
      unfolding left_diff_distrib by linarith
  qed
  then have "\<bar>apply_scale_offset f (of_int i) - x\<bar> = \<bar>of_int i - (x - k) / s\<bar> * s"
    using assms(2) by (simp add: abs_mult)
  also have "\<dots> \<le> 1 / 2 * s"
    using py_round_error [of "(x - k) / s"] assms(2) i by (intro mult_right_mono) auto
  finally show ?thesis by simp
qed

text \<open>A field never lets an exception other than the two of the decoder escape.\<close>

lemma field_decode_errors:
  "field_decode f payload index = Inl e \<Longrightarrow> e = N2KDecodeException \<or> e = N2KDecodeEOLException"
  by (auto simp: field_decode_def Let_def split: if_splits sum.splits option.splits)

end
