(* ===== verification/BitFields.thy ===== *)
theory BitFields
  imports FieldDefs
begin

text \<open>
  The bit fields: classes \<^verbatim>\<open>BitFieldDef\<close> and \<^verbatim>\<open>BitField\<close> of \<^verbatim>\<open>nmea2k_encode_decode.py\<close> and the state machine
  that groups consecutive fields of a definition into bit fields, \<^verbatim>\<open>nmea2k_bitfield_generator.py\<close>. The
  generator appends the bit field it opens to the list of items and fills it later through the same
  reference; since nothing is appended while one is open, it is always the last item, and \<open>bg_open\<close> says
  whether it is being filled.
\<close>

section \<open>Bit fields\<close>

record bit_field_def =
  bd_field :: field
  bd_is_enum :: bool
  bd_rel_offset :: nat
  bd_value_mask :: nat

record bit_field =
  bf_name :: string
  bf_bit_length :: nat
  bf_byte_length :: nat
  bf_struct :: "nat option"
  bf_current_offset :: nat
  bf_fields :: "bit_field_def list"
  bf_start_byte :: nat

definition fl_bits :: "field \<Rightarrow> nat" where
  "fl_bits f = nat (fl_bit_length f)"

definition new_bit_field_def :: "field \<Rightarrow> nat \<Rightarrow> bool \<Rightarrow> bit_field_def" where
  "new_bit_field_def f rel_offset is_enum =
     \<lparr>bd_field = f, bd_is_enum = is_enum, bd_rel_offset = rel_offset,
      bd_value_mask = 2 ^ fl_bits f - 1\<rparr>"

definition get_value :: "bit_field_def \<Rightarrow> nat \<Rightarrow> n2k_value result" where
  "get_value d input_word =
     (let value = drop_bit (bd_rel_offset d) input_word AND bd_value_mask d
      in if bd_is_enum d
         then (case get_name (bd_field d) value of
                 Inr s \<Rightarrow> Inr (VStr s)
               | Inl e \<Rightarrow> if e = KeyError then Inr (VInt (int value)) else Inl e)
         else Inr (VInt (int value)))"

text \<open>A field whose offset does not follow the previous one is logged and left out.\<close>

definition bf_add_field :: "field \<Rightarrow> bit_field \<Rightarrow> bit_field result" where
  "bf_add_field f b =
     (if 0 < bf_bit_length b \<and> bf_bit_length b mod 8 = 0 then Inl BitFieldSplitException
      else
        let rel_offset = int (fl_bit_offset f) - int (bf_start_byte b * 8) in
        if int (bf_current_offset b) \<noteq> rel_offset then Inr b
        else Inr (b\<lparr>bf_fields := bf_fields b
                       @ [new_bit_field_def f (nat rel_offset) (is_enum_class (fl_class f))],
                    bf_bit_length := bf_bit_length b + fl_bits f,
                    bf_current_offset := bf_current_offset b + fl_bits f\<rparr>))"

definition new_bit_field :: "field \<Rightarrow> nat \<Rightarrow> bit_field result" where
  "new_bit_field f no =
     bf_add_field f
       \<lparr>bf_name = ''bitfield#'' @ dec_string no, bf_bit_length = 0, bf_byte_length = 0,
        bf_struct = None, bf_current_offset = 0, bf_fields = [], bf_start_byte = fl_start_byte f\<rparr>"

definition bf_finalize :: "bit_field \<Rightarrow> bit_field \<times> unit result" where
  "bf_finalize b =
     (let n = bf_bit_length b div 8 + (if bf_bit_length b mod 8 \<noteq> 0 then 1 else 0);
          b1 = b\<lparr>bf_byte_length := n\<rparr>
      in if n \<notin> {1, 2, 3, 4, 8} then (b1, Inl ValueError)
         else (b1\<lparr>bf_struct := Some n\<rparr>, Inr ()))"

fun bf_store :: "bit_field_def list \<Rightarrow> nat \<Rightarrow> (string, n2k_value) dict
    \<Rightarrow> (string, n2k_value) dict \<times> unit result" where
  "bf_store [] word flds = (flds, Inr ())"
| "bf_store (d # ds) word flds =
     (case get_value d word of
        Inl e \<Rightarrow> (flds, Inl e)
      | Inr v \<Rightarrow> bf_store ds word (dict_set (fl_name (bd_field d)) v flds))"

definition bf_decode ::
    "bit_field \<Rightarrow> bytes \<Rightarrow> nat \<Rightarrow> (string, n2k_value) dict \<Rightarrow> (string, n2k_value) dict \<times> unit result" where
  "bf_decode b data index flds =
     (case bf_struct b of
        None \<Rightarrow> (flds, Inl AttributeError)
      | Some n \<Rightarrow>
          let bs = py_slice data (int index) (int (index + bf_byte_length b)) in
          if length bs \<noteq> n then (flds, Inl StructError)
          else bf_store (bf_fields b) (le_decode bs) flds)"

definition bf_search_field :: "bit_field \<Rightarrow> string \<Rightarrow> field result" where
  "bf_search_field b name =
     (case find (\<lambda>d. fl_name (bd_field d) = name) (bf_fields b) of
        Some d \<Rightarrow> Inr (bd_field d)
      | None \<Rightarrow> Inl KeyError)"

section \<open>The generator\<close>

datatype sub_item = SField field | SBits bit_field

fun item_name :: "sub_item \<Rightarrow> string" where
  "item_name (SField f) = fl_name f"
| "item_name (SBits b) = bf_name b"

record bf_gen =
  bg_items :: "sub_item list"
  bg_open :: bool
  bg_no :: nat

definition new_bf_gen :: bf_gen where
  "new_bf_gen = \<lparr>bg_items = [], bg_open = False, bg_no = 1\<rparr>"

fun last_bits :: "sub_item list \<Rightarrow> bit_field result" where
  "last_bits [] = Inl AttributeError"
| "last_bits [SBits b] = Inr b"
| "last_bits [SField f] = Inl AttributeError"
| "last_bits (x # y # xs) = last_bits (y # xs)"

definition open_bits :: "field \<Rightarrow> bf_gen \<Rightarrow> bf_gen result" where
  "open_bits f g =
     bind_r (new_bit_field f (bg_no g)) (\<lambda>b.
       Inr (g\<lparr>bg_items := bg_items g @ [SBits b], bg_open := True, bg_no := bg_no g + 1\<rparr>))"

definition finalize_last :: "bf_gen \<Rightarrow> bf_gen \<times> unit result" where
  "finalize_last g =
     (case last_bits (bg_items g) of
        Inl e \<Rightarrow> (g, Inl e)
      | Inr b \<Rightarrow>
          (case bf_finalize b of
             (b1, r) \<Rightarrow> (g\<lparr>bg_items := butlast (bg_items g) @ [SBits b1]\<rparr>, r)))"

definition check_bf_add_field :: "field \<Rightarrow> bf_gen \<Rightarrow> bf_gen result" where
  "check_bf_add_field f g =
     (if is_bit_value f then
        if bg_open g then
          bind_r (last_bits (bg_items g)) (\<lambda>b.
            case bf_add_field f b of
              Inr b1 \<Rightarrow> Inr (g\<lparr>bg_items := butlast (bg_items g) @ [SBits b1]\<rparr>)
            | Inl _ \<Rightarrow>
                (case finalize_last g of
                   (g1, Inl e) \<Rightarrow> Inl e
                 | (g1, Inr _) \<Rightarrow> open_bits f g1))
        else open_bits f g
      else if bg_open g then
        (case finalize_last g of
           (g1, Inl e) \<Rightarrow> Inl e
         | (g1, Inr _) \<Rightarrow> Inr (g1\<lparr>bg_open := False, bg_items := bg_items g1 @ [SField f]\<rparr>))
      else Inr (g\<lparr>bg_items := bg_items g @ [SField f]\<rparr>))"

definition check_and_finalize :: "bf_gen \<Rightarrow> bf_gen" where
  "check_and_finalize g = (if bg_open g then fst (finalize_last g) else g)"

fun add_fields :: "field list \<Rightarrow> bf_gen \<Rightarrow> bf_gen result" where
  "add_fields [] g = Inr g"
| "add_fields (f # fs) g = bind_r (check_bf_add_field f g) (add_fields fs)"

section \<open>Lemmas\<close>

text \<open>Well-formed bit fields: the fields follow each other from bit 0, and the masks fit their lengths.\<close>

fun contiguous :: "nat \<Rightarrow> bit_field_def list \<Rightarrow> bool" where
  "contiguous off [] = True"
| "contiguous off (d # ds) \<longleftrightarrow>
     bd_rel_offset d = off \<and> bd_value_mask d = 2 ^ fl_bits (bd_field d) - 1 \<and>
     contiguous (off + fl_bits (bd_field d)) ds"

definition bits_of :: "bit_field_def list \<Rightarrow> nat" where
  "bits_of ds = sum_list (map (fl_bits \<circ> bd_field) ds)"

definition bf_wf :: "bit_field \<Rightarrow> bool" where
  "bf_wf b \<longleftrightarrow> contiguous 0 (bf_fields b) \<and> bf_bit_length b = bits_of (bf_fields b) \<and>
     bf_current_offset b = bf_bit_length b \<and>
     (\<forall>n. bf_struct b = Some n \<longrightarrow> n \<in> {1, 2, 3, 4, 8} \<and> bf_byte_length b = n \<and> bf_bit_length b \<le> 8 * n)"

lemma contiguous_append:
  "contiguous off (ds @ es) \<longleftrightarrow> contiguous off ds \<and> contiguous (off + bits_of ds) es"
  by (induction ds arbitrary: off) (auto simp: bits_of_def add.assoc)

lemma bits_of_simps [simp]:
  "bits_of [] = 0" "bits_of (d # ds) = fl_bits (bd_field d) + bits_of ds"
  "bits_of (ds @ es) = bits_of ds + bits_of es"
  by (simp_all add: bits_of_def)

lemma bf_add_field_wf:
  assumes "bf_add_field f b = Inr b'" "bf_wf b" "bf_struct b = None"
  shows "bf_wf b' \<and> bf_struct b' = None"
  using assms
  by (auto simp: bf_add_field_def bf_wf_def new_bit_field_def_def contiguous_append Let_def split: if_splits)

lemma new_bit_field_wf: "new_bit_field f no = Inr b \<Longrightarrow> bf_wf b \<and> bf_struct b = None"
  unfolding new_bit_field_def
  by (erule bf_add_field_wf) (simp_all add: bf_wf_def)

lemma bf_finalize_wf: "bf_wf b \<Longrightarrow> bf_struct b = None \<Longrightarrow> bf_finalize b = (b', r) \<Longrightarrow> bf_wf b'"
proof -
  assume a: "bf_wf b" "bf_struct b = None" "bf_finalize b = (b', r)"
  have "bf_bit_length b \<le> 8 * (bf_bit_length b div 8 + (if bf_bit_length b mod 8 \<noteq> 0 then 1 else 0))"
    by presburger
  with a show ?thesis by (auto simp: bf_finalize_def bf_wf_def Let_def split: if_splits)
qed

definition item_wf :: "bool \<Rightarrow> sub_item \<Rightarrow> bool" where
  "item_wf is_open i =
     (case i of SField _ \<Rightarrow> \<not> is_open | SBits b \<Rightarrow> bf_wf b \<and> (is_open \<longrightarrow> bf_struct b = None))"

definition gen_wf :: "bf_gen \<Rightarrow> bool" where
  "gen_wf g \<longleftrightarrow> (\<forall>i \<in> set (bg_items g). item_wf False i) \<and>
     (bg_open g \<longrightarrow> bg_items g \<noteq> [] \<and> item_wf True (last (bg_items g)))"

lemma last_bits_wf:
  assumes "gen_wf g" "bg_open g"
  shows "\<exists>b. last_bits (bg_items g) = Inr b \<and> bf_wf b \<and> bf_struct b = None"
proof -
  have "last_bits (xs @ [SBits b]) = Inr b" for xs b
  proof (induction xs)
    case (Cons x xs)
    then show ?case by (cases "xs @ [SBits b]") auto
  qed simp
  moreover obtain b where "last (bg_items g) = SBits b" "bf_wf b" "bf_struct b = None" "bg_items g \<noteq> []"
    using assms by (auto simp: gen_wf_def item_wf_def split: sub_item.splits)
  ultimately show ?thesis by (metis append_butlast_last_id)
qed

lemma gen_items_butlast: "gen_wf g \<Longrightarrow> i \<in> set (butlast (bg_items g)) \<Longrightarrow> item_wf False i"
  by (auto simp: gen_wf_def dest: in_set_butlastD)

lemma finalize_last_wf:
  assumes "gen_wf g" "bg_open g" "finalize_last g = (g', r)"
  shows "gen_wf (g'\<lparr>bg_open := False\<rparr>)"
proof -
  obtain b where b: "last_bits (bg_items g) = Inr b" "bf_wf b" "bf_struct b = None"
    using last_bits_wf assms by blast
  obtain b1 r1 where f: "bf_finalize b = (b1, r1)" by fastforce
  then have "item_wf False (SBits b1)" using bf_finalize_wf b by (auto simp: item_wf_def)
  with assms b f gen_items_butlast [OF assms(1)] show ?thesis
    by (auto simp: finalize_last_def gen_wf_def)
qed

lemma open_bits_wf:
  assumes "gen_wf (g\<lparr>bg_open := False\<rparr>)" "open_bits f g = Inr g'"
  shows "gen_wf g'"
  using assms new_bit_field_wf [of f "bg_no g"]
  by (auto simp: open_bits_def bind_r_Inr_iff gen_wf_def item_wf_def)

lemma check_bf_add_field_wf:
  assumes "gen_wf g" "check_bf_add_field f g = Inr g'"
  shows "gen_wf g'"
proof (cases "bg_open g")
  case False
  then have "gen_wf (g\<lparr>bg_open := False\<rparr>)" using assms(1) by (simp add: gen_wf_def)
  with False assms open_bits_wf show ?thesis
    by (auto simp: check_bf_add_field_def gen_wf_def item_wf_def split: if_splits)
next
  case True
  obtain b where b: "last_bits (bg_items g) = Inr b" "bf_wf b" "bf_struct b = None"
    using last_bits_wf [OF assms(1) True] by blast
  obtain g1 r where f: "finalize_last g = (g1, r)" by fastforce
  note wf1 = finalize_last_wf [OF assms(1) True f]
  show ?thesis
  proof (cases "is_bit_value f")
    case False
    with True assms(2) f wf1 show ?thesis
      by (auto simp: check_bf_add_field_def gen_wf_def item_wf_def split: sum.splits)
  next
    case True': True
    show ?thesis
    proof (cases "bf_add_field f b")
      case (Inl e)
      with True True' assms(2) f b wf1 open_bits_wf show ?thesis
        by (auto simp: check_bf_add_field_def split: sum.splits)
    next
      case (Inr b1)
      with True True' assms b gen_items_butlast [OF assms(1)] bf_add_field_wf [OF Inr b(2,3)] show ?thesis
        by (auto simp: check_bf_add_field_def gen_wf_def item_wf_def)
    qed
  qed
qed

lemma add_fields_wf: "add_fields fs g = Inr g' \<Longrightarrow> gen_wf g \<Longrightarrow> gen_wf g'"
  by (induction fs arbitrary: g) (auto simp: bind_r_Inr_iff check_bf_add_field_wf)

lemma check_and_finalize_wf: "gen_wf g \<Longrightarrow> \<forall>i \<in> set (bg_items (check_and_finalize g)). item_wf False i"
  using finalize_last_wf [of g "fst (finalize_last g)" "snd (finalize_last g)"]
  by (cases "bg_open g") (auto simp: check_and_finalize_def gen_wf_def)

lemma gen_wf_new [simp]: "gen_wf new_bf_gen"
  by (simp add: gen_wf_def new_bf_gen_def)

text \<open>Packing the values of consecutive fields into a word.\<close>

fun bf_pack :: "(nat \<times> nat) list \<Rightarrow> nat" where
  "bf_pack [] = 0"
| "bf_pack ((len, v) # lvs) = v + 2 ^ len * bf_pack lvs"

lemma get_raw:
  assumes "(v :: nat) < 2 ^ len" "word = low + 2 ^ off * (v + 2 ^ len * high)" "low < 2 ^ off"
  shows "drop_bit off word AND (2 ^ len - 1) = v"
proof -
  have "drop_bit off word = v + 2 ^ len * high"
    using assms(2,3) by (simp add: drop_bit_eq_div)
  moreover have "(2 :: nat) ^ len - 1 = mask len" by (simp add: mask_eq_exp_minus_1)
  ultimately show ?thesis using assms(1) by (simp add: and_mask_mod)
qed

text \<open>The value a bit field delivers for a raw number.\<close>

definition shown :: "bit_field_def \<Rightarrow> nat \<Rightarrow> n2k_value" where
  "shown d v =
     (if bd_is_enum d then (case get_name (bd_field d) v of Inr s \<Rightarrow> VStr s | Inl _ \<Rightarrow> VInt (int v))
      else VInt (int v))"

definition has_names :: "bit_field_def \<Rightarrow> bool" where
  "has_names d \<longleftrightarrow> (bd_is_enum d \<longrightarrow> fl_pairs (bd_field d) \<noteq> None)"

lemma bf_store_pack:
  assumes "contiguous off ds" "list_all2 (\<lambda>d v. v < 2 ^ fl_bits (bd_field d)) ds vs" "low < 2 ^ off"
    and "word = low + 2 ^ off * (bf_pack (zip (map (\<lambda>d. fl_bits (bd_field d)) ds) vs) + 2 ^ bits_of ds * high)"
    and "\<forall>d \<in> set ds. has_names d"
  shows "bf_store ds word flds
    = (fold (\<lambda>(d, v). dict_set (fl_name (bd_field d)) (shown d v)) (zip ds vs) flds, Inr ())"
  using assms
proof (induction ds arbitrary: off vs low flds)
  case (Cons d ds)
  let ?l = "fl_bits (bd_field d)"
  obtain v vs' where vs: "vs = v # vs'" "v < 2 ^ ?l" "list_all2 (\<lambda>d v. v < 2 ^ fl_bits (bd_field d)) ds vs'"
    using Cons.prems(2) by (auto simp: list_all2_Cons1)
  let ?rest = "bf_pack (zip (map (\<lambda>d. fl_bits (bd_field d)) ds) vs') + 2 ^ bits_of ds * high"
  have word: "word = low + 2 ^ off * (v + 2 ^ ?l * ?rest)"
    using Cons.prems(4) vs(1) by (simp add: algebra_simps power_add)
  have "get_value d word = Inr (shown d v)"
    using get_raw [OF vs(2) word Cons.prems(3)] Cons.prems(1,5)
    by (auto simp: get_value_def shown_def get_name_def has_names_def split: option.splits)
  moreover have "low + 2 ^ off * v < 2 ^ (off + ?l)"
  proof -
    have "low + 2 ^ off * v < 2 ^ off * (v + 1)" using Cons.prems(3) by simp
    also have "\<dots> \<le> 2 ^ off * 2 ^ ?l" using vs(2) by (intro mult_le_mono2) simp
    finally show ?thesis by (simp add: power_add)
  qed
  moreover have "word = (low + 2 ^ off * v) + 2 ^ (off + ?l) * ?rest"
    using word by (simp add: algebra_simps power_add)
  ultimately show ?case
    using Cons.IH [of "off + ?l" vs' "low + 2 ^ off * v"] Cons.prems(1,5) vs by simp
qed simp

lemma bf_pack_bound:
  "list_all2 (\<lambda>d v. v < 2 ^ fl_bits (bd_field d)) ds vs
     \<Longrightarrow> bf_pack (zip (map (\<lambda>d. fl_bits (bd_field d)) ds) vs) < 2 ^ bits_of ds"
proof (induction ds vs rule: list_all2_induct)
  case (Cons d ds v vs)
  let ?p = "bf_pack (zip (map (\<lambda>d. fl_bits (bd_field d)) ds) vs)" and ?l = "fl_bits (bd_field d)"
  have "v + 2 ^ ?l * ?p < 2 ^ ?l * (?p + 1)" using Cons.hyps(1) by simp
  also have "\<dots> \<le> 2 ^ ?l * 2 ^ bits_of ds" using Cons.IH by (intro mult_le_mono2) simp
  finally show ?case by (simp add: power_add)
qed simp

section \<open>Properties\<close>


definition sample_bit_fields :: "field list" where
  "sample_bit_fields =
    [\<lparr>fl_class = UIntField, fl_name = ''Code'', fl_bit_offset = 0, fl_bit_length = 11, fl_start_byte = 0,
      fl_end_byte = 2, fl_rel_bit = 0, fl_byte_length = 2, fl_variable_length = False,
      fl_description = None, fl_scale = None, fl_offset = None, fl_coder = Some (CoderUnsigned 2),
      fl_pairs = Some []\<rparr>,
     \<lparr>fl_class = EnumField, fl_name = ''Industry'', fl_bit_offset = 11, fl_bit_length = 5, fl_start_byte = 1,
      fl_end_byte = 2, fl_rel_bit = 3, fl_byte_length = 1, fl_variable_length = False,
      fl_description = None, fl_scale = None, fl_offset = None, fl_coder = Some (CoderUnsigned 1),
      fl_pairs = Some [(4, ''Marine'')]\<rparr>]"


end
