(* ===== verification/PgnCodec.thy ===== *)
theory PgnCodec
  imports BitFields PgnDefs
begin

text \<open>
  Repeated field sets (class \<^verbatim>\<open>RepeatedFieldSet\<close> of \<^verbatim>\<open>nmea2k_fielddefs.py\<close>) and the part of
  \<^verbatim>\<open>nmea2k_pgn_definition.py\<close> that works on the fields of a PGN: building them from the XML elements,
  \<^verbatim>\<open>decode_pgn_data\<close> and \<^verbatim>\<open>encode_payload\<close>. A decoding returns the dictionary of fields it filled
  together with the exception that escaped, if one did.
\<close>

section \<open>Repeated field sets\<close>

record rep_set =
  rp_name :: string
  rp_count :: string
  rp_subfields :: "(string, sub_item) dict"

datatype item = ISub sub_item | ISet rep_set

fun map_r :: "('a \<Rightarrow> 'b result) \<Rightarrow> 'a list \<Rightarrow> 'b list result" where
  "map_r f [] = Inr []"
| "map_r f (x # xs) = bind_r (f x) (\<lambda>y. bind_r (map_r f xs) (\<lambda>ys. Inr (y # ys)))"

definition new_rep_set :: "string \<Rightarrow> string \<Rightarrow> field_xml list \<Rightarrow> rep_set result" where
  "new_rep_set name count xs =
     bind_r (map_r new_field xs) (\<lambda>fs.
     bind_r (add_fields fs new_bf_gen) (\<lambda>g.
       Inr \<lparr>rp_name = name, rp_count = count,
            rp_subfields = fold (\<lambda>i. dict_set (item_name i) i) (bg_items (check_and_finalize g)) []\<rparr>))"

text \<open>The state of the loop over the sets: start and end of the field, length so far, values so far.\<close>

type_synonym rep_state = "nat \<times> nat \<times> nat \<times> (string \<times> n2k_value) list"

fun rep_decode_set :: "sub_item list \<Rightarrow> bytes \<Rightarrow> rep_state \<Rightarrow> rep_state result" where
  "rep_decode_set [] payload s = Inr s"
| "rep_decode_set (SBits b # is) payload s = Inl AttributeError"
| "rep_decode_set (SField f # is) payload (start, stop, len, vals) =
     (let stop1 = (if fl_byte_length f \<noteq> 0 then start + fl_byte_length f else stop)
      in if length payload < stop1 then Inl N2KDecodeEOLException
         else case decode_value f payload start stop1 of
                Inl e \<Rightarrow> Inl e
              | Inr (None, _) \<Rightarrow> Inl AttributeError
              | Inr (Some r, stop2) \<Rightarrow>
                  let vals1 = (if rs_valid r then vals @ [(rs_name r, rs_value r)] else vals)
                  in if rs_increment r
                     then rep_decode_set is payload (start + rs_length r, stop2, len + rs_length r, vals1)
                     else rep_decode_set is payload (start, stop2, len, vals1))"

fun rep_decode_sets :: "nat \<Rightarrow> sub_item list \<Rightarrow> bytes \<Rightarrow> rep_state \<Rightarrow> rep_state result" where
  "rep_decode_sets 0 is payload s = Inr s"
| "rep_decode_sets (Suc n) is payload s =
     bind_r (rep_decode_set is payload s) (rep_decode_sets n is payload)"

text \<open>How many times \<^verbatim>\<open>while decoded_set < nb_set\<close> turns: a number compares, anything else raises.\<close>

fun set_count :: "n2k_value option \<Rightarrow> nat result" where
  "set_count None = Inr 0"
| "set_count (Some (VInt n)) = Inr (nat n)"
| "set_count (Some (VReal x)) = Inr (if x < 1 then 0 else nat \<lceil>x\<rceil>)"
| "set_count (Some v) = Inl TypeError"

definition rep_decode ::
    "rep_set \<Rightarrow> bytes \<Rightarrow> nat \<Rightarrow> (string, n2k_value) dict \<Rightarrow> decode_result result" where
  "rep_decode p payload index flds =
     bind_r (set_count (dict_get flds (rp_count p))) (\<lambda>nb_set.
       if nb_set < 1 then Inr ((new_result (rp_name p))\<lparr>rs_valid := False\<rparr>)
       else bind_r (rep_decode_sets nb_set (map snd (rp_subfields p)) payload (index, 0, 0, []))
              (\<lambda>(start, stop, len, vals).
                 Inr ((new_result (rp_name p))\<lparr>rs_value := VList vals, rs_length := len\<rparr>)))"

section \<open>Building the fields of a PGN\<close>

datatype xml_item = XField field_xml | XUnknownField | XSet string string "field_xml list"

fun search_item :: "string \<Rightarrow> item list \<Rightarrow> sub_item result" where
  "search_item name [] = Inl KeyError"
| "search_item name (ISub (SBits b) # is) =
     (case bf_search_field b name of Inr f \<Rightarrow> Inr (SField f) | Inl _ \<Rightarrow> search_item name is)"
| "search_item name (ISet p # is) =
     (case dict_get (rp_subfields p) name of Some i \<Rightarrow> Inr i | None \<Rightarrow> search_item name is)"
| "search_item name (ISub (SField f) # is) =
     (if fl_name f = name then Inr (SField f) else search_item name is)"

text \<open>The loop over the elements: the generator so far; it ends with the first repeated set, whose count
  must name a field of the PGN. Any error in a field's constructor becomes N2KDefinitionError.\<close>

fun build_items :: "xml_item list \<Rightarrow> bf_gen \<Rightarrow> item list result" where
  "build_items [] g = Inr (map ISub (bg_items (check_and_finalize g)))"
| "build_items (XUnknownField # xs) g = build_items xs g"
| "build_items (XField x # xs) g =
     (case new_field x of
        Inl _ \<Rightarrow> Inl N2KDefinitionError
      | Inr f \<Rightarrow> bind_r (check_bf_add_field f g) (build_items xs))"
| "build_items (XSet name count fs # xs) g =
     bind_r (new_rep_set name count fs) (\<lambda>p.
     bind_r (search_item count (map ISub (bg_items g) @ [ISet p])) (\<lambda>i.
       case i of
         SBits _ \<Rightarrow> Inl AttributeError
       | SField _ \<Rightarrow> Inr (map ISub (bg_items (check_and_finalize g)) @ [ISet p])))"

definition find_manufacturer :: "(string \<Rightarrow> nat option) \<Rightarrow> item list \<Rightarrow> nat result" where
  "find_manufacturer by_key items =
     (case search_item ''Manufacturer Code'' items of
        Inr (SField f) \<Rightarrow>
          (case fl_description f of
             None \<Rightarrow> Inl N2KDefinitionError
           | Some name \<Rightarrow> (case by_key name of Some code \<Rightarrow> Inr code | None \<Rightarrow> Inl N2KDefinitionError))
      | _ \<Rightarrow> Inl N2KDefinitionError)"

definition build_pgn ::
    "(string \<Rightarrow> nat option) \<Rightarrow> pgn_xml \<Rightarrow> xml_item list option \<Rightarrow> item pgn_def result" where
  "build_pgn by_key xml xml_fields =
     bind_r (pgn_header xml) (\<lambda>d.
     case xml_fields of
       None \<Rightarrow> Inr d
     | Some xs \<Rightarrow>
         bind_r (build_items xs new_bf_gen) (\<lambda>items.
           let d1 = d\<lparr>pd_field_list := items\<rparr> in
           if pd_proprietary d
           then bind_r (find_manufacturer by_key items) (\<lambda>m. Inr (d1\<lparr>pd_manufacturer_id := Some m\<rparr>))
           else Inr d1))"

section \<open>Decoding\<close>

type_synonym field_dict = "(string, n2k_value) dict"

text \<open>The three exception handlers of the loop: go on, stop, or let it escape.\<close>

datatype after = Continue | Break | Escape

definition handler :: "py_error \<Rightarrow> after" where
  "handler e =
     (if e = N2KMissingEnumKeyException then Continue
      else if e = N2KDecodeEOLException then Break
      else if e = N2KDecodeException then Continue else Escape)"

definition store_result :: "decode_result \<Rightarrow> nat \<Rightarrow> field_dict \<Rightarrow> nat \<times> field_dict" where
  "store_result r index flds =
     (let index1 = (if rs_increment r then index + rs_length r else index)
      in if rs_name r = ''Reserved'' then (index1, flds)
         else if rs_valid r then (index1, dict_set (rs_name r) (rs_value r) flds)
         else (index1, flds))"

fun decode_items :: "item list \<Rightarrow> bytes \<Rightarrow> nat \<Rightarrow> field_dict \<Rightarrow> field_dict \<times> unit result" where
  "decode_items [] data index flds = (flds, Inr ())"
| "decode_items (ISub (SBits b) # is) data index flds =
     (case bf_decode b data index flds of
        (flds1, Inr _) \<Rightarrow> decode_items is data index flds1
      | (flds1, Inl e) \<Rightarrow>
          (case handler e of
             Continue \<Rightarrow> decode_items is data index flds1
           | Break \<Rightarrow> (flds1, Inr ())
           | Escape \<Rightarrow> (flds1, Inl e)))"
| "decode_items (ISub (SField f) # is) data index flds =
     (case field_decode f data index of
        Inr r \<Rightarrow> (case store_result r index flds of (index1, flds1) \<Rightarrow> decode_items is data index1 flds1)
      | Inl e \<Rightarrow>
          (case handler e of
             Continue \<Rightarrow> decode_items is data index flds
           | Break \<Rightarrow> (flds, Inr ())
           | Escape \<Rightarrow> (flds, Inl e)))"
| "decode_items (ISet p # is) data index flds =
     (case rep_decode p data index flds of
        Inr r \<Rightarrow> (case store_result r index flds of (index1, flds1) \<Rightarrow> decode_items is data index1 flds1)
      | Inl e \<Rightarrow>
          (case handler e of
             Continue \<Rightarrow> decode_items is data index flds
           | Break \<Rightarrow> (flds, Inr ())
           | Escape \<Rightarrow> (flds, Inl e)))"

definition decode_pgn_data :: "item pgn_def \<Rightarrow> bytes \<Rightarrow> field_dict result" where
  "decode_pgn_data d data =
     (case decode_items (pd_field_list d) data 0 [] of
        (flds, Inr _) \<Rightarrow> Inr flds
      | (flds, Inl e) \<Rightarrow> Inl e)"

section \<open>Encoding\<close>

text \<open>Bit fields and repeated sets have neither \<^verbatim>\<open>encode_value\<close> nor \<^verbatim>\<open>no_value\<close>.\<close>

fun encode_items ::
    "item list \<Rightarrow> field_dict \<Rightarrow> nat \<Rightarrow> bytes \<Rightarrow> nat \<Rightarrow> (bytes \<times> nat) result" where
  "encode_items [] flds blen buffer index = Inr (buffer, index)"
| "encode_items (ISub (SField f) # is) flds blen buffer index =
     bind_r (case dict_get flds (fl_name f) of
               Some v \<Rightarrow> Inr v
             | None \<Rightarrow> map_sum id VInt (no_value f)) (\<lambda>v.
     bind_r (field_encode f v buffer index) (\<lambda>(buffer1, n).
       if blen < index + n then Inl N2KDecodeException
       else encode_items is flds blen buffer1 (index + n)))"
| "encode_items (_ # is) flds blen buffer index = Inl AttributeError"

definition encode_payload :: "item pgn_def \<Rightarrow> field_dict \<Rightarrow> bytes result" where
  "encode_payload d flds =
     (let blen = (if pd_variable_length d then 272 else nat (pd_byte_length d))
      in bind_r (encode_items (pd_field_list d) flds blen (replicate blen 0) 0) (\<lambda>(buffer, index).
           Inr (take index buffer)))"

section \<open>Lemmas\<close>

lemma dict_set_new: "k \<notin> fst ` set d \<Longrightarrow> dict_set k v d = d @ [(k, v)]"
  by (induction d) auto

text \<open>Fields laid out one after the other.\<close>

fun laid_out :: "nat \<Rightarrow> field list \<Rightarrow> bool" where
  "laid_out index [] = True"
| "laid_out index (f # fs) \<longleftrightarrow> at_index f index \<and> laid_out (index + fl_byte_length f) fs"

definition fields_size :: "field list \<Rightarrow> nat" where
  "fields_size fs = sum_list (map fl_byte_length fs)"

lemma fields_size_simps [simp]:
  "fields_size [] = 0" "fields_size (f # fs) = fl_byte_length f + fields_size fs"
  by (simp_all add: fields_size_def)

lemma encode_decode_items:
  assumes "laid_out index fs" "list_all2 (\<lambda>f (v, w). carries f v w) fs vws"
    and "index + fields_size fs \<le> blen" "length buffer = blen"
    and "\<forall>(f, v, w) \<in> set (zip fs vws). dict_get flds (fl_name f) = Some v"
    and "distinct (map fl_name fs)" "''Reserved'' \<notin> fl_name ` set fs"
  shows "\<exists>out. encode_items (map (ISub \<circ> SField) fs) flds blen buffer index
      = Inr (out, index + fields_size fs) \<and> length out = blen \<and> take index out = take index buffer
    \<and> (\<forall>payload acc. index + fields_size fs \<le> length payload
         \<longrightarrow> take (index + fields_size fs) payload = take (index + fields_size fs) out
         \<longrightarrow> fst ` set acc \<inter> fl_name ` set fs = {}
         \<longrightarrow> decode_items (map (ISub \<circ> SField) fs) payload index acc
             = (acc @ zip (map fl_name fs) (map snd vws), Inr ()))"
  using assms
proof (induction fs arbitrary: vws index buffer)
  case Nil
  then show ?case by simp
next
  case (Cons f fs)
  obtain v w vws' where vws: "vws = (v, w) # vws'" "carries f v w"
    "list_all2 (\<lambda>f (v, w). carries f v w) fs vws'"
    using Cons.prems(2) by (auto simp: list_all2_Cons1)
  let ?n = "fl_byte_length f"
  have room: "index + ?n \<le> length buffer" and at: "at_index f index" using Cons.prems by simp_all
  from field_roundtrip [OF vws(2) room at] obtain bs where bs: "length bs = ?n"
    "field_encode f v buffer index = Inr (take index buffer @ bs @ drop (index + ?n) buffer, ?n)"
    "\<And>payload. index + ?n \<le> length payload \<Longrightarrow> take ?n (drop index payload) = bs \<Longrightarrow>
       field_decode f payload index
         = Inr \<lparr>rs_length = ?n, rs_name = fl_name f, rs_valid = True, rs_value = w, rs_increment = True\<rparr>"
    by blast
  let ?b = "take index buffer @ bs @ drop (index + ?n) buffer"
  have len: "length ?b = blen" using Cons.prems(4) bs(1) room by simp
  have pre: "take (index + ?n) ?b = take index buffer @ bs" using bs(1) room by simp
  have ih: "laid_out (index + ?n) fs" "index + ?n + fields_size fs \<le> blen"
    "\<forall>(f, v, w) \<in> set (zip fs vws'). dict_get flds (fl_name f) = Some v"
    "distinct (map fl_name fs)" "''Reserved'' \<notin> fl_name ` set fs"
    using Cons.prems vws(1) by simp_all
  obtain out where out: "encode_items (map (ISub \<circ> SField) fs) flds blen ?b (index + ?n)
      = Inr (out, index + ?n + fields_size fs)" "length out = blen"
    "take (index + ?n) out = take (index + ?n) ?b"
    "\<And>payload acc. index + ?n + fields_size fs \<le> length payload \<Longrightarrow>
       take (index + ?n + fields_size fs) payload = take (index + ?n + fields_size fs) out \<Longrightarrow>
       fst ` set acc \<inter> fl_name ` set fs = {} \<Longrightarrow>
       decode_items (map (ISub \<circ> SField) fs) payload (index + ?n) acc
         = (acc @ zip (map fl_name fs) (map snd vws'), Inr ())"
    using Cons.IH [OF ih(1) vws(3) ih(2) len ih(3-5)] by blast
  have "take index out = take index (take (index + ?n) out)" by simp
  also have "\<dots> = take index buffer" unfolding out(3) pre using room by simp
  finally have tk: "take index out = take index buffer" .
  have bs_out: "take ?n (drop index out) = bs"
  proof -
    have "take ?n (drop index out) = drop index (take (index + ?n) out)"
      by (simp add: take_drop add.commute)
    also have "\<dots> = bs" unfolding out(3) pre using room by simp
    finally show ?thesis .
  qed
  have dec: "decode_items (map (ISub \<circ> SField) (f # fs)) payload index acc
      = (acc @ zip (map fl_name (f # fs)) (map snd vws), Inr ())"
    if p: "index + fields_size (f # fs) \<le> length payload"
      "take (index + fields_size (f # fs)) payload = take (index + fields_size (f # fs)) out"
      "fst ` set acc \<inter> fl_name ` set (f # fs) = {}" for payload acc
  proof -
    have "take ?n (drop index payload) = take ?n (drop index out)"
    proof -
      have "take (index + ?n) payload = take (index + ?n) (take (index + fields_size (f # fs)) payload)"
        by simp
      also have "\<dots> = take (index + ?n) out" unfolding p(2) by simp
      finally have "drop index (take (index + ?n) payload) = drop index (take (index + ?n) out)" by simp
      then show ?thesis by (simp add: drop_take)
    qed
    with bs_out have "take ?n (drop index payload) = bs" by simp
    with bs(3) [of payload] p(1) have "field_decode f payload index
        = Inr \<lparr>rs_length = ?n, rs_name = fl_name f, rs_valid = True, rs_value = w, rs_increment = True\<rparr>"
      by simp
    moreover have "dict_set (fl_name f) w acc = acc @ [(fl_name f, w)]"
      using p(3) by (intro dict_set_new) auto
    moreover have "fl_name f \<noteq> ''Reserved''" using Cons.prems(7) by auto
    moreover have "decode_items (map (ISub \<circ> SField) fs) payload (index + ?n) (acc @ [(fl_name f, w)])
        = ((acc @ [(fl_name f, w)]) @ zip (map fl_name fs) (map snd vws'), Inr ())"
      using p Cons.prems(6) by (intro out(4)) (auto simp: add.assoc)
    ultimately show ?thesis using vws(1) by (simp add: store_result_def)
  qed
  have "dict_get flds (fl_name f) = Some v" using Cons.prems(5) vws(1) by simp
  with bs(2) out(1) Cons.prems(3) have "encode_items (map (ISub \<circ> SField) (f # fs)) flds blen buffer index
      = Inr (out, index + fields_size (f # fs))"
    by (simp add: add.assoc)
  with out(2) tk dec show ?case by blast
qed

lemma decode_items_sfields:
  "\<forall>i \<in> set items. \<exists>f. i = ISub (SField f) \<Longrightarrow> snd (decode_items items data index flds) = Inr ()"
proof (induction items arbitrary: index flds)
  case (Cons i items)
  then obtain f where "i = ISub (SField f)" by auto
  with Cons show ?case
    using field_decode_errors [of f data index]
    by (auto simp: handler_def split: sum.splits prod.splits)
qed simp

text \<open>Two adjacent bit fields of the same length: the second is read where the first one lies.\<close>

lemma decode_two_bits:
  assumes "bf_struct b1 = Some n" "bf_struct b2 = Some n" "bf_byte_length b1 = n" "bf_byte_length b2 = n"
    and "n \<le> length data" "bf_store (bf_fields b1) (le_decode (take n data)) flds = (flds1, Inr ())"
    and "bf_store (bf_fields b2) (le_decode (take n data)) flds1 = (flds2, Inr ())"
  shows "decode_items [ISub (SBits b1), ISub (SBits b2)] data 0 flds = (flds2, Inr ())"
proof -
  have "py_slice data 0 (int n) = take n data" by (simp add: py_slice_to_nonneg)
  with assms show ?thesis by (simp add: bf_decode_def)
qed

section \<open>Properties\<close>

text \<open>C9. Round trip of a payload: for a definition made of number fields laid out one after the other
  (unsigned, signed, enumerated and scaled ones, with distinct names), \<^verbatim>\<open>encode_payload\<close> of a dictionary
  whose values its coders carry gives a payload of the total length, and \<^verbatim>\<open>decode_pgn_data\<close> reads back
  every field, in order, with the value the field shows for what was encoded.\<close>

theorem pgn_payload_roundtrip:
  assumes "pd_field_list d = map (ISub \<circ> SField) fs" "laid_out 0 fs"
    and "list_all2 (\<lambda>f (v, w). carries f v w) fs vws"
    and "fields_size fs \<le> (if pd_variable_length d then 272 else nat (pd_byte_length d))"
    and "\<forall>(f, v, w) \<in> set (zip fs vws). dict_get flds (fl_name f) = Some v"
    and "distinct (map fl_name fs)" "''Reserved'' \<notin> fl_name ` set fs"
  shows "\<exists>data. encode_payload d flds = Inr data \<and> length data = fields_size fs
    \<and> decode_pgn_data d data = Inr (zip (map fl_name fs) (map snd vws))"
proof -
  let ?n = "if pd_variable_length d then 272 else nat (pd_byte_length d)"
  obtain out where out: "encode_items (map (ISub \<circ> SField) fs) flds ?n (replicate ?n 0) 0
      = Inr (out, fields_size fs)" "length out = ?n"
    "\<And>payload acc. fields_size fs \<le> length payload \<Longrightarrow>
       take (fields_size fs) payload = take (fields_size fs) out \<Longrightarrow>
       fst ` set acc \<inter> fl_name ` set fs = {} \<Longrightarrow>
       decode_items (map (ISub \<circ> SField) fs) payload 0 acc
         = (acc @ zip (map fl_name fs) (map snd vws), Inr ())"
    using encode_decode_items [OF assms(2,3) _ length_replicate assms(5-7), of ?n 0] assms(4)
    by (auto simp del: if_split)
  have "encode_payload d flds = Inr (take (fields_size fs) out)"
    using out(1) assms(1) by (simp add: encode_payload_def Let_def)
  moreover have "decode_items (map (ISub \<circ> SField) fs) (take (fields_size fs) out) 0 []
      = (zip (map fl_name fs) (map snd vws), Inr ())"
    using out(3) [of "take (fields_size fs) out" "[]"] out(2) assms(4) by simp
  ultimately show ?thesis using assms(1,4) out(2) by (auto simp: decode_pgn_data_def)
qed

definition number_field :: "field_class \<Rightarrow> string \<Rightarrow> nat \<Rightarrow> nat \<Rightarrow> value_coder \<Rightarrow> real option \<Rightarrow> field" where
  "number_field c name start len coder scale =
     \<lparr>fl_class = c, fl_name = name, fl_bit_offset = 8 * start, fl_bit_length = int (8 * len),
      fl_start_byte = start, fl_end_byte = start + len, fl_rel_bit = 0, fl_byte_length = len,
      fl_variable_length = False, fl_description = None, fl_scale = scale, fl_offset = None,
      fl_coder = Some coder, fl_pairs = Some []\<rparr>"

definition sample_pgn :: "item list \<Rightarrow> item pgn_def" where
  "sample_pgn items =
     \<lparr>pd_id = 127250, pd_name = ''Sample'', pd_generate = False, pd_flags = None, pd_pdu_type = PDU2,
      pd_range = pgn_ranges ! 7, pd_proprietary = False, pd_manufacturer_id = None, pd_byte_length = 8,
      pd_variable_length = False, pd_fast_packet = False, pd_field_list = items\<rparr>"

theorem pgn_payload_roundtrip_witness:
  "\<exists>data. encode_payload (sample_pgn [ISub (SField (number_field UIntField ''SID'' 0 1 (CoderUnsigned 1) None)),
        ISub (SField (number_field DblField ''Heading'' 1 2 (CoderSigned 2) (Some (1 / 2))))])
      [(''Heading'', VReal 10), (''SID'', VInt 7)] = Inr data \<and> length data = 3
    \<and> decode_pgn_data (sample_pgn [ISub (SField (number_field UIntField ''SID'' 0 1 (CoderUnsigned 1) None)),
        ISub (SField (number_field DblField ''Heading'' 1 2 (CoderSigned 2) (Some (1 / 2))))]) data
      = Inr [(''SID'', VInt 7), (''Heading'', VReal 10)]"
proof -
  let ?f = "number_field UIntField ''SID'' 0 1 (CoderUnsigned 1) None"
  let ?g = "number_field DblField ''Heading'' 1 2 (CoderSigned 2) (Some (1 / 2))"
  have c1: "carries ?f (VInt 7) (VInt 7)"
    by (simp add: carries_def number_field_def invalid_value_def)
  have "py_round (10 / (1 / 2)) = 20" using py_round_of_int [of 20] by simp
  then have c2: "carries ?g (VReal 10) (VReal 10)"
    unfolding carries_def
    by (intro exI [of _ "CoderSigned 2"] exI [of _ 20])
      (simp add: number_field_def max_value_def convert_to_int_def apply_scale_offset_def)
  have "\<exists>data. encode_payload (sample_pgn (map (ISub \<circ> SField) [?f, ?g])) [(''Heading'', VReal 10), (''SID'', VInt 7)]
        = Inr data \<and> length data = fields_size [?f, ?g]
    \<and> decode_pgn_data (sample_pgn (map (ISub \<circ> SField) [?f, ?g])) data
      = Inr (zip (map fl_name [?f, ?g]) (map snd [(VInt 7, VInt 7), (VReal 10, VReal 10)]))"
    by (rule pgn_payload_roundtrip) (use c1 c2 in \<open>simp_all add: sample_pgn_def number_field_def at_index_def\<close>)
  moreover have "fields_size [?f, ?g] = 3" "fl_name ?f = ''SID''" "fl_name ?g = ''Heading''"
    by (simp_all add: number_field_def)
  ultimately show ?thesis by (simp del: fields_size_simps)
qed

text \<open>Precision of the scaled fields: a real that fits the field comes back from encoding and decoding
  within half a step of the scale.\<close>

theorem float_field_precision:
  assumes "fl_class f \<in> {DblField, UDblField}" "fl_scale f = Some s" "0 < s"
    and "fl_coder f = Some c" "coder_length c = fl_byte_length f" "0 < fl_byte_length f"
    and "convert_to_int f x = Inr i" "coder_valid c i"
    and "index + fl_byte_length f \<le> length buffer" "at_index f index"
    and "field_encode f (VReal x) buffer index = Inr (out, n)"
  shows "\<exists>r y. field_decode f out index = Inr r \<and> rs_valid r \<and> rs_value r = VReal y \<and> \<bar>y - x\<bar> \<le> s / 2"
proof -
  let ?y = "apply_scale_offset f (of_int i)"
  have "carries f (VReal x) (VReal ?y)"
    using assms(1,4-8) by (auto simp: carries_def)
  from field_roundtrip [OF this assms(9,10)] obtain bs where bs: "length bs = fl_byte_length f"
    "field_encode f (VReal x) buffer index
       = Inr (take index buffer @ bs @ drop (index + fl_byte_length f) buffer, fl_byte_length f)"
    "\<And>payload. index + fl_byte_length f \<le> length payload \<Longrightarrow> take (fl_byte_length f) (drop index payload) = bs \<Longrightarrow>
       field_decode f payload index
         = Inr \<lparr>rs_length = fl_byte_length f, rs_name = fl_name f, rs_valid = True, rs_value = VReal ?y,
                rs_increment = True\<rparr>" by blast
  have "out = take index buffer @ bs @ drop (index + fl_byte_length f) buffer"
    using bs(2) assms(11) by simp
  with bs(1) bs(3) [of out] assms(9) quantisation_error [OF assms(2,3,7)] show ?thesis by simp
qed

theorem float_field_precision_witness:
  "\<exists>r y. field_decode (number_field UDblField ''Speed'' 0 2 (CoderUnsigned 2) (Some (1 / 100))) [0xF6, 0x01] 0 = Inr r
     \<and> rs_valid r \<and> rs_value r = VReal y \<and> \<bar>y - 5.017\<bar> \<le> 1 / 100 / 2"
proof -
  let ?f = "number_field UDblField ''Speed'' 0 2 (CoderUnsigned 2) (Some (1 / 100))"
  have "py_round (5.017 / (1 / 100)) = 502" by (rule py_round_near) simp
  then have conv: "convert_to_int ?f 5.017 = Inr 502"
    by (simp add: convert_to_int_def number_field_def)
  then have enc: "field_encode ?f (VReal 5.017) [0, 0] 0 = Inr ([0xF6, 0x01], 2)"
    by (subst field_encode_float)
      (auto simp: number_field_def pack_into_def le_encode_small)
  show ?thesis
    by (rule float_field_precision [where c = "CoderUnsigned 2", OF _ _ _ _ _ _ conv _ _ _ enc])
      (simp_all add: number_field_def at_index_def invalid_value_def)
qed

text \<open>Whatever the payload, decoding with a definition of plain fields gives a dictionary: every exception
  a field can raise is caught, by skipping the field or by stopping at the end of the payload.\<close>

theorem decode_plain_total:
  assumes "\<forall>i \<in> set (pd_field_list d). \<exists>f. i = ISub (SField f)"
  shows "\<exists>flds. decode_pgn_data d data = Inr flds"
proof -
  obtain flds where "decode_items (pd_field_list d) data 0 [] = (flds, Inr ())"
    using decode_items_sfields [OF assms, of data 0 "[]"] by (metis prod.collapse)
  then show ?thesis by (simp add: decode_pgn_data_def)
qed

theorem decode_plain_total_witness:
  "\<exists>flds. decode_pgn_data (sample_pgn [ISub (SField (number_field UIntField ''SID'' 0 1 (CoderUnsigned 1) None)),
      ISub (SField (number_field DblField ''Rate'' 1 4 (CoderSigned 4) None))]) [3, 1] = Inr flds"
  by (rule decode_plain_total) (simp add: sample_pgn_def)

text \<open>\<^verbatim>\<open>decode_pgn_data\<close> reads the second of two adjacent bit fields from the bytes of the first: a bit
  field is decoded at the running index, not at its own start byte, and does not advance it. The bytes
  after the first \<open>n\<close> change nothing.\<close>

theorem second_bit_field_misread:
  assumes "pd_field_list d = [ISub (SBits b1), ISub (SBits b2)]"
    and "bf_struct b1 = Some n" "bf_struct b2 = Some n" "bf_byte_length b1 = n" "bf_byte_length b2 = n"
    and "length word = n"
    and "bf_store (bf_fields b1) (le_decode word) [] = (fa, Inr ())"
    and "bf_store (bf_fields b2) (le_decode word) fa = (fb, Inr ())"
  shows "decode_pgn_data d (word @ rest) = Inr fb"
  using decode_two_bits [OF assms(2-5), of "word @ rest" "[]" fa fb] assms
  by (simp add: decode_pgn_data_def)

theorem second_bit_field_misread_witness:
  "decode_pgn_data (sample_pgn
     [ISub (SBits \<lparr>bf_name = ''bitfield#1'', bf_bit_length = 8, bf_byte_length = 1, bf_struct = Some 1,
        bf_current_offset = 8,
        bf_fields = [new_bit_field_def (number_field UIntField ''A'' 0 1 (CoderUnsigned 1) None) 0 False], bf_start_byte = 0\<rparr>),
      ISub (SBits \<lparr>bf_name = ''bitfield#2'', bf_bit_length = 8, bf_byte_length = 1, bf_struct = Some 1,
        bf_current_offset = 8,
        bf_fields = [new_bit_field_def (number_field UIntField ''B'' 1 1 (CoderUnsigned 1) None) 0 False], bf_start_byte = 1\<rparr>)])
    ([0x11] @ [0x22]) = Inr [(''A'', VInt 0x11), (''B'', VInt 0x11)]"
proof -
  let ?x = "\<lparr>bf_name = ''bitfield#1'', bf_bit_length = 8, bf_byte_length = 1, bf_struct = Some 1,
        bf_current_offset = 8,
        bf_fields = [new_bit_field_def (number_field UIntField ''A'' 0 1 (CoderUnsigned 1) None) 0 False], bf_start_byte = 0\<rparr>"
  let ?y = "\<lparr>bf_name = ''bitfield#2'', bf_bit_length = 8, bf_byte_length = 1, bf_struct = Some 1,
        bf_current_offset = 8,
        bf_fields = [new_bit_field_def (number_field UIntField ''B'' 1 1 (CoderUnsigned 1) None) 0 False], bf_start_byte = 1\<rparr>"
  have "pd_field_list (sample_pgn [ISub (SBits ?x), ISub (SBits ?y)]) = [ISub (SBits ?x), ISub (SBits ?y)]"
    by (simp add: sample_pgn_def)
  then show ?thesis
    by (rule second_bit_field_misread [where n = 1 and fa = "[(''A'', VInt 0x11)]"])
      (simp_all add: get_value_def new_bit_field_def_def number_field_def fl_bits_def)
qed

end
