(* ===== verification/Nmea0183.thy ===== *)
theory Nmea0183
  imports PyText N2kMessage
begin

text \<open>
  \<^verbatim>\<open>navigation_server/router_core/nmea0183_msg.py\<close> and \<^verbatim>\<open>router_common/generic_msg.py\<close>: NMEA 0183
  sentences kept as bytes (class \<^verbatim>\<open>NMEA0183Msg\<close>), the generic message that travels through the router
  (class \<^verbatim>\<open>NavGenericMsg\<close>, a datatype over its type tag), the checksums, and the sentences that the
  program itself builds (class \<^verbatim>\<open>NMEA0183Sentences\<close> with \<^verbatim>\<open>ZDA\<close> and \<^verbatim>\<open>XDR\<close>).
\<close>

section \<open>Messages\<close>

record n0183_msg =
  n_raw :: bytes
  n_datalen :: nat
  n_checksum :: int
  n_datalen_s :: nat
  n_ts :: real
  n_delimiter :: byte
  n_datafields :: nat
  n_address :: bytes
  n_proprietary :: bool

text \<open>A generic message by its type: the null message that ends a flow, transparent bytes, an NMEA 0183
  sentence, or an NMEA 2000 message with the frame it was read from, if that is kept.\<close>

datatype nav_msg = NavNull | NavTransparent bytes | NavN0183 n0183_msg | NavN2k "bytes option" n2k_msg

text \<open>\<^verbatim>\<open>NavGenericMsg(N0183_MSG, raw)\<close>: the raw bytes with their end of line and the length without it;
  nothing for the null message that empty bytes give.\<close>

definition nav_n0183 :: "bytes \<Rightarrow> (bytes \<times> nat) option" where
  "nav_n0183 raw =
     (if length raw = 0 then None
      else
        let lt = length raw
        in if py_slice raw (int lt - 2) (int lt) = [13, 10] then Some (raw, lt - 2)
           else Some (raw @ [13, 10], lt))"

definition nav_n2k :: "bytes option \<Rightarrow> n2k_msg option \<Rightarrow> nav_msg" where
  "nav_n2k raw msg = (case msg of None \<Rightarrow> NavNull | Some m \<Rightarrow> NavN2k raw m)"

fun nav_raw :: "nav_msg \<Rightarrow> bytes option" where
  "nav_raw NavNull = None"
| "nav_raw (NavTransparent raw) = Some raw"
| "nav_raw (NavN0183 m) = Some (n_raw m)"
| "nav_raw (NavN2k raw _) = raw"

fun nav_is_iso :: "nav_msg \<Rightarrow> bool" where
  "nav_is_iso (NavN2k _ m) = (if m_is_iso m then True else False)"
| "nav_is_iso _ = False"

definition b_checksum :: "bytes \<Rightarrow> byte" where
  "b_checksum bs = foldl (XOR) 0 bs"

text \<open>\<^verbatim>\<open>bytearray.index\<close> of one byte, which raises when it is absent.\<close>

fun index_of :: "'a \<Rightarrow> 'a list \<Rightarrow> nat result" where
  "index_of x [] = Inl ValueError"
| "index_of x (y # ys) = (if y = x then Inr 0 else map_sum id Suc (index_of x ys))"

text \<open>
  The constructor of a sentence. The address is a slice of the sentence and \<^verbatim>\<open>_address[0] == b'P'\<close>
  compares an integer with a bytes object, so that it is never true: \<open>py_eq_int_bytes\<close>.
\<close>

definition py_eq_int_bytes :: "byte \<Rightarrow> bytes \<Rightarrow> bool" where
  "py_eq_int_bytes _ _ = False"

definition check_frame :: "bytes \<Rightarrow> nat \<Rightarrow> (int \<times> nat) result" where
  "check_frame raw datalen =
     bind_r (py_get raw (int datalen - 3)) (\<lambda>star.
       if star \<noteq> 42 then Inl NMEAInvalidFrame
       else bind_r (parse_int 16 (py_slice raw (int datalen - 2) (int datalen))) (\<lambda>cs.
         if cs \<noteq> int (unat (b_checksum (py_slice raw 1 (int datalen - 3)))) then Inl NMEAInvalidFrame
         else Inr (cs, datalen - 3)))"

definition new_n0183 :: "real \<Rightarrow> bytes \<Rightarrow> bool \<Rightarrow> real option \<Rightarrow> n0183_msg result" where
  "new_n0183 now data checksum timestamp =
     (case nav_n0183 data of
        None \<Rightarrow> Inl AttributeError
      | Some (raw, datalen) \<Rightarrow>
          bind_r (if checksum then check_frame raw datalen else Inr (0, datalen)) (\<lambda>(cs, datalen_s).
          bind_r (py_get raw 0) (\<lambda>delimiter.
          bind_r (index_of 44 raw) (\<lambda>ind_comma.
            let address = py_slice raw 1 (int ind_comma)
            in bind_r (py_get address 0) (\<lambda>a0.
                 Inr \<lparr>n_raw = raw, n_datalen = datalen, n_checksum = cs, n_datalen_s = datalen_s,
                      n_ts = (case timestamp of None \<Rightarrow> now | Some t \<Rightarrow> t),
                      n_delimiter = delimiter, n_datafields = ind_comma + 1, n_address = address,
                      n_proprietary = (if py_eq_int_bytes a0 [80] then True else False)\<rparr>)))))"

definition talker :: "n0183_msg \<Rightarrow> bytes result" where
  "talker m = (if \<not> n_proprietary m then Inr (py_slice (n_address m) 0 2) else Inl ValueError)"

definition formatter :: "n0183_msg \<Rightarrow> bytes result" where
  "formatter m = (if \<not> n_proprietary m then Inr (drop 2 (n_address m)) else Inl ValueError)"

definition n_fields :: "n0183_msg \<Rightarrow> bytes list" where
  "n_fields m = split_on 44 (py_slice (n_raw m) (int (n_datafields m)) (int (n_datalen_s m)))"

definition replace_talker :: "bytes \<Rightarrow> n0183_msg \<Rightarrow> n0183_msg" where
  "replace_talker t m =
     m\<lparr>n_raw := py_slice_assign (n_raw m) 1 3 (take 2 t),
       n_address := py_slice_assign (n_address m) 0 2 (take 2 t)\<rparr>"

text \<open>The protobuf form: either the raw bytes or the decoded fields.\<close>

record n0183_pb =
  npb_timestamp :: real
  npb_raw_message :: bytes
  npb_talker :: ustr
  npb_formatter :: ustr
  npb_values :: "ustr list"

fun decode_all :: "bytes list \<Rightarrow> ustr list result" where
  "decode_all [] = Inr []"
| "decode_all (f # fs) = bind_r (utf8_decode f) (\<lambda>s. map_sum id ((#) s) (decode_all fs))"

text \<open>A UnicodeError is a ValueError, so a talker or formatter that is no UTF-8 also falls back to the
  address.\<close>

definition n0183_as_protobuf :: "n0183_msg \<Rightarrow> bool \<Rightarrow> n0183_pb result" where
  "n0183_as_protobuf m set_raw =
     (let r = \<lparr>npb_timestamp = n_ts m, npb_raw_message = [], npb_talker = [], npb_formatter = [],
               npb_values = []\<rparr>
      in if set_raw then Inr (r\<lparr>npb_raw_message := n_raw m\<rparr>)
         else
           let fallback = (\<lambda>r'. map_sum id (\<lambda>a. r'\<lparr>npb_talker := a\<rparr>) (utf8_decode (n_address m)))
           in bind_r (case bind_r (talker m) utf8_decode of
                        Inl _ \<Rightarrow> fallback r
                      | Inr t \<Rightarrow>
                          (case bind_r (formatter m) utf8_decode of
                             Inl _ \<Rightarrow> fallback (r\<lparr>npb_talker := t\<rparr>)
                           | Inr f \<Rightarrow> Inr (r\<lparr>npb_talker := t, npb_formatter := f\<rparr>))) (\<lambda>r'.
              map_sum id (\<lambda>vs. r'\<lparr>npb_values := vs\<rparr>) (decode_all (n_fields m))))"

text \<open>The second argument of \<^verbatim>\<open>NMEA0183Msg\<close> is the checksum flag: the timestamp of the protobuf is passed
  there, a float that is true unless it is zero. The decoded form is a message of another class, kept
  here as its four fields.\<close>

definition n0183_from_protobuf ::
    "real \<Rightarrow> n0183_pb \<Rightarrow> (n0183_msg + ustr \<times> ustr \<times> ustr list \<times> real) result" where
  "n0183_from_protobuf now pb =
     (if 0 < length (npb_raw_message pb)
      then map_sum id Inl (new_n0183 now (npb_raw_message pb) (npb_timestamp pb \<noteq> 0) None)
      else Inr (Inr (npb_talker pb, npb_formatter pb, npb_values pb, npb_timestamp pb)))"

definition process_nmea0183_frame :: "real \<Rightarrow> bytes \<Rightarrow> bool \<Rightarrow> nav_msg result" where
  "process_nmea0183_frame now frame checksum =
     bind_r (py_get frame 0) (\<lambda>c.
       if c = 4 then Inr NavNull
       else if c \<notin> {36, 33} then Inl NMEAInvalidFrame
       else map_sum id NavN0183 (new_n0183 now frame checksum None))"

section \<open>Sentences the program builds\<close>

definition str_checksum :: "ustr \<Rightarrow> nat" where
  "str_checksum s = foldl (XOR) 0 (drop 1 s)"

definition hex_char :: "nat \<Rightarrow> nat" where
  "hex_char d = (if d < 10 then 48 + d else 55 + d)"

text \<open>\<^verbatim>\<open>%2X\<close>: padded with a space.\<close>

definition hex2 :: "nat \<Rightarrow> ustr" where
  "hex2 n = pad_left 32 2 (map hex_char (digits_in 16 n))"

definition hex_checksum :: "ustr \<Rightarrow> ustr" where
  "hex_checksum s = hex2 (str_checksum (drop 1 s))"

definition sentence_message :: "ustr \<Rightarrow> bytes" where
  "sentence_message s = utf8_encode (s @ [42] @ hex2 (str_checksum s) @ [13, 10])"

text \<open>The XDR sentence under construction: its text and its count of transducers.\<close>

record xdr =
  xdr_sentence :: ustr
  xdr_nbt :: nat

definition new_xdr :: "ustr \<Rightarrow> xdr" where
  "new_xdr sender_id = \<lparr>xdr_sentence = [36] @ sender_id @ text_of ''XDR'', xdr_nbt = 0\<rparr>"

definition add_transducer :: "ustr \<Rightarrow> ustr \<Rightarrow> ustr \<Rightarrow> ustr \<Rightarrow> xdr \<Rightarrow> xdr" where
  "add_transducer t_type data unit t_id x =
     (let x1 = x\<lparr>xdr_nbt := xdr_nbt x + 1\<rparr>
      in if 4 < xdr_nbt x1 then x1
         else x1\<lparr>xdr_sentence :=
                 xdr_sentence x1 @ [44] @ join_on 44 [t_type, data, unit, t_id]\<rparr>)"

section \<open>Lemmas\<close>

lemma index_of_split:
  "x \<notin> set xs \<Longrightarrow> index_of x (xs @ x # ys) = Inr (length xs)"
  by (induction xs) auto

lemma foldl_xor: "foldl (XOR) (a :: byte) bs = a XOR foldl (XOR) 0 bs"
proof (induction bs arbitrary: a)
  case (Cons b bs)
  from Cons [of "a XOR b"] Cons [of b] show ?case by (simp add: xor.assoc)
qed simp

lemma b_checksum_simps [simp]:
  "b_checksum [] = 0"
  "b_checksum (b # bs) = b XOR b_checksum bs"
  using foldl_xor [of b bs] by (simp_all add: b_checksum_def)

lemma b_checksum_append [simp]: "b_checksum (xs @ ys) = b_checksum xs XOR b_checksum ys"
  by (induction xs) (simp_all add: xor.assoc)

text \<open>One byte changed changes the checksum.\<close>

lemma b_checksum_update:
  "i < length bs \<Longrightarrow> b_checksum (bs[i := v]) = b_checksum bs \<longleftrightarrow> v = bs ! i"
proof (induction bs arbitrary: i)
  case (Cons b bs)
  have "v XOR c = b XOR c \<longleftrightarrow> v = b" for c :: byte
    by (metis bit.xor_self xor.assoc xor.right_neutral)
  moreover have "b XOR c = b XOR d \<longleftrightarrow> c = d" for c d :: byte
    by (metis bit.xor_self xor.assoc xor.left_neutral)
  ultimately show ?case using Cons by (cases i) auto
qed simp

lemma str_checksum_bytes:
  "\<forall>c \<in> set s. c < 128 \<Longrightarrow> unat (b_checksum (map of_nat s)) = foldl (XOR) 0 s \<and> foldl (XOR) 0 s < 128"
proof (induction s rule: rev_induct)
  case (snoc c s)
  then have IH: "unat (b_checksum (map of_nat s)) = foldl (XOR) 0 s" "foldl (XOR) 0 s < 128" and c: "c < 128"
    by simp_all
  have "unat (of_nat c :: byte) = c" using c by (intro unat_of_nat_byte) simp
  then have "unat (b_checksum (map of_nat (s @ [c]))) = foldl (XOR) 0 s XOR c"
    using IH by (simp add: unsigned_xor_eq)
  moreover have "take_bit 7 (foldl (XOR) 0 s XOR c) = foldl (XOR) 0 s XOR c"
    using IH(2) c by (simp add: take_bit_xor take_bit_nat_eq_self)
  then have "foldl (XOR) 0 s XOR c < 2 ^ 7" by (metis take_bit_nat_less_exp)
  ultimately show ?case by simp
qed simp

lemma hex2_ok: "list_all (\<lambda>v. length (hex2 v) = 2 \<and> parse_int 16 (map of_nat (hex2 v)) = Inr (int v)
    \<and> list_all (\<lambda>c. c < 128) (hex2 v)) [0..<128]"
  by code_simp

lemma hex2:
  assumes "v < 128"
  shows "length (hex2 v) = 2" "parse_int 16 (map of_nat (hex2 v)) = Inr (int v)"
    "\<forall>c \<in> set (hex2 v). c < 128"
  using hex2_ok assms by (auto simp: list_all_iff)

lemma frame_parts:
  assumes raw: "raw = d # body @ [42] @ hh @ [13, 10]" and hh: "length hh = 2"
  shows "nav_n0183 raw = Some (raw, length body + 4)" (is ?nav)
    and "py_get raw (int (length body + 4) - 3) = Inr 42" (is ?star)
    and "py_slice raw (int (length body + 4) - 2) (int (length body + 4)) = hh" (is ?h)
proof -
  have len: "length raw = length body + 6" using raw hh by simp
  show ?nav
  proof -
    have "int (length raw) - 2 = int (length body + 4)" by (simp add: len)
    then have p: "py_slice raw (int (length raw) - 2) (int (length raw)) = drop (length body + 4) raw"
      by (simp only: py_slice_nat) (simp add: len)
    have "raw = (d # body @ [42] @ hh) @ [13, 10]" by (simp add: raw)
    moreover have "drop (length body + 4) ((d # body @ [42] @ hh) @ [13, 10]) = [13, 10]"
      using hh by (subst drop_append) simp
    ultimately have "drop (length body + 4) raw = [13, 10]" by simp
    with p have "py_slice raw (int (length raw) - 2) (int (length raw)) = [13, 10]" by simp
    then show ?thesis unfolding nav_n0183_def by (simp only: Let_def len if_True) simp
  qed
  show ?star
  proof -
    have "int (length body + 4) - 3 = int (length body + 1)" by simp
    then show ?thesis by (simp only: py_get_nat len) (simp add: raw nth_append)
  qed
  show ?h
  proof -
    have "int (length body + 4) - 2 = int (length body + 2)" by simp
    then show ?thesis using hh by (simp only: py_slice_nat) (simp add: raw)
  qed
qed

lemma n0183_of_body:
  assumes raw: "raw = d # body @ [42] @ hh @ [13, 10]" and hh: "length hh = 2"
    and cs: "parse_int 16 hh = Inr (int (unat (b_checksum body)))"
    and body: "body = addr @ 44 # rest" and addr: "44 \<notin> set addr" "addr \<noteq> []" and d: "d \<noteq> 44"
  shows "new_n0183 now raw True ts = Inr \<lparr>n_raw = raw, n_datalen = length body + 4,
      n_checksum = int (unat (b_checksum body)), n_datalen_s = length body + 1,
      n_ts = (case ts of None \<Rightarrow> now | Some t \<Rightarrow> t), n_delimiter = d,
      n_datafields = length addr + 2, n_address = addr, n_proprietary = False\<rparr>"
    and "split_on 44 (py_slice raw (int (length addr + 2)) (int (length body + 1))) = split_on 44 rest"
proof -
  note nav = frame_parts(1) [OF raw hh] and star = frame_parts(2) [OF raw hh] and h = frame_parts(3) [OF raw hh]
  have b: "py_slice raw 1 (int (length body + 4) - 3) = body"
  proof -
    have "int (length body + 4) - 3 = int (length body + 1)" by simp
    then show ?thesis using py_slice_nat [of raw 1 "length body + 1"] by (simp add: raw)
  qed
  have chk: "check_frame raw (length body + 4) = Inr (int (unat (b_checksum body)), length body + 1)"
    unfolding check_frame_def star h b bind_r_simps cs by simp
  have "raw = (d # addr) @ 44 # (rest @ [42] @ hh @ [13, 10])" by (simp add: raw body)
  with addr d have ind: "index_of 44 raw = Inr (length addr + 1)"
    using index_of_split [of 44 "d # addr"] by simp
  have a: "py_slice raw 1 (int (length addr + 1)) = addr"
    using py_slice_nat [of raw 1 "length addr + 1"] by (simp add: raw body)
  have a0: "py_get addr 0 = Inr (hd addr)" using py_get_nat [of 0 addr] addr(2) by (simp add: hd_conv_nth)
  have d0: "py_get raw 0 = Inr d" using py_get_nat [of 0 raw] by (simp add: raw)
  show "new_n0183 now raw True ts = Inr \<lparr>n_raw = raw, n_datalen = length body + 4,
      n_checksum = int (unat (b_checksum body)), n_datalen_s = length body + 1,
      n_ts = (case ts of None \<Rightarrow> now | Some t \<Rightarrow> t), n_delimiter = d,
      n_datafields = length addr + 2, n_address = addr, n_proprietary = False\<rparr>"
    by (simp only: new_n0183_def nav option.case prod.case if_True chk bind_r_simps d0 ind a a0 Let_def
        py_eq_int_bytes_def if_False) simp
  have "py_slice raw (int (length addr + 2)) (int (length body + 1)) = rest"
    by (simp only: py_slice_nat) (simp add: raw body)
  then show "split_on 44 (py_slice raw (int (length addr + 2)) (int (length body + 1))) = split_on 44 rest"
    by simp
qed

section \<open>Properties\<close>

lemma sentence_fields:
  assumes "addr \<noteq> []" "44 \<notin> set addr" "fs \<noteq> []" "\<forall>f \<in> set fs. 44 \<notin> set f"
    and "\<forall>c \<in> set addr \<union> \<Union> (set ` set fs). c < 128"
  shows "\<exists>m. new_n0183 now (sentence_message (36 # addr @ 44 # join_on 44 fs)) True None = Inr m
    \<and> n_address m = map of_nat addr \<and> n_delimiter m = 36 \<and> n_ts m = now
    \<and> n_fields m = map (map of_nat) fs
    \<and> talker m = Inr (map of_nat (take 2 addr)) \<and> formatter m = Inr (map of_nat (drop 2 addr))"
proof -
  have join: "set (join_on (44::nat) xs) \<subseteq> insert 44 (\<Union> (set ` set xs))" for xs
    by (induction "44::nat" xs rule: join_on.induct) auto
  let ?s = "36 # addr @ 44 # join_on 44 fs"
  let ?b = "map of_nat (addr @ 44 # join_on 44 fs) :: bytes"
  have asc: "\<forall>c \<in> set (addr @ 44 # join_on 44 fs). c < 128"
    using assms(5) join [of fs] by (fastforce dest: subsetD)
  define v where "v = str_checksum ?s"
  have v: "v = foldl (XOR) 0 (addr @ 44 # join_on 44 fs)" by (simp add: v_def str_checksum_def)
  from str_checksum_bytes [OF asc] have v1: "unat (b_checksum ?b) = v" "v < 128" by (simp_all add: v)
  let ?hh = "map of_nat (hex2 v) :: bytes"
  have msg: "sentence_message ?s = 36 # ?b @ [42] @ ?hh @ [13, 10]"
    unfolding sentence_message_def v_def [symmetric]
    using asc hex2(3) [OF v1(2)] by (subst utf8_encode_ascii) auto
  have inj: "(of_nat c :: byte) = 44 \<longleftrightarrow> c = 44" if "c < 128" for c
  proof
    assume "(of_nat c :: byte) = 44"
    then have "unat (of_nat c :: byte) = unat (44 :: byte)" by simp
    with that show "c = 44" by simp
  qed simp
  have addr: "44 \<notin> set (map of_nat addr :: bytes)" "(map of_nat addr :: bytes) \<noteq> []"
    using assms(1,2) asc inj by auto
  have mapjoin: "map of_nat (join_on 44 fs) = join_on (44 :: byte) (map (map of_nat) fs)"
    by (induction "44::nat" fs rule: join_on.induct) auto
  have split: "split_on 44 (map of_nat (join_on 44 fs) :: bytes) = map (map of_nat) fs"
    unfolding mapjoin
  proof (rule split_on_join)
    show "\<forall>x \<in> set (map (map of_nat) fs). (44 :: byte) \<notin> set x"
    proof
      fix x :: bytes assume "x \<in> set (map (map of_nat) fs)"
      then obtain f where f: "f \<in> set fs" "x = map of_nat f" by auto
      then have "\<forall>c \<in> set f. (of_nat c :: byte) \<noteq> 44" using assms(4,5) inj by blast
      with f show "44 \<notin> set x" by auto
    qed
  qed (simp add: assms(3))
  have hl: "length ?hh = 2" using hex2(1) [OF v1(2)] by simp
  have cs: "parse_int 16 ?hh = Inr (int (unat (b_checksum ?b)))" using hex2(2) [OF v1(2)] v1 by simp
  have bd: "?b = map of_nat addr @ 44 # map of_nat (join_on 44 fs)" by simp
  have d: "(36 :: byte) \<noteq> 44" by simp
  note r = n0183_of_body(1) [OF msg hl cs bd addr d, of now None] n0183_of_body(2) [OF msg hl cs bd addr d]
  show ?thesis
    using r split py_slice_to_nonneg [of 2 "map of_nat addr"]
    by (simp add: n_fields_def talker_def formatter_def take_map drop_map)
qed

text \<open>C20. A sentence that the program builds (\<^verbatim>\<open>NMEA0183Sentences.message\<close>) from an address and a list
  of ASCII fields is accepted by its own reader, checksum check included (also below 16, where the
  checksum is padded with a space), and the reader gives back the address, the talker, the formatter
  and exactly those fields.\<close>

theorem sentence_roundtrip:
  assumes "addr \<noteq> []" "44 \<notin> set addr" "fs \<noteq> []" "\<forall>f \<in> set fs. 44 \<notin> set f"
    and "\<forall>c \<in> set addr \<union> \<Union> (set ` set fs). c < 128"
  shows "\<exists>m. new_n0183 now (sentence_message (36 # addr @ 44 # join_on 44 fs)) True None = Inr m
    \<and> n_address m = map of_nat addr \<and> n_delimiter m = 36 \<and> n_ts m = now
    \<and> n_fields m = map (map of_nat) fs
    \<and> talker m = Inr (map of_nat (take 2 addr)) \<and> formatter m = Inr (map of_nat (drop 2 addr))"
  by (rule sentence_fields [OF assms])

text \<open>C21. A sentence that is accepted with its checksum is refused with NMEAInvalidFrame as soon as any
  single byte between the delimiter and the star is replaced by another.\<close>

theorem sentence_corruption_detected:
  assumes ok: "new_n0183 now data True ts = Inr m" and i: "1 \<le> i" "i + 3 < n_datalen m" and v: "v \<noteq> data ! i"
  shows "new_n0183 now (data[i := v]) True ts = Inl NMEAInvalidFrame"
proof -
  obtain raw n where nav: "nav_n0183 data = Some (raw, n)"
    using ok by (auto simp: new_n0183_def split: option.splits)
  obtain chk where chk: "check_frame raw n = Inr chk" and m: "n_datalen m = n"
    using ok by (auto simp: new_n0183_def nav bind_r_Inr_iff Let_def)
  from i m have n: "i + 3 < n" by simp
  let ?e = "data[i := v]"
  have rl: "raw = (if py_slice data (int (length data) - 2) (int (length data)) = [13, 10] then data
      else data @ [13, 10])" "n \<le> length data"
    using nav by (auto simp: nav_n0183_def Let_def split: if_splits)
  have il: "i < length data" using n rl(2) by simp
  have "int (length data) - 2 = int (length data - 2)" using il n rl(2) by simp
  then have sl: "py_slice xs (int (length data) - 2) (int (length data)) = drop (length data - 2) xs"
    if "length xs = length data" for xs :: bytes
    using that by (simp only: py_slice_nat) simp
  have "py_slice ?e (int (length data) - 2) (int (length data))
      = py_slice data (int (length data) - 2) (int (length data))"
    using n rl(2) by (simp add: sl drop_update_swap)
  then have nav': "nav_n0183 ?e = Some (raw[i := v], n)"
    using nav il rl(1) by (auto simp: nav_n0183_def Let_def list_update_append split: if_splits)
  have vi: "v \<noteq> raw ! i" and ir: "n \<le> length raw" using v rl il by (auto simp: nth_append)
  have i3: "int n - 3 = int (n - 3)" "int n - 2 = int (n - 2)" using n by simp_all
  have star: "py_get raw (int n - 3) = Inr 42"
    and cs: "parse_int 16 (py_slice raw (int n - 2) (int n))
        = Inr (int (unat (b_checksum (py_slice raw 1 (int n - 3)))))"
  proof -
    obtain s where s: "py_get raw (int n - 3) = Inr s"
      and c: "(if s \<noteq> 42 then Inl NMEAInvalidFrame
         else bind_r (parse_int 16 (py_slice raw (int n - 2) (int n))) (\<lambda>cs.
           if cs \<noteq> int (unat (b_checksum (py_slice raw 1 (int n - 3)))) then Inl NMEAInvalidFrame
           else Inr (cs, n - 3))) = Inr chk"
      using chk unfolding check_frame_def bind_r_Inr_iff by blast
    from c have s42: "s = 42" by (cases "s = 42") (simp only: if_True simp_thms, simp)
    with s show "py_get raw (int n - 3) = Inr 42" by simp
    from c s42 obtain k where k: "parse_int 16 (py_slice raw (int n - 2) (int n)) = Inr k"
        and e: "(if k \<noteq> int (unat (b_checksum (py_slice raw 1 (int n - 3)))) then Inl NMEAInvalidFrame
           else Inr (k, n - 3)) = Inr chk"
      by (simp only: simp_thms if_False bind_r_Inr_iff) blast
    from e have "k = int (unat (b_checksum (py_slice raw 1 (int n - 3))))"
      by (cases "k = int (unat (b_checksum (py_slice raw 1 (int n - 3))))") (simp only: if_True simp_thms, simp)
    with k show "parse_int 16 (py_slice raw (int n - 2) (int n))
        = Inr (int (unat (b_checksum (py_slice raw 1 (int n - 3)))))" by simp
  qed
  have star': "py_get (raw[i := v]) (int n - 3) = Inr 42"
  proof -
    have "n - 3 < length raw" "i \<noteq> n - 3" using n ir by simp_all
    with star show ?thesis unfolding i3 by simp
  qed
  have cs': "py_slice (raw[i := v]) (int n - 2) (int n) = py_slice raw (int n - 2) (int n)"
    using n by (simp only: i3 py_slice_nat) (simp add: drop_update_cancel)
  have b: "py_slice xs 1 (int n - 3) = take (n - 4) (drop 1 xs)" for xs :: bytes
    using py_slice_nat [of xs 1 "n - 3"] n unfolding i3 by simp
  have b': "py_slice (raw[i := v]) 1 (int n - 3) = (py_slice raw 1 (int n - 3))[i - 1 := v]"
    using i(1) unfolding b by (simp add: drop_update_swap take_update_swap)
  have bl: "i - 1 < length (py_slice raw 1 (int n - 3))" using i(1) n ir by (simp add: b)
  have bi: "py_slice raw 1 (int n - 3) ! (i - 1) = raw ! i" using i(1) n ir by (simp add: b)
  have "b_checksum (py_slice (raw[i := v]) 1 (int n - 3)) \<noteq> b_checksum (py_slice raw 1 (int n - 3))"
    unfolding b' b_checksum_update [OF bl] bi by (rule vi)
  then have "uint (b_checksum (py_slice (raw[i := v]) 1 (int n - 3)))
      \<noteq> uint (b_checksum (py_slice raw 1 (int n - 3)))" by (metis unsigned_word_eqI)
  then have "check_frame (raw[i := v]) n = Inl NMEAInvalidFrame"
    unfolding check_frame_def star' cs' cs bind_r_simps by simp
  then show ?thesis by (simp add: new_n0183_def nav')
qed


lemma sentence_corruption_detected_witness:
  "\<exists>m. new_n0183 0 [36, 71, 80, 44, 49, 42, 48, 65] True (Some 0) = Inr m \<and>
     1 + 3 < n_datalen m \<and>
     new_n0183 0 ([36, 71, 80, 44, 49, 42, 48, 65][1 := 72]) True (Some 0) = Inl NMEAInvalidFrame"
proof -
  let ?r = "[36, 71, 80, 44, 49, 42, 48, 65, 13, 10] :: bytes"
  have "nav_n0183 [36, 71, 80, 44, 49, 42, 48, 65] = Some (?r, 8)" "check_frame ?r 8 = Inr (10, 5)"
    "index_of 44 ?r = Inr 3" "py_get ?r 0 = Inr 36" "py_slice ?r 1 (int 3) = [71, 80]"
    "py_get [71, 80 :: byte] 0 = Inr 71"
    by code_simp+
  then have "\<exists>m. new_n0183 0 [36, 71, 80, 44, 49, 42, 48, 65] True (Some 0) = Inr m \<and> n_datalen m = 8"
    by (simp only: new_n0183_def option.case prod.case if_True bind_r_simps Let_def) simp
  then obtain m where "new_n0183 0 [36, 71, 80, 44, 49, 42, 48, 65] True (Some 0) = Inr m" "n_datalen m = 8" by blast
  with sentence_corruption_detected [of 0 "[36, 71, 80, 44, 49, 42, 48, 65]" "Some 0" m 1 72] show ?thesis
    by simp
qed
lemma sentence_roundtrip_witness:
  "\<exists>m. new_n0183 0 (sentence_message (36 # [71, 80, 71, 76, 76] @ 44 # join_on 44 [[49], [50, 51]])) True None = Inr m
    \<and> n_address m = map of_nat [71, 80, 71, 76, 76] \<and> n_delimiter m = 36 \<and> n_ts m = 0
    \<and> n_fields m = map (map of_nat) [[49], [50, 51]]
    \<and> talker m = Inr (map of_nat (take 2 [71, 80, 71, 76, 76])) \<and> formatter m = Inr (map of_nat (drop 2 [71, 80, 71, 76, 76]))"
  by (rule sentence_roundtrip) auto

end
