(* ===== verification/Pdgy.thy ===== *)
theory Pdgy
  imports Nmea0183
begin

text \<open>
  The text form of NMEA 2000 messages in \<^verbatim>\<open>router_core/nmea2000_msg.py\<close>: \<^verbatim>\<open>asPDGY\<close>, \<^verbatim>\<open>decodePGDY\<close>,
  \<^verbatim>\<open>fromPGDY\<close>, \<^verbatim>\<open>fromProprietaryNmea\<close> and \<^verbatim>\<open>asPGNST\<close>, with the base64 of the standard library as its C
  implementation decodes it (bytes outside the alphabet are skipped, the padding ends the data).
\<close>

section \<open>Base64\<close>

definition b64_char :: "nat \<Rightarrow> byte" where
  "b64_char v = of_nat (if v < 26 then 65 + v else if v < 52 then 71 + v else if v < 62 then v - 4
     else if v = 62 then 43 else 47)"

definition b64_value :: "byte \<Rightarrow> nat option" where
  "b64_value b =
     (let n = unat b in
      if 65 \<le> n \<and> n \<le> 90 then Some (n - 65)
      else if 97 \<le> n \<and> n \<le> 122 then Some (n - 71)
      else if 48 \<le> n \<and> n \<le> 57 then Some (n + 4)
      else if n = 43 then Some 62 else if n = 47 then Some 63 else None)"

fun b64encode :: "bytes \<Rightarrow> bytes" where
  "b64encode [] = []"
| "b64encode [a] = [b64_char (unat a div 4), b64_char (unat a mod 4 * 16), 61, 61]"
| "b64encode [a, b] =
     [b64_char (unat a div 4), b64_char (unat a mod 4 * 16 + unat b div 16), b64_char (unat b mod 16 * 4), 61]"
| "b64encode (a # b # c # r) =
     b64_char (unat a div 4) # b64_char (unat a mod 4 * 16 + unat b div 16)
       # b64_char (unat b mod 16 * 4 + unat c div 64) # b64_char (unat c mod 64) # b64encode r"

text \<open>\<open>quad\<close> characters of the current group of four have been read, \<open>left\<close> holds their bits not yet
  written, \<open>pads\<close> counts the padding.\<close>

fun b64_loop :: "nat \<Rightarrow> nat \<Rightarrow> nat \<Rightarrow> bytes \<Rightarrow> bytes result" where
  "b64_loop quad left pads [] = (if quad = 0 then Inr [] else Inl BinasciiError)"
| "b64_loop quad left pads (c # cs) =
     (if c = 61 then
        (if 2 \<le> quad
         then (if 4 \<le> quad + (pads + 1) then Inr [] else b64_loop quad left (pads + 1) cs)
         else b64_loop quad left pads cs)
      else case b64_value c of
        None \<Rightarrow> b64_loop quad left pads cs
      | Some v \<Rightarrow>
          if quad = 0 then b64_loop 1 v 0 cs
          else if quad = 1 then map_sum id ((#) (of_nat (left * 4 + v div 16))) (b64_loop 2 (v mod 16) 0 cs)
          else if quad = 2 then map_sum id ((#) (of_nat (left * 16 + v div 4))) (b64_loop 3 (v mod 4) 0 cs)
          else map_sum id ((#) (of_nat (left * 64 + v))) (b64_loop 0 0 0 cs))"

definition b64decode :: "bytes \<Rightarrow> bytes result" where
  "b64decode bs = b64_loop 0 0 0 bs"

section \<open>Messages in text form\<close>

definition bytes_of :: "string \<Rightarrow> bytes" where
  "bytes_of s = map of_char s"

text \<open>\<^verbatim>\<open>%d\<close> of a number, truncated towards zero when it is a float.\<close>

definition dec_int :: "int \<Rightarrow> bytes" where
  "dec_int i = (if i < 0 then 45 # dec_bytes (nat (- i)) else dec_bytes (nat i))"

definition trunc :: "real \<Rightarrow> int" where
  "trunc x = (if x < 0 then - \<lfloor>- x\<rfloor> else \<lfloor>x\<rfloor>)"

definition as_pdgy :: "n2k_msg \<Rightarrow> bytes" where
  "as_pdgy m =
     bytes_of ''!PDGY,'' @ dec_bytes (m_pgn m) @ [44] @ dec_bytes (m_prio m) @ [44] @ dec_bytes (m_sa m) @ [44]
       @ dec_bytes (m_da m) @ [44] @ dec_int (trunc (m_ts m)) @ [44] @ b64encode (m_payload m) @ [13, 10]"

text \<open>The format is a bytes object and \<^verbatim>\<open>payload.hex()\<close> is a string, which \<^verbatim>\<open>%s\<close> does not take there.\<close>

definition as_pgnst :: "n2k_msg \<Rightarrow> bytes result" where
  "as_pgnst m = Inl TypeError"

text \<open>A message from the integers of a sentence. PGNs and addresses are natural numbers here: what the
  program makes of negative ones is not modelled.\<close>

definition n2k_of_ints :: "real \<Rightarrow> int \<Rightarrow> int \<Rightarrow> int \<Rightarrow> int \<Rightarrow> bytes \<Rightarrow> n2k_msg result" where
  "n2k_of_ints now pgn prio sa da payload =
     (if pgn < 0 \<or> prio < 0 \<or> sa < 0 \<or> da < 0 then Inl NotModelled
      else new_n2k_msg now (nat pgn) (nat prio) (nat sa) (nat da) (Some payload) 0)"

definition decode_pgdy :: "real \<Rightarrow> n0183_msg \<Rightarrow> n2k_msg result" where
  "decode_pgdy now msg =
     (let fs = n_fields msg in
      if length fs = 6 then
        bind_r (parse_int 10 (fs ! 3)) (\<lambda>da.
        let da = (if da = 0 then 255 else da) in
        bind_r (parse_int 10 (fs ! 0)) (\<lambda>pgn.
        bind_r (parse_int 10 (fs ! 1)) (\<lambda>prio.
        bind_r (parse_int 10 (fs ! 2)) (\<lambda>sa.
        bind_r (b64decode (fs ! 5)) (\<lambda>payload.
          n2k_of_ints now pgn prio sa da payload)))))
      else if length fs = 3 then
        bind_r (parse_int 10 (fs ! 1)) (\<lambda>da.
        let da = (if da = 0 then 255 else da) in
        case b64decode (fs ! 2) of
          Inl _ \<Rightarrow> Inl N2KRawDecodeError
        | Inr bin_data \<Rightarrow>
            bind_r (parse_int 10 (fs ! 0)) (\<lambda>pgn. n2k_of_ints now pgn 0 0 da bin_data))
      else Inl N2KRawDecodeError)"

definition from_proprietary_nmea :: "real \<Rightarrow> n0183_msg \<Rightarrow> n2k_msg result" where
  "from_proprietary_nmea now msg =
     (if n_address msg = bytes_of ''PDGY'' then decode_pgdy now msg else Inl ValueError)"

definition from_pgdy :: "real \<Rightarrow> bytes \<Rightarrow> nav_msg result" where
  "from_pgdy now frame =
     bind_r (process_nmea0183_frame now frame False) (\<lambda>msg.
       case msg of
         NavN0183 m \<Rightarrow>
           (if n_address m \<noteq> bytes_of ''PDGY'' \<or> n_delimiter m \<noteq> 33 then Inl NMEAInvalidFrame
            else map_sum id (\<lambda>r. nav_n2k None (Some r)) (decode_pgdy now m))
       | _ \<Rightarrow> Inr msg)"

definition from_pgnst :: "bytes \<Rightarrow> nav_msg result" where
  "from_pgnst frame = Inl NotImplementedError"

section \<open>Lemmas\<close>

lemma b64_chars: "list_all (\<lambda>v. b64_value (b64_char v) = Some v \<and> b64_char v \<noteq> 61 \<and> b64_char v \<noteq> 44) [0..<64]"
  by code_simp

lemma b64_char:
  assumes "v < 64"
  shows "b64_value (b64_char v) = Some v" "b64_char v \<noteq> 61" "b64_char v \<noteq> 44"
  using b64_chars assms by (auto simp: list_all_iff)

lemma b64_loop_char:
  assumes "v < 64"
  shows "b64_loop 0 l p (b64_char v # cs) = b64_loop (Suc 0) v 0 cs"
    "b64_loop (Suc 0) l p (b64_char v # cs) = map_sum id ((#) (of_nat (l * 4 + v div 16))) (b64_loop 2 (v mod 16) 0 cs)"
    "b64_loop 2 l p (b64_char v # cs) = map_sum id ((#) (of_nat (l * 16 + v div 4))) (b64_loop 3 (v mod 4) 0 cs)"
    "b64_loop 3 l p (b64_char v # cs) = map_sum id ((#) (of_nat (l * 64 + v))) (b64_loop 0 0 0 cs)"
  using b64_char [OF assms] by simp_all

lemma b64_join:
  fixes a b c :: byte
  shows "(of_nat (unat a div 4 * 4 + unat a mod 4 * 16 div 16) :: byte) = a"
    "(of_nat (unat a div 4 * 4 + (unat a mod 4 * 16 + unat b div 16) div 16) :: byte) = a"
    "(unat a mod 4 * 16 + unat b div 16) mod 16 = unat b div 16"
    "(of_nat (unat b div 16 * 16 + unat b mod 16 * 4 div 4) :: byte) = b"
    "(of_nat (unat b div 16 * 16 + (unat b mod 16 * 4 + unat c div 64) div 4) :: byte) = b"
    "(unat b mod 16 * 4 + unat c div 64) mod 4 = unat c div 64"
    "(of_nat (unat c div 64 * 64 + unat c mod 64) :: byte) = c"
proof -
  have b16: "unat b div 16 div 16 = 0" and c64: "unat c div 64 div 4 = 0" and bl: "unat b div 16 < 16"
    and cl: "unat c div 64 < 4"
    by (simp_all add: less_mult_imp_div_less flip: div_mult2_eq)
  have "unat a div 4 * 4 + unat a mod 4 * 16 div 16 = unat a" by simp
  then show "(of_nat (unat a div 4 * 4 + unat a mod 4 * 16 div 16) :: byte) = a" by simp
  have "(unat a mod 4 * 16 + unat b div 16) div 16 = unat a mod 4" using bl by linarith
  then have "unat a div 4 * 4 + (unat a mod 4 * 16 + unat b div 16) div 16 = unat a" by simp
  then show "(of_nat (unat a div 4 * 4 + (unat a mod 4 * 16 + unat b div 16) div 16) :: byte) = a" by simp
  show "(unat a mod 4 * 16 + unat b div 16) mod 16 = unat b div 16" using bl by simp
  have "unat b div 16 * 16 + unat b mod 16 * 4 div 4 = unat b" by simp
  then show "(of_nat (unat b div 16 * 16 + unat b mod 16 * 4 div 4) :: byte) = b" by simp
  have "(unat b mod 16 * 4 + unat c div 64) div 4 = unat b mod 16" using cl by linarith
  then have "unat b div 16 * 16 + (unat b mod 16 * 4 + unat c div 64) div 4 = unat b" by simp
  then show "(of_nat (unat b div 16 * 16 + (unat b mod 16 * 4 + unat c div 64) div 4) :: byte) = b" by simp
  show "(unat b mod 16 * 4 + unat c div 64) mod 4 = unat c div 64" using cl by simp
  have "unat c div 64 * 64 + unat c mod 64 = unat c" by simp
  then show "(of_nat (unat c div 64 * 64 + unat c mod 64) :: byte) = c" by simp
qed

lemma unat_byte_div: "unat (a :: byte) div 4 < 64" "unat a mod 4 * 16 < 64" "unat a mod 16 * 4 < 64"
  "unat a mod 4 * 16 + unat (b :: byte) div 16 < 64" "unat a mod 16 * 4 + unat b div 64 < 64"
  "unat a mod 64 < 64"
proof -
  have "unat b div 16 < 16" "unat b div 64 < 4" by (rule less_mult_imp_div_less, simp)+
  moreover have "unat a mod 4 < 4" "unat a mod 16 < 16" by simp_all
  ultimately show "unat a mod 4 * 16 < 64" "unat a mod 16 * 4 < 64"
    "unat a mod 4 * 16 + unat b div 16 < 64" "unat a mod 16 * 4 + unat b div 64 < 64" by linarith+
  show "unat a div 4 < 64" "unat a mod 64 < 64" by (simp_all add: less_mult_imp_div_less)
qed

lemma b64_roundtrip [simp]: "b64decode (b64encode bs) = Inr bs"
proof -
  have "b64_loop 0 0 0 (b64encode bs) = Inr bs"
  proof (induction bs rule: b64encode.induct)
    case (2 a)
    show ?case
      by (simp only: b64encode.simps b64_loop_char [OF unat_byte_div(1)] b64_loop_char [OF unat_byte_div(2)]
          b64_join) simp
  next
    case (3 a b)
    show ?case
      by (simp only: b64encode.simps b64_loop_char [OF unat_byte_div(1)] b64_loop_char [OF unat_byte_div(4)]
          b64_loop_char [OF unat_byte_div(3)] b64_join) simp
  next
    case (4 a b c r)
    show ?case
      by (simp only: b64encode.simps b64_loop_char [OF unat_byte_div(1)] b64_loop_char [OF unat_byte_div(4)]
          b64_loop_char [OF unat_byte_div(5)] b64_loop_char [OF unat_byte_div(6)] b64_join 4) simp
  qed simp
  then show ?thesis by (simp add: b64decode_def)
qed

lemma b64encode_no_comma: "44 \<notin> set (b64encode bs)"
  using b64_char(3) unat_byte_div by (induction bs rule: b64encode.induct) (auto dest: sym)

lemma nav_crlf: "nav_n0183 (x @ [13, 10]) = Some (x @ [13, 10], length x)"
proof -
  have "int (length (x @ [13, 10 :: byte])) - 2 = int (length x)" by simp
  then have "py_slice (x @ [13, 10]) (int (length (x @ [13, 10 :: byte])) - 2) (int (length (x @ [13, 10 :: byte]))) = [13, 10]"
    by (simp only: py_slice_nat) simp
  then show ?thesis unfolding nav_n0183_def by (simp only: Let_def if_True) simp
qed

text \<open>A sentence read without its checksum.\<close>

lemma n0183_unchecked:
  assumes "44 \<notin> set addr" "addr \<noteq> []" "d \<noteq> 44"
  shows "\<exists>m. new_n0183 now (d # addr @ 44 # rest @ [13, 10]) False None = Inr m \<and> n_delimiter m = d
    \<and> n_address m = addr \<and> n_fields m = split_on 44 rest \<and> n_ts m = now \<and> \<not> n_proprietary m"
proof -
  let ?x = "d # addr @ 44 # rest"
  let ?raw = "?x @ [13, 10]"
  have nav: "nav_n0183 ?raw = Some (?raw, length ?x)" by (rule nav_crlf)
  have ind: "index_of 44 ?raw = Inr (length addr + 1)"
    using index_of_split [of 44 "d # addr" "rest @ [13, 10]"] assms by simp
  have a: "py_slice ?raw 1 (int (length addr + 1)) = addr"
    using py_slice_nat [of ?raw 1 "length addr + 1"] by simp
  have a0: "py_get addr 0 = Inr (hd addr)" using py_get_nat [of 0 addr] assms(2) by (simp add: hd_conv_nth)
  have d0: "py_get ?raw 0 = Inr d" using py_get_nat [of 0 ?raw] by simp
  have f: "py_slice ?raw (int (length addr + 1 + 1)) (int (length ?x)) = rest"
    by (simp only: py_slice_nat) simp
  show ?thesis
    using f nav ind a a0 d0
    by (simp only: new_n0183_def option.case prod.case if_False bind_r_simps Let_def)
      (simp add: n_fields_def py_eq_int_bytes_def)
qed

lemma no_comma_digits: "44 \<notin> set (dec_bytes n)"
  using set_dec_bytes by force

lemma pdgy_bytes: "bytes_of ''!PDGY,'' = [33, 80, 68, 71, 89, 44]" "bytes_of ''PDGY'' = [80, 68, 71, 89]"
  by code_simp+

section \<open>Properties\<close>

text \<open>The PDGY sentence of a message is decoded to the same PGN, priority, source, destination and
  payload, for every payload (base64 included); destination 0 becomes the broadcast address 255, and
  the timestamp written in the sentence is dropped: the message is stamped with the time of reading.\<close>

theorem pdgy_roundtrip:
  assumes "0 \<le> m_ts m"
  shows "from_pgdy now (as_pdgy m)
    = map_sum id (NavN2k None) (new_n2k_msg now (m_pgn m) (m_prio m) (m_sa m)
        (if m_da m = 0 then 255 else m_da m) (Some (m_payload m)) 0)"
proof -
  let ?fs = "[dec_bytes (m_pgn m), dec_bytes (m_prio m), dec_bytes (m_sa m), dec_bytes (m_da m),
     dec_int (trunc (m_ts m)), b64encode (m_payload m)]"
  have ts: "dec_int (trunc (m_ts m)) = dec_bytes (nat (trunc (m_ts m)))"
    using assms by (simp add: dec_int_def trunc_def)
  have enc: "as_pdgy m = 33 # [80, 68, 71, 89] @ 44 # join_on 44 ?fs @ [13, 10]"
    by (simp add: as_pdgy_def pdgy_bytes)
  have split: "split_on 44 (join_on 44 ?fs) = ?fs"
    using no_comma_digits b64encode_no_comma ts by (intro split_on_join) auto
  from n0183_unchecked [of "[80, 68, 71, 89]" 33 now "join_on 44 ?fs"] obtain msg where
    msg: "new_n0183 now (as_pdgy m) False None = Inr msg" "n_delimiter msg = 33" "n_address msg = [80, 68, 71, 89]"
      "n_fields msg = ?fs" unfolding enc split by auto
  have g: "py_get (as_pdgy m) 0 = Inr 33" using py_get_nat [of 0 "as_pdgy m"] by (simp add: enc)
  show ?thesis
    unfolding from_pgdy_def process_nmea0183_frame_def g bind_r_simps
    using msg by (simp add: pdgy_bytes decode_pgdy_def Let_def n2k_of_ints_def nav_n2k_def new_n2k_msg_def)
qed

lemma pdgy_roundtrip_witness:
  "from_pgdy 5 (as_pdgy \<lparr>m_pgn = 129025, m_prio = 2, m_sa = 7, m_da = 0, m_is_iso = False, m_ts = 1,
       m_fast_packet = False, m_payload = [1, 2, 255]\<rparr>)
   = map_sum id (NavN2k None) (new_n2k_msg 5 129025 2 7 255 (Some [1, 2, 255]) 0)"
  using pdgy_roundtrip [of "\<lparr>m_pgn = 129025, m_prio = 2, m_sa = 7, m_da = 0, m_is_iso = False, m_ts = 1,
       m_fast_packet = False, m_payload = [1, 2, 255]\<rparr>" 5] by simp

end
