(* ===== verification/Filters.thy ===== *)
theory Filters
  imports Nmea0183
begin

text \<open>
  \<^verbatim>\<open>router_core/filters.py\<close>, \<^verbatim>\<open>nmea0183/nmea0183_filters.py\<close> and \<^verbatim>\<open>nmea2000/nmea2k_filters.py\<close>: the
  filters between the couplers and the publishers. A filter is a record with the data of its class in
  \<open>f_kind\<close>; a time filter carries its timers, so that an operation returns the filter after the call.
  A set owns its filters: one filter named in two sets, which would share its timers, is not modelled.
  The clock is an argument.
\<close>

section \<open>Filters\<close>

record time_filter =
  tf_period :: real
  tf_tick :: real

definition new_time_filter :: "real \<Rightarrow> real \<Rightarrow> time_filter" where
  "new_time_filter now period = \<lparr>tf_period = period, tf_tick = now\<rparr>"

definition check_period :: "real \<Rightarrow> time_filter \<Rightarrow> time_filter \<times> bool" where
  "check_period now tf =
     (if now - tf_tick tf > tf_period tf
      then (tf\<lparr>tf_tick := tf_tick tf + tf_period tf\<rparr>, True) else (tf, False))"

datatype filter_type = Discard | Select

datatype filter_kind =
    N0183Filter "bytes option" "bytes option"
  | N2kFilter "nat list option" "nat option"
  | N2kTimeFilter "nat list option" "nat option" real "(nat, time_filter) dict"

record nav_filter =
  f_name :: string
  f_type :: filter_type
  f_kind :: filter_kind

definition new_n2k_time_filter ::
    "real \<Rightarrow> string \<Rightarrow> filter_type \<Rightarrow> nat list option \<Rightarrow> nat option \<Rightarrow> real \<Rightarrow> nav_filter" where
  "new_n2k_time_filter now name t pgns sa period =
     \<lparr>f_name = name, f_type = t, f_kind =
        N2kTimeFilter pgns sa period
          (case pgns of
             None \<Rightarrow> dict_set 0 (new_time_filter now period) []
           | Some ps \<Rightarrow> fold (\<lambda>pgn d. dict_set pgn (new_time_filter now period) d) ps [])\<rparr>"

fun filter_valid :: "filter_kind \<Rightarrow> bool" where
  "filter_valid (N0183Filter tk fm) = (if tk \<noteq> None \<or> fm \<noteq> None then True else False)"
| "filter_valid (N2kFilter pgns sa) = (if pgns \<noteq> None \<or> sa \<noteq> None then True else False)"
| "filter_valid (N2kTimeFilter pgns sa period timers) =
     (if period > 0 then (if pgns \<noteq> None \<or> sa \<noteq> None then True else False) else False)"

definition process_nmea0183 :: "bytes option \<Rightarrow> bytes option \<Rightarrow> n0183_msg \<Rightarrow> bool result" where
  "process_nmea0183 tk fm m =
     bind_r (case tk of None \<Rightarrow> Inr True | Some t \<Rightarrow> map_sum id (\<lambda>x. t = x) (talker m)) (\<lambda>t_ok.
     bind_r (case fm of None \<Rightarrow> Inr True | Some f \<Rightarrow> map_sum id (\<lambda>x. f = x) (formatter m)) (\<lambda>f_ok.
       Inr (t_ok \<and> f_ok)))"

definition process_n2k :: "nat list option \<Rightarrow> nat option \<Rightarrow> n2k_msg \<Rightarrow> bool" where
  "process_n2k pgns sa m =
     (let sa_ok = (case sa of None \<Rightarrow> True | Some a \<Rightarrow> a = m_sa m);
          pgn_ok = (case pgns of None \<Rightarrow> True | Some ps \<Rightarrow> m_pgn m \<in> set ps)
      in sa_ok \<and> pgn_ok)"

definition base_action :: "filter_type \<Rightarrow> bool" where
  "base_action t = (if t = Select then True else False)"

text \<open>The action of a filter that selected the message: the filter after it, and the answer. A time
  filter looks its timer up by the PGN of the message; the timers of a filter without a list of PGNs
  have the single key 0.\<close>

definition filter_action :: "real \<Rightarrow> nav_filter \<Rightarrow> nav_msg \<Rightarrow> nav_filter \<times> bool result" where
  "filter_action now f msg =
     (case (f_kind f, msg) of
        (N2kTimeFilter pgns sa period timers, NavN2k _ m) \<Rightarrow>
          (case dict_get timers (m_pgn m) of
             None \<Rightarrow> (f, Inl KeyError)
           | Some tf \<Rightarrow>
               let (tf1, result) = check_period now tf;
                   f1 = f\<lparr>f_kind := N2kTimeFilter pgns sa period (dict_set (m_pgn m) tf1 timers)\<rparr>
               in (f1, Inr (if result then (if f_type f = Select then True else False) else False)))
      | _ \<Rightarrow> (f, Inr (base_action (f_type f))))"

section \<open>Sets of filters\<close>

record filter_set =
  fs_n0183 :: "nav_filter list"
  fs_n2k :: "nav_filter list"

fun is_n0183_filter :: "filter_kind \<Rightarrow> bool" where
  "is_n0183_filter (N0183Filter _ _) = True"
| "is_n0183_filter _ = False"

definition add_filter :: "nav_filter \<Rightarrow> filter_set \<Rightarrow> filter_set" where
  "add_filter f s =
     (if filter_valid (f_kind f)
      then (if is_n0183_filter (f_kind f) then s\<lparr>fs_n0183 := fs_n0183 s @ [f]\<rparr>
            else s\<lparr>fs_n2k := fs_n2k s @ [f]\<rparr>)
      else s)"

text \<open>The references to filters that do not resolve are \<open>None\<close>; they are logged and left out.\<close>

fun add_filters :: "nav_filter option list \<Rightarrow> filter_set \<Rightarrow> filter_set" where
  "add_filters [] s = s"
| "add_filters (None # fs) s = add_filters fs s"
| "add_filters (Some f # fs) s = add_filters fs (add_filter f s)"

definition new_filter_set :: "nav_filter option list \<Rightarrow> filter_set result" where
  "new_filter_set refs =
     (let s = add_filters refs \<lparr>fs_n0183 = [], fs_n2k = []\<rparr>
      in if length (fs_n2k s) + length (fs_n0183 s) = 0 then Inl ValueError else Inr s)"

text \<open>The position of the first filter that selects the message; an exception stops the search.\<close>

fun filter_selects :: "nav_filter \<Rightarrow> nav_msg \<Rightarrow> bool result" where
  "filter_selects f (NavN0183 m) =
     (case f_kind f of N0183Filter tk fm \<Rightarrow> process_nmea0183 tk fm m | _ \<Rightarrow> Inl AttributeError)"
| "filter_selects f (NavN2k _ m) =
     (case f_kind f of
        N2kFilter pgns sa \<Rightarrow> Inr (process_n2k pgns sa m)
      | N2kTimeFilter pgns sa _ _ \<Rightarrow> Inr (process_n2k pgns sa m)
      | N0183Filter _ _ \<Rightarrow> Inl AttributeError)"
| "filter_selects f _ = Inr False"

fun first_selecting :: "nav_filter list \<Rightarrow> nav_msg \<Rightarrow> nat option result" where
  "first_selecting [] msg = Inr None"
| "first_selecting (f # fs) msg =
     bind_r (filter_selects f msg) (\<lambda>b.
       if b then Inr (Some 0) else map_sum id (map_option Suc) (first_selecting fs msg))"

fun filters_for :: "nav_msg \<Rightarrow> filter_set \<Rightarrow> nav_filter list" where
  "filters_for (NavN0183 _) s = fs_n0183 s"
| "filters_for (NavN2k _ _) s = fs_n2k s"
| "filters_for _ s = []"

definition set_filters :: "nav_msg \<Rightarrow> nav_filter list \<Rightarrow> filter_set \<Rightarrow> filter_set" where
  "set_filters msg fs s =
     (case msg of NavN0183 _ \<Rightarrow> s\<lparr>fs_n0183 := fs\<rparr> | NavN2k _ _ \<Rightarrow> s\<lparr>fs_n2k := fs\<rparr> | _ \<Rightarrow> s)"

text \<open>True when the message is to be discarded. An exception of the search keeps the message; one of the
  action, which is outside the \<^verbatim>\<open>try\<close>, escapes.\<close>

definition process_filter ::
    "real \<Rightarrow> filter_set \<Rightarrow> nav_msg \<Rightarrow> bool \<Rightarrow> bool \<Rightarrow> filter_set \<times> bool result" where
  "process_filter now s msg execute_action select_filter =
     (let fs = filters_for msg s in
      case first_selecting fs msg of
        Inl _ \<Rightarrow> (s, Inr False)
      | Inr None \<Rightarrow> (s, Inr select_filter)
      | Inr (Some i) \<Rightarrow>
          if execute_action then
            let (f1, r) = filter_action now (fs ! i) msg
            in (set_filters msg (fs[i := f1]) s, map_sum id Not r)
          else (s, Inr (\<not> select_filter)))"

section \<open>Lemmas\<close>

lemma first_selecting_Some:
  "first_selecting fs msg = Inr (Some i) \<Longrightarrow>
     i < length fs \<and> filter_selects (fs ! i) msg = Inr True \<and> (\<forall>j < i. filter_selects (fs ! j) msg = Inr False)"
proof (induction fs arbitrary: i)
  case (Cons f fs)
  from Cons.prems obtain b where b: "filter_selects f msg = Inr b"
    by (auto simp: bind_r_Inr_iff)
  show ?case
  proof (cases b)
    case False
    with Cons.prems b obtain k where k: "first_selecting fs msg = Inr (Some k)" "i = Suc k"
      by (cases "first_selecting fs msg") (auto split: option.splits)
    with Cons.IH [OF k(1)] b False show ?thesis by (auto simp: less_Suc_eq_0_disj)
  qed (use Cons.prems b in auto)
qed simp

lemma first_selecting_None:
  "first_selecting fs msg = Inr None \<longleftrightarrow> (\<forall>f \<in> set fs. filter_selects f msg = Inr False)"
proof (induction fs)
  case (Cons f fs)
  show ?case
  proof (cases "filter_selects f msg")
    case (Inr b)
    with Cons show ?thesis
      by (cases b; cases "first_selecting fs msg") (auto split: option.splits)
  qed simp
qed simp

lemma check_period_simps:
  "tf_period (fst (check_period now tf)) = tf_period tf"
  "snd (check_period now tf) \<longleftrightarrow> tf_tick tf + tf_period tf < now"
  "tf_tick (fst (check_period now tf))
     = (if snd (check_period now tf) then tf_tick tf + tf_period tf else tf_tick tf)"
  by (auto simp: check_period_def)

text \<open>A set holds its filters by their kind; \<open>add_filter\<close> keeps that.\<close>

definition wf_filters :: "filter_set \<Rightarrow> bool" where
  "wf_filters s \<longleftrightarrow> (\<forall>f \<in> set (fs_n0183 s). is_n0183_filter (f_kind f)) \<and>
     (\<forall>f \<in> set (fs_n2k s). \<not> is_n0183_filter (f_kind f))"

lemma add_filter_wf: "wf_filters s \<Longrightarrow> wf_filters (add_filter f s)"
  unfolding wf_filters_def add_filter_def by auto

lemma add_filters_wf: "wf_filters s \<Longrightarrow> wf_filters (add_filters refs s)"
proof (induction refs arbitrary: s)
  case (Cons r refs)
  then show ?case by (cases r) (simp_all add: add_filter_wf)
qed simp

lemma new_filter_set_wf: "new_filter_set refs = Inr s \<Longrightarrow> wf_filters s"
proof -
  assume "new_filter_set refs = Inr s"
  then have "s = add_filters refs \<lparr>fs_n0183 = [], fs_n2k = []\<rparr>"
    by (simp add: new_filter_set_def Let_def split: if_splits)
  moreover have "wf_filters \<lparr>fs_n0183 = [], fs_n2k = []\<rparr>" by (simp add: wf_filters_def)
  ultimately show ?thesis using add_filters_wf by simp
qed

text \<open>On the messages that the readers make, no filter of a set raises.\<close>

fun plain_msg :: "nav_msg \<Rightarrow> bool" where
  "plain_msg (NavN0183 m) \<longleftrightarrow> \<not> n_proprietary m"
| "plain_msg _ \<longleftrightarrow> True"

lemma filter_selects_total:
  assumes "wf_filters s" "plain_msg msg" "f \<in> set (filters_for msg s)"
  shows "\<exists>b. filter_selects f msg = Inr b"
proof (cases msg)
  case (NavN0183 m)
  with assms obtain tk fm where "f_kind f = N0183Filter tk fm"
    by (cases "f_kind f") (auto simp: wf_filters_def)
  with NavN0183 assms show ?thesis
    by (auto simp: process_nmea0183_def talker_def formatter_def split: option.splits)
next
  case (NavN2k raw m)
  with assms have "\<not> is_n0183_filter (f_kind f)" by (auto simp: wf_filters_def)
  with NavN2k show ?thesis by (cases "f_kind f") auto
qed auto

lemma first_selecting_find:
  assumes "\<And>f. f \<in> set fs \<Longrightarrow> \<exists>b. filter_selects f msg = Inr b"
  shows "\<exists>r. first_selecting fs msg = Inr r \<and>
     map_option (\<lambda>i. fs ! i) r = List.find (\<lambda>f. filter_selects f msg = Inr True) fs \<and>
     (case r of None \<Rightarrow> True | Some i \<Rightarrow> i < length fs)"
  using assms
proof (induction fs)
  case (Cons f fs)
  then obtain r where r: "first_selecting fs msg = Inr r"
    "map_option (\<lambda>i. fs ! i) r = List.find (\<lambda>f. filter_selects f msg = Inr True) fs"
    "case r of None \<Rightarrow> True | Some i \<Rightarrow> i < length fs" by auto
  from Cons.prems obtain b where "filter_selects f msg = Inr b" by auto
  with r show ?case by (cases b; cases r) auto
qed simp

fun is_time_filter :: "filter_kind \<Rightarrow> bool" where
  "is_time_filter (N2kTimeFilter _ _ _ _) = True"
| "is_time_filter _ = False"

lemma set_filters_same: "set_filters msg (filters_for msg s) s = s"
  by (cases msg) (auto simp: set_filters_def)

section \<open>Properties\<close>


text \<open>A run of messages through a set: for each one, whether it is discarded.\<close>

fun filter_run :: "filter_set \<Rightarrow> bool \<Rightarrow> (real \<times> nav_msg) list \<Rightarrow> bool result list" where
  "filter_run s sel [] = []"
| "filter_run s sel ((now, msg) # ms) =
     (let (s1, r) = process_filter now s msg True sel in r # filter_run s1 sel ms)"

lemma timer_run:
  assumes "dict_get timers p = Some tf" "tf_period tf = period" "0 < period"
    and "\<forall>(t, msg) \<in> set ms. t \<le> T \<and> (\<exists>raw m. msg = NavN2k raw m \<and> m_pgn m = p \<and> process_n2k pgns sa m)"
  shows "let rs = filter_run \<lparr>fs_n0183 = n, fs_n2k = [\<lparr>f_name = name, f_type = Select,
              f_kind = N2kTimeFilter pgns sa period timers\<rparr>]\<rparr> sel ms;
            k = length (filter (\<lambda>r. r = Inr False) rs)
         in set rs \<subseteq> {Inr False, Inr True} \<and> (k = 0 \<or> tf_tick tf + real k * period < T)"
  using assms(1,2,4)
proof (induction ms arbitrary: timers tf)
  case (Cons a ms)
  obtain t msg where a: "a = (t, msg)" by (cases a)
  with Cons.prems(3) obtain raw m where m: "msg = NavN2k raw m" "m_pgn m = p" "process_n2k pgns sa m"
    and t: "t \<le> T" and ms: "\<forall>(t, msg) \<in> set ms. t \<le> T \<and>
      (\<exists>raw m. msg = NavN2k raw m \<and> m_pgn m = p \<and> process_n2k pgns sa m)" by auto
  let ?s = "\<lambda>timers. \<lparr>fs_n0183 = n, fs_n2k = [\<lparr>f_name = name, f_type = Select,
      f_kind = N2kTimeFilter pgns sa period timers\<rparr>]\<rparr>"
  define tf1 where "tf1 = fst (check_period t tf)"
  define b where "b = snd (check_period t tf)"
  have cp: "check_period t tf = (tf1, b)" by (simp add: tf1_def b_def)
  have step: "process_filter t (?s timers) msg True sel = (?s (dict_set p tf1 timers), Inr (\<not> b))"
    using m Cons.prems(1) cp
    by (simp add: process_filter_def Let_def filter_action_def set_filters_def)
  have IH: "let rs = filter_run (?s (dict_set p tf1 timers)) sel ms;
            k = length (filter (\<lambda>r. r = Inr False) rs)
         in set rs \<subseteq> {Inr False, Inr True} \<and> (k = 0 \<or> tf_tick tf1 + real k * period < T)"
    by (rule Cons.IH) (simp_all add: al.get_put tf1_def check_period_simps Cons.prems(2) ms)
  have tick: "tf_tick tf1 = (if b then tf_tick tf + period else tf_tick tf)" "b \<longleftrightarrow> tf_tick tf + period < t"
    by (simp_all add: tf1_def b_def check_period_simps Cons.prems(2))
  show ?case
    using IH tick t unfolding a filter_run.simps step
    by (cases b) (auto simp: Let_def algebra_simps)
qed simp

text \<open>Concrete data for the witnesses.\<close>

definition sample_n2k :: "nat \<Rightarrow> n2k_msg" where
  "sample_n2k pgn = \<lparr>m_pgn = pgn, m_prio = 2, m_sa = 7, m_da = 255, m_is_iso = False, m_ts = 0,
     m_fast_packet = False, m_payload = []\<rparr>"

definition sample_filter :: nav_filter where
  "sample_filter = \<lparr>f_name = ''hdg'', f_type = Discard, f_kind = N2kFilter (Some [127250]) None\<rparr>"


text \<open>C23. A select filter with a period passes at most as many messages of a PGN as the period allows:
  over any run of messages up to time \<open>T\<close>, \<open>k\<close> messages passed means that more than \<open>k\<close> periods have gone
  since the filter was made, however the messages are spaced, and no message raises.\<close>

theorem time_filter_rate:
  assumes "p \<in> set ps" "0 < period"
    and "\<forall>(t, msg) \<in> set ms. t \<le> T \<and>
      (\<exists>raw m. msg = NavN2k raw m \<and> m_pgn m = p \<and> (\<forall>a. sa = Some a \<longrightarrow> m_sa m = a))"
  shows "let s = add_filter (new_n2k_time_filter t0 name Select (Some ps) sa period) \<lparr>fs_n0183 = n, fs_n2k = []\<rparr>;
             rs = filter_run s sel ms; k = length (filter (\<lambda>r. r = Inr False) rs)
         in set rs \<subseteq> {Inr False, Inr True} \<and> (k = 0 \<or> real k * period < T - t0)"
proof -
  let ?t = "\<lambda>ps. fold (\<lambda>pgn d. dict_set pgn (new_time_filter t0 period) d) ps []"
  have "dict_get (fold (\<lambda>pgn d. dict_set pgn (new_time_filter t0 period) d) qs d) p
      = (if p \<in> set qs then Some (new_time_filter t0 period) else dict_get d p)" for qs d
    by (induction qs arbitrary: d) (auto simp: al.get_put)
  with assms(1) have tm: "dict_get (?t ps) p = Some (new_time_filter t0 period)" by simp
  have ms: "\<forall>(t, msg) \<in> set ms. t \<le> T \<and> (\<exists>raw m. msg = NavN2k raw m \<and> m_pgn m = p \<and> process_n2k (Some ps) sa m)"
    using assms(1,3) by (fastforce simp: process_n2k_def split: option.splits)
  have nf: "tf_period (new_time_filter t0 period) = period" "tf_tick (new_time_filter t0 period) = t0"
    by (simp_all add: new_time_filter_def)
  from timer_run [OF tm nf(1) assms(2) ms, of n name sel] assms(2) show ?thesis
    by (auto simp: new_n2k_time_filter_def add_filter_def Let_def nf(2) algebra_simps)
qed

lemma time_filter_rate_witness:
  "filter_run (add_filter (new_n2k_time_filter 0 ''hdg'' Select (Some [127250]) None 1) \<lparr>fs_n0183 = [], fs_n2k = []\<rparr>)
     True [(1/2, NavN2k None (sample_n2k 127250)), (2, NavN2k None (sample_n2k 127250))] = [Inr True, Inr False] \<and>
   1 * 1 < 2 - (0 :: real)"
proof
  show run: "filter_run (add_filter (new_n2k_time_filter 0 ''hdg'' Select (Some [127250]) None 1) \<lparr>fs_n0183 = [], fs_n2k = []\<rparr>)
     True [(1/2, NavN2k None (sample_n2k 127250)), (2, NavN2k None (sample_n2k 127250))] = [Inr True, Inr False]"
    by (simp add: sample_n2k_def new_n2k_time_filter_def add_filter_def process_filter_def process_n2k_def
        filter_action_def new_time_filter_def check_period_def set_filters_def)
  show "1 * 1 < 2 - (0 :: real)"
    using time_filter_rate [of 127250 "[127250]" 1
        "[(1/2, NavN2k None (sample_n2k 127250)), (2, NavN2k None (sample_n2k 127250))]" 2 None 0
        "''hdg''" "[]" True]
    unfolding Let_def run by (simp add: sample_n2k_def)
qed

end
