(* ===== verification/Publisher.thy ===== *)
theory Publisher
  imports Filters Queues
begin

text \<open>
  \<^verbatim>\<open>router_core/publisher.py\<close>: the bounded queue between a coupler and one consumer of its messages.
  \<open>publish\<close> runs in the thread of the coupler, \<open>pub_turn\<close> is one turn of the publisher's own loop
  \<^verbatim>\<open>nrun\<close>; \<^verbatim>\<open>process_msg\<close>, which the subclasses define, is an argument of it, and the subclasses that the
  file defines are instances. Waiting (\<^verbatim>\<open>time.sleep\<close>, the timeout of \<^verbatim>\<open>get\<close>) has no effect on the state.
\<close>

section \<open>State\<close>

record publisher =
  p_queue :: "nav_msg bqueue"
  p_max_lost :: nat
  p_threshold :: nat
  p_tpass :: bool
  p_stopflag :: bool
  p_nb_lost :: nat
  p_filters :: "filter_set option"
  p_filter_select :: bool
  p_active :: bool

definition make_publisher ::
    "nat \<Rightarrow> nat \<Rightarrow> bool \<Rightarrow> filter_set option \<Rightarrow> bool \<Rightarrow> publisher" where
  "make_publisher queue_size max_lost active filters filter_select =
     \<lparr>p_queue = new_queue queue_size, p_max_lost = max_lost,
      p_threshold = nat \<lfloor>real queue_size * 0.8\<rfloor>, p_tpass = False, p_stopflag = False,
      p_nb_lost = 0, p_filters = filters, p_filter_select = filter_select, p_active = active\<rparr>"

definition new_internal_publisher :: "filter_set option \<Rightarrow> publisher" where
  "new_internal_publisher filters = make_publisher 40 10 True filters False"

text \<open>A publisher of the configuration: a set of filters that cannot be made is logged and left out.\<close>

definition new_external_publisher ::
    "nat \<Rightarrow> nat \<Rightarrow> bool \<Rightarrow> bool \<Rightarrow> nav_filter option list \<Rightarrow> publisher" where
  "new_external_publisher queue_size max_lost active filter_select filter_refs =
     (let p = make_publisher queue_size max_lost active None filter_select in
      if 0 < length filter_refs
      then (case new_filter_set filter_refs of
              Inr fs \<Rightarrow> p\<lparr>p_filters := Some fs, p_filter_select := True\<rparr>
            | Inl _ \<Rightarrow> p)
      else p)"

section \<open>Publishing\<close>

text \<open>The supervision of the level of the queue, after a put.\<close>

definition watch_level :: "publisher \<Rightarrow> publisher" where
  "watch_level p =
     (let qs = length (q_items (p_queue p));
          p1 = (if p_threshold p < qs then p\<lparr>p_tpass := True\<rparr> else p)
      in if p_tpass p1 then (if qs < 4 then p1\<lparr>p_tpass := False\<rparr> else p1) else p1)"

definition enqueue :: "nav_msg \<Rightarrow> publisher \<Rightarrow> publisher \<times> unit result" where
  "enqueue msg p =
     (case q_put msg (p_queue p) of
        Inr q \<Rightarrow> (watch_level (p\<lparr>p_queue := q, p_nb_lost := 0\<rparr>), Inr ())
      | Inl _ \<Rightarrow>
          let p1 = p\<lparr>p_nb_lost := p_nb_lost p + 1\<rparr>
          in if p_max_lost p1 \<le> p_nb_lost p1 then (p1, Inl PublisherOverflow)
             else (watch_level p1, Inr ()))"

definition publish :: "real \<Rightarrow> nav_msg \<Rightarrow> publisher \<Rightarrow> publisher \<times> unit result" where
  "publish now msg p =
     (case p_filters p of
        None \<Rightarrow> enqueue msg p
      | Some fs \<Rightarrow>
          let (fs1, r) = process_filter now fs msg True (p_filter_select p);
              p1 = p\<lparr>p_filters := Some fs1\<rparr>
          in case r of
               Inl e \<Rightarrow> (p1, Inl e)
             | Inr True \<Rightarrow> (p1, Inr ())
             | Inr False \<Rightarrow> enqueue msg p1)"

definition pub_stop :: "publisher \<Rightarrow> publisher" where
  "pub_stop p = p\<lparr>p_stopflag := True\<rparr>"

section \<open>The loop\<close>

text \<open>
  One turn of \<^verbatim>\<open>nrun\<close>: \<open>None\<close> when the loop ends, else the message that was processed, if there was one.
  \<open>process\<close> is \<^verbatim>\<open>process_msg\<close> on the state \<open>s\<close> of the consumer.
\<close>

definition pub_turn ::
    "('s \<Rightarrow> nav_msg \<Rightarrow> 's \<times> bool) \<Rightarrow> 's \<Rightarrow> publisher \<Rightarrow> 's \<times> publisher \<times> nav_msg option \<times> bool" where
  "pub_turn process s p =
     (if p_stopflag p then (s, p, None, False)
      else case q_get (p_queue p) of
        Inl _ \<Rightarrow> (if p_stopflag p then (s, p, None, False) else (s, p, None, True))
      | Inr (msg, q) \<Rightarrow>
          let (s1, ok) = process s msg in (s1, p\<lparr>p_queue := q\<rparr>, Some msg, ok))"

text \<open>The default handler of the class, and those of the subclasses.\<close>

definition default_process :: "'s \<Rightarrow> nav_msg \<Rightarrow> 's \<times> bool" where
  "default_process s msg = (s, False)"

definition print_process :: "nav_msg list \<Rightarrow> nav_msg \<Rightarrow> nav_msg list \<times> bool" where
  "print_process printed msg = (printed @ [msg], True)"

definition pull_process :: "nav_msg list \<Rightarrow> nav_msg \<Rightarrow> nav_msg list \<times> bool" where
  "pull_process wait_queue msg = (wait_queue @ [msg], True)"

definition pull_msg :: "nav_msg list \<Rightarrow> nav_msg option \<times> nav_msg list" where
  "pull_msg wait_queue = (case wait_queue of [] \<Rightarrow> (None, []) | m # ms \<Rightarrow> (Some m, ms))"

text \<open>The injector hands the message to the sending side of another coupler.\<close>

definition injector_process :: "('c \<Rightarrow> nav_msg \<Rightarrow> 'c \<times> bool) \<Rightarrow> 'c \<Rightarrow> nav_msg \<Rightarrow> 'c \<times> bool" where
  "injector_process send_msg_gen target msg = send_msg_gen target msg"

text \<open>Any interleaving of the two threads and of a request to stop, until the loop ends: the publisher,
  the consumer, whether the loop still runs, the messages put in the queue and the messages processed.\<close>

datatype pub_event = Publish real nav_msg | Turn | StopPub

fun pub_run ::
    "('s \<Rightarrow> nav_msg \<Rightarrow> 's \<times> bool) \<Rightarrow> 's \<Rightarrow> publisher \<Rightarrow> bool \<Rightarrow> pub_event list
     \<Rightarrow> 's \<times> publisher \<times> bool \<times> nav_msg list \<times> nav_msg list" where
  "pub_run process s p running [] = (s, p, running, [], [])"
| "pub_run process s p running (Publish now msg # es) =
     (let p1 = fst (publish now msg p);
          (s2, p2, run2, accepted, processed) = pub_run process s p1 running es
      in (s2, p2, run2,
          if q_items (p_queue p1) = q_items (p_queue p) then accepted else msg # accepted, processed))"
| "pub_run process s p running (StopPub # es) = pub_run process s (pub_stop p) running es"
| "pub_run process s p running (Turn # es) =
     (if \<not> running then pub_run process s p False es
      else
        let (s1, p1, got, go_on) = pub_turn process s p;
            (s2, p2, run2, accepted, processed) = pub_run process s1 p1 go_on es
        in (s2, p2, run2, accepted, case got of None \<Rightarrow> processed | Some m \<Rightarrow> m # processed))"

section \<open>Lemmas\<close>

lemma watch_level_keeps [simp]:
  "p_queue (watch_level p) = p_queue p" "p_max_lost (watch_level p) = p_max_lost p"
  "p_nb_lost (watch_level p) = p_nb_lost p" "p_filters (watch_level p) = p_filters p"
  "p_stopflag (watch_level p) = p_stopflag p" "p_threshold (watch_level p) = p_threshold p"
  "p_filter_select (watch_level p) = p_filter_select p" "p_active (watch_level p) = p_active p"
  by (simp_all add: watch_level_def Let_def)

lemma enqueue_queue:
  "q_items (p_queue (fst (enqueue msg p))) = q_items (p_queue p) \<or>
   q_items (p_queue (fst (enqueue msg p))) = q_items (p_queue p) @ [msg]"
  by (auto simp: enqueue_def Let_def bq.put_ok split: sum.splits)

text \<open>Publishing only filters, or filters and enqueues.\<close>

lemma publish_cases:
  obtains (filtered) f where "fst (publish now msg p) = p\<lparr>p_filters := f\<rparr>"
  | (queued) f where "fst (publish now msg p) = fst (enqueue msg (p\<lparr>p_filters := f\<rparr>))"
proof (cases "p_filters p")
  case None
  then have "p\<lparr>p_filters := None\<rparr> = p" by simp
  moreover from None have "fst (publish now msg p) = fst (enqueue msg p)"
    by (simp add: publish_def)
  ultimately show ?thesis using queued [of None] by metis
next
  case (Some fs)
  obtain fs1 r where r: "process_filter now fs msg True (p_filter_select p) = (fs1, r)" by fastforce
  show ?thesis
  proof (cases "r = Inr False")
    case True
    with Some r have "fst (publish now msg p) = fst (enqueue msg (p\<lparr>p_filters := Some fs1\<rparr>))"
      by (simp add: publish_def)
    then show ?thesis by (rule queued)
  next
    case False
    with Some r have "fst (publish now msg p) = p\<lparr>p_filters := Some fs1\<rparr>"
      by (auto simp: publish_def Let_def split: sum.splits bool.splits)
    then show ?thesis by (rule filtered)
  qed
qed

lemma publish_queue:
  "q_items (p_queue (fst (publish now msg p))) = q_items (p_queue p) \<or>
   q_items (p_queue (fst (publish now msg p))) = q_items (p_queue p) @ [msg]"
proof (rule publish_cases [of now msg p])
  fix f assume "fst (publish now msg p) = fst (enqueue msg (p\<lparr>p_filters := f\<rparr>))"
  with enqueue_queue [of msg "p\<lparr>p_filters := f\<rparr>"] show ?thesis by simp
qed simp

text \<open>The two fields that no call of \<open>publish\<close> changes.\<close>

lemma enqueue_keeps:
  "q_max (p_queue (fst (enqueue msg p))) = q_max (p_queue p)"
  "p_max_lost (fst (enqueue msg p)) = p_max_lost p"
  by (auto simp: enqueue_def Let_def bq.put_ok split: sum.splits)

lemma publish_keeps:
  "q_max (p_queue (fst (publish now msg p))) = q_max (p_queue p)"
  "p_max_lost (fst (publish now msg p)) = p_max_lost p"
  by (rule publish_cases [of now msg p]; simp add: enqueue_keeps)+

text \<open>A put never exceeds the bound of the queue.\<close>

lemma enqueue_bound:
  assumes "0 < q_max (p_queue p)" "length (q_items (p_queue p)) \<le> q_max (p_queue p)"
  shows "length (q_items (p_queue (fst (enqueue msg p)))) \<le> q_max (p_queue p)"
proof (cases "q_put msg (p_queue p)")
  case (Inl e)
  then have "p_queue (fst (enqueue msg p)) = p_queue p" by (simp add: enqueue_def Let_def)
  with assms show ?thesis by simp
next
  case (Inr q)
  then have "p_queue (fst (enqueue msg p)) = q" by (simp add: enqueue_def)
  with bq.put_ok [OF Inr] bq.put_bound [OF Inr assms(1)] show ?thesis by simp
qed

lemma publish_bound:
  assumes "0 < q_max (p_queue p)" "length (q_items (p_queue p)) \<le> q_max (p_queue p)"
  shows "length (q_items (p_queue (fst (publish now msg p)))) \<le> q_max (p_queue p)"
proof (rule publish_cases [of now msg p])
  fix f assume "fst (publish now msg p) = fst (enqueue msg (p\<lparr>p_filters := f\<rparr>))"
  with assms enqueue_bound [of "p\<lparr>p_filters := f\<rparr>" msg] show ?thesis by simp
qed (use assms in simp)

lemma pub_turn_queue:
  assumes "pub_turn process s p = (s1, p1, got, go_on)"
  shows "q_items (p_queue p) = (case got of None \<Rightarrow> [] | Some m \<Rightarrow> [m]) @ q_items (p_queue p1)"
    "q_max (p_queue p1) = q_max (p_queue p)"
    "length (q_items (p_queue p1)) \<le> length (q_items (p_queue p))"
proof -
  have "q_items (p_queue p) = (case got of None \<Rightarrow> [] | Some m \<Rightarrow> [m]) @ q_items (p_queue p1)
      \<and> q_max (p_queue p1) = q_max (p_queue p)"
    using assms bq.get_ok [of "p_queue p"]
    by (auto simp: pub_turn_def split: if_splits sum.splits prod.splits)
  then show "q_items (p_queue p) = (case got of None \<Rightarrow> [] | Some m \<Rightarrow> [m]) @ q_items (p_queue p1)"
    "q_max (p_queue p1) = q_max (p_queue p)"
    "length (q_items (p_queue p1)) \<le> length (q_items (p_queue p))" by simp_all
qed

lemma pub_run_order:
  assumes "pub_run process s p running es = (s', p', running', accepted, processed)"
    and "0 < q_max (p_queue p)" "length (q_items (p_queue p)) \<le> q_max (p_queue p)"
  shows "q_items (p_queue p) @ accepted = processed @ q_items (p_queue p')
    \<and> length (q_items (p_queue p')) \<le> q_max (p_queue p)"
  using assms
proof (induction es arbitrary: s p running accepted processed)
  case (Cons e es)
  show ?case
  proof (cases e)
    case (Publish now msg)
    define p1 where "p1 = fst (publish now msg p)"
    obtain acc where r: "pub_run process s p1 running es = (s', p', running', acc, processed)"
      and acc: "accepted = (if q_items (p_queue p1) = q_items (p_queue p) then acc else msg # acc)"
      using Cons.prems(1) unfolding Publish by (auto simp: p1_def Let_def split: prod.splits)
    have "0 < q_max (p_queue p1)" "length (q_items (p_queue p1)) \<le> q_max (p_queue p1)"
      using Cons.prems(2,3) publish_bound publish_keeps by (simp_all add: p1_def)
    from Cons.IH [OF r this] acc publish_queue [of now msg p] publish_keeps(1) [of now msg p]
    show ?thesis by (auto simp: p1_def split: if_splits)
  next
    case StopPub
    then have "pub_run process s (pub_stop p) running es = (s', p', running', accepted, processed)"
      using Cons.prems(1) by simp
    from Cons.IH [OF this] Cons.prems(2,3) show ?thesis by (simp add: pub_stop_def)
  next
    case Turn
    show ?thesis
    proof (cases running)
      case True
      obtain s1 p1 got go_on where t: "pub_turn process s p = (s1, p1, got, go_on)"
        by (metis prod_cases4)
      obtain pr where r: "pub_run process s1 p1 go_on es = (s', p', running', accepted, pr)"
        and pr: "processed = (case got of None \<Rightarrow> pr | Some m \<Rightarrow> m # pr)"
        using Cons.prems(1) True unfolding Turn by (auto simp: t Let_def split: prod.splits)
      note q = pub_turn_queue [OF t]
      have "0 < q_max (p_queue p1)" "length (q_items (p_queue p1)) \<le> q_max (p_queue p1)"
        using q Cons.prems(2,3) by linarith+
      from Cons.IH [OF r this] pr q show ?thesis by (cases got) auto
    next
      case False
      with Cons.prems Turn Cons.IH show ?thesis by simp
    qed
  qed
qed simp

section \<open>Properties\<close>

text \<open>C24. Whatever the interleaving of the coupler publishing and the publisher's loop, the messages
  processed are those accepted, in order, none lost and none twice, except for those still queued, and
  the queue never exceeds its size; filters, refused messages and the end of the loop included.\<close>

theorem publisher_order:
  assumes "pub_run process s (make_publisher n k active filters sel) True es
      = (s', p', running', accepted, processed)" "0 < n"
  shows "accepted = processed @ q_items (p_queue p') \<and> length (q_items (p_queue p')) \<le> n"
  using pub_run_order [OF assms(1)] assms(2) by (simp add: make_publisher_def new_queue_def)

fun publish_all :: "publisher \<Rightarrow> (real \<times> nav_msg) list \<Rightarrow> publisher \<times> unit result list" where
  "publish_all p [] = (p, [])"
| "publish_all p ((now, m) # ms) =
     (let (p1, r) = publish now m p; (p2, rs) = publish_all p1 ms in (p2, r # rs))"

lemma publish_all_append:
  "publish_all p (xs @ ys)
     = (let (p1, rs1) = publish_all p xs; (p2, rs2) = publish_all p1 ys in (p2, rs1 @ rs2))"
  by (induction xs arbitrary: p) (auto split: prod.splits)

lemma publish_room:
  assumes "p_filters p = None" "length (q_items (p_queue p)) + length ms \<le> q_max (p_queue p)"
  shows "\<exists>p1. publish_all p ms = (p1, replicate (length ms) (Inr ())) \<and> p_filters p1 = None
    \<and> q_items (p_queue p1) = q_items (p_queue p) @ map snd ms \<and> q_max (p_queue p1) = q_max (p_queue p)
    \<and> p_max_lost p1 = p_max_lost p \<and> (p_nb_lost p = 0 \<longrightarrow> p_nb_lost p1 = 0)"
  using assms
proof (induction ms arbitrary: p)
  case (Cons a ms)
  obtain t m where a: "a = (t, m)" by (cases a)
  define p1 where "p1 = watch_level (p\<lparr>p_queue := p_queue p\<lparr>q_items := q_items (p_queue p) @ [m]\<rparr>, p_nb_lost := 0\<rparr>)"
  have "publish t m p = (p1, Inr ())"
    using Cons.prems by (simp add: publish_def enqueue_def q_put_room p1_def)
  moreover obtain p2 where "publish_all p1 ms = (p2, replicate (length ms) (Inr ()))" "p_filters p2 = None"
     "q_items (p_queue p2) = q_items (p_queue p1) @ map snd ms" "q_max (p_queue p2) = q_max (p_queue p1)"
     "p_max_lost p2 = p_max_lost p1" "p_nb_lost p1 = 0 \<longrightarrow> p_nb_lost p2 = 0"
    using Cons.IH [of p1] Cons.prems by (auto simp: p1_def)
  ultimately show ?case by (simp add: a p1_def)
qed simp

lemma publish_full:
  assumes "p_filters p = None" "q_full (p_queue p)"
  shows "\<exists>p1. publish t m p = (p1, if p_max_lost p \<le> p_nb_lost p + 1 then Inl PublisherOverflow else Inr ())
    \<and> p_filters p1 = None \<and> p_queue p1 = p_queue p \<and> p_max_lost p1 = p_max_lost p
    \<and> p_nb_lost p1 = p_nb_lost p + 1"
  using assms by (auto simp: publish_def enqueue_def q_put_def Let_def)

lemma publish_lost:
  assumes "p_filters p = None" "q_full (p_queue p)" "p_nb_lost p + length ms < p_max_lost p"
  shows "\<exists>p1. publish_all p ms = (p1, replicate (length ms) (Inr ())) \<and> p_filters p1 = None
    \<and> p_queue p1 = p_queue p \<and> p_max_lost p1 = p_max_lost p \<and> p_nb_lost p1 = p_nb_lost p + length ms"
  using assms
proof (induction ms arbitrary: p)
  case (Cons a ms)
  obtain t m where a: "a = (t, m)" by (cases a)
  from publish_full [OF Cons.prems(1,2), of t m] Cons.prems(3) obtain p1 where
    p1: "publish t m p = (p1, Inr ())" "p_filters p1 = None" "p_queue p1 = p_queue p"
      "p_max_lost p1 = p_max_lost p" "p_nb_lost p1 = p_nb_lost p + 1" by auto
  with Cons.IH [of p1] Cons.prems show ?case by (auto simp: a)
qed simp

text \<open>A publisher whose consumer takes nothing accepts as many messages as its queue holds, loses the
  next \<open>k - 1\<close> without an error, and raises PublisherOverflow on exactly the \<open>k\<close>-th, with \<open>k\<close> its
  \<^verbatim>\<open>max_lost\<close>; the queue still holds the first messages in order.\<close>

theorem publisher_overflow:
  assumes "0 < n" "0 < k" "length ms = n" "length ls = k"
  shows "\<exists>p. publish_all (make_publisher n k active None sel) (ms @ ls)
      = (p, replicate (n + k - 1) (Inr ()) @ [Inl PublisherOverflow])
    \<and> q_items (p_queue p) = map snd ms"
proof -
  let ?p = "make_publisher n k active None sel"
  have p: "p_filters ?p = None" "q_items (p_queue ?p) = []" "q_max (p_queue ?p) = n" "p_max_lost ?p = k"
    "p_nb_lost ?p = 0" by (simp_all add: make_publisher_def new_queue_def)
  from publish_room [of ?p ms] assms(3) p obtain p1 where p1: "publish_all ?p ms = (p1, replicate n (Inr ()))"
    "p_filters p1 = None" "q_items (p_queue p1) = map snd ms" "q_max (p_queue p1) = n" "p_max_lost p1 = k"
    "p_nb_lost p1 = 0" by auto
  have full: "q_full (p_queue p1)" using p1 assms by (simp add: q_full_def)
  from assms(2,4) obtain ls1 t m where ls: "ls = ls1 @ [(t, m)]" "length ls1 = k - 1"
    by (cases ls rule: rev_cases) auto
  from publish_lost [OF p1(2) full, of ls1] p1 ls assms(2) obtain p2 where
    p2: "publish_all p1 ls1 = (p2, replicate (k - 1) (Inr ()))" "p_filters p2 = None"
    "p_queue p2 = p_queue p1" "p_max_lost p2 = k" "p_nb_lost p2 = k - 1" by auto
  from publish_full [of p2 t m] p2 full assms(2) obtain p3 where
    p3: "publish t m p2 = (p3, Inl PublisherOverflow)" "p_queue p3 = p_queue p2" by auto
  have "replicate n (Inr ()) @ replicate (k - 1) (Inr ()) = (replicate (n + k - 1) (Inr ()) :: unit result list)"
    using assms by (simp flip: replicate_add)
  then have "publish_all ?p (ms @ ls) = (p3, replicate (n + k - 1) (Inr ()) @ [Inl PublisherOverflow])"
    by (simp add: ls publish_all_append p1(1) p2(1) p3(1))
  with p3(2) p2(3) p1(3) show ?thesis by auto
qed

lemma publisher_overflow_witness:
  "\<exists>p. publish_all (make_publisher 1 2 True None False) ([(0, NavNull)] @ [(1, NavTransparent [1]), (2, NavNull)])
      = (p, replicate (1 + 2 - 1) (Inr ()) @ [Inl PublisherOverflow])
    \<and> q_items (p_queue p) = map snd [(0 :: real, NavNull)]"
  by (rule publisher_overflow) simp_all

lemma publisher_order_witness:
  "pub_run print_process [] (make_publisher 1 2 True None False) True
     [Publish 0 NavNull, Publish 0 (NavTransparent [1]), Turn, Publish 1 (NavTransparent [2])]
   = ([NavNull], make_publisher 1 2 True None False
        \<lparr>p_queue := \<lparr>q_items = [NavTransparent [2]], q_max = 1\<rparr>, p_tpass := False, p_nb_lost := 0\<rparr>, True,
        [NavNull, NavTransparent [2]], [NavNull]) \<and>
   [NavNull, NavTransparent [2]] = [NavNull] @ [NavTransparent [2]]"
proof
  show run: "pub_run print_process [] (make_publisher 1 2 True None False) True
     [Publish 0 NavNull, Publish 0 (NavTransparent [1]), Turn, Publish 1 (NavTransparent [2])]
   = ([NavNull], make_publisher 1 2 True None False
        \<lparr>p_queue := \<lparr>q_items = [NavTransparent [2]], q_max = 1\<rparr>, p_tpass := False, p_nb_lost := 0\<rparr>, True,
        [NavNull, NavTransparent [2]], [NavNull])"
    by (simp add: make_publisher_def new_queue_def publish_def enqueue_def q_put_def q_full_def watch_level_def
        pub_turn_def q_get_def print_process_def)
  from publisher_order [OF run] show "[NavNull, NavTransparent [2]] = [NavNull] @ [NavTransparent [2]]"
    by simp
qed

end
