(* ===== verification/Coupler.thy ===== *)
theory Coupler
  imports Publisher
begin

text \<open>
  \<^verbatim>\<open>router_core/coupler.py\<close>: the coupler, which opens a channel, reads messages from it and publishes
  them. The methods that the subclasses define (\<^verbatim>\<open>open\<close>, \<^verbatim>\<open>close\<close>, \<^verbatim>\<open>_read\<close>, \<^verbatim>\<open>send\<close>) are arguments; those of
  \<^verbatim>\<open>IPCoupler\<close> and \<^verbatim>\<open>BufferedIPCoupler\<close> (\<^verbatim>\<open>router_core/IPCoupler.py\<close>) are defined here. The publishers are
  objects that several couplers share, so they live in a store, a function from object numbers. The
  main loop is the step relation \<open>coupler_step\<close>, in which the other threads interleave. Delays, traces
  and the rates of the timer are not modelled.
\<close>

section \<open>State\<close>

datatype coupler_state = NotReady | Open | Connected | Active
datatype direction = Bidirectional | ReadOnly | WriteOnly
datatype mode = ModeNMEA0183 | ModeNMEA2000 | ModeMix | ModeNonNMEA

record coupler =
  c_state :: coupler_state
  c_publishers :: "nat list"
  c_configmode :: bool
  c_total_msg :: nat
  c_total_msg_raw :: nat
  c_total_msg_s :: nat
  c_last_msg_count :: nat
  c_max_attempt :: nat
  c_attempts :: nat
  c_direction :: direction
  c_mode :: mode
  c_writer :: bool
  c_stopflag :: bool
  c_suspend :: bool
  c_autostart :: bool
  c_has_run :: bool
  c_timer :: bool
  c_reader :: "bool option"

type_synonym pub_store = "nat \<Rightarrow> publisher"

definition direction_of :: "string \<Rightarrow> direction" where
  "direction_of s =
     (if s = ''read_only'' then ReadOnly else if s = ''write_only'' then WriteOnly else Bidirectional)"

definition mode_of :: "string \<Rightarrow> mode result" where
  "mode_of s =
     (if s = ''nmea0183'' then Inr ModeNMEA0183 else if s = ''nmea2000'' then Inr ModeNMEA2000
      else if s = ''nmea_mix'' then Inr ModeMix else if s = ''non_nmea'' then Inr ModeNonNMEA
      else Inl KeyError)"

text \<open>\<open>c_reader\<close> belongs to \<^verbatim>\<open>BufferedIPCoupler\<close>: whether its asynchronous reader, if it has one, was started.
The constructor, on the values of its options; \<open>protocol\<close> is already in lower case.\<close>

definition new_coupler :: "nat \<Rightarrow> bool \<Rightarrow> string \<Rightarrow> string \<Rightarrow> coupler result" where
  "new_coupler max_attempt autostart direction protocol =
     bind_r (mode_of protocol) (\<lambda>mode.
       let dir = direction_of direction
       in Inr \<lparr>c_state = NotReady, c_publishers = [], c_configmode = False, c_total_msg = 0,
               c_total_msg_raw = 0, c_total_msg_s = 0, c_last_msg_count = 0,
               c_max_attempt = max_attempt, c_attempts = 0, c_direction = dir, c_mode = mode,
               c_writer = (mode = ModeNMEA2000 \<and> dir \<noteq> ReadOnly), c_stopflag = False,
               c_suspend = False, c_autostart = autostart, c_has_run = False, c_timer = False,
               c_reader = None\<rparr>)"

definition ready :: "coupler_state \<Rightarrow> bool" where
  "ready st \<longleftrightarrow> st \<noteq> NotReady"

section \<open>Publishers\<close>

definition register :: "nat \<Rightarrow> coupler \<Rightarrow> coupler" where
  "register i c = c\<lparr>c_publishers := c_publishers c @ [i]\<rparr>"

definition deregister :: "nat \<Rightarrow> coupler \<Rightarrow> coupler" where
  "deregister i c = c\<lparr>c_publishers := remove1 i (c_publishers c)\<rparr>"

text \<open>The loop over the publishers: those that overflow are collected, any other exception ends it.\<close>

fun publish_loop ::
    "real \<Rightarrow> nav_msg \<Rightarrow> nat list \<Rightarrow> pub_store \<Rightarrow> nat list \<Rightarrow> pub_store \<times> nat list result" where
  "publish_loop now msg [] pubs faulty = (pubs, Inr faulty)"
| "publish_loop now msg (i # is) pubs faulty =
     (let (p1, r) = publish now msg (pubs i); pubs1 = pubs(i := p1)
      in case r of
           Inr _ \<Rightarrow> publish_loop now msg is pubs1 faulty
         | Inl e \<Rightarrow>
             if e = PublisherOverflow then publish_loop now msg is pubs1 (faulty @ [i])
             else (pubs1, Inl e))"

definition coupler_publish ::
    "real \<Rightarrow> nav_msg \<Rightarrow> coupler \<Rightarrow> pub_store \<Rightarrow> coupler \<times> pub_store \<times> unit result" where
  "coupler_publish now msg c pubs =
     (case publish_loop now msg (c_publishers c) pubs [] of
        (pubs1, Inl e) \<Rightarrow> (c, pubs1, Inl e)
      | (pubs1, Inr faulty) \<Rightarrow>
          (c\<lparr>c_publishers := fold remove1 faulty (c_publishers c)\<rparr>, pubs1, Inr ()))"

section \<open>Sending\<close>

text \<open>What \<^verbatim>\<open>send_msg_gen\<close> does with a message: refuse it, accept it and do nothing, hand it to the NMEA 2000
  writer, or call \<^verbatim>\<open>send\<close> of the subclass, whose result is then the result.\<close>

datatype send_outcome = SendRefused | SendIgnored | ToWriter n2k_msg | ToChannel nav_msg

definition send_msg_gen :: "bool \<Rightarrow> nav_msg \<Rightarrow> coupler \<Rightarrow> coupler \<times> send_outcome result" where
  "send_msg_gen is_alive msg c =
     (if \<not> ready (c_state c) then
        (if \<not> is_alive \<or> c_stopflag c then (c, Inl CouplerWriteError) else (c, Inr SendRefused))
      else if \<not> c_configmode c then
        (if c_direction c = ReadOnly then (c, Inr SendRefused)
         else
           let c1 = c\<lparr>c_total_msg_s := c_total_msg_s c + 1\<rparr> in
           case msg of
             NavN2k raw m \<Rightarrow>
               (if c_mode c \<in> {ModeNMEA2000, ModeMix}
                then (if \<not> c_writer c then (c1, Inr SendRefused) else (c1, Inr (ToWriter m)))
                else (c1, Inr SendIgnored))
           | NavN0183 m \<Rightarrow>
               (if c_mode c \<in> {ModeNMEA0183, ModeMix} then (c1, Inr (ToChannel msg))
                else (c1, Inr SendIgnored))
           | _ \<Rightarrow> (c1, Inr SendIgnored))
      else (c, Inr SendIgnored))"

section \<open>Control by the other threads\<close>

definition coupler_stop :: "coupler \<Rightarrow> coupler" where
  "coupler_stop c =
     (if c_stopflag c then c
      else c\<lparr>c_timer := False, c_stopflag := True, c_state := NotReady\<rparr>)"

definition suspend :: "bool \<Rightarrow> coupler \<Rightarrow> coupler" where
  "suspend is_alive c = (if is_alive then c\<lparr>c_suspend := True\<rparr> else c)"

definition resume :: "coupler \<Rightarrow> coupler" where
  "resume c = (if c_suspend c then c\<lparr>c_suspend := False\<rparr> else c)"

definition force_start :: "coupler \<Rightarrow> coupler" where
  "force_start c = c\<lparr>c_autostart := True\<rparr>"

definition increment_msg_raw :: "coupler \<Rightarrow> coupler" where
  "increment_msg_raw c = c\<lparr>c_total_msg_raw := c_total_msg_raw c + 1\<rparr>"

text \<open>The periodic timer: \<open>check\<close> is \<^verbatim>\<open>check_connection\<close>, called when nothing was received since the last
  time. The timer is set again unless the coupler is stopping.\<close>

definition coupler_timer_lapse :: "(coupler \<Rightarrow> coupler) \<Rightarrow> coupler \<Rightarrow> coupler" where
  "coupler_timer_lapse check c =
     (let c1 =
        (if ready (c_state c) then
           let c1 = (if c_total_msg c - c_last_msg_count c = 0 \<and> c_direction c \<noteq> WriteOnly
                     then check c else c)
           in c1\<lparr>c_last_msg_count := c_total_msg c1\<rparr>
         else c)
      in if \<not> c_stopflag c1 then c1\<lparr>c_timer := True\<rparr> else c1)"

section \<open>Reading\<close>

text \<open>
  \<^verbatim>\<open>read\<close>, a generator over the results of \<^verbatim>\<open>_read\<close>: protocol messages go to the controller, if there is
  one, and NMEA 0183 sentences are converted, if that is asked for. \<open>convert\<close> gives what the converter
  yields for a sentence and whether it then raises NMEAInvalidFrame. The result: the messages yielded,
  those sent to the controller, the exception that ends the generator, and the inputs left. When the
  inputs end, \<^verbatim>\<open>_read\<close> would wait.
\<close>

fun coupler_read ::
    "bool \<Rightarrow> (n0183_msg \<Rightarrow> nav_msg list \<times> bool) option \<Rightarrow> mode \<Rightarrow> nav_msg result list
     \<Rightarrow> nav_msg list \<times> n2k_msg list \<times> py_error option \<times> nav_msg result list" where
  "coupler_read ctlr convert mode [] = ([], [], None, [])"
| "coupler_read ctlr convert mode (Inl e # ms) = ([], [], Some e, ms)"
| "coupler_read ctlr convert mode (Inr msg # ms) =
     (case msg of
        NavN2k raw m \<Rightarrow>
          (if ctlr \<and> m_is_iso m
           then let (ys, cs, e, rest) = coupler_read ctlr convert mode ms in (ys, m # cs, e, rest)
           else ([msg], [], None, ms))
      | NavN0183 m \<Rightarrow>
          (case convert of
             None \<Rightarrow> ([msg], [], None, ms)
           | Some conv \<Rightarrow>
               let (converted, invalid) = conv m in
               if invalid \<and> mode = ModeNMEA2000
               then let (ys, cs, e, rest) = coupler_read ctlr convert mode ms
                    in (converted @ ys, cs, e, rest)
               else (converted @ [msg], [], None, ms))
      | _ \<Rightarrow> ([msg], [], None, ms))"

section \<open>The main loop\<close>

text \<open>What \<^verbatim>\<open>open\<close> gives: a value that is true or false (\<^verbatim>\<open>None\<close> counts as false), CouplerOpenRefused, or
  another exception, which leaves \<^verbatim>\<open>nrun\<close> and ends the thread where it stands.\<close>

datatype open_result = OpenReturned bool | OpenIsRefused | OpenRaises py_error

datatype loop_next = NextTurn | GoRead | LeaveLoop | RaiseOut py_error

text \<open>The part of a turn before the reading; \<open>open_fn\<close> is \<^verbatim>\<open>open\<close> with what it does to the state.\<close>

definition open_section :: "(coupler \<Rightarrow> coupler \<times> open_result) \<Rightarrow> coupler \<Rightarrow> coupler \<times> loop_next" where
  "open_section open_fn c =
     (if c_state c = NotReady then
        (if c_max_attempt c \<le> c_attempts c then (c, LeaveLoop)
         else case open_fn c of
           (c1, OpenReturned False) \<Rightarrow> (c1\<lparr>c_attempts := c_attempts c1 + 1\<rparr>, NextTurn)
         | (c1, OpenReturned True) \<Rightarrow> (c1\<lparr>c_state := Open, c_attempts := 0\<rparr>, GoRead)
         | (c1, OpenIsRefused) \<Rightarrow> (c1, LeaveLoop)
         | (c1, OpenRaises e) \<Rightarrow> (c1, RaiseOut e))
      else (c, GoRead))"

definition loop_top :: "(coupler \<Rightarrow> coupler \<times> open_result) \<Rightarrow> coupler \<Rightarrow> coupler \<times> loop_next" where
  "loop_top open_fn c =
     (if c_stopflag c then (c, LeaveLoop)
      else case open_section open_fn c of
        (c1, GoRead) \<Rightarrow>
          (if c_direction c1 = WriteOnly \<or> c_suspend c1
           then (if c_stopflag c1 then (c1, LeaveLoop) else (c1, NextTurn))
           else (c1, GoRead))
      | r \<Rightarrow> r)"

text \<open>The body of the \<^verbatim>\<open>for\<close> over the messages read, and the end of that loop.\<close>

definition handle_message ::
    "(coupler \<Rightarrow> coupler) \<Rightarrow> real \<Rightarrow> nav_msg \<Rightarrow> coupler \<Rightarrow> pub_store
     \<Rightarrow> coupler \<times> pub_store \<times> unit result" where
  "handle_message close now msg c pubs =
     (if msg = NavNull then (close c, pubs, Inr ())
      else coupler_publish now msg (c\<lparr>c_total_msg := c_total_msg c + 1, c_state := Active\<rparr>) pubs)"

definition end_of_read :: "(coupler \<Rightarrow> coupler) \<Rightarrow> py_error option \<Rightarrow> coupler \<Rightarrow> coupler \<times> loop_next" where
  "end_of_read close ending c =
     (case ending of
        None \<Rightarrow> (c, NextTurn)
      | Some e \<Rightarrow>
          if e = CouplerTimeOut then (c, NextTurn)
          else if e \<in> {CouplerReadError, IncompleteMessage}
          then (c, if c_stopflag c then LeaveLoop else NextTurn)
          else (close c, NextTurn))"

definition leave_loop :: "(coupler \<Rightarrow> coupler) \<Rightarrow> coupler \<Rightarrow> coupler" where
  "leave_loop close c = close (coupler_stop c)"

fun start_run :: "coupler \<Rightarrow> coupler" where
  "start_run c = c\<lparr>c_has_run := True, c_timer := True, c_attempts := 0\<rparr>"

text \<open>The thread is at the top of its loop, in the \<^verbatim>\<open>for\<close> over the messages, or finished. Any step of another
  thread may come between two of its own. \<open>opens\<close> are the behaviours that \<^verbatim>\<open>open\<close> may show at a turn.\<close>

datatype c_pc = Top | Reading | Finished

inductive coupler_step ::
    "(coupler \<Rightarrow> coupler \<times> open_result) set \<Rightarrow> (coupler \<Rightarrow> coupler) \<Rightarrow>
     c_pc \<times> coupler \<times> pub_store \<Rightarrow> c_pc \<times> coupler \<times> pub_store \<Rightarrow> bool"
  for opens close where
  top_next: "open_fn \<in> opens \<Longrightarrow> loop_top open_fn c = (c1, NextTurn) \<Longrightarrow> coupler_step opens close (Top, c, ps) (Top, c1, ps)"
| top_read: "open_fn \<in> opens \<Longrightarrow> loop_top open_fn c = (c1, GoRead) \<Longrightarrow> coupler_step opens close (Top, c, ps) (Reading, c1, ps)"
| top_leave: "open_fn \<in> opens \<Longrightarrow> loop_top open_fn c = (c1, LeaveLoop) \<Longrightarrow>
    coupler_step opens close (Top, c, ps) (Finished, leave_loop close c1, ps)"
| top_raise: "open_fn \<in> opens \<Longrightarrow> loop_top open_fn c = (c1, RaiseOut e) \<Longrightarrow>
    coupler_step opens close (Top, c, ps) (Finished, c1, ps)"
| message: "handle_message close now msg c ps = (c1, ps1, Inr ()) \<Longrightarrow>
    coupler_step opens close (Reading, c, ps) (Reading, c1, ps1)"
| message_error: "handle_message close now msg c ps = (c1, ps1, Inl e) \<Longrightarrow>
    end_of_read close (Some e) c1 = (c2, NextTurn) \<Longrightarrow>
    coupler_step opens close (Reading, c, ps) (Top, c2, ps1)"
| read_end: "end_of_read close ending c = (c1, NextTurn) \<Longrightarrow>
    coupler_step opens close (Reading, c, ps) (Top, c1, ps)"
| read_leave: "end_of_read close ending c = (c1, LeaveLoop) \<Longrightarrow>
    coupler_step opens close (Reading, c, ps) (Finished, leave_loop close c1, ps)"
| other_stop: "coupler_step opens close (pc, c, ps) (pc, coupler_stop c, ps)"
| other_suspend: "coupler_step opens close (pc, c, ps) (pc, suspend alive c, ps)"
| other_resume: "coupler_step opens close (pc, c, ps) (pc, resume c, ps)"
| other_register: "coupler_step opens close (pc, c, ps) (pc, register i c, ps)"
| other_deregister: "coupler_step opens close (pc, c, ps) (pc, deregister i c, ps)"
| publisher_turn: "pub_turn process (s :: nav_msg list) (ps i) = (s1, p1, got, go_on) \<Longrightarrow>
    coupler_step opens close (pc, c, ps) (pc, c, ps(i := p1))"

inductive_cases coupler_stepE: "coupler_step opens close (pc, c, ps) (pc1, c1, ps1)"

section \<open>IP couplers\<close>

text \<open>\<^verbatim>\<open>IPCoupler.open\<close> and \<^verbatim>\<open>close\<close>, with the answer of the transport, and \<^verbatim>\<open>BufferedIPCoupler.open\<close>, which
  starts the asynchronous reader and has no \<^verbatim>\<open>return\<close> on success. A thread can be started only once:
  a second \<^verbatim>\<open>start\<close> raises RuntimeError.\<close>

definition ip_open :: "bool \<Rightarrow> bool \<Rightarrow> coupler \<Rightarrow> coupler \<times> bool" where
  "ip_open tcp transport_ok c =
     (if transport_ok
      then let c1 = c\<lparr>c_state := Open\<rparr>
           in (if tcp then c1\<lparr>c_state := Connected\<rparr> else c1, True)
      else (c\<lparr>c_state := NotReady\<rparr>, False))"

definition ip_close :: "coupler \<Rightarrow> coupler" where
  "ip_close c = c\<lparr>c_state := NotReady\<rparr>"

definition set_message_processing :: "coupler \<Rightarrow> coupler" where
  "set_message_processing c = (if c_direction c \<noteq> WriteOnly then c\<lparr>c_reader := Some False\<rparr> else c)"

definition start_reader :: "coupler \<Rightarrow> coupler result" where
  "start_reader c =
     (if c_reader c = Some True then Inl RuntimeError else Inr (c\<lparr>c_reader := Some True\<rparr>))"

definition buffered_open :: "bool \<Rightarrow> bool \<Rightarrow> coupler \<Rightarrow> coupler \<times> bool option result" where
  "buffered_open tcp transport_ok c =
     (case ip_open tcp transport_ok c of
        (c1, True) \<Rightarrow>
          (if c_state c1 = Connected \<and> c_reader c1 \<noteq> None
           then (case start_reader c1 of Inl e \<Rightarrow> (c1, Inl e) | Inr c2 \<Rightarrow> (c2, Inr None))
           else (c1, Inr None))
      | (c1, False) \<Rightarrow> (c1, Inr (Some False)))"

text \<open>As the main loop sees them.\<close>

definition ip_open_fn :: "bool \<Rightarrow> bool \<Rightarrow> coupler \<Rightarrow> coupler \<times> open_result" where
  "ip_open_fn tcp transport_ok c = map_prod id OpenReturned (ip_open tcp transport_ok c)"

definition buffered_open_fn :: "bool \<Rightarrow> bool \<Rightarrow> coupler \<Rightarrow> coupler \<times> open_result" where
  "buffered_open_fn tcp transport_ok c =
     map_prod id (\<lambda>r. case r of Inl e \<Rightarrow> OpenRaises e | Inr v \<Rightarrow> OpenReturned (v = Some True))
       (buffered_open tcp transport_ok c)"

text \<open>Sending on an IP coupler: \<open>None\<close> when the transport is not ready, else what goes to the transport.\<close>

definition ip_send :: "nav_msg \<Rightarrow> coupler \<Rightarrow> bytes option option" where
  "ip_send msg c = (if c_state c = NotReady then None else Some (nav_raw msg))"

lemma publish_loop_eq:
  assumes "distinct ks" "\<forall>i \<in> set ks. snd (publish now msg (pubs i)) \<in> {Inr (), Inl PublisherOverflow}"
  shows "publish_loop now msg ks pubs faulty
    = (\<lambda>i. if i \<in> set ks then fst (publish now msg (pubs i)) else pubs i,
       Inr (faulty @ filter (\<lambda>i. snd (publish now msg (pubs i)) = Inl PublisherOverflow) ks))"
  using assms
proof (induction "ks" arbitrary: pubs faulty)
  case (Cons i ks)
  obtain p1 r where p: "publish now msg (pubs i) = (p1, r)" by fastforce
  let ?pubs = "pubs(i := p1)"
  have eq: "publish now msg (?pubs j) = publish now msg (pubs j)" if "j \<in> set ks" for j
    using that Cons.prems(1) by auto
  have h: "\<forall>j \<in> set ks. snd (publish now msg (?pubs j)) \<in> {Inr (), Inl PublisherOverflow}"
    using Cons.prems(2) eq by simp
  have flt: "filter (\<lambda>j. snd (publish now msg (?pubs j)) = Inl PublisherOverflow) ks
      = filter (\<lambda>j. snd (publish now msg (pubs j)) = Inl PublisherOverflow) ks"
    using eq by (intro filter_cong) simp_all
  have fn: "(\<lambda>j. if j \<in> set ks then fst (publish now msg (?pubs j)) else ?pubs j)
      = (\<lambda>j. if j \<in> set (i # ks) then fst (publish now msg (pubs j)) else pubs j)"
    using p Cons.prems(1) by (auto simp: fun_eq_iff)
  have IH: "publish_loop now msg ks ?pubs faulty' = (\<lambda>j. if j \<in> set (i # ks) then fst (publish now msg (pubs j)) else pubs j,
      Inr (faulty' @ filter (\<lambda>j. snd (publish now msg (pubs j)) = Inl PublisherOverflow) ks))" for faulty'
    using Cons.IH [OF _ h, of faulty'] Cons.prems(1) unfolding flt fn by (simp only: distinct.simps simp_thms)
  from Cons.prems(2) p have "r = Inr () \<or> r = Inl PublisherOverflow" by auto
  then show ?case
    by (elim disjE) (simp_all add: p IH)
qed (simp add: fun_eq_iff)

lemma fold_remove1_filter:
  assumes "distinct xs"
  shows "fold remove1 (filter P xs) xs = filter (\<lambda>x. \<not> P x) xs"
proof -
  have "fold remove1 ys xs = filter (\<lambda>x. x \<notin> set ys) xs" if "distinct xs" for ys and xs :: "'a list"
    using that
  proof (induction ys arbitrary: xs)
    case (Cons y ys)
    then have "fold remove1 ys (remove1 y xs) = filter (\<lambda>x. x \<notin> set ys) (remove1 y xs)" by simp
    moreover have "remove1 y xs = filter (\<lambda>x. x \<noteq> y) xs"
      using Cons.prems by (simp add: distinct_remove1_removeAll removeAll_filter_not_eq eq_commute)
    ultimately show ?case by (simp add: conj_commute)
  qed simp
  from this [OF assms, of "filter P xs"] show ?thesis by (auto intro: filter_cong)
qed

lemma new_coupler_fields:
  assumes "new_coupler max_attempt autostart dir protocol = Inr c"
  shows "c_state c = NotReady" "\<not> c_stopflag c" "c_max_attempt c = max_attempt" "c_attempts c = 0"
    "\<not> c_suspend c" "c_direction c = direction_of dir" "c_reader c = None" "c_publishers c = []"
  using assms by (auto simp: new_coupler_def bind_r_Inr_iff Let_def)

section \<open>Properties\<close>

text \<open>When no filter of its publishers raises, a coupler gives a message to each of its publishers
  exactly once, and keeps, in order, exactly those that did not overflow: one overflowing publisher
  never costs another its message.\<close>

theorem coupler_publish_all:
  assumes "distinct (c_publishers c)"
    and "\<forall>i \<in> set (c_publishers c). snd (publish now msg (pubs i)) \<in> {Inr (), Inl PublisherOverflow}"
  shows "coupler_publish now msg c pubs
    = (c\<lparr>c_publishers := filter (\<lambda>i. snd (publish now msg (pubs i)) = Inr ()) (c_publishers c)\<rparr>,
       \<lambda>i. if i \<in> set (c_publishers c) then fst (publish now msg (pubs i)) else pubs i, Inr ())"
proof -
  have "filter (\<lambda>i. snd (publish now msg (pubs i)) \<noteq> Inl PublisherOverflow) (c_publishers c)
      = filter (\<lambda>i. snd (publish now msg (pubs i)) = Inr ()) (c_publishers c)"
    using assms(2) by (intro filter_cong) auto
  then show ?thesis
    unfolding coupler_publish_def publish_loop_eq [OF assms]
    by (simp add: fold_remove1_filter [OF assms(1)])
qed

lemma coupler_publish_all_witness:
  "\<exists>c pubs. distinct (c_publishers c) \<and>
     (\<forall>i \<in> set (c_publishers c). snd (publish 0 NavNull (pubs i)) \<in> {Inr (), Inl PublisherOverflow}) \<and>
     c_publishers c = [0, 1] \<and> c_publishers (fst (coupler_publish 0 NavNull c pubs)) = [0]"
proof -
  obtain c where c: "new_coupler 2 True ''read_only'' ''nmea0183'' = Inr c"
    by (auto simp: new_coupler_def mode_of_def Let_def)
  define d where "d = register 1 (register 0 c)"
  define pubs where "pubs = (\<lambda>i::nat. if i = 0 then make_publisher 1 1 True None False
      else fst (publish 0 NavNull (make_publisher 1 1 True None False)))"
  have d: "c_publishers d = [0, 1]" using new_coupler_fields [OF c] by (simp add: d_def register_def)
  have p: "snd (publish 0 NavNull (pubs 0)) = Inr ()" "snd (publish 0 NavNull (pubs 1)) = Inl PublisherOverflow"
    by (simp_all add: pubs_def make_publisher_def new_queue_def publish_def enqueue_def q_put_def q_full_def
        watch_level_def)
  have h: "distinct (c_publishers d)"
    "\<forall>i \<in> set (c_publishers d). snd (publish 0 NavNull (pubs i)) \<in> {Inr (), Inl PublisherOverflow}"
    using d p by auto
  from coupler_publish_all [OF h] d p have "c_publishers (fst (coupler_publish 0 NavNull d pubs)) = [0]"
    by simp
  with d h show ?thesis by blast
qed

text \<open>Turns of the loop before any channel is open, one answer of \<^verbatim>\<open>open\<close> for each.\<close>

fun top_run :: "(coupler \<Rightarrow> coupler \<times> open_result) list \<Rightarrow> coupler \<Rightarrow> coupler \<times> loop_next" where
  "top_run [] c = (c, NextTurn)"
| "top_run (f # fs) c =
     (case loop_top f c of (c1, NextTurn) \<Rightarrow> top_run fs c1 | (c1, r) \<Rightarrow> (c1, r))"

lemma top_run_attempts:
  assumes "c_state c = NotReady" "\<not> c_stopflag c" "c_attempts c + n \<le> c_max_attempt c"
  shows "top_run (replicate n (ip_open_fn tcp False) @ fs) c = top_run fs (c\<lparr>c_attempts := c_attempts c + n\<rparr>)"
  using assms
proof (induction n arbitrary: c)
  case (Suc n)
  let ?c = "c\<lparr>c_attempts := c_attempts c + 1\<rparr>"
  have "c\<lparr>c_state := NotReady\<rparr> = c" using Suc.prems(1) by simp
  then have "loop_top (ip_open_fn tcp False) c = (?c, NextTurn)"
    using Suc.prems by (simp add: loop_top_def open_section_def ip_open_fn_def ip_open_def)
  with Suc.IH [of ?c] Suc.prems show ?case by simp
qed simp

text \<open>C25. A started IP coupler whose transport cannot be opened makes exactly \<^verbatim>\<open>max_attempt\<close> attempts and
  leaves its loop at the next turn, whatever the transport would answer then; up to that many failures
  it goes on with the count of them.\<close>

theorem coupler_gives_up:
  assumes "new_coupler max_attempt autostart dir protocol = Inr c"
  shows "top_run (replicate n (ip_open_fn tcp False) @ fs) (start_run c)
    = (if n \<le> max_attempt then top_run fs (start_run c\<lparr>c_attempts := n\<rparr>)
       else (start_run c\<lparr>c_attempts := max_attempt\<rparr>, LeaveLoop))"
proof -
  note f = new_coupler_fields [OF assms]
  have step: "top_run (replicate k (ip_open_fn tcp False) @ gs) (start_run c) = top_run gs (start_run c\<lparr>c_attempts := k\<rparr>)"
    if "k \<le> max_attempt" for k gs
    using top_run_attempts [of "start_run c" k tcp gs] f that by simp
  show ?thesis
  proof (cases "n \<le> max_attempt")
    case True
    with step show ?thesis by simp
  next
    case False
    then obtain d where "n = max_attempt + Suc d" by (metis add_Suc_right less_iff_Suc_add not_le)
    then have "replicate n (ip_open_fn tcp False) @ fs = replicate max_attempt (ip_open_fn tcp False)
        @ ip_open_fn tcp False # (replicate d (ip_open_fn tcp False) @ fs)"
      by (simp add: replicate_add replicate_append_same)
    then have "top_run (replicate n (ip_open_fn tcp False) @ fs) (start_run c)
        = top_run (ip_open_fn tcp False # (replicate d (ip_open_fn tcp False) @ fs)) (start_run c\<lparr>c_attempts := max_attempt\<rparr>)"
      using step [of max_attempt] by simp
    also have "\<dots> = (start_run c\<lparr>c_attempts := max_attempt\<rparr>, LeaveLoop)"
      using f by (simp add: loop_top_def open_section_def)
    finally show ?thesis using False by simp
  qed
qed

lemma coupler_gives_up_witness:
  "\<exists>c. new_coupler 2 True ''bidirectional'' ''nmea0183'' = Inr c \<and>
     top_run (replicate 3 (ip_open_fn True False) @ [ip_open_fn True True]) (start_run c)
       = (start_run c\<lparr>c_attempts := 2\<rparr>, LeaveLoop)"
proof -
  obtain c where c: "new_coupler 2 True ''bidirectional'' ''nmea0183'' = Inr c"
    by (auto simp: new_coupler_def mode_of_def Let_def)
  from coupler_gives_up [OF c, of 3 True "[ip_open_fn True True]"] c show ?thesis by auto
qed

text \<open>What a run of a plain IP coupler keeps: a finished thread has stopped its coupler and closed it.\<close>

definition finished_ok :: "c_pc \<times> coupler \<times> pub_store \<Rightarrow> bool" where
  "finished_ok s = (case s of (pc, c, ps) \<Rightarrow> pc = Finished \<longrightarrow> c_stopflag c \<and> c_state c = NotReady)"

lemma ip_no_raise:
  "loop_top (ip_open_fn tcp ok) c \<noteq> (c1, RaiseOut e)"
  by (auto simp: loop_top_def open_section_def ip_open_fn_def ip_open_def Let_def split: if_splits)

lemma finished_ok_step:
  assumes "coupler_step {ip_open_fn tcp ok | ok. True} ip_close s s'" "finished_ok s"
  shows "finished_ok s'"
  using assms
proof (induction rule: coupler_step.induct)
  case (top_raise open_fn c c1 e ps)
  then show ?case using ip_no_raise by blast
qed (auto simp: finished_ok_def leave_loop_def ip_close_def coupler_stop_def suspend_def resume_def
    register_def deregister_def)




text \<open>A buffered TCP coupler does not survive the loss of its connection. Whatever its options, a
  first successful \<^verbatim>\<open>open\<close> counts as a failed attempt (it returns \<^verbatim>\<open>None\<close>), the next turn reads, the null
  message of the lost connection closes it, and the next \<^verbatim>\<open>open\<close>, although the transport is connected
  again, raises RuntimeError out of the thread, which leaves the coupler Connected and not stopped: a
  sender still gets through to the channel that nobody reads.\<close>

theorem buffered_coupler_cannot_reconnect:
  assumes "new_coupler max_attempt autostart dir protocol = Inr c" "direction_of dir \<noteq> WriteOnly"
    and "2 \<le> max_attempt"
  shows "\<exists>c1 c2 c3. loop_top (buffered_open_fn True True) (start_run (set_message_processing c)) = (c1, NextTurn)
    \<and> c_attempts c1 = 1
    \<and> loop_top (buffered_open_fn True True) c1 = (c1, GoRead)
    \<and> handle_message ip_close now NavNull c1 ps = (c2, ps, Inr ())
    \<and> end_of_read ip_close None c2 = (c2, NextTurn)
    \<and> loop_top (buffered_open_fn True True) c2 = (c3, RaiseOut RuntimeError)
    \<and> c_state c3 = Connected \<and> \<not> c_stopflag c3"
proof -
  note f = new_coupler_fields [OF assms(1)]
  let ?c0 = "start_run (set_message_processing c)"
  define c1 where "c1 = ?c0\<lparr>c_state := Connected, c_reader := Some True, c_attempts := 1\<rparr>"
  have 1: "loop_top (buffered_open_fn True True) ?c0 = (c1, NextTurn)"
    using f assms(2,3)
    by (simp add: loop_top_def open_section_def buffered_open_fn_def buffered_open_def ip_open_def
        start_reader_def set_message_processing_def c1_def)
  have 2: "loop_top (buffered_open_fn True True) c1 = (c1, GoRead)"
    using f assms(2) by (simp add: loop_top_def open_section_def c1_def set_message_processing_def)
  have 3: "handle_message ip_close now NavNull c1 ps = (ip_close c1, ps, Inr ())"
    by (simp add: handle_message_def)
  have 4: "loop_top (buffered_open_fn True True) (ip_close c1) = (c1, RaiseOut RuntimeError)"
    using f assms(2,3)
    by (simp add: loop_top_def open_section_def buffered_open_fn_def buffered_open_def ip_open_def
        start_reader_def set_message_processing_def c1_def ip_close_def)
  have "c_state c1 = Connected" "c_attempts c1 = 1" "\<not> c_stopflag c1"
    using f by (simp_all add: c1_def set_message_processing_def)
  with 1 2 3 4 show ?thesis by (auto simp: end_of_read_def)
qed

lemma buffered_coupler_cannot_reconnect_witness:
  "\<exists>c c1 c2 c3. new_coupler 20 True ''bidirectional'' ''nmea2000'' = Inr c
    \<and> direction_of ''bidirectional'' \<noteq> WriteOnly
    \<and> loop_top (buffered_open_fn True True) (start_run (set_message_processing c)) = (c1, NextTurn)
    \<and> handle_message ip_close 0 NavNull c1 (\<lambda>_. new_internal_publisher None) = (c2, \<lambda>_. new_internal_publisher None, Inr ())
    \<and> loop_top (buffered_open_fn True True) c2 = (c3, RaiseOut RuntimeError)"
proof -
  obtain c where c: "new_coupler 20 True ''bidirectional'' ''nmea2000'' = Inr c"
    by (auto simp: new_coupler_def mode_of_def Let_def)
  have d: "direction_of ''bidirectional'' \<noteq> WriteOnly" by (simp add: direction_of_def)
  from buffered_coupler_cannot_reconnect [OF c d, of 0 "\<lambda>_. new_internal_publisher None"] c d
  show ?thesis by auto
qed

end
