(* ===== verification/Framing.thy ===== *)
theory Framing
  imports Coupler
begin

text \<open>
  \<^verbatim>\<open>router_core/IPCoupler.py\<close>, class \<^verbatim>\<open>IPAsynchReader\<close>: the thread that cuts the bytes of a connection
  into frames at a separator, however the transport fragments them, has each frame processed and puts
  the messages in the queue of the coupler. \<open>scan\<close> is the inner loop over one buffer; \<open>part\<close> and
  \<open>part_buf\<close> are the frame begun and not finished, kept from one buffer to the next.
\<close>

section \<open>The inner loop\<close>

text \<open>\<^verbatim>\<open>buf.find(sep, start, end)\<close>; \<open>None\<close> stands for -1.\<close>

definition py_find :: "'a list \<Rightarrow> 'a list \<Rightarrow> nat \<Rightarrow> nat \<Rightarrow> nat option" where
  "py_find sep buf start stop =
     List.find (\<lambda>i. take (length sep) (drop i buf) = sep \<and> i + length sep \<le> stop) [start..<stop]"

text \<open>What happens to a frame: the loop goes on, it is left, or an exception leaves the thread.\<close>

datatype frame_next = FrameNext | FrameBreak | FrameRaise py_error

record framing =
  fr_part :: bool
  fr_buf :: bytes

definition begin_frame :: "bytes \<Rightarrow> bytes \<Rightarrow> nat \<Rightarrow> nat" where
  "begin_frame sep buffer start_idx =
     (if buffer ! start_idx \<in> set sep then start_idx + 1 else start_idx)"

text \<open>The frame that ends at \<open>index\<close>, \<open>None\<close> when there is nothing to process.\<close>

definition frame_at :: "bytes \<Rightarrow> bytes \<Rightarrow> nat \<Rightarrow> nat \<Rightarrow> framing \<Rightarrow> bytes option" where
  "frame_at sep buffer start_idx index fr =
     (if fr_part fr then
        let frame = (if index - start_idx = 0 then fr_buf fr
                     else fr_buf fr @ py_slice buffer (int (begin_frame sep buffer start_idx)) (int index))
        in (if length frame = 0 then None else Some frame)
      else
        let s = begin_frame sep buffer start_idx
        in (if int index - int s \<le> 0 then None else Some (py_slice buffer (int s) (int index))))"

lemma py_find_Some: "py_find sep buf start stop = Some i \<Longrightarrow> start \<le> i \<and> i < stop"
  by (auto simp: py_find_def find_Some_iff)

function scan ::
    "('s \<Rightarrow> bytes \<Rightarrow> 's \<times> frame_next) \<Rightarrow> bytes \<Rightarrow> bytes \<Rightarrow> nat \<Rightarrow> nat \<Rightarrow> framing \<Rightarrow> 's
     \<Rightarrow> 's \<times> framing \<times> py_error option" where
  "scan handle sep buffer start_idx end_idx fr s =
     (if end_idx \<le> start_idx then (s, fr, None)
      else
        let found = py_find sep buffer start_idx end_idx;
            at_end = buffer ! (end_idx - 1) \<in> set sep
        in if found = None \<and> fr_part fr then
             (s, fr\<lparr>fr_buf := fr_buf fr @ py_slice buffer (int start_idx)
                       (int (if at_end then end_idx - 1 else end_idx))\<rparr>, None)
           else if found = None \<and> \<not> at_end then
             let s0 = begin_frame sep buffer start_idx
             in (s, if 0 < end_idx - s0
                    then \<lparr>fr_part = True, fr_buf = py_slice buffer (int s0) (int end_idx)\<rparr> else fr, None)
           else
             let (index, end1) = (case found of Some i \<Rightarrow> (i, end_idx) | None \<Rightarrow> (end_idx - 1, end_idx - 1));
                 fr1 = fr\<lparr>fr_part := False\<rparr>
             in case frame_at sep buffer start_idx index fr of
                  None \<Rightarrow> scan handle sep buffer (index + 2) end1 fr1 s
                | Some frame \<Rightarrow>
                    (case handle s frame of
                       (s1, FrameNext) \<Rightarrow> scan handle sep buffer (index + 2) end1 fr1 s1
                     | (s1, FrameBreak) \<Rightarrow> (s1, fr1, None)
                     | (s1, FrameRaise e) \<Rightarrow> (s1, fr1, Some e)))"
  by pat_completeness auto

termination
proof (relation "measure (\<lambda>(handle, sep, buffer, start_idx, end_idx, fr, s). end_idx - start_idx)", goal_cases)
  case (2 handle sep buffer start_idx end_idx fr s found at_end x index end1 fr1)
  then show ?case
    using py_find_Some [of sep buffer start_idx end_idx]
    by (cases "py_find sep buffer start_idx end_idx") (simp_all, linarith+)
next
  case (3 handle sep buffer start_idx end_idx fr s found at_end x index end1 fr1)
  then show ?case
    using py_find_Some [of sep buffer start_idx end_idx]
    by (cases "py_find sep buffer start_idx end_idx") (simp_all, linarith+)
qed simp

declare scan.simps [simp del]

section \<open>The thread\<close>

text \<open>
  One frame in the thread: \<open>process\<close> is the processing the coupler asked for, on its own state. A message
  that finds the queue full is lost. CouplerTimeOut is a CouplerReadError.
\<close>

record 's reader =
  rd_queue :: "nav_msg bqueue"
  rd_stop :: bool
  rd_transparent :: bool
  rd_state :: 's

definition reader_frame ::
    "('s \<Rightarrow> bytes \<Rightarrow> 's \<times> nav_msg result) \<Rightarrow> 's reader \<Rightarrow> bytes \<Rightarrow> 's reader \<times> frame_next" where
  "reader_frame process r frame =
     (let (s1, res) = process (rd_state r) frame; r1 = r\<lparr>rd_state := s1\<rparr> in
      case res of
        Inl e \<Rightarrow>
          (r1, if e \<in> {IncompleteMessage, NMEAInvalidFrame} then FrameNext
               else if e \<in> {CouplerReadError, CouplerTimeOut} then FrameBreak else FrameRaise e)
      | Inr msg \<Rightarrow>
          (case q_put msg (rd_queue r1) of
             Inl _ \<Rightarrow> (r1, FrameNext)
           | Inr q \<Rightarrow> (r1\<lparr>rd_queue := q\<rparr>, if rd_stop r then FrameBreak else FrameNext)))"

datatype recv = RecvTimeout | RecvError | RecvData bytes

text \<open>
  The loop over what \<^verbatim>\<open>recv\<close> gives (or raises), then the end of the thread, which puts the null message
  of byte 4. In transparent mode the buffer is put as it is; these two puts wait for room. An exception
  that is not caught ends the thread without that message.
\<close>

definition put_wait :: "nav_msg \<Rightarrow> 's reader \<Rightarrow> 's reader" where
  "put_wait msg r = r\<lparr>rd_queue := rd_queue r\<lparr>q_items := q_items (rd_queue r) @ [msg]\<rparr>\<rparr>"

definition reader_end :: "('s \<Rightarrow> bytes \<Rightarrow> 's \<times> nav_msg result) \<Rightarrow> 's reader \<Rightarrow> 's reader \<times> py_error option" where
  "reader_end process r =
     (let r1 = r\<lparr>rd_stop := True\<rparr>; (s1, res) = process (rd_state r1) [4]; r2 = r1\<lparr>rd_state := s1\<rparr>
      in case res of Inl e \<Rightarrow> (r2, Some e) | Inr msg \<Rightarrow> (put_wait msg r2, None))"

fun reader_nrun ::
    "('s \<Rightarrow> bytes \<Rightarrow> 's \<times> nav_msg result) \<Rightarrow> bytes \<Rightarrow> recv list \<Rightarrow> framing \<Rightarrow> 's reader
     \<Rightarrow> 's reader \<times> framing \<times> py_error option" where
  "reader_nrun process sep [] fr r = (r, fr, None)"
| "reader_nrun process sep (x # xs) fr r =
     (if rd_stop r then (let (r1, e) = reader_end process r in (r1, fr, e))
      else case x of
        RecvTimeout \<Rightarrow> reader_nrun process sep xs fr r
      | RecvError \<Rightarrow> (let (r1, e) = reader_end process r in (r1, fr, e))
      | RecvData buffer \<Rightarrow>
          if rd_transparent r then reader_nrun process sep xs fr (put_wait (NavTransparent buffer) r)
          else if length buffer = 0 then reader_nrun process sep xs fr r
          else
            (case scan (reader_frame process) sep buffer 0 (length buffer) fr r of
               (r1, fr1, Some e) \<Rightarrow> (r1, fr1, Some e)
             | (r1, fr1, None) \<Rightarrow> reader_nrun process sep xs fr1 r1))"

definition new_framing :: framing where
  "new_framing = \<lparr>fr_part = False, fr_buf = []\<rparr>"

text \<open>\<^verbatim>\<open>BufferedIPCoupler.default_msg_process\<close>: the state is the count of raw messages.\<close>

definition default_msg_process :: "real \<Rightarrow> nat \<Rightarrow> bytes \<Rightarrow> nat \<times> nav_msg result" where
  "default_msg_process now n frame = (n + 1, process_nmea0183_frame now frame True)"

section \<open>Lemmas\<close>

abbreviation crlf :: bytes where "crlf \<equiv> [13, 10]"

definition plain_bytes :: "bytes \<Rightarrow> bool" where
  "plain_bytes f \<longleftrightarrow> 13 \<notin> set f \<and> 10 \<notin> set f"

definition enc_frames :: "bytes list \<Rightarrow> bytes" where
  "enc_frames fs = concat (map (\<lambda>f. f @ crlf) fs)"

lemma enc_frames_simps [simp]:
  "enc_frames [] = []"
  "enc_frames (f # fs) = f @ 13 # 10 # enc_frames fs"
  "enc_frames (fs @ gs) = enc_frames fs @ enc_frames gs"
  by (simp_all add: enc_frames_def)

lemma plain_ends:
  assumes "plain_bytes f" "f \<noteq> []"
  shows "hd f \<notin> set crlf" "last f \<notin> set crlf"
proof -
  have "\<forall>x \<in> set f. x \<notin> set crlf" using assms(1) by (auto simp: plain_bytes_def)
  then show "hd f \<notin> set crlf" "last f \<notin> set crlf" using assms(2) hd_in_set last_in_set by blast+
qed

lemma at_crlf:
  assumes "take (length crlf) (drop i b) = crlf" "i < length b"
  shows "b ! i = 13"
proof -
  have "take (length crlf) (drop i b) ! 0 = 13" unfolding assms(1) by simp
  then show ?thesis using assms(2) by simp
qed

lemma upt_split: "a \<le> k \<Longrightarrow> k < n \<Longrightarrow> [a..<n] = [a..<k] @ k # [Suc k..<n]"
  by (metis le_add_diff_inverse less_imp_le upt_add_eq_append upt_conv_Cons)

lemma find_append:
  "List.find P (xs @ ys) = (case List.find P xs of None \<Rightarrow> List.find P ys | Some x \<Rightarrow> Some x)"
  by (induction xs) auto

lemma py_find_crlf:
  assumes "plain_bytes g"
  shows "py_find crlf (pre @ g @ crlf @ rest) (length pre) (length (pre @ g @ crlf @ rest)) = Some (length pre + length g)"
proof -
  let ?b = "pre @ g @ crlf @ rest"
  let ?P = "\<lambda>i. take (length crlf) (drop i ?b) = crlf \<and> i + length crlf \<le> length ?b"
  have "List.find ?P [length pre..<length pre + length g] = None"
  proof -
    have "\<not> ?P i" if i: "length pre \<le> i" "i < length pre + length g" for i
    proof
      assume "?P i"
      with i have "?b ! i = 13" by (intro at_crlf) simp_all
      moreover have "i - length pre < length g" "\<not> i < length pre" using i by linarith+
      ultimately have "g ! (i - length pre) = 13" by (simp add: nth_append)
      moreover have "g ! (i - length pre) \<in> set g" using i by (intro nth_mem) linarith
      ultimately show False using assms by (simp add: plain_bytes_def)
    qed
    then show ?thesis unfolding find_None_iff by auto
  qed
  moreover have "?P (length pre + length g)" by simp
  moreover have "[length pre..<length ?b] = [length pre..<length pre + length g] @ (length pre + length g) #
      [Suc (length pre + length g)..<length ?b]" by (rule upt_split) simp_all
  ultimately show ?thesis unfolding py_find_def by (simp only: find_append) simp
qed

lemma py_find_plain:
  assumes "plain_bytes r"
  shows "py_find crlf (pre @ r) (length pre) (length (pre @ r)) = None"
proof -
  have "take (length crlf) (drop i (pre @ r)) \<noteq> crlf" if i: "length pre \<le> i" "i < length (pre @ r)" for i
  proof
    assume "take (length crlf) (drop i (pre @ r)) = crlf"
    from at_crlf [OF this i(2)] have "r ! (i - length pre) = 13" using i by (simp add: nth_append)
    moreover have "r ! (i - length pre) \<in> set r" using i by (intro nth_mem) auto
    ultimately show False using assms by (simp add: plain_bytes_def)
  qed
  then show ?thesis unfolding py_find_def find_None_iff by auto
qed

text \<open>Feeding frames to a handler that never leaves the loop.\<close>

definition feed :: "('s \<Rightarrow> bytes \<Rightarrow> 's \<times> frame_next) \<Rightarrow> bytes list \<Rightarrow> 's \<Rightarrow> 's" where
  "feed h fs s = fold (\<lambda>f s. fst (h s f)) fs s"

lemma feed_simps [simp]:
  "feed h [] s = s" "feed h (f # fs) s = feed h fs (fst (h s f))" "feed h (fs @ gs) s = feed h gs (feed h fs s)"
  by (simp_all add: feed_def)

lemma scan_rest:
  assumes h: "\<And>s f. I s \<Longrightarrow> snd (h s f) = FrameNext \<and> I (fst (h s f))" and I: "I s"
    and fs: "\<forall>f \<in> set fs. plain_bytes f \<and> f \<noteq> []" and r: "plain_bytes r" and fr: "\<not> fr_part fr"
  shows "\<exists>fr'. scan h crlf (pre @ enc_frames fs @ r) (length pre) (length (pre @ enc_frames fs @ r)) fr s
      = (feed h fs s, fr', None) \<and> fr_part fr' = (r \<noteq> []) \<and> (r \<noteq> [] \<longrightarrow> fr_buf fr' = r)"
  using fs fr I
proof (induction fs arbitrary: pre fr s)
  case Nil
  show ?case
  proof (cases "r = []")
    case True
    with Nil show ?thesis by (simp add: scan.simps [of h crlf pre])
  next
    case False
    let ?b = "pre @ r"
    have "?b ! (length ?b - 1) = last ?b" using False by (intro last_conv_nth [symmetric]) simp
    then have "?b ! (length ?b - 1) = last r" using False by simp
    then have e: "?b ! (length ?b - 1) \<notin> set crlf" using plain_ends [OF r False] by simp
    have "?b ! length pre = hd r" using False by (simp add: hd_conv_nth nth_append)
    then have b: "?b ! length pre \<notin> set crlf" using plain_ends [OF r False] by simp
    have sl: "py_slice ?b (int (length pre)) (int (length ?b)) = r"
      by (simp only: py_slice_nat) simp
    have lt: "\<not> length ?b \<le> length pre" using False by simp
    have "scan h crlf ?b (length pre) (length ?b) fr s = (s, \<lparr>fr_part = True, fr_buf = r\<rparr>, None)"
      by (subst scan.simps, simp only: lt if_False py_find_plain [OF r] Let_def e begin_frame_def b sl Nil(2))
        (use False in simp)
    with False show ?thesis by simp
  qed
next
  case (Cons f fs)
  let ?rest = "enc_frames fs @ r"
  let ?b = "pre @ f @ crlf @ ?rest"
  have f: "plain_bytes f" "f \<noteq> []" using Cons.prems by simp_all
  have find: "py_find crlf ?b (length pre) (length ?b) = Some (length pre + length f)"
    by (rule py_find_crlf [OF f(1)])
  have "?b ! length pre = hd f" using f(2) by (simp add: hd_conv_nth nth_append)
  then have b: "?b ! length pre \<notin> set crlf" using plain_ends [OF f] by simp
  have sl: "py_slice ?b (int (length pre)) (int (length pre + length f)) = f"
    by (simp only: py_slice_nat) simp
  have fa: "frame_at crlf ?b (length pre) (length pre + length f) fr = Some f"
    using Cons.prems(2) b sl f(2) by (simp add: frame_at_def begin_frame_def)
  have lt: "\<not> length ?b \<le> length pre" by simp
  let ?fr = "fr\<lparr>fr_part := False\<rparr>"
  have hs: "h s f = (fst (h s f), FrameNext)" and I1: "I (fst (h s f))" using h [of s f] Cons.prems(3) by (metis prod.collapse)+
  have "scan h crlf ?b (length pre) (length ?b) fr s
      = scan h crlf ?b (length pre + length f + 2) (length ?b) ?fr (fst (h s f))"
    by (subst scan.simps, simp only: lt if_False find Let_def option.distinct simp_thms option.case prod.case fa)
      (subst hs, simp)
  also have "\<dots> = scan h crlf ((pre @ f @ crlf) @ ?rest) (length (pre @ f @ crlf)) (length ((pre @ f @ crlf) @ ?rest)) ?fr (fst (h s f))"
    by simp
  finally have step: "scan h crlf ?b (length pre) (length ?b) fr s = \<dots>" .
  have "\<forall>f \<in> set fs. plain_bytes f \<and> f \<noteq> []" "\<not> fr_part ?fr" using Cons.prems by simp_all
  from Cons.IH [OF this I1, of "pre @ f @ crlf"] step show ?case by simp
qed

text \<open>One buffer: \<open>p\<close> is what was left of the frame begun before it.\<close>

lemma scan_buffer:
  assumes h: "\<And>s f. I s \<Longrightarrow> snd (h s f) = FrameNext \<and> I (fst (h s f))" and I: "I s"
    and fs: "\<forall>f \<in> set fs. plain_bytes f \<and> f \<noteq> []" and r: "plain_bytes r" and p: "plain_bytes p"
    and fr: "fr_part fr = (p \<noteq> [])" "p \<noteq> [] \<longrightarrow> fr_buf fr = p"
    and eq: "p @ c = enc_frames fs @ r" and c: "c \<noteq> []"
  shows "\<exists>fr'. scan h crlf c 0 (length c) fr s = (feed h fs s, fr', None)
      \<and> fr_part fr' = (r \<noteq> []) \<and> (r \<noteq> [] \<longrightarrow> fr_buf fr' = r)"
proof (cases "p = []")
  case True
  with fr have "\<not> fr_part fr" by simp
  from scan_rest [where h = h and pre = "[]" and I = I, OF h I fs r this] eq True show ?thesis by simp
next
  case p0: False
  show ?thesis
  proof (cases fs)
    case Nil
    then have rr: "r = p @ c" using eq by simp
    with r have pc: "plain_bytes c" by (simp add: plain_bytes_def)
    have "c ! (length c - 1) = last c" using c by (simp add: last_conv_nth)
    then have e: "c ! (length c - 1) \<notin> set crlf" using plain_ends [OF pc c] by simp
    have find: "py_find crlf c 0 (length c) = None" using py_find_plain [OF pc, of "[]"] by simp
    have sl: "py_slice c (int 0) (int (length c)) = c" by (simp only: py_slice_nat) simp
    have lt: "\<not> length c \<le> 0" using c by simp
    have "scan h crlf c 0 (length c) fr s = (s, fr\<lparr>fr_buf := p @ c\<rparr>, None)"
      by (subst scan.simps, simp only: lt if_False find Let_def e sl) (use p0 fr in simp)
    with p0 fr rr Nil show ?thesis by simp
  next
    case (Cons f fs1)
    let ?rest = "enc_frames fs1 @ r"
    have f: "plain_bytes f" "f \<noteq> []" and fs1: "\<forall>f \<in> set fs1. plain_bytes f \<and> f \<noteq> []"
      using fs Cons by simp_all
    from eq Cons have eq1: "p @ c = f @ 13 # 10 # ?rest" by simp
    have "\<exists>g. f = p @ g \<and> c = g @ 13 # 10 # ?rest"
    proof -
      from eq1 consider us where "p @ us = f" "c = us @ 13 # 10 # ?rest"
        | us where "p = f @ us" "us @ c = 13 # 10 # ?rest"
        unfolding append_eq_append_conv2 by blast
      then show ?thesis
      proof cases
        case 2
        with p show ?thesis by (cases us) (auto simp: plain_bytes_def)
      qed auto
    qed
    then obtain g where g: "f = p @ g" "c = g @ 13 # 10 # ?rest" by blast
    have pg: "plain_bytes g" using f g by (simp add: plain_bytes_def)
    have find: "py_find crlf c 0 (length c) = Some (length g)"
      using py_find_crlf [OF pg, of "[]" ?rest] g by simp
    have fa: "frame_at crlf c 0 (length g) fr = Some f"
    proof (cases "g = []")
      case True
      with p0 fr g show ?thesis by (simp add: frame_at_def)
    next
      case False
      have "c ! 0 = hd g" using False g by (simp add: hd_conv_nth nth_append)
      then have b: "c ! 0 \<notin> set crlf" using plain_ends [OF pg False] by simp
      have "py_slice c (int 0) (int (length g)) = g" using g by (simp only: py_slice_nat) simp
      with b False p0 fr g show ?thesis by (simp add: frame_at_def begin_frame_def)
    qed
    have lt: "\<not> length c \<le> 0" using c by simp
    let ?fr = "fr\<lparr>fr_part := False\<rparr>"
    have hs: "h s f = (fst (h s f), FrameNext)" and I1: "I (fst (h s f))" using h [of s f] I by (metis prod.collapse)+
    have "scan h crlf c 0 (length c) fr s = scan h crlf c (length g + 2) (length c) ?fr (fst (h s f))"
      by (subst scan.simps, simp only: lt if_False find Let_def option.distinct simp_thms option.case prod.case fa)
        (subst hs, simp)
    also have "\<dots> = scan h crlf ((g @ crlf) @ ?rest) (length (g @ crlf)) (length ((g @ crlf) @ ?rest)) ?fr (fst (h s f))"
      using g by simp
    finally have step: "scan h crlf c 0 (length c) fr s = \<dots>" .
    have "\<not> fr_part ?fr" by simp
    from scan_rest [where h = h and pre = "g @ crlf" and I = I, OF h I1 fs1 r this] step show ?thesis by (simp add: Cons)
  qed
qed

text \<open>Cutting the stream anywhere but between the two bytes of a separator.\<close>

lemma cut_stream:
  assumes "x @ y = enc_frames fs" "\<forall>f \<in> set fs. plain_bytes f" "x \<noteq> [] \<longrightarrow> last x \<noteq> 13"
  shows "\<exists>fs1 fs2 p. fs = fs1 @ fs2 \<and> x = enc_frames fs1 @ p \<and> p @ y = enc_frames fs2 \<and> plain_bytes p"
  using assms
proof (induction fs arbitrary: x)
  case Nil
  then show ?case by (simp add: plain_bytes_def)
next
  case (Cons f fs)
  have eq: "x @ y = f @ 13 # 10 # enc_frames fs" using Cons.prems(1) by simp
  consider "length x \<le> length f" | "length x = Suc (length f)" | "length f + 2 \<le> length x" by linarith
  then show ?case
  proof cases
    case 1
    with eq obtain g where "f = x @ g"
      by (metis append_eq_append_conv_if append_take_drop_id)
    then have "plain_bytes x" using Cons.prems(2) by (simp add: plain_bytes_def)
    with Cons.prems(1) show ?thesis
      by (intro exI [of _ "[]"] exI [of _ "f # fs"] exI [of _ x]) simp
  next
    case 2
    with eq have "x = f @ [13]"
      by (metis (no_types, lifting) append_eq_append_conv append.assoc append_Cons append_Nil length_append_singleton)
    with Cons.prems(3) show ?thesis by simp
  next
    case 3
    then obtain x' where x: "x = f @ 13 # 10 # x'"
    proof -
      assume a: "\<And>x'. x = f @ 13 # 10 # x' \<Longrightarrow> thesis"
      have "take (length f + 2) x = take (length f + 2) (x @ y)" using 3 by simp
      also have "\<dots> = f @ [13, 10]" unfolding eq by simp
      finally have "x = (f @ [13, 10]) @ drop (length f + 2) x" by (metis append_take_drop_id)
      then show thesis using a [of "drop (length f + 2) x"] by simp
    qed
    with eq have "x' @ y = enc_frames fs" by simp
    moreover have "x' \<noteq> [] \<longrightarrow> last x' \<noteq> 13" using Cons.prems(3) x by (auto split: if_splits)
    ultimately obtain fs1 fs2 p where "fs = fs1 @ fs2" "x' = enc_frames fs1 @ p" "p @ y = enc_frames fs2" "plain_bytes p"
      using Cons.IH [of x'] Cons.prems(2) by auto
    with x show ?thesis by (intro exI [of _ "f # fs1"] exI [of _ fs2] exI [of _ p]) simp
  qed
qed


fun recv_data :: "recv \<Rightarrow> bytes" where
  "recv_data (RecvData c) = c"
| "recv_data _ = []"

definition soft_errors :: "('s \<Rightarrow> bytes \<Rightarrow> 's \<times> nav_msg result) \<Rightarrow> bool" where
  "soft_errors process \<longleftrightarrow> (\<forall>s f e. snd (process s f) = Inl e \<longrightarrow> e \<in> {IncompleteMessage, NMEAInvalidFrame})"

lemma reader_frame_soft:
  assumes "soft_errors process" "\<not> rd_stop r \<and> \<not> rd_transparent r"
  shows "snd (reader_frame process r f) = FrameNext \<and>
    (\<not> rd_stop (fst (reader_frame process r f)) \<and> \<not> rd_transparent (fst (reader_frame process r f)))"
proof -
  obtain s1 res where p: "process (rd_state r) f = (s1, res)" by fastforce
  then have "res = Inl e \<Longrightarrow> e \<in> {IncompleteMessage, NMEAInvalidFrame}" for e
    using assms(1) by (metis soft_errors_def snd_conv)
  then show ?thesis using assms(2) p by (cases res) (auto simp: reader_frame_def Let_def split: sum.splits)
qed

lemma reader_run_frames:
  assumes "soft_errors process" "\<forall>f \<in> set fs. plain_bytes f \<and> f \<noteq> []"
    and "\<forall>x \<in> set xs. x \<noteq> RecvError \<and> (recv_data x \<noteq> [] \<longrightarrow> last (recv_data x) \<noteq> 13)"
    and "p @ concat (map recv_data xs) = enc_frames fs" "plain_bytes p"
    and "fr_part fr = (p \<noteq> [])" "p \<noteq> [] \<longrightarrow> fr_buf fr = p"
    and "\<not> rd_stop r" "\<not> rd_transparent r"
  shows "\<exists>fr'. reader_nrun process crlf xs fr r = (feed (reader_frame process) fs r, fr', None) \<and> \<not> fr_part fr'"
  using assms(2-)
proof (induction xs arbitrary: fs p fr r)
  case Nil
  have "fs = []"
  proof (cases fs)
    case (Cons f gs)
    with Nil have "13 \<in> set p" by simp
    with Nil show ?thesis by (simp add: plain_bytes_def)
  qed
  with Nil show ?case by simp
next
  case (Cons x xs)
  show ?case
  proof (cases x)
    case RecvTimeout
    with Cons.prems Cons.IH [of fs p fr r] show ?thesis by simp
  next
    case RecvError
    with Cons.prems show ?thesis by simp
  next
    case (RecvData c)
    show ?thesis
    proof (cases "c = []")
      case True
      with RecvData Cons.prems Cons.IH [of fs p fr r] show ?thesis by simp
    next
      case False
      have "(p @ c) @ concat (map recv_data xs) = enc_frames fs" "\<forall>f \<in> set fs. plain_bytes f"
        "p @ c \<noteq> [] \<longrightarrow> last (p @ c) \<noteq> 13"
        using Cons.prems RecvData False by simp_all
      from cut_stream [OF this] obtain fs1 fs2 q where q: "fs = fs1 @ fs2" "p @ c = enc_frames fs1 @ q"
        "q @ concat (map recv_data xs) = enc_frames fs2" "plain_bytes q" by blast
      let ?h = "reader_frame process"
      have I: "\<not> rd_stop r \<and> \<not> rd_transparent r" using Cons.prems by simp
      have f1: "\<forall>f \<in> set fs1. plain_bytes f \<and> f \<noteq> []" using Cons.prems(1) q by simp
      from scan_buffer [where h = ?h and I = "\<lambda>r. \<not> rd_stop r \<and> \<not> rd_transparent r" and s = r,
          OF reader_frame_soft [OF assms(1)] I f1 q(4) Cons.prems(4,5,6) q(2) False]
      obtain fr1 where fr1: "scan ?h crlf c 0 (length c) fr r = (feed ?h fs1 r, fr1, None)"
        "fr_part fr1 = (q \<noteq> [])" "q \<noteq> [] \<longrightarrow> fr_buf fr1 = q" by auto
      have keep: "\<not> rd_stop (feed ?h gs r) \<and> \<not> rd_transparent (feed ?h gs r)" for gs
        using I
      proof (induction gs arbitrary: r)
        case (Cons g gs)
        from reader_frame_soft [OF assms(1) Cons.prems, of g] Cons.IH show ?case by simp
      qed simp
      have "\<exists>fr'. reader_nrun process crlf xs fr1 (feed ?h fs1 r) = (feed ?h fs2 (feed ?h fs1 r), fr', None) \<and> \<not> fr_part fr'"
        using Cons.prems(1,2) q fr1 keep [of fs1] by (intro Cons.IH [of fs2 q]) simp_all
      with fr1(1) q(1) I RecvData False show ?thesis by auto
    qed
  qed
qed

section \<open>Properties\<close>



lemma scan_part_cr:
  assumes "plain_bytes b" "b \<noteq> []" "fr_part fr"
  shows "scan h crlf (b @ [13]) 0 (length (b @ [13])) fr s = (s, fr\<lparr>fr_buf := fr_buf fr @ b\<rparr>, None)"
proof -
  let ?c = "b @ [13]"
  have find: "py_find crlf ?c 0 (length ?c) = None"
  proof -
    have "take (length crlf) (drop i ?c) \<noteq> crlf" if i: "i < length ?c" for i
    proof
      assume t: "take (length crlf) (drop i ?c) = crlf"
      then have "length crlf \<le> length (drop i ?c)" by (metis length_take min.cobounded1)
      then have il: "i < length b" by simp
      from at_crlf [OF t i] il have "b ! i = 13" by (simp add: nth_append)
      with assms(1) il nth_mem [OF il] show False by (simp add: plain_bytes_def)
    qed
    then show ?thesis unfolding py_find_def find_None_iff by auto
  qed
  have sl: "py_slice ?c (int 0) (int (length ?c - 1)) = b" by (simp only: py_slice_nat) simp
  have e: "?c ! (length ?c - 1) \<in> set crlf" by (simp add: nth_append)
  have lt: "\<not> length ?c \<le> 0" by simp
  show ?thesis
    by (subst scan.simps, simp only: lt if_False find Let_def e sl assms(3) simp_thms if_True)
qed

lemma scan_part_lf:
  assumes "plain_bytes f" "f \<noteq> []" "fr_part fr" "fr_buf fr \<noteq> []" and h: "snd (h s (fr_buf fr @ f)) = FrameNext"
  shows "scan h crlf (10 # f @ crlf) 0 (length (10 # f @ crlf)) fr s
    = (fst (h s (fr_buf fr @ f)), fr\<lparr>fr_part := False\<rparr>, None)"
proof -
  let ?c = "10 # f @ crlf"
  have find: "py_find crlf ?c 0 (length ?c) = Some (Suc (length f))"
  proof -
    have "py_find crlf ([10] @ f @ crlf @ []) (length [10 :: byte]) (length ([10] @ f @ crlf @ [])) = Some (length [10 :: byte] + length f)"
      by (rule py_find_crlf [OF assms(1)])
    then have "py_find crlf ?c 1 (length ?c) = Some (Suc (length f))" by simp
    moreover have "[0..<length ?c] = 0 # [1..<length ?c]" by (subst upt_conv_Cons) simp_all
    moreover have "take (length crlf) (drop 0 ?c) \<noteq> crlf" by simp
    ultimately show ?thesis unfolding py_find_def by (simp only: find.simps if_False simp_thms)
  qed
  have sl: "py_slice ?c (int 1) (int (Suc (length f))) = f" by (simp only: py_slice_nat) simp
  then have fa: "frame_at crlf ?c 0 (Suc (length f)) fr = Some (fr_buf fr @ f)"
    using assms by (simp add: frame_at_def begin_frame_def)
  have lt: "\<not> length ?c \<le> 0" by simp
  have hs: "h s (fr_buf fr @ f) = (fst (h s (fr_buf fr @ f)), FrameNext)" using h by (metis prod.collapse)
  have "scan h crlf ?c 0 (length ?c) fr s
      = scan h crlf ?c (Suc (length f) + 2) (length ?c) (fr\<lparr>fr_part := False\<rparr>) (fst (h s (fr_buf fr @ f)))"
    by (subst scan.simps, simp only: lt if_False find Let_def option.distinct simp_thms option.case prod.case fa)
      (subst hs, simp)
  also have "\<dots> = (fst (h s (fr_buf fr @ f)), fr\<lparr>fr_part := False\<rparr>, None)"
    by (subst scan.simps) simp
  finally show ?thesis .
qed

text \<open>A reader for the witnesses, which takes every frame as it is.\<close>

definition sample_reader :: "unit reader" where
  "sample_reader = \<lparr>rd_queue = new_queue 50, rd_stop = False, rd_transparent = False, rd_state = ()\<rparr>"

definition sample_process :: "unit \<Rightarrow> bytes \<Rightarrow> unit \<times> nav_msg result" where
  "sample_process s f = ((), Inr (NavTransparent f))"

lemma sample_soft: "soft_errors sample_process"
  by (simp add: soft_errors_def sample_process_def)


text \<open>When a frame arrives in two fragments and the second ends between the two bytes of its
  separator, the reader does not end the frame there: it merges it with the next frame, and one frame
  that was never sent is processed instead of two.\<close>

theorem reader_merges_split_separator:
  assumes "soft_errors process" "plain_bytes a" "plain_bytes b" "plain_bytes f" "a \<noteq> []" "b \<noteq> []" "f \<noteq> []"
    and "\<not> rd_stop r" "\<not> rd_transparent r"
  shows "concat [a, b @ [13], 10 # f @ crlf] = enc_frames [a @ b, f] \<and>
    (\<exists>fr. reader_nrun process crlf (map RecvData [a, b @ [13], 10 # f @ crlf]) new_framing r
      = (fst (reader_frame process r (a @ b @ f)), fr, None))"
proof
  show "concat [a, b @ [13], 10 # f @ crlf] = enc_frames [a @ b, f]" by simp
  let ?h = "reader_frame process"
  have I: "\<not> rd_stop r \<and> \<not> rd_transparent r" using assms by simp
  note soft = reader_frame_soft [OF assms(1)]
  from scan_buffer [where h = ?h and I = "\<lambda>r. \<not> rd_stop r \<and> \<not> rd_transparent r" and s = r and fs = "[]" and p = "[]"
      and fr = new_framing and c = a and r = a, OF soft I] assms(2,5)
  obtain fr1 where fr1: "scan ?h crlf a 0 (length a) new_framing r = (r, fr1, None)" "fr_part fr1" "fr_buf fr1 = a"
    by (auto simp: new_framing_def plain_bytes_def)
  note s2 = scan_part_cr [OF assms(3,6) fr1(2), of ?h r]
  let ?fr2 = "fr1\<lparr>fr_buf := fr_buf fr1 @ b\<rparr>"
  have "snd (?h r (fr_buf ?fr2 @ f)) = FrameNext" using soft [OF I] by blast
  from scan_part_lf [OF assms(4,7), of ?fr2 ?h r, OF _ _ this] fr1 assms(5)
  have s3: "scan ?h crlf (10 # f @ crlf) 0 (length (10 # f @ crlf)) ?fr2 r
      = (fst (?h r (a @ b @ f)), ?fr2\<lparr>fr_part := False\<rparr>, None)" by simp
  show "\<exists>fr. reader_nrun process crlf (map RecvData [a, b @ [13], 10 # f @ crlf]) new_framing r
      = (fst (reader_frame process r (a @ b @ f)), fr, None)"
    using I assms(5,6) fr1(1) s2 s3 by simp
qed

lemma reader_merges_split_separator_witness:
  "\<exists>fr. reader_nrun sample_process crlf (map RecvData [[1], [2] @ [13], 10 # [3] @ crlf]) new_framing sample_reader
    = (sample_reader\<lparr>rd_queue := \<lparr>q_items = [NavTransparent [1, 2, 3]], q_max = 50\<rparr>\<rparr>, fr, None)"
  using reader_merges_split_separator [OF sample_soft, of "[1]" "[2]" "[3]" sample_reader]
  by (simp add: plain_bytes_def sample_reader_def sample_process_def reader_frame_def new_queue_def q_put_room)

end
