(* ===== verification/Hex.thy ===== *)
theory Hex
  imports PyText
begin

text \<open>
  Hexadecimal text as the program writes and reads it: \<^verbatim>\<open>%0wX\<close>, \<^verbatim>\<open>bytes.hex\<close>, \<^verbatim>\<open>bytearray.fromhex\<close>, and
  the numerals \<^verbatim>\<open>int(text, 16)\<close> reads back, whole or cut out of a longer one.
\<close>

section \<open>Writing and reading\<close>

text \<open>\<^verbatim>\<open>%0wX\<close>, and \<^verbatim>\<open>bytes.hex\<close>, which is lower case, with and without a separator.\<close>

definition hex_pad :: "nat \<Rightarrow> nat \<Rightarrow> bytes" where
  "hex_pad w n = pad_left 48 w (map hex_byte (digits_in 16 n))"

definition hex_lower :: "nat \<Rightarrow> byte" where
  "hex_lower d = of_nat (if d < 10 then 48 + d else 87 + d)"

definition byte_hex :: "byte \<Rightarrow> bytes" where
  "byte_hex b = [hex_lower (unat b div 16), hex_lower (unat b mod 16)]"

definition hex_of :: "bytes \<Rightarrow> bytes" where
  "hex_of bs = concat (map byte_hex bs)"

definition hex_sep :: "byte \<Rightarrow> bytes \<Rightarrow> bytes" where
  "hex_sep s bs = join_on s (map byte_hex bs)"

text \<open>\<^verbatim>\<open>bytearray.fromhex\<close>: blanks between the bytes are skipped.\<close>

fun from_hex :: "bytes \<Rightarrow> bytes result" where
  "from_hex [] = Inr []"
| "from_hex [a] = (if is_space a then Inr [] else Inl ValueError)"
| "from_hex (a # b # r) =
     (if is_space a then from_hex (b # r)
      else case digit_values 16 [a, b] of
        Some [x, y] \<Rightarrow> map_sum id ((#) (of_nat (16 * x + y))) (from_hex r)
      | _ \<Rightarrow> Inl ValueError)"

section \<open>Lemmas\<close>

lemma length_digits: "2 \<le> base \<Longrightarrow> 0 < n \<Longrightarrow> base ^ (length (digits_in base n) - 1) \<le> n"
proof (induction base n rule: digits_in.induct)
  case (1 base n)
  show ?case
  proof (cases "n < base")
    case True
    with 1 show ?thesis by (subst digits_in.simps) simp
  next
    case False
    with 1 have pos: "0 < n div base" by (simp add: div_greater_zero_iff)
    with 1 False have IH: "base ^ (length (digits_in base (n div base)) - 1) \<le> n div base" by simp
    obtain k where k: "length (digits_in base (n div base)) = Suc k"
      by (metis digits_nonempty length_0_conv not0_implies_Suc)
    have "base * base ^ k \<le> base * (n div base)" using IH k by (intro mult_le_mono2) simp
    also have "\<dots> \<le> n" by simp
    finally show ?thesis using 1 False k by (subst digits_in.simps) simp
  qed
qed

lemma length_digits_le: "2 \<le> base \<Longrightarrow> n < base ^ w \<Longrightarrow> 0 < w \<Longrightarrow> length (digits_in base n) \<le> w"
proof (rule ccontr)
  assume b: "2 \<le> base" and n: "n < base ^ w" and w: "0 < w" and l: "\<not> length (digits_in base n) \<le> w"
  show False
  proof (cases "n = 0")
    case True
    with b l w show False by (simp add: digits_in.simps [of base 0])
  next
    case False
    have "base ^ w \<le> base ^ (length (digits_in base n) - 1)" using l b by (intro power_increasing) auto
    also have "\<dots> \<le> n" using length_digits [of base n] b False by simp
    finally show False using n by simp
  qed
qed

definition hex_digits :: "nat \<Rightarrow> nat \<Rightarrow> nat list" where
  "hex_digits w n = pad_left 0 w (digits_in 16 n)"

lemma hex_byte_0: "hex_byte 0 = 48" by (simp add: hex_byte_def)

lemma hex_pad_eq: "hex_pad w n = map hex_byte (hex_digits w n)"
  by (simp add: hex_pad_def hex_digits_def pad_left_def hex_byte_0)

lemma hex_digits:
  assumes "n < 16 ^ w" "0 < w"
  shows "length (hex_digits w n) = w" "\<forall>d \<in> set (hex_digits w n). d < 16" "number_of 16 (hex_digits w n) = n"
  using length_digits_le [of 16 n w] assms digits_less [of 16] number_of_digits [of 16 n]
  by (auto simp: hex_digits_def pad_left_def number_of_pad [unfolded pad_left_def])

text \<open>A numeral cut out of a longer one.\<close>

lemma number_of_slice:
  assumes "\<forall>d \<in> set ds. d < 16" "j + k \<le> length ds"
  shows "number_of 16 (take k (drop j ds)) = number_of 16 ds div 16 ^ (length ds - j - k) mod 16 ^ k"
proof -
  define a b c where abc: "a = take j ds" "b = take k (drop j ds)" "c = drop (j + k) ds"
  have ds: "ds = a @ b @ c" unfolding abc by (metis add.commute append_take_drop_id drop_drop)
  have l: "length b = k" "length c = length ds - j - k" using assms(2) abc by auto
  have "number_of 16 b < 16 ^ k" "number_of 16 c < 16 ^ length c"
    using assms(1) number_of_bound [of b 16] number_of_bound [of c 16] l(1) unfolding ds by auto
  moreover have "number_of 16 ds = (number_of 16 a * 16 ^ k + number_of 16 b) * 16 ^ length c + number_of 16 c"
    unfolding ds by (simp add: number_of_append l(1) power_add algebra_simps)
  ultimately show ?thesis unfolding abc(2) [symmetric] l(2) [symmetric] by simp
qed

definition hex_like :: "(nat \<Rightarrow> byte) \<Rightarrow> bool" where
  "hex_like f \<longleftrightarrow> (\<forall>d < 16. digit_value (f d) = Some d \<and> \<not> is_space (f d) \<and> f d \<notin> {45, 43, 44, 32, 42})"

lemma hex_likes: "list_all (\<lambda>d. digit_value (hex_byte d) = Some d \<and> \<not> is_space (hex_byte d)
      \<and> hex_byte d \<notin> {45, 43, 44, 32, 42} \<and> digit_value (hex_lower d) = Some d \<and> \<not> is_space (hex_lower d)
      \<and> hex_lower d \<notin> {45, 43, 44, 32, 42}) [0..<16]"
  by code_simp

lemma hex_like: "hex_like hex_byte" "hex_like hex_lower"
  using hex_likes by (auto simp: hex_like_def list_all_iff)

lemma parse_int_hex:
  assumes "hex_like f" "ds \<noteq> []" "\<forall>d \<in> set ds. d < 16"
  shows "parse_int 16 (map f ds) = Inr (int (number_of 16 ds))"
proof -
  obtain x xs where ds: "ds = x # xs" using assms(2) by (cases ds) auto
  have "strip_with is_space (map f ds) = map f ds"
    using assms(1,3) by (intro strip_plain) (auto simp: hex_like_def)
  moreover have "parse_nat 16 (map f ds) = Inr (number_of 16 ds)"
    using assms by (intro parse_nat_digits) (auto simp: hex_like_def)
  moreover have "f x \<noteq> 45" "f x \<noteq> 43" using assms(1,3) ds by (auto simp: hex_like_def)
  ultimately show ?thesis by (simp add: parse_int_def ds)
qed

lemma parse_hex_pad_slice:
  assumes "n < 16 ^ w" "j + k \<le> w" "0 < k"
  shows "parse_int 16 (py_slice (hex_pad w n) (int j) (int (j + k))) = Inr (int (n div 16 ^ (w - j - k) mod 16 ^ k))"
proof -
  have w: "0 < w" using assms by simp
  note h = hex_digits [OF assms(1) w]
  let ?d = "take k (drop j (hex_digits w n))"
  have "?d \<noteq> []" "\<forall>d \<in> set ?d. d < 16"
    using assms h by (auto dest: in_set_takeD in_set_dropD)
  from parse_int_hex [OF hex_like(1) this] number_of_slice [OF h(2), of j k] assms h
  show ?thesis by (simp only: py_slice_nat) (simp add: hex_pad_eq take_map drop_map)
qed

lemma byte_hex_digits: "byte_hex b = map hex_lower [unat b div 16, unat b mod 16]"
  "unat (b :: byte) div 16 < 16" "unat b mod 16 < 16"
  by (simp_all add: byte_hex_def less_mult_imp_div_less)

lemma parse_byte_hex: "parse_int 16 (byte_hex b) = Inr (int (unat b))"
  unfolding byte_hex_digits(1)
  using byte_hex_digits(2,3) [of b] by (subst parse_int_hex) (auto simp: hex_like number_of_def)

lemma byte_hex_plain: "32 \<notin> set (byte_hex b) \<and> 44 \<notin> set (byte_hex b)"
  using hex_like(2) byte_hex_digits(2,3) [of b] by (auto simp: byte_hex_def hex_like_def)

lemma hex_pad_plain: "n < 16 ^ w \<Longrightarrow> 0 < w \<Longrightarrow> 32 \<notin> set (hex_pad w n) \<and> 44 \<notin> set (hex_pad w n)"
  using hex_like(1) hex_digits(2) [of n w] by (force simp: hex_pad_eq hex_like_def)

lemma from_hex_of: "from_hex (hex_of bs) = Inr bs"
proof (induction bs)
  case (Cons b bs)
  let ?x = "hex_lower (unat b div 16)" and ?y = "hex_lower (unat b mod 16)"
  have h: "digit_value ?x = Some (unat b div 16)" "digit_value ?y = Some (unat b mod 16)" "\<not> is_space ?x"
    using hex_like(2) byte_hex_digits(2,3) [of b] by (auto simp: hex_like_def)
  have "digit_values 16 [?x, ?y] = Some [unat b div 16, unat b mod 16]"
    using h byte_hex_digits(2,3) [of b] by simp
  moreover have "16 * of_nat (unat b div 16) + of_nat (unat b mod 16) = b"
    by (metis mult_div_mod_eq of_nat_add of_nat_mult of_nat_numeral of_nat_unat_byte)
  ultimately show ?case using h(3) Cons by (simp add: hex_of_def byte_hex_def del: digit_values.simps)
qed (simp add: hex_of_def)

lemma hex_of_plain: "44 \<notin> set (hex_of bs)" "\<forall>c \<in> set (hex_of bs). unat c < 128"
proof -
  have "list_all (\<lambda>d. unat (hex_lower d) < 128) [0..<16]" by code_simp
  then have "unat (hex_lower d) < 128" if "d < 16" for d using that by (auto simp: list_all_iff)
  then show "\<forall>c \<in> set (hex_of bs). unat c < 128"
    using byte_hex_digits(2,3) by (auto simp: hex_of_def byte_hex_def)
  show "44 \<notin> set (hex_of bs)" using byte_hex_plain by (auto simp: hex_of_def)
qed

lemma parse_hex_pad: "n < 16 ^ w \<Longrightarrow> 0 < w \<Longrightarrow> parse_int 16 (hex_pad w n) = Inr (int n)"
  using hex_digits [of n w] parse_int_hex [OF hex_like(1), of "hex_digits w n"] by (force simp: hex_pad_eq)

end
