(* ===== verification/Gateways.thy ===== *)
theory Gateways
  imports Pdgy FastPacket Framing Hex
begin

text \<open>
  The gateways that carry CAN frames as text lines: \<^verbatim>\<open>couplers/ydn2k_coupler.py\<close> (Yacht Devices) and
  \<^verbatim>\<open>couplers/shipmodul_if.py\<close> (ShipModul Miniplex), with their decoding of a line into a message, their
  fast packet reassembly and their encoding. The definitions of the PGNs are the argument \<open>ds\<close>.
\<close>

section \<open>Yacht Devices\<close>

record yd_coupler =
  yd_fp :: fp_handler
  yd_writer :: bool
  yd_reply :: "bytes bqueue"
  yd_raw :: nat

definition new_yd :: "bool \<Rightarrow> yd_coupler" where
  "new_yd writer = \<lparr>yd_fp = new_fp_handler, yd_writer = writer, yd_reply = new_queue 30, yd_raw = 0\<rparr>"

definition yd_msgid :: "bytes \<Rightarrow> (nat \<times> nat \<times> int) result" where
  "yd_msgid msgid =
     bind_r (parse_int 16 (py_slice msgid 1 6)) (\<lambda>p.
     bind_r (parse_int 16 (py_slice msgid 0 2)) (\<lambda>q.
     bind_r (parse_int 16 (py_slice msgid 6 8)) (\<lambda>sa.
       Inr (nat (p AND 0x3FFFF), nat (drop_bit 2 q AND 7), sa))))"

fun yd_data :: "bytes list \<Rightarrow> bytes result" where
  "yd_data [] = Inr []"
| "yd_data (db # dbs) =
     bind_r (parse_int 16 db) (\<lambda>v.
       if v < 0 \<or> 256 \<le> v then Inl ValueError else map_sum id ((#) (of_int v)) (yd_data dbs))"

definition yd_reply_check :: "nat \<Rightarrow> bytes \<Rightarrow> bytes \<Rightarrow> yd_coupler \<Rightarrow> yd_coupler \<times> unit result" where
  "yd_reply_check pgn dir frame yd =
     (if dir = [84] then
        (if \<not> yd_writer yd
         then (yd, if pgn \<notin> {60159, 61183, 61236, 126996} then Inl IncompleteMessage else Inr ())
         else case q_put frame (yd_reply yd) of
           Inl _ \<Rightarrow> (yd, Inl IncompleteMessage)
         | Inr q \<Rightarrow> (yd\<lparr>yd_reply := q\<rparr>, Inr ()))
      else (yd, if dir \<noteq> [82] then Inl IncompleteMessage else Inr ()))"

definition yd_is_fast :: "'f pgn_definitions \<Rightarrow> nat \<Rightarrow> bool result" where
  "yd_is_fast ds pgn =
     (case pgn_definition ds pgn 0 of
        Inl e \<Rightarrow> Inl (if e = N2KUnknownPGN then IncompleteMessage else e)
      | Inr None \<Rightarrow> Inl AttributeError
      | Inr (Some d) \<Rightarrow> Inr (pd_fast_packet d))"

text \<open>The reassembly: a fast packet error is caught only while the packet is already open.\<close>

definition yd_reassemble ::
    "'f pgn_definitions \<Rightarrow> real \<Rightarrow> nat \<Rightarrow> nat \<Rightarrow> bytes \<Rightarrow> yd_coupler \<Rightarrow> yd_coupler \<times> bytes result" where
  "yd_reassemble ds now pgn sa data yd =
     (case is_pgn_active (yd_fp yd) pgn sa data of
        Inl e \<Rightarrow> (yd, Inl e)
      | Inr True \<Rightarrow>
          (case process_frame now (yd_fp yd) pgn sa data of
             (h, Inl e) \<Rightarrow> (yd\<lparr>yd_fp := h\<rparr>, Inl (if e = FastPacketException then IncompleteMessage else e))
           | (h, Inr None) \<Rightarrow> (yd\<lparr>yd_fp := h\<rparr>, Inl IncompleteMessage)
           | (h, Inr (Some d)) \<Rightarrow> (yd\<lparr>yd_fp := h\<rparr>, Inr d))
      | Inr False \<Rightarrow>
          (case yd_is_fast ds pgn of
             Inl e \<Rightarrow> (yd, Inl e)
           | Inr False \<Rightarrow> (yd, Inr data)
           | Inr True \<Rightarrow>
               (case process_frame now (yd_fp yd) pgn sa data of
                  (h, Inl e) \<Rightarrow> (yd\<lparr>yd_fp := h\<rparr>, Inl e)
                | (h, Inr None) \<Rightarrow> (yd\<lparr>yd_fp := h\<rparr>, Inl IncompleteMessage)
                | (h, Inr (Some d)) \<Rightarrow> (yd\<lparr>yd_fp := h\<rparr>, Inr d))))"

definition yd_decode_frame ::
    "'f pgn_definitions \<Rightarrow> real \<Rightarrow> nat list option \<Rightarrow> yd_coupler \<Rightarrow> bytes \<Rightarrow> yd_coupler \<times> nav_msg result" where
  "yd_decode_frame ds now white_list yd frame =
     (case py_get frame 0 of
        Inl e \<Rightarrow> (yd, Inl e)
      | Inr c \<Rightarrow>
          if c = 4 then (yd, Inr NavNull)
          else
            let yd1 = yd\<lparr>yd_raw := yd_raw yd + 1\<rparr>; fs = split_on 32 frame in
            if int (length fs) - 3 \<le> 0 then (yd1, Inl IncompleteMessage)
            else case yd_msgid (fs ! 2) of
              Inl e \<Rightarrow> (yd1, Inl e)
            | Inr (pgn, prio, sa) \<Rightarrow>
                if (case white_list of None \<Rightarrow> False | Some ps \<Rightarrow> pgn \<notin> set ps) then (yd1, Inl IncompleteMessage)
                else case yd_reply_check pgn (fs ! 1) frame yd1 of
                  (yd2, Inl e) \<Rightarrow> (yd2, Inl e)
                | (yd2, Inr _) \<Rightarrow>
                    (case yd_data (drop 3 fs) of
                       Inl e \<Rightarrow> (yd2, Inl e)
                     | Inr data \<Rightarrow>
                         if sa < 0 then (yd2, Inl NotModelled)
                         else case yd_reassemble ds now pgn (nat sa) data yd2 of
                           (yd3, Inl e) \<Rightarrow> (yd3, Inl e)
                         | (yd3, Inr d) \<Rightarrow>
                             (yd3, map_sum id (\<lambda>m. nav_n2k (Some frame) (Some m))
                                     (new_n2k_msg now pgn prio (nat sa) 0 (Some d) 0))))"

text \<open>Encoding, a generator over the frames; an address in the place of the source is the destination.\<close>

definition yd_canid :: "n2k_msg \<Rightarrow> bytes" where
  "yd_canid m = hex_pad 8 (push_bit 8 (m_pgn m) OR push_bit 26 (m_prio m) OR m_da m)"

definition yd_line :: "bytes \<Rightarrow> bytes \<Rightarrow> nav_msg" where
  "yd_line canid data = NavTransparent (canid @ [32] @ hex_sep 32 data @ [13, 10])"

definition yd_encode :: "n2k_msg \<Rightarrow> yd_coupler \<Rightarrow> yd_coupler \<times> nav_msg generator" where
  "yd_encode m yd =
     (if m_fast_packet m then
        let (h, (frames, e)) = split_message (yd_fp yd) (m_pgn m) (m_payload m) None
        in (yd\<lparr>yd_fp := h\<rparr>, (map (yd_line (yd_canid m)) frames, e))
      else (yd, ([yd_line (yd_canid m) (m_payload m)], None)))"

definition yd_validate :: "yd_coupler \<Rightarrow> yd_coupler \<times> bool" where
  "yd_validate yd =
     (case q_get (yd_reply yd) of Inl _ \<Rightarrow> (yd, False) | Inr (_, q) \<Rightarrow> (yd\<lparr>yd_reply := q\<rparr>, True))"

section \<open>ShipModul\<close>

record shipmodul =
  sm_fp :: fp_handler
  sm_mode :: mode
  sm_ctlr :: bool
  sm_raw :: nat
  sm_configmode :: bool
  sm_check_in_progress :: bool
  sm_check_ok :: bool

definition new_shipmodul :: "mode \<Rightarrow> bool \<Rightarrow> shipmodul" where
  "new_shipmodul mode ctlr =
     \<lparr>sm_fp = new_fp_handler, sm_mode = mode, sm_ctlr = ctlr, sm_raw = 0, sm_configmode = False,
      sm_check_in_progress = False, sm_check_ok = False\<rparr>"

definition version_fmt :: bytes where
  "version_fmt = bytes_of ''$PSMDVER''"

definition config_mode_on :: "nat \<Rightarrow> shipmodul \<Rightarrow> shipmodul \<times> bool" where
  "config_mode_on address_len sm =
     (if address_len < 4 then (sm, False)
      else (sm\<lparr>sm_configmode := True, sm_check_in_progress := False\<rparr>, True))"

text \<open>The periodic check of the connection: whether the version message is sent, and whether the coupler
  is closed because the last one was not answered.\<close>

definition sm_check_connection :: "shipmodul \<Rightarrow> shipmodul \<times> bool \<times> bool" where
  "sm_check_connection sm =
     (if sm_check_in_progress sm
      then (sm\<lparr>sm_check_in_progress := False\<rparr>, False, \<not> sm_check_ok sm)
      else if \<not> sm_configmode sm
      then (sm\<lparr>sm_check_in_progress := True, sm_check_ok := False\<rparr>, True, False)
      else (sm, False, False))"

text \<open>A tag header starts with a backslash and an s; the index of its end is taken in the frame without
  these two bytes, and used in the frame with them.\<close>

definition strip_tag :: "bytes \<Rightarrow> bytes result" where
  "strip_tag frame = map_sum id (\<lambda>end_of_tag. drop (end_of_tag + 1) frame) (index_of 92 (drop 2 frame))"

definition shipmodul_process_frame :: "real \<Rightarrow> shipmodul \<Rightarrow> bytes \<Rightarrow> shipmodul \<times> nav_msg result" where
  "shipmodul_process_frame now sm frame =
     (case py_get frame 0 of
        Inl e \<Rightarrow> (sm, Inl e)
      | Inr c \<Rightarrow>
          if c = 4 then (sm, Inr NavNull)
          else
            let sm1 = sm\<lparr>sm_raw := sm_raw sm + 1\<rparr> in
            if sm_check_in_progress sm1 \<and> take (length version_fmt) frame = version_fmt
            then (sm1\<lparr>sm_check_ok := True\<rparr>, map_sum id NavN0183 (new_n0183 now frame True None))
            else if take 2 frame = [92, 115]
            then (sm1, bind_r (strip_tag frame) (\<lambda>f. map_sum id NavN0183 (new_n0183 now f True None)))
            else (sm1, map_sum id NavN0183 (new_n0183 now frame True None)))"

definition mx_reassemble ::
    "'f pgn_definitions \<Rightarrow> real \<Rightarrow> nat \<Rightarrow> nat \<Rightarrow> bytes \<Rightarrow> shipmodul \<Rightarrow> shipmodul \<times> bytes result" where
  "mx_reassemble ds now pgn sa data sm =
     (case is_pgn_active (sm_fp sm) pgn sa data of
        Inl e \<Rightarrow> (sm, Inl e)
      | Inr True \<Rightarrow>
          (case process_frame now (sm_fp sm) pgn sa data of
             (h, Inl e) \<Rightarrow> (sm\<lparr>sm_fp := h\<rparr>, Inl (if e = FastPacketException then IncompleteMessage else e))
           | (h, Inr None) \<Rightarrow> (sm\<lparr>sm_fp := h\<rparr>, Inl IncompleteMessage)
           | (h, Inr (Some d)) \<Rightarrow> (sm\<lparr>sm_fp := h\<rparr>, Inr d))
      | Inr False \<Rightarrow>
          (case fast_packet_check ds pgn of
             Inl e \<Rightarrow> (sm, Inl (if e = N2KUnknownPGN then IncompleteMessage else e))
           | Inr False \<Rightarrow> (sm, Inr data)
           | Inr True \<Rightarrow>
               (case process_frame now (sm_fp sm) pgn sa data of
                  (h, Inl e) \<Rightarrow> (sm\<lparr>sm_fp := h\<rparr>, Inl (if e = FastPacketException then IncompleteMessage else e))
                | (h, Inr _) \<Rightarrow> (sm\<lparr>sm_fp := h\<rparr>, Inl IncompleteMessage))))"

definition mxpgn_decode ::
    "'f pgn_definitions \<Rightarrow> real \<Rightarrow> shipmodul \<Rightarrow> n0183_msg \<Rightarrow> shipmodul \<times> nav_msg result" where
  "mxpgn_decode ds now sm msg =
     (let fs = n_fields msg in
      case bind_r (py_get fs 0) (parse_int 16) of Inl e \<Rightarrow> (sm, Inl e) | Inr pgn_int \<Rightarrow>
      case bind_r (py_get fs 1) (parse_int 16) of Inl e \<Rightarrow> (sm, Inl e) | Inr attribute \<Rightarrow>
      if pgn_int < 0 then (sm, Inl NotModelled)
      else
        let prio = nat (drop_bit 12 attribute AND 7);
            source_addr = nat (attribute AND 0xFF);
            (pgn, dest_addr) = pgn_pdu1_adjust (nat pgn_int)
        in if sm_mode sm = ModeMix \<and> (\<not> sm_ctlr sm \<or> \<not> pgn_for_controller pgn)
           then (sm, Inl CouplerReadError)
           else case bind_r (py_get fs 2) (\<lambda>f. bind_r (utf8_decode f) (\<lambda>_. from_hex f)) of
             Inl e \<Rightarrow> (sm, Inl e)
           | Inr bs \<Rightarrow>
               (case mx_reassemble ds now pgn source_addr (rev bs) sm of
                  (sm1, Inl e) \<Rightarrow> (sm1, Inl e)
                | (sm1, Inr d) \<Rightarrow>
                    (sm1, map_sum id (\<lambda>m. nav_n2k None (Some m))
                            (new_n2k_msg now pgn prio source_addr dest_addr (Some d) 0))))"

definition shipmodul_extract_nmea2000 ::
    "'f pgn_definitions \<Rightarrow> real \<Rightarrow> shipmodul \<Rightarrow> bytes \<Rightarrow> shipmodul \<times> nav_msg result" where
  "shipmodul_extract_nmea2000 ds now sm frame =
     (case py_get frame 0 of
        Inl e \<Rightarrow> (sm, Inl e)
      | Inr c \<Rightarrow>
          if c = 4 then (sm, Inr NavNull)
          else case shipmodul_process_frame now (sm\<lparr>sm_raw := sm_raw sm + 1\<rparr>) frame of
            (sm1, Inr (NavN0183 m)) \<Rightarrow>
              (case formatter m of
                 Inl e \<Rightarrow> (sm1, Inl e)
               | Inr f \<Rightarrow> if f = bytes_of ''PGN'' then mxpgn_decode ds now sm1 m else (sm1, Inr (NavN0183 m)))
          | (sm1, r) \<Rightarrow> (sm1, r))"

text \<open>Encoding one frame: \<open>rdata\<close> is filled from its end, with the bytes in reverse order.\<close>

fun fill_reverse :: "bytes \<Rightarrow> int \<Rightarrow> bytes \<Rightarrow> (bytes \<times> int) result" where
  "fill_reverse rdata i [] = Inr (rdata, i)"
| "fill_reverse rdata i (b # bs) = bind_r (py_set rdata i b) (\<lambda>rdata'. fill_reverse rdata' (i - 1) bs)"

definition mx_line :: "n2k_msg \<Rightarrow> bytes \<Rightarrow> nav_msg result" where
  "mx_line m data =
     bind_r (fill_reverse (replicate 8 0) 7 data) (\<lambda>(rdata, i).
       let attr = 0x8000 OR push_bit 12 (m_prio m) OR push_bit 8 (length data) OR m_da m;
           sd = bytes_of ''$MXPGN,'' @ hex_pad 6 (m_pgn m) @ [44]
                  @ pad_left 32 4 (map hex_byte (digits_in 16 attr)) @ [44]
                  @ hex_of (py_slice rdata (i + 1) (int (length rdata)));
           checksum = b_checksum (drop 1 sd)
       in Inr (NavTransparent (sd @ [42] @ hex_pad 2 (unat checksum) @ [13, 10])))"

fun mx_lines :: "n2k_msg \<Rightarrow> bytes list \<Rightarrow> nav_msg generator" where
  "mx_lines m [] = ([], None)"
| "mx_lines m (f # fs) =
     (case mx_line m f of Inl e \<Rightarrow> ([], Some e) | Inr l \<Rightarrow> gen_cons l (mx_lines m fs))"

text \<open>The frames of \<open>split_message\<close> have 8 bytes each and never fail to encode, so the generator is drawn to
  its end.\<close>

definition mx_encode :: "n2k_msg \<Rightarrow> shipmodul \<Rightarrow> shipmodul \<times> nav_msg generator" where
  "mx_encode m sm =
     (if m_fast_packet m then
        let (h, (frames, e)) = split_message (sm_fp sm) (m_pgn m) (m_payload m) None;
            (ls, e1) = mx_lines m frames
        in (sm\<lparr>sm_fp := h\<rparr>, (ls, if e1 = None then e else e1))
      else (sm, mx_lines m [m_payload m]))"

section \<open>Lemmas\<close>

lemma yd_data_hex: "yd_data (map byte_hex bs) = Inr bs"
proof (induction bs)
  case (Cons b bs)
  have "int (unat b) < 256" using unat_byte_less [of b] by linarith
  with Cons show ?case by (simp add: parse_byte_hex)
qed simp

lemma canid_value:
  assumes "da < 256" "pgn < 0x40000" "prio < 8"
  shows "push_bit 8 pgn OR push_bit 26 prio OR da = da + 256 * (pgn + 0x40000 * prio)"
    "da + 256 * (pgn + 0x40000 * prio) < (16::nat) ^ 8"
proof -
  have "push_bit 8 pgn OR push_bit 26 prio OR da = da OR push_bit 8 (pgn OR push_bit 18 prio)"
    by (simp add: push_bit_or or.assoc or.commute or.left_commute)
  also have "pgn OR push_bit 18 prio = pgn + 0x40000 * prio" using or_push_bit [of pgn 18 prio] assms by simp
  also have "da OR push_bit 8 \<dots> = da + 256 * (pgn + 0x40000 * prio)" using or_push_bit [of da 8] assms by simp
  finally show "push_bit 8 pgn OR push_bit 26 prio OR da = da + 256 * (pgn + 0x40000 * prio)" .
  have "da + 256 * (pgn + 0x40000 * prio) \<le> 255 + 256 * (0x3FFFF + 0x40000 * 7)" using assms by (intro add_mono mult_le_mono) auto
  then show "da + 256 * (pgn + 0x40000 * prio) < (16::nat) ^ 8" by simp
qed

lemma and_mask_int: "(x :: int) AND mask k = x mod 2 ^ k"
  by (simp flip: take_bit_eq_mask add: take_bit_eq_mod)

lemma and_masks_int: "(x :: int) AND 7 = x mod 8" "x AND 0x3FFFF = x mod 262144" "x AND 0xFF = x mod 256"
  using and_mask_int [of x 3] and_mask_int [of x 18] and_mask_int [of x 8]
  by (simp_all add: mask_eq_exp_minus_1)

lemma yd_msgid_canid:
  assumes "da < 256" "pgn < 0x40000" "prio < 8"
  shows "yd_msgid (hex_pad 8 (da + 256 * (pgn + 0x40000 * prio))) = Inr (pgn, prio, int da)"
proof -
  let ?n = "da + 256 * (pgn + 0x40000 * prio)"
  note b = canid_value(2) [OF assms]
  have a: "parse_int 16 (py_slice (hex_pad 8 ?n) 1 6) = Inr (int (?n div 256 mod 1048576))"
    using parse_hex_pad_slice [OF b, of 1 5] by simp
  have c: "parse_int 16 (py_slice (hex_pad 8 ?n) 0 2) = Inr (int (?n div 16777216 mod 256))"
    using parse_hex_pad_slice [OF b, of 0 2] by simp
  have d: "parse_int 16 (py_slice (hex_pad 8 ?n) 6 8) = Inr (int (?n mod 256))"
    using parse_hex_pad_slice [OF b, of 6 2] by simp
  have n1: "?n div 256 = pgn + 0x40000 * prio" using assms(1) by simp
  have "int (?n div 256 mod 1048576) AND 0x3FFFF = int (?n div 256 mod 1048576 mod 262144)"
    by (simp only: and_masks_int) (simp only: zmod_int of_nat_numeral)
  also have "?n div 256 mod 1048576 mod 262144 = pgn"
    using assms(2) unfolding n1 by (simp add: mod_mod_cancel)
  finally have p: "nat (int (?n div 256 mod 1048576) AND 0x3FFFF) = pgn" by simp
  have n3: "?n div 67108864 = prio"
  proof -
    have "?n div 67108864 = ?n div 256 div 262144" by (simp flip: div_mult2_eq)
    then show ?thesis using assms(2) unfolding n1 by simp
  qed
  have "?n div 16777216 < 256" using b by (simp add: less_mult_imp_div_less)
  then have "drop_bit 2 (int (?n div 16777216 mod 256)) = int (?n div 16777216 div 4)"
    by (simp add: drop_bit_eq_div zdiv_int)
  also have "?n div 16777216 div 4 = prio" using n3 by (simp flip: div_mult2_eq)
  finally have q: "nat (drop_bit 2 (int (?n div 16777216 mod 256)) AND 7) = prio"
  proof -
    assume e: "drop_bit 2 (int (?n div 16777216 mod 256)) = int prio"
    have "int prio AND 7 = int prio" using assms(3) by (simp add: and_masks_int)
    with e show ?thesis by simp
  qed
  have "?n mod 256 = da mod 256" by (rule mod_mult_self2)
  with assms(1) have s: "?n mod 256 = da" by simp
  show ?thesis unfolding yd_msgid_def a c d bind_r_simps p q s ..
qed

lemma nav_n0183_Some:
  assumes "nav_n0183 f = Some (raw, n)"
  shows "length raw = n + 2" "drop n raw = [13, 10]" "take n raw = take n f" "n \<le> length f" "f \<noteq> []"
    "raw = f @ [13, 10] \<and> n = length f \<or> raw = f"
proof -
  show "f \<noteq> []" using assms by (auto simp: nav_n0183_def)
  then have f0: "length f \<noteq> 0" by simp
  show r: "raw = f @ [13, 10] \<and> n = length f \<or> raw = f"
    using assms f0 by (auto simp: nav_n0183_def Let_def split: if_splits)
  have "length raw = n + 2 \<and> drop n raw = [13, 10] \<and> take n raw = take n f \<and> n \<le> length f"
  proof (cases "py_slice f (int (length f) - 2) (int (length f)) = [13, 10]")
    case True
    then have e: "raw = f" "n = length f - 2" using assms f0 by (auto simp: nav_n0183_def Let_def)
    have "2 \<le> length f"
    proof (rule ccontr)
      assume "\<not> 2 \<le> length f"
      with f0 have "length f = 1" by linarith
      with True show False by (auto simp: py_slice_def py_clip_def length_Suc_conv)
    qed
    then have "int (length f) - 2 = int (length f - 2)" by simp
    then have "py_slice f (int (length f) - 2) (int (length f)) = drop (length f - 2) f"
      by (simp only: py_slice_nat) simp
    with True e \<open>2 \<le> length f\<close> show ?thesis by simp
  next
    case False
    then have "raw = f @ [13, 10]" "n = length f" using assms f0 by (simp_all add: nav_n0183_def Let_def)
    then show ?thesis by simp
  qed
  then show "length raw = n + 2" "drop n raw = [13, 10]" "take n raw = take n f" "n \<le> length f" by simp_all
qed

lemma check_frame_ok:
  assumes "nav_n0183 f = Some (raw, n)" "check_frame raw n = Inr chk"
  shows "3 \<le> n" "raw ! (n - 3) = 42"
    "parse_int 16 (take 2 (drop (n - 2) raw)) = Inr (int (unat (b_checksum (take (n - 4) (drop 1 raw)))))"
proof -
  note r = nav_n0183_Some [OF assms(1)]
  have n: "raw ! n = 13" "raw ! (n + 1) = 10"
    using r(1,2) hd_drop_conv_nth [of n raw] nth_drop [of n raw 1] by simp_all
  obtain s where s: "py_get raw (int n - 3) = Inr s"
    and c: "(if s \<noteq> 42 then Inl NMEAInvalidFrame
       else bind_r (parse_int 16 (py_slice raw (int n - 2) (int n))) (\<lambda>cs.
         if cs \<noteq> int (unat (b_checksum (py_slice raw 1 (int n - 3)))) then Inl NMEAInvalidFrame
         else Inr (cs, n - 3))) = Inr chk"
    using assms(2) unfolding check_frame_def bind_r_Inr_iff by blast
  from c have s42: "s = 42" by (cases "s = 42") (simp only: if_True simp_thms, simp)
  show n3: "3 \<le> n"
  proof (rule ccontr)
    assume "\<not> 3 \<le> n"
    then consider "n = 0" | "n = 1" | "n = 2" by linarith
    then show False using s s42 n r(1) by cases (auto simp: py_get_def py_pos_def)
  qed
  then have i: "int n - 3 = int (n - 3)" "int n - 2 = int (n - 2)" by simp_all
  show "raw ! (n - 3) = 42"
    using s s42 r(1) unfolding i by (subst (asm) py_get_nat) simp_all
  from c s42 obtain k where k: "parse_int 16 (py_slice raw (int n - 2) (int n)) = Inr k"
      and e: "(if k \<noteq> int (unat (b_checksum (py_slice raw 1 (int n - 3)))) then Inl NMEAInvalidFrame
         else Inr (k, n - 3)) = Inr chk"
    by (simp only: simp_thms if_False bind_r_Inr_iff) blast
  from e have ke: "k = int (unat (b_checksum (py_slice raw 1 (int n - 3))))"
    by (cases "k = int (unat (b_checksum (py_slice raw 1 (int n - 3))))") (simp only: if_True simp_thms, simp)
  have "py_slice raw (int n - 2) (int n) = take 2 (drop (n - 2) raw)"
    unfolding i using n3 by (simp only: py_slice_nat) simp
  moreover have "py_slice raw 1 (int n - 3) = take (n - 4) (drop 1 raw)"
    unfolding i using py_slice_nat [of raw 1 "n - 3"] by simp
  ultimately show "parse_int 16 (take 2 (drop (n - 2) raw)) = Inr (int (unat (b_checksum (take (n - 4) (drop 1 raw)))))"
    using k ke by simp
qed

lemma nav_prefix:
  assumes "nav_n0183 f = Some (raw, n)" "2 \<le> length f"
  shows "nav_n0183 (xs @ f) = Some (xs @ raw, length xs + n)"
proof -
  have i: "int (length g) - 2 = int (length g - 2)" if "2 \<le> length g" for g :: bytes using that by simp
  have "py_slice (xs @ f) (int (length (xs @ f)) - 2) (int (length (xs @ f)))
      = py_slice f (int (length f) - 2) (int (length f))"
    using assms(2) i [of f] i [of "xs @ f"] by (simp only: py_slice_nat length_append trans_le_add2) simp
  then show ?thesis using assms by (auto simp: nav_n0183_def Let_def split: if_splits)
qed

lemma fill_reverse_eq:
  "length bs \<le> length xs \<Longrightarrow> fill_reverse (xs @ ys) (int (length xs) - 1) bs
    = Inr (take (length xs - length bs) xs @ rev bs @ ys, int (length xs) - 1 - int (length bs))"
proof (induction bs arbitrary: xs ys)
  case (Cons b bs)
  then obtain xs1 x where xs: "xs = xs1 @ [x]" by (cases xs rule: rev_cases) auto
  have "int (length xs) - 1 = int (length xs1)" by (simp add: xs)
  then have "py_set (xs @ ys) (int (length xs) - 1) b = Inr (xs1 @ b # ys)"
    by (simp add: py_set_def py_pos_def xs)
  moreover have "int (length xs) - 1 - 1 = int (length xs1) - 1" by (simp add: xs)
  ultimately show ?case using Cons.IH [of xs1 "b # ys"] Cons.prems by (simp add: xs)
qed simp

lemma mx_attribute:
  assumes "da < 256" "prio < 8" "l \<le> 8"
  shows "0x8000 OR push_bit 12 prio OR push_bit 8 l OR da = (da + 256 * l + 4096 * (prio + 8) :: nat)"
proof -
  have "push_bit 8 (l OR push_bit 4 (prio OR push_bit 3 1)) = push_bit 8 l OR push_bit 12 prio OR 0x8000"
    by (simp add: push_bit_or or.assoc)
  then have "0x8000 OR push_bit 12 prio OR push_bit 8 l OR da = da OR push_bit 8 (l OR push_bit 4 (prio OR push_bit 3 1))"
    by (simp only: or.assoc or.commute or.left_commute)
  also have "prio OR push_bit 3 1 = prio + 8" using or_push_bit [of prio 3 1] assms by simp
  also have "l OR push_bit 4 (prio + 8) = l + 16 * (prio + 8)" using or_push_bit [of l 4] assms by simp
  also have "da OR push_bit 8 \<dots> = da + 256 * (l + 16 * (prio + 8))" using or_push_bit [of da 8] assms by simp
  finally show ?thesis by simp
qed

lemma mx_attribute_text:
  assumes "da < 256" "prio < 8" "l \<le> 8"
  defines "a \<equiv> da + 256 * l + 4096 * (prio + 8)"
  shows "pad_left 32 4 (map hex_byte (digits_in 16 a)) = hex_pad 4 a" "a < 16 ^ 4"
    "nat (drop_bit 12 (int a) AND 7) = prio" "nat (int a AND 0xFF) = da"
proof -
  have r: "da + 256 * l < 4096" using assms by linarith
  show a: "a < 16 ^ 4" using assms(2) r unfolding a_def by simp
  have "length (digits_in 16 a) = 4"
  proof (rule ccontr)
    assume "length (digits_in 16 a) \<noteq> 4"
    with length_digits_le [of 16 a 4] a have "length (digits_in 16 a) \<le> 3" by simp
    then have "(16::nat) ^ length (digits_in 16 a) \<le> 16 ^ 3" by (rule power_increasing) simp
    moreover have "a < 16 ^ length (digits_in 16 a)"
      using number_of_bound [of "digits_in 16 a" 16] digits_less [of 16] number_of_digits [of 16 a] by simp
    ultimately show False unfolding a_def by simp
  qed
  then show "pad_left 32 4 (map hex_byte (digits_in 16 a)) = hex_pad 4 a"
    by (simp add: hex_pad_def pad_left_def)
  have "a div 4096 = prio + 8" using r unfolding a_def by simp
  then have "drop_bit 12 (int a) = int (prio + 8)" by (simp add: drop_bit_eq_div flip: zdiv_int)
  then show "nat (drop_bit 12 (int a) AND 7) = prio" using assms(2) by (simp add: and_masks_int)
  have "a mod 256 = da"
  proof -
    have "a = da + 256 * (l + 16 * (prio + 8))" by (simp add: a_def)
    then have "a mod 256 = da mod 256" by (simp only: mod_mult_self2)
    with assms(1) show ?thesis by simp
  qed
  then have "int a mod 256 = int da" by (metis of_nat_numeral zmod_int)
  then show "nat (int a AND 0xFF) = da" by (simp add: and_masks_int)
qed

lemma mx_bytes: "bytes_of ''$MXPGN,'' = [36, 77, 88, 80, 71, 78, 44]" "bytes_of ''PGN'' = [80, 71, 78]"
  by code_simp+

section \<open>Properties\<close>

text \<open>C28. The line of a single-frame message, as the gateway echoes it (a time, the direction T, the line),
  is decoded to the same PGN, priority and payload; but the source of the echo is the destination of
  the message: \<^verbatim>\<open>encode_nmea2000\<close> writes the destination where the identifier carries the source, and the
  source is lost.\<close>

theorem yd_echo_roundtrip:
  assumes "\<not> m_fast_packet m" "m_pgn m < 0x40000" "m_prio m < 8" "m_da m < 256" "m_payload m \<noteq> []"
    and "time \<noteq> []" "32 \<notin> set time" "hd time \<noteq> 4"
    and "yd_writer yd" "\<not> q_full (yd_reply yd)"
    and "is_pgn_active (yd_fp yd) (m_pgn m) (m_da m) (m_payload m) = Inr False"
    and "yd_is_fast ds (m_pgn m) = Inr False"
  shows "\<exists>line yd'. yd_encode m yd = (yd, [NavTransparent (line @ [13, 10])], None) \<and>
    yd_decode_frame ds now None yd (time @ [32, 84, 32] @ line)
      = (yd', map_sum id (NavN2k (Some (time @ [32, 84, 32] @ line)))
           (new_n2k_msg now (m_pgn m) (m_prio m) (m_da m) 0 (Some (m_payload m)) 0))"
proof -
  let ?id = "hex_pad 8 (m_da m + 256 * (m_pgn m + 0x40000 * m_prio m))"
  have id: "yd_canid m = ?id" unfolding yd_canid_def using canid_value(1) [OF assms(4,2,3)] by simp
  let ?l = "?id @ [32] @ hex_sep 32 (m_payload m)"
  let ?f = "time @ [32, 84, 32] @ ?l"
  have idp: "32 \<notin> set ?id" using hex_pad_plain [OF canid_value(2) [OF assms(4,2,3)]] by simp
  have "split_on 32 (hex_sep 32 (m_payload m)) = map byte_hex (m_payload m)"
    unfolding hex_sep_def using assms(5) byte_hex_plain by (intro split_on_join) auto
  with idp assms(7) have fs: "split_on 32 ?f = time # [84] # ?id # map byte_hex (m_payload m)"
    using split_on_append [of 32 "[84]" "?id @ 32 # hex_sep 32 (m_payload m)"]
    by (simp add: split_on_append)
  have g: "py_get ?f 0 = Inr (hd time)"
    using py_get_nat [of 0 ?f] assms(6) by (simp add: hd_conv_nth nth_append)
  let ?yd1 = "yd\<lparr>yd_raw := yd_raw yd + 1\<rparr>"
  obtain q where q: "q_put ?f (yd_reply yd) = Inr q" using assms(10) by (auto simp: q_put_def)
  have rc: "yd_reply_check (m_pgn m) [84] ?f ?yd1 = (?yd1\<lparr>yd_reply := q\<rparr>, Inr ())"
    using assms(9) q by (simp add: yd_reply_check_def)
  have re: "yd_reassemble ds now (m_pgn m) (m_da m) (m_payload m) (?yd1\<lparr>yd_reply := q\<rparr>)
      = (?yd1\<lparr>yd_reply := q\<rparr>, Inr (m_payload m))"
    using assms(11,12) by (simp add: yd_reassemble_def)
  have dec: "yd_decode_frame ds now None yd f
      = (?yd1\<lparr>yd_reply := q\<rparr>, map_sum id (NavN2k (Some f))
           (new_n2k_msg now (m_pgn m) (m_prio m) (m_da m) 0 (Some (m_payload m)) 0))"
    if f: "split_on 32 f = time # [84] # i # map byte_hex (m_payload m)" "py_get f 0 = Inr (hd time)"
      "yd_reply_check (m_pgn m) [84] f ?yd1 = (?yd1\<lparr>yd_reply := q\<rparr>, Inr ())"
      and i: "yd_msgid i = Inr (m_pgn m, m_prio m, int (m_da m))" for f i
    unfolding yd_decode_frame_def f(2)
    using assms(5,8) f(3) re i by (simp add: f(1) yd_data_hex nav_n2k_def Let_def)
  note dec [OF fs g rc yd_msgid_canid [OF assms(4,2,3)]]
  moreover have "yd_encode m yd = (yd, [NavTransparent (?l @ [13, 10])], None)"
    using assms(1) by (simp add: yd_encode_def yd_line_def id)
  ultimately show ?thesis by blast
qed

text \<open>The Yacht Devices reader does not survive a fast packet joined in the middle: a well-formed line
  with a continuation frame of a fast packet PGN that is not being reassembled raises
  FastPacketException out of \<^verbatim>\<open>decode_frame\<close>, which \<^verbatim>\<open>IPAsynchReader\<close> does not catch, so that the reading thread
  ends without the null message that would tell its coupler.\<close>

theorem yd_continuation_ends_reader:
  assumes "split_on 32 frame = time # [82] # i # dbs" "yd_msgid i = Inr (pgn, prio, int sa)"
    and "yd_data dbs = Inr data" "data \<noteq> []" "py_get frame 0 = Inr c" "c \<noteq> 4"
    and "frame_counter (hd data) \<noteq> 0"
    and "dict_get (sequences (yd_fp (rd_state r))) (compute_key pgn sa (frame_seq (hd data))) = None"
    and "yd_is_fast ds pgn = Inr True" "frame \<noteq> []" "\<not> rd_stop r" "\<not> rd_transparent r" "plain_bytes frame"
  shows "\<exists>r' fr. reader_nrun (yd_decode_frame ds now None) crlf (RecvData (frame @ crlf) # rest) new_framing r
    = (r', fr, Some FastPacketException) \<and> rd_queue r' = rd_queue r"
proof -
  let ?yd = "rd_state r" and ?p = "yd_decode_frame ds now None"
  let ?yd1 = "?yd\<lparr>yd_raw := yd_raw ?yd + 1\<rparr>"
  have d0: "py_get data 0 = Inr (hd data)" using assms(4) py_get_nat [of 0 data] by (simp add: hd_conv_nth)
  have dbs: "dbs \<noteq> []" using assms(3,4) by auto
  have ia: "is_pgn_active (yd_fp ?yd) pgn sa data = Inr False"
    using assms(8) d0 by (simp add: is_pgn_active_def Let_def)
  have pf: "process_frame now (yd_fp ?yd) pgn sa data = (yd_fp ?yd, Inl FastPacketException)"
    using assms(7,8) d0 by (simp add: process_frame_def Let_def)
  have re: "yd_reassemble ds now pgn sa data ?yd1 = (?yd1, Inl FastPacketException)"
    using ia pf assms(9) by (simp add: yd_reassemble_def)
  have dec: "?p ?yd frame = (?yd1, Inl FastPacketException)"
    unfolding yd_decode_frame_def assms(5)
    using assms(6) dbs re by (simp add: assms(1,2,3) Let_def yd_reply_check_def)
  have h: "reader_frame ?p r frame = (r\<lparr>rd_state := ?yd1\<rparr>, FrameRaise FastPacketException)"
    using dec by (simp add: reader_frame_def Let_def)
  let ?c = "frame @ crlf"
  have find: "py_find crlf ?c 0 (length ?c) = Some (length frame)"
    using py_find_crlf [OF assms(13), of "[]" "[]"] by simp
  have "?c ! 0 = hd frame" using assms(10) by (simp add: hd_conv_nth nth_append)
  then have b: "?c ! 0 \<notin> set crlf" using plain_ends [OF assms(13,10)] by simp
  have "py_slice ?c (int 0) (int (length frame)) = frame" by (simp only: py_slice_nat) simp
  then have fa: "frame_at crlf ?c 0 (length frame) new_framing = Some frame"
    using b assms(10) by (simp add: frame_at_def begin_frame_def new_framing_def)
  have lt: "\<not> length ?c \<le> 0" by simp
  have "scan (reader_frame ?p) crlf ?c 0 (length ?c) new_framing r
      = (r\<lparr>rd_state := ?yd1\<rparr>, new_framing\<lparr>fr_part := False\<rparr>, Some FastPacketException)"
    by (subst scan.simps, simp only: lt if_False find Let_def option.distinct simp_thms option.case prod.case fa)
      (subst h, simp)
  then show ?thesis using assms(11,12) by simp
qed

text \<open>A sentence with a tag header is always refused by the ShipModul interface: whatever valid
  sentence follows the header, the header is cut two bytes too early and the rest fails the checksum.\<close>

theorem shipmodul_tag_refused:
  assumes "new_n0183 now f True None = Inr msg" "hd f \<in> {36, 33}" "92 \<notin> set t"
  shows "shipmodul_process_frame now sm ([92, 115] @ t @ [92] @ f)
    = (sm\<lparr>sm_raw := sm_raw sm + 1\<rparr>, Inl NMEAInvalidFrame)"
proof -
  obtain raw n where nav: "nav_n0183 f = Some (raw, n)"
    using assms(1) by (auto simp: new_n0183_def split: option.splits)
  obtain chk where chk: "check_frame raw n = Inr chk"
    using assms(1) by (auto simp: new_n0183_def nav bind_r_Inr_iff Let_def)
  note r = nav_n0183_Some [OF nav] and ok = check_frame_ok [OF nav chk]
  have h0: "raw ! 0 = hd f" using r(5,6) by (auto simp: hd_conv_nth nth_append)
  have n4: "4 \<le> n"
  proof (rule ccontr)
    assume "\<not> 4 \<le> n"
    with ok(1) have "n = 3" by simp
    with ok(2) h0 assms(2) show False by auto
  qed
  define x where "x = last ([92, 115] @ t)"
  have tag: "strip_tag ([92, 115] @ t @ [92] @ f) = Inr (x # 92 # f)"
  proof -
    have "index_of 92 (t @ 92 # f) = Inr (length t)" using assms(3) by (rule index_of_split)
    moreover have "drop (length t + 1) ([92, 115] @ t @ [92] @ f) = x # 92 # f"
    proof -
      have "[92, 115] @ t = butlast ([92, 115] @ t) @ [x]" unfolding x_def by (rule append_butlast_last_id [symmetric]) simp
      then have "[92, 115] @ t @ [92] @ f = butlast ([92, 115] @ t) @ x # 92 # f"
        by (metis append.assoc append_Cons append_Nil)
      moreover have "length (butlast ([92, 115] @ t)) = length t + 1" by simp
      ultimately show ?thesis by (metis append_eq_conv_conj)
    qed
    ultimately show ?thesis by (simp add: strip_tag_def)
  qed
  let ?raw = "x # 92 # raw"
  have nav2: "nav_n0183 (x # 92 # f) = Some (?raw, n + 2)"
    using nav_prefix [OF nav, of "[x, 92]"] r(4) n4 by simp
  have i: "int (n + 2) - 3 = int (n - 1)" "int (n + 2) - 2 = int n" using n4 by simp_all
  have star: "py_get ?raw (int (n + 2) - 3) = Inr 42"
    unfolding i using ok(2) n4 r(1) by (subst py_get_nat) (auto simp: nth_Cons' eval_nat_numeral)
  have cs: "py_slice ?raw (int (n + 2) - 2) (int (n + 2)) = take 2 (drop (n - 2) raw)"
    unfolding i using n4 by (simp only: py_slice_nat) (simp add: drop_Cons' eval_nat_numeral)
  have body: "py_slice ?raw 1 (int (n + 2) - 3) = 92 # hd f # take (n - 4) (drop 1 raw)"
  proof -
    have "py_slice ?raw 1 (int (n - 1)) = take (n - 2) (92 # raw)"
      using py_slice_nat [of ?raw 1 "n - 1"] n4 by (simp add: numeral_2_eq_2)
    moreover obtain y ys where "raw = y # ys" using r(1) by (cases raw) auto
    ultimately show ?thesis unfolding i using h0 n4 by (auto simp: take_Cons' eval_nat_numeral)
  qed
  let ?B = "b_checksum (take (n - 4) (drop 1 raw))"
  have "92 XOR (hd f XOR ?B) \<noteq> ?B"
  proof
    assume e: "92 XOR (hd f XOR ?B) = ?B"
    then have "(92 XOR hd f) XOR ?B = ?B" by (simp only: xor.assoc)
    then have "((92 XOR hd f) XOR ?B) XOR ?B = ?B XOR ?B" by (rule arg_cong)
    then have "92 XOR hd f = 0" by (simp only: xor.assoc bit.xor_self xor.right_neutral)
    with assms(2) show False by auto
  qed
  then have ne: "uint (b_checksum (py_slice ?raw 1 (int (n + 2) - 3))) \<noteq> uint ?B"
    unfolding body b_checksum_simps by (metis unsigned_word_eqI)
  have "check_frame ?raw (n + 2) = Inl NMEAInvalidFrame"
    unfolding check_frame_def star cs ok(3) bind_r_simps using ne by (simp del: b_checksum_simps)
  then have "new_n0183 now (x # 92 # f) True None = Inl NMEAInvalidFrame"
    by (simp add: new_n0183_def nav2)
  moreover have "take (length version_fmt) ([92, 115] @ t @ [92] @ f) \<noteq> version_fmt"
  proof -
    have v: "version_fmt = [36, 80, 83, 77, 68, 86, 69, 82]" by code_simp
    show ?thesis unfolding v by simp
  qed
  moreover have "py_get ([92, 115] @ t @ [92] @ f) 0 = Inr 92"
    using py_get_nat [of 0 "[92, 115] @ t @ [92] @ f"] by simp
  ultimately show ?thesis
    using tag by (simp add: shipmodul_process_frame_def Let_def)
qed


text \<open>The MXPGN sentence of a single-frame message, checksum included, is decoded to the PGN, priority
  and payload of the message; the source that is read is the destination of the message, and a
  destination is read only as far as the PGN carries it.\<close>

theorem mxpgn_roundtrip:
  assumes "\<not> m_fast_packet m" "m_pgn m < 0x40000" "m_prio m < 8" "m_da m < 256" "length (m_payload m) \<le> 8"
    and "sm_mode sm = ModeNMEA2000" "\<not> sm_check_in_progress sm"
    and "pgn_pdu1_adjust (m_pgn m) = (pgn, dest)"
    and "is_pgn_active (sm_fp sm) pgn (m_da m) (m_payload m) = Inr False" "fast_packet_check ds pgn = Inr False"
  shows "\<exists>line. mx_encode m sm = (sm, [NavTransparent (line @ [13, 10])], None) \<and>
    shipmodul_extract_nmea2000 ds now sm line
      = (sm\<lparr>sm_raw := sm_raw sm + 2\<rparr>,
         map_sum id (NavN2k None) (new_n2k_msg now pgn (m_prio m) (m_da m) dest (Some (m_payload m)) 0))"
proof -
  let ?l = "length (m_payload m)"
  define a where "a = m_da m + 256 * ?l + 4096 * (m_prio m + 8)"
  note attr = mx_attribute [OF assms(4,3,5)] and at = mx_attribute_text [OF assms(4,3,5), folded a_def]
  define P A H where PAH: "P = hex_pad 6 (m_pgn m)" "A = hex_pad 4 a" "H = hex_of (rev (m_payload m))"
  have pg: "m_pgn m < 16 ^ 6" using assms(2) by simp
  have plain: "44 \<notin> set P" "44 \<notin> set A" "44 \<notin> set H"
    using hex_pad_plain [OF pg] hex_pad_plain [OF at(2)] hex_of_plain(1) by (simp_all add: PAH)
  define rest where "rest = P @ 44 # A @ 44 # H"
  have split: "split_on 44 rest = [P, A, H]"
    using plain by (simp add: rest_def split_on_append split_on_plain)
  define body where "body = [77, 88, 80, 71, 78] @ 44 # rest"
  define hh where "hh = hex_pad 2 (unat (b_checksum body))"
  have c2: "unat (b_checksum body) < 16 ^ 2" by simp
  have hl: "length hh = 2" using hex_digits(1) [OF c2] by (simp add: hh_def hex_pad_eq)
  have cs: "parse_int 16 hh = Inr (int (unat (b_checksum body)))" unfolding hh_def by (rule parse_hex_pad [OF c2]) simp
  define line where "line = 36 # body @ [42] @ hh"
  have raw: "line @ [13, 10] = 36 # body @ [42] @ hh @ [13, 10]" by (simp add: line_def)
  have fill: "fill_reverse (replicate 8 0) 7 (m_payload m) = Inr (replicate (8 - ?l) 0 @ rev (m_payload m), 7 - int ?l)"
    using fill_reverse_eq [of "m_payload m" "replicate 8 0" "[]"] assms(5) by simp
  have sl: "py_slice (replicate (8 - ?l) 0 @ rev (m_payload m)) (7 - int ?l + 1)
      (int (length (replicate (8 - ?l) 0 @ rev (m_payload m)))) = rev (m_payload m)"
  proof -
    have "7 - int ?l + 1 = int (8 - ?l)" using assms(5) by simp
    then show ?thesis by (simp only: py_slice_nat) simp
  qed
  have "mx_line m (m_payload m) = Inr (NavTransparent (line @ [13, 10]))"
    unfolding mx_line_def fill bind_r_simps prod.case sl attr a_def [symmetric] at(1)
    by (simp add: Let_def at(1) mx_bytes line_def hh_def body_def rest_def PAH del: b_checksum_simps)
  then have enc: "mx_encode m sm = (sm, [NavTransparent (line @ [13, 10])], None)"
    using assms(1) by (simp add: mx_encode_def gen_cons_def)
  have "hh \<noteq> [13, 10]"
  proof
    assume "hh = [13, 10]"
    then have "13 \<in> set hh" by simp
    then obtain d where "hex_byte d = 13" "d < 16" using hex_digits(2) [OF c2] by (auto simp: hh_def hex_pad_eq)
    with hex_like(1) have "\<not> is_space 13" by (auto simp: hex_like_def)
    then show False by (simp add: is_space_def)
  qed
  moreover have "py_slice line (int (length line) - 2) (int (length line)) = hh"
  proof -
    have "int (length line) - 2 = int (length line - 2)" using hl by (simp add: line_def)
    then have "py_slice line (int (length line) - 2) (int (length line)) = drop (length line - 2) line"
      by (simp only: py_slice_nat) simp
    also have "\<dots> = hh" using hl by (simp add: line_def)
    finally show ?thesis .
  qed
  ultimately have "nav_n0183 line = Some (line @ [13, 10], length line)"
    by (simp add: nav_n0183_def line_def)
  then have "nav_n0183 line = nav_n0183 (line @ [13, 10])" by (simp add: nav_crlf)
  then have same: "new_n0183 now line True None = new_n0183 now (line @ [13, 10]) True None"
    unfolding new_n0183_def by (simp only:)
  have ad: "44 \<notin> set [77, 88, 80, 71, 78 :: byte]" "[77, 88, 80, 71, 78 :: byte] \<noteq> []" "(36 :: byte) \<noteq> 44" by simp_all
  obtain msg where msg: "new_n0183 now line True None = Inr msg" "n_address msg = [77, 88, 80, 71, 78]"
      "n_fields msg = [P, A, H]" "\<not> n_proprietary msg"
    using n0183_of_body(1) [OF raw hl cs body_def ad, of now None] n0183_of_body(2) [OF raw hl cs body_def ad]
    unfolding same split by (auto simp: n_fields_def)
  have g: "py_get line 0 = Inr 36" using py_get_nat [of 0 line] by (simp add: line_def)
  have fm: "formatter msg = Inr [80, 71, 78]" using msg by (simp add: formatter_def)
  let ?sm = "sm\<lparr>sm_raw := sm_raw sm + 2\<rparr>"
  have pf: "shipmodul_process_frame now (sm\<lparr>sm_raw := sm_raw sm + 1\<rparr>) line = (?sm, Inr (NavN0183 msg))"
    using assms(7) g msg(1) by (simp add: shipmodul_process_frame_def Let_def line_def body_def)
  have "utf8_decode H = Inr (map unat H)" using hex_of_plain(2) by (intro utf8_decode_ascii) (simp add: PAH)
  moreover have "from_hex H = Inr (rev (m_payload m))" by (simp add: PAH from_hex_of)
  moreover have "mx_reassemble ds now pgn (m_da m) (m_payload m) ?sm = (?sm, Inr (m_payload m))"
    using assms(9,10) by (simp add: mx_reassemble_def)
  moreover have "parse_int 16 P = Inr (int (m_pgn m))" "parse_int 16 A = Inr (int a)"
    using parse_hex_pad [OF pg] parse_hex_pad [OF at(2)] by (simp_all add: PAH)
  moreover have "py_get [P, A, H] 0 = Inr P" "py_get [P, A, H] 1 = Inr A" "py_get [P, A, H] 2 = Inr H"
    using py_get_nat [of 0 "[P, A, H]"] py_get_nat [of 1 "[P, A, H]"] py_get_nat [of 2 "[P, A, H]"] by simp_all
  ultimately have "mxpgn_decode ds now ?sm msg
      = (?sm, map_sum id (NavN2k None) (new_n2k_msg now pgn (m_prio m) (m_da m) dest (Some (m_payload m)) 0))"
    unfolding mxpgn_decode_def msg(3) using assms(6,8) at(3,4) by (simp add: Let_def nav_n2k_def)
  then have "shipmodul_extract_nmea2000 ds now sm line
      = (?sm, map_sum id (NavN2k None) (new_n2k_msg now pgn (m_prio m) (m_da m) dest (Some (m_payload m)) 0))"
    unfolding shipmodul_extract_nmea2000_def g pf by (simp add: fm mx_bytes)
  with enc show ?thesis by blast
qed

section \<open>Witnesses\<close>

definition sample_pgn :: "nat \<Rightarrow> bool \<Rightarrow> unit pgn_def" where
  "sample_pgn n fast = \<lparr>pd_id = n, pd_name = ''sample'', pd_generate = False, pd_flags = None,
     pd_pdu_type = PDU2, pd_range = pgn_ranges ! 7, pd_proprietary = False, pd_manufacturer_id = None,
     pd_byte_length = 8, pd_variable_length = False, pd_fast_packet = fast, pd_field_list = [()]\<rparr>"

definition sample_pgns :: "unit pgn_definitions" where
  "sample_pgns = new_pgn_definitions\<lparr>pgn_defs :=
     [(127250, PgnEntry (sample_pgn 127250 False)), (129029, PgnEntry (sample_pgn 129029 True))]\<rparr>"

definition sample_frame_msg :: n2k_msg where
  "sample_frame_msg = \<lparr>m_pgn = 127250, m_prio = 2, m_sa = 7, m_da = 35, m_is_iso = False, m_ts = 0,
     m_fast_packet = False, m_payload = [1, 255]\<rparr>"

lemma sample_fast: "yd_is_fast sample_pgns 127250 = Inr False" "yd_is_fast sample_pgns 129029 = Inr True"
  by (simp_all add: yd_is_fast_def sample_pgns_def new_pgn_definitions_def pgn_definition_def sample_pgn_def)

lemma yd_echo_roundtrip_witness:
  "\<exists>line yd'. yd_encode sample_frame_msg (new_yd True) = (new_yd True, [NavTransparent (line @ [13, 10])], None) \<and>
    yd_decode_frame sample_pgns 0 None (new_yd True) ([48, 49] @ [32, 84, 32] @ line)
      = (yd', map_sum id (NavN2k (Some ([48, 49] @ [32, 84, 32] @ line))) (new_n2k_msg 0 127250 2 35 0 (Some [1, 255]) 0))"
  using yd_echo_roundtrip [of sample_frame_msg "[48, 49]" "new_yd True" sample_pgns 0] sample_fast
  by (simp add: sample_frame_msg_def new_yd_def new_queue_def q_full_def is_pgn_active_def py_get_def py_pos_def
      new_fp_handler_def)

lemma yd_continuation_ends_reader_witness:
  "\<exists>r' fr. reader_nrun (yd_decode_frame sample_pgns 0 None) crlf
      [RecvData ([48, 32, 82, 32, 49, 57, 70, 56, 48, 53, 50, 51, 32, 48, 49, 32, 52, 49] @ crlf)] new_framing
      \<lparr>rd_queue = new_queue 50, rd_stop = False, rd_transparent = False, rd_state = new_yd False\<rparr>
    = (r', fr, Some FastPacketException) \<and> rd_queue r' = new_queue 50"
proof -
  let ?f = "[48, 32, 82, 32, 49, 57, 70, 56, 48, 53, 50, 51, 32, 48, 49, 32, 52, 49] :: bytes"
  let ?r = "\<lparr>rd_queue = new_queue 50, rd_stop = False, rd_transparent = False, rd_state = new_yd False\<rparr>"
  have s: "split_on 32 ?f = [48] # [82] # [49, 57, 70, 56, 48, 53, 50, 51] # [[48, 49], [52, 49]]" by code_simp
  have i: "yd_msgid [49, 57, 70, 56, 48, 53, 50, 51] = Inr (129029, 6, int 35)"
  proof -
    have "[49, 57, 70, 56, 48, 53, 50, 51] = hex_pad 8 (35 + 256 * (129029 + 0x40000 * 6))"
      by (simp add: hex_pad_def digits_in.simps hex_byte_def pad_left_def)
    then show ?thesis using yd_msgid_canid [of 35 129029 6] by simp
  qed
  have d: "yd_data [[48, 49], [52, 49]] = Inr [1, 65]" by code_simp
  have c: "frame_counter (hd [1, 65]) \<noteq> 0" by code_simp
  have g: "py_get ?f 0 = Inr 48" by code_simp
  have q: "dict_get (sequences (yd_fp (rd_state ?r))) (compute_key 129029 35 (frame_seq (hd [1, 65]))) = None"
    by (simp add: new_yd_def new_fp_handler_def)
  have "plain_bytes ?f" by (simp add: plain_bytes_def)
  with yd_continuation_ends_reader [OF s i d _ g _ c q sample_fast(2), of 0 "[]"] show ?thesis by simp
qed

lemma shipmodul_tag_refused_witness:
  "\<exists>m. new_n0183 0 [36, 71, 80, 44, 49, 42, 48, 65] True None = Inr m \<and>
     shipmodul_process_frame 0 (new_shipmodul ModeNMEA0183 False)
       ([92, 115] @ [58, 97] @ [92] @ [36, 71, 80, 44, 49, 42, 48, 65])
     = (new_shipmodul ModeNMEA0183 False\<lparr>sm_raw := sm_raw (new_shipmodul ModeNMEA0183 False) + 1\<rparr>, Inl NMEAInvalidFrame)"
proof -
  let ?r = "[36, 71, 80, 44, 49, 42, 48, 65, 13, 10] :: bytes"
  have "nav_n0183 [36, 71, 80, 44, 49, 42, 48, 65] = Some (?r, 8)" "check_frame ?r 8 = Inr (10, 5)"
    "index_of 44 ?r = Inr 3" "py_get ?r 0 = Inr 36" "py_slice ?r 1 (int 3) = [71, 80]"
    "py_get [71, 80 :: byte] 0 = Inr 71"
    by code_simp+
  then obtain m where m: "new_n0183 0 [36, 71, 80, 44, 49, 42, 48, 65] True None = Inr m"
    by (simp only: new_n0183_def option.case prod.case if_True bind_r_simps Let_def)
  from shipmodul_tag_refused [OF m, of "[58, 97]"] m show ?thesis by simp
qed

lemma mxpgn_roundtrip_witness:
  "\<exists>line. mx_encode (sample_frame_msg\<lparr>m_pgn := 61184\<rparr>) (new_shipmodul ModeNMEA2000 False)
      = (new_shipmodul ModeNMEA2000 False, [NavTransparent (line @ [13, 10])], None) \<and>
    snd (shipmodul_extract_nmea2000 sample_pgns 0 (new_shipmodul ModeNMEA2000 False) line)
      = map_sum id (NavN2k None) (new_n2k_msg 0 61184 2 35 0 (Some [1, 255]) 0)"
proof -
  let ?m = "sample_frame_msg\<lparr>m_pgn := 61184\<rparr>" and ?sm = "new_shipmodul ModeNMEA2000 False"
  have a: "pgn_pdu1_adjust 61184 = (61184, 0)" by (simp add: pgn_pdu1_adjust_eq)
  have b: "fast_packet_check sample_pgns 61184 = Inr False" by (simp add: fast_packet_check_eq)
  have c: "is_pgn_active (sm_fp ?sm) 61184 35 [1, 255] = Inr False"
    by (simp add: new_shipmodul_def is_pgn_active_def py_get_def py_pos_def new_fp_handler_def)
  have "sm_mode ?sm = ModeNMEA2000" "\<not> sm_check_in_progress ?sm" by (simp_all add: new_shipmodul_def)
  with mxpgn_roundtrip [of ?m ?sm 61184 0 sample_pgns 0] a b c show ?thesis
    by (auto simp: sample_frame_msg_def)
qed

end
