(* ===== verification/IsoName.thy ===== *)
theory IsoName
  imports Prelude
begin

text \<open>
  \<^verbatim>\<open>navigation_server/nmea2000_datamodel/nmea2k_name.py\<close>: the 64-bit ISO NAME of a device, by which the
  nodes of the bus arbitrate their addresses. \<open>name_field\<close> is one field of it (\<^verbatim>\<open>NameField\<close>), \<open>iso_name\<close> a
  name: a read-only one (\<^verbatim>\<open>NMEA2000Name\<close>) has no dictionary of values, the one of a local application
  (\<^verbatim>\<open>NMEA2000MutableName\<close>) is rebuilt from its dictionary. Python integers are \<open>int\<close>.
\<close>

section \<open>Fields\<close>

record name_field =
  nf_name :: string
  nf_description :: string
  nf_size :: nat
  nf_mask :: int
  nf_offset :: nat
  nf_byte_size :: nat

definition new_name_field :: "string \<Rightarrow> string \<Rightarrow> nat \<Rightarrow> nat \<Rightarrow> name_field" where
  "new_name_field name description bit_size bit_offset =
     \<lparr>nf_name = name, nf_description = description, nf_size = bit_size, nf_mask = 2 ^ bit_size - 1,
      nf_offset = bit_offset,
      nf_byte_size = (if bit_size mod 8 \<noteq> 0 then bit_size div 8 + 1 else bit_size div 8)\<rparr>"

definition extract_field :: "name_field \<Rightarrow> int \<Rightarrow> int" where
  "extract_field f value = drop_bit (nf_offset f) value AND nf_mask f"

definition set_field :: "name_field \<Rightarrow> int \<Rightarrow> int \<Rightarrow> int" where
  "set_field f name_value value = name_value OR push_bit (nf_offset f) (value AND nf_mask f)"

definition all_name_fields :: "name_field list" where
  "all_name_fields =
     [new_name_field ''identity_number'' ''ISO Identity Number'' 21 0,
      new_name_field ''manufacturer_code'' ''Manufacturer Code'' 11 21,
      new_name_field ''device_instance_lower'' ''Device Instance Lower'' 3 32,
      new_name_field ''device_instance_upper'' ''Device Instance Upper'' 5 35,
      new_name_field ''device_function'' ''Device Function'' 8 40,
      new_name_field ''reserved'' ''Reserved'' 1 48,
      new_name_field ''device_class'' ''Device Class'' 7 49,
      new_name_field ''system_instance'' ''System Instance'' 4 56,
      new_name_field ''industry_group'' ''Industry Group'' 3 60,
      new_name_field ''arbitrary_address_capable'' ''Arbitrary Address Capable'' 1 63,
      new_name_field ''name_value'' ''Name Value'' 64 0]"

text \<open>The class dictionary \<^verbatim>\<open>NMEA2000Name.fields\<close>, filled by \<^verbatim>\<open>init_fields\<close>.\<close>

definition name_fields :: "(string, name_field) dict" where
  "name_fields = map (\<lambda>f. (nf_name f, f)) all_name_fields"

text \<open>\<^verbatim>\<open>get_field_property\<close>: fields are numbered from 1.\<close>

definition get_field_property :: "nat \<Rightarrow> (nat \<times> string) result" where
  "get_field_property n =
     (if n < 1 \<or> length all_name_fields < n then Inl IndexError
      else let f = all_name_fields ! (n - 1) in Inr (nf_byte_size f, nf_name f))"

section \<open>Names\<close>

record iso_name =
  nm_value :: int
  nm_bytes :: bytes
  nm_dict :: "(string, int) dict option"

definition new_name :: "bytes \<Rightarrow> iso_name" where
  "new_name data = \<lparr>nm_value = int (le_decode data), nm_bytes = data, nm_dict = None\<rparr>"

definition name_attr :: "iso_name \<Rightarrow> string \<Rightarrow> int result" where
  "name_attr n item =
     (case dict_get name_fields item of
        Some f \<Rightarrow> Inr (extract_field f (nm_value n))
      | None \<Rightarrow> Inl AttributeError)"

definition name_value_of :: "iso_name \<Rightarrow> int" where
  "name_value_of n = extract_field (new_name_field ''name_value'' ''Name Value'' 64 0) (nm_value n)"

text \<open>\<^verbatim>\<open>__eq__\<close> accepts only an object of the read-only class on its right; when the right operand is of
  the subclass and the left one is not, Python asks the right operand first.\<close>

definition name_eq :: "iso_name \<Rightarrow> iso_name \<Rightarrow> bool" where
  "name_eq self name = (if nm_dict name \<noteq> None then False else nm_value self = nm_value name)"

definition names_equal :: "iso_name \<Rightarrow> iso_name \<Rightarrow> bool" where
  "names_equal a b = (if nm_dict a = None \<and> nm_dict b \<noteq> None then name_eq b a else name_eq a b)"

fun set_fields :: "(string \<times> int) list \<Rightarrow> int \<Rightarrow> int result" where
  "set_fields [] name = Inr name"
| "set_fields ((key, value) # kwargs) name =
     (case dict_get name_fields key of
        None \<Rightarrow> Inl KeyError
      | Some f \<Rightarrow> set_fields kwargs (set_field f name value))"

text \<open>\<^verbatim>\<open>struct.pack("<Q", name)\<close>.\<close>

definition pack_q :: "int \<Rightarrow> bytes result" where
  "pack_q v = (if 0 \<le> v \<and> v < 2 ^ 64 then Inr (le_encode 8 (nat v)) else Inl StructError)"

definition create_name :: "(string \<times> int) list \<Rightarrow> iso_name result" where
  "create_name kwargs =
     bind_r (set_fields kwargs 0) (\<lambda>name. bind_r (pack_q name) (\<lambda>b. Inr (new_name b)))"

text \<open>The fields of the protobuf form, in the order they are written.\<close>

definition name_protobuf :: "iso_name \<Rightarrow> (string \<times> int) list result" where
  "name_protobuf n =
     (let get = (\<lambda>item. map_sum id (Pair item) (name_attr n item)) in
      bind_r (get ''identity_number'') (\<lambda>a. bind_r (get ''manufacturer_code'') (\<lambda>b.
      bind_r (get ''device_instance_lower'') (\<lambda>c. bind_r (get ''device_instance_upper'') (\<lambda>d.
      bind_r (get ''device_function'') (\<lambda>e. bind_r (get ''device_class'') (\<lambda>f.
      bind_r (get ''system_instance'') (\<lambda>g. bind_r (get ''industry_group'') (\<lambda>h.
      bind_r (get ''arbitrary_address_capable'') (\<lambda>(k, v).
        Inr [a, b, c, d, e, f, g, h, (k, if v = 0 then 0 else 1)]))))))))))"

section \<open>Names of the local applications\<close>

text \<open>\<^verbatim>\<open>build_value\<close>: the loop over the fields. The value is not negative and has at most 64 bits, so
  \<^verbatim>\<open>to_bytes\<close> cannot raise.\<close>

definition build_value :: "(string, int) dict \<Rightarrow> iso_name" where
  "build_value d =
     (let v = foldl (\<lambda>v f. case dict_get d (nf_name f) of Some x \<Rightarrow> set_field f v x | None \<Rightarrow> v)
                0 all_name_fields
      in \<lparr>nm_value = v, nm_bytes = le_encode 8 (nat v), nm_dict = Some d\<rparr>)"

definition new_mutable_name :: "(string \<times> int) list \<Rightarrow> iso_name" where
  "new_mutable_name kwargs =
     build_value
       (foldl (\<lambda>d (key, value). if dict_get name_fields key = None then d else dict_set key value d)
          [] kwargs)"

definition parameter_set_table :: "(nat, string) dict" where
  "parameter_set_table =
     [(3, ''device_instance_lower''), (4, ''device_instance_upper''), (8, ''system_instance'')]"

fun modify_loop ::
    "(nat \<times> int) list \<Rightarrow> (string, int) dict \<Rightarrow> bool \<Rightarrow> ((string, int) dict \<times> bool \<times> nat list) result" where
  "modify_loop [] d change = Inr (d, change, [])"
| "modify_loop ((num, v) # params) d change =
     (case dict_get parameter_set_table num of
        None \<Rightarrow> map_sum id (\<lambda>(d1, c, res). (d1, c, 1 # res)) (modify_loop params d change)
      | Some key \<Rightarrow>
          (case dict_get name_fields key of
             None \<Rightarrow> Inl KeyError
           | Some f \<Rightarrow>
               if v < 0 \<or> nf_mask f < v
               then map_sum id (\<lambda>(d1, c, res). (d1, c, 3 # res)) (modify_loop params d change)
               else map_sum id (\<lambda>(d1, c, res). (d1, c, 0 # res))
                      (modify_loop params (dict_set key v d) True)))"

text \<open>Only a name of the mutable class has the method.\<close>

definition modify_parameters :: "iso_name \<Rightarrow> (nat \<times> int) list \<Rightarrow> (iso_name \<times> nat list) result" where
  "modify_parameters n params =
     (case nm_dict n of
        None \<Rightarrow> Inl AttributeError
      | Some d \<Rightarrow>
          bind_r (modify_loop params d False) (\<lambda>(d1, change, res).
            Inr (if change then build_value d1 else n\<lparr>nm_dict := Some d1\<rparr>, res)))"

section \<open>Lemmas\<close>

text \<open>The bits a field occupies, and the ten fields that share the 64 bits.\<close>

definition in_field :: "name_field \<Rightarrow> nat \<Rightarrow> bool" where
  "in_field f n \<longleftrightarrow> nf_offset f \<le> n \<and> n < nf_offset f + nf_size f"

definition claim_fields :: "name_field list" where
  "claim_fields = take 10 all_name_fields"

lemma all_name_fields_split:
  "all_name_fields = claim_fields @ [new_name_field ''name_value'' ''Name Value'' 64 0]"
  by (simp add: claim_fields_def all_name_fields_def)

lemma nf_mask: "f \<in> set all_name_fields \<Longrightarrow> nf_mask f = mask (nf_size f)"
  by (auto simp: all_name_fields_def new_name_field_def mask_eq_exp_minus_1)

lemma claim_field_mask: "f \<in> set claim_fields \<Longrightarrow> nf_mask f = mask (nf_size f)"
  by (auto intro!: nf_mask simp: all_name_fields_split)

text \<open>They lie one after the other, from bit 0.\<close>

fun consecutive :: "nat \<Rightarrow> name_field list \<Rightarrow> bool" where
  "consecutive k [] = True"
| "consecutive k (f # fs) \<longleftrightarrow> nf_offset f = k \<and> consecutive (k + nf_size f) fs"

lemma consecutive_cover:
  "consecutive k fs \<Longrightarrow> (\<exists>f \<in> set fs. in_field f n) \<longleftrightarrow> k \<le> n \<and> n < k + sum_list (map nf_size fs)"
  by (induction fs arbitrary: k) (auto simp: in_field_def)

lemma consecutive_disjoint:
  "consecutive k fs \<Longrightarrow> f \<in> set fs \<Longrightarrow> g \<in> set fs \<Longrightarrow> in_field f n \<Longrightarrow> in_field g n \<Longrightarrow> f = g"
proof (induction fs arbitrary: k)
  case (Cons h fs)
  then have "consecutive (k + nf_size h) fs" by simp
  with consecutive_cover [OF this, of n] Cons show ?case by (auto simp: in_field_def)
qed simp

lemma claim_fields_consecutive: "consecutive 0 claim_fields" "sum_list (map nf_size claim_fields) = 64"
  by (simp_all add: claim_fields_def all_name_fields_def new_name_field_def)

lemma claim_field_cover: "(\<exists>f \<in> set claim_fields. in_field f n) \<longleftrightarrow> n < 64"
  using consecutive_cover [OF claim_fields_consecutive(1), of n] claim_fields_consecutive(2) by simp

lemmas claim_field_disjoint = consecutive_disjoint [OF claim_fields_consecutive(1)]

lemma claim_field_names: "distinct (map nf_name claim_fields)" "''name_value'' \<notin> nf_name ` set claim_fields"
  by (simp_all add: claim_fields_def all_name_fields_def new_name_field_def)

lemma name_fields_get:
  assumes "f \<in> set all_name_fields"
  shows "dict_get name_fields (nf_name f) = Some f"
proof -
  have "distinct (map nf_name all_name_fields)" by (simp add: all_name_fields_def new_name_field_def)
  with assms show ?thesis
    by (auto intro!: map_of_is_SomeI simp: name_fields_def comp_def)
qed

lemma extract_field_bits:
  "nf_mask f = mask (nf_size f) \<Longrightarrow> extract_field f v = take_bit (nf_size f) (drop_bit (nf_offset f) v)"
  by (simp add: extract_field_def take_bit_eq_mask)

lemma bit_set_field:
  "nf_mask f = mask (nf_size f) \<Longrightarrow>
     bit (set_field f v x) n \<longleftrightarrow> bit v n \<or> in_field f n \<and> bit x (n - nf_offset f)"
  by (auto simp: set_field_def bit_simps in_field_def)

lemma set_field_nonneg: "nf_mask f = mask (nf_size f) \<Longrightarrow> 0 \<le> v \<Longrightarrow> 0 \<le> set_field f v x"
  by (simp add: set_field_def or_nonnegative_int_iff)

text \<open>A value built field by field: each field stores the value \<open>g\<close> has for it, if it has one.\<close>

definition store_all :: "(name_field \<Rightarrow> int option) \<Rightarrow> name_field list \<Rightarrow> int \<Rightarrow> int" where
  "store_all g fs v = foldl (\<lambda>v f. case g f of Some x \<Rightarrow> set_field f v x | None \<Rightarrow> v) v fs"

lemma store_all_simps [simp]:
  "store_all g [] v = v"
  "store_all g (f # fs) v = store_all g fs (case g f of Some x \<Rightarrow> set_field f v x | None \<Rightarrow> v)"
  by (simp_all add: store_all_def)

lemma bit_store_all:
  assumes "\<forall>f \<in> set fs. nf_mask f = mask (nf_size f)"
  shows "bit (store_all g fs v) n
    \<longleftrightarrow> bit v n \<or> (\<exists>f \<in> set fs. \<exists>x. g f = Some x \<and> in_field f n \<and> bit x (n - nf_offset f))"
  using assms
proof (induction fs arbitrary: v)
  case (Cons f fs)
  then show ?case by (cases "g f") (auto simp: bit_set_field)
qed simp

lemma store_all_nonneg:
  "\<forall>f \<in> set fs. nf_mask f = mask (nf_size f) \<Longrightarrow> 0 \<le> v \<Longrightarrow> 0 \<le> store_all g fs v"
  by (induction fs arbitrary: v) (auto simp: set_field_nonneg split: option.splits)

lemma store_all_bound: "0 \<le> store_all g claim_fields 0 \<and> store_all g claim_fields 0 < 2 ^ 64"
proof -
  have "\<not> bit (store_all g claim_fields 0) n" if "64 \<le> n" for n
    using that claim_field_cover [of n] by (auto simp: bit_store_all claim_field_mask)
  then have "take_bit 64 (store_all g claim_fields 0) = store_all g claim_fields 0"
    by (intro bit_eqI) (auto simp: bit_take_bit_iff intro: ccontr)
  then show ?thesis
    by (metis take_bit_int_less_exp take_bit_nonnegative)
qed

lemma extract_store_all:
  assumes "f \<in> set claim_fields"
  shows "extract_field f (store_all g claim_fields 0)
    = (case g f of Some x \<Rightarrow> x mod 2 ^ nf_size f | None \<Rightarrow> 0)"
proof -
  have "bit (extract_field f (store_all g claim_fields 0)) n
      \<longleftrightarrow> (case g f of Some x \<Rightarrow> bit (take_bit (nf_size f) x) n | None \<Rightarrow> False)" for n
  proof (cases "n < nf_size f")
    case True
    then have f: "in_field f (nf_offset f + n)" by (simp add: in_field_def)
    have d: "\<And>h. h \<in> set claim_fields \<Longrightarrow> in_field h (nf_offset f + n) \<Longrightarrow> h = f"
      using claim_field_disjoint [OF assms _ f] by blast
    have "bit (store_all g claim_fields 0) (nf_offset f + n) \<longleftrightarrow> (\<exists>x. g f = Some x \<and> bit x n)"
      using d assms f by (simp add: bit_store_all claim_field_mask) (metis add_diff_cancel_left')
    with True assms show ?thesis
      by (auto simp: extract_field_bits claim_field_mask bit_simps split: option.splits)
  qed (use assms in \<open>auto simp: extract_field_bits claim_field_mask bit_simps split: option.splits\<close>)
  then have "extract_field f (store_all g claim_fields 0)
      = (case g f of Some x \<Rightarrow> take_bit (nf_size f) x | None \<Rightarrow> 0)"
    by (intro bit_eqI) (simp split: option.splits)
  then show ?thesis by (simp add: take_bit_eq_mod split: option.splits)
qed

lemma store_extracted:
  assumes "0 \<le> v" "v < 2 ^ 64"
  shows "store_all (\<lambda>f. Some (extract_field f v)) claim_fields 0 = v"
proof (rule bit_eqI)
  fix n
  have v: "take_bit 64 v = v" using assms by (simp add: take_bit_int_eq_self_iff)
  have "bit (store_all (\<lambda>f. Some (extract_field f v)) claim_fields 0) n
      \<longleftrightarrow> (\<exists>f \<in> set claim_fields. in_field f n) \<and> bit v n"
    by (auto simp: bit_store_all extract_field_bits claim_field_mask bit_simps in_field_def)
  also have "\<dots> \<longleftrightarrow> n < 64 \<and> bit v n" by (simp add: claim_field_cover)
  also have "\<dots> \<longleftrightarrow> bit v n" by (metis bit_take_bit_iff v)
  finally show "bit (store_all (\<lambda>f. Some (extract_field f v)) claim_fields 0) n \<longleftrightarrow> bit v n" .
qed

lemma set_fields_store:
  "\<forall>f \<in> set fs. f \<in> set all_name_fields \<Longrightarrow>
     set_fields (map (\<lambda>f. (nf_name f, g f)) fs) v = Inr (store_all (\<lambda>f. Some (g f)) fs v)"
  by (induction fs arbitrary: v) (auto simp: name_fields_get)

lemma build_value_store:
  "dict_get d ''name_value'' = None \<Longrightarrow>
     nm_value (build_value d) = store_all (\<lambda>f. dict_get d (nf_name f)) claim_fields 0"
  by (simp add: build_value_def store_all_def all_name_fields_split Let_def)
    (simp add: new_name_field_def)

lemma name_value_bounded: "0 \<le> nm_value n \<Longrightarrow> nm_value n < 2 ^ 64 \<Longrightarrow> name_value_of n = nm_value n"
  by (simp add: name_value_of_def new_name_field_def extract_field_bits mask_eq_exp_minus_1
      take_bit_int_eq_self_iff)

text \<open>Commands change three fields only.\<close>

definition settable :: "string set" where
  "settable = {''device_instance_lower'', ''device_instance_upper'', ''system_instance''}"

lemma parameter_key:
  "dict_get parameter_set_table num = Some key \<Longrightarrow>
     key \<in> settable \<and> (\<exists>f \<in> set claim_fields. nf_name f = key)"
  by (auto simp: parameter_set_table_def settable_def claim_fields_def all_name_fields_def
      new_name_field_def split: if_splits)

lemma modify_loop_keeps:
  "\<exists>d1 c1 res. modify_loop params d c = Inr (d1, c1, res) \<and> length res = length params
     \<and> set res \<subseteq> {0, 1, 3} \<and> (\<forall>k. k \<notin> settable \<longrightarrow> dict_get d1 k = dict_get d k)
     \<and> (c1 \<or> d1 = d) \<and> (c \<longrightarrow> c1)"
proof (induction params arbitrary: d c)
  case (Cons p params)
  obtain num v where p: "p = (num, v)" by (cases p)
  show ?case
  proof (cases "dict_get parameter_set_table num")
    case None
    with p Cons.IH [of d c] show ?thesis by auto
  next
    case (Some key)
    then obtain f where f: "key \<in> settable" "dict_get name_fields key = Some f"
      using parameter_key [OF Some] name_fields_get by (auto simp: all_name_fields_split)
    show ?thesis
    proof (cases "v < 0 \<or> nf_mask f < v")
      case True
      with p Some f Cons.IH [of d c] show ?thesis by auto
    next
      case False
      from Cons.IH [of "dict_set key v d" True] obtain d1 c1 res where
        "modify_loop params (dict_set key v d) True = Inr (d1, c1, res)" "length res = length params"
        "set res \<subseteq> {0, 1, 3}" "\<forall>k. k \<notin> settable \<longrightarrow> dict_get d1 k = dict_get (dict_set key v d) k"
        "c1" by blast
      then show ?thesis using p Some f False by (auto simp: py_dicts)
    qed
  qed
qed simp

text \<open>A name of an application: what \<^verbatim>\<open>build_value\<close> makes of its dictionary.\<close>

definition application_name_ok :: "(string, int) dict \<Rightarrow> iso_name \<Rightarrow> bool" where
  "application_name_ok d0 n \<longleftrightarrow>
     (\<exists>d. n = build_value d \<and> dict_get d ''name_value'' = None
        \<and> (\<forall>k. k \<notin> settable \<longrightarrow> dict_get d k = dict_get d0 k))"

lemma modify_parameters_ok:
  assumes "application_name_ok d0 n"
  shows "\<exists>n1 res. modify_parameters n params = Inr (n1, res) \<and> application_name_ok d0 n1
    \<and> length res = length params \<and> set res \<subseteq> {0, 1, 3}"
proof -
  obtain d where d: "n = build_value d" "dict_get d ''name_value'' = None"
    "\<forall>k. k \<notin> settable \<longrightarrow> dict_get d k = dict_get d0 k"
    using assms by (auto simp: application_name_ok_def)
  have n: "nm_dict (build_value d) = Some d" "build_value d\<lparr>nm_dict := Some d\<rparr> = build_value d"
    by (simp_all add: build_value_def Let_def)
  obtain d1 c1 res where r: "modify_loop params d False = Inr (d1, c1, res)" "length res = length params"
    "set res \<subseteq> {0, 1, 3}" "\<forall>k. k \<notin> settable \<longrightarrow> dict_get d1 k = dict_get d k" "c1 \<or> d1 = d"
    using modify_loop_keeps [of params d False] by blast
  have "''name_value'' \<notin> settable" by (simp add: settable_def)
  with d r have "application_name_ok d0 (build_value d1)" unfolding application_name_ok_def by metis
  with r assms d(1) have "application_name_ok d0 (if c1 then build_value d1 else build_value d)" by simp
  moreover have "modify_parameters n params = Inr (if c1 then build_value d1 else build_value d, res)"
    unfolding d(1) modify_parameters_def n(1) option.case r(1) bind_r_simps prod.case using r(5) n(2) by auto
  ultimately show ?thesis using r(2,3) by blast
qed

fun modify_all :: "iso_name \<Rightarrow> (nat \<times> int) list list \<Rightarrow> iso_name result" where
  "modify_all n [] = Inr n"
| "modify_all n (ps # pss) = bind_r (modify_parameters n ps) (\<lambda>(n1, _). modify_all n1 pss)"

lemma modify_all_ok:
  "application_name_ok d0 n \<Longrightarrow> \<exists>n1. modify_all n pss = Inr n1 \<and> application_name_ok d0 n1"
proof (induction pss arbitrary: n)
  case (Cons ps pss)
  with modify_parameters_ok [of d0 n ps] show ?case by fastforce
qed simp

lemma new_mutable_name_ok:
  assumes "''name_value'' \<notin> fst ` set kwargs"
  shows "\<exists>d0. new_mutable_name kwargs = build_value d0 \<and> application_name_ok d0 (new_mutable_name kwargs)"
proof -
  let ?f = "\<lambda>d (key, value). if dict_get name_fields key = None then d else dict_set key value d"
  have "dict_get (foldl ?f d kwargs) ''name_value'' = dict_get d ''name_value''" for d :: "(string, int) dict"
    using assms by (induction kwargs arbitrary: d) (auto simp: py_dicts)
  from this [of "[]"] show ?thesis
    unfolding new_mutable_name_def application_name_ok_def by auto
qed

lemma build_value_facts:
  assumes "dict_get d ''name_value'' = None"
  shows "0 \<le> nm_value (build_value d)" "nm_value (build_value d) < 2 ^ 64"
    and "name_value_of (build_value d) = nm_value (build_value d)"
    and "nm_bytes (build_value d) = le_encode 8 (nat (nm_value (build_value d)))"
    and "f \<in> set claim_fields \<Longrightarrow> name_attr (build_value d) (nf_name f)
      = Inr (case dict_get d (nf_name f) of Some x \<Rightarrow> x mod 2 ^ nf_size f | None \<Rightarrow> 0)"
proof -
  show v: "0 \<le> nm_value (build_value d)" "nm_value (build_value d) < 2 ^ 64"
    using store_all_bound by (simp_all add: build_value_store [OF assms])
  show "name_value_of (build_value d) = nm_value (build_value d)" using v by (rule name_value_bounded)
  show "nm_bytes (build_value d) = le_encode 8 (nat (nm_value (build_value d)))"
    by (simp add: build_value_def Let_def)
  show "f \<in> set claim_fields \<Longrightarrow> name_attr (build_value d) (nf_name f)
      = Inr (case dict_get d (nf_name f) of Some x \<Rightarrow> x mod 2 ^ nf_size f | None \<Rightarrow> 0)"
    by (simp add: name_attr_def name_fields_get all_name_fields_split build_value_store [OF assms]
        extract_store_all)
qed

section \<open>Properties\<close>

text \<open>The ten fields of a NAME carry all of its 64 bits: the name that \<^verbatim>\<open>create_name\<close> builds from the fields
  read from a name is that name.\<close>

theorem name_fields_roundtrip:
  assumes "length data = 8"
  shows "create_name (map (\<lambda>f. (nf_name f, extract_field f (nm_value (new_name data)))) (take 10 all_name_fields))
    = Inr (new_name data)"
proof -
  let ?v = "nm_value (new_name data)"
  have v: "0 \<le> ?v" "?v < 2 ^ 64"
    using le_decode_bound [of data] assms by (simp_all add: new_name_def)
  have "set_fields (map (\<lambda>f. (nf_name f, extract_field f ?v)) claim_fields) 0 = Inr ?v"
    by (subst set_fields_store) (simp_all add: all_name_fields_split store_extracted [OF v])
  moreover have "pack_q ?v = Inr data"
    using v le_encode_decode_n [OF assms] by (simp add: pack_q_def new_name_def)
  ultimately show ?thesis by (simp add: create_name_def claim_fields_def)
qed

theorem name_fields_roundtrip_witness:
  "create_name (map (\<lambda>f. (nf_name f, extract_field f (nm_value (new_name [1, 2, 3, 4, 5, 6, 7, 8]))))
      (take 10 all_name_fields)) = Inr (new_name [1, 2, 3, 4, 5, 6, 7, 8])"
  by (rule name_fields_roundtrip) simp

text \<open>C29. The NAME of an application after any commands: \<^verbatim>\<open>modify_parameters\<close> never raises, the value
  stays an unsigned 64-bit number that the bytes encode, and a field that is not one of the three instance
  fields reads as it did when the name was made, so neither the identity nor the manufacturer can change.\<close>

theorem application_name_type:
  assumes "''name_value'' \<notin> fst ` set kwargs"
  shows "\<exists>n. modify_all (new_mutable_name kwargs) pss = Inr n
    \<and> 0 \<le> nm_value n \<and> nm_value n < 2 ^ 64 \<and> name_value_of n = nm_value n
    \<and> nm_bytes n = le_encode 8 (nat (nm_value n))
    \<and> (\<forall>f \<in> set (take 10 all_name_fields).
         nf_name f \<notin> {''device_instance_lower'', ''device_instance_upper'', ''system_instance''} \<longrightarrow>
         name_attr n (nf_name f) = name_attr (new_mutable_name kwargs) (nf_name f))"
proof -
  obtain d0 where d0: "new_mutable_name kwargs = build_value d0"
    "application_name_ok d0 (new_mutable_name kwargs)"
    using new_mutable_name_ok [OF assms] by blast
  obtain n where n: "modify_all (new_mutable_name kwargs) pss = Inr n" "application_name_ok d0 n"
    using modify_all_ok [OF d0(2)] by blast
  obtain d where d: "n = build_value d" "dict_get d ''name_value'' = None"
    "\<forall>k. k \<notin> settable \<longrightarrow> dict_get d k = dict_get d0 k"
    using n(2) by (auto simp: application_name_ok_def)
  have "dict_get d0 ''name_value'' = None" using d(2,3) by (simp add: settable_def)
  with d d0(1) n(1) build_value_facts [of d] build_value_facts(5) [of d0] show ?thesis
    by (simp add: claim_fields_def settable_def)
qed

theorem application_name_type_witness:
  "\<exists>n. modify_all (new_mutable_name [(''identity_number'', 5), (''device_class'', 25)]) [[(3, 9), (8, 2)]] = Inr n
    \<and> 0 \<le> nm_value n \<and> nm_value n < 2 ^ 64 \<and> name_value_of n = nm_value n
    \<and> nm_bytes n = le_encode 8 (nat (nm_value n))
    \<and> (\<forall>f \<in> set (take 10 all_name_fields).
         nf_name f \<notin> {''device_instance_lower'', ''device_instance_upper'', ''system_instance''} \<longrightarrow>
         name_attr n (nf_name f)
           = name_attr (new_mutable_name [(''identity_number'', 5), (''device_class'', 25)]) (nf_name f))"
  by (rule application_name_type) simp

end
