(* ===== verification/IsoMessages.thy ===== *)
theory IsoMessages
  imports PgnCodec N2kMessage IsoName
begin

text \<open>
  The messages by which the nodes manage the bus: \<^verbatim>\<open>nmea2000/nmea2k_iso_messages.py\<close> (address claims, ISO
  requests, commanded addresses and the group functions of PGN 126208), the three generated classes
  of \<^verbatim>\<open>generated/nmea2000_classes_iso_gen.py\<close> (heartbeat, product and configuration information) and what
  they take from \<^verbatim>\<open>nmea2000_datamodel/generated_base.py\<close>. The parameter \<open>up\<close> is the set of printable code points
  of the Unicode database, which \<^verbatim>\<open>str.isprintable\<close> consults; a float that is not a number is \<open>None\<close>.
\<close>

section \<open>The struct module\<close>

fun unpack_fields :: "nat list \<Rightarrow> bytes \<Rightarrow> nat list" where
  "unpack_fields [] bs = []"
| "unpack_fields (n # ns) bs = le_decode (take n bs) # unpack_fields ns (drop n bs)"

definition unpack_from :: "nat list \<Rightarrow> bytes \<Rightarrow> nat \<Rightarrow> nat list result" where
  "unpack_from fmt buffer index =
     (if index + sum_list fmt \<le> length buffer then Inr (unpack_fields fmt (drop index buffer))
      else Inl StructError)"

fun pack_fields :: "(nat \<times> int) list \<Rightarrow> bytes result" where
  "pack_fields [] = Inr []"
| "pack_fields ((n, v) # fvs) =
     (if 0 \<le> v \<and> v < 256 ^ n then map_sum id ((@) (le_encode n (nat v))) (pack_fields fvs)
      else Inl StructError)"

definition pack_struct :: "(nat \<times> int) list \<Rightarrow> bytes \<Rightarrow> nat \<Rightarrow> bytes result" where
  "pack_struct fvs buffer index = bind_r (pack_fields fvs) (pack_into buffer index)"

section \<open>Strings and floats of the generated classes\<close>

definition rstrip :: "ustr \<Rightarrow> ustr" where
  "rstrip s = rev (dropWhile (\<lambda>c. c \<in> {64, 32, 0}) (rev s))"

text \<open>The text ends at the first \<^verbatim>\<open>0xFF\<close>, then at the first null; nothing before the end is an empty text.\<close>

definition clean_string :: "(nat \<Rightarrow> bool) \<Rightarrow> bytes \<Rightarrow> ustr" where
  "clean_string up b =
     (let b1 = takeWhile (\<lambda>x. x \<noteq> 0) (takeWhile (\<lambda>x. x \<noteq> 0xFF) b)
      in if b1 = [] then []
         else case utf8_decode b1 of
                Inl _ \<Rightarrow> []
              | Inr s \<Rightarrow> (let r = rstrip s in if list_all up r then r else []))"

definition gen_extract_var_str :: "(nat \<Rightarrow> bool) \<Rightarrow> bytes \<Rightarrow> nat \<Rightarrow> (ustr \<times> nat) result" where
  "gen_extract_var_str up payload start =
     bind_r (py_get payload (int start)) (\<lambda>t. let total = unat t in
     bind_r (py_get payload (int (start + 1))) (\<lambda>k.
       if k \<noteq> 1 then Inr ([], total)
       else if total = 2 then Inr ([], total)
       else Inr (clean_string up (py_slice payload (int (start + 2)) (int (start + total))), total)))"

definition set_item :: "bytes \<Rightarrow> nat \<Rightarrow> nat \<Rightarrow> bytes result" where
  "set_item buffer i v =
     (if length buffer \<le> i then Inl IndexError else bind_r (to_byte v) (\<lambda>b. Inr (buffer[i := b])))"

definition insert_var_str :: "bytes \<Rightarrow> nat \<Rightarrow> ustr \<Rightarrow> (bytes \<times> nat) result" where
  "insert_var_str payload start s =
     (let bs = utf8_encode s; str_len = length bs in
      bind_r (set_item payload start (str_len + 2)) (\<lambda>p1.
      bind_r (set_item p1 (start + 1) 1) (\<lambda>p2.
        Inr (if 0 < str_len then py_slice_assign p2 (int (start + 2)) (int (start + str_len + 2)) bs else p2,
             str_len + 2))))"

fun fill_ff :: "nat list \<Rightarrow> bytes \<Rightarrow> bytes result" where
  "fill_ff [] buffer = Inr buffer"
| "fill_ff (i # is) buffer = bind_r (set_item buffer i 0xFF) (fill_ff is)"

text \<open>The padding is counted in characters, the text in bytes.\<close>

definition insert_string :: "bytes \<Rightarrow> nat \<Rightarrow> nat \<Rightarrow> ustr \<Rightarrow> bytes result" where
  "insert_string buffer start len s =
     (let bs = (if len < length s then utf8_encode (take len s) else utf8_encode s);
          last_to_insert = start + length bs;
          b1 = py_slice_assign buffer (int start) (int last_to_insert) bs
      in if length s < len then fill_ff [last_to_insert..<start + len] b1 else Inr b1)"

definition check_convert_float :: "int \<Rightarrow> int \<Rightarrow> real \<Rightarrow> real \<Rightarrow> real option" where
  "check_convert_float val invalid_mask scale offset =
     (if val = - 1 \<or> val = invalid_mask then None else Some (of_int val * scale + offset))"

definition py_trunc :: "real \<Rightarrow> int" where
  "py_trunc x = (if 0 \<le> x then \<lfloor>x\<rfloor> else \<lceil>x\<rceil>)"

definition gen_convert_to_int :: "real option \<Rightarrow> int \<Rightarrow> real \<Rightarrow> real \<Rightarrow> int" where
  "gen_convert_to_int value invalid_mask scale offset =
     (case value of None \<Rightarrow> invalid_mask | Some v \<Rightarrow> py_trunc ((v - offset) / scale))"

section \<open>The generated classes\<close>

record decoded_header =
  dm_sa :: nat
  dm_da :: nat
  dm_timestamp :: real
  dm_priority :: nat

definition new_header :: "real \<Rightarrow> decoded_header" where
  "new_header now = \<lparr>dm_sa = 0, dm_da = 255, dm_timestamp = now, dm_priority = 7\<rparr>"

definition header_of :: "n2k_msg \<Rightarrow> decoded_header" where
  "header_of m = \<lparr>dm_sa = m_sa m, dm_da = m_da m, dm_timestamp = m_ts m, dm_priority = m_prio m\<rparr>"

definition set_sa :: "nat \<Rightarrow> decoded_header \<Rightarrow> decoded_header" where
  "set_sa sa h = h\<lparr>dm_sa := sa AND 0xFF\<rparr>"

definition decoded_message :: "real \<Rightarrow> nat \<Rightarrow> decoded_header \<Rightarrow> bytes result \<Rightarrow> n2k_msg result" where
  "decoded_message now pgn h payload =
     (case payload of
        Inl e \<Rightarrow> Inl (if e = StructError then NMEA2000EncodeDecodeError else e)
      | Inr p \<Rightarrow> new_n2k_msg now pgn (dm_priority h) (dm_sa h) (dm_da h) (Some p) (dm_timestamp h))"

record heartbeat =
  hb_interval :: "real option"
  hb_sequence :: int
  hb_ctrl1 :: int
  hb_ctrl2 :: int
  hb_status :: int

definition decode_heartbeat :: "bytes \<Rightarrow> heartbeat result" where
  "decode_heartbeat payload =
     bind_r (unpack_from [2, 1, 1, 4] payload 0) (\<lambda>val.
       Inr \<lparr>hb_interval = check_convert_float (int (val ! 0)) 0xFFFF (1 / 1000) 0,
            hb_sequence = int (val ! 1), hb_ctrl1 = int (val ! 2 AND 3),
            hb_ctrl2 = int (drop_bit 2 (val ! 2) AND 3), hb_status = int (drop_bit 4 (val ! 2) AND 3)\<rparr>)"

definition encode_heartbeat :: "heartbeat \<Rightarrow> bytes result" where
  "encode_heartbeat h =
     (let v0 = gen_convert_to_int (hb_interval h) 0xFFFF (1 / 1000) 0;
          v1 = (hb_ctrl1 h AND 3) OR push_bit 2 (hb_ctrl2 h AND 3) OR push_bit 4 (hb_status h AND 3)
                 OR push_bit 6 3
      in pack_struct [(2, v0), (1, hb_sequence h), (1, v1), (4, 0xFFFFFFFF)] (replicate 8 0) 0)"

record product_info =
  pi_nmea2000_version :: int
  pi_product_code :: int
  pi_model_id :: ustr
  pi_software_version :: ustr
  pi_model_version :: ustr
  pi_serial_code :: ustr
  pi_certification :: int
  pi_load :: int

definition decode_product :: "(nat \<Rightarrow> bool) \<Rightarrow> bytes \<Rightarrow> product_info result" where
  "decode_product up payload =
     (let text = (\<lambda>start. clean_string up (py_slice payload (int start) (int (start + 32)))) in
      bind_r (unpack_from [2, 2] payload 0) (\<lambda>v0.
      bind_r (unpack_from [1, 1] payload 132) (\<lambda>v1.
        Inr \<lparr>pi_nmea2000_version = int (v0 ! 0), pi_product_code = int (v0 ! 1), pi_model_id = text 4,
             pi_software_version = text 36, pi_model_version = text 68, pi_serial_code = text 100,
             pi_certification = int (v1 ! 0), pi_load = int (v1 ! 1)\<rparr>)))"

definition encode_product :: "product_info \<Rightarrow> bytes result" where
  "encode_product p =
     bind_r (pack_struct [(2, pi_nmea2000_version p), (2, pi_product_code p)] (replicate 134 0) 0) (\<lambda>b0.
     bind_r (insert_string b0 4 32 (pi_model_id p)) (\<lambda>b1.
     bind_r (insert_string b1 36 32 (pi_software_version p)) (\<lambda>b2.
     bind_r (insert_string b2 68 32 (pi_model_version p)) (\<lambda>b3.
     bind_r (insert_string b3 100 32 (pi_serial_code p)) (\<lambda>b4.
       pack_struct [(1, pi_certification p), (1, pi_load p)] b4 132)))))"

record config_info =
  ci_installation_1 :: ustr
  ci_installation_2 :: ustr
  ci_manufacturer_info :: ustr

definition decode_config :: "(nat \<Rightarrow> bool) \<Rightarrow> bytes \<Rightarrow> config_info result" where
  "decode_config up payload =
     bind_r (gen_extract_var_str up payload 0) (\<lambda>(s1, n1).
     bind_r (gen_extract_var_str up payload n1) (\<lambda>(s2, n2).
     bind_r (gen_extract_var_str up payload (n1 + n2)) (\<lambda>(s3, n3).
       Inr \<lparr>ci_installation_1 = s1, ci_installation_2 = s2, ci_manufacturer_info = s3\<rparr>)))"

definition encode_config :: "config_info \<Rightarrow> bytes result" where
  "encode_config c =
     bind_r (insert_var_str (replicate (31 * 7 + 6) 0) 0 (ci_installation_1 c)) (\<lambda>(b1, n1).
     bind_r (insert_var_str b1 n1 (ci_installation_2 c)) (\<lambda>(b2, n2).
     bind_r (insert_var_str b2 (n1 + n2) (ci_manufacturer_info c)) (\<lambda>(b3, n3).
       Inr (take (n1 + n2 + n3) b3))))"

section \<open>Decoded messages\<close>

text \<open>\<^verbatim>\<open>NMEA2000Msg.decode\<close>: \<open>None\<close> when there is no definition or the decoding fails. The second step
  is the \<^verbatim>\<open>msg.decode()['fields']\<close> of \<^verbatim>\<open>from_message\<close>.\<close>

definition msg_decode :: "item pgn_definitions \<Rightarrow> n2k_msg \<Rightarrow> field_dict option result" where
  "msg_decode ds m =
     (case pgn_definition ds (m_pgn m) 0 of
        Inl e \<Rightarrow> (if e = N2KUnknownPGN then Inr None else Inl e)
      | Inr None \<Rightarrow> Inl AttributeError
      | Inr (Some d) \<Rightarrow>
          (case decode_pgn_data d (m_payload m) of
             Inl e \<Rightarrow>
               (if e \<in> {N2KDecodeException, N2KDecodeEOLException, N2KMissingEnumKeyException}
                then Inr None else Inl e)
           | Inr flds \<Rightarrow> Inr (Some flds)))"

definition from_message :: "item pgn_definitions \<Rightarrow> nat \<Rightarrow> n2k_msg \<Rightarrow> field_dict result" where
  "from_message ds pgn m =
     (if pgn \<noteq> m_pgn m then Inl ValueError
      else bind_r (msg_decode ds m) (\<lambda>r. case r of None \<Rightarrow> Inl TypeError | Some flds \<Rightarrow> Inr flds))"

text \<open>The constructor of \<^verbatim>\<open>NMEA2000Object\<close> looks the definition up.\<close>

definition object_check :: "item pgn_definitions \<Rightarrow> nat \<Rightarrow> unit result" where
  "object_check ds pgn = map_sum id (\<lambda>_. ()) (pgn_definition ds pgn 0)"

text \<open>The definitions give the field of a name its class and the address its number.\<close>

definition get_name_field :: "field_dict \<Rightarrow> iso_name result" where
  "get_name_field flds =
     (case dict_get flds ''System ISO Name'' of
        None \<Rightarrow> Inl KeyError
      | Some (VName v) \<Rightarrow> Inr (new_name (le_encode 8 v))
      | Some _ \<Rightarrow> Inl NotModelled)"

definition get_int_field :: "string \<Rightarrow> field_dict \<Rightarrow> int result" where
  "get_int_field key flds =
     (case dict_get flds key of
        None \<Rightarrow> Inl KeyError
      | Some (VInt v) \<Rightarrow> Inr v
      | Some _ \<Rightarrow> Inl NotModelled)"

record address_claim =
  ac_sa :: nat
  ac_da :: nat
  ac_prio :: nat
  ac_name :: iso_name

definition new_address_claim :: "nat \<Rightarrow> iso_name \<Rightarrow> nat \<Rightarrow> address_claim" where
  "new_address_claim sa name da = \<lparr>ac_sa = sa, ac_da = da, ac_prio = 6, ac_name = name\<rparr>"

definition claim_of_message :: "item pgn_definitions \<Rightarrow> n2k_msg \<Rightarrow> address_claim result" where
  "claim_of_message ds m =
     bind_r (object_check ds 60928) (\<lambda>_.
     bind_r (from_message ds 60928 m) (\<lambda>flds.
     bind_r (get_name_field flds) (\<lambda>name.
       Inr \<lparr>ac_sa = m_sa m, ac_da = m_da m, ac_prio = 7, ac_name = name\<rparr>)))"

definition claim_message :: "real \<Rightarrow> address_claim \<Rightarrow> n2k_msg result" where
  "claim_message now c = new_n2k_msg now 60928 (ac_prio c) (ac_sa c) (ac_da c) (Some (nm_bytes (ac_name c))) 0"

record iso_request =
  ir_sa :: nat
  ir_da :: nat
  ir_pgn :: int

definition new_iso_request :: "nat \<Rightarrow> nat \<Rightarrow> int \<Rightarrow> iso_request" where
  "new_iso_request sa da request_pgn = \<lparr>ir_sa = sa, ir_da = da, ir_pgn = request_pgn\<rparr>"

definition iso_request_payload :: "iso_request \<Rightarrow> bytes" where
  "iso_request_payload r =
     [of_int (ir_pgn r AND 0xFF), of_int (drop_bit 8 (ir_pgn r) AND 0xFF),
      of_int (drop_bit 16 (ir_pgn r) AND 0xFF)]"

definition iso_request_message :: "real \<Rightarrow> iso_request \<Rightarrow> n2k_msg result" where
  "iso_request_message now r = new_n2k_msg now 59904 7 (ir_sa r) (ir_da r) (Some (iso_request_payload r)) 0"

text \<open>A request without the field keeps the default PGN of the constructor.\<close>

definition iso_request_of_message :: "item pgn_definitions \<Rightarrow> n2k_msg \<Rightarrow> iso_request result" where
  "iso_request_of_message ds m =
     bind_r (object_check ds 59904) (\<lambda>_.
     bind_r (from_message ds 59904 m) (\<lambda>flds.
     bind_r (case get_int_field ''PGN'' flds of
               Inl e \<Rightarrow> (if e = KeyError then Inr 60928 else Inl e) | Inr v \<Rightarrow> Inr v) (\<lambda>pgn.
       Inr \<lparr>ir_sa = m_sa m, ir_da = m_da m, ir_pgn = pgn\<rparr>)))"

definition commanded_of_message :: "item pgn_definitions \<Rightarrow> n2k_msg \<Rightarrow> (iso_name \<times> int) result" where
  "commanded_of_message ds m =
     bind_r (object_check ds 65240) (\<lambda>_.
     bind_r (from_message ds 65240 m) (\<lambda>flds.
     bind_r (get_name_field flds) (\<lambda>name.
     bind_r (get_int_field ''New Source Address'' flds) (\<lambda>address. Inr (name, address)))))"

section \<open>Group functions\<close>

text \<open>\<^verbatim>\<open>AddressClaim.decode_parameter\<close>: the value and the index after it. The parameter 11 is the whole name,
  whose 8 bytes are refused.\<close>

definition decode_parameter :: "nat \<Rightarrow> bytes \<Rightarrow> nat \<Rightarrow> (nat \<times> nat) result" where
  "decode_parameter param_number buffer index =
     bind_r (get_field_property param_number) (\<lambda>(param_len, _).
     bind_r (if param_len = 1 then map_sum id unat (py_get buffer (int index))
             else if param_len = 2 then map_sum id (\<lambda>v. v ! 0) (unpack_from [2] buffer index)
             else if param_len = 3 then
               map_sum id (\<lambda>v. v ! 0 + push_bit 16 (v ! 1)) (unpack_from [2, 1] buffer index)
             else Inl ValueError) (\<lambda>value. Inr (value, index + param_len)))"

fun decode_claim_params :: "nat \<Rightarrow> bytes \<Rightarrow> nat \<Rightarrow> (nat \<times> int) list result" where
  "decode_claim_params 0 buffer index = Inr []"
| "decode_claim_params (Suc n) buffer index =
     bind_r (py_get buffer (int index)) (\<lambda>b.
       let param_num = unat b in
       if param_num < 1 \<or> length all_name_fields < param_num then Inr []
       else case decode_parameter param_num buffer (index + 1) of
              Inl e \<Rightarrow> (if e = ValueError then Inr [] else Inl e)
            | Inr (value, index1) \<Rightarrow>
                map_sum id ((#) (param_num, int value)) (decode_claim_params n buffer index1))"

fun decode_config_params :: "(nat \<Rightarrow> bool) \<Rightarrow> nat \<Rightarrow> bytes \<Rightarrow> nat \<Rightarrow> (nat \<times> ustr) list result" where
  "decode_config_params up 0 buffer index = Inr []"
| "decode_config_params up (Suc n) buffer index =
     bind_r (py_get buffer (int index)) (\<lambda>b.
       let param_num = unat b in
       if param_num = 1 \<or> param_num = 2 then
         bind_r (gen_extract_var_str up buffer (index + 1)) (\<lambda>(s, param_len).
           map_sum id ((#) (param_num, s)) (decode_config_params up n buffer (index + 1 + param_len)))
       else decode_config_params up n buffer (index + 1))"

datatype pgn_class = ClaimClass | ProductClass | ConfigClass

definition pgn_function_table :: "(nat, pgn_class) dict" where
  "pgn_function_table = [(60928, ClaimClass), (126996, ProductClass), (126998, ConfigClass)]"

datatype command_params = ClaimParams "(nat \<times> int) list" | ConfigParams "(nat \<times> ustr) list"

record group_header =
  gh_sa :: nat
  gh_function :: nat
  gh_function_pgn :: nat
  gh_class :: "pgn_class option"

datatype group_function =
    RequestGF group_header
  | CommandGF group_header nat "command_params option"
  | ReadFieldsGF group_header
  | WriteFieldsGF group_header

fun gf_header :: "group_function \<Rightarrow> group_header" where
  "gf_header (RequestGF h) = h"
| "gf_header (CommandGF h _ _) = h"
| "gf_header (ReadFieldsGF h) = h"
| "gf_header (WriteFieldsGF h) = h"

definition group_header_of :: "item pgn_definitions \<Rightarrow> n2k_msg \<Rightarrow> group_header result" where
  "group_header_of ds m =
     bind_r (object_check ds 126208) (\<lambda>_.
     bind_r (unpack_from [1, 2, 1] (m_payload m) 0) (\<lambda>v.
       let pgn = v ! 1 + push_bit 16 (v ! 2)
       in Inr \<lparr>gh_sa = m_sa m, gh_function = v ! 0, gh_function_pgn = pgn,
               gh_class = dict_get pgn_function_table pgn\<rparr>))"

definition command_parameters ::
    "(nat \<Rightarrow> bool) \<Rightarrow> pgn_class option \<Rightarrow> nat \<Rightarrow> bytes \<Rightarrow> command_params option result" where
  "command_parameters up c nb_param payload =
     (case c of
        None \<Rightarrow> Inr None
      | Some ClaimClass \<Rightarrow> map_sum id (Some \<circ> ClaimParams) (decode_claim_params nb_param payload 6)
      | Some ProductClass \<Rightarrow> Inl AttributeError
      | Some ConfigClass \<Rightarrow> map_sum id (Some \<circ> ConfigParams) (decode_config_params up nb_param payload 6))"

text \<open>The constructor of an incoming acknowledgement subscripts the message instead of its payload.\<close>

definition create_group_function ::
    "(nat \<Rightarrow> bool) \<Rightarrow> item pgn_definitions \<Rightarrow> n2k_msg \<Rightarrow> group_function result" where
  "create_group_function up ds m =
     bind_r (py_get (m_payload m) 0) (\<lambda>function.
       if unat function \<notin> {0, 1, 2, 3, 5} then Inl KeyError
       else bind_r (group_header_of ds m) (\<lambda>h.
         if unat function = 0 then Inr (RequestGF h)
         else if unat function = 1 then
           bind_r (unpack_from [1, 1] (m_payload m) 4) (\<lambda>v.
           bind_r (command_parameters up (gh_class h) (v ! 1) (m_payload m)) (\<lambda>params.
             Inr (CommandGF h (v ! 0 AND 0xF) params)))
         else if unat function = 2 then
           bind_r (unpack_from [1, 1] (m_payload m) 4) (\<lambda>v. Inl TypeError)
         else if unat function = 3 then Inr (ReadFieldsGF h)
         else Inr (WriteFieldsGF h)))"

record acknowledge =
  ak_sa :: nat
  ak_da :: nat
  ak_function_pgn :: nat
  ak_pgn_error :: nat
  ak_transmission_error :: nat
  ak_nb_param :: nat
  ak_params :: "nat list"

definition new_acknowledge :: "item pgn_definitions \<Rightarrow> nat \<Rightarrow> nat \<Rightarrow> acknowledge result" where
  "new_acknowledge ds pgn pgn_error_code =
     bind_r (object_check ds 126208) (\<lambda>_.
       if 0 < pgn then
         Inr \<lparr>ak_sa = 0, ak_da = 255, ak_function_pgn = pgn, ak_pgn_error = pgn_error_code,
              ak_transmission_error = 0, ak_nb_param = 0, ak_params = []\<rparr>
       else Inl ValueError)"

definition add_parameter :: "nat \<Rightarrow> acknowledge \<Rightarrow> acknowledge" where
  "add_parameter value a = a\<lparr>ak_nb_param := ak_nb_param a + 1, ak_params := ak_params a @ [value]\<rparr>"

text \<open>\<^verbatim>\<open>pack_params\<close> from parameter \<open>p_idx\<close> on; a byte is stored with every second parameter.\<close>

fun pack_loop :: "nat list \<Rightarrow> nat \<Rightarrow> nat \<Rightarrow> bytes \<Rightarrow> nat \<Rightarrow> bytes result" where
  "pack_loop [] p_idx v buffer index = Inr buffer"
| "pack_loop (p # ps) p_idx v buffer index =
     (if p_idx mod 2 = 0 then pack_loop ps (p_idx + 1) (push_bit 4 p) buffer index
      else bind_r (set_item buffer index (v OR p)) (\<lambda>b.
             pack_loop ps (p_idx + 1) (v OR p) b (index + 1)))"

definition pack_params :: "acknowledge \<Rightarrow> bytes \<Rightarrow> nat \<Rightarrow> bytes result" where
  "pack_params a buffer index =
     (if length (ak_params a) < ak_nb_param a then Inl IndexError
      else pack_loop (take (ak_nb_param a) (ak_params a)) 0 0 buffer index)"

fun unpack_loop :: "nat \<Rightarrow> nat \<Rightarrow> bytes \<Rightarrow> nat \<Rightarrow> nat list result" where
  "unpack_loop 0 p_idx buffer b_idx = Inr []"
| "unpack_loop (Suc n) p_idx buffer b_idx =
     bind_r (py_get buffer (int b_idx)) (\<lambda>b.
       if p_idx mod 2 = 0 then map_sum id ((#) (drop_bit 4 (unat b) AND 0xF)) (unpack_loop n (p_idx + 1) buffer b_idx)
       else map_sum id ((#) (unat b AND 0xF)) (unpack_loop n (p_idx + 1) buffer (b_idx + 1)))"

definition unpack_params :: "nat \<Rightarrow> bytes \<Rightarrow> nat list result" where
  "unpack_params nb_param buffer = unpack_loop nb_param 0 buffer 0"

definition acknowledge_payload :: "acknowledge \<Rightarrow> bytes result" where
  "acknowledge_payload a =
     (let param_size = ak_nb_param a div 2 + ak_nb_param a mod 2;
          pgn_l = ak_function_pgn a AND 0xFFFF;
          pgn_h = drop_bit 16 (ak_function_pgn a) AND 0xFF;
          err_code = push_bit 4 (ak_pgn_error a) OR ak_transmission_error a
      in bind_r (pack_struct [(1, 2), (2, int pgn_l), (1, int pgn_h), (1, int err_code), (1, int (ak_nb_param a))]
                   (replicate (6 + param_size) 0) 0) (\<lambda>buffer. pack_params a buffer 6))"

definition acknowledge_message :: "real \<Rightarrow> acknowledge \<Rightarrow> n2k_msg result" where
  "acknowledge_message now a =
     bind_r (acknowledge_payload a) (\<lambda>p. new_n2k_msg now 126208 3 (ak_sa a) (ak_da a) (Some p) 0)"

text \<open>\<^verbatim>\<open>execute_command_parameters\<close> of the two classes that have it.\<close>

definition execute_claim_params ::
    "iso_name \<Rightarrow> (nat \<times> int) list \<Rightarrow> acknowledge \<Rightarrow> (iso_name \<times> acknowledge) result" where
  "execute_claim_params name params a =
     map_sum id (\<lambda>(n, res). (n, foldl (\<lambda>a r. add_parameter r a) a res)) (modify_parameters name params)"

fun execute_config_params :: "config_info \<Rightarrow> (nat \<times> ustr) list \<Rightarrow> acknowledge \<Rightarrow> config_info \<times> acknowledge" where
  "execute_config_params c [] a = (c, a)"
| "execute_config_params c ((num, s) # params) a =
     (if num = 1 then execute_config_params (c\<lparr>ci_installation_1 := s\<rparr>) params (add_parameter 0 a)
      else if num = 2 then execute_config_params (c\<lparr>ci_installation_2 := s\<rparr>) params (add_parameter 0 a)
      else execute_config_params c params (add_parameter 1 a))"

section \<open>Lemmas on acknowledgements\<close>

text \<open>Two results per byte; the last of an odd number has no byte.\<close>

fun result_pairs :: "nat list \<Rightarrow> bytes" where
  "result_pairs [] = []"
| "result_pairs [a] = []"
| "result_pairs (a # b # ps) = of_nat (16 * a + b) # result_pairs ps"

lemma length_result_pairs [simp]: "length (result_pairs ps) = length ps div 2"
  by (induction ps rule: result_pairs.induct) auto

lemma nibbles:
  assumes "(a :: nat) < 16" "b < 16"
  shows "push_bit 4 a OR b = 16 * a + b" "16 * a + b < 256"
    "drop_bit 4 (16 * a + b) AND 0xF = a" "(16 * a + b) AND 0xF = b"
proof -
  have "b OR push_bit 4 a = b + 2 ^ 4 * a" using assms by (intro or_push_bit) simp
  then show "push_bit 4 a OR b = 16 * a + b" by (simp add: or.commute)
  show "16 * a + b < 256" using assms by simp
  have m: "(n :: nat) AND 0xF = n mod 16" for n
    using and_mask_mod [of n 4] by (simp add: mask_eq_exp_minus_1)
  show "drop_bit 4 (16 * a + b) AND 0xF = a" "(16 * a + b) AND 0xF = b"
    using assms by (simp_all add: m drop_bit_eq_div)
qed

lemma pack_loop_pairs:
  assumes "even p_idx" "i + length ps div 2 \<le> length buffer" "\<forall>p \<in> set ps. p < 16"
  shows "pack_loop ps p_idx v buffer i
    = Inr (take i buffer @ result_pairs ps @ drop (i + length ps div 2) buffer)"
  using assms
proof (induction ps arbitrary: p_idx v buffer i rule: result_pairs.induct)
  case (3 a b ps)
  then have i: "i < length buffer" by simp
  let ?x = "of_nat (16 * a + b) :: byte"
  have "pack_loop (a # b # ps) p_idx v buffer i
      = pack_loop ps (Suc (Suc p_idx)) (16 * a + b) (buffer[i := ?x]) (Suc i)"
  proof -
    have "Suc p_idx mod 2 \<noteq> 0" "p_idx mod 2 = 0" using 3(2) by presburger+
    with 3(4) i nibbles [of a b] show ?thesis by (simp add: set_item_def to_byte_def)
  qed
  also have "\<dots> = Inr (take (Suc i) (buffer[i := ?x]) @ result_pairs ps
      @ drop (Suc i + length ps div 2) (buffer[i := ?x]))"
    using 3(2-4) by (intro "3.IH") auto
  also have "take (Suc i) (buffer[i := ?x]) = take i buffer @ [?x]"
    using i by (simp add: take_Suc_conv_app_nth)
  finally show ?case by simp
qed auto

lemma unpack_loop_pairs:
  assumes "even p_idx" "\<forall>p \<in> set ps. p < 16"
    "drop b_idx buffer = result_pairs ps @ replicate (length ps mod 2) 0"
  shows "unpack_loop (length ps) p_idx buffer b_idx
    = Inr (if even (length ps) then ps else butlast ps @ [0])"
  using assms
proof (induction ps arbitrary: p_idx b_idx rule: result_pairs.induct)
  case (3 a b ps)
  let ?x = "of_nat (16 * a + b) :: byte"
  have d: "drop b_idx buffer = ?x # result_pairs ps @ replicate (length ps mod 2) 0" using 3(4) by simp
  then have i: "b_idx < length buffer" "buffer ! b_idx = ?x"
    by (metis drop_all list.distinct(1) not_less, metis hd_drop_conv_nth list.sel(1) drop_all list.distinct(1) not_less)
  have "drop (Suc b_idx) buffer = result_pairs ps @ replicate (length ps mod 2) 0"
    using d by (metis drop_Suc list.sel(3) tl_drop)
  then have "unpack_loop (length ps) (Suc (Suc p_idx)) buffer (Suc b_idx)
      = Inr (if even (length ps) then ps else butlast ps @ [0])"
    using 3(2,3) by (intro "3.IH") auto
  moreover have "ps \<noteq> []" if "odd (length ps)" using that by auto
  moreover have "unat ?x = 16 * a + b" using 3(3) nibbles(2) [of a b] by (subst unat_of_nat_byte) simp_all
  moreover have "Suc p_idx mod 2 \<noteq> 0" "p_idx mod 2 = 0" using 3(2) by presburger+
  ultimately show ?case using 3(2,3) i nibbles(3,4) [of a b] by simp
next
  case (2 p)
  then have d: "drop b_idx buffer = [0]" by simp
  then have "b_idx < length buffer" "buffer ! b_idx = 0"
    by (metis drop_all list.distinct(1) not_less, metis hd_drop_conv_nth list.sel(1) drop_all list.distinct(1) not_less)
  then show ?case using 2(1) by simp
qed simp

section \<open>Properties\<close>

text \<open>The results of a command, as they travel in its acknowledgement: the receiver reads back an even
  number of results as they were, and the last of an odd number as 0, which means accepted, whatever it was.\<close>

theorem acknowledge_results:
  assumes "ak_nb_param a = length (ak_params a)" "length (ak_params a) < 256"
    and "\<forall>p \<in> set (ak_params a). p < 16" "ak_pgn_error a < 16" "ak_transmission_error a < 16"
  shows "\<exists>payload. acknowledge_payload a = Inr payload
    \<and> unpack_params (length (ak_params a)) (drop 6 payload)
        = Inr (if even (length (ak_params a)) then ak_params a else butlast (ak_params a) @ [0])"
proof -
  let ?ps = "ak_params a" and ?n = "length (ak_params a) div 2 + length (ak_params a) mod 2"
  let ?fvs = "[(1, 2), (2, int (ak_function_pgn a AND 0xFFFF)), (1, int (drop_bit 16 (ak_function_pgn a) AND 0xFF)),
      (1, int (push_bit 4 (ak_pgn_error a) OR ak_transmission_error a)), (1, int (length ?ps))]"
  obtain h where h: "pack_fields ?fvs = Inr h" "length h = 6"
    using assms(2) nibbles(1,2) [OF assms(4,5)] by simp
  have b: "pack_struct ?fvs (replicate (6 + ?n) 0) 0 = Inr (h @ replicate ?n 0)"
    using h by (simp add: pack_struct_def pack_into_def)
  have "pack_params a (h @ replicate ?n 0) 6
      = Inr (h @ result_pairs ?ps @ replicate (length ?ps mod 2) 0)"
    using pack_loop_pairs [of 0 6 ?ps "h @ replicate ?n 0"] assms(1,3) h(2) by (simp add: pack_params_def)
  with b assms(1) have "acknowledge_payload a = Inr (h @ result_pairs ?ps @ replicate (length ?ps mod 2) 0)"
    by (simp add: acknowledge_payload_def Let_def)
  moreover have "unpack_params (length ?ps) (result_pairs ?ps @ replicate (length ?ps mod 2) 0)
      = Inr (if even (length ?ps) then ?ps else butlast ?ps @ [0])"
    unfolding unpack_params_def using assms(3) by (intro unpack_loop_pairs) simp_all
  ultimately show ?thesis using h(2) by simp
qed

definition sample_acknowledge :: acknowledge where
  "sample_acknowledge =
     \<lparr>ak_sa = 10, ak_da = 20, ak_function_pgn = 60928, ak_pgn_error = 0, ak_transmission_error = 0,
      ak_nb_param = 3, ak_params = [0, 1, 3]\<rparr>"

theorem acknowledge_results_witness:
  "\<exists>payload. acknowledge_payload sample_acknowledge = Inr payload
    \<and> unpack_params 3 (drop 6 payload) = Inr [0, 1, 0]"
  using acknowledge_results [of sample_acknowledge] by (simp add: sample_acknowledge_def numeral_3_eq_3)

end
