(* ===== verification/Devices.thy ===== *)
theory Devices
  imports IsoMessages Queues
begin

text \<open>
  What the controller knows of the bus: \<^verbatim>\<open>nmea2000_datamodel/nmea2k_manufacturers.py\<close> (\<open>manufacturers\<close>),
  \<^verbatim>\<open>nmea2000/nmea2k_device.py\<close> (\<open>device\<close>, the view of one remote node) and \<^verbatim>\<open>nmea2000/nmea2k_controller.py\<close>
  (\<open>controller\<close>, the table of the devices by address with the lock that guards it). The lock is not
  reentrant: an operation that finds it held waits for ever, which is the outcome \<open>Blocked\<close>. An entry of
  the table is a proxy or a local application (\<open>Local\<close> of its identifier); what the latter does with a
  message is an argument \<open>recv\<close> of the controller's operations.
\<close>

section \<open>Manufacturers\<close>

record manufacturer =
  mf_name :: string
  mf_code :: int
  mf_key :: string

record manufacturers =
  mf_by_code :: "(int, manufacturer) dict"
  mf_by_key :: "(string, manufacturer) dict"

text \<open>\<^verbatim>\<open>name.find(sep)\<close>; a separator in first position is not taken.\<close>

definition find_char :: "char \<Rightarrow> string \<Rightarrow> nat option" where
  "find_char c s = (if c \<in> set s then Some (length (takeWhile (\<lambda>x. x \<noteq> c) s)) else None)"

definition manufacturer_key :: "string \<Rightarrow> string option \<Rightarrow> string" where
  "manufacturer_key name key =
     (case key of
        Some k \<Rightarrow> k
      | None \<Rightarrow>
          let found = (\<lambda>c. case find_char c name of Some i \<Rightarrow> i | None \<Rightarrow> 0) in
          if 0 < found CHR '','' then take (found CHR '','') name
          else if 0 < found CHR '' '' then take (found CHR '' '') name
          else name)"

definition load_manufacturers :: "(string \<times> int \<times> string option) list \<Rightarrow> manufacturers" where
  "load_manufacturers defs =
     foldl (\<lambda>t (name, code, key).
        let m = \<lparr>mf_name = name, mf_code = code, mf_key = manufacturer_key name key\<rparr>
        in \<lparr>mf_by_code = dict_set code m (mf_by_code t), mf_by_key = dict_set (mf_key m) m (mf_by_key t)\<rparr>)
       \<lparr>mf_by_code = [], mf_by_key = []\<rparr> defs"

text \<open>\<^verbatim>\<open>by_code(code).name\<close>: for code 0 \<^verbatim>\<open>by_code\<close> returns a text, which has no attribute \<^verbatim>\<open>name\<close>.\<close>

definition manufacturer_name :: "manufacturers \<Rightarrow> int \<Rightarrow> string result" where
  "manufacturer_name t code =
     (if code = 0 then Inl AttributeError
      else case dict_get (mf_by_code t) code of Some m \<Rightarrow> Inr (mf_name m) | None \<Rightarrow> Inl KeyError)"

section \<open>Devices\<close>

text \<open>The global tables the handlers use (\<^verbatim>\<open>MessageServerGlobals\<close>), and the printable code points.\<close>

record globals =
  gl_defs :: "item pgn_definitions"
  gl_mfgs :: manufacturers
  gl_printable :: "nat \<Rightarrow> bool"

record device =
  dv_address :: nat
  dv_last :: real
  dv_pgns :: "(nat, nat) dict"
  dv_product :: "(decoded_header \<times> product_info) option"
  dv_config :: "(decoded_header \<times> config_info) option"
  dv_heartbeat :: "(decoded_header \<times> heartbeat) option"
  dv_name :: "iso_name option"
  dv_manufacturer :: "string option"
  dv_changed :: bool
  dv_info_sent :: bool

definition new_device :: "nat \<Rightarrow> iso_name option \<Rightarrow> device" where
  "new_device address name =
     \<lparr>dv_address = address, dv_last = 0, dv_pgns = [], dv_product = None, dv_config = None,
      dv_heartbeat = None, dv_name = name, dv_manufacturer = None, dv_changed = True, dv_info_sent = False\<rparr>"

text \<open>A PGN seen for the first time must have a definition (\<^verbatim>\<open>PgnRecord\<close>).\<close>

definition add_pgn_count :: "globals \<Rightarrow> nat \<Rightarrow> 'a device_scheme \<Rightarrow> 'a device_scheme result" where
  "add_pgn_count g pgn d =
     (case dict_get (dv_pgns d) pgn of
        Some n \<Rightarrow> Inr (d\<lparr>dv_pgns := dict_set pgn (n + 1) (dv_pgns d)\<rparr>)
      | None \<Rightarrow> bind_r (object_check (gl_defs g) pgn) (\<lambda>_. Inr (d\<lparr>dv_pgns := dict_set pgn 1 (dv_pgns d)\<rparr>)))"

definition p60928 :: "globals \<Rightarrow> n2k_msg \<Rightarrow> 'a device_scheme \<Rightarrow> 'a device_scheme \<times> unit result" where
  "p60928 g m d =
     (case claim_of_message (gl_defs g) m of
        Inl e \<Rightarrow> (d, Inl e)
      | Inr c \<Rightarrow>
          if (case dv_name d of None \<Rightarrow> True | Some n \<Rightarrow> \<not> names_equal n (ac_name c)) then
            let d1 = d\<lparr>dv_changed := True, dv_name := Some (ac_name c)\<rparr> in
            case name_attr (ac_name c) ''manufacturer_code'' of
              Inl e \<Rightarrow> (d1, Inl e)
            | Inr code \<Rightarrow>
                (case manufacturer_name (gl_mfgs g) code of
                   Inr name \<Rightarrow> (d1\<lparr>dv_manufacturer := Some name\<rparr>, Inr ())
                 | Inl e \<Rightarrow>
                     if e = KeyError
                     then (d1\<lparr>dv_manufacturer := Some (''Manufacturer#'' @ dec_string (nat code))\<rparr>, Inr ())
                     else (d1, Inl e))
          else (d, Inr ()))"

definition p126993 :: "n2k_msg \<Rightarrow> 'a device_scheme \<Rightarrow> 'a device_scheme \<times> unit result" where
  "p126993 m d =
     (case decode_heartbeat (m_payload m) of
        Inl e \<Rightarrow> (d, Inl e)
      | Inr h \<Rightarrow> (d\<lparr>dv_heartbeat := Some (header_of m, h)\<rparr>, Inr ()))"

definition info_header :: "n2k_msg \<Rightarrow> decoded_header" where
  "info_header m = (header_of m)\<lparr>dm_da := 255, dm_priority := 6\<rparr>"

definition p126996 :: "globals \<Rightarrow> n2k_msg \<Rightarrow> 'a device_scheme \<Rightarrow> 'a device_scheme \<times> unit result" where
  "p126996 g m d =
     (if dv_product d = None then
        let d1 = d\<lparr>dv_changed := True\<rparr> in
        case decode_product (gl_printable g) (m_payload m) of
          Inl e \<Rightarrow> (d1, Inl e)
        | Inr p \<Rightarrow> (d1\<lparr>dv_product := Some (info_header m, p)\<rparr>, Inr ())
      else (d, Inr ()))"

definition p126998 :: "globals \<Rightarrow> n2k_msg \<Rightarrow> 'a device_scheme \<Rightarrow> 'a device_scheme \<times> unit result" where
  "p126998 g m d =
     (case decode_config (gl_printable g) (m_payload m) of
        Inl e \<Rightarrow> (d, Inl e)
      | Inr c \<Rightarrow> (d\<lparr>dv_config := Some (info_header m, c)\<rparr>, Inr ()))"

text \<open>\<^verbatim>\<open>_process_vector\<close> of a proxy; a PGN without handler is the KeyError of the lookup.\<close>

definition process_vector :: "globals \<Rightarrow> n2k_msg \<Rightarrow> 'a device_scheme \<Rightarrow> 'a device_scheme \<times> unit result" where
  "process_vector g m d =
     (if m_pgn m = 60928 then p60928 g m d
      else if m_pgn m = 126993 then p126993 m d
      else if m_pgn m = 126996 then p126996 g m d
      else if m_pgn m = 126998 then p126998 g m d
      else (d, Inl KeyError))"

text \<open>\<^verbatim>\<open>receive_msg\<close>: the KeyError of the lookup, and any KeyError of the handler, are swallowed.\<close>

definition ignore_key_error :: "unit result \<Rightarrow> unit result" where
  "ignore_key_error r = (if r = Inl KeyError then Inr () else r)"

definition receive_msg :: "globals \<Rightarrow> real \<Rightarrow> n2k_msg \<Rightarrow> device \<Rightarrow> device \<times> unit result" where
  "receive_msg g now m d =
     (let d1 = d\<lparr>dv_last := now\<rparr> in
      case add_pgn_count g (m_pgn m) d1 of
        Inl e \<Rightarrow> (d1, if e = N2KUnknownPGN then Inr () else Inl e)
      | Inr d2 \<Rightarrow> (case process_vector g m d2 of (d3, r) \<Rightarrow> (d3, ignore_key_error r)))"

section \<open>The controller\<close>

datatype dev_ref = Proxy device | Local nat

datatype 'a run = Done 'a | Blocked

record controller =
  ct_devices :: "(nat, dev_ref) dict"
  ct_lock :: bool
  ct_queue :: "n2k_msg bqueue"
  ct_alive :: bool
  ct_stop :: bool
  ct_max_silent :: real
  ct_subscribers :: "(nat, n2k_msg \<Rightarrow> unit result) dict"

definition new_controller :: "nat \<Rightarrow> nat \<Rightarrow> real \<Rightarrow> controller" where
  "new_controller queue_size min_queue_size max_silent =
     \<lparr>ct_devices = [], ct_lock = False, ct_queue = new_queue (max queue_size min_queue_size),
      ct_alive = False, ct_stop = False, ct_max_silent = max_silent, ct_subscribers = []\<rparr>"

definition network_addresses :: "'a controller_scheme \<Rightarrow> nat list" where
  "network_addresses c = dict_keys (ct_devices c)"

definition delete_device :: "nat \<Rightarrow> 'a controller_scheme \<Rightarrow> 'a controller_scheme \<times> unit result" where
  "delete_device address c =
     (case dict_get (ct_devices c) address of
        None \<Rightarrow> (c, Inl KeyError)
      | Some _ \<Rightarrow> (c\<lparr>ct_devices := dict_del address (ct_devices c)\<rparr>, Inr ()))"

definition send_message :: "n2k_msg \<Rightarrow> 'a controller_scheme \<Rightarrow> 'a controller_scheme" where
  "send_message m c =
     (if \<not> ct_alive c then c
      else case q_put m (ct_queue c) of Inl _ \<Rightarrow> c | Inr q \<Rightarrow> c\<lparr>ct_queue := q\<rparr>)"

definition check_device :: "nat \<Rightarrow> 'a controller_scheme \<Rightarrow> 'a controller_scheme \<times> dev_ref" where
  "check_device address c =
     (case dict_get (ct_devices c) address of
        Some dev \<Rightarrow> (c, dev)
      | None \<Rightarrow>
          let dev = Proxy (new_device address None)
          in (c\<lparr>ct_devices := dict_set address dev (ct_devices c)\<rparr>, dev))"

definition call_subscribers :: "n2k_msg \<Rightarrow> 'a controller_scheme \<Rightarrow> unit result" where
  "call_subscribers m c =
     (case dict_get (ct_subscribers c) (m_pgn m) of None \<Rightarrow> Inr () | Some function \<Rightarrow> function m)"

text \<open>An exception between \<^verbatim>\<open>acquire\<close> and \<^verbatim>\<open>release\<close> leaves the lock held.\<close>

definition controller_process_msg ::
    "globals \<Rightarrow> (nat \<Rightarrow> n2k_msg \<Rightarrow> 'a controller_scheme \<Rightarrow> 'a controller_scheme \<times> unit result) \<Rightarrow> real
     \<Rightarrow> n2k_msg \<Rightarrow> 'a controller_scheme \<Rightarrow> ('a controller_scheme \<times> unit result) run" where
  "controller_process_msg g recv now m c =
     (if 254 \<le> m_sa m then Done (c, Inr ())
      else if ct_lock c then Blocked
      else
        let (c1, dev) = check_device (m_sa m) (c\<lparr>ct_lock := True\<rparr>);
            (c2, r) =
              (case dev of
                 Proxy d \<Rightarrow>
                   (case receive_msg g now m d of
                      (d1, r) \<Rightarrow> (c1\<lparr>ct_devices := dict_set (m_sa m) (Proxy d1) (ct_devices c1)\<rparr>, r))
               | Local a \<Rightarrow> recv a m c1)
        in case r of
             Inl e \<Rightarrow> Done (c2, Inl e)
           | Inr _ \<Rightarrow>
               (case call_subscribers m c2 of
                  Inl e \<Rightarrow> Done (c2, Inl e)
                | Inr _ \<Rightarrow> Done (c2\<lparr>ct_lock := False\<rparr>, Inr ())))"

text \<open>\<^verbatim>\<open>nrun\<close> on the messages it takes from its queue, each with the time: an exception is logged. The last
  component says whether the thread still runs.\<close>

fun controller_run ::
    "(real \<Rightarrow> n2k_msg \<Rightarrow> 's \<Rightarrow> ('s \<times> unit result) run) \<Rightarrow> 's \<Rightarrow> (real \<times> n2k_msg) list \<Rightarrow> 's \<times> nat \<times> bool" where
  "controller_run process c [] = (c, 0, True)"
| "controller_run process c ((now, m) # ms) =
     (case process now m c of
        Blocked \<Rightarrow> (c, 0, False)
      | Done (c1, _) \<Rightarrow> (case controller_run process c1 ms of (c2, n, alive) \<Rightarrow> (c2, n + 1, alive)))"

text \<open>The generator over the devices sorted by address holds the lock until it is drawn to its end;
  \<open>drawn\<close> is the number of devices after which the consumer stops, if it does. Two entries never have
  the same address, so that the order of the addresses decides.\<close>

definition get_device :: "nat option \<Rightarrow> 'a controller_scheme \<Rightarrow> ('a controller_scheme \<times> (nat \<times> dev_ref) list) run" where
  "get_device drawn c =
     (if drawn = Some 0 then Done (c, [])
      else if ct_lock c then Blocked
      else
        let devs = sort_key fst (ct_devices c) in
        case drawn of
          Some n \<Rightarrow> if n \<le> length devs then Done (c\<lparr>ct_lock := True\<rparr>, take n devs) else Done (c, devs)
        | None \<Rightarrow> Done (c, devs))"

text \<open>When there is no such device, the lock is released and \<^verbatim>\<open>raise\<close> has no exception to raise again.\<close>

definition get_device_by_address :: "nat \<Rightarrow> 'a controller_scheme \<Rightarrow> dev_ref result run" where
  "get_device_by_address address c =
     (if ct_lock c then Blocked
      else case dict_get (ct_devices c) address of
             Some dev \<Rightarrow> Done (Inr dev)
           | None \<Rightarrow> Done (Inl RuntimeError))"

text \<open>The loop runs over the addresses, which have no attribute \<^verbatim>\<open>property\<close>.\<close>

definition get_device_with_property_value ::
    "string \<Rightarrow> 'v \<Rightarrow> 'a controller_scheme \<Rightarrow> ('a controller_scheme \<times> dev_ref result) run" where
  "get_device_with_property_value d_property v c =
     (if ct_lock c then Blocked
      else if ct_devices c = [] then Done (c, Inl KeyError)
      else Done (c\<lparr>ct_lock := True\<rparr>, Inl AttributeError))"

definition add_subscriber :: "nat \<Rightarrow> (n2k_msg \<Rightarrow> unit result) \<Rightarrow> 'a controller_scheme \<Rightarrow> 'a controller_scheme" where
  "add_subscriber pgn function c = c\<lparr>ct_subscribers := dict_set pgn function (ct_subscribers c)\<rparr>"

fun stale_proxy :: "real \<Rightarrow> real \<Rightarrow> dev_ref \<Rightarrow> bool" where
  "stale_proxy now max_silent (Proxy d) \<longleftrightarrow> max_silent < now - dv_last d"
| "stale_proxy now max_silent (Local a) \<longleftrightarrow> False"

definition device_gc :: "real \<Rightarrow> 'a controller_scheme \<Rightarrow> 'a controller_scheme run" where
  "device_gc now c =
     (if ct_stop c then Done c
      else if ct_lock c then Blocked
      else
        let to_be_deleted = map fst (filter (\<lambda>(key, dev). stale_proxy now (ct_max_silent c) dev) (ct_devices c))
        in Done (c\<lparr>ct_devices := fold dict_del to_be_deleted (ct_devices c)\<rparr>))"

definition controller_stop :: "'a controller_scheme \<Rightarrow> 'a controller_scheme" where
  "controller_stop c = c\<lparr>ct_stop := True\<rparr>"

section \<open>Lemmas\<close>

lemma object_check_errors: "object_check ds pgn = Inl e \<Longrightarrow> e = N2KUnknownPGN"
  by (auto simp: object_check_def pgn_definition_def get_variant_def split: option.splits pgn_entry.splits)

text \<open>The messages whose handler raises nothing but a KeyError on a device that has seen nothing yet.\<close>

definition well_formed :: "globals \<Rightarrow> n2k_msg \<Rightarrow> bool" where
  "well_formed g m =
     (if m_pgn m = 60928 then
        (case claim_of_message (gl_defs g) m of
           Inl e \<Rightarrow> e = KeyError
         | Inr c \<Rightarrow> name_attr (ac_name c) ''manufacturer_code'' \<noteq> Inr 0)
      else if m_pgn m = 126993 then is_ok (decode_heartbeat (m_payload m))
      else if m_pgn m = 126996 then is_ok (decode_product (gl_printable g) (m_payload m))
      else if m_pgn m = 126998 then is_ok (decode_config (gl_printable g) (m_payload m))
      else True)"

lemma is_okE: "is_ok r \<Longrightarrow> (\<And>x. r = Inr x \<Longrightarrow> P) \<Longrightarrow> P"
  by (cases r) auto

lemma manufacturer_attr: "\<exists>code. name_attr n ''manufacturer_code'' = Inr code"
  by (simp add: name_attr_def name_fields_def all_name_fields_def new_name_field_def del: if_split)

lemma p60928_ok:
  assumes "m_pgn m = 60928" "well_formed g m"
  shows "snd (p60928 g m d) \<in> {Inr (), Inl KeyError}"
proof (cases "claim_of_message (gl_defs g) m")
  case (Inl e)
  with assms show ?thesis by (simp add: p60928_def well_formed_def)
next
  case (Inr c)
  obtain code where code: "name_attr (ac_name c) ''manufacturer_code'' = Inr code"
    using manufacturer_attr by blast
  with Inr assms have "code \<noteq> 0" by (simp add: well_formed_def)
  then consider name where "manufacturer_name (gl_mfgs g) code = Inr name"
    | "manufacturer_name (gl_mfgs g) code = Inl KeyError"
    by (cases "dict_get (mf_by_code (gl_mfgs g)) code") (simp_all add: manufacturer_name_def)
  then show ?thesis by cases (simp_all add: p60928_def Inr code Let_def)
qed

lemma process_vector_ok:
  assumes "well_formed g m"
  shows "ignore_key_error (snd (process_vector g m d)) = Inr ()"
proof -
  have "snd (process_vector g m d) \<in> {Inr (), Inl KeyError}"
  proof (cases "m_pgn m = 60928")
    case True
    with p60928_ok [OF True assms] show ?thesis by (simp add: process_vector_def)
  next
    case False
    with assms show ?thesis
      by (auto simp: process_vector_def well_formed_def p126993_def p126996_def p126998_def Let_def
          elim!: is_okE split: if_splits)
  qed
  then show ?thesis by (auto simp: ignore_key_error_def)
qed

lemma receive_msg_ok:
  assumes "well_formed g m"
  shows "snd (receive_msg g now m d) = Inr ()"
proof (cases "add_pgn_count g (m_pgn m) (d\<lparr>dv_last := now\<rparr>)")
  case (Inl e)
  then have "e = N2KUnknownPGN"
    by (auto simp: add_pgn_count_def bind_r_def split: option.splits sum.splits dest: object_check_errors)
  with Inl show ?thesis by (simp add: receive_msg_def)
next
  case (Inr d2)
  with process_vector_ok [OF assms, of d2] show ?thesis by (simp add: receive_msg_def split_beta)
qed

lemma dict_set_keys: "fst ` set (dict_set k v d) = insert k (fst ` set d)"
  using al.set_keys_put [of k v d] by simp

text \<open>A controller of proxies whose lock is free.\<close>

definition proxies_ok :: "'a controller_scheme \<Rightarrow> bool" where
  "proxies_ok c \<longleftrightarrow> \<not> ct_lock c \<and> ct_subscribers c = [] \<and>
     (\<forall>a dev. dict_get (ct_devices c) a = Some dev \<longrightarrow> (\<exists>d. dev = Proxy d))"

lemma controller_step_ok:
  assumes "proxies_ok c" "well_formed g m"
  shows "\<exists>c1. controller_process_msg g recv now m c = Done (c1, Inr ()) \<and> proxies_ok c1
    \<and> set (network_addresses c1) = set (network_addresses c) \<union> (if m_sa m < 254 then {m_sa m} else {})"
proof (cases "m_sa m < 254")
  case True
  let ?c = "c\<lparr>ct_lock := True\<rparr>"
  obtain c1 d where d: "check_device (m_sa m) ?c = (c1, Proxy d)"
    using assms(1) by (cases "dict_get (ct_devices c) (m_sa m)") (auto simp: check_device_def proxies_ok_def Let_def)
  obtain d1 where d1: "receive_msg g now m d = (d1, Inr ())"
    using receive_msg_ok [OF assms(2), of now d] by (metis prod.collapse)
  let ?c2 = "c1\<lparr>ct_devices := dict_set (m_sa m) (Proxy d1) (ct_devices c1)\<rparr>"
  have c1: "ct_subscribers c1 = []" "ct_devices c1 = ct_devices c \<or>
      ct_devices c1 = dict_set (m_sa m) (Proxy (new_device (m_sa m) None)) (ct_devices c)"
    using assms(1) d by (auto simp: check_device_def proxies_ok_def Let_def split: option.splits)
  then have "controller_process_msg g recv now m c = Done (?c2\<lparr>ct_lock := False\<rparr>, Inr ())"
    using True d d1 assms(1) by (simp add: controller_process_msg_def proxies_ok_def call_subscribers_def)
  moreover have "proxies_ok (?c2\<lparr>ct_lock := False\<rparr>)"
    using assms(1) c1 by (auto simp: proxies_ok_def py_dicts split: if_splits)
  moreover have "set (network_addresses (?c2\<lparr>ct_lock := False\<rparr>)) = set (network_addresses c) \<union> {m_sa m}"
    using c1(2) by (elim disjE) (simp_all add: network_addresses_def dict_set_keys)
  ultimately show ?thesis using True by auto
next
  case False
  with assms(1) show ?thesis by (simp add: controller_process_msg_def)
qed

lemma controller_run_append:
  "controller_run p c ms = (c1, length ms, True) \<Longrightarrow>
     controller_run p c (ms @ ms') = (case controller_run p c1 ms' of (c2, n, alive) \<Rightarrow> (c2, length ms + n, alive))"
proof (induction ms arbitrary: c)
  case (Cons x ms)
  obtain now m where x: "x = (now, m)" by (cases x)
  show ?case
  proof (cases "p now m c")
    case (Done r)
    obtain c0 r0 where r: "r = (c0, r0)" by (cases r)
    obtain c9 n9 b9 where rest: "controller_run p c0 ms = (c9, n9, b9)" by (cases "controller_run p c0 ms") auto
    with Cons.prems x Done r have "controller_run p c0 ms = (c1, length ms, True)" by simp
    from Cons.IH [OF this] show ?thesis using x Done r by (simp split: prod.splits)
  next
    case Blocked
    with Cons.prems x show ?thesis by simp
  qed
qed simp

lemma controller_run_ok:
  assumes "proxies_ok c" "\<forall>(now, m) \<in> set ms. well_formed g m"
  shows "\<exists>c1. controller_run (controller_process_msg g recv) c ms = (c1, length ms, True) \<and> proxies_ok c1
    \<and> set (network_addresses c1) = set (network_addresses c) \<union> {a \<in> (m_sa \<circ> snd) ` set ms. a < 254}"
  using assms
proof (induction ms arbitrary: c)
  case (Cons x ms)
  obtain now m where x: "x = (now, m)" by (cases x)
  with Cons.prems obtain c0 where c0: "controller_process_msg g recv now m c = Done (c0, Inr ())" "proxies_ok c0"
    "set (network_addresses c0) = set (network_addresses c) \<union> (if m_sa m < 254 then {m_sa m} else {})"
    using controller_step_ok [of c g m recv now] by auto
  from Cons.IH [OF c0(2)] Cons.prems obtain c1 where
    "controller_run (controller_process_msg g recv) c0 ms = (c1, length ms, True)" "proxies_ok c1"
    "set (network_addresses c1) = set (network_addresses c0) \<union> {a \<in> (m_sa \<circ> snd) ` set ms. a < 254}"
    by auto
  with c0 x show ?case by auto
qed simp

text \<open>On a device just created the handlers raise exactly for the other messages.\<close>

lemma receive_msg_raises:
  assumes "\<not> well_formed g m" "object_check (gl_defs g) (m_pgn m) = Inr ()"
  shows "\<exists>e. snd (receive_msg g now m (new_device a None)) = Inl e"
proof -
  let ?d = "new_device a None\<lparr>dv_last := now, dv_pgns := [(m_pgn m, 1)]\<rparr>"
  have "add_pgn_count g (m_pgn m) (new_device a None\<lparr>dv_last := now\<rparr>) = Inr ?d"
    using assms(2) by (simp add: add_pgn_count_def new_device_def)
  moreover have "\<exists>e. e \<noteq> KeyError \<and> snd (process_vector g m ?d) = Inl e"
  proof (cases "m_pgn m = 60928")
    case True
    show ?thesis
    proof (cases "claim_of_message (gl_defs g) m")
      case (Inl e)
      with assms(1) True show ?thesis by (simp add: well_formed_def process_vector_def p60928_def)
    next
      case (Inr c)
      with assms(1) True have "name_attr (ac_name c) ''manufacturer_code'' = Inr 0"
        by (simp add: well_formed_def)
      with Inr True show ?thesis
        by (simp add: process_vector_def p60928_def new_device_def manufacturer_name_def Let_def)
    qed
  next
    case False
    have "decode_heartbeat p = Inl e \<Longrightarrow> e \<noteq> KeyError" for e p
      by (auto simp: decode_heartbeat_def unpack_from_def bind_r_def split: if_splits)
    moreover have "decode_product up p = Inl e \<Longrightarrow> e \<noteq> KeyError" for up e p
      by (auto simp: decode_product_def unpack_from_def bind_r_def Let_def split: if_splits)
    moreover have "decode_config up p = Inl e \<Longrightarrow> e \<noteq> KeyError" for up e p
      by (auto simp: decode_config_def gen_extract_var_str_def py_get_def bind_r_def Let_def
          split: if_splits option.splits sum.splits prod.splits)
    ultimately show ?thesis using False assms(1)
      by (auto simp: well_formed_def process_vector_def p126993_def p126996_def p126998_def new_device_def Let_def
          split: sum.splits if_splits)
  qed
  ultimately show ?thesis by (auto simp: receive_msg_def split_beta ignore_key_error_def)
qed

lemma controller_step_raises:
  assumes "proxies_ok c" "\<not> well_formed g m" "object_check (gl_defs g) (m_pgn m) = Inr ()"
    and "m_sa m < 254" "m_sa m \<notin> set (network_addresses c)"
  shows "\<exists>c1 e. controller_process_msg g recv now m c = Done (c1, Inl e) \<and> ct_lock c1"
proof -
  have "dict_get (ct_devices c) (m_sa m) = None"
    using assms(5) by (simp add: network_addresses_def map_of_eq_None_iff)
  moreover obtain e d where "receive_msg g now m (new_device (m_sa m) None) = (d, Inl e)"
    using receive_msg_raises [OF assms(2,3)] by (metis prod.collapse)
  ultimately show ?thesis using assms(1,4)
    by (simp add: controller_process_msg_def check_device_def proxies_ok_def Let_def)
qed

section \<open>Properties\<close>

text \<open>C30. The controller goes on as long as its messages are well formed: on any sequence of such messages, from a
  table of proxies with a free lock, it processes every one of them, ends with the lock free, and knows
  exactly the addresses it knew and those of the senders below 254.\<close>

theorem controller_live:
  assumes "\<not> ct_lock c" "ct_subscribers c = []"
    and "\<forall>a dev. dict_get (ct_devices c) a = Some dev \<longrightarrow> (\<exists>d. dev = Proxy d)"
    and "\<forall>(now, m) \<in> set ms. well_formed g m"
  shows "\<exists>c1. controller_run (controller_process_msg g recv) c ms = (c1, length ms, True) \<and> \<not> ct_lock c1
    \<and> set (network_addresses c1) = set (network_addresses c) \<union> {a \<in> (m_sa \<circ> snd) ` set ms. a < 254}"
  using controller_run_ok [of c ms g recv] assms by (auto simp: proxies_ok_def)

text \<open>C31. One malformed management message stops the controller for ever: an address claim with manufacturer
  code 0, or a heartbeat, a product or a configuration information that is too short, from a node not
  seen before, raises while the lock is held; the next message of any node blocks the thread.\<close>

theorem controller_deadlock:
  assumes "\<not> ct_lock c" "ct_subscribers c = []"
    and "\<forall>a dev. dict_get (ct_devices c) a = Some dev \<longrightarrow> (\<exists>d. dev = Proxy d)"
    and "\<forall>(now, m) \<in> set ms. well_formed g m \<and> m_sa m \<noteq> m_sa bad"
    and "\<not> well_formed g bad" "object_check (gl_defs g) (m_pgn bad) = Inr ()"
    and "m_sa bad < 254" "m_sa bad \<notin> set (network_addresses c)" "m_sa next_msg < 254"
  shows "\<exists>c1. controller_run (controller_process_msg g recv) c (ms @ (t1, bad) # (t2, next_msg) # rest)
    = (c1, length ms + 1, False)"
proof -
  obtain c1 where c1: "controller_run (controller_process_msg g recv) c ms = (c1, length ms, True)" "proxies_ok c1"
    "set (network_addresses c1) = set (network_addresses c) \<union> {a \<in> (m_sa \<circ> snd) ` set ms. a < 254}"
    using controller_run_ok [of c ms g recv] assms(1-4) by (fastforce simp: proxies_ok_def)
  then have "m_sa bad \<notin> set (network_addresses c1)" using assms(4,8) by auto
  from controller_step_raises [OF c1(2) assms(5-7) this, of recv t1] obtain c2 e where
    "controller_process_msg g recv t1 bad c1 = Done (c2, Inl e)" "ct_lock c2" by blast
  moreover from this have "controller_process_msg g recv t2 next_msg c2 = Blocked"
    using assms(9) by (simp add: controller_process_msg_def)
  ultimately show ?thesis by (simp add: controller_run_append [OF c1(1)])
qed

text \<open>The definition of the heartbeat alone, and one message of it.\<close>

definition sample_globals :: globals where
  "sample_globals =
     \<lparr>gl_defs = new_pgn_definitions\<lparr>pgn_defs := [(126993, PgnEntry (sample_pgn []))]\<rparr>,
      gl_mfgs = load_manufacturers [], gl_printable = (\<lambda>c. 32 \<le> c \<and> c < 127)\<rparr>"

definition sample_heartbeat :: "nat \<Rightarrow> bytes \<Rightarrow> n2k_msg" where
  "sample_heartbeat sa payload =
     \<lparr>m_pgn = 126993, m_prio = 7, m_sa = sa, m_da = 255, m_is_iso = True, m_ts = 0, m_fast_packet = False,
      m_payload = payload\<rparr>"

lemma sample_heartbeats:
  "well_formed sample_globals (sample_heartbeat sa (replicate 8 0))"
  "\<not> well_formed sample_globals (sample_heartbeat sa [1, 2])"
  "object_check (gl_defs sample_globals) 126993 = Inr ()"
  by (simp_all add: well_formed_def sample_heartbeat_def decode_heartbeat_def unpack_from_def
      object_check_def sample_globals_def pgn_definition_def new_pgn_definitions_def)

theorem controller_live_witness:
  "\<exists>c1. controller_run (controller_process_msg sample_globals (\<lambda>a m c. (c, Inr ()))) (new_controller 20 20 60)
      [(0, sample_heartbeat 3 (replicate 8 0)), (1, sample_heartbeat 255 (replicate 8 0))]
      = (c1, length [(0 :: real, sample_heartbeat 3 (replicate 8 0)), (1, sample_heartbeat 255 (replicate 8 0))], True)
    \<and> \<not> ct_lock c1 \<and> set (network_addresses c1) = set (network_addresses (new_controller 20 20 60))
      \<union> {a \<in> (m_sa \<circ> snd) ` set [(0 :: real, sample_heartbeat 3 (replicate 8 0)),
           (1, sample_heartbeat 255 (replicate 8 0))]. a < 254}"
  by (rule controller_live) (use sample_heartbeats(1) in \<open>simp_all add: new_controller_def\<close>)

theorem controller_deadlock_witness:
  "\<exists>c1. controller_run (controller_process_msg sample_globals (\<lambda>a m c. (c, Inr ()))) (new_controller 20 20 60)
      ([(0, sample_heartbeat 3 (replicate 8 0))] @ (1, sample_heartbeat 5 [1, 2])
        # (2, sample_heartbeat 3 (replicate 8 0)) # [(3, sample_heartbeat 4 (replicate 8 0))])
    = (c1, length [(0 :: real, sample_heartbeat 3 (replicate 8 0))] + 1, False)"
proof (rule controller_deadlock)
  show "\<forall>(now, m) \<in> set [(0 :: real, sample_heartbeat 3 (replicate 8 0))].
      well_formed sample_globals m \<and> m_sa m \<noteq> m_sa (sample_heartbeat 5 [1, 2])"
    using sample_heartbeats(1) by (simp add: sample_heartbeat_def)
  show "\<not> well_formed sample_globals (sample_heartbeat 5 [1, 2])" by (rule sample_heartbeats)
  show "object_check (gl_defs sample_globals) (m_pgn (sample_heartbeat 5 [1, 2])) = Inr ()"
    using sample_heartbeats(3) by (simp add: sample_heartbeat_def)
qed (simp_all add: new_controller_def network_addresses_def sample_heartbeat_def)

end
