(* ===== verification/Applications.thy ===== *)
theory Applications
  imports Devices CanInterface
begin

text \<open>
  The local applications of the NMEA 2000 bus: \<^verbatim>\<open>can_interface/nmea2k_application.py\<close> (\<open>pool\<close> of addresses and
  names, \<open>application\<close> with its address claim) and \<^verbatim>\<open>can_interface/nmea2k_active_controller.py\<close> (\<open>ecu\<close>: the
  controller of \<^verbatim>\<open>Devices\<close> with the CAN interface and the applications). An application is an object shared
  by several tables: it lives in the store \<open>ec_store\<close> under its identifier, the tables hold identifiers.
  Timers are the state they are in; their expiry is the operation they call. Threads are interleaved at
  the operations.
\<close>

section \<open>The pool\<close>

record pool =
  po_mfg :: int
  po_root :: int
  po_max :: nat
  po_addresses :: "nat list"
  po_index :: nat
  po_count :: nat

text \<open>\<^verbatim>\<open>get_id_from_mac\<close> on the fields of the address, separated by colons.\<close>

definition get_id_from_mac :: "bytes \<Rightarrow> int result" where
  "get_id_from_mac mac =
     (let fs = split_on (of_char CHR '':'') mac; part = (\<lambda>i. bind_r (py_get fs i) (parse_int 16)) in
      bind_r (part 5) (\<lambda>b5. bind_r (part 4) (\<lambda>b4. bind_r (part 3) (\<lambda>b3. bind_r (part 2) (\<lambda>b2.
        Inr (b5 + push_bit 8 b4 + push_bit 16 b3 + push_bit 24 b2))))))"

fun bit_length :: "nat \<Rightarrow> nat" where
  "bit_length n = (if n = 0 then 0 else bit_length (n div 2) + 1)"

declare bit_length.simps [simp del]

definition new_pool :: "int \<Rightarrow> int \<Rightarrow> nat \<Rightarrow> nat \<Rightarrow> pool" where
  "new_pool mfg mac_id max_applications first_address =
     \<lparr>po_mfg = mfg, po_root = push_bit (bit_length (max_applications - 1)) mac_id, po_max = max_applications,
      po_addresses = [first_address..<first_address + 2 * max_applications + 1], po_index = 0, po_count = 0\<rparr>"

text \<open>The loop over the addresses not tried yet: the first one that is not on the network.\<close>

fun free_address :: "nat list \<Rightarrow> nat list \<Rightarrow> nat \<Rightarrow> nat \<times> nat" where
  "free_address used [] i = (i, 254)"
| "free_address used (a # as) i = (if a \<notin> set used then (i + 1, a) else free_address used as (i + 1))"

definition get_new_address :: "nat list \<Rightarrow> pool \<Rightarrow> pool \<times> nat" where
  "get_new_address used p =
     (case free_address used (drop (po_index p) (po_addresses p)) (po_index p) of
        (i, a) \<Rightarrow> (p\<lparr>po_index := i\<rparr>, a))"

definition application_name :: "int \<Rightarrow> int \<Rightarrow> pool \<Rightarrow> pool \<times> iso_name result" where
  "application_name device_class device_function p =
     (if po_count p < po_max p then
        (p\<lparr>po_count := po_count p + 1\<rparr>,
         Inr (new_mutable_name
           [(''identity_number'', po_root p OR int (po_count p)), (''manufacturer_code'', po_mfg p),
            (''device_class'', device_class), (''device_function'', device_function),
            (''industry_group'', 4), (''arbitrary_address_capable'', 1)]))
      else (p, Inl IndexError))"

definition application_ids :: "nat list \<Rightarrow> int \<Rightarrow> int \<Rightarrow> pool \<Rightarrow> pool \<times> (nat \<times> iso_name) result" where
  "application_ids used device_class device_function p =
     (case get_new_address used p of
        (p1, address) \<Rightarrow>
          if address = 254 then (p1, Inl IndexError)
          else map_prod id (map_sum id (Pair address)) (application_name device_class device_function p1))"

section \<open>State\<close>

datatype app_state = WAIT_FOR_BUS | ADDRESS_CLAIM | ACTIVE | STOP_IN_PROGRESS

datatype timer = NoTimer | Running | Cancelled

record application = device +
  ap_state :: app_state
  ap_claim_timer :: timer
  ap_heartbeat_timer :: timer
  ap_heartbeat_interval :: real
  ap_sequence :: int
  ap_config :: "decoded_header \<times> config_info"
  ap_data :: "n2k_msg \<Rightarrow> unit result"

text \<open>A reader from outside the bus, with the sources and PGNs it selects or rejects.\<close>

record read_subscriber =
  sb_client :: string
  sb_queue :: "n2k_msg bqueue"
  sb_select_source :: "nat list option"
  sb_reject_source :: "nat list option"
  sb_select_pgn :: "nat list option"
  sb_reject_pgn :: "nat list option"

record ecu = controller +
  ec_can :: can_if
  ec_can_stop :: bool
  ec_store :: "(nat, application) dict"
  ec_next_id :: nat
  ec_applications :: "nat list"
  ec_app_index :: "(nat, nat) dict"
  ec_pool :: pool
  ec_change :: "(nat \<times> nat) option"
  ec_start_lock :: bool
  ec_pgn_vector :: "(nat, nat) dict"
  ec_catch_all :: "nat list"
  ec_app_timer :: timer
  ec_timer_vector :: "nat list"
  ec_register :: "(string, nat) dict"
  ec_subs :: "(string, read_subscriber) dict"

text \<open>\<open>then_do\<close> goes on with the state unless an exception was raised.\<close>

definition then_do :: "'s \<times> unit result \<Rightarrow> ('s \<Rightarrow> 's \<times> unit result) \<Rightarrow> 's \<times> unit result" where
  "then_do r f = (case r of (s, Inl e) \<Rightarrow> (s, Inl e) | (s, Inr _) \<Rightarrow> f s)"

definition own_name :: "application \<Rightarrow> iso_name" where
  "own_name p = (case dv_name p of Some n \<Rightarrow> n | None \<Rightarrow> new_name [])"

definition with_app :: "nat \<Rightarrow> ecu \<Rightarrow> (application \<Rightarrow> ecu \<times> unit result) \<Rightarrow> ecu \<times> unit result" where
  "with_app a s f = (case dict_get (ec_store s) a of None \<Rightarrow> (s, Inl NotModelled) | Some p \<Rightarrow> f p)"

definition set_app :: "nat \<Rightarrow> (application \<Rightarrow> application) \<Rightarrow> ecu \<Rightarrow> ecu" where
  "set_app a f s =
     (case dict_get (ec_store s) a of
        None \<Rightarrow> s
      | Some p \<Rightarrow> s\<lparr>ec_store := dict_set a (f p) (ec_store s)\<rparr>)"

text \<open>\<^verbatim>\<open>CAN_interface.send\<close> on a message whose construction may raise; its result is not looked at.\<close>

definition ecu_send :: "n2k_msg result \<Rightarrow> bool \<Rightarrow> ecu \<Rightarrow> ecu \<times> unit result" where
  "ecu_send msg force_send s =
     (case msg of
        Inl e \<Rightarrow> (s, Inl e)
      | Inr m \<Rightarrow>
          (case can_send m force_send (ec_can s) of
             (can, r) \<Rightarrow> (s\<lparr>ec_can := can\<rparr>, map_sum id (\<lambda>_. ()) r)))"

section \<open>Sending of an application\<close>

definition respond_address_claim :: "globals \<Rightarrow> real \<Rightarrow> nat \<Rightarrow> ecu \<Rightarrow> ecu \<times> unit result" where
  "respond_address_claim g now a s =
     with_app a s (\<lambda>p.
       ecu_send (bind_r (object_check (gl_defs g) 60928) (\<lambda>_.
                   claim_message now (new_address_claim (dv_address p) (own_name p) 255))) True s)"

definition send_address_claim :: "globals \<Rightarrow> real \<Rightarrow> nat \<Rightarrow> ecu \<Rightarrow> ecu \<times> unit result" where
  "send_address_claim g now a s =
     with_app a s (\<lambda>p.
       if ap_state p = STOP_IN_PROGRESS then (s, Inr ())
       else then_do (respond_address_claim g now a s) (\<lambda>s1.
         (set_app a (\<lambda>p. p\<lparr>ap_state := ADDRESS_CLAIM, ap_claim_timer := Running\<rparr>) s1, Inr ())))"

definition send_iso_request :: "globals \<Rightarrow> real \<Rightarrow> nat \<Rightarrow> nat \<Rightarrow> int \<Rightarrow> ecu \<Rightarrow> ecu \<times> unit result" where
  "send_iso_request g now a da pgn s =
     with_app a s (\<lambda>p.
       ecu_send (bind_r (object_check (gl_defs g) 59904) (\<lambda>_.
                   iso_request_message now (new_iso_request (dv_address p) da pgn))) True s)"

definition send_heartbeat :: "real \<Rightarrow> nat \<Rightarrow> ecu \<Rightarrow> ecu \<times> unit result" where
  "send_heartbeat now a s =
     with_app a s (\<lambda>p.
       if ap_state p = STOP_IN_PROGRESS then (s, Inr ())
       else
         let h = \<lparr>hb_interval = Some (ap_heartbeat_interval p), hb_sequence = ap_sequence p, hb_ctrl1 = 0,
                  hb_ctrl2 = 0, hb_status = 0\<rparr>;
             sequence = (if 253 < ap_sequence p + 1 then 0 else ap_sequence p + 1);
             s1 = set_app a (\<lambda>p. p\<lparr>ap_sequence := sequence\<rparr>) s
         in then_do
              (ecu_send (decoded_message now 126993 (set_sa (dv_address p) (new_header now)) (encode_heartbeat h)) True s1)
              (\<lambda>s2. (set_app a (\<lambda>p. p\<lparr>ap_heartbeat_timer := Running\<rparr>) s2, Inr ())))"

definition send_product_information :: "real \<Rightarrow> nat \<Rightarrow> ecu \<Rightarrow> ecu \<times> unit result" where
  "send_product_information now a s =
     with_app a s (\<lambda>p.
       case dv_product p of
         None \<Rightarrow> (s, Inl AttributeError)
       | Some (h, info) \<Rightarrow>
           let h1 = set_sa (dv_address p) h in
           ecu_send (decoded_message now 126996 h1 (encode_product info)) True
             (set_app a (\<lambda>p. p\<lparr>dv_product := Some (h1, info)\<rparr>) s))"

definition send_configuration_information :: "real \<Rightarrow> nat \<Rightarrow> ecu \<Rightarrow> ecu \<times> unit result" where
  "send_configuration_information now a s =
     with_app a s (\<lambda>p.
       let (h, info) = ap_config p; h1 = set_sa (dv_address p) h in
       ecu_send (decoded_message now 126998 h1 (encode_config info)) True
         (set_app a (\<lambda>p. p\<lparr>ap_config := (h1, info)\<rparr>) s))"

section \<open>The address claim\<close>

text \<open>\<^verbatim>\<open>application_started\<close>: releasing a lock that is free raises RuntimeError, which is caught.\<close>

definition application_started :: "ecu \<Rightarrow> ecu" where
  "application_started s = s\<lparr>ec_start_lock := False\<rparr>"

text \<open>The expiry of the claim timer.\<close>

definition address_claim_delay :: "globals \<Rightarrow> real \<Rightarrow> nat \<Rightarrow> ecu \<Rightarrow> ecu \<times> unit result" where
  "address_claim_delay g now a s =
     (let s1 = set_app a (\<lambda>p. p\<lparr>ap_state := ACTIVE\<rparr>) s; s2 = s1\<lparr>ec_can := allow_send (ec_can s1)\<rparr> in
      then_do (send_iso_request g now a 255 60928 s2) (\<lambda>s3.
      then_do (send_heartbeat now a s3) (\<lambda>s4.
        (set_app a (\<lambda>p. p\<lparr>ap_claim_timer := NoTimer\<rparr>) (application_started s4), Inr ()))))"

definition stop_request :: "application \<Rightarrow> application" where
  "stop_request p =
     p\<lparr>ap_state := STOP_IN_PROGRESS,
       ap_heartbeat_timer := (if ap_heartbeat_timer p = NoTimer then NoTimer else Cancelled)\<rparr>"

text \<open>Before the end of \<^verbatim>\<open>start\<close> the application timer is \<^verbatim>\<open>None\<close>.\<close>

definition ecu_stop :: "ecu \<Rightarrow> ecu \<times> unit result" where
  "ecu_stop s =
     (if ec_app_timer s = NoTimer then (s, Inl AttributeError)
      else (controller_stop (fold (\<lambda>a. set_app a stop_request) (ec_applications s)
              (s\<lparr>ec_app_timer := Cancelled, ec_can_stop := True\<rparr>)), Inr ()))"

definition change_application_address :: "nat \<Rightarrow> nat \<Rightarrow> ecu \<Rightarrow> ecu \<times> unit result" where
  "change_application_address a old_address s =
     (if ec_change s \<noteq> None then (s, Inl AssertionError)
      else (s\<lparr>ec_change := Some (a, old_address)\<rparr>, Inr ()))"

definition change_address :: "globals \<Rightarrow> real \<Rightarrow> nat \<Rightarrow> nat \<Rightarrow> ecu \<Rightarrow> ecu \<times> unit result" where
  "change_address g now a address s =
     with_app a s (\<lambda>p.
       then_do (change_application_address a (dv_address p) (set_app a (\<lambda>p. p\<lparr>dv_address := address\<rparr>) s))
         (send_address_claim g now a))"

definition address_claim_receipt :: "globals \<Rightarrow> real \<Rightarrow> nat \<Rightarrow> n2k_msg \<Rightarrow> ecu \<Rightarrow> ecu \<times> unit result" where
  "address_claim_receipt g now a m s =
     with_app a s (\<lambda>p.
       let s1 = (if ap_claim_timer p \<noteq> NoTimer then set_app a (\<lambda>p. p\<lparr>ap_claim_timer := Cancelled\<rparr>) s else s) in
       if dv_address p \<noteq> m_sa m then (s1, Inr ())
       else case claim_of_message (gl_defs g) m of
         Inl e \<Rightarrow> (s1, Inl e)
       | Inr claim \<Rightarrow>
           let theirs = name_value_of (ac_name claim); ours = name_value_of (own_name p) in
           if theirs < ours then
             (case get_new_address (network_addresses s1) (ec_pool s1) of
                (pool, address) \<Rightarrow>
                  let s2 = s1\<lparr>ec_pool := pool\<rparr> in
                  if address = 254 then
                    then_do (ecu_send (claim_message now (new_address_claim address (own_name p) (m_sa m))) True s2)
                      ecu_stop
                  else change_address g now a address s2)
           else if theirs = ours then ecu_stop s1
           else respond_address_claim g now a s1)"

section \<open>Other messages of an application\<close>

definition iso_request_receipt :: "globals \<Rightarrow> real \<Rightarrow> nat \<Rightarrow> n2k_msg \<Rightarrow> ecu \<Rightarrow> ecu \<times> unit result" where
  "iso_request_receipt g now a m s =
     with_app a s (\<lambda>p.
       if m_da m = dv_address p \<or> m_da m = 255 then
         (case iso_request_of_message (gl_defs g) m of
            Inl e \<Rightarrow> (s, Inl e)
          | Inr request \<Rightarrow>
              if ir_pgn request = 60928 then respond_address_claim g now a s
              else if ir_pgn request = 126996 then send_product_information now a s
              else if ir_pgn request = 126998 then send_configuration_information now a s
              else (s, Inr ()))
       else (s, Inr ()))"

definition commanded_address_request :: "globals \<Rightarrow> real \<Rightarrow> nat \<Rightarrow> n2k_msg \<Rightarrow> ecu \<Rightarrow> ecu \<times> unit result" where
  "commanded_address_request g now a m s =
     with_app a s (\<lambda>p.
       case commanded_of_message (gl_defs g) m of
         Inl e \<Rightarrow> (s, Inl e)
       | Inr (name, address) \<Rightarrow>
           if \<not> names_equal name (own_name p) then (s, Inr ())
           else change_address g now a (nat address) s)"

fun product_missing :: "ecu \<Rightarrow> dev_ref \<Rightarrow> bool" where
  "product_missing s (Proxy d) = (dv_product d = None)"
| "product_missing s (Local b) =
     (case dict_get (ec_store s) b of None \<Rightarrow> True | Some p \<Rightarrow> dv_product p = None)"

definition remote_address_claim :: "globals \<Rightarrow> real \<Rightarrow> nat \<Rightarrow> n2k_msg \<Rightarrow> ecu \<Rightarrow> (ecu \<times> unit result) run" where
  "remote_address_claim g now a m s =
     (case get_device_by_address (m_sa m) s of
        Blocked \<Rightarrow> Blocked
      | Done (Inl e) \<Rightarrow> Done (s, Inl e)
      | Done (Inr dev) \<Rightarrow>
          Done (if product_missing s dev then
                  then_do (send_iso_request g now a (m_sa m) 126996 s) (send_iso_request g now a (m_sa m) 126998)
                else (s, Inr ())))"

text \<open>\<^verbatim>\<open>process_command_group_function\<close> with the parameters that the decoding left.\<close>

definition process_command :: "nat \<Rightarrow> command_params option \<Rightarrow> acknowledge \<Rightarrow> ecu \<Rightarrow> ecu \<times> acknowledge result" where
  "process_command a params ack s =
     (case dict_get (ec_store s) a of
        None \<Rightarrow> (s, Inl NotModelled)
      | Some p \<Rightarrow>
          (case params of
             None \<Rightarrow> (s, Inr ack)
           | Some (ClaimParams ps) \<Rightarrow>
               (case execute_claim_params (own_name p) ps ack of
                  Inl e \<Rightarrow> (s, Inl e)
                | Inr (name, ack1) \<Rightarrow> (set_app a (\<lambda>p. p\<lparr>dv_name := Some name\<rparr>) s, Inr ack1))
           | Some (ConfigParams ps) \<Rightarrow>
               (case execute_config_params (snd (ap_config p)) ps ack of
                  (info, ack1) \<Rightarrow> (set_app a (\<lambda>p. p\<lparr>ap_config := (fst (ap_config p), info)\<rparr>) s, Inr ack1))))"

definition group_function_handler :: "globals \<Rightarrow> real \<Rightarrow> nat \<Rightarrow> n2k_msg \<Rightarrow> ecu \<Rightarrow> ecu \<times> unit result" where
  "group_function_handler g now a m s =
     with_app a s (\<lambda>p.
       case create_group_function (gl_printable g) (gl_defs g) m of
         Inl e \<Rightarrow> (s, Inl e)
       | Inr gf \<Rightarrow>
           let h = gf_header gf;
               (params, supported) =
                 (case gf of CommandGF _ _ ps \<Rightarrow> (ps, gh_class h \<noteq> None) | _ \<Rightarrow> (None, False))
           in case new_acknowledge (gl_defs g) (gh_function_pgn h) (if supported then 0 else 1) of
                Inl e \<Rightarrow> (s, Inl e)
              | Inr ack \<Rightarrow>
                  (case (if supported then process_command a params ack s else (s, Inr ack)) of
                     (s1, Inl e) \<Rightarrow> (s1, Inl e)
                   | (s1, Inr ack1) \<Rightarrow>
                       ecu_send (acknowledge_message now (ack1\<lparr>ak_sa := dv_address p, ak_da := m_sa m\<rparr>)) False s1))"

text \<open>\<^verbatim>\<open>receive_msg\<close> with the vector of the applications.\<close>

definition app_process_vector :: "globals \<Rightarrow> real \<Rightarrow> nat \<Rightarrow> n2k_msg \<Rightarrow> ecu \<Rightarrow> ecu \<times> unit result" where
  "app_process_vector g now a m s =
     (if m_pgn m = 60928 then address_claim_receipt g now a m s
      else if m_pgn m = 59904 then iso_request_receipt g now a m s
      else if m_pgn m = 126208 then group_function_handler g now a m s
      else with_app a s (\<lambda>p. case process_vector g m p of (p1, r) \<Rightarrow> (set_app a (\<lambda>_. p1) s, r)))"

definition app_receive_msg :: "globals \<Rightarrow> real \<Rightarrow> nat \<Rightarrow> n2k_msg \<Rightarrow> ecu \<Rightarrow> ecu \<times> unit result" where
  "app_receive_msg g now a m s =
     with_app a s (\<lambda>p.
       let p1 = p\<lparr>dv_last := now\<rparr> in
       case add_pgn_count g (m_pgn m) p1 of
         Inl e \<Rightarrow> (set_app a (\<lambda>_. p1) s, if e = N2KUnknownPGN then Inr () else Inl e)
       | Inr p2 \<Rightarrow>
           (case app_process_vector g now a m (set_app a (\<lambda>_. p2) s) of (s1, r) \<Rightarrow> (s1, ignore_key_error r)))"

text \<open>Messages to all: \<^verbatim>\<open>receive_iso_msg\<close>.\<close>

definition receive_iso_msg :: "globals \<Rightarrow> real \<Rightarrow> nat \<Rightarrow> n2k_msg \<Rightarrow> ecu \<Rightarrow> (ecu \<times> unit result) run" where
  "receive_iso_msg g now a m s =
     (case (if m_pgn m = 59904 then Done (iso_request_receipt g now a m s)
            else if m_pgn m = 60928 then remote_address_claim g now a m s
            else if m_pgn m = 65240 then Done (commanded_address_request g now a m s)
            else Done (s, Inl KeyError)) of
        Blocked \<Rightarrow> Blocked
      | Done (s1, r) \<Rightarrow> Done (s1, ignore_key_error r))"

section \<open>The constructor of an application\<close>

definition default_receive_data_msg :: "n2k_msg \<Rightarrow> unit result" where
  "default_receive_data_msg m = Inl NotImplementedError"

definition new_application :: "real \<Rightarrow> nat \<Rightarrow> iso_name \<Rightarrow> product_info \<Rightarrow> config_info \<Rightarrow> application" where
  "new_application now address name product config =
     \<lparr>dv_address = address, dv_last = 0, dv_pgns = [],
      dv_product = Some ((new_header now)\<lparr>dm_priority := 6\<rparr>, product), dv_config = None, dv_heartbeat = None,
      dv_name = Some name, dv_manufacturer = None, dv_changed = True, dv_info_sent = False,
      ap_state = WAIT_FOR_BUS, ap_claim_timer = NoTimer, ap_heartbeat_timer = NoTimer,
      ap_heartbeat_interval = 60, ap_sequence = 0,
      ap_config = ((new_header now)\<lparr>dm_priority := 6\<rparr>, config), ap_data = default_receive_data_msg\<rparr>"

definition address_and_name :: "int \<Rightarrow> int \<Rightarrow> int \<Rightarrow> ecu \<Rightarrow> ecu \<times> (nat \<times> iso_name) result" where
  "address_and_name address device_class device_function s =
     (if address < 0 \<or> 253 < address then
        (case application_ids (network_addresses s) device_class device_function (ec_pool s) of
           (p, r) \<Rightarrow> (s\<lparr>ec_pool := p\<rparr>, r))
      else if nat address \<in> set (network_addresses s) then (s, Inl IndexError)
      else case application_name device_class device_function (ec_pool s) of
             (p, r) \<Rightarrow> (s\<lparr>ec_pool := p\<rparr>, map_sum id (Pair (nat address)) r))"

text \<open>The whole constructor: the new object gets the next identifier, unless it raises.\<close>

definition create_application ::
    "globals \<Rightarrow> real \<Rightarrow> int \<Rightarrow> int \<Rightarrow> int \<Rightarrow> product_info \<Rightarrow> config_info \<Rightarrow> ecu \<Rightarrow> ecu \<times> nat result" where
  "create_application g now address device_class device_function product config s =
     (case address_and_name address device_class device_function s of
        (s1, Inl e) \<Rightarrow> (s1, Inl e)
      | (s1, Inr (a, name)) \<Rightarrow>
          (case bind_r (name_attr name ''manufacturer_code'') (manufacturer_name (gl_mfgs g)) of
             Inl e \<Rightarrow> (s1, Inl e)
           | Inr mfg \<Rightarrow>
               let n = ec_next_id s1;
                   p = (new_application now a name product config)\<lparr>dv_manufacturer := Some mfg\<rparr>
               in (s1\<lparr>ec_store := dict_set n p (ec_store s1), ec_next_id := n + 1\<rparr>, Inr n)))"

section \<open>The active controller\<close>

definition add_application_index :: "nat \<Rightarrow> ecu \<Rightarrow> ecu" where
  "add_application_index a s =
     (case dict_get (ec_store s) a of
        None \<Rightarrow> s
      | Some p \<Rightarrow>
          s\<lparr>ct_devices := dict_set (dv_address p) (Local a) (ct_devices s),
            ec_app_index := dict_set (dv_address p) a (ec_app_index s),
            ec_can := add_address (dv_address p) (ec_can s)\<rparr>)"

definition add_application :: "nat \<Rightarrow> ecu \<Rightarrow> ecu" where
  "add_application a s = add_application_index a (s\<lparr>ec_applications := ec_applications s @ [a]\<rparr>)"

definition remove_application_index :: "nat \<Rightarrow> ecu \<Rightarrow> ecu \<times> unit result" where
  "remove_application_index old_address s =
     then_do (delete_device old_address s) (\<lambda>s1.
       let s2 = s1\<lparr>ec_can := remove_address old_address (ec_can s1)\<rparr> in
       case dict_get (ec_app_index s2) old_address of
         None \<Rightarrow> (s2, Inl KeyError)
       | Some _ \<Rightarrow> (s2\<lparr>ec_app_index := dict_del old_address (ec_app_index s2)\<rparr>, Inr ()))"

definition apply_change_application_address :: "ecu \<Rightarrow> ecu \<times> unit result" where
  "apply_change_application_address s =
     (case ec_change s of
        None \<Rightarrow> (s, Inl TypeError)
      | Some (a, old_address) \<Rightarrow>
          then_do (remove_application_index old_address s) (\<lambda>s1.
            ((add_application_index a s1)\<lparr>ec_change := None\<rparr>, Inr ())))"

text \<open>\<^verbatim>\<open>set_pgn_vector\<close>: a list of PGNs, of which the taken ones are ignored, or a number.\<close>

datatype pgn_arg = PgnList "nat list" | PgnInt int

fun set_pgn_vector :: "nat \<Rightarrow> pgn_arg \<Rightarrow> ecu \<Rightarrow> ecu" where
  "set_pgn_vector a (PgnList pgns) s =
     s\<lparr>ec_pgn_vector :=
         foldl (\<lambda>v pgn. if dict_get v pgn = None then dict_set pgn a v else v) (ec_pgn_vector s) pgns\<rparr>"
| "set_pgn_vector a (PgnInt pgn) s =
     (if pgn = - 1 then s\<lparr>ec_catch_all := ec_catch_all s @ [a]\<rparr>
      else if 254 > pgn \<and> pgn \<ge> 0 then s\<lparr>ec_pgn_vector := dict_set (nat pgn) a (ec_pgn_vector s)\<rparr>
      else s)"

definition new_read_subscriber ::
    "string \<Rightarrow> nat list \<Rightarrow> nat list \<Rightarrow> nat list \<Rightarrow> nat list \<Rightarrow> read_subscriber" where
  "new_read_subscriber client select_source reject_source select_pgn reject_pgn =
     \<lparr>sb_client = client, sb_queue = new_queue 20,
      sb_select_source = (if select_source \<noteq> [] then Some select_source else None),
      sb_reject_source = (if select_source = [] \<and> reject_source \<noteq> [] then Some reject_source else None),
      sb_select_pgn = (if select_pgn \<noteq> [] then Some select_pgn else None),
      sb_reject_pgn = (if select_pgn = [] \<and> reject_pgn \<noteq> [] then Some reject_pgn else None)\<rparr>"

definition passes :: "nat \<Rightarrow> nat list option \<Rightarrow> nat list option \<Rightarrow> bool" where
  "passes x select reject =
     (case select of
        Some xs \<Rightarrow> x \<in> set xs
      | None \<Rightarrow> (case reject of Some xs \<Rightarrow> x \<notin> set xs | None \<Rightarrow> True))"

definition push_message :: "n2k_msg \<Rightarrow> read_subscriber \<Rightarrow> read_subscriber result" where
  "push_message m sub =
     (if \<not> passes (m_sa m) (sb_select_source sub) (sb_reject_source sub) then Inr sub
      else if \<not> passes (m_pgn m) (sb_select_pgn sub) (sb_reject_pgn sub) then Inr sub
      else map_sum id (\<lambda>q. sub\<lparr>sb_queue := q\<rparr>) (q_put m (sb_queue sub)))"

definition get_message :: "read_subscriber \<Rightarrow> (n2k_msg \<times> read_subscriber) result" where
  "get_message sub =
     (case q_get (sb_queue sub) of
        Inl _ \<Rightarrow> Inl N2KReadTimeOut
      | Inr (m, q) \<Rightarrow> Inr (m, sub\<lparr>sb_queue := q\<rparr>))"

definition add_read_subscriber ::
    "string \<Rightarrow> nat list \<Rightarrow> nat list \<Rightarrow> nat list \<Rightarrow> nat list \<Rightarrow> ecu \<Rightarrow> ecu" where
  "add_read_subscriber client select_source reject_source select_pgn reject_pgn s =
     s\<lparr>ec_subs := dict_set client
         (new_read_subscriber client select_source reject_source select_pgn reject_pgn) (ec_subs s)\<rparr>"

definition remove_read_subscriber :: "string \<Rightarrow> ecu \<Rightarrow> ecu" where
  "remove_read_subscriber client s = s\<lparr>ec_subs := dict_del client (ec_subs s)\<rparr>"

text \<open>The loop over the subscribers: a message one of them has no room for removes it.\<close>

fun push_all :: "n2k_msg \<Rightarrow> (string \<times> read_subscriber) list \<Rightarrow> ecu \<Rightarrow> ecu" where
  "push_all m [] s = s"
| "push_all m ((k, sub) # subs) s =
     push_all m subs
       (case push_message m sub of
          Inr sub1 \<Rightarrow> s\<lparr>ec_subs := dict_set k sub1 (ec_subs s)\<rparr>
        | Inl _ \<Rightarrow> remove_read_subscriber (sb_client sub) s)"

text \<open>The loops over the applications end with the first exception.\<close>

fun each_app :: "(nat \<Rightarrow> ecu \<Rightarrow> (ecu \<times> unit result) run) \<Rightarrow> nat list \<Rightarrow> ecu \<Rightarrow> (ecu \<times> unit result) run" where
  "each_app f [] s = Done (s, Inr ())"
| "each_app f (a # as) s =
     (case f a s of
        Done (s1, Inr _) \<Rightarrow> each_app f as s1
      | r \<Rightarrow> r)"

definition receive_data_msg :: "nat \<Rightarrow> n2k_msg \<Rightarrow> ecu \<Rightarrow> ecu \<times> unit result" where
  "receive_data_msg a m s = with_app a s (\<lambda>p. (s, ap_data p m))"

definition dispatch_data :: "n2k_msg \<Rightarrow> ecu \<Rightarrow> (ecu \<times> unit result) run" where
  "dispatch_data m s =
     (let s1 = push_all m (ec_subs s) s;
          r = (case dict_get (ec_pgn_vector s1) (m_pgn m) of
                 None \<Rightarrow> (s1, Inr ())
               | Some a \<Rightarrow> map_prod id ignore_key_error (receive_data_msg a m s1))
      in case r of
           (s2, Inl e) \<Rightarrow> Done (s2, Inl e)
         | (s2, Inr _) \<Rightarrow> each_app (\<lambda>a s. Done (receive_data_msg a m s)) (ec_catch_all s2) s2)"

definition ecu_process_msg :: "globals \<Rightarrow> real \<Rightarrow> n2k_msg \<Rightarrow> ecu \<Rightarrow> (ecu \<times> unit result) run" where
  "ecu_process_msg g now m s =
     (if m_da m \<noteq> 255 then
        (case dict_get (ec_app_index s) (m_da m) of
           None \<Rightarrow> Done (s, Inr ())
         | Some a \<Rightarrow>
             Done (map_prod id ignore_key_error
               (if m_is_iso m then app_receive_msg g now a m s else receive_data_msg a m s)))
      else if m_is_iso m then
        (case controller_process_msg g (app_receive_msg g now) now m s of
           Done (s1, Inr _) \<Rightarrow>
             (case each_app (\<lambda>a. receive_iso_msg g now a m) (ec_applications s1) s1 of
                Done (s2, Inr _) \<Rightarrow>
                  Done (if ec_change s2 \<noteq> None then apply_change_application_address s2 else (s2, Inr ()))
              | r \<Rightarrow> r)
         | r \<Rightarrow> r)
      else dispatch_data m s)"

definition start_applications :: "ecu \<Rightarrow> ecu" where
  "start_applications s = (if ec_applications s = [] then s else s\<lparr>ec_start_lock := True\<rparr>)"

definition ecu_timer_lapse :: "ecu \<Rightarrow> ecu" where
  "ecu_timer_lapse s = s\<lparr>ec_app_timer := Running\<rparr>"

definition timer_subscribe :: "nat \<Rightarrow> ecu \<Rightarrow> ecu" where
  "timer_subscribe a s = s\<lparr>ec_timer_vector := ec_timer_vector s @ [a]\<rparr>"

definition timer_unsubscribe :: "nat \<Rightarrow> ecu \<Rightarrow> ecu \<times> unit result" where
  "timer_unsubscribe a s =
     (if a \<in> set (ec_timer_vector s) then (s\<lparr>ec_timer_vector := remove1 a (ec_timer_vector s)\<rparr>, Inr ())
      else (s, Inl ValueError))"

definition ecu_poll_devices :: "globals \<Rightarrow> real \<Rightarrow> ecu \<Rightarrow> ecu \<times> unit result" where
  "ecu_poll_devices g now s =
     (case ec_applications s of [] \<Rightarrow> (s, Inl IndexError) | a # _ \<Rightarrow> send_address_claim g now a s)"

definition register_application :: "string \<Rightarrow> nat \<Rightarrow> ecu \<Rightarrow> ecu" where
  "register_application name a s = s\<lparr>ec_register := dict_set name a (ec_register s)\<rparr>"

text \<open>\<^verbatim>\<open>DeviceReplaySimulator.input_message\<close>: what it puts on the bus, if anything.\<close>

definition input_message :: "nat \<Rightarrow> nat \<Rightarrow> bytes \<Rightarrow> ecu \<Rightarrow> ecu \<times> unit result" where
  "input_message a can_id data s =
     with_app a s (\<lambda>p.
       if ap_state p \<noteq> ACTIVE then (s, Inr ())
       else if pgn_for_controller (fst (pgn_pdu1_adjust (drop_bit 8 can_id AND 0x1FFFF))) then (s, Inr ())
       else case put_can_msg ((can_id AND 0xFFFFF00) OR dv_address p) data (ec_can s) of
              (can, r) \<Rightarrow> (s\<lparr>ec_can := can\<rparr>, map_sum id (\<lambda>_. ()) r))"

section \<open>Lemmas\<close>

text \<open>The field of the definition of PGN 60928, as its XML element gives it.\<close>

definition claim_xml :: field_xml where
  "claim_xml =
     \<lparr>fx_class = NameField, fx_name = ''System ISO Name'', fx_bit_offset = Some 0, fx_bit_length = Some 64,
      fx_description = Some ''ISO Identity Number'', fx_scale = None, fx_offset = None, fx_pairs = None,
      fx_global_bits = None\<rparr>"

definition claims_known :: "globals \<Rightarrow> bool" where
  "claims_known g \<longleftrightarrow>
     (\<exists>d f. pgn_definition (gl_defs g) 60928 0 = Inr (Some d) \<and> new_field claim_xml = Inr f
        \<and> pd_field_list d = [ISub (SField f)])"

lemma claim_decoded:
  assumes "claims_known g" "m_pgn m = 60928" "length (m_payload m) = 8"
  shows "claim_of_message (gl_defs g) m
    = Inr \<lparr>ac_sa = m_sa m, ac_da = m_da m, ac_prio = 7, ac_name = new_name (m_payload m)\<rparr>"
proof -
  obtain d f where d: "pgn_definition (gl_defs g) 60928 0 = Inr (Some d)" "new_field claim_xml = Inr f"
    "pd_field_list d = [ISub (SField f)]"
    using assms(1) by (auto simp: claims_known_def)
  have f: "fl_class f = NameField" "fl_name f = ''System ISO Name''" "fl_start_byte f = 0" "fl_byte_length f = 8"
    using d(2) by (auto simp: new_field_def claim_xml_def is_enum_class_def extract_values_param_def
        field_coder_def Let_def)
  have "py_slice (m_payload m) 0 8 = m_payload m" using assms(3) by (simp add: py_slice_to_nonneg)
  then have "field_decode f (m_payload m) 0
      = Inr ((new_result ''System ISO Name'')\<lparr>rs_value := VName (le_decode (m_payload m)), rs_length := 8\<rparr>)"
    using f assms(3) by (simp add: field_decode_def decode_value_def Let_def)
  then have "decode_pgn_data d (m_payload m) = Inr [(''System ISO Name'', VName (le_decode (m_payload m)))]"
    by (simp add: decode_pgn_data_def d(3) store_result_def new_result_def)
  then show ?thesis
    using d(1) assms(2) le_encode_decode_n [OF assms(3)]
    by (simp add: claim_of_message_def object_check_def from_message_def msg_decode_def get_name_field_def)
qed

lemma claim_message_eq:
  "claim_message now c =
     Inr \<lparr>m_pgn = 60928, m_prio = ac_prio c, m_sa = ac_sa c, m_da = ac_da c, m_is_iso = True, m_ts = now,
          m_fast_packet = False, m_payload = nm_bytes (ac_name c)\<rparr>"
  by (simp add: claim_message_def new_n2k_msg_def msg_is_iso_def pgn_service_def msg_fast_packet_def)

text \<open>A single frame goes to the end of the queue of the CAN interface.\<close>

definition room :: "ecu \<Rightarrow> bool" where
  "room s \<longleftrightarrow> length (q_items (if_in_queue (ec_can s))) < q_max (if_in_queue (ec_can s))"

definition queue_frame :: "n2k_msg \<Rightarrow> ecu \<Rightarrow> ecu" where
  "queue_frame m s =
     (let can = ec_can s; q = if_in_queue can in
      s\<lparr>ec_can := can\<lparr>if_in_queue := q\<lparr>q_items := q_items q @ [\<lparr>cf_id = build_arbitration_id m, cf_data = m_payload m\<rparr>]\<rparr>,
                      if_write_errors := 0\<rparr>\<rparr>)"

lemma ecu_send_single:
  "room s \<Longrightarrow> \<not> m_fast_packet m \<Longrightarrow> ecu_send (Inr m) True s = (queue_frame m s, Inr ())"
  by (simp add: ecu_send_def can_send_def put_can_msg_room room_def queue_frame_def Let_def)

lemma queue_frame_simps [simp]:
  "ec_store (queue_frame m s) = ec_store s" "ec_change (queue_frame m s) = ec_change s"
  "ec_applications (queue_frame m s) = ec_applications s" "ec_app_timer (queue_frame m s) = ec_app_timer s"
  "q_items (if_in_queue (ec_can (queue_frame m s)))
     = q_items (if_in_queue (ec_can s)) @ [\<lparr>cf_id = build_arbitration_id m, cf_data = m_payload m\<rparr>]"
  by (simp_all add: queue_frame_def Let_def)

lemma set_app_simps [simp]:
  "ec_change (set_app a f s) = ec_change s" "ec_can (set_app a f s) = ec_can s" "room (set_app a f s) = room s"
  "network_addresses (set_app a f s) = network_addresses s" "ec_pool (set_app a f s) = ec_pool s"
  "ec_applications (set_app a f s) = ec_applications s" "ec_app_timer (set_app a f s) = ec_app_timer s"
  "dict_get (ec_store (set_app a f s)) b
     = (if b = a then map_option f (dict_get (ec_store s) a) else dict_get (ec_store s) b)"
  by (simp_all add: set_app_def room_def network_addresses_def py_dicts split: option.splits)

lemma free_address_cases:
  "free_address used as i = (j, a) \<Longrightarrow> a = 254 \<or> a \<in> set as \<and> a \<notin> set used"
  by (induction used as i rule: free_address.induct) (auto split: if_splits)

lemma get_new_address_cases:
  assumes "get_new_address used p = (p1, a)" "a \<noteq> 254"
  shows "a \<in> set (po_addresses p) \<and> a \<notin> set used"
proof -
  obtain j where "free_address used (drop (po_index p) (po_addresses p)) (po_index p) = (j, a)"
    using assms(1) by (auto simp: get_new_address_def split: prod.splits)
  with free_address_cases assms(2) show ?thesis by (meson in_set_dropD)
qed

text \<open>What arbitration needs of the name of an application.\<close>

definition own_name_ok :: "application \<Rightarrow> bool" where
  "own_name_ok p \<longleftrightarrow> 0 \<le> nm_value (own_name p) \<and> nm_value (own_name p) < 2 ^ 64
     \<and> nm_bytes (own_name p) = le_encode 8 (nat (nm_value (own_name p)))"

definition claim_of :: "real \<Rightarrow> application \<Rightarrow> n2k_msg" where
  "claim_of now p =
     \<lparr>m_pgn = 60928, m_prio = 6, m_sa = dv_address p, m_da = 255, m_is_iso = True, m_ts = now,
      m_fast_packet = False, m_payload = nm_bytes (own_name p)\<rparr>"

lemma name_values:
  assumes "own_name_ok p"
  shows "name_value_of (new_name (nm_bytes (own_name p))) = nm_value (own_name p)"
    and "name_value_of (own_name p) = nm_value (own_name p)"
proof -
  have "nat (nm_value (own_name p)) < 256 ^ 8" using assms by (simp add: own_name_ok_def nat_less_iff)
  then have "nm_value (new_name (nm_bytes (own_name p))) = nm_value (own_name p)"
    using assms by (simp add: own_name_ok_def new_name_def)
  with assms show "name_value_of (new_name (nm_bytes (own_name p))) = nm_value (own_name p)"
    "name_value_of (own_name p) = nm_value (own_name p)"
    by (simp_all add: own_name_ok_def name_value_bounded)
qed

lemma claim_of_decoded:
  "claims_known g \<Longrightarrow> own_name_ok p \<Longrightarrow>
     claim_of_message (gl_defs g) (claim_of now p)
       = Inr \<lparr>ac_sa = dv_address p, ac_da = 255, ac_prio = 7, ac_name = new_name (nm_bytes (own_name p))\<rparr>"
  by (subst claim_decoded) (simp_all add: claim_of_def own_name_ok_def)

lemma respond_eq:
  assumes "claims_known g" "dict_get (ec_store s) a = Some p" "room s"
  shows "respond_address_claim g now a s = (queue_frame (claim_of now p) s, Inr ())"
proof -
  have "object_check (gl_defs g) 60928 = Inr ()"
    using assms(1) by (auto simp: claims_known_def object_check_def)
  then show ?thesis
    using assms by (simp add: respond_address_claim_def with_app_def claim_message_eq new_address_claim_def
        ecu_send_single claim_of_def)
qed

text \<open>The application with the smaller name.\<close>

lemma receipt_wins:
  assumes "claims_known g" "dict_get (ec_store s) a = Some p" "room s" "own_name_ok p" "own_name_ok q"
    and "dv_address q = dv_address p" "nm_value (own_name p) < nm_value (own_name q)"
  shows "address_claim_receipt g now a (claim_of t q) s
    = (queue_frame (claim_of now p)
        (if ap_claim_timer p \<noteq> NoTimer then set_app a (\<lambda>p. p\<lparr>ap_claim_timer := Cancelled\<rparr>) s else s), Inr ())"
proof -
  let ?s1 = "if ap_claim_timer p \<noteq> NoTimer then set_app a (\<lambda>p. p\<lparr>ap_claim_timer := Cancelled\<rparr>) s else s"
  let ?p1 = "if ap_claim_timer p \<noteq> NoTimer then p\<lparr>ap_claim_timer := Cancelled\<rparr> else p"
  have "respond_address_claim g now a ?s1 = (queue_frame (claim_of now ?p1) ?s1, Inr ())"
    using assms(1-3) by (intro respond_eq) auto
  moreover have "claim_of now ?p1 = claim_of now p" by (simp add: claim_of_def own_name_def)
  ultimately show ?thesis
    using assms claim_of_decoded [OF assms(1,5), of t] name_values [OF assms(4)] name_values [OF assms(5)]
    by (simp add: address_claim_receipt_def with_app_def claim_of_def Let_def)
qed

lemma stop_request_twice: "stop_request (stop_request p) = stop_request p"
  by (simp add: stop_request_def)

lemma stop_all:
  "dict_get (ec_store (fold (\<lambda>a. set_app a stop_request) as s)) b
     = (if b \<in> set as then map_option stop_request (dict_get (ec_store s) b) else dict_get (ec_store s) b)"
  by (induction as arbitrary: s) (auto simp: option.map_comp comp_def stop_request_twice)

lemma ecu_stop_eq:
  assumes "ec_app_timer s \<noteq> NoTimer" "a \<in> set (ec_applications s)" "dict_get (ec_store s) a = Some p"
  shows "\<exists>s1. ecu_stop s = (s1, Inr ()) \<and> dict_get (ec_store s1) a = Some (stop_request p) \<and> ct_stop s1"
  using assms by (simp add: ecu_stop_def controller_stop_def stop_all)

lemma change_address_eq:
  assumes "claims_known g" "dict_get (ec_store s) a = Some p" "room s" "ec_change s = None"
  shows "\<exists>s1 p1. change_address g now a address s = (s1, Inr ()) \<and> dict_get (ec_store s1) a = Some p1
    \<and> dv_address p1 = address \<and> ec_change s1 = Some (a, dv_address p)"
proof -
  let ?p = "p\<lparr>dv_address := address\<rparr>"
  let ?s = "(set_app a (\<lambda>p. p\<lparr>dv_address := address\<rparr>) s)\<lparr>ec_change := Some (a, dv_address p)\<rparr>"
  have p: "dict_get (ec_store ?s) a = Some ?p" using assms(2) by simp
  have r: "room ?s" using assms(3) by (simp add: room_def)
  have c: "change_address g now a address s = send_address_claim g now a ?s"
    using assms by (simp add: change_address_def with_app_def then_do_def change_application_address_def)
  show ?thesis
  proof (cases "ap_state p = STOP_IN_PROGRESS")
    case True
    with p c show ?thesis by (auto simp: send_address_claim_def with_app_def)
  next
    case False
    with p c respond_eq [OF assms(1) p r, of now] show ?thesis
      by (auto simp: send_address_claim_def with_app_def then_do_def)
  qed
qed

text \<open>The application with the larger name.\<close>

lemma receipt_loses:
  assumes "claims_known g" "dict_get (ec_store s) a = Some p" "room s" "own_name_ok p" "own_name_ok q"
    and "dv_address q = dv_address p" "nm_value (own_name q) < nm_value (own_name p)"
    and "ec_change s = None" "ec_app_timer s \<noteq> NoTimer" "a \<in> set (ec_applications s)"
    and "dv_address p \<in> set (network_addresses s)"
  shows "\<exists>s1 p1. address_claim_receipt g now a (claim_of t q) s = (s1, Inr ()) \<and> dict_get (ec_store s1) a = Some p1
    \<and> (ap_state p1 = STOP_IN_PROGRESS \<and> ct_stop s1
       \<or> dv_address p1 \<noteq> dv_address p \<and> dv_address p1 \<notin> set (network_addresses s)
         \<and> ec_change s1 = Some (a, dv_address p))"
proof -
  let ?s1 = "if ap_claim_timer p \<noteq> NoTimer then set_app a (\<lambda>p. p\<lparr>ap_claim_timer := Cancelled\<rparr>) s else s"
  let ?p1 = "if ap_claim_timer p \<noteq> NoTimer then p\<lparr>ap_claim_timer := Cancelled\<rparr> else p"
  obtain pool address where new: "get_new_address (network_addresses s) (ec_pool s) = (pool, address)"
    by (cases "get_new_address (network_addresses s) (ec_pool s)") auto
  let ?s2 = "?s1\<lparr>ec_pool := pool\<rparr>"
  have s2: "dict_get (ec_store ?s2) a = Some ?p1" "room ?s2" "ec_change ?s2 = None" "ec_app_timer ?s2 \<noteq> NoTimer"
    "a \<in> set (ec_applications ?s2)"
    using assms(2,3,8-10) by (simp_all add: room_def)
  have p1: "dv_address ?p1 = dv_address p" by simp
  have unfolded: "address_claim_receipt g now a (claim_of t q) s =
      (if address = 254 then
         then_do (ecu_send (claim_message now (new_address_claim address (own_name p) (dv_address p))) True ?s2) ecu_stop
       else change_address g now a address ?s2)"
    using assms claim_of_decoded [OF assms(1,5), of t] name_values [OF assms(4)] name_values [OF assms(5)] new
    by (simp add: address_claim_receipt_def with_app_def claim_of_def Let_def)
  show ?thesis
  proof (cases "address = 254")
    case True
    obtain m where m: "claim_message now (new_address_claim address (own_name p) (dv_address p)) = Inr m"
      "\<not> m_fast_packet m" by (simp add: claim_message_eq)
    then have "address_claim_receipt g now a (claim_of t q) s = ecu_stop (queue_frame m ?s2)"
      using unfolded True ecu_send_single [OF s2(2) m(2)] by (simp add: then_do_def)
    moreover obtain s3 where "ecu_stop (queue_frame m ?s2) = (s3, Inr ())"
      "dict_get (ec_store s3) a = Some (stop_request ?p1)" "ct_stop s3"
      using ecu_stop_eq [of "queue_frame m ?s2" a ?p1] s2 unfolding queue_frame_simps by blast
    ultimately show ?thesis by (auto simp: stop_request_def)
  next
    case False
    then have "address \<notin> set (network_addresses s)" using get_new_address_cases [OF new] by simp
    moreover from this have "address \<noteq> dv_address p" using assms(11) by auto
    moreover obtain s3 p3 where "change_address g now a address ?s2 = (s3, Inr ())" "dict_get (ec_store s3) a = Some p3"
      "dv_address p3 = address" "ec_change s3 = Some (a, dv_address p)"
      using change_address_eq [OF assms(1) s2(1-3), of now address] unfolding p1 by blast
    ultimately show ?thesis using unfolded False by auto
  qed
qed

section \<open>Properties\<close>

text \<open>C32. Arbitration of an address between two nodes: when two applications claim the same address with different
  names and each receives the claim of the other, the one with the smaller name keeps the address and
  claims it again, the other one takes an address that nobody has on the network as it knows it, with the
  tables to be updated, or goes off line.\<close>

theorem address_arbitration:
  assumes "claims_known g"
    and "dict_get (ec_store sa) a = Some p" "room sa" "own_name_ok p"
    and "dict_get (ec_store sb) b = Some q" "room sb" "own_name_ok q"
    and "dv_address q = dv_address p" "nm_value (own_name p) < nm_value (own_name q)"
    and "ec_change sb = None" "ec_app_timer sb \<noteq> NoTimer" "b \<in> set (ec_applications sb)"
    and "dv_address q \<in> set (network_addresses sb)"
  shows "\<exists>sa1 p1 sb1 q1.
      address_claim_receipt g now a (claim_of t q) sa = (sa1, Inr ()) \<and> dict_get (ec_store sa1) a = Some p1
    \<and> address_claim_receipt g now b (claim_of t p) sb = (sb1, Inr ()) \<and> dict_get (ec_store sb1) b = Some q1
    \<and> dv_address p1 = dv_address p
    \<and> q_items (if_in_queue (ec_can sa1)) = q_items (if_in_queue (ec_can sa))
        @ [\<lparr>cf_id = build_arbitration_id (claim_of now p), cf_data = nm_bytes (own_name p)\<rparr>]
    \<and> (ap_state q1 = STOP_IN_PROGRESS \<and> ct_stop sb1
       \<or> dv_address q1 \<noteq> dv_address p1 \<and> dv_address q1 \<notin> set (network_addresses sb)
         \<and> ec_change sb1 = Some (b, dv_address q))"
proof -
  obtain sb1 q1 where sb1: "address_claim_receipt g now b (claim_of t p) sb = (sb1, Inr ())"
    "dict_get (ec_store sb1) b = Some q1"
    "ap_state q1 = STOP_IN_PROGRESS \<and> ct_stop sb1
       \<or> dv_address q1 \<noteq> dv_address q \<and> dv_address q1 \<notin> set (network_addresses sb)
         \<and> ec_change sb1 = Some (b, dv_address q)"
    using receipt_loses [OF assms(1,5-7,4) _ assms(9-13), of now t] assms(8) by auto
  let ?sa = "if ap_claim_timer p \<noteq> NoTimer then set_app a (\<lambda>p. p\<lparr>ap_claim_timer := Cancelled\<rparr>) sa else sa"
  have "address_claim_receipt g now a (claim_of t q) sa = (queue_frame (claim_of now p) ?sa, Inr ())"
    by (rule receipt_wins) (use assms in auto)
  moreover have "\<exists>p1. dict_get (ec_store (queue_frame (claim_of now p) ?sa)) a = Some p1 \<and> dv_address p1 = dv_address p"
    using assms(2) by auto
  moreover have "q_items (if_in_queue (ec_can (queue_frame (claim_of now p) ?sa))) = q_items (if_in_queue (ec_can sa))
      @ [\<lparr>cf_id = build_arbitration_id (claim_of now p), cf_data = nm_bytes (own_name p)\<rparr>]"
    by (simp add: claim_of_def)
  ultimately show ?thesis using sb1 assms(8) by metis
qed

text \<open>The application that wins an arbitration while it claims its address never leaves the claim by itself:
  its claim timer is cancelled and not started again, its state stays ADDRESS_CLAIM, and the lock that
  the start of the next application waits for stays as it was.\<close>

theorem arbitration_winner_inactive:
  assumes "claims_known g"
    and "dict_get (ec_store s) a = Some p" "room s" "own_name_ok p" "own_name_ok q"
    and "dv_address q = dv_address p" "nm_value (own_name p) < nm_value (own_name q)"
    and "ap_state p = ADDRESS_CLAIM" "ap_claim_timer p = Running"
  shows "\<exists>s1 p1. address_claim_receipt g now a (claim_of t q) s = (s1, Inr ()) \<and> dict_get (ec_store s1) a = Some p1
    \<and> ap_state p1 = ADDRESS_CLAIM \<and> ap_claim_timer p1 = Cancelled \<and> ec_start_lock s1 = ec_start_lock s"
proof -
  have "ec_start_lock (queue_frame m (set_app a f s)) = ec_start_lock s" for m f
    by (simp add: queue_frame_def set_app_def Let_def split: option.split)
  then show ?thesis
    using receipt_wins [OF assms(1-7), of now t] assms(2,8,9) by simp
qed

text \<open>Two nodes with one application each, at the address 128.\<close>

definition sample_claims :: globals where
  "sample_claims =
     sample_globals\<lparr>gl_defs := new_pgn_definitions
       \<lparr>pgn_defs := [(60928, PgnEntry (sample_pgn [ISub (SField (projr (new_field claim_xml)))]))]\<rparr>\<rparr>"

definition sample_application :: "int \<Rightarrow> application" where
  "sample_application v =
     (new_application 0 128 \<lparr>nm_value = v, nm_bytes = le_encode 8 (nat v), nm_dict = Some []\<rparr>
        \<lparr>pi_nmea2000_version = 2100, pi_product_code = 1226, pi_model_id = [], pi_software_version = [],
         pi_model_version = [], pi_serial_code = [], pi_certification = 1, pi_load = 1\<rparr>
        \<lparr>ci_installation_1 = [], ci_installation_2 = [], ci_manufacturer_info = []\<rparr>)
       \<lparr>ap_state := ADDRESS_CLAIM, ap_claim_timer := Running\<rparr>"

definition sample_ecu :: "int \<Rightarrow> ecu" where
  "sample_ecu v =
     \<lparr>ct_devices = [(128, Local 0)], ct_lock = False, ct_queue = new_queue 60, ct_alive = True, ct_stop = False,
      ct_max_silent = 60, ct_subscribers = [], ec_can = new_can_if (new_queue 60), ec_can_stop = False,
      ec_store = [(0, sample_application v)], ec_next_id = 1, ec_applications = [0], ec_app_index = [(128, 0)],
      ec_pool = new_pool 999 0 8 128, ec_change = None, ec_start_lock = True, ec_pgn_vector = [],
      ec_catch_all = [], ec_app_timer = Running, ec_timer_vector = [], ec_register = [], ec_subs = []\<rparr>"

lemma sample_claims_known: "claims_known sample_claims"
proof -
  have "\<exists>f. new_field claim_xml = Inr f"
    by (simp add: new_field_def claim_xml_def is_enum_class_def extract_values_param_def field_coder_def Let_def)
  then show ?thesis
    by (auto simp: claims_known_def sample_claims_def sample_globals_def pgn_definition_def sample_pgn_def
        new_pgn_definitions_def)
qed

lemma sample_application_facts:
  "dict_get (ec_store (sample_ecu v)) 0 = Some (sample_application v)" "room (sample_ecu v)"
  "own_name (sample_application v) = \<lparr>nm_value = v, nm_bytes = le_encode 8 (nat v), nm_dict = Some []\<rparr>"
  "0 \<le> v \<Longrightarrow> v < 2 ^ 64 \<Longrightarrow> own_name_ok (sample_application v)"
  "dv_address (sample_application v) = 128" "ap_state (sample_application v) = ADDRESS_CLAIM"
  "ap_claim_timer (sample_application v) = Running"
  "ec_change (sample_ecu v) = None" "ec_app_timer (sample_ecu v) = Running" "ec_applications (sample_ecu v) = [0]"
  "network_addresses (sample_ecu v) = [128]"
  by (simp_all add: sample_ecu_def sample_application_def room_def own_name_ok_def own_name_def new_application_def
      network_addresses_def new_can_if_def new_queue_def)

theorem address_arbitration_witness:
  "\<exists>sa1 p1 sb1 q1.
      address_claim_receipt sample_claims 1 0 (claim_of 0 (sample_application 9)) (sample_ecu 5) = (sa1, Inr ())
    \<and> dict_get (ec_store sa1) 0 = Some p1
    \<and> address_claim_receipt sample_claims 1 0 (claim_of 0 (sample_application 5)) (sample_ecu 9) = (sb1, Inr ())
    \<and> dict_get (ec_store sb1) 0 = Some q1
    \<and> dv_address p1 = dv_address (sample_application 5)
    \<and> q_items (if_in_queue (ec_can sa1)) = q_items (if_in_queue (ec_can (sample_ecu 5)))
        @ [\<lparr>cf_id = build_arbitration_id (claim_of 1 (sample_application 5)),
             cf_data = nm_bytes (own_name (sample_application 5))\<rparr>]
    \<and> (ap_state q1 = STOP_IN_PROGRESS \<and> ct_stop sb1
       \<or> dv_address q1 \<noteq> dv_address p1 \<and> dv_address q1 \<notin> set (network_addresses (sample_ecu 9))
         \<and> ec_change sb1 = Some (0, dv_address (sample_application 9)))"
  by (rule address_arbitration) (simp_all add: sample_claims_known sample_application_facts)

theorem arbitration_winner_inactive_witness:
  "\<exists>s1 p1. address_claim_receipt sample_claims 1 0 (claim_of 0 (sample_application 9)) (sample_ecu 5) = (s1, Inr ())
    \<and> dict_get (ec_store s1) 0 = Some p1 \<and> ap_state p1 = ADDRESS_CLAIM \<and> ap_claim_timer p1 = Cancelled
    \<and> ec_start_lock s1 = ec_start_lock (sample_ecu 5)"
  by (rule arbitration_winner_inactive [where p = "sample_application 5"]) (simp_all add: sample_claims_known sample_application_facts)

end
