(* ===== verification/PyFloat.thy ===== *)
theory PyFloat
  imports PyText
begin

text \<open>
  Numbers with a fraction in text: what \<^verbatim>\<open>float(text)\<close> accepts and \<^verbatim>\<open>'%.<n>f' % x\<close> writes. Floats are
  reals in the model, so the infinities and the not-a-number that \<^verbatim>\<open>float\<close> also accepts are outside it
  (the result is \<open>NotModelled\<close>), as are digits outside ASCII.
\<close>

section \<open>Reading\<close>

definition is_dec :: "byte \<Rightarrow> bool" where
  "is_dec b \<longleftrightarrow> 48 \<le> unat b \<and> unat b \<le> 57"

definition dec_value :: "bytes \<Rightarrow> nat" where
  "dec_value ds = number_of 10 (map (\<lambda>b. unat b - 48) ds)"

text \<open>The exponent part, after the letter.\<close>

definition parse_exponent :: "bytes \<Rightarrow> int option" where
  "parse_exponent bs =
     (let (neg, ds) = (case bs of [] \<Rightarrow> (False, []) | b # r \<Rightarrow> if b = 45 then (True, r)
                        else if b = 43 then (False, r) else (False, b # r))
      in if ds = [] \<or> \<not> list_all is_dec ds then None
         else Some (if neg then - int (dec_value ds) else int (dec_value ds)))"

definition scale_ten :: "int \<Rightarrow> real \<Rightarrow> real" where
  "scale_ten e x = (if 0 \<le> e then x * 10 ^ nat e else x / 10 ^ nat (- e))"

definition lower_case :: "byte \<Rightarrow> byte" where
  "lower_case b = (if 65 \<le> unat b \<and> unat b \<le> 90 then b + 32 else b)"

text \<open>Without blanks and sign: digits, a point and digits, one of the two possibly empty, an exponent.\<close>

definition parse_ufloat :: "bytes \<Rightarrow> real result" where
  "parse_ufloat bs =
     (let ip = takeWhile is_dec bs; r = dropWhile is_dec bs;
          (fp, r2) = (case r of [] \<Rightarrow> ([], r)
                      | c # r1 \<Rightarrow> if c = 46 then (takeWhile is_dec r1, dropWhile is_dec r1) else ([], r));
          x = real (dec_value (ip @ fp)) / 10 ^ length fp
      in if map lower_case bs \<in> set (map (map of_char) [''inf'', ''infinity'', ''nan'']) then Inl NotModelled
         else if ip = [] \<and> fp = [] then Inl ValueError
         else case r2 of
           [] \<Rightarrow> Inr x
         | c # r3 \<Rightarrow>
             if c \<in> {69, 101}
             then (case parse_exponent r3 of Some e \<Rightarrow> Inr (scale_ten e x) | None \<Rightarrow> Inl ValueError)
             else Inl ValueError)"

definition parse_float :: "bytes \<Rightarrow> real result" where
  "parse_float bs =
     (case strip_with is_space bs of
        [] \<Rightarrow> Inl ValueError
      | b # r \<Rightarrow>
          if b = 45 then map_sum id uminus (parse_ufloat r)
          else if b = 43 then parse_ufloat r else parse_ufloat (b # r))"

text \<open>The same on a text, whose characters outside ASCII are not modelled.\<close>

definition on_ascii :: "(bytes \<Rightarrow> 'a result) \<Rightarrow> ustr \<Rightarrow> 'a result" where
  "on_ascii f s = (if \<forall>c \<in> set s. c < 128 then f (map of_nat s) else Inl NotModelled)"

definition float_of_str :: "ustr \<Rightarrow> real result" where
  "float_of_str s = on_ascii parse_float s"

definition int_of_str :: "ustr \<Rightarrow> int result" where
  "int_of_str s = on_ascii (parse_int 10) s"

section \<open>Writing\<close>

definition dec_text :: "nat \<Rightarrow> ustr" where
  "dec_text n = map ((+) 48) (digits_in 10 n)"

text \<open>\<^verbatim>\<open>'%.<p>f' % x\<close>: the sign is written also where the digits round to zero.\<close>

definition fmt_fixed :: "nat \<Rightarrow> real \<Rightarrow> ustr" where
  "fmt_fixed p x =
     (let n = nat (py_round (\<bar>x\<bar> * 10 ^ p))
      in (if x < 0 then [45] else []) @ dec_text (n div 10 ^ p)
           @ (if p = 0 then [] else 46 # pad_left 48 p (dec_text (n mod 10 ^ p))))"

section \<open>Lemmas\<close>

lemma is_dec_byte: "d < 10 \<Longrightarrow> is_dec (dec_byte d)"
  by (simp add: is_dec_def unat_dec_byte)

lemma dec_bytes_is_dec: "list_all is_dec (dec_bytes n)"
  using set_dec_bytes by (auto simp: list_all_iff is_dec_def)

lemma dec_bytes_ne [simp]: "dec_bytes n \<noteq> []"
  by (simp add: dec_bytes_def)

lemma dec_value_bytes: "dec_value (dec_bytes n) = n"
proof -
  have "map (\<lambda>b. unat b - 48) (dec_bytes n) = digits_in 10 n"
    unfolding dec_bytes_def map_map
    by (rule map_idI) (use digits_less [of 10] unat_dec_byte in auto)
  then show ?thesis by (simp add: dec_value_def number_of_digits)
qed

lemma parse_ufloat_digits:
  assumes "ds \<noteq> []" "list_all is_dec ds"
  shows "parse_ufloat ds = Inr (real (dec_value ds))"
proof -
  have "takeWhile is_dec ds = ds" "dropWhile is_dec ds = []"
    using assms(2) by (simp_all add: list_all_iff)
  moreover have "map lower_case ds \<notin> set (map (map of_char) [''inf'', ''infinity'', ''nan''])"
  proof -
    obtain b r where ds: "ds = b # r" using assms(1) by (cases ds) auto
    then have u: "48 \<le> unat b" "unat b \<le> 57" using assms(2) by (auto simp: is_dec_def)
    then have "lower_case b = b" by (auto simp: lower_case_def)
    moreover have "b \<noteq> 105" "b \<noteq> 110" using u by auto
    ultimately show ?thesis by (auto simp: ds)
  qed
  ultimately show ?thesis using assms(1) by (simp add: parse_ufloat_def Let_def del: dropWhile_eq_Nil_conv takeWhile_eq_all_conv list.set_map)
qed

lemma parse_float_dec: "parse_float (dec_bytes n) = Inr (real n)"
proof -
  have sp: "strip_with is_space (dec_bytes n) = dec_bytes n"
    using set_dec_bytes by (intro strip_plain) (fastforce simp: is_space_def)
  obtain b r where b: "dec_bytes n = b # r" by (cases "dec_bytes n") auto
  then have "48 \<le> unat b" using set_dec_bytes [of b n] by simp
  then have "b \<noteq> 45" "b \<noteq> 43" by auto
  with sp b show ?thesis
    using parse_ufloat_digits [OF dec_bytes_ne dec_bytes_is_dec, of n]
      dec_value_bytes [of n]
    by (simp add: parse_float_def)
qed

lemma dec_text_bytes: "map of_nat (dec_text n) = dec_bytes n" "\<forall>c \<in> set (dec_text n). c < 128"
proof -
  show "map of_nat (dec_text n) = dec_bytes n" by (simp add: dec_text_def dec_bytes_def dec_byte_def)
  show "\<forall>c \<in> set (dec_text n). c < 128"
    using digits_less [of 10 _ n] by (force simp: dec_text_def)
qed

lemma float_of_dec_text: "float_of_str (dec_text n) = Inr (real n)"
  using dec_text_bytes [of n] by (simp add: float_of_str_def on_ascii_def parse_float_dec)

end
