(* ===== verification/VeDirect.thy ===== *)
theory VeDirect
  imports Nmea0183 Queues PyFloat Hex
begin

text \<open>
  The Victron coupler, \<^verbatim>\<open>couplers/vedirect_coupler.py\<close>: the byte by byte reader of the VE.Direct text
  protocol with its checksum and its buffer, the thread around it, the HEX commands, the reader of the
  traces it writes, the values of a message and the NMEA 0183 sentence made of them. The serial line is
  the list of what each read returns; the calls of the logger leave no trace in the model.
\<close>

section \<open>The reader\<close>

datatype vd_state = VdHex | VdWaitHeader | VdInKey | VdInValue | VdInChecksum

text \<open>A value of the dictionary: the text received, or the time \<^verbatim>\<open>run\<close> stores under 'timestamp'.\<close>

datatype ve_value = VeText ustr | VeTime real

type_synonym ve_dict = "(ustr, ve_value) dict"

record vedirect =
  vd_key :: ustr
  vd_value :: ustr
  vd_sum :: nat
  vd_state :: vd_state
  vd_dict :: ve_dict
  vd_stop :: bool
  vd_buffer :: bytes
  vd_buflen :: nat
  vd_send :: bytes
  vd_trace :: "bytes list option"

definition new_vedirect :: "bool \<Rightarrow> vedirect" where
  "new_vedirect trace_input =
     \<lparr>vd_key = [], vd_value = [], vd_sum = 0, vd_state = VdWaitHeader, vd_dict = [], vd_stop = False,
      vd_buffer = replicate 512 0, vd_buflen = 0, vd_send = (replicate 32 0)[0 := 58],
      vd_trace = (if trace_input then Some [] else None)\<rparr>"

definition vd_set_stop :: "vedirect \<Rightarrow> vedirect" where
  "vd_set_stop s = s\<lparr>vd_stop := True\<rparr>"

text \<open>\<^verbatim>\<open>input\<close>: one byte, and the dictionary when it ends a block with a right checksum. \<^verbatim>\<open>receive_hex_resp\<close>
  only logs. A byte that does not fit in the buffer empties the buffer and is dropped.\<close>

definition vd_input :: "byte \<Rightarrow> vedirect \<Rightarrow> vedirect \<times> ve_dict option" where
  "vd_input b s =
     (case py_set (vd_buffer s) (int (vd_buflen s)) b of
        Inl _ \<Rightarrow> (s\<lparr>vd_buflen := 0\<rparr>, None)
      | Inr buf \<Rightarrow>
          let s1 = s\<lparr>vd_buffer := buf, vd_buflen := vd_buflen s + 1\<rparr>;
              s2 = (if b = 58 \<and> vd_state s1 \<noteq> VdInChecksum then s1\<lparr>vd_state := VdHex\<rparr> else s1);
              s3 = s2\<lparr>vd_sum := vd_sum s2 + unat b\<rparr>
          in case vd_state s2 of
               VdWaitHeader \<Rightarrow>
                 ((if b = 13 then s3\<lparr>vd_state := VdWaitHeader\<rparr>
                   else if b = 10 then s3\<lparr>vd_state := VdInKey\<rparr> else s3), None)
             | VdInKey \<Rightarrow>
                 ((if b = 9
                   then s3\<lparr>vd_state := (if vd_key s3 = text_of ''Checksum'' then VdInChecksum else VdInValue)\<rparr>
                   else s3\<lparr>vd_key := vd_key s3 @ [unat b]\<rparr>), None)
             | VdInValue \<Rightarrow>
                 ((if b = 13
                   then s3\<lparr>vd_state := VdWaitHeader, vd_dict := dict_set (vd_key s3) (VeText (vd_value s3)) (vd_dict s3),
                           vd_key := [], vd_value := []\<rparr>
                   else s3\<lparr>vd_value := vd_value s3 @ [unat b]\<rparr>), None)
             | VdInChecksum \<Rightarrow>
                 let s4 = s3\<lparr>vd_key := [], vd_value := [], vd_state := VdWaitHeader, vd_sum := 0\<rparr>
                 in (s4, if vd_sum s3 mod 256 = 0 then Some (vd_dict s4) else None)
             | VdHex \<Rightarrow>
                 let s4 = s2\<lparr>vd_sum := 0\<rparr>
                 in ((if b = 10 then s4\<lparr>vd_state := VdWaitHeader, vd_buflen := 0\<rparr> else s4), None))"

text \<open>What \<^verbatim>\<open>run\<close> does with a complete dictionary: it is traced, stamped and queued. When the queue
  stays full for a second the dictionary and the buffer are kept. A trace line is the hexadecimal
  text after its prefix.\<close>

definition vd_deliver :: "real \<Rightarrow> vedirect \<Rightarrow> ve_dict bqueue \<Rightarrow> vedirect \<times> ve_dict bqueue" where
  "vd_deliver now s q =
     (let s2 = s\<lparr>vd_trace := map_option (\<lambda>ls. ls @ [hex_of (take (vd_buflen s) (vd_buffer s))]) (vd_trace s),
                vd_dict := dict_set (text_of ''timestamp'') (VeTime now) (vd_dict s)\<rparr>
      in case q_put (vd_dict s2) q of
           Inl _ \<Rightarrow> (s2, q)
         | Inr q1 \<Rightarrow> (s2\<lparr>vd_dict := [], vd_buflen := 0\<rparr>, q1))"

definition vd_byte ::
    "real \<Rightarrow> vedirect \<times> ve_dict bqueue \<Rightarrow> byte \<Rightarrow> vedirect \<times> ve_dict bqueue" where
  "vd_byte now sq b =
     (case sq of (s, q) \<Rightarrow>
        case vd_input b s of (s1, None) \<Rightarrow> (s1, q) | (s1, Some packet) \<Rightarrow> vd_deliver now s1 q)"

text \<open>The thread: at each turn the stop flag, then a read, which returns bytes (none on a timeout) or
  raises. \<open>VdTake\<close> is the coupler taking a message from the queue. The last component tells whether the
  thread still runs.\<close>

datatype vd_event = VdRead real bytes | VdReadError | VdStop | VdTake

fun vd_run ::
    "vedirect \<Rightarrow> ve_dict bqueue \<Rightarrow> vd_event list \<Rightarrow> vedirect \<times> ve_dict bqueue \<times> ve_dict list \<times> bool" where
  "vd_run s q [] = (s, q, [], True)"
| "vd_run s q (VdStop # es) = vd_run (vd_set_stop s) q es"
| "vd_run s q (VdTake # es) =
     (case q_get q of
        Inl _ \<Rightarrow> vd_run s q es
      | Inr (d, q1) \<Rightarrow> (case vd_run s q1 es of (s2, q2, ds, running) \<Rightarrow> (s2, q2, d # ds, running)))"
| "vd_run s q (VdReadError # es) = (s, q, [], False)"
| "vd_run s q (VdRead now data # es) =
     (if vd_stop s then (s, q, [], False)
      else case foldl (vd_byte now) (s, q) data of (s1, q1) \<Rightarrow> vd_run s1 q1 es)"

section \<open>HEX commands\<close>

text \<open>\<^verbatim>\<open>to_bytes(length, 'big')\<close>, which refuses negative numbers and those that do not fit.\<close>

definition be_encode :: "nat \<Rightarrow> int \<Rightarrow> bytes result" where
  "be_encode n v = (if v < 0 \<or> 256 ^ n \<le> v then Inl OverflowError else Inr (rev (le_encode n (nat v))))"

text \<open>\<^verbatim>\<open>.hex().upper()\<close>.\<close>

definition hex_upper :: "bytes \<Rightarrow> bytes" where
  "hex_upper bs = concat (map (\<lambda>b. [hex_byte (unat b div 16), hex_byte (unat b mod 16)]) bs)"

text \<open>The loop over the bytes of a parameter: its counter is never incremented, so it ends with the
  exception of the first index past the end, unless the parameter has no byte.\<close>

function hex_param_sum :: "bytes \<Rightarrow> nat \<Rightarrow> int \<Rightarrow> int result" where
  "hex_param_sum bs start checksum =
     (if length bs = 0 then Inr checksum
      else if start + 1 < length bs
      then hex_param_sum bs (start + 2) (checksum - int (unat (bs ! start) * 16 + unat (bs ! (start + 1))))
      else Inl IndexError)"
  by pat_completeness auto

termination
  by (relation "measure (\<lambda>(bs, start, checksum). length bs - start)") auto

fun hex_params :: "(nat \<times> int) list \<Rightarrow> bytes \<Rightarrow> nat \<Rightarrow> int \<Rightarrow> bytes \<times> (nat \<times> int) result" where
  "hex_params [] buf cmd_size checksum = (buf, Inr (cmd_size, checksum))"
| "hex_params ((l, value) # ps) buf cmd_size checksum =
     (case bind_r (be_encode l value) (\<lambda>bs. map_sum id (Pair bs) (hex_param_sum bs 0 checksum)) of
        Inl e \<Rightarrow> (buf, Inl e)
      | Inr (bs, checksum1) \<Rightarrow>
          hex_params ps (py_assign_from buf cmd_size (hex_upper bs)) (cmd_size + l * 2) checksum1)"

text \<open>\<^verbatim>\<open>send_hex_cmd\<close> up to the write: the bytes that go to the line.\<close>

definition send_hex_cmd :: "int \<Rightarrow> (nat \<times> int) list option \<Rightarrow> vedirect \<Rightarrow> vedirect \<times> bytes result" where
  "send_hex_cmd cmd parameters s =
     (case (if 0 < cmd \<and> cmd < 10 then Inr (0x30 + cmd)
            else if cmd < 17 then Inr (0x31 + cmd) else Inl VEDirectException) of
        Inl e \<Rightarrow> (s, Inl e)
      | Inr hex_cmd \<Rightarrow>
          if hex_cmd < 0 \<or> 255 < hex_cmd then (s, Inl ValueError)
          else
            case py_set (vd_send s) 1 (of_int hex_cmd) of
              Inl e \<Rightarrow> (s, Inl e)
            | Inr buf \<Rightarrow>
                (case (case parameters of None \<Rightarrow> (buf, Inr (2, 0x55 - cmd))
                       | Some ps \<Rightarrow> hex_params ps buf 2 (0x55 - cmd)) of
                   (buf1, Inl e) \<Rightarrow> (s\<lparr>vd_send := buf1\<rparr>, Inl e)
                 | (buf1, Inr (cmd_size, checksum)) \<Rightarrow>
                     (case be_encode 2 checksum of
                        Inl e \<Rightarrow> (s\<lparr>vd_send := buf1\<rparr>, Inl e)
                      | Inr bs \<Rightarrow>
                          let buf2 = py_assign_from buf1 cmd_size (hex_upper bs)
                          in case py_set buf2 (int (cmd_size + 2)) 0x10 of
                               Inl e \<Rightarrow> (s\<lparr>vd_send := buf2\<rparr>, Inl e)
                             | Inr buf3 \<Rightarrow> (s\<lparr>vd_send := buf3\<rparr>, Inr (take (cmd_size + 2 + 1) buf3)))))"

section \<open>Values of a message\<close>

datatype ve_type = VeFloat real | VeStr | VeInt

definition vedirect_fields :: "(string, string \<times> ve_type) dict" where
  "vedirect_fields =
     [(''current'', (''I'', VeFloat (1 / 1000))), (''voltage'', (''V'', VeFloat (1 / 1000))),
      (''panel_power'', (''PPV'', VeFloat 1)), (''product_id'', (''PID'', VeStr)),
      (''firmware'', (''FW'', VeStr)), (''serial'', (''SER#'', VeStr)), (''error'', (''ERR'', VeInt)),
      (''state'', (''CS'', VeInt)), (''mppt_state'', (''MPPT'', VeInt)),
      (''day_max_power'', (''H21'', VeFloat 1)), (''day_power'', (''H20'', VeFloat 10))]"

datatype ve_reading = ReadFloat real | ReadInt int | ReadValue ve_value

definition value_from_message :: "ve_dict \<Rightarrow> string \<Rightarrow> ve_reading result" where
  "value_from_message msg field_name =
     (case dict_get vedirect_fields field_name of
        None \<Rightarrow> Inl KeyError
      | Some (ved_field, field_type) \<Rightarrow>
          (case dict_get msg (text_of ved_field) of
             None \<Rightarrow> Inl KeyError
           | Some v \<Rightarrow>
               (case (field_type, v) of
                  (VeFloat coef, VeText s) \<Rightarrow> map_sum id (\<lambda>x. ReadFloat (x * coef)) (float_of_str s)
                | (VeFloat coef, VeTime t) \<Rightarrow> Inr (ReadFloat (t * coef))
                | (VeInt, VeText s) \<Rightarrow> map_sum id ReadInt (int_of_str s)
                | (VeInt, VeTime t) \<Rightarrow> Inr (ReadInt (if t < 0 then - \<lfloor>- t\<rfloor> else \<lfloor>t\<rfloor>))
                | (VeStr, _) \<Rightarrow> Inr (ReadValue v))))"

text \<open>\<^verbatim>\<open>'%.<p>f' % value_from_message(...)\<close>.\<close>

definition fmt_reading :: "nat \<Rightarrow> ve_reading \<Rightarrow> ustr result" where
  "fmt_reading p r =
     (case r of ReadFloat x \<Rightarrow> Inr (fmt_fixed p x) | ReadInt i \<Rightarrow> Inr (fmt_fixed p (real_of_int i))
      | ReadValue _ \<Rightarrow> Inl TypeError)"

definition mppt_nmea0183 :: "real \<Rightarrow> ustr \<Rightarrow> ve_dict \<Rightarrow> n0183_msg result" where
  "mppt_nmea0183 now talker_id d =
     bind_r (bind_r (value_from_message d ''current'') (fmt_reading 2)) (\<lambda>i.
     bind_r (bind_r (value_from_message d ''voltage'') (fmt_reading 2)) (\<lambda>u.
     bind_r (bind_r (value_from_message d ''panel_power'') (fmt_reading 1)) (\<lambda>w.
       let x1 = add_transducer [73] i [65] (text_of ''MPPT Current'') (new_xdr talker_id);
           x2 = add_transducer [85] u [86] (text_of ''DC Circuit Voltage'') x1;
           x3 = add_transducer [87] w [87] (text_of ''Solar Panel Power'') x2
       in new_n0183 now (sentence_message (xdr_sentence x3)) True None)))"

section \<open>Replay of a trace\<close>

fun split_crlf :: "bytes \<Rightarrow> bytes list" where
  "split_crlf [] = [[]]"
| "split_crlf [a] = [[a]]"
| "split_crlf (a # b # r) =
     (if a = 13 \<and> b = 10 then [] # split_crlf r
      else (case split_crlf (b # r) of [] \<Rightarrow> [[a]] | h # t \<Rightarrow> (a # h) # t))"

text \<open>The loop over the fields of a block: a field must have a label and a value.\<close>

fun ve_log_fields :: "bytes list \<Rightarrow> ve_dict \<Rightarrow> ve_dict result" where
  "ve_log_fields [] d = Inr d"
| "ve_log_fields (f # fs) d =
     (if f = [] then ve_log_fields fs d
      else case split_on 9 f of
        [label, value] \<Rightarrow>
          (if label = map of_char ''Checksum'' then Inr d
           else bind_r (utf8_decode label) (\<lambda>k. bind_r (utf8_decode value) (\<lambda>v.
             ve_log_fields fs (dict_set k (VeText v) d))))
      | _ \<Rightarrow> Inl ValueError)"

definition ve_log_decode :: "bytes \<Rightarrow> ve_dict result" where
  "ve_log_decode message = bind_r (from_hex message) (\<lambda>buffer. ve_log_fields (split_crlf buffer) [])"

text \<open>The replay thread: what each \<^verbatim>\<open>read_message\<close> returns, the end of the file, or another error, whose
  report reads an attribute of the file name. On the queue \<open>None\<close> is the message that ends the stream.\<close>

datatype ve_log_event = VeLogLine bytes | VeLogEof | VeLogError | VeLogStop | VeLogTake

fun ve_log_run ::
    "bool \<Rightarrow> ve_dict option bqueue \<Rightarrow> ve_log_event list
     \<Rightarrow> ve_dict option bqueue \<times> ve_dict option list \<times> (bool \<times> py_error option)" where
  "ve_log_run stop_flag q [] = (q, [], True, None)"
| "ve_log_run stop_flag q (VeLogStop # es) = ve_log_run True q es"
| "ve_log_run stop_flag q (VeLogTake # es) =
     (case q_get q of
        Inl _ \<Rightarrow> ve_log_run stop_flag q es
      | Inr (d, q1) \<Rightarrow> (case ve_log_run stop_flag q1 es of (q2, ds, r) \<Rightarrow> (q2, d # ds, r)))"
| "ve_log_run stop_flag q (VeLogEof # es) =
     (if stop_flag then (q, [], False, None)
      else (q\<lparr>q_items := q_items q @ [None]\<rparr>, [], False, None))"
| "ve_log_run stop_flag q (VeLogError # es) =
     (if stop_flag then (q, [], False, None) else (q, [], False, Some AttributeError))"
| "ve_log_run stop_flag q (VeLogLine message # es) =
     (if stop_flag then (q, [], False, None)
      else case ve_log_decode message of
        Inl e \<Rightarrow> (q, [], False, Some e)
      | Inr d \<Rightarrow>
          (case q_put (Some d) q of
             Inl _ \<Rightarrow> ve_log_run stop_flag q es
           | Inr q1 \<Rightarrow> ve_log_run stop_flag q1 es))"

section \<open>The coupler\<close>

datatype ve_convert = NoConvert | ConvertNmea0183 ustr

datatype ve_out = OutNull | OutDict ve_dict | OutN0183 n0183_msg

text \<open>The choices of the constructor: the interface, and the conversion by the mode of the coupler. The
  talker is the one the options give.\<close>

datatype ve_mode = VeNonNmea | VeNmea0183 | VeOtherMode

definition new_ve_coupler :: "string \<Rightarrow> bool \<Rightarrow> ve_mode \<Rightarrow> ustr \<Rightarrow> (bool \<times> ve_convert) result" where
  "new_ve_coupler interface_name has_logfile m talker_id =
     bind_r (if interface_name = ''serial'' then Inr True
             else if interface_name = ''simulation'' then (if has_logfile then Inr False else Inl ValueError)
             else Inl ValueError) (\<lambda>serial.
     case m of VeNonNmea \<Rightarrow> Inr (serial, NoConvert)
     | VeNmea0183 \<Rightarrow> Inr (serial, ConvertNmea0183 talker_id)
     | VeOtherMode \<Rightarrow> Inl ValueError)"

definition ve_read :: "real \<Rightarrow> ve_convert \<Rightarrow> ve_dict option \<Rightarrow> ve_out result" where
  "ve_read now conv msg =
     (case msg of
        None \<Rightarrow> Inr OutNull
      | Some d \<Rightarrow>
          (case conv of NoConvert \<Rightarrow> Inr (OutDict d)
           | ConvertNmea0183 talker_id \<Rightarrow> map_sum id OutN0183 (mppt_nmea0183 now talker_id d)))"

section \<open>Blocks\<close>

text \<open>A block as a charger sends it: each field on a line of its own, then the checksum that makes the
  sum of all bytes a multiple of 256.\<close>

definition ve_field :: "bytes \<times> bytes \<Rightarrow> bytes" where
  "ve_field kv = 13 # 10 # fst kv @ 9 # snd kv"

definition ve_body :: "(bytes \<times> bytes) list \<Rightarrow> bytes" where
  "ve_body kvs = concat (map ve_field kvs) @ 13 # 10 # map of_char ''Checksum'' @ [9]"

definition byte_sum :: "bytes \<Rightarrow> nat" where
  "byte_sum bs = sum_list (map unat bs)"

definition ve_checksum :: "bytes \<Rightarrow> byte" where
  "ve_checksum bs = of_nat ((256 - byte_sum bs mod 256) mod 256)"

definition ve_block :: "(bytes \<times> bytes) list \<Rightarrow> bytes" where
  "ve_block kvs = ve_body kvs @ [ve_checksum (ve_body kvs)]"

definition ve_fields :: "(bytes \<times> bytes) list \<Rightarrow> ve_dict \<Rightarrow> ve_dict" where
  "ve_fields kvs d = fold (\<lambda>(k, v). dict_set (map unat k) (VeText (map unat v))) kvs d"

definition ve_plain :: "bytes \<times> bytes \<Rightarrow> bool" where
  "ve_plain kv \<longleftrightarrow> set (fst kv) \<inter> {9, 58} = {} \<and> set (snd kv) \<inter> {13, 58} = {}
     \<and> fst kv \<noteq> map of_char ''Checksum''"

text \<open>Between two blocks.\<close>

definition vd_idle :: "vedirect \<Rightarrow> bool" where
  "vd_idle s \<longleftrightarrow> vd_state s = VdWaitHeader \<and> vd_key s = [] \<and> vd_value s = [] \<and> vd_sum s = 0
     \<and> length (vd_buffer s) = 512"

definition put_bytes :: "bytes \<Rightarrow> nat \<Rightarrow> bytes \<Rightarrow> bytes" where
  "put_bytes buf l bs = take l buf @ bs @ drop (l + length bs) buf"

text \<open>The reader after bytes that only fill its buffer and add to its sum.\<close>

definition vd_filled :: "bytes \<Rightarrow> vedirect \<Rightarrow> vedirect" where
  "vd_filled bs s = s\<lparr>vd_sum := vd_sum s + byte_sum bs, vd_buffer := put_bytes (vd_buffer s) (vd_buflen s) bs,
     vd_buflen := vd_buflen s + length bs\<rparr>"

definition vd_room :: "nat \<Rightarrow> vedirect \<Rightarrow> bool" where
  "vd_room n s \<longleftrightarrow> vd_buflen s + n \<le> length (vd_buffer s)"

lemma byte_sum_simps [simp]:
  "byte_sum [] = 0" "byte_sum (b # bs) = unat b + byte_sum bs" "byte_sum (xs @ ys) = byte_sum xs + byte_sum ys"
  by (simp_all add: byte_sum_def)

lemma length_put_bytes [simp]: "l + length bs \<le> length buf \<Longrightarrow> length (put_bytes buf l bs) = length buf"
  by (simp add: put_bytes_def)

lemma put_bytes_Cons:
  "l < length buf \<Longrightarrow> put_bytes (buf[l := b]) (Suc l) bs = put_bytes buf l (b # bs)"
  by (simp add: put_bytes_def take_Suc_conv_app_nth)

lemma put_bytes_Nil [simp]: "put_bytes buf l [] = buf"
  by (simp add: put_bytes_def)

lemma take_put_bytes: "l + length bs \<le> length buf \<Longrightarrow> take (l + length bs) (put_bytes buf l bs) = take l buf @ bs"
  by (simp add: put_bytes_def)

lemma vd_filled_fields [simp]:
  "vd_key (vd_filled bs s) = vd_key s" "vd_value (vd_filled bs s) = vd_value s"
  "vd_state (vd_filled bs s) = vd_state s" "vd_dict (vd_filled bs s) = vd_dict s"
  "vd_sum (vd_filled bs s) = vd_sum s + byte_sum bs" "vd_buflen (vd_filled bs s) = vd_buflen s + length bs"
  "vd_buffer (vd_filled bs s) = put_bytes (vd_buffer s) (vd_buflen s) bs"
  "vd_trace (vd_filled bs s) = vd_trace s"
  by (simp_all add: vd_filled_def)

lemma vd_filled_Nil [simp]: "vd_filled [] s = s"
  by (simp add: vd_filled_def)

lemma vd_filled_Cons:
  "vd_room (Suc 0) s \<Longrightarrow> vd_filled bs (vd_filled [b] s) = vd_filled (b # bs) s"
  by (simp add: vd_filled_def vd_room_def put_bytes_Cons [symmetric])

lemma vd_filled_append:
  "vd_room (length xs) s \<Longrightarrow> vd_filled ys (vd_filled xs s) = vd_filled (xs @ ys) s"
  by (simp add: vd_filled_def vd_room_def put_bytes_def ac_simps)

lemma vd_room_filled [simp]: "vd_room n (vd_filled bs s) = vd_room (length bs + n) s" if "vd_room (length bs) s"
  using that by (simp add: vd_room_def add.assoc)

lemma vd_room_mono: "vd_room n s \<Longrightarrow> m \<le> n \<Longrightarrow> vd_room m s"
  by (simp add: vd_room_def)

text \<open>The bytes the states accept, one by one.\<close>

lemma vd_byte_room:
  assumes "vd_room (Suc n) s"
  shows "py_set (vd_buffer s) (int (vd_buflen s)) b = Inr (put_bytes (vd_buffer s) (vd_buflen s) [b])"
  using assms by (simp add: vd_room_def py_set_def py_pos_def put_bytes_def upd_conv_take_nth_drop)

lemma vd_header:
  assumes "vd_room (Suc n) s" "vd_state s = VdWaitHeader"
  shows "vd_byte now (s, q) 13 = (vd_filled [13] s, q)"
    and "vd_byte now (s, q) 10 = (vd_filled [10] s\<lparr>vd_state := VdInKey\<rparr>, q)"
  using assms(2) by (simp_all add: vd_byte_def vd_input_def vd_byte_room [OF assms(1)] Let_def vd_filled_def)

lemma vd_in_key:
  assumes "vd_room (Suc n) s" "vd_state s = VdInKey"
  shows "b \<noteq> 9 \<Longrightarrow> b \<noteq> 58 \<Longrightarrow> vd_byte now (s, q) b = (vd_filled [b] s\<lparr>vd_key := vd_key s @ [unat b]\<rparr>, q)"
    and "vd_byte now (s, q) 9 = (vd_filled [9] s\<lparr>vd_state :=
           (if vd_key s = text_of ''Checksum'' then VdInChecksum else VdInValue)\<rparr>, q)"
  using assms(2) by (simp_all add: vd_byte_def vd_input_def vd_byte_room [OF assms(1)] Let_def vd_filled_def)

lemma vd_in_value:
  assumes "vd_room (Suc n) s" "vd_state s = VdInValue"
  shows "b \<noteq> 13 \<Longrightarrow> b \<noteq> 58 \<Longrightarrow> vd_byte now (s, q) b = (vd_filled [b] s\<lparr>vd_value := vd_value s @ [unat b]\<rparr>, q)"
    and "vd_byte now (s, q) 13 = (vd_filled [13] s\<lparr>vd_state := VdWaitHeader,
           vd_dict := dict_set (vd_key s) (VeText (vd_value s)) (vd_dict s), vd_key := [], vd_value := []\<rparr>, q)"
  using assms(2) by (simp_all add: vd_byte_def vd_input_def vd_byte_room [OF assms(1)] Let_def vd_filled_def)


lemma vd_filled_update [simp]:
  "vd_filled bs (s\<lparr>vd_key := k\<rparr>) = (vd_filled bs s)\<lparr>vd_key := k\<rparr>"
  "vd_filled bs (s\<lparr>vd_value := k\<rparr>) = (vd_filled bs s)\<lparr>vd_value := k\<rparr>"
  "vd_filled bs (s\<lparr>vd_state := st\<rparr>) = (vd_filled bs s)\<lparr>vd_state := st\<rparr>"
  "vd_filled bs (s\<lparr>vd_dict := d\<rparr>) = (vd_filled bs s)\<lparr>vd_dict := d\<rparr>"
  by (simp_all add: vd_filled_def)

lemma vd_room_update [simp]:
  "vd_room n (s\<lparr>vd_key := k\<rparr>) = vd_room n s" "vd_room n (s\<lparr>vd_value := k\<rparr>) = vd_room n s"
  "vd_room n (s\<lparr>vd_state := st\<rparr>) = vd_room n s" "vd_room n (s\<lparr>vd_dict := d\<rparr>) = vd_room n s"
  by (simp_all add: vd_room_def)

lemma vd_key_bytes:
  assumes "vd_room (length bs) s" "vd_state s = VdInKey" "set bs \<inter> {9, 58} = {}"
  shows "foldl (vd_byte now) (s, q) bs = ((vd_filled bs s)\<lparr>vd_key := vd_key s @ map unat bs\<rparr>, q)"
  using assms
proof (induction bs arbitrary: s)
  case (Cons b bs)
  then have r: "vd_room (Suc (length bs)) s" "vd_room (Suc 0) s" by (auto elim: vd_room_mono)
  with Cons.prems have "vd_byte now (s, q) b = (vd_filled [b] s\<lparr>vd_key := vd_key s @ [unat b]\<rparr>, q)"
    by (intro vd_in_key) auto
  with Cons r show ?case by (simp add: vd_filled_Cons)
qed simp

lemma vd_value_bytes:
  assumes "vd_room (length bs) s" "vd_state s = VdInValue" "set bs \<inter> {13, 58} = {}"
  shows "foldl (vd_byte now) (s, q) bs = ((vd_filled bs s)\<lparr>vd_value := vd_value s @ map unat bs\<rparr>, q)"
  using assms
proof (induction bs arbitrary: s)
  case (Cons b bs)
  then have r: "vd_room (Suc (length bs)) s" "vd_room (Suc 0) s" by (auto elim: vd_room_mono)
  with Cons.prems have "vd_byte now (s, q) b = (vd_filled [b] s\<lparr>vd_value := vd_value s @ [unat b]\<rparr>, q)"
    by (intro vd_in_value) auto
  with Cons r show ?case by (simp add: vd_filled_Cons)
qed simp

text \<open>A line feed after the end of a value stores the field.\<close>

definition vd_settled :: "vedirect \<Rightarrow> vedirect" where
  "vd_settled s =
     (if vd_state s = VdInValue
      then s\<lparr>vd_state := VdWaitHeader, vd_dict := dict_set (vd_key s) (VeText (vd_value s)) (vd_dict s),
             vd_key := [], vd_value := []\<rparr> else s)"

definition vd_between :: "vedirect \<Rightarrow> bool" where
  "vd_between s \<longleftrightarrow> vd_state s = VdInValue \<or> vd_state s = VdWaitHeader \<and> vd_key s = [] \<and> vd_value s = []"

lemma vd_settled_fields [simp]:
  "vd_between s \<Longrightarrow> vd_state (vd_settled s) = VdWaitHeader"
  "vd_between s \<Longrightarrow> vd_key (vd_settled s) = []" "vd_between s \<Longrightarrow> vd_value (vd_settled s) = []"
  "vd_sum (vd_settled s) = vd_sum s" "vd_buffer (vd_settled s) = vd_buffer s"
  "vd_buflen (vd_settled s) = vd_buflen s" "vd_trace (vd_settled s) = vd_trace s"
  "vd_room n (vd_settled s) = vd_room n s"
  "vd_filled bs (vd_settled s) = vd_settled (vd_filled bs s)"
  by (auto simp: vd_settled_def vd_between_def vd_room_def vd_filled_def)

lemma vd_key_line:
  assumes "vd_room (3 + length k) s" "vd_between s" "set k \<inter> {9, 58} = {}"
  shows "foldl (vd_byte now) (s, q) (13 # 10 # k @ [9])
    = ((vd_settled (vd_filled (13 # 10 # k @ [9]) s))
         \<lparr>vd_state := (if map unat k = text_of ''Checksum'' then VdInChecksum else VdInValue),
          vd_key := map unat k\<rparr>, q)"
proof -
  have r: "vd_room (Suc 0) s" "vd_room (Suc (Suc 0)) s" "vd_room (Suc (Suc (length k))) s" "vd_room (Suc (Suc (Suc (length k)))) s"
    using assms(1) by (auto elim!: vd_room_mono)
  have 1: "vd_byte now (s, q) 13 = (vd_settled (vd_filled [13] s), q)"
    using assms(2) vd_header(1) [OF r(1)] vd_in_value(2) [OF r(1)]
    by (auto simp: vd_between_def vd_settled_def)
  let ?s1 = "vd_settled (vd_filled [13] s)"
  have b1: "vd_state ?s1 = VdWaitHeader" "vd_key ?s1 = []"
    using assms(2) by (auto simp: vd_between_def vd_settled_def)
  have r1: "vd_room (Suc 0) ?s1" "vd_room (Suc (length k)) ?s1" "vd_room (Suc (Suc (length k))) ?s1" using r by (auto simp: add.commute)
  have 2: "vd_byte now (?s1, q) 10 = ((vd_filled [10] ?s1)\<lparr>vd_state := VdInKey\<rparr>, q)"
    by (rule vd_header(2) [OF r1(1) b1(1)])
  let ?s2 = "(vd_filled [10] ?s1)\<lparr>vd_state := VdInKey\<rparr>"
  have r2: "vd_room (length k) ?s2" "vd_room (Suc (length k)) ?s2"
    using r1 by (simp_all add: add.commute)
  have 3: "foldl (vd_byte now) (?s2, q) k = ((vd_filled k ?s2)\<lparr>vd_key := vd_key ?s2 @ map unat k\<rparr>, q)"
    by (rule vd_key_bytes [OF r2(1) _ assms(3)]) simp
  let ?s3 = "(vd_filled k ?s2)\<lparr>vd_key := vd_key ?s2 @ map unat k\<rparr>"
  have r3: "vd_room (Suc 0) ?s3" using r2 by simp
  have 4: "vd_byte now (?s3, q) 9 = ((vd_filled [9] ?s3)\<lparr>vd_state :=
      (if vd_key ?s3 = text_of ''Checksum'' then VdInChecksum else VdInValue)\<rparr>, q)"
    by (rule vd_in_key(2) [OF r3]) simp
  have "vd_key (vd_settled (vd_filled [13, 10] s)) = []"
    using assms(2) by (auto simp: vd_between_def vd_settled_def)
  then show ?thesis
    using 1 2 3 4 r by (simp add: vd_filled_append)
qed

lemma vd_field_bytes:
  assumes "vd_room (length (ve_field kv)) s" "vd_between s" "ve_plain kv"
  shows "foldl (vd_byte now) (s, q) (ve_field kv)
    = ((vd_settled (vd_filled (ve_field kv) s))\<lparr>vd_state := VdInValue, vd_key := map unat (fst kv),
        vd_value := map unat (snd kv)\<rparr>, q)"
proof -
  obtain k v where kv: "kv = (k, v)" by (cases kv)
  have inj: "map unat k \<noteq> text_of ''Checksum''"
  proof
    assume "map unat k = text_of ''Checksum''"
    then have "map (of_nat :: nat \<Rightarrow> byte) (map unat k) = map of_nat (text_of ''Checksum'')" by simp
    then have "k = map of_char ''Checksum''" by (simp add: text_of_def o_def)
    with assms(3) show False by (simp add: ve_plain_def kv)
  qed
  have r: "vd_room (3 + length k) s" "vd_room (3 + length k + length v) s"
    using assms(1) by (auto simp: ve_field_def kv elim!: vd_room_mono)
  have p: "set k \<inter> {9, 58} = {}" "set v \<inter> {13, 58} = {}" using assms(3) by (auto simp: ve_plain_def kv)
  note 1 = vd_key_line [OF r(1) assms(2) p(1), of now q]
  let ?s1 = "(vd_settled (vd_filled (13 # 10 # k @ [9]) s))
         \<lparr>vd_state := (if map unat k = text_of ''Checksum'' then VdInChecksum else VdInValue),
          vd_key := map unat k\<rparr>"
  have r1: "vd_room (length v) ?s1" and st: "vd_state ?s1 = VdInValue"
    using r inj by (simp_all add: numeral_3_eq_3)
  note 2 = vd_value_bytes [OF r1 st p(2), of now q]
  have "vd_filled v (vd_filled (13 # 10 # k @ [9]) s) = vd_filled (ve_field kv) s"
    using r by (simp add: vd_filled_append ve_field_def kv numeral_3_eq_3)
  moreover have "vd_value (vd_settled (vd_filled (13 # 10 # k @ [9]) s)) = []"
    using assms(2) by (auto simp: vd_settled_def vd_between_def)
  moreover have "ve_field kv = (13 # 10 # k @ [9]) @ v" by (simp add: ve_field_def kv)
  ultimately show ?thesis
    using 1 2 inj by (simp only: foldl_append) (simp add: kv)
qed

lemma vd_fields_bytes:
  assumes "vd_room (length (concat (map ve_field kvs))) s" "vd_between s" "\<forall>kv \<in> set kvs. ve_plain kv"
  shows "\<exists>s1. foldl (vd_byte now) (s, q) (concat (map ve_field kvs)) = (s1, q) \<and> vd_between s1
    \<and> vd_settled s1 = (vd_filled (concat (map ve_field kvs)) (vd_settled s))
                       \<lparr>vd_dict := ve_fields kvs (vd_dict (vd_settled s))\<rparr>"
  using assms
proof (induction kvs arbitrary: s)
  case (Cons kv kvs)
  let ?f = "ve_field kv"
  let ?s1 = "(vd_settled (vd_filled ?f s))\<lparr>vd_state := VdInValue, vd_key := map unat (fst kv),
        vd_value := map unat (snd kv)\<rparr>"
  have r: "vd_room (length ?f) s" "vd_room (length ?f + length (concat (map ve_field kvs))) s"
    using Cons.prems(1) by (auto elim: vd_room_mono)
  have 1: "foldl (vd_byte now) (s, q) ?f = (?s1, q)"
    using Cons.prems r by (intro vd_field_bytes) auto
  have b: "vd_between ?s1" by (simp add: vd_between_def)
  have st: "vd_settled ?s1 = (vd_filled ?f (vd_settled s))\<lparr>vd_dict := ve_fields [kv] (vd_dict (vd_settled s))\<rparr>"
    using Cons.prems(2)
    by (intro vedirect.equality)
       (auto simp: vd_settled_def vd_between_def vd_filled_def ve_fields_def split: prod.splits)
  obtain s2 where s2: "foldl (vd_byte now) (?s1, q) (concat (map ve_field kvs)) = (s2, q)" "vd_between s2"
    "vd_settled s2 = (vd_filled (concat (map ve_field kvs)) (vd_settled ?s1))
       \<lparr>vd_dict := ve_fields kvs (vd_dict (vd_settled ?s1))\<rparr>"
    using Cons.IH [of ?s1] Cons.prems(3) r b by auto
  have "ve_fields kvs (ve_fields [kv] d) = ve_fields (kv # kvs) d" for d
    by (simp add: ve_fields_def)
  moreover have "vd_filled (concat (map ve_field kvs)) (vd_filled ?f (vd_settled s))
      = vd_filled (concat (map ve_field (kv # kvs))) (vd_settled s)"
    using r(1) by (subst vd_filled_append) simp_all
  ultimately show ?case
    using 1 s2 by (intro exI [of _ s2]) (simp add: st del: vd_settled_fields)
qed (simp add: ve_fields_def)

text \<open>The end of a block: what follows depends on the sum only.\<close>

lemma vd_checksum_byte:
  assumes "vd_room (Suc n) s" "vd_state s = VdInChecksum"
  defines "s4 \<equiv> \<lambda>c. (vd_filled [c] s)\<lparr>vd_key := [], vd_value := [], vd_state := VdWaitHeader, vd_sum := 0\<rparr>"
  shows "vd_byte now (s, q) c
    = (if (vd_sum s + unat c) mod 256 = 0 then vd_deliver now (s4 c) q else (s4 c, q))"
  using assms(2)
  by (auto simp: s4_def vd_byte_def vd_input_def vd_byte_room [OF assms(1)] Let_def vd_filled_def)

definition vd_after :: "(bytes \<times> bytes) list \<Rightarrow> byte \<Rightarrow> vedirect \<Rightarrow> vedirect" where
  "vd_after kvs c s =
     (vd_filled (ve_body kvs @ [c]) s)\<lparr>vd_dict := ve_fields kvs (vd_dict s), vd_sum := 0\<rparr>"

lemma vd_block:
  assumes "vd_room (length (ve_body kvs) + 1) s" "vd_idle s" "\<forall>kv \<in> set kvs. ve_plain kv"
  shows "foldl (vd_byte now) (s, q) (ve_body kvs @ [c])
    = (if (byte_sum (ve_body kvs) + unat c) mod 256 = 0 then vd_deliver now (vd_after kvs c s) q else (vd_after kvs c s, q))"
proof -
  let ?fs = "concat (map ve_field kvs)" and ?ck = "map of_char ''Checksum'' :: bytes"
  have b: "vd_between s" and ss: "vd_settled s = s" using assms(2) by (auto simp: vd_between_def vd_idle_def vd_settled_def)
  have r: "vd_room (length ?fs) s" "vd_room (length ?fs + (3 + length ?ck)) s"
    using assms(1) by (auto simp: ve_body_def elim!: vd_room_mono)
  obtain s2 where s2: "foldl (vd_byte now) (s, q) ?fs = (s2, q)" "vd_between s2"
    "vd_settled s2 = (vd_filled ?fs s)\<lparr>vd_dict := ve_fields kvs (vd_dict s)\<rparr>"
    using vd_fields_bytes [OF r(1) b assms(3), of now q] ss by auto
  have "vd_room n (vd_settled s2) = vd_room (length ?fs + n) s" for n
    unfolding s2(3) using r(1) by simp
  then have rs: "vd_room n s2 = vd_room (length ?fs + n) s" for n by simp
  have r2: "vd_room (3 + length ?ck) s2" using r by (simp add: rs)
  have ck: "set ?ck \<inter> {9, 58} = {}" "map unat ?ck = text_of ''Checksum''" by (simp_all add: text_of_def)
  let ?h = "13 # 10 # ?ck @ [9]"
  let ?s3 = "(vd_settled (vd_filled ?h s2))\<lparr>vd_state := VdInChecksum, vd_key := text_of ''Checksum''\<rparr>"
  have 3: "foldl (vd_byte now) (s2, q) ?h = (?s3, q)"
    using vd_key_line [OF r2 s2(2) ck(1), of now q] ck(2) by simp
  have "vd_settled (vd_filled ?h s2) = vd_filled ?h (vd_settled s2)" by simp
  also have "\<dots> = (vd_filled (ve_body kvs) s)\<lparr>vd_dict := ve_fields kvs (vd_dict s)\<rparr>"
    unfolding s2(3) ve_body_def using r(1) by (simp add: vd_filled_append del: append.simps)
  finally have e3: "?s3 = (vd_filled (ve_body kvs) s)\<lparr>vd_dict := ve_fields kvs (vd_dict s),
      vd_state := VdInChecksum, vd_key := text_of ''Checksum''\<rparr>" by simp
  have rb: "vd_room (length (ve_body kvs)) s" using assms(1) by (auto elim: vd_room_mono)
  have r3: "vd_room (Suc 0) ?s3"
    unfolding e3 using assms(1) rb by simp
  have whole: "ve_body kvs @ [c] = ?fs @ ?h @ [c]" by (simp add: ve_body_def)
  have id: "vd_sum s = 0" "vd_state s = VdWaitHeader" "vd_key s = []" "vd_value s = []" using assms(2) by (simp_all add: vd_idle_def)
  have run: "foldl (vd_byte now) (s, q) (ve_body kvs @ [c]) = vd_byte now (?s3, q) c"
    unfolding whole using s2(1) 3 by (simp only: foldl_append) simp
  have "(vd_filled [c] ?s3)\<lparr>vd_key := [], vd_value := [], vd_state := VdWaitHeader, vd_sum := 0\<rparr> = vd_after kvs c s"
    unfolding e3 vd_after_def using id vd_filled_append [OF rb, of "[c]"]
    by (intro vedirect.equality) simp_all
  moreover have "vd_sum ?s3 = byte_sum (ve_body kvs)" unfolding e3 using id by simp
  ultimately show ?thesis
    using run vd_checksum_byte [OF r3, of now q c] by simp
qed

lemma mod_zero_add: "(a :: nat) mod m = 0 \<Longrightarrow> (a + b) mod m = b mod m"
  by (metis add_0 mod_add_left_eq)

lemma byte_sum_checksum: "(byte_sum bs + unat (ve_checksum bs)) mod 256 = 0"
proof -
  let ?m = "byte_sum bs mod 256"
  have "unat (ve_checksum bs) = (256 - ?m) mod 256"
    unfolding ve_checksum_def by (rule unat_of_nat_byte) simp
  then have "(byte_sum bs + unat (ve_checksum bs)) mod 256 = (?m + (256 - ?m)) mod 256"
    by (metis mod_add_left_eq mod_add_right_eq)
  moreover have "?m \<le> 256" using mod_less_divisor [of 256 "byte_sum bs"] by linarith
  ultimately show ?thesis by simp
qed

lemma vd_after_idle:
  assumes "vd_idle s" "vd_room (length (ve_body kvs) + 1) s"
  shows "vd_idle (vd_after kvs c s)"
  using assms by (simp add: vd_idle_def vd_after_def vd_room_def)

lemma vd_deliver_room:
  assumes "\<not> q_full q"
  shows "vd_deliver now s q =
    (s\<lparr>vd_trace := map_option (\<lambda>ls. ls @ [hex_of (take (vd_buflen s) (vd_buffer s))]) (vd_trace s),
       vd_dict := [], vd_buflen := 0\<rparr>,
     q\<lparr>q_items := q_items q @ [dict_set (text_of ''timestamp'') (VeTime now) (vd_dict s)]\<rparr>)"
  using assms by (simp add: vd_deliver_def q_put_def Let_def)

definition ve_message :: "real \<Rightarrow> (bytes \<times> bytes) list \<Rightarrow> ve_dict" where
  "ve_message t kvs = dict_set (text_of ''timestamp'') (VeTime t) (ve_fields kvs [])"

definition vd_fresh :: "vedirect \<Rightarrow> bool" where
  "vd_fresh s \<longleftrightarrow> vd_idle s \<and> vd_dict s = [] \<and> vd_buflen s = 0 \<and> \<not> vd_stop s"

lemma vd_good_block:
  assumes "vd_fresh s" "\<forall>kv \<in> set kvs. ve_plain kv" "length (ve_block kvs) \<le> 512" "\<not> q_full q"
  shows "\<exists>s'. foldl (vd_byte now) (s, q) (ve_block kvs) = (s', q\<lparr>q_items := q_items q @ [ve_message now kvs]\<rparr>)
    \<and> vd_fresh s' \<and> vd_trace s' = map_option (\<lambda>ls. ls @ [hex_of (ve_block kvs)]) (vd_trace s)"
proof -
  let ?c = "ve_checksum (ve_body kvs)"
  have i: "vd_idle s" and r: "vd_room (length (ve_body kvs) + 1) s"
    using assms(1,3) by (simp_all add: vd_fresh_def vd_idle_def vd_room_def ve_block_def)
  have run: "foldl (vd_byte now) (s, q) (ve_block kvs) = vd_deliver now (vd_after kvs ?c s) q"
    unfolding ve_block_def using vd_block [OF r i assms(2), of now q ?c] byte_sum_checksum by simp
  have buf: "take (vd_buflen (vd_after kvs ?c s)) (vd_buffer (vd_after kvs ?c s)) = ve_block kvs"
    using assms(1) r take_put_bytes [of 0 "ve_body kvs @ [?c]" "vd_buffer s"]
    by (simp add: vd_after_def ve_block_def vd_fresh_def vd_room_def)
  have tr: "vd_trace (vd_after kvs ?c s) = vd_trace s" "vd_stop (vd_after kvs ?c s) = vd_stop s"
    "vd_dict (vd_after kvs ?c s) = ve_fields kvs []"
    using assms(1) by (simp_all add: vd_after_def vd_fresh_def vd_filled_def)
  show ?thesis
    using vd_after_idle [OF i r, of ?c] assms(1) tr
    by (simp add: run vd_deliver_room [OF assms(4)] buf ve_message_def vd_fresh_def vd_idle_def)
qed

lemma vd_byte_stop [simp]: "vd_stop (fst (foldl (vd_byte t) sq bs)) = vd_stop (fst sq)"
proof (induction bs arbitrary: sq)
  case (Cons b bs)
  have 1: "vd_stop (fst (vd_input b s)) = vd_stop s" for s
    by (cases "py_set (vd_buffer s) (int (vd_buflen s)) b";
        cases "b = 58 \<and> vd_state s \<noteq> VdInChecksum"; cases "vd_state s")
       (simp_all add: vd_input_def Let_def)
  obtain s q where sq: "sq = (s, q)" by (cases sq)
  obtain s1 r where i: "vd_input b s = (s1, r)" by (cases "vd_input b s")
  have "vd_stop (fst (vd_deliver t s1 q)) = vd_stop s1"
    by (simp add: vd_deliver_def Let_def split: sum.split)
  then have "vd_stop (fst (vd_byte t sq b)) = vd_stop (fst sq)"
    using 1 [of s] by (simp add: vd_byte_def sq i split: option.split)
  with Cons show ?case by simp
qed simp

lemma vd_run_frags:
  assumes "\<not> vd_stop s"
  shows "vd_run s q (map (VdRead t) frags @ es) =
       (case foldl (vd_byte t) (s, q) (concat frags) of (s1, q1) \<Rightarrow> vd_run s1 q1 es)"
  using assms
proof (induction frags arbitrary: s q)
  case (Cons f frags)
  obtain s1 q1 where f: "foldl (vd_byte t) (s, q) f = (s1, q1)" by (cases "foldl (vd_byte t) (s, q) f")
  then have "\<not> vd_stop s1" using vd_byte_stop [of t "(s, q)" f] Cons.prems by simp
  with Cons f show ?case by simp
qed simp

text \<open>C33. Blocks the charger sends one after the other, with any fields of ordinary bytes and read from the
  line in fragments of any size, are delivered to the queue one dictionary per block, in order, each
  holding exactly the fields of its block and the time it was completed; the reader ends as it started.
  The blocks fit in the buffer of 512 bytes and the queue has room for them.\<close>

theorem vedirect_roundtrip:
  assumes "vd_fresh s"
    and "\<forall>(t, frags, kvs) \<in> set blocks. concat frags = ve_block kvs \<and> length (ve_block kvs) \<le> 512
           \<and> (\<forall>kv \<in> set kvs. ve_plain kv)"
    and "q_max q = 0 \<or> length (q_items q) + length blocks \<le> q_max q"
  shows "\<exists>s'. vd_run s q (concat (map (\<lambda>(t, frags, kvs). map (VdRead t) frags) blocks))
      = (s', q\<lparr>q_items := q_items q @ map (\<lambda>(t, frags, kvs). ve_message t kvs) blocks\<rparr>, [], True) \<and> vd_fresh s'"
  using assms
proof (induction blocks arbitrary: s q)
  case (Cons block blocks)
  obtain t frags kvs where b: "block = (t, frags, kvs)" by (cases block)
  have k: "concat frags = ve_block kvs" "length (ve_block kvs) \<le> 512" "\<forall>kv \<in> set kvs. ve_plain kv" "\<not> q_full q"
    using Cons.prems by (auto simp: b q_full_def)
  obtain s1 where s1: "foldl (vd_byte t) (s, q) (concat frags) = (s1, q\<lparr>q_items := q_items q @ [ve_message t kvs]\<rparr>)"
    "vd_fresh s1"
    using vd_good_block [OF Cons.prems(1) k(3,2,4), of t] k(1) by auto
  have "q_max q = 0 \<or> length (q_items q @ [ve_message t kvs]) + length blocks \<le> q_max q"
    using Cons.prems(3) by auto
  with Cons.IH [OF s1(2), of "q\<lparr>q_items := q_items q @ [ve_message t kvs]\<rparr>"] Cons.prems
  show ?case using vd_run_frags [of s q t frags] s1(1) by (simp add: b vd_fresh_def)
qed simp

lemma split_crlf_line: "13 \<notin> set xs \<Longrightarrow> split_crlf (xs @ 13 # 10 # r) = xs # split_crlf r"
proof (induction xs)
  case (Cons x xs)
  then show ?case by (cases xs) auto
qed simp

lemma split_crlf_last: "13 \<notin> set xs \<Longrightarrow> split_crlf (xs @ [c]) = [xs @ [c]]"
proof (induction xs)
  case (Cons x xs)
  then show ?case by (cases xs) auto
qed simp

text \<open>A field that the replay reads as the reader did: ASCII, on one line, with one tabulation.\<close>

definition ve_text :: "bytes \<times> bytes \<Rightarrow> bool" where
  "ve_text kv \<longleftrightarrow> ve_plain kv \<and> 13 \<notin> set (fst kv) \<and> 9 \<notin> set (snd kv)
     \<and> (\<forall>b \<in> set (fst kv) \<union> set (snd kv). unat b < 128)"

lemma ve_log_lines:
  assumes "\<forall>kv \<in> set kvs. ve_text kv" "13 \<notin> set xs"
  shows "split_crlf (xs @ ve_body kvs @ [c])
    = xs # map (\<lambda>kv. fst kv @ 9 # snd kv) kvs @ [map of_char ''Checksum'' @ [9, c]]"
  using assms
proof (induction kvs arbitrary: xs)
  case Nil
  have "split_crlf (map of_char ''Checksum'' @ [9, c]) = [map of_char ''Checksum'' @ [9, c]]"
    using split_crlf_last [of "map of_char ''Checksum'' @ [9]" c] by simp
  with split_crlf_line [OF Nil(2), of "map of_char ''Checksum'' @ [9, c]"] show ?case
    by (simp add: ve_body_def del: split_crlf.simps)
next
  case (Cons kv kvs)
  have "13 \<notin> set (fst kv @ 9 # snd kv)" using Cons.prems(1) by (auto simp: ve_text_def ve_plain_def)
  with Cons.IH [of "fst kv @ 9 # snd kv"] Cons.prems(1) have IH: "split_crlf ((fst kv @ 9 # snd kv) @ ve_body kvs @ [c])
      = (fst kv @ 9 # snd kv) # map (\<lambda>kv. fst kv @ 9 # snd kv) kvs @ [map of_char ''Checksum'' @ [9, c]]"
    by simp
  have "xs @ ve_body (kv # kvs) @ [c] = xs @ 13 # 10 # ((fst kv @ 9 # snd kv) @ ve_body kvs @ [c])"
    by (simp add: ve_body_def ve_field_def)
  then show ?case using split_crlf_line [OF Cons.prems(2)] IH by simp
qed

lemma ve_log_fields_eq:
  assumes "\<forall>kv \<in> set kvs. ve_text kv"
  shows "ve_log_fields (map (\<lambda>kv. fst kv @ 9 # snd kv) kvs @ rest) d = ve_log_fields rest (ve_fields kvs d)"
  using assms
proof (induction kvs arbitrary: d)
  case (Cons kv kvs)
  obtain k v where kv: "kv = (k, v)" by (cases kv)
  have t: "9 \<notin> set k" "9 \<notin> set v" "k \<noteq> map of_char ''Checksum''" "utf8_decode k = Inr (map unat k)"
    "utf8_decode v = Inr (map unat v)"
    using Cons.prems by (auto simp: kv ve_text_def ve_plain_def intro!: utf8_decode_ascii)
  then have "split_on 9 (k @ 9 # v) = [k, v]" by (simp add: split_on_append split_on_plain)
  with t Cons show ?case by (simp add: kv ve_fields_def)
qed (simp add: ve_fields_def)

lemma ve_log_block:
  assumes "\<forall>kv \<in> set kvs. ve_text kv"
  shows "ve_log_decode (hex_of (ve_body kvs @ [c])) = (if c = 9 then Inl ValueError else Inr (ve_fields kvs []))"
proof -
  let ?ck = "map of_char ''Checksum'' :: bytes"
  have "9 \<notin> set ?ck" by simp
  then have "split_on 9 (?ck @ [9, c]) = ?ck # split_on 9 [c]" by (rule split_on_append)
  moreover have "split_on 9 [c] = (if c = 9 then [[], []] else [[c]])" by simp
  ultimately show ?thesis
    using ve_log_lines [OF assms, of "[]" c] ve_log_fields_eq [OF assms, of "[?ck @ [9, c]]" "[]"]
    by (simp add: ve_log_decode_def from_hex_of del: split_on.simps(2))
qed

text \<open>What the reader writes to its trace replays to the same message: the replay of the trace line of a
  block gives the dictionary that was delivered, without its time. The one exception is a block whose
  checksum is a tabulation, on which the replay thread raises ValueError.\<close>

theorem vedirect_replay:
  assumes "vd_fresh s" "vd_trace s = Some ls" "\<forall>kv \<in> set kvs. ve_text kv" "length (ve_block kvs) \<le> 512"
    and "\<not> q_full q"
  shows "\<exists>s' line. foldl (vd_byte now) (s, q) (ve_block kvs)
      = (s', q\<lparr>q_items := q_items q @ [dict_set (text_of ''timestamp'') (VeTime now) (ve_fields kvs [])]\<rparr>)
    \<and> vd_trace s' = Some (ls @ [line])
    \<and> ve_log_decode line = (if ve_checksum (ve_body kvs) = 9 then Inl ValueError else Inr (ve_fields kvs []))"
proof -
  have p: "\<forall>kv \<in> set kvs. ve_plain kv" using assms(3) by (simp add: ve_text_def)
  from vd_good_block [OF assms(1) p assms(4,5), of now] assms(2) ve_log_block [OF assms(3)] show ?thesis
    by (auto simp: ve_message_def ve_block_def)
qed

text \<open>C34. A block in which one byte of a value was changed to another ordinary byte is rejected, whatever
  the state of the queue: nothing is delivered, and the reader waits for the next block. It keeps the fields
  of the rejected block, the changed one included.\<close>

theorem vedirect_corruption_detected:
  assumes "vd_fresh s" "\<forall>kv \<in> set (kvs1 @ (k, v) # kvs2). ve_plain kv" "ve_plain (k, v[i := x])"
    and "i < length v" "x \<noteq> v ! i" "length (ve_block (kvs1 @ (k, v) # kvs2)) \<le> 512"
  shows "\<exists>s'. foldl (vd_byte now) (s, q)
        (ve_body (kvs1 @ (k, v[i := x]) # kvs2) @ [ve_checksum (ve_body (kvs1 @ (k, v) # kvs2))]) = (s', q)
    \<and> vd_idle s' \<and> vd_dict s' = ve_fields (kvs1 @ (k, v[i := x]) # kvs2) []"
proof -
  let ?good = "kvs1 @ (k, v) # kvs2" and ?bad = "kvs1 @ (k, v[i := x]) # kvs2"
  let ?c = "ve_checksum (ve_body ?good)"
  have len: "length (ve_body ?bad) = length (ve_body ?good)" by (simp add: ve_body_def ve_field_def)
  have i: "vd_idle s" and r: "vd_room (length (ve_body ?bad) + 1) s"
    using assms(1,6) unfolding len by (simp_all add: vd_fresh_def vd_idle_def vd_room_def ve_block_def)
  have "byte_sum (v[i := x]) + unat (v ! i) = byte_sum v + unat x"
  proof -
    have "v = take i v @ v ! i # drop (Suc i) v" using assms(4) by (rule id_take_nth_drop)
    then have "byte_sum v = byte_sum (take i v) + unat (v ! i) + byte_sum (drop (Suc i) v)"
      by (metis add.assoc byte_sum_simps(2,3))
    then show ?thesis using assms(4) by (simp add: upd_conv_take_nth_drop)
  qed
  then have diff: "byte_sum (ve_body ?bad) + unat (v ! i) = byte_sum (ve_body ?good) + unat x"
    by (simp add: ve_body_def ve_field_def)
  have "(byte_sum (ve_body ?bad) + unat ?c) mod 256 \<noteq> 0"
  proof
    assume z: "(byte_sum (ve_body ?bad) + unat ?c) mod 256 = 0"
    have "unat (v ! i) mod 256 = (byte_sum (ve_body ?bad) + unat ?c + unat (v ! i)) mod 256"
      by (rule mod_zero_add [OF z, symmetric])
    also have "byte_sum (ve_body ?bad) + unat ?c + unat (v ! i) = byte_sum (ve_body ?good) + unat ?c + unat x"
      using diff by simp
    also have "(byte_sum (ve_body ?good) + unat ?c + unat x) mod 256 = unat x mod 256"
      by (rule mod_zero_add [OF byte_sum_checksum])
    finally have "unat (v ! i) mod 256 = unat x mod 256" .
    then have "unat (v ! i) = unat x" by simp
    with assms(5) show False by (simp add: word_unat_eq_iff)
  qed
  then have "foldl (vd_byte now) (s, q) (ve_body ?bad @ [?c]) = (vd_after ?bad ?c s, q)"
    using vd_block [OF r i, of now q ?c] assms(2,3) by auto
  with vd_after_idle [OF i r, of ?c] assms(1) show ?thesis
    by (simp add: vd_after_def vd_fresh_def)
qed

text \<open>Every HEX command without parameter goes out with the checksum 00 and the terminator 0x10: of the
  four hexadecimal digits of its 16-bit checksum only the first two are sent.\<close>

theorem hex_command_checksum:
  assumes "0 < cmd" "cmd < 17" "2 \<le> length (vd_send s)" "vd_send s ! 0 = 58"
  shows "snd (send_hex_cmd cmd None s)
    = Inr [58, of_int (if cmd < 10 then 0x30 + cmd else 0x31 + cmd), 48, 48, 0x10]"
proof -
  let ?h = "of_int (if cmd < 10 then 0x30 + cmd else 0x31 + cmd) :: byte" and ?n = "nat (0x55 - cmd)"
  have n: "?n < 256" "0 \<le> 0x55 - cmd" "int ?n = 0x55 - cmd" using assms(1,2) by auto
  obtain a r where buf: "vd_send s = 58 # a # r"
    using assms(3,4) by (cases "vd_send s"; cases "tl (vd_send s)") auto
  have set1: "py_set (vd_send s) 1 ?h = Inr (58 # ?h # r)"
    by (simp add: buf py_set_def py_pos_def)
  have be: "be_encode 2 (0x55 - cmd) = Inr [0, of_nat ?n]"
    using n assms(1,2) by (auto simp: be_encode_def le_encode_small)
  obtain x y where hx: "hex_upper [0, of_nat ?n] = [48, 48, x, y]"
    by (simp add: hex_upper_def hex_byte_def)
  have "py_set [58, ?h, 48, 48, x, y] 4 16 = Inr [58, ?h, 48, 48, 16, y]"
    by (simp add: py_set_def py_pos_def)
  then show ?thesis
    using assms(1,2) set1 be hx by (auto simp: send_hex_cmd_def py_assign_from_def)
qed

text \<open>A rejected block is not forgotten: a field it carried and the next good block does not is delivered
  with that block.\<close>

lemma ve_fields_get_other:
  "\<forall>kv \<in> set kvs. map unat (fst kv) \<noteq> k \<Longrightarrow> dict_get (ve_fields kvs d) k = dict_get d k"
  by (induction kvs arbitrary: d) (auto simp: ve_fields_def al.get_put)

theorem vedirect_rejected_fields_leak:
  assumes "vd_fresh s" "\<forall>kv \<in> set (bad @ good). ve_plain kv" "ve_checksum (ve_body bad) \<noteq> c"
    and "length (ve_block bad) + length (ve_block good) \<le> 512" "\<not> q_full q"
    and "\<forall>kv \<in> set good. map unat (fst kv) \<noteq> k" "k \<noteq> text_of ''timestamp''"
  shows "\<exists>s' d. foldl (vd_byte now) (s, q) (ve_body bad @ [c] @ ve_block good)
      = (s', q\<lparr>q_items := q_items q @ [d]\<rparr>) \<and> dict_get d k = dict_get (ve_fields bad []) k"
proof -
  have i: "vd_idle s" and r: "vd_room (length (ve_body bad) + 1) s"
    using assms(1,4) by (simp_all add: vd_fresh_def vd_idle_def vd_room_def ve_block_def)
  have ne: "(byte_sum (ve_body bad) + unat c) mod 256 \<noteq> 0"
  proof
    assume z: "(byte_sum (ve_body bad) + unat c) mod 256 = 0"
    have "unat c mod 256 = (byte_sum (ve_body bad) + unat (ve_checksum (ve_body bad)) + unat c) mod 256"
      by (rule mod_zero_add [OF byte_sum_checksum, symmetric])
    also have "\<dots> = (byte_sum (ve_body bad) + unat c + unat (ve_checksum (ve_body bad))) mod 256"
      by (simp add: ac_simps)
    also have "\<dots> = unat (ve_checksum (ve_body bad)) mod 256" by (rule mod_zero_add [OF z])
    finally show False using assms(3) by (simp add: word_unat_eq_iff)
  qed
  let ?s1 = "vd_after bad c s" and ?c = "ve_checksum (ve_body good)"
  have 1: "foldl (vd_byte now) (s, q) (ve_body bad @ [c]) = (?s1, q)"
    using vd_block [OF r i, of now q c] assms(2) ne by auto
  have i1: "vd_idle ?s1" by (rule vd_after_idle [OF i r])
  have r1: "vd_room (length (ve_body good) + 1) ?s1" and d1: "vd_dict ?s1 = ve_fields bad []"
    using assms(1,4) by (simp_all add: vd_after_def vd_room_def vd_fresh_def vd_idle_def ve_block_def)
  have 2: "foldl (vd_byte now) (?s1, q) (ve_block good) = vd_deliver now (vd_after good ?c ?s1) q"
    unfolding ve_block_def using vd_block [OF r1 i1, of now q ?c] assms(2) byte_sum_checksum by simp
  have "foldl (vd_byte now) (s, q) (ve_body bad @ [c] @ ve_block good) = vd_deliver now (vd_after good ?c ?s1) q"
    using 1 2 by (simp only: foldl_append append_assoc [symmetric])
  moreover have "vd_dict (vd_after good ?c ?s1) = ve_fields good (ve_fields bad [])"
    using d1 by (simp add: vd_after_def)
  moreover obtain s' where "vd_deliver now (vd_after good ?c ?s1) q = (s', q\<lparr>q_items := q_items q @
      [dict_set (text_of ''timestamp'') (VeTime now) (vd_dict (vd_after good ?c ?s1))]\<rparr>)"
    using vd_deliver_room [OF assms(5)] by blast
  ultimately show ?thesis
    using ve_fields_get_other [OF assms(6)] assms(7)
    by (intro exI [of _ s'] exI [of _ "dict_set (text_of ''timestamp'') (VeTime now) (ve_fields good (ve_fields bad []))"])
       (simp add: al.get_put del: foldl_append)
qed

section \<open>The NMEA 0183 sentence\<close>

lemma dec_text_plain: "c \<in> set (dec_text n) \<Longrightarrow> 48 \<le> c \<and> c < 58"
  using digits_less [of 10 _ n] by (force simp: dec_text_def)

lemma fmt_fixed_plain: "c \<in> set (fmt_fixed p x) \<Longrightarrow> c \<in> {45, 46} \<union> {48..<58}"
  using dec_text_plain by (auto simp: fmt_fixed_def Let_def pad_left_def split: if_splits)

lemma fmt_fixed_ascii: "c \<in> set (fmt_fixed p x) \<Longrightarrow> c < 128 \<and> c \<noteq> 44"
  using fmt_fixed_plain [of c p x] by auto

lemma value_float:
  assumes "dict_get vedirect_fields name = Some (fld, VeFloat coef)"
    and "dict_get d (text_of fld) = Some (VeText s)" "float_of_str s = Inr x"
  shows "bind_r (value_from_message d name) (fmt_reading p) = Inr (fmt_fixed p (x * coef))"
  using assms by (simp add: value_from_message_def fmt_reading_def)

text \<open>From a message with the three numeric fields of a charger the coupler makes a well-formed XDR
  sentence, which reads back as three transducers of four fields each, with the current and the voltage
  in units to two decimals and the power to one. (Other fields are ignored, a missing one raises KeyError.)\<close>

theorem mppt_sentence:
  assumes "\<forall>c \<in> set tid. c < 128 \<and> c \<noteq> 44"
    and "dict_get d (text_of ''I'') = Some (VeText si)" "float_of_str si = Inr i"
    and "dict_get d (text_of ''V'') = Some (VeText sv)" "float_of_str sv = Inr v"
    and "dict_get d (text_of ''PPV'') = Some (VeText sp)" "float_of_str sp = Inr w"
  shows "\<exists>m. mppt_nmea0183 now tid d = Inr m \<and> n_address m = map of_nat (tid @ text_of ''XDR'')
    \<and> n_fields m = map (map of_nat)
        [[73], fmt_fixed 2 (i / 1000), [65], text_of ''MPPT Current'',
         [85], fmt_fixed 2 (v / 1000), [86], text_of ''DC Circuit Voltage'',
         [87], fmt_fixed 1 w, [87], text_of ''Solar Panel Power'']"
proof -
  let ?fs = "[[73], fmt_fixed 2 (i / 1000), [65], text_of ''MPPT Current'',
         [85], fmt_fixed 2 (v / 1000), [86], text_of ''DC Circuit Voltage'',
         [87], fmt_fixed 1 w, [87], text_of ''Solar Panel Power'']"
  let ?addr = "tid @ text_of ''XDR''"
  have f: "dict_get vedirect_fields ''current'' = Some (''I'', VeFloat (1 / 1000))"
    "dict_get vedirect_fields ''voltage'' = Some (''V'', VeFloat (1 / 1000))"
    "dict_get vedirect_fields ''panel_power'' = Some (''PPV'', VeFloat 1)"
    by (simp_all add: vedirect_fields_def)
  note vs = value_float [OF f(1) assms(2,3), of 2] value_float [OF f(2) assms(4,5), of 2]
    value_float [OF f(3) assms(6,7), of 1]
  have "mppt_nmea0183 now tid d
      = new_n0183 now (sentence_message (36 # ?addr @ 44 # join_on 44 ?fs)) True None"
    by (simp add: mppt_nmea0183_def vs vs(3) [unfolded One_nat_def] add_transducer_def new_xdr_def)
  moreover
  have plain: "c < 128 \<and> c \<noteq> 44" if "c \<in> \<Union> (set ` set ?fs)" for c
    using that fmt_fixed_ascii [of c] by (auto simp: text_of_def)
  have a: "?addr \<noteq> []" "44 \<notin> set ?addr" "\<forall>c \<in> set ?addr. c < 128"
    using assms(1) by (auto simp: text_of_def)
  have b: "\<forall>f \<in> set ?fs. 44 \<notin> set f" "\<forall>c \<in> set ?addr \<union> \<Union> (set ` set ?fs). c < 128"
    using plain a(3) by blast+
  have "\<exists>m. new_n0183 now (sentence_message (36 # ?addr @ 44 # join_on 44 ?fs)) True None = Inr m
    \<and> n_address m = map of_nat ?addr \<and> n_fields m = map (map of_nat) ?fs"
    using sentence_fields [OF a(1,2) _ b, of now] by blast
  ultimately show ?thesis by (simp only:)
qed

section \<open>Witnesses\<close>

definition sample_fields :: "(bytes \<times> bytes) list" where
  "sample_fields = [([86], [49, 50]), ([73], [51]), ([80, 80, 86], [52])]"

lemma sample_fields_plain: "\<forall>kv \<in> set sample_fields. ve_text kv" "\<forall>kv \<in> set sample_fields. ve_plain kv"
  "length (ve_block sample_fields) \<le> 512" "ve_checksum (ve_body sample_fields) \<noteq> 9"
  by (simp_all add: sample_fields_def ve_text_def ve_plain_def ve_block_def ve_body_def ve_field_def ve_checksum_def
      byte_sum_def)

lemma new_vedirect_fresh: "vd_fresh (new_vedirect trace)" "vd_trace (new_vedirect True) = Some []"
  by (simp_all add: vd_fresh_def vd_idle_def new_vedirect_def)

lemma vedirect_roundtrip_witness:
  "\<exists>s'. vd_run (new_vedirect False) (new_queue 5) (map (VdRead 0) [take 3 (ve_block sample_fields), drop 3 (ve_block sample_fields)])
      = (s', \<lparr>q_items = [ve_message 0 sample_fields], q_max = 5\<rparr>, [], True) \<and> vd_fresh s'"
  using vedirect_roundtrip [of "new_vedirect False"
      "[(0, [take 3 (ve_block sample_fields), drop 3 (ve_block sample_fields)], sample_fields)]" "new_queue 5"]
    sample_fields_plain new_vedirect_fresh
  by (simp add: new_queue_def)

lemma vedirect_corruption_detected_witness:
  "\<exists>s'. foldl (vd_byte 0) (new_vedirect False, new_queue 5)
        (ve_body [([86], [49])] @ [ve_checksum (ve_body [([86], [50])])]) = (s', new_queue 5)
    \<and> vd_idle s' \<and> vd_dict s' = ve_fields [([86], [49])] []"
  using vedirect_corruption_detected [of "new_vedirect False" "[]" "[86]" "[50]" "[]" 0 49 0 "new_queue 5"]
    new_vedirect_fresh
  by (simp add: ve_plain_def ve_block_def ve_body_def ve_field_def)

lemma vedirect_replay_witness:
  "\<exists>s' line. foldl (vd_byte 7) (new_vedirect True, new_queue 5) (ve_block sample_fields)
      = (s', \<lparr>q_items = [dict_set (text_of ''timestamp'') (VeTime 7) (ve_fields sample_fields [])], q_max = 5\<rparr>)
    \<and> vd_trace s' = Some ([] @ [line]) \<and> ve_log_decode line = Inr (ve_fields sample_fields [])"
  using vedirect_replay [of "new_vedirect True" "[]" sample_fields "new_queue 5" 7]
    sample_fields_plain new_vedirect_fresh
  by (simp add: new_queue_def q_full_def)

lemma hex_command_checksum_witness:
  "snd (send_hex_cmd 7 None (new_vedirect False)) = Inr [58, 0x37, 48, 48, 0x10]"
  using hex_command_checksum [of 7 "new_vedirect False"] by (simp add: new_vedirect_def)

lemma vedirect_rejected_fields_leak_witness:
  "\<exists>s' d. foldl (vd_byte 0) (new_vedirect False, new_queue 5)
      (ve_body [([86], [49])] @ [0] @ ve_block [([73], [50])]) = (s', \<lparr>q_items = [d], q_max = 5\<rparr>)
    \<and> dict_get d [86] = Some (VeText [49])"
  using vedirect_rejected_fields_leak [of "new_vedirect False" "[([86], [49])]" "[([73], [50])]" 0 "new_queue 5" "[86]" 0]
    new_vedirect_fresh
  by (simp add: ve_plain_def ve_block_def ve_body_def ve_field_def new_queue_def q_full_def ve_fields_def
      ve_checksum_def byte_sum_def text_of_def)

lemma mppt_sentence_witness:
  "\<exists>m. mppt_nmea0183 0 [83, 84] (ve_fields sample_fields []) = Inr m \<and> n_address m = map of_nat ([83, 84] @ text_of ''XDR'')
    \<and> n_fields m = map (map of_nat)
        [[73], fmt_fixed 2 (3 / 1000), [65], text_of ''MPPT Current'',
         [85], fmt_fixed 2 (12 / 1000), [86], text_of ''DC Circuit Voltage'',
         [87], fmt_fixed 1 4, [87], text_of ''Solar Panel Power'']"
proof -
  have "dec_text 12 = [49, 50]" "dec_text 3 = [51]" "dec_text 4 = [52]"
    by (simp_all add: dec_text_def digits_in.simps)
  with float_of_dec_text [of 12] float_of_dec_text [of 3] float_of_dec_text [of 4]
  have "float_of_str [49, 50] = Inr 12" "float_of_str [51] = Inr 3" "float_of_str [52] = Inr 4" by simp_all
  then show ?thesis
    by (intro mppt_sentence) (simp_all add: sample_fields_def ve_fields_def text_of_def)
qed

end
