(* ===== verification/Mppt.thy ===== *)
theory Mppt
  imports VeDirect
begin

text \<open>
  The solar charger service, \<^verbatim>\<open>energy_mgmt/mppt_service.py\<close>: the data of a message of the Victron coupler, the
  means it keeps over periods of time, what it publishes for each message and what its gRPC calls answer.
  The messages of the generated classes are records of the fields that are set.
\<close>

section \<open>The data of a message\<close>

record mppt_data =
  md_current :: real
  md_voltage :: real
  md_panel_power :: real
  md_product_id :: ve_value
  md_firmware :: ve_value
  md_serial :: ve_value
  md_error :: int
  md_state :: int
  md_mppt_state :: int
  md_day_max_power :: real
  md_day_power :: real

definition ve_item :: "ve_dict \<Rightarrow> string \<Rightarrow> ve_value result" where
  "ve_item d k = (case dict_get d (text_of k) of Some v \<Rightarrow> Inr v | None \<Rightarrow> Inl KeyError)"

fun ve_float :: "ve_value \<Rightarrow> real result" where
  "ve_float (VeText s) = float_of_str s"
| "ve_float (VeTime t) = Inr t"

fun ve_int :: "ve_value \<Rightarrow> int result" where
  "ve_int (VeText s) = int_of_str s"
| "ve_int (VeTime t) = Inr (if t < 0 then - \<lfloor>- t\<rfloor> else \<lfloor>t\<rfloor>)"

definition new_mppt_data :: "ve_dict \<Rightarrow> mppt_data result" where
  "new_mppt_data d =
     bind_r (bind_r (ve_item d ''I'') ve_float) (\<lambda>i.
     bind_r (bind_r (ve_item d ''V'') ve_float) (\<lambda>v.
     bind_r (bind_r (ve_item d ''PPV'') ve_float) (\<lambda>w.
     bind_r (ve_item d ''PID'') (\<lambda>pid.
     bind_r (ve_item d ''FW'') (\<lambda>fw.
     bind_r (ve_item d ''SER#'') (\<lambda>ser.
     bind_r (bind_r (ve_item d ''ERR'') ve_int) (\<lambda>err.
     bind_r (bind_r (ve_item d ''CS'') ve_int) (\<lambda>cs.
     bind_r (bind_r (ve_item d ''MPPT'') ve_int) (\<lambda>mppt.
     bind_r (bind_r (ve_item d ''H21'') ve_float) (\<lambda>h21.
     bind_r (bind_r (ve_item d ''H20'') ve_float) (\<lambda>h20.
       Inr \<lparr>md_current = i / 1000, md_voltage = v / 1000, md_panel_power = w, md_product_id = pid,
            md_firmware = fw, md_serial = ser, md_error = err, md_state = cs, md_mppt_state = mppt,
            md_day_max_power = h21, md_day_power = h20 * 10\<rparr>)))))))))))"

section \<open>The NMEA 2000 messages\<close>

record pgn127507 =
  cs_charger_instance :: nat
  cs_battery_instance :: nat
  cs_operating_state :: nat
  cs_charger_mode :: nat
  cs_charger_enable :: nat
  cs_equalization_pending :: nat
  cs_eq_time_remaining :: nat

record pgn127751 =
  dv_sequence_id :: nat
  dv_connection_number :: nat
  dv_voltage :: real
  dv_current :: real

definition state_dict :: "(int, nat) dict" where
  "state_dict = [(0, 0), (2, 9), (3, 1), (4, 2), (5, 5), (7, 4), (247, 4)]"

definition gen_pgn_127507 :: "mppt_data \<Rightarrow> pgn127507" where
  "gen_pgn_127507 md =
     \<lparr>cs_charger_instance = 1, cs_battery_instance = 1,
      cs_operating_state = (case dict_get state_dict (md_state md) of Some s \<Rightarrow> s | None \<Rightarrow> 0),
      cs_charger_mode = 0, cs_charger_enable = (if md_mppt_state md \<noteq> 0 then 1 else 0),
      cs_equalization_pending = 0, cs_eq_time_remaining = 0\<rparr>"

definition gen_pgn_127751 :: "nat \<Rightarrow> mppt_data \<Rightarrow> pgn127751" where
  "gen_pgn_127751 sid md =
     \<lparr>dv_sequence_id = sid mod 256, dv_connection_number = 1, dv_voltage = md_voltage md, dv_current = md_current md\<rparr>"

section \<open>The device\<close>

record mppt_bucket =
  bk_voltage :: real
  bk_current :: real
  bk_power :: real

datatype mppt_protocol = PublishNothing | Publish0183 ustr | Publish2000

datatype mppt_out = Out0183 n0183_msg | Out127507 pgn127507 | Out127751 pgn127751

record mppt_device =
  mp_data :: "mppt_data option"
  mp_dict :: "ve_dict option"
  mp_trend_depth :: nat
  mp_trend_period :: real
  mp_buckets :: "mppt_bucket list"
  mp_start_period :: real
  mp_mean_v :: real
  mp_mean_a :: real
  mp_mean_p :: real
  mp_nb_sample :: nat
  mp_protocol :: mppt_protocol
  mp_sid :: nat

text \<open>The constructor and \<^verbatim>\<open>start\<close>, once the coupler and the publisher are resolved.\<close>

definition start_mppt :: "real \<Rightarrow> nat \<Rightarrow> real \<Rightarrow> mppt_protocol \<Rightarrow> mppt_device" where
  "start_mppt now trend_depth trend_period protocol =
     \<lparr>mp_data = None, mp_dict = None, mp_trend_depth = trend_depth, mp_trend_period = trend_period,
      mp_buckets = [], mp_start_period = now, mp_mean_v = 0, mp_mean_a = 0, mp_mean_p = 0, mp_nb_sample = 0,
      mp_protocol = protocol, mp_sid = 0\<rparr>"

text \<open>A \<^verbatim>\<open>deque(maxlen=n)\<close> drops its oldest element when it is full.\<close>

definition deque_append :: "nat \<Rightarrow> 'a list \<Rightarrow> 'a \<Rightarrow> 'a list" where
  "deque_append n xs x = drop (length xs + 1 - n) (xs @ [x])"

definition add_sample :: "real \<Rightarrow> mppt_data \<Rightarrow> mppt_device \<Rightarrow> mppt_device" where
  "add_sample clock md s =
     (let s1 = s\<lparr>mp_mean_v := mp_mean_v s + md_voltage md, mp_mean_a := mp_mean_a s + md_current md,
                mp_mean_p := mp_mean_p s + md_panel_power md, mp_nb_sample := mp_nb_sample s + 1\<rparr>
      in if mp_trend_period s1 \<le> clock - mp_start_period s1 \<and> 0 < mp_nb_sample s1
         then s1\<lparr>mp_buckets := deque_append (mp_trend_depth s1) (mp_buckets s1)
                   \<lparr>bk_voltage = mp_mean_v s1 / real (mp_nb_sample s1),
                    bk_current = mp_mean_a s1 / real (mp_nb_sample s1),
                    bk_power = mp_mean_p s1 / real (mp_nb_sample s1)\<rparr>,
                 mp_start_period := clock, mp_mean_v := 0, mp_mean_a := 0, mp_mean_p := 0, mp_nb_sample := 0\<rparr>
         else s1)"

definition mppt_publish0183 :: "real \<Rightarrow> ustr \<Rightarrow> mppt_device \<Rightarrow> mppt_out list result" where
  "mppt_publish0183 now tid s =
     (case mp_dict s of
        None \<Rightarrow> Inl TypeError
      | Some d \<Rightarrow> map_sum id (\<lambda>m. [Out0183 m]) (mppt_nmea0183 now tid d))"

definition mppt_publish2000 :: "mppt_device \<Rightarrow> mppt_device \<times> mppt_out list result" where
  "mppt_publish2000 s =
     (case mp_data s of
        None \<Rightarrow> (s, Inl AttributeError)
      | Some md \<Rightarrow> (s\<lparr>mp_sid := mp_sid s + 1\<rparr>,
          Inr [Out127507 (gen_pgn_127507 md), Out127751 (gen_pgn_127751 (mp_sid s) md)]))"

text \<open>\<^verbatim>\<open>publish\<close>: what goes to the publisher, or the exception that goes back to the coupler.\<close>

definition mppt_publish :: "real \<Rightarrow> ve_dict \<Rightarrow> mppt_device \<Rightarrow> mppt_device \<times> mppt_out list result" where
  "mppt_publish clock d s =
     (let s1 = s\<lparr>mp_dict := Some d\<rparr> in
      case new_mppt_data d of
        Inl e \<Rightarrow> (s1, Inl e)
      | Inr md \<Rightarrow>
          let s2 = add_sample clock md (s1\<lparr>mp_data := Some md\<rparr>) in
          (case mp_protocol s2 of
             PublishNothing \<Rightarrow> (s2, Inr [])
           | Publish0183 tid \<Rightarrow> (s2, mppt_publish0183 clock tid s2)
           | Publish2000 \<Rightarrow> mppt_publish2000 s2))"

section \<open>The gRPC calls\<close>

text \<open>An answer whose fields are not set is \<open>None\<close>.\<close>

definition get_solar_output :: "mppt_device \<Rightarrow> (real \<times> real \<times> real) option" where
  "get_solar_output s = map_option (\<lambda>md. (md_current md, md_voltage md, md_panel_power md)) (mp_data s)"

definition get_device_info ::
    "mppt_device \<Rightarrow> (ve_value \<times> ve_value \<times> ve_value \<times> int \<times> int \<times> int \<times> real \<times> real) option" where
  "get_device_info s =
     map_option (\<lambda>md. (md_product_id md, md_firmware md, md_serial md, md_error md, md_state md,
                       md_mppt_state md, md_day_max_power md, md_day_power md)) (mp_data s)"

record trend_response =
  tr_id :: int
  tr_nb_values :: nat
  tr_interval :: real
  tr_values :: "mppt_bucket list"

definition get_trend :: "int \<Rightarrow> mppt_device \<Rightarrow> trend_response" where
  "get_trend rid s =
     fold (\<lambda>b r. r\<lparr>tr_nb_values := tr_nb_values r + 1, tr_values := tr_values r @ [b]\<rparr>) (mp_buckets s)
       \<lparr>tr_id = rid, tr_nb_values = 0, tr_interval = mp_trend_period s, tr_values = []\<rparr>"

section \<open>The trend\<close>

text \<open>What the trend is meant to be: the samples cut into periods, each of which ends with the first sample
  taken a period or more after its start, and for each period the mean of its samples.\<close>

type_synonym sample = "real \<times> mppt_data"

definition mean_of :: "(mppt_data \<Rightarrow> real) \<Rightarrow> sample list \<Rightarrow> real" where
  "mean_of f xs = sum_list (map (f \<circ> snd) xs) / real (length xs)"

definition bucket_of :: "sample list \<Rightarrow> mppt_bucket" where
  "bucket_of xs = \<lparr>bk_voltage = mean_of md_voltage xs, bk_current = mean_of md_current xs,
     bk_power = mean_of md_panel_power xs\<rparr>"

fun periods :: "real \<Rightarrow> real \<Rightarrow> sample list \<Rightarrow> sample list \<Rightarrow> sample list list \<times> sample list" where
  "periods period start cur [] = ([], cur)"
| "periods period start cur ((t, md) # xs) =
     (if period \<le> t - start
      then (case periods period t [] xs of (cs, rest) \<Rightarrow> ((cur @ [(t, md)]) # cs, rest))
      else periods period start (cur @ [(t, md)]) xs)"

definition last_n :: "nat \<Rightarrow> 'a list \<Rightarrow> 'a list" where
  "last_n n xs = drop (length xs - n) xs"

definition feed_samples :: "sample list \<Rightarrow> mppt_device \<Rightarrow> mppt_device" where
  "feed_samples xs s = fold (\<lambda>(t, md). add_sample t md) xs s"

definition accumulates :: "sample list \<Rightarrow> mppt_device \<Rightarrow> bool" where
  "accumulates cur s \<longleftrightarrow> mp_mean_v s = sum_list (map (md_voltage \<circ> snd) cur)
     \<and> mp_mean_a s = sum_list (map (md_current \<circ> snd) cur)
     \<and> mp_mean_p s = sum_list (map (md_panel_power \<circ> snd) cur) \<and> mp_nb_sample s = length cur"

lemma last_n_append: "deque_append n (last_n n xs) x = last_n n (xs @ [x])"
proof (cases "n \<le> length xs")
  case True
  then show ?thesis by (cases "n = 0") (simp_all add: deque_append_def last_n_def Suc_diff_le)
qed (simp add: deque_append_def last_n_def)

lemma periods_refine:
  assumes "accumulates cur s" "mp_buckets s = last_n (mp_trend_depth s) bs"
    and "periods (mp_trend_period s) (mp_start_period s) cur xs = (cs, rest)"
  shows "mp_buckets (feed_samples xs s) = last_n (mp_trend_depth s) (bs @ map bucket_of cs)
    \<and> accumulates rest (feed_samples xs s)"
  using assms
proof (induction xs arbitrary: cur s bs cs)
  case (Cons x xs)
  obtain t md where x: "x = (t, md)" by (cases x)
  let ?s1 = "add_sample t md s"
  have f: "feed_samples (x # xs) s = feed_samples xs ?s1" by (simp add: feed_samples_def x)
  have c: "mp_trend_depth ?s1 = mp_trend_depth s" "mp_trend_period ?s1 = mp_trend_period s"
    by (simp_all add: add_sample_def Let_def)
  show ?case
  proof (cases "mp_trend_period s \<le> t - mp_start_period s")
    case True
    obtain cs1 where cs1: "periods (mp_trend_period s) t [] xs = (cs1, rest)" "cs = (cur @ [(t, md)]) # cs1"
      using Cons.prems(3) True by (auto simp: x split: prod.splits)
    have "accumulates [] ?s1" "mp_start_period ?s1 = t"
      using True by (simp_all add: accumulates_def add_sample_def Let_def)
    moreover have "mp_buckets ?s1 = last_n (mp_trend_depth ?s1) (bs @ [bucket_of (cur @ [(t, md)])])"
      using True Cons.prems(1,2) last_n_append [of "mp_trend_depth s" bs "bucket_of (cur @ [(t, md)])"]
      by (simp add: add_sample_def Let_def accumulates_def bucket_of_def mean_of_def)
    ultimately show ?thesis
      using Cons.IH [of "[]" ?s1 "bs @ [bucket_of (cur @ [(t, md)])]" cs1] cs1 c by (simp add: f)
  next
    case False
    then have "accumulates (cur @ [(t, md)]) ?s1" "mp_start_period ?s1 = mp_start_period s"
      "mp_buckets ?s1 = mp_buckets s"
      using Cons.prems(1) by (simp_all add: accumulates_def add_sample_def Let_def)
    with Cons.IH [of "cur @ [(t, md)]" ?s1 bs cs] Cons.prems False c show ?thesis unfolding f by (simp add: x)
  qed
qed (simp add: feed_samples_def)

lemma periods_concat: "periods period start cur xs = (cs, rest) \<Longrightarrow> concat cs @ rest = cur @ xs"
  by (induction period start cur xs arbitrary: cs rule: periods.induct) (auto split: if_splits prod.splits)

text \<open>What a message does to the trend is what its sample does.\<close>

definition trend_of :: "mppt_device \<Rightarrow> nat \<times> real \<times> mppt_bucket list \<times> real \<times> real \<times> real \<times> real \<times> nat" where
  "trend_of s = (mp_trend_depth s, mp_trend_period s, mp_buckets s, mp_start_period s, mp_mean_v s, mp_mean_a s,
     mp_mean_p s, mp_nb_sample s)"

lemma trend_add: "trend_of s = trend_of s' \<Longrightarrow> trend_of (add_sample t md s) = trend_of (add_sample t md s')"
proof -
  assume "trend_of s = trend_of s'"
  then have "mp_trend_depth s = mp_trend_depth s'" "mp_trend_period s = mp_trend_period s'"
    "mp_buckets s = mp_buckets s'" "mp_start_period s = mp_start_period s'" "mp_mean_v s = mp_mean_v s'"
    "mp_mean_a s = mp_mean_a s'" "mp_mean_p s = mp_mean_p s'" "mp_nb_sample s = mp_nb_sample s'"
    by (simp_all add: trend_of_def)
  then show ?thesis by (simp add: trend_of_def add_sample_def Let_def)
qed

lemma trend_feed: "trend_of s = trend_of s' \<Longrightarrow> trend_of (feed_samples xs s) = trend_of (feed_samples xs s')"
proof (induction xs arbitrary: s s')
  case (Cons x xs)
  obtain t md where x: "x = (t, md)" by (cases x)
  from Cons.IH [OF trend_add [OF Cons.prems, of t md]] show ?case by (simp add: feed_samples_def x)
qed (simp add: feed_samples_def)

lemma trend_publish:
  assumes "new_mppt_data d = Inr md"
  shows "trend_of (fst (mppt_publish t d s)) = trend_of (add_sample t md s)"
proof -
  let ?s = "add_sample t md (s\<lparr>mp_dict := Some d, mp_data := Some md\<rparr>)"
  have "trend_of (fst (mppt_publish t d s)) = trend_of ?s"
    using assms by (simp add: mppt_publish_def mppt_publish2000_def trend_of_def Let_def split: mppt_protocol.split option.split)
  also have "\<dots> = trend_of (add_sample t md s)" by (rule trend_add) (simp add: trend_of_def)
  finally show ?thesis .
qed

definition mppt_run :: "(real \<times> ve_dict) list \<Rightarrow> mppt_device \<Rightarrow> mppt_device" where
  "mppt_run ms s = fold (\<lambda>(t, d) s. fst (mppt_publish t d s)) ms s"

lemma trend_run:
  "list_all2 (\<lambda>(t, d) (t', md). t = t' \<and> new_mppt_data d = Inr md) ms xs \<Longrightarrow>
     trend_of (mppt_run ms s) = trend_of (feed_samples xs s)"
proof (induction ms arbitrary: xs s)
  case (Cons m ms)
  then obtain t d md ys where c: "m = (t, d)" "xs = (t, md) # ys" "new_mppt_data d = Inr md"
    "list_all2 (\<lambda>(t, d) (t', md). t = t' \<and> new_mppt_data d = Inr md) ms ys"
    by (cases m) (auto simp: list_all2_Cons1)
  have "trend_of (mppt_run ms (fst (mppt_publish t d s))) = trend_of (feed_samples ys (add_sample t md s))"
    using Cons.IH [OF c(4)] trend_feed [OF trend_publish [OF c(3)]] by metis
  then show ?case by (simp add: c mppt_run_def feed_samples_def)
qed (simp add: mppt_run_def feed_samples_def)

text \<open>C35. The trend kept by the charger service is the list of the means of its periods: whatever messages
  arrive and when, their samples are cut in periods in their order, and the buckets are the means of
  voltage, current and power of the last complete ones, as many as the depth of the trend.\<close>

theorem mppt_trend_refines:
  assumes "list_all2 (\<lambda>(t, d) (t', md). t = t' \<and> new_mppt_data d = Inr md) ms xs"
    and "periods period t0 [] xs = (cs, rest)"
  shows "mp_buckets (mppt_run ms (start_mppt t0 depth period protocol)) = last_n depth (map bucket_of cs)
    \<and> concat cs @ rest = xs"
proof -
  have "mp_buckets (feed_samples xs (start_mppt t0 depth period protocol)) = last_n depth (map bucket_of cs)"
    using periods_refine [of "[]" "start_mppt t0 depth period protocol" "[]" xs cs rest] assms(2)
    by (simp add: start_mppt_def accumulates_def last_n_def)
  with trend_run [OF assms(1), of "start_mppt t0 depth period protocol"] periods_concat [OF assms(2)]
  show ?thesis by (simp add: trend_of_def)
qed

text \<open>A complete message of a charger, with a given voltage in millivolts.\<close>

definition sample_ve :: "nat \<Rightarrow> ve_dict" where
  "sample_ve v =
     (text_of ''V'', VeText (dec_text v)) # map (\<lambda>k. (text_of k, VeText (dec_text 1000)))
       [''I'', ''PPV'', ''PID'', ''FW'', ''SER#'', ''ERR'', ''CS'', ''MPPT'', ''H21'', ''H20'']"

definition sample_mppt :: "nat \<Rightarrow> mppt_data" where
  "sample_mppt v =
     (let t = VeText (dec_text 1000) in
      \<lparr>md_current = 1, md_voltage = real v / 1000, md_panel_power = 1000, md_product_id = t, md_firmware = t,
       md_serial = t, md_error = 1000, md_state = 1000, md_mppt_state = 1000, md_day_max_power = 1000,
       md_day_power = 10000\<rparr>)"

lemma sample_ve_data: "new_mppt_data (sample_ve v) = Inr (sample_mppt v)"
proof -
  have "int_of_str (dec_text n) = Inr (int n)" for n
    using dec_text_bytes [of n] by (simp add: int_of_str_def on_ascii_def)
  then show ?thesis
    by (simp add: new_mppt_data_def sample_ve_def sample_mppt_def ve_item_def text_of_def float_of_dec_text Let_def)
qed

lemma mppt_trend_refines_witness:
  "mp_buckets (mppt_run [(1, sample_ve 12000), (11, sample_ve 14000), (12, sample_ve 13000)]
       (start_mppt 0 30 10 PublishNothing)) = [\<lparr>bk_voltage = 13, bk_current = 1, bk_power = 1000\<rparr>]"
proof -
  let ?xs = "[(1, sample_mppt 12000), (11, sample_mppt 14000), (12, sample_mppt 13000)]"
  have "periods 10 0 [] ?xs = ([[(1, sample_mppt 12000), (11, sample_mppt 14000)]], [(12, sample_mppt 13000)])" by simp
  from mppt_trend_refines [OF _ this, of "[(1, sample_ve 12000), (11, sample_ve 14000), (12, sample_ve 13000)]" 30
      PublishNothing]
  show ?thesis by (simp add: sample_ve_data last_n_def bucket_of_def mean_of_def) (simp add: sample_mppt_def Let_def)
qed

lemma get_trend_values: "tr_values (get_trend rid s) = mp_buckets s" "tr_nb_values (get_trend rid s) = length (mp_buckets s)"
proof -
  have "tr_values (fold (\<lambda>b r. r\<lparr>tr_nb_values := tr_nb_values r + 1, tr_values := tr_values r @ [b]\<rparr>) bs r) = tr_values r @ bs
    \<and> tr_nb_values (fold (\<lambda>b r. r\<lparr>tr_nb_values := tr_nb_values r + 1, tr_values := tr_values r @ [b]\<rparr>) bs r)
      = tr_nb_values r + length bs" for bs and r :: trend_response
    by (induction bs arbitrary: r) simp_all
  then show "tr_values (get_trend rid s) = mp_buckets s" "tr_nb_values (get_trend rid s) = length (mp_buckets s)"
    by (simp_all add: get_trend_def)
qed

end
