(* ===== verification/IKonvert.thy ===== *)
theory IKonvert
  imports Pdgy Queues
begin

text \<open>
  The Digital Yacht gateway, \<^verbatim>\<open>couplers/ikonvert.py\<close>: the decoding of its lines, the callbacks of the reading
  thread, and the dialogue by which \<^verbatim>\<open>open\<close> and \<^verbatim>\<open>stop_communication\<close> bring it on and off the network, with
  the semaphore they wait on. The serial line is the list of lines it delivers and of those written to it.
  The thread that calls \<^verbatim>\<open>open\<close> and \<^verbatim>\<open>stop_communication\<close> does one thing at a time.
\<close>

section \<open>Messages\<close>

datatype ik_msg =
    IkStatus bytes int bytes bytes bytes int
  | IkNotConn "bytes option"
  | IkAck bytes
  | IkNak bytes
  | IkN2k bytes n2k_msg
  | IkN183 bytes

definition rstrip_crlf :: "bytes \<Rightarrow> bytes" where
  "rstrip_crlf bs = rev (dropWhile (\<lambda>b. b \<in> {13, 10}) (rev bs))"

text \<open>\<^verbatim>\<open>decode\<close>, in the order of its tests.\<close>

definition ik_decode_n2k :: "real \<Rightarrow> bytes \<Rightarrow> bytes list \<Rightarrow> ik_msg result" where
  "ik_decode_n2k now data flds =
     bind_r (py_get flds 6) (\<lambda>f6.
       let msg_data = rstrip_crlf f6 in
       if msg_data = [] then Inl ValueError
       else
         bind_r (bind_r (py_get flds 1) (parse_int 10)) (\<lambda>pgn.
         bind_r (bind_r (py_get flds 2) (parse_int 10)) (\<lambda>prio.
         bind_r (bind_r (py_get flds 3) (parse_int 10)) (\<lambda>sa.
         bind_r (bind_r (py_get flds 4) (parse_int 10)) (\<lambda>da.
         bind_r (b64decode msg_data) (\<lambda>payload.
           map_sum id (IkN2k data) (n2k_of_ints now pgn prio sa da payload)))))))"

definition ik_decode_pdgy :: "bytes list \<Rightarrow> ik_msg result" where
  "ik_decode_pdgy flds =
     bind_r (py_get flds 1) (\<lambda>f1.
     bind_r (py_get f1 0) (\<lambda>c.
       if c = 48 then
         bind_r (py_get flds 3) (\<lambda>f3.
           if f3 = [] then Inr (IkNotConn None)
           else
             bind_r (py_get flds 2) (\<lambda>bus_load.
             bind_r (parse_int 10 f3) (\<lambda>frame_errors.
             bind_r (py_get flds 4) (\<lambda>nb_devices.
             bind_r (py_get flds 5) (\<lambda>uptime.
             bind_r (py_get flds 6) (\<lambda>address.
             bind_r (bind_r (py_get flds 7) (parse_int 10)) (\<lambda>rejected.
               Inr (IkStatus bus_load frame_errors nb_devices uptime address rejected))))))))
       else if f1 = bytes_of ''TEXT'' then map_sum id (\<lambda>f. IkNotConn (Some f)) (py_get flds 2)
       else if f1 = bytes_of ''ACK'' then map_sum id IkAck (py_get flds 2)
       else if f1 = bytes_of ''NAK'' then map_sum id IkNak (py_get flds 2)
       else Inl ValueError))"

definition ik_decode :: "real \<Rightarrow> bytes \<Rightarrow> ik_msg result" where
  "ik_decode now data =
     (let flds = split_on 44 data in
      if length data < 8 then Inl ValueError
      else if length flds < 2 then Inl ValueError
      else
        bind_r (py_get flds 0) (\<lambda>f0.
          if take 6 f0 = bytes_of ''!PDGY'' then ik_decode_n2k now data flds
          else if take 6 f0 = bytes_of ''$PDGY'' then ik_decode_pdgy flds
          else bind_r (py_get f0 0) (\<lambda>c. if c = 36 then Inr (IkN183 data) else Inl ValueError)))"

section \<open>The state of the coupler\<close>

datatype ik_state = IkIdle | IkReady | IkConnected
datatype ik_wait = NoWait | WaitMsg | WaitConn | WaitAcknak

text \<open>What is queued for the coupler: a NMEA 0183 message is the generic one, with its raw text and length.\<close>

datatype ik_item = IkNull | IkItem0183 "(bytes \<times> nat) option" | IkItem2k bytes n2k_msg

record ik =
  ik_state :: ik_state
  ik_wait :: ik_wait
  ik_sem :: nat
  ik_result :: "(bool \<times> bytes) option"
  ik_status_count :: nat
  ik_queue :: "ik_item bqueue"
  ik_total_raw :: nat
  ik_tty :: bool
  ik_reader :: "bool option"
  ik_lock :: bool
  ik_out :: "bytes list"
  ik_mode :: bytes

text \<open>\<open>ik_result\<close> tells whether the answer was an acknowledgement, and its text; \<open>ik_reader\<close> is the stop flag of
  the reader, once there is one; \<open>ik_out\<close> is what was written.\<close>

definition new_ik :: "nat \<Rightarrow> bytes \<Rightarrow> ik" where
  "new_ik queue_size ikonvert_mode =
     \<lparr>ik_state = IkIdle, ik_wait = NoWait, ik_sem = 0, ik_result = None, ik_status_count = 0,
      ik_queue = new_queue queue_size, ik_total_raw = 0, ik_tty = False, ik_reader = None, ik_lock = False,
      ik_out = [], ik_mode = ikonvert_mode\<rparr>"

definition ik_release :: "ik \<Rightarrow> ik" where
  "ik_release s = s\<lparr>ik_wait := NoWait, ik_sem := ik_sem s + 1\<rparr>"

section \<open>Callbacks of the reading thread\<close>

definition ik_process_status :: "ik_msg \<Rightarrow> ik \<Rightarrow> ik" where
  "ik_process_status msg s =
     (case msg of
        IkNotConn boot \<Rightarrow>
          let s1 = s\<lparr>ik_state := IkReady\<rparr> in (if ik_wait s1 = WaitMsg then ik_release s1 else s1)
      | _ \<Rightarrow>
          let s1 = (if ik_state s \<noteq> IkConnected then s\<lparr>ik_state := IkConnected\<rparr> else s);
              s2 = (if ik_wait s1 = WaitConn \<or> ik_wait s1 = WaitMsg then ik_release s1 else s1)
          in (case msg of IkStatus _ _ _ _ _ _ \<Rightarrow> s2\<lparr>ik_status_count := ik_status_count s2 + 1\<rparr> | _ \<Rightarrow> s2))"

definition ik_process_acknak :: "ik_msg \<Rightarrow> ik \<Rightarrow> ik" where
  "ik_process_acknak msg s =
     (if ik_wait s = WaitAcknak
      then ik_release (s\<lparr>ik_result := Some (case msg of IkAck t \<Rightarrow> (True, t) | IkNak t \<Rightarrow> (False, t) | _ \<Rightarrow> (False, []))\<rparr>)
      else s)"

definition ik_item_of :: "ik_msg \<Rightarrow> ik_item" where
  "ik_item_of msg =
     (case msg of IkN183 raw \<Rightarrow> IkItem0183 (nav_n0183 raw) | IkN2k raw m \<Rightarrow> IkItem2k raw m | _ \<Rightarrow> IkNull)"

definition ik_process_nmea :: "ik_msg \<Rightarrow> ik \<Rightarrow> ik" where
  "ik_process_nmea msg s =
     (let s1 = (if ik_state s \<noteq> IkConnected then ik_process_status msg s else s) in
      if ik_state s1 \<noteq> IkConnected then s1
      else case q_put (ik_item_of msg) (ik_queue s1) of
        Inr q \<Rightarrow> s1\<lparr>ik_queue := q\<rparr>
      | Inl _ \<Rightarrow> s1)"

definition ik_callback :: "ik_msg \<Rightarrow> ik \<Rightarrow> ik" where
  "ik_callback msg =
     (case msg of
        IkStatus _ _ _ _ _ _ \<Rightarrow> ik_process_status msg
      | IkNotConn _ \<Rightarrow> ik_process_status msg
      | IkAck _ \<Rightarrow> ik_process_acknak msg
      | IkNak _ \<Rightarrow> ik_process_acknak msg
      | IkN2k _ _ \<Rightarrow> ik_process_nmea msg
      | IkN183 _ \<Rightarrow> ik_process_nmea msg)"

text \<open>A line read by the thread: an empty one is a timeout; a line that cannot be decoded is dropped. The
  second component is an exception that ends the thread.\<close>

definition ik_line :: "real \<Rightarrow> bytes \<Rightarrow> ik \<Rightarrow> ik \<times> py_error option" where
  "ik_line now data s =
     (if data = [] then (s, None)
      else
        let s1 = s\<lparr>ik_total_raw := ik_total_raw s + 1\<rparr> in
        case ik_decode now data of
          Inl e \<Rightarrow> (s1, if e \<in> {ValueError, BinasciiError, UnicodeError, IndexError, KeyError} then None else Some e)
        | Inr msg \<Rightarrow> (ik_callback msg s1, None))"

section \<open>The dialogue with the gateway\<close>

text \<open>Where the calling thread is: out of any call, waiting for a status, between the writing of the command
  and the setting of the event it waits for, waiting for the answer, and so on.\<close>

datatype ik_pc =
    IkOut | OpenWait1 | OpenSent | OpenWaitAck | OpenWait2 | Opened bool
  | StopSent | StopWait1 | StopWait2 | StopPut | Stopped

definition ik_wait_status :: "ik \<Rightarrow> ik" where
  "ik_wait_status s = s\<lparr>ik_wait := WaitMsg\<rparr>"

text \<open>\<^verbatim>\<open>send_loc_cmd\<close> up to the writing.\<close>

definition ik_send_cmd :: "bytes \<Rightarrow> bytes option \<Rightarrow> ik \<Rightarrow> ik" where
  "ik_send_cmd cmd option s =
     (let cmd_buf = bytes_of ''$PDGY,'' @ cmd @ (case option of None \<Rightarrow> [] | Some o1 \<Rightarrow> 44 # o1)
      in s\<lparr>ik_result := None, ik_out := ik_out s @ [cmd_buf, [13, 10]]\<rparr>)"

text \<open>\<^verbatim>\<open>open\<close> up to its first wait; \<open>serial_ok\<close> tells whether the device opens.\<close>

definition ik_open_begin :: "bool \<Rightarrow> ik \<Rightarrow> ik_pc \<times> ik" where
  "ik_open_begin serial_ok s =
     (let s0 = s\<lparr>ik_lock := True\<rparr> in
      if ik_state s0 = IkConnected then (Opened True, s0\<lparr>ik_lock := False\<rparr>)
      else if \<not> ik_tty s0 \<and> \<not> serial_ok then (Opened False, s0\<lparr>ik_lock := False\<rparr>)
      else
        let s1 = s0\<lparr>ik_tty := True, ik_reader := (case ik_reader s0 of None \<Rightarrow> Some False | r \<Rightarrow> r)\<rparr>
        in (OpenWait1, ik_wait_status s1))"

definition ik_open_end :: "ik \<Rightarrow> ik_pc \<times> ik" where
  "ik_open_end s = (Opened (ik_state s = IkConnected), s\<lparr>ik_lock := False\<rparr>)"

text \<open>After the first wait.\<close>

definition ik_open_status :: "ik \<Rightarrow> ik_pc \<times> ik" where
  "ik_open_status s =
     (if ik_state s = IkReady then (OpenSent, ik_send_cmd (bytes_of ''N2NET_INIT'') (Some (ik_mode s)) s)
      else ik_open_end s)"

text \<open>\<^verbatim>\<open>stop_communication\<close>: only a connected gateway is told to leave the network. The put of the
  NULL message waits for room in the queue.\<close>

definition ik_stop_reader :: "ik \<Rightarrow> ik" where
  "ik_stop_reader s = s\<lparr>ik_reader := map_option (\<lambda>_. True) (ik_reader s)\<rparr>"

definition ik_stop_end :: "ik_item bqueue \<Rightarrow> ik \<Rightarrow> ik" where
  "ik_stop_end q s = s\<lparr>ik_queue := q, ik_state := IkIdle\<rparr>"

definition ik_stop_begin :: "ik \<Rightarrow> ik_pc \<times> ik" where
  "ik_stop_begin s =
     (if ik_state s = IkConnected then (StopSent, ik_send_cmd (bytes_of ''N2NET_OFFLINE'') None s)
      else (StopPut, ik_stop_reader s))"

definition ik_close :: "ik \<Rightarrow> ik" where
  "ik_close s = (if ik_tty s then s\<lparr>ik_tty := False\<rparr> else s)"

inductive ik_step :: "ik_pc \<times> ik \<Rightarrow> ik_pc \<times> ik \<Rightarrow> bool" where
  line: "ik_reader s = Some False \<Longrightarrow> ik_line now data s = (s1, None) \<Longrightarrow> ik_step (pc, s) (pc, s1)"
| open_begin: "ik_open_begin serial_ok s = (pc1, s1) \<Longrightarrow> ik_step (IkOut, s) (pc1, s1)"
| open_status: "ik_sem s = Suc n \<Longrightarrow> ik_open_status (s\<lparr>ik_sem := n\<rparr>) = (pc1, s1) \<Longrightarrow> ik_step (OpenWait1, s) (pc1, s1)"
| open_sent: "ik_step (OpenSent, s) (OpenWaitAck, s\<lparr>ik_wait := WaitAcknak\<rparr>)"
| open_acked: "ik_sem s = Suc n \<Longrightarrow> ik_step (OpenWaitAck, s) (OpenWait2, ik_wait_status (s\<lparr>ik_sem := n\<rparr>))"
| open_end: "ik_sem s = Suc n \<Longrightarrow> ik_open_end (s\<lparr>ik_sem := n\<rparr>) = (pc1, s1) \<Longrightarrow> ik_step (OpenWait2, s) (pc1, s1)"
| opened: "ik_step (Opened r, s) (IkOut, s)"
| stop_begin: "ik_stop_begin s = (pc1, s1) \<Longrightarrow> ik_step (IkOut, s) (pc1, s1)"
| stop_sent: "ik_step (StopSent, s) (StopWait1, s\<lparr>ik_wait := WaitMsg\<rparr>)"
| stop_wait1: "ik_sem s = Suc n \<Longrightarrow> ik_step (StopWait1, s) (StopWait2, ik_wait_status (s\<lparr>ik_sem := n\<rparr>))"
| stop_wait2: "ik_sem s = Suc n \<Longrightarrow> ik_step (StopWait2, s) (StopPut, ik_stop_reader (s\<lparr>ik_sem := n\<rparr>))"
| stop_put: "q_put IkNull (ik_queue s) = Inr q \<Longrightarrow> ik_step (StopPut, s) (Stopped, ik_stop_end q s)"
| read: "q_get (ik_queue s) = Inr (x, q) \<Longrightarrow> ik_step (pc, s) (pc, s\<lparr>ik_queue := q\<rparr>)"

section \<open>Sending\<close>

definition ik_send :: "bytes \<Rightarrow> bool \<Rightarrow> ik \<Rightarrow> ik \<times> bool" where
  "ik_send raw write_ok s =
     (if ik_state s \<noteq> IkConnected then (s, False)
      else if write_ok then (s\<lparr>ik_out := ik_out s @ [raw]\<rparr>, True) else (s, False))"

definition ik_n2k_frame :: "n2k_msg \<Rightarrow> bytes" where
  "ik_n2k_frame m = bytes_of ''!PGDY,'' @ dec_bytes (m_pgn m) @ 44 # dec_bytes (m_da m) @ 44 # b64encode (m_payload m) @ [13, 10]"

definition ik_send_n2k_msg :: "n2k_msg \<Rightarrow> bool \<Rightarrow> ik \<Rightarrow> ik \<times> bool" where
  "ik_send_n2k_msg m write_ok s =
     (if write_ok then (s\<lparr>ik_out := ik_out s @ [ik_n2k_frame m]\<rparr>, True) else (s, False))"

inductive_cases ik_stepE: "ik_step (pc, s) (pc1, s1)"

inductive ik_reachable :: "ik_pc \<times> ik \<Rightarrow> bool" where
  start: "ik_reachable (IkOut, new_ik n mode)"
| step: "ik_reachable x \<Longrightarrow> ik_step x y \<Longrightarrow> ik_reachable y"

section \<open>The semaphore\<close>

definition ik_waiting :: "ik_pc \<Rightarrow> bool" where
  "ik_waiting pc \<longleftrightarrow> pc \<in> {OpenWait1, OpenWaitAck, OpenWait2, StopWait1, StopWait2}"

text \<open>What the two threads owe each other: the caller waits exactly while an event is awaited or the semaphore
  is raised, never both; and the result it will read is there when the semaphore is.\<close>

definition ik_owed :: "ik_pc \<times> ik \<Rightarrow> bool" where
  "ik_owed x = (case x of (pc, s) \<Rightarrow>
     ik_sem s + (if ik_wait s = NoWait then 0 else 1) = (if ik_waiting pc then 1 else 0)
     \<and> (pc = OpenWaitAck \<and> ik_wait s = NoWait \<longrightarrow> ik_result s \<noteq> None)
     \<and> (pc = OpenWaitAck \<longrightarrow> ik_wait s \<in> {NoWait, WaitAcknak}))"

lemma ik_owed_update [simp]:
  "ik_owed (pc, s\<lparr>ik_state := st\<rparr>) = ik_owed (pc, s)" "ik_owed (pc, s\<lparr>ik_queue := q\<rparr>) = ik_owed (pc, s)"
  "ik_owed (pc, s\<lparr>ik_status_count := n\<rparr>) = ik_owed (pc, s)" "ik_owed (pc, s\<lparr>ik_total_raw := n\<rparr>) = ik_owed (pc, s)"
  by (simp_all add: ik_owed_def)

lemma ik_owed_release:
  "ik_owed (pc, s) \<Longrightarrow> ik_wait s = WaitAcknak \<Longrightarrow> ik_owed (pc, ik_release (s\<lparr>ik_result := Some r\<rparr>))"
  by (auto simp: ik_owed_def ik_release_def split: if_splits)

lemma ik_owed_release_plain:
  "ik_owed (pc, s) \<Longrightarrow> ik_wait s \<in> {WaitMsg, WaitConn} \<Longrightarrow> ik_owed (pc, ik_release s)"
  by (auto simp: ik_owed_def ik_release_def split: if_splits)

lemma ik_status_owed:
  assumes "ik_owed (pc, s)"
  shows "ik_owed (pc, ik_process_status m s)"
proof -
  let ?s1 = "if ik_state s \<noteq> IkConnected then s\<lparr>ik_state := IkConnected\<rparr> else s"
  let ?s2 = "if ik_wait ?s1 = WaitConn \<or> ik_wait ?s1 = WaitMsg then ik_release ?s1 else ?s1"
  have 1: "ik_owed (pc, ?s1)" using assms by simp
  then have 2: "ik_owed (pc, ?s2)" using ik_owed_release_plain [OF 1] by simp
  have 3: "ik_owed (pc, ik_release (s\<lparr>ik_state := IkReady\<rparr>))" if "ik_wait s = WaitMsg"
    using ik_owed_release_plain [of pc "s\<lparr>ik_state := IkReady\<rparr>"] assms that by simp
  show ?thesis
    using assms 2 3 by (cases m) (simp_all only: ik_process_status_def ik_msg.case Let_def ik_owed_update split: if_split, simp_all)
qed

lemma ik_nmea_owed:
  assumes "ik_owed (pc, s)"
  shows "ik_owed (pc, ik_process_nmea m s)"
  using assms ik_status_owed [OF assms, of m] by (simp add: ik_process_nmea_def Let_def split: sum.split)

lemma ik_acknak_owed:
  assumes "ik_owed (pc, s)"
  shows "ik_owed (pc, ik_process_acknak m s)"
  using assms ik_owed_release [OF assms] by (simp add: ik_process_acknak_def)

lemma ik_line_owed:
  assumes "ik_owed (pc, s)" "ik_line now data s = (s1, e)"
  shows "ik_owed (pc, s1)"
proof -
  have "ik_owed (pc, ik_callback msg s0)" if "ik_owed (pc, s0)" for msg s0
    using that ik_status_owed ik_nmea_owed ik_acknak_owed by (cases msg) (simp_all add: ik_callback_def)
  from this [of "s\<lparr>ik_total_raw := ik_total_raw s + 1\<rparr>"] assms show ?thesis
    by (auto simp: ik_line_def Let_def split: if_splits sum.splits)
qed

lemma ik_step_owed: "ik_step x y \<Longrightarrow> ik_owed x \<Longrightarrow> ik_owed y"
proof (induction rule: ik_step.induct)
  case (line s now data s1 pc)
  then show ?case using ik_line_owed by blast
qed (auto simp: ik_owed_def ik_waiting_def ik_open_begin_def ik_open_end_def ik_open_status_def ik_send_cmd_def
       ik_wait_status_def ik_stop_begin_def ik_stop_reader_def ik_stop_end_def Let_def split: if_splits)

text \<open>The lock of \<^verbatim>\<open>open\<close> is held exactly while one is in progress.\<close>

definition ik_lock_ok :: "ik_pc \<times> ik \<Rightarrow> bool" where
  "ik_lock_ok x = (case x of (pc, s) \<Rightarrow> ik_lock s = (pc \<in> {OpenWait1, OpenSent, OpenWaitAck, OpenWait2}))"

lemma ik_callback_lock [simp]: "ik_lock (ik_callback msg s) = ik_lock s"
proof -
  have st: "ik_lock (ik_process_status m s) = ik_lock s" for m s
    by (cases m) (simp_all add: ik_process_status_def ik_release_def Let_def)
  have "ik_lock (ik_process_nmea m s) = ik_lock s" for m
    by (simp add: ik_process_nmea_def Let_def st split: sum.split)
  moreover have "ik_lock (ik_process_acknak m s) = ik_lock s" for m
    by (simp add: ik_process_acknak_def ik_release_def)
  ultimately show ?thesis using st by (cases msg) (simp_all add: ik_callback_def)
qed

lemma ik_line_lock: "ik_line now data s = (s1, e) \<Longrightarrow> ik_lock s1 = ik_lock s"
  by (auto simp: ik_line_def Let_def split: if_splits sum.splits)

lemma ik_step_lock: "ik_step x y \<Longrightarrow> ik_lock_ok x \<Longrightarrow> ik_lock_ok y"
proof (induction rule: ik_step.induct)
  case (line s now data s1 pc)
  then show ?case using ik_line_lock by (auto simp: ik_lock_ok_def)
qed (auto simp: ik_lock_ok_def ik_open_begin_def ik_open_end_def ik_open_status_def ik_send_cmd_def
       ik_wait_status_def ik_stop_begin_def ik_stop_reader_def ik_stop_end_def Let_def split: if_splits)



section \<open>Opening\<close>

lemma ik_lineI:
  assumes "ik_reader s = Some False" "ik_decode now data = Inr msg"
  shows "ik_step (pc, s) (pc, ik_callback msg (s\<lparr>ik_total_raw := ik_total_raw s + 1\<rparr>))"
proof (rule ik_step.line [OF assms(1)])
  have "data \<noteq> []" using assms(2) by (auto simp: ik_decode_def Let_def)
  with assms(2) show "ik_line now data s = (ik_callback msg (s\<lparr>ik_total_raw := ik_total_raw s + 1\<rparr>), None)"
    by (simp add: ik_line_def Let_def)
qed

text \<open>The opening of a gateway that is off the network can complete: the gateway reports that it is not
  connected, is sent the INIT command with the mode, acknowledges it and reports its status; then \<^verbatim>\<open>open\<close>
  returns True with the coupler connected and its lock free.\<close>

theorem ik_handshake:
  assumes "ik_decode t1 l1 = Inr (IkNotConn boot)" "ik_decode t2 l2 = Inr (IkAck answer)"
    and "ik_decode t3 l3 = Inr (IkStatus load errors nb up adr rejected)"
  shows "\<exists>s. ik_step\<^sup>*\<^sup>* (IkOut, new_ik n mode) (Opened True, s) \<and> ik_state s = IkConnected \<and> \<not> ik_lock s
    \<and> ik_out s = [bytes_of ''$PDGY,N2NET_INIT,'' @ mode, [13, 10]]"
proof -
  define s1 where "s1 = snd (ik_open_begin True (new_ik n mode))"
  define s2 where "s2 = ik_callback (IkNotConn boot) (s1\<lparr>ik_total_raw := ik_total_raw s1 + 1\<rparr>)"
  define s3 where "s3 = snd (ik_open_status (s2\<lparr>ik_sem := 0\<rparr>))"
  define s4 where "s4 = s3\<lparr>ik_wait := WaitAcknak\<rparr>"
  define s5 where "s5 = ik_callback (IkAck answer) (s4\<lparr>ik_total_raw := ik_total_raw s4 + 1\<rparr>)"
  define s6 where "s6 = ik_wait_status (s5\<lparr>ik_sem := 0\<rparr>)"
  define s7 where "s7 = ik_callback (IkStatus load errors nb up adr rejected) (s6\<lparr>ik_total_raw := ik_total_raw s6 + 1\<rparr>)"
  define s8 where "s8 = snd (ik_open_end (s7\<lparr>ik_sem := 0\<rparr>))"
  note defs = new_ik_def ik_open_begin_def ik_open_status_def ik_open_end_def ik_callback_def ik_process_status_def
    ik_process_acknak_def ik_release_def ik_send_cmd_def ik_wait_status_def Let_def
  have 1: "ik_open_begin True (new_ik n mode) = (OpenWait1, s1)" by (simp add: s1_def defs)
  have 2: "ik_reader s1 = Some False" "ik_sem s2 = Suc 0" by (simp_all add: s2_def s1_def defs)
  have 3: "ik_open_status (s2\<lparr>ik_sem := 0\<rparr>) = (OpenSent, s3)" by (simp add: s3_def s2_def s1_def defs)
  have 5: "ik_reader s4 = Some False" "ik_sem s5 = Suc 0" by (simp_all add: s5_def s4_def s3_def s2_def s1_def defs)
  have 7: "ik_reader s6 = Some False" "ik_sem s7 = Suc 0"
    by (simp_all add: s7_def s6_def s5_def s4_def s3_def s2_def s1_def defs)
  have 8: "ik_open_end (s7\<lparr>ik_sem := 0\<rparr>) = (Opened True, s8)" "ik_state s8 = IkConnected" "\<not> ik_lock s8"
    "ik_out s8 = [bytes_of ''$PDGY,'' @ bytes_of ''N2NET_INIT'' @ 44 # mode, [13, 10]]"
    by (simp_all add: s8_def s7_def s6_def s5_def s4_def s3_def s2_def s1_def defs)
  have "ik_step\<^sup>*\<^sup>* (IkOut, new_ik n mode) (OpenWait1, s2)"
    using ik_step.open_begin [OF 1] ik_lineI [OF 2(1) assms(1), of OpenWait1]
    unfolding s2_def by (meson converse_rtranclp_into_rtranclp rtranclp.rtrancl_refl)
  also have "ik_step\<^sup>*\<^sup>* (OpenWait1, s2) (OpenWaitAck, s5)"
    using ik_step.open_status [OF 2(2) 3] ik_step.open_sent [of s3] ik_lineI [OF 5(1) assms(2), of OpenWaitAck]
    unfolding s5_def s4_def by (meson converse_rtranclp_into_rtranclp rtranclp.rtrancl_refl)
  also have "ik_step\<^sup>*\<^sup>* (OpenWaitAck, s5) (Opened True, s8)"
    using ik_step.open_acked [OF 5(2)] ik_lineI [OF 7(1) assms(3), of OpenWait2] ik_step.open_end [OF 7(2) 8(1)]
    unfolding s7_def s6_def by (meson converse_rtranclp_into_rtranclp rtranclp.rtrancl_refl)
  finally have "ik_step\<^sup>*\<^sup>* (IkOut, new_ik n mode) (Opened True, s8)" .
  moreover have "bytes_of ''$PDGY,'' @ bytes_of ''N2NET_INIT'' @ 44 # mode = bytes_of ''$PDGY,N2NET_INIT,'' @ mode"
    by (simp add: bytes_of_def)
  ultimately show ?thesis using 8 by auto
qed

definition sample_lines :: "bytes list" where
  "sample_lines = map bytes_of [''$PDGY,000000,,,,,,'', ''$PDGY,ACK,N2NET_INIT'', ''$PDGY,000000,4,0,2,300,7,0'']"

lemma sample_lines_decode:
  "ik_decode 0 (sample_lines ! 0) = Inr (IkNotConn None)"
  "ik_decode 0 (sample_lines ! 1) = Inr (IkAck (bytes_of ''N2NET_INIT''))"
  "ik_decode 0 (sample_lines ! 2)
     = Inr (IkStatus (bytes_of ''4'') 0 (bytes_of ''2'') (bytes_of ''300'') (bytes_of ''7'') 0)"
  by code_simp+

lemma ik_handshake_witness:
  "\<exists>s. ik_step\<^sup>*\<^sup>* (IkOut, new_ik 10 (bytes_of ''ALL'')) (Opened True, s) \<and> ik_state s = IkConnected \<and> \<not> ik_lock s
    \<and> ik_out s = [bytes_of ''$PDGY,N2NET_INIT,'' @ bytes_of ''ALL'', [13, 10]]"
  by (rule ik_handshake [OF sample_lines_decode])

text \<open>C37. An acknowledgement that is read before the calling thread has noted that it waits for one is lost:
  from then on, whatever lines other than an acknowledgement arrive, the thread stays in \<^verbatim>\<open>open\<close>, which
  never returns and never gives its lock back.\<close>

theorem ik_lost_acknowledgement:
  assumes "ik_owed (OpenSent, s)" "ik_lock_ok (OpenSent, s)" "ik_decode t a = Inr (IkAck answer)"
    and "\<forall>(t, l) \<in> set ls. \<forall>x. ik_decode t l \<noteq> Inr (IkAck x) \<and> ik_decode t l \<noteq> Inr (IkNak x)"
    and "s' = fold (\<lambda>(t, l) s. fst (ik_line t l s)) ls ((fst (ik_line t a s))\<lparr>ik_wait := WaitAcknak\<rparr>)"
  shows "(\<forall>y. ik_step (OpenWaitAck, s') y \<longrightarrow> fst y = OpenWaitAck) \<and> ik_lock s'"
proof -
  let ?stuck = "\<lambda>s. ik_wait s = WaitAcknak \<and> ik_sem s = 0 \<and> ik_lock s"
  have w: "ik_wait s = NoWait" "ik_sem s = 0" "ik_lock s"
    using assms(1,2) by (auto simp: ik_owed_def ik_waiting_def ik_lock_ok_def split: if_splits)
  have "a \<noteq> []" using assms(3) by (auto simp: ik_decode_def Let_def)
  then have s1: "?stuck ((fst (ik_line t a s))\<lparr>ik_wait := WaitAcknak\<rparr>)"
    using assms(3) w by (simp add: ik_line_def ik_callback_def ik_process_acknak_def Let_def)
  have keep: "?stuck (ik_process_status m s)" if "?stuck s" for m s
    using that by (cases m) (simp_all add: ik_process_status_def Let_def)
  have nmea: "?stuck (ik_process_nmea m s)" if "?stuck s" for m s
    using keep [OF that, of m] that by (simp add: ik_process_nmea_def Let_def split: sum.split)
  have line: "?stuck (fst (ik_line t l s))"
    if "?stuck s" "\<forall>x. ik_decode t l \<noteq> Inr (IkAck x) \<and> ik_decode t l \<noteq> Inr (IkNak x)" for t l s
  proof (cases "ik_decode t l")
    case (Inr m)
    have "?stuck (ik_callback m (s\<lparr>ik_total_raw := ik_total_raw s + 1\<rparr>))"
      using that Inr keep nmea by (cases m) (simp_all add: ik_callback_def)
    with that Inr show ?thesis by (simp add: ik_line_def Let_def)
  qed (use that in \<open>simp add: ik_line_def Let_def\<close>)
  have "?stuck (fold (\<lambda>(t, l) s. fst (ik_line t l s)) ls s0)" if "?stuck s0" for s0
    using assms(4) that
  proof (induction ls arbitrary: s0)
    case (Cons x ls)
    then show ?case using line by (cases x) simp
  qed simp
  with s1 assms(5) have st: "?stuck s'" by simp
  have "fst y = OpenWaitAck" if "ik_step (OpenWaitAck, s') y" for y
    using that st by cases auto
  with st show ?thesis by blast
qed

lemma ik_lost_acknowledgement_witness:
  "\<not> (\<exists>y. ik_step (OpenWaitAck, (fst (ik_line 0 (sample_lines ! 1) ((new_ik 10 [])\<lparr>ik_lock := True\<rparr>)))\<lparr>ik_wait := WaitAcknak\<rparr>) y
       \<and> fst y \<noteq> OpenWaitAck)
    \<and> ik_lock ((fst (ik_line 0 (sample_lines ! 1) ((new_ik 10 [])\<lparr>ik_lock := True\<rparr>)))\<lparr>ik_wait := WaitAcknak\<rparr>)"
proof -
  have "(\<forall>y. ik_step (OpenWaitAck, (fst (ik_line 0 (sample_lines ! 1) ((new_ik 10 [])\<lparr>ik_lock := True\<rparr>)))\<lparr>ik_wait := WaitAcknak\<rparr>) y
       \<longrightarrow> fst y = OpenWaitAck)
    \<and> ik_lock ((fst (ik_line 0 (sample_lines ! 1) ((new_ik 10 [])\<lparr>ik_lock := True\<rparr>)))\<lparr>ik_wait := WaitAcknak\<rparr>)"
    by (rule ik_lost_acknowledgement [OF _ _ sample_lines_decode(2), where ls = "[]" and s = "(new_ik 10 [])\<lparr>ik_lock := True\<rparr>"])
      (simp_all add: ik_owed_def ik_waiting_def ik_lock_ok_def new_ik_def)
  then show ?thesis by blast
qed

section \<open>Messages on the line\<close>

lemma dec_bytes_length: "Suc 0 \<le> length (dec_bytes n)"
  by (cases "dec_bytes n") (auto simp: dec_bytes_def)

lemma b64_char_line: "list_all (\<lambda>v. b64_char v \<notin> {13, 10}) [0..<64]"
  by code_simp

lemma b64encode_line: "set (b64encode bs) \<inter> {13, 10} = {}"
proof -
  have "b64_char v \<notin> {13, 10}" if "v < 64" for v
    using b64_char_line that by (auto simp: list_all_iff)
  then show ?thesis
    using unat_byte_div by (induction bs rule: b64encode.induct) (simp_all add: eq_commute [of _ "b64_char _"])
qed

lemma rstrip_line: "set xs \<inter> {13, 10} = {} \<Longrightarrow> rstrip_crlf (xs @ [13, 10]) = xs"
  by (cases xs rule: rev_cases) (auto simp: rstrip_crlf_def)

text \<open>A message in the text form the program itself writes (the PDGY sentence, with its source and its
  timestamp) is read by the iKonvert decoder as the same message with the same line, stamped with the time
  of reading; the destination is kept as it is, 0 included.\<close>

theorem ik_pdgy_roundtrip:
  assumes "0 \<le> m_ts m" "m_payload m \<noteq> []"
  shows "ik_decode now (as_pdgy m)
    = map_sum id (IkN2k (as_pdgy m)) (new_n2k_msg now (m_pgn m) (m_prio m) (m_sa m) (m_da m) (Some (m_payload m)) 0)"
proof -
  let ?fs = "[[33, 80, 68, 71, 89], dec_bytes (m_pgn m), dec_bytes (m_prio m), dec_bytes (m_sa m), dec_bytes (m_da m),
     dec_int (trunc (m_ts m)), b64encode (m_payload m) @ [13, 10]]"
  have ts: "dec_int (trunc (m_ts m)) = dec_bytes (nat (trunc (m_ts m)))"
    using assms(1) by (simp add: dec_int_def trunc_def)
  have enc: "as_pdgy m = join_on 44 ?fs" by (simp add: as_pdgy_def pdgy_bytes)
  have split: "split_on 44 (as_pdgy m) = ?fs"
    unfolding enc using no_comma_digits b64encode_no_comma ts by (intro split_on_join) auto
  have len: "\<not> length (as_pdgy m) < 8"
    using dec_bytes_length [of "m_pgn m"] dec_bytes_length [of "m_prio m"] by (simp add: as_pdgy_def pdgy_bytes)
  have ne: "b64encode (m_payload m) \<noteq> []"
    using assms(2) by (cases "m_payload m" rule: b64encode.cases) auto
  have g: "py_get ?fs 0 = Inr (?fs ! 0)" "py_get ?fs 1 = Inr (?fs ! 1)" "py_get ?fs 2 = Inr (?fs ! 2)"
    "py_get ?fs 3 = Inr (?fs ! 3)" "py_get ?fs 4 = Inr (?fs ! 4)" "py_get ?fs 6 = Inr (?fs ! 6)"
    by (simp_all add: py_get_def py_pos_def)
  have h: "bytes_of ''!PDGY'' = [33, 80, 68, 71, 89]" by code_simp
  have n2k: "ik_decode_n2k now (as_pdgy m) ?fs = map_sum id (IkN2k (as_pdgy m))
      (new_n2k_msg now (m_pgn m) (m_prio m) (m_sa m) (m_da m) (Some (m_payload m)) 0)"
    unfolding ik_decode_n2k_def g bind_r_simps
    using rstrip_line [OF b64encode_line, of "m_payload m"] ne by (simp add: n2k_of_ints_def)
  show ?thesis
    unfolding ik_decode_def Let_def split g bind_r_simps using len n2k by (simp add: h)
qed

definition sample_n2k :: n2k_msg where
  "sample_n2k = \<lparr>m_pgn = 129025, m_prio = 2, m_sa = 7, m_da = 0, m_is_iso = False, m_ts = 1,
     m_fast_packet = False, m_payload = [1, 2, 255]\<rparr>"

lemma ik_pdgy_roundtrip_witness:
  "ik_decode 5 (as_pdgy sample_n2k)
    = map_sum id (IkN2k (as_pdgy sample_n2k)) (new_n2k_msg 5 129025 2 7 0 (Some [1, 2, 255]) 0)"
  using ik_pdgy_roundtrip [of sample_n2k 5] by (simp add: sample_n2k_def)

text \<open>The frames the coupler writes to the gateway are spelt PGDY: the decoder of the program itself does not
  know them.\<close>

lemma ik_sent_frame_refused: "ik_decode now (ik_n2k_frame m) = Inl ValueError"
proof -
  let ?r = "dec_bytes (m_pgn m) @ 44 # dec_bytes (m_da m) @ 44 # b64encode (m_payload m) @ [13, 10]"
  have f: "ik_n2k_frame m = [33, 80, 71, 68, 89] @ 44 # ?r"
  proof -
    have "bytes_of ''!PGDY,'' = [33, 80, 71, 68, 89, 44]" by code_simp
    then show ?thesis by (simp add: ik_n2k_frame_def)
  qed
  have split: "split_on 44 (ik_n2k_frame m) = [33, 80, 71, 68, 89] # split_on 44 ?r"
    unfolding f by (rule split_on_append) simp
  have g: "py_get ([33, 80, 71, 68, 89] # split_on 44 ?r) 0 = Inr [33, 80, 71, 68, 89]"
    by (simp add: py_get_def py_pos_def)
  have h: "bytes_of ''!PDGY'' = [33, 80, 68, 71, 89]" "bytes_of ''$PDGY'' = [36, 80, 68, 71, 89]" by code_simp+
  have "\<not> Suc (length (split_on 44 ?r)) < 2" by (cases "split_on 44 ?r") auto
  then show ?thesis
    unfolding ik_decode_def Let_def split g bind_r_simps
    by (simp add: h f py_get_def py_pos_def)
qed

text \<open>While the gateway stays connected and the queue has room, the messages of the network are queued in the
  order of their lines.\<close>

fun ik_items :: "ik_msg result \<Rightarrow> ik_item list" where
  "ik_items (Inr (IkN2k raw m)) = [IkItem2k raw m]"
| "ik_items (Inr (IkN183 raw)) = [IkItem0183 (nav_n0183 raw)]"
| "ik_items _ = []"

lemma ik_reader_order:
  assumes "ik_state s = IkConnected" "\<forall>(t, l) \<in> set ls. \<forall>x. ik_decode t l \<noteq> Inr (IkNotConn x)"
    and "q_max (ik_queue s) = 0 \<or> length (q_items (ik_queue s)) + length ls \<le> q_max (ik_queue s)"
  shows "q_items (ik_queue (fold (\<lambda>(t, l) s. fst (ik_line t l s)) ls s))
    = q_items (ik_queue s) @ concat (map (\<lambda>(t, l). ik_items (ik_decode t l)) ls)"
  using assms
proof (induction ls arbitrary: s)
  case (Cons x ls)
  obtain t l where x: "x = (t, l)" by (cases x)
  let ?s1 = "fst (ik_line t l s)"
  have room: "\<not> q_full (ik_queue s)" using Cons.prems(3) by (auto simp: q_full_def)
  have empty: "ik_decode t [] = Inl ValueError" by (simp add: ik_decode_def Let_def)
  have "ik_state ?s1 = IkConnected \<and> q_max (ik_queue ?s1) = q_max (ik_queue s)
      \<and> q_items (ik_queue ?s1) = q_items (ik_queue s) @ ik_items (ik_decode t l)"
  proof (cases "ik_decode t l")
    case (Inr m)
    then have "l \<noteq> []" using empty by auto
    with Inr Cons.prems(1,2) room show ?thesis
      by (cases m) (simp_all add: x ik_line_def ik_callback_def ik_process_status_def ik_process_acknak_def
          ik_process_nmea_def ik_release_def ik_item_of_def q_put_def Let_def)
  qed (use Cons.prems(1) in \<open>simp add: ik_line_def Let_def\<close>)
  moreover have "length (ik_items (ik_decode t l)) \<le> 1" by (cases "ik_decode t l" rule: ik_items.cases) auto
  ultimately show ?case using Cons.IH [of ?s1] Cons.prems(2,3) by (auto simp: x)
qed simp

end
