(* ===== verification/RawLog.thy ===== *)
theory RawLog
  imports Nmea0183 Hex PyFloat "HOL-Library.Monad_Syntax"
begin

text \<open>
  Traces and their reading: the lines \<^verbatim>\<open>router_common/message_trace.py\<close> and the CAN interface write, with their
  dates, and \<^verbatim>\<open>log_replay/raw_log_reader.py\<close>, which loads a file of such lines, keeps an index of its ticks,
  delivers its records with their original timing and moves in it. Text is a list of code points; digits
  and blanks outside ASCII, which \<^verbatim>\<open>strptime\<close> would also take, are refused. Dates are those of the proleptic
  Gregorian calendar of \<^verbatim>\<open>datetime\<close>.
\<close>

section \<open>Dates\<close>

record datetime =
  dt_year :: nat
  dt_month :: nat
  dt_day :: nat
  dt_hour :: nat
  dt_minute :: nat
  dt_second :: nat
  dt_micro :: nat

definition leap_year :: "nat \<Rightarrow> bool" where
  "leap_year y \<longleftrightarrow> y mod 4 = 0 \<and> (y mod 100 \<noteq> 0 \<or> y mod 400 = 0)"

definition days_in_month :: "nat \<Rightarrow> nat \<Rightarrow> nat" where
  "days_in_month y m =
     (if m = 2 then (if leap_year y then 29 else 28) else if m \<in> {4, 6, 9, 11} then 30 else 31)"

definition valid_date :: "datetime \<Rightarrow> bool" where
  "valid_date d \<longleftrightarrow> 1 \<le> dt_year d \<and> dt_year d \<le> 9999 \<and> 1 \<le> dt_month d \<and> dt_month d \<le> 12 \<and> 1 \<le> dt_day d
     \<and> dt_day d \<le> days_in_month (dt_year d) (dt_month d) \<and> dt_hour d < 24 \<and> dt_minute d < 60 \<and> dt_second d < 60
     \<and> dt_micro d < 1000000"

text \<open>\<^verbatim>\<open>toordinal\<close>, and the microseconds since the start of the calendar: differences and comparisons of
  dates are those of these numbers.\<close>

definition date_ordinal :: "nat \<Rightarrow> nat \<Rightarrow> nat \<Rightarrow> nat" where
  "date_ordinal y m d =
     (y - 1) * 365 + (y - 1) div 4 - (y - 1) div 100 + (y - 1) div 400
       + sum_list (map (days_in_month y) [1..<m]) + d"

definition dt_micros :: "datetime \<Rightarrow> int" where
  "dt_micros d =
     (((int (date_ordinal (dt_year d) (dt_month d) (dt_day d)) * 24 + int (dt_hour d)) * 60 + int (dt_minute d)) * 60
       + int (dt_second d)) * 1000000 + int (dt_micro d)"

text \<open>The format \<^verbatim>\<open>%Y-%m-%d %H:%M:%S.%f\<close>, written and read.\<close>

definition dec_pad :: "nat \<Rightarrow> nat \<Rightarrow> ustr" where
  "dec_pad w n = pad_left 48 w (dec_text n)"

definition format_date :: "datetime \<Rightarrow> ustr" where
  "format_date d =
     dec_pad 4 (dt_year d) @ [45] @ dec_pad 2 (dt_month d) @ [45] @ dec_pad 2 (dt_day d) @ [32]
       @ dec_pad 2 (dt_hour d) @ [58] @ dec_pad 2 (dt_minute d) @ [58] @ dec_pad 2 (dt_second d) @ [46]
       @ dec_pad 6 (dt_micro d)"

definition num_field :: "nat \<Rightarrow> nat \<Rightarrow> nat \<Rightarrow> nat \<Rightarrow> ustr \<Rightarrow> nat option" where
  "num_field minlen maxlen lo hi s =
     (let v = number_of 10 (map (\<lambda>c. c - 48) s)
      in if list_all (\<lambda>c. 48 \<le> c \<and> c < 58) s \<and> minlen \<le> length s \<and> length s \<le> maxlen \<and> lo \<le> v \<and> v \<le> hi
         then Some v else None)"

definition cut_at :: "(nat \<Rightarrow> bool) \<Rightarrow> ustr \<Rightarrow> (ustr \<times> ustr) option" where
  "cut_at p s =
     (case dropWhile (\<lambda>c. \<not> p c) s of [] \<Rightarrow> None | _ # r \<Rightarrow> Some (takeWhile (\<lambda>c. \<not> p c) s, r))"

definition blank :: "nat \<Rightarrow> bool" where
  "blank c \<longleftrightarrow> c \<in> {9, 10, 11, 12, 13, 32}"

definition parse_date :: "ustr \<Rightarrow> datetime option" where
  "parse_date s = do {
     (y, s1) \<leftarrow> cut_at ((=) 45) s;
     (mo, s2) \<leftarrow> cut_at ((=) 45) s1;
     (d, s3) \<leftarrow> cut_at blank s2;
     (h, s4) \<leftarrow> cut_at ((=) 58) (dropWhile blank s3);
     (mi, s5) \<leftarrow> cut_at ((=) 58) s4;
     (sec, f) \<leftarrow> cut_at ((=) 46) s5;
     yv \<leftarrow> num_field 4 4 1 9999 y;
     mov \<leftarrow> num_field 1 2 1 12 mo;
     dv \<leftarrow> num_field 1 2 1 31 d;
     hv \<leftarrow> num_field 1 2 0 23 h;
     miv \<leftarrow> num_field 1 2 0 59 mi;
     sv \<leftarrow> num_field 1 2 0 59 sec;
     fv \<leftarrow> num_field 1 6 0 999999 f;
     (if dv \<le> days_in_month yv mov
      then Some \<lparr>dt_year = yv, dt_month = mov, dt_day = dv, dt_hour = hv, dt_minute = miv, dt_second = sv,
                 dt_micro = fv * 10 ^ (6 - length f)\<rparr>
      else None)
   }"

section \<open>Lines of a trace\<close>

datatype trace_direction = TraceIn | TraceOut

text \<open>\<^verbatim>\<open>trace_n2k_raw_can\<close> and \<^verbatim>\<open>trace_raw\<close>: the prefix, the text, the end of line.\<close>

definition trace_prefix :: "nat \<Rightarrow> datetime \<Rightarrow> trace_direction \<Rightarrow> ustr" where
  "trace_prefix count ts direction =
     82 # dec_text count @ 35 # format_date ts @ [case direction of TraceIn \<Rightarrow> 62 | TraceOut \<Rightarrow> 60]"

definition trace_n2k_raw_can :: "datetime \<Rightarrow> nat \<Rightarrow> trace_direction \<Rightarrow> ustr \<Rightarrow> ustr" where
  "trace_n2k_raw_can time_stamp msg_count direction trace_str =
     trace_prefix msg_count time_stamp direction @ trace_str @ [10]"

text \<open>The bytes must decode: otherwise nothing is written and the count is nevertheless incremented.\<close>

definition trace_raw ::
    "datetime \<Rightarrow> nat \<Rightarrow> trace_direction \<Rightarrow> bytes \<Rightarrow> ustr option \<Rightarrow> nat \<times> ustr option" where
  "trace_raw now msg_count direction msg strip_suffix =
     (msg_count + 1,
      case utf8_decode msg of
        Inl _ \<Rightarrow> None
      | Inr s \<Rightarrow>
          Some (trace_prefix msg_count now direction
            @ (case strip_suffix of None \<Rightarrow> s | Some cs \<Rightarrow> rev (dropWhile (\<lambda>c. c \<in> set cs) (rev s))) @ [10]))"

text \<open>\<^verbatim>\<open>send_trace\<close> of the CAN interface: the identifier on eight digits and the data.\<close>

definition can_trace_text :: "nat \<Rightarrow> bytes \<Rightarrow> ustr" where
  "can_trace_text can_id d = map unat (hex_pad 8 can_id @ 44 # hex_of d)"

definition trace_header :: "ustr \<Rightarrow> ustr" where
  "trace_header trace_type = text_of ''H0|'' @ trace_type @ text_of ''|V1.4'' @ [10]"

section \<open>Loading a file\<close>

datatype raw_message = RawText ustr | RawBytes bytes
datatype raw_type = RawCan | RawShipModul | RawVeDirect

record raw_record =
  rr_timestamp :: datetime
  rr_message :: raw_message

fun find_char :: "nat \<Rightarrow> ustr \<Rightarrow> nat option" where
  "find_char c [] = None"
| "find_char c (x # xs) = (if x = c then Some 0 else map_option Suc (find_char c xs))"

definition read_decode :: "ustr \<Rightarrow> (datetime \<times> ustr) result" where
  "read_decode l =
     (case l of
        [] \<Rightarrow> Inl IndexError
      | c # _ \<Rightarrow>
          if c \<noteq> 82 then Inl LogReadError
          else case find_char 35 l of
            None \<Rightarrow> Inl ValueError
          | Some ih \<Rightarrow>
              (case find_char 62 l of
                 None \<Rightarrow> Inl ValueError
               | Some i_sup \<Rightarrow>
                   (case parse_date (py_slice l (int ih + 1) (int i_sup)) of
                      None \<Rightarrow> Inl ValueError
                    | Some ts \<Rightarrow> Inr (ts, py_slice l (int i_sup + 1) (-1)))))"

text \<open>A record of the class of the file; a CAN record also notes its source address.\<close>

definition make_record :: "raw_type \<Rightarrow> datetime \<Rightarrow> ustr \<Rightarrow> int list \<Rightarrow> raw_record \<times> int list" where
  "make_record t ts msg sources =
     (case t of
        RawShipModul \<Rightarrow> (\<lparr>rr_timestamp = ts, rr_message = RawBytes (utf8_encode msg @ [13, 10])\<rparr>, sources)
      | RawVeDirect \<Rightarrow> (\<lparr>rr_timestamp = ts, rr_message = RawText msg\<rparr>, sources)
      | RawCan \<Rightarrow>
          (\<lparr>rr_timestamp = ts, rr_message = RawText msg\<rparr>,
           case on_ascii (parse_int 16) (py_slice msg 6 8) of
             Inl _ \<Rightarrow> sources
           | Inr sa \<Rightarrow> if sa \<in> set sources then sources else sources @ [sa]))"

definition raw_type_of :: "ustr \<Rightarrow> raw_type result" where
  "raw_type_of t =
     (if t = text_of ''SocketCANInterface'' then Inr RawCan
      else if t = text_of ''ShipModulInterface'' then Inr RawShipModul
      else if t = text_of ''VEDirectInterface'' then Inr RawVeDirect else Inl ValueError)"

definition header_type :: "ustr \<Rightarrow> ustr result" where
  "header_type line =
     (case line of
        [] \<Rightarrow> Inl IndexError
      | c # _ \<Rightarrow> if c \<noteq> 72 then Inr (text_of ''ShipModulInterface'') else py_get (split_on 124 line) 1)"

text \<open>The first line that has the form of a record; the end of the file reads as an empty line.\<close>

fun first_record :: "ustr list \<Rightarrow> ((datetime \<times> ustr) \<times> ustr list) result" where
  "first_record [] = map_sum id (\<lambda>r. (r, [])) (read_decode [])"
| "first_record (l # ls) =
     (case read_decode l of
        Inr r \<Rightarrow> Inr (r, ls)
      | Inl e \<Rightarrow> if e = ValueError then first_record ls else Inl e)"

record raw_load =
  ld_records :: "raw_record list"
  ld_tick_index :: "nat list"
  ld_nb_tick :: nat
  ld_next_tick :: int
  ld_nb_record :: nat
  ld_sources :: "int list"

definition add_record :: "raw_type \<Rightarrow> int \<Rightarrow> nat \<Rightarrow> datetime \<Rightarrow> ustr \<Rightarrow> raw_load \<Rightarrow> raw_load" where
  "add_record t t0 interval ts msg s =
     (let (r, sources) = make_record t ts msg (ld_sources s);
          s1 = s\<lparr>ld_records := ld_records s @ [r], ld_sources := sources\<rparr>;
          s2 = (if ld_next_tick s1 \<le> dt_micros ts
                then let nb = ld_nb_tick s1 + 1
                     in s1\<lparr>ld_tick_index := ld_tick_index s1 @ [ld_nb_record s1], ld_nb_tick := nb,
                           ld_next_tick := t0 + int interval * (int nb + 1) * 1000000\<rparr>
                else s1)
      in s2\<lparr>ld_nb_record := ld_nb_record s2 + 1\<rparr>)"

text \<open>The other lines; \<open>abort n\<close> tells whether the abort flag is up at the \<open>n\<close>-th.\<close>

fun load_lines ::
    "(nat \<Rightarrow> bool) \<Rightarrow> raw_type \<Rightarrow> int \<Rightarrow> nat \<Rightarrow> nat \<Rightarrow> ustr list \<Rightarrow> raw_load \<Rightarrow> raw_load result" where
  "load_lines abort t t0 interval n [] s = Inr s"
| "load_lines abort t t0 interval n (l # ls) s =
     (if abort n then Inl LogReadError
      else case read_decode l of
        Inl e \<Rightarrow> if e \<in> {ValueError, LogReadError} then load_lines abort t t0 interval (n + 1) ls s else Inl e
      | Inr (ts, msg) \<Rightarrow> load_lines abort t t0 interval (n + 1) ls (add_record t t0 interval ts msg s))"

section \<open>The reader\<close>

text \<open>\<open>lg_t0\<close> is \<open>None\<close> between the loading, which leaves the number 0 there, and the first reference.\<close>

record raw_log =
  lg_type :: raw_type
  lg_records :: "raw_record list"
  lg_tick_index :: "nat list"
  lg_nb_tick :: nat
  lg_nb_record :: nat
  lg_interval :: nat
  lg_start_date :: datetime
  lg_tend :: datetime
  lg_t0 :: "datetime option"
  lg_start_replay :: real
  lg_current_replay :: real
  lg_previous :: "raw_record option"
  lg_index :: nat
  lg_running :: bool
  lg_first_record :: bool
  lg_lock :: bool

definition load_file :: "(nat \<Rightarrow> bool) \<Rightarrow> nat \<Rightarrow> ustr list \<Rightarrow> raw_log result" where
  "load_file abort interval lines =
     bind_r (header_type (case lines of [] \<Rightarrow> [] | l # _ \<Rightarrow> l)) (\<lambda>ft.
     bind_r (raw_type_of ft) (\<lambda>t.
     bind_r (first_record (tl lines)) (\<lambda>((ts, msg), rest).
       let (r, sources) = make_record t ts msg []; t0 = dt_micros ts in
       bind_r (load_lines abort t t0 interval 1 rest
           \<lparr>ld_records = [r], ld_tick_index = [], ld_nb_tick = 0, ld_next_tick = t0 + int interval * 1000000,
            ld_nb_record = 1, ld_sources = sources\<rparr>) (\<lambda>s.
       bind_r (py_get (ld_records s) (int (ld_nb_record s) - 1)) (\<lambda>last_r.
         Inr \<lparr>lg_type = t, lg_records = ld_records s, lg_tick_index = ld_tick_index s, lg_nb_tick = ld_nb_tick s,
              lg_nb_record = ld_nb_record s, lg_interval = interval, lg_start_date = ts,
              lg_tend = rr_timestamp last_r, lg_t0 = None, lg_start_replay = 0, lg_current_replay = 0,
              lg_previous = None, lg_index = 0, lg_running = False, lg_first_record = False, lg_lock = False\<rparr>)))))"

text \<open>\<^verbatim>\<open>duration\<close>: the \<^verbatim>\<open>seconds\<close> of a timedelta are those within its last day.\<close>

definition log_duration :: "raw_log \<Rightarrow> int" where
  "log_duration g = (dt_micros (lg_tend g) - dt_micros (lg_start_date g)) div 1000000 mod 86400"

definition get_messages :: "int \<Rightarrow> int \<Rightarrow> raw_log \<Rightarrow> raw_message list result" where
  "get_messages first_i last_i g =
     bind_r (py_get (lg_records g) first_i) (\<lambda>r.
       let last1 = (if last_i = 0 then int (lg_nb_record g) else last_i)
       in Inr (map rr_message (r # py_slice (lg_records g) (first_i + 1) last1)))"

definition set_references :: "real \<Rightarrow> raw_log \<Rightarrow> raw_log result" where
  "set_references now g =
     bind_r (py_get (lg_records g) (int (lg_index g))) (\<lambda>r.
       Inr (g\<lparr>lg_previous := Some r, lg_t0 := Some (rr_timestamp r), lg_start_replay := now,
              lg_current_replay := now, lg_first_record := True\<rparr>))"

definition prepare_read :: "real \<Rightarrow> nat \<Rightarrow> raw_log \<Rightarrow> raw_log result" where
  "prepare_read now first g =
     map_sum id (\<lambda>g1. g1\<lparr>lg_running := True\<rparr>) (set_references now (g\<lparr>lg_index := first\<rparr>))"

text \<open>\<^verbatim>\<open>read_message\<close> at a time: the record and the time it is delivered, after the wait. Where an exception
  leaves the method between the taking and the giving back of the lock, the lock stays taken; a call that
  finds it taken never returns, which is \<open>None\<close>.\<close>

definition read_message :: "real \<Rightarrow> raw_log \<Rightarrow> (raw_log \<times> (raw_record \<times> real) result) option" where
  "read_message now g =
     (if lg_lock g then None
      else if lg_first_record g then
        (case lg_previous g of
           Some r \<Rightarrow> Some (g\<lparr>lg_first_record := False\<rparr>, Inr (r, now))
         | None \<Rightarrow> Some (g\<lparr>lg_first_record := False\<rparr>, Inl NotModelled))
      else
        let g1 = g\<lparr>lg_index := lg_index g + 1\<rparr> in
        case py_get (lg_records g1) (int (lg_index g1)) of
          Inl _ \<Rightarrow> Some (g1, Inl LogReadError)
        | Inr r \<Rightarrow>
            (case lg_t0 g1 of
               None \<Rightarrow> Some (g1\<lparr>lg_lock := True\<rparr>, Inl TypeError)
             | Some t0 \<Rightarrow>
                 let delta = real_of_int (dt_micros (rr_timestamp r) - dt_micros t0) / 1000000;
                     wait_time = delta - lg_current_replay g1;
                     after = (if 0 < wait_time then now + wait_time else now)
                 in Some (g1\<lparr>lg_current_replay := after - lg_start_replay g1\<rparr>, Inr (r, after))))"

definition shift_start_replay :: "real \<Rightarrow> raw_log \<Rightarrow> raw_log option" where
  "shift_start_replay delta g = (if lg_lock g then None else Some (g\<lparr>lg_start_replay := lg_start_replay g + delta\<rparr>))"

text \<open>\<^verbatim>\<open>move_forward\<close> divides a date by a time difference, which Python refuses.\<close>

definition move_forward :: "real \<Rightarrow> raw_log \<Rightarrow> (raw_log \<times> unit result) option" where
  "move_forward seconds g =
     (if lg_lock g then None
      else case py_get (lg_records g) (int (lg_index g)) of
        Inl e \<Rightarrow> Some (g\<lparr>lg_lock := True\<rparr>, Inl e)
      | Inr _ \<Rightarrow> Some (g\<lparr>lg_lock := True\<rparr>, Inl TypeError))"

definition move_to_date :: "real \<Rightarrow> datetime \<Rightarrow> raw_log \<Rightarrow> (raw_log \<times> unit result) option" where
  "move_to_date now target_date g =
     (if lg_lock g then None
      else if lg_interval g = 0 then Some (g\<lparr>lg_lock := True\<rparr>, Inl ZeroDivisionError)
      else
        let delta = dt_micros target_date - dt_micros (lg_start_date g);
            tick_index = py_round (real_of_int delta / (real (lg_interval g) * 1000000))
        in if tick_index < 0 \<or> int (lg_nb_tick g) - 1 < tick_index then Some (g, Inl ValueError)
           else case py_get (lg_tick_index g) tick_index of
             Inl e \<Rightarrow> Some (g\<lparr>lg_lock := True\<rparr>, Inl e)
           | Inr i \<Rightarrow>
               (case set_references now (g\<lparr>lg_index := i\<rparr>) of
                  Inl e \<Rightarrow> Some (g\<lparr>lg_index := i, lg_lock := True\<rparr>, Inl e)
                | Inr g1 \<Rightarrow> Some (g1, Inr ())))"

definition log_restart :: "real \<Rightarrow> raw_log \<Rightarrow> (raw_log \<times> unit result) option" where
  "log_restart now g =
     (if lg_lock g then None
      else case prepare_read now 0 g of
        Inl e \<Rightarrow> Some (g\<lparr>lg_lock := True, lg_index := 0\<rparr>, Inl e)
      | Inr g1 \<Rightarrow> Some (g1, Inr ()))"

definition get_current_log_date :: "raw_log \<Rightarrow> datetime result" where
  "get_current_log_date g = map_sum id rr_timestamp (py_get (lg_records g) (int (lg_index g)))"

section \<open>Lemmas on dates\<close>

lemma dec_pad_digits:
  assumes "n < 10 ^ w" "0 < w"
  shows "length (dec_pad w n) = w" "list_all (\<lambda>c. 48 \<le> c \<and> c < 58) (dec_pad w n)"
    "number_of 10 (map (\<lambda>c. c - 48) (dec_pad w n)) = n"
proof -
  have "length (digits_in 10 n) \<le> w" using length_digits_le [of 10 n w] assms by simp
  then show "length (dec_pad w n) = w" by (simp add: dec_pad_def pad_left_def dec_text_def)
  show "list_all (\<lambda>c. 48 \<le> c \<and> c < 58) (dec_pad w n)"
    using digits_less [of 10 _ n] by (force simp: dec_pad_def pad_left_def dec_text_def list_all_iff)
  have "map (\<lambda>c. c - 48) (dec_pad w n) = pad_left 0 w (digits_in 10 n)"
    by (simp add: dec_pad_def pad_left_def dec_text_def o_def map_replicate)
  then show "number_of 10 (map (\<lambda>c. c - 48) (dec_pad w n)) = n"
    by (simp add: number_of_pad number_of_digits)
qed

lemma num_field_pad:
  assumes "n < 10 ^ w" "0 < w" "minlen \<le> w" "w \<le> maxlen" "lo \<le> n" "n \<le> hi"
  shows "num_field minlen maxlen lo hi (dec_pad w n) = Some n"
  using dec_pad_digits [OF assms(1,2)] assms(3-) by (simp add: num_field_def)

lemma cut_at_digits:
  assumes "list_all (\<lambda>c. 48 \<le> c \<and> c < 58) xs" "p c" "\<forall>d. 48 \<le> d \<and> d < 58 \<longrightarrow> \<not> p d"
  shows "cut_at p (xs @ c # r) = Some (xs, r)"
proof -
  have "\<forall>x \<in> set xs. \<not> p x" using assms(1,3) by (auto simp: list_all_iff)
  then show ?thesis using assms(2) by (simp add: cut_at_def dropWhile_append3 takeWhile_append2)
qed

lemma days_in_month_le: "days_in_month y m \<le> 31"
  by (simp add: days_in_month_def)

lemma parse_format_date:
  assumes "valid_date d"
  shows "parse_date (format_date d) = Some d"
proof -
  have v: "dt_year d < 10 ^ 4" "dt_month d < 10 ^ 2" "dt_day d < 10 ^ 2" "dt_hour d < 10 ^ 2" "dt_minute d < 10 ^ 2"
    "dt_second d < 10 ^ 2" "dt_micro d < 10 ^ 6"
    using assms days_in_month_le [of "dt_year d" "dt_month d"] by (auto simp: valid_date_def)
  note pad = dec_pad_digits [OF v(1)] dec_pad_digits [OF v(2)] dec_pad_digits [OF v(3)] dec_pad_digits [OF v(4)]
    dec_pad_digits [OF v(5)] dec_pad_digits [OF v(6)] dec_pad_digits [OF v(7)]
  have nb: "dropWhile blank (dec_pad 2 (dt_hour d) @ r) = dec_pad 2 (dt_hour d) @ r" for r
  proof -
    obtain c cs where "dec_pad 2 (dt_hour d) = c # cs" "48 \<le> c"
      using pad(10,11) by (cases "dec_pad 2 (dt_hour d)") auto
    then show ?thesis by (auto simp: blank_def)
  qed
  have cut: "cut_at ((=) 45) (dec_pad 4 (dt_year d) @ 45 # r) = Some (dec_pad 4 (dt_year d), r)"
    "cut_at ((=) 45) (dec_pad 2 (dt_month d) @ 45 # r) = Some (dec_pad 2 (dt_month d), r)"
    "cut_at blank (dec_pad 2 (dt_day d) @ 32 # r) = Some (dec_pad 2 (dt_day d), r)"
    "cut_at ((=) 58) (dec_pad 2 (dt_hour d) @ 58 # r) = Some (dec_pad 2 (dt_hour d), r)"
    "cut_at ((=) 58) (dec_pad 2 (dt_minute d) @ 58 # r) = Some (dec_pad 2 (dt_minute d), r)"
    "cut_at ((=) 46) (dec_pad 2 (dt_second d) @ 46 # r) = Some (dec_pad 2 (dt_second d), r)" for r
    using pad by (auto intro!: cut_at_digits simp: blank_def)
  have nums: "num_field 4 4 1 9999 (dec_pad 4 (dt_year d)) = Some (dt_year d)"
    "num_field 1 2 1 12 (dec_pad 2 (dt_month d)) = Some (dt_month d)"
    "num_field 1 2 1 31 (dec_pad 2 (dt_day d)) = Some (dt_day d)"
    "num_field 1 2 0 23 (dec_pad 2 (dt_hour d)) = Some (dt_hour d)"
    "num_field 1 2 0 59 (dec_pad 2 (dt_minute d)) = Some (dt_minute d)"
    "num_field 1 2 0 59 (dec_pad 2 (dt_second d)) = Some (dt_second d)"
    "num_field 1 6 0 999999 (dec_pad 6 (dt_micro d)) = Some (dt_micro d)"
    using v assms days_in_month_le [of "dt_year d" "dt_month d"]
    by (auto intro!: num_field_pad simp: valid_date_def)
  have "format_date d = dec_pad 4 (dt_year d) @ 45 # dec_pad 2 (dt_month d) @ 45 # dec_pad 2 (dt_day d) @ 32
      # dec_pad 2 (dt_hour d) @ 58 # dec_pad 2 (dt_minute d) @ 58 # dec_pad 2 (dt_second d) @ 46 # dec_pad 6 (dt_micro d)"
    by (simp add: format_date_def)
  then show ?thesis
    using assms pad(19) by (simp add: parse_date_def cut nb nums nums [unfolded One_nat_def] valid_date_def)
qed

section \<open>Lines\<close>

lemma find_char_append: "c \<notin> set xs \<Longrightarrow> find_char c (xs @ c # r) = Some (length xs)"
  by (induction xs) auto

lemma find_char_none: "c \<notin> set xs \<Longrightarrow> find_char c xs = None"
  by (induction xs) auto

lemma py_slice_butlast: "py_slice (xs @ ys @ [z]) (int (length xs)) (-1) = ys"
  by (simp add: py_slice_def py_clip_def Let_def nat_diff_distrib)

lemma format_date_chars:
  assumes "valid_date d" "c \<in> set (format_date d)"
  shows "c \<notin> {35, 60, 62}"
proof -
  have "c \<in> set (dec_pad w n) \<Longrightarrow> 48 \<le> c \<and> c < 58" for w n
    using digits_less [of 10 _ n] by (force simp: dec_pad_def pad_left_def dec_text_def)
  with assms(2) show ?thesis by (fastforce simp: format_date_def)
qed

lemma read_decode_record:
  assumes "valid_date ts"
  shows "read_decode (trace_prefix n ts TraceIn @ s @ [10]) = Inr (ts, s)"
    and "62 \<notin> set s \<Longrightarrow> read_decode (trace_prefix n ts TraceOut @ s @ [10]) = Inl ValueError"
proof -
  let ?pre = "82 # dec_text n" and ?d = "format_date ts"
  have pre: "35 \<notin> set ?pre" "62 \<notin> set ?pre"
    using digits_less [of 10 _ n] by (force simp: dec_text_def)+
  have d: "35 \<notin> set ?d" "62 \<notin> set ?d" using format_date_chars [OF assms] by blast+
  define l where "l = trace_prefix n ts TraceIn @ s @ [10]"
  have l1: "l = ?pre @ 35 # (?d @ 62 # s @ [10])" and l2: "l = (?pre @ 35 # ?d) @ 62 # (s @ [10])"
    and l3: "l = (?pre @ 35 # ?d @ [62]) @ s @ [10]"
    by (simp_all add: l_def trace_prefix_def)
  have f35: "find_char 35 l = Some (length ?pre)" unfolding l1 by (rule find_char_append [OF pre(1)])
  have f62: "find_char 62 l = Some (length (?pre @ 35 # ?d))"
    unfolding l2 by (rule find_char_append) (use pre d in auto)
  have "int (length ?pre) + 1 = int (length ?pre + 1)" by simp
  then have date: "py_slice l (int (length ?pre) + 1) (int (length (?pre @ 35 # ?d))) = ?d"
    by (simp only: py_slice_nat) (simp add: l1)
  have "int (length (?pre @ 35 # ?d)) + 1 = int (length (?pre @ 35 # ?d @ [62]))" by simp
  then have msg: "py_slice l (int (length (?pre @ 35 # ?d)) + 1) (-1) = s"
    by (simp only: l3 py_slice_butlast)
  obtain l' where hd: "l = 82 # l'" by (simp add: l1)
  show "read_decode l = Inr (ts, s)"
    unfolding read_decode_def using f35 f62 date msg parse_format_date [OF assms] hd
    by (simp del: length_append length_Cons)
  assume s: "62 \<notin> set s"
  let ?o = "trace_prefix n ts TraceOut @ s @ [10]"
  have o: "?o = ?pre @ 35 # (?d @ 60 # s @ [10])" by (simp add: trace_prefix_def)
  have "find_char 62 ?o = None" unfolding o by (rule find_char_none) (use pre d s in auto)
  moreover have "find_char 35 ?o = Some (length ?pre)" unfolding o by (rule find_char_append [OF pre(1)])
  ultimately show "read_decode ?o = Inl ValueError" by (simp add: read_decode_def trace_prefix_def)
qed

section \<open>Loading\<close>

text \<open>A trace written by the program loads record by record: the lines that came in, with their dates, and
  none of those that went out.\<close>

definition traced :: "nat \<times> datetime \<times> trace_direction \<times> ustr \<Rightarrow> ustr" where
  "traced x = (case x of (n, ts, dir, s) \<Rightarrow> trace_n2k_raw_can ts n dir s)"

definition traced_in :: "(nat \<times> datetime \<times> trace_direction \<times> ustr) list \<Rightarrow> (datetime \<times> ustr) list" where
  "traced_in xs = map (\<lambda>(n, ts, dir, s). (ts, s)) (filter (\<lambda>(n, ts, dir, s). dir = TraceIn) xs)"

lemma load_lines_traced:
  assumes "\<forall>(n, ts, dir, s) \<in> set xs. valid_date ts \<and> 62 \<notin> set s" "\<forall>n. \<not> abort n"
  shows "load_lines abort t t0 interval k (map traced xs) s
    = Inr (fold (\<lambda>(ts, msg). add_record t t0 interval ts msg) (traced_in xs) s)"
  using assms(1)
proof (induction xs arbitrary: k s)
  case (Cons x xs)
  obtain n ts dir msg where x: "x = (n, ts, dir, msg)" by (cases x)
  then have v: "valid_date ts" "62 \<notin> set msg" using Cons.prems by auto
  with Cons read_decode_record [OF v(1)] assms(2) show ?case
    by (cases dir) (simp_all add: x traced_def trace_n2k_raw_can_def traced_in_def)
qed (simp add: traced_in_def)

lemma add_record_simps:
  "ld_records (add_record t t0 interval ts msg s) = ld_records s @ [fst (make_record t ts msg [])]"
  "ld_nb_record (add_record t t0 interval ts msg s) = ld_nb_record s + 1"
proof -
  have "fst (make_record t ts msg ss) = fst (make_record t ts msg [])" for ss by (cases t) (simp_all add: make_record_def)
  then show "ld_records (add_record t t0 interval ts msg s) = ld_records s @ [fst (make_record t ts msg [])]"
    by (auto simp: add_record_def Let_def split: prod.splits) (metis fst_conv)+
  show "ld_nb_record (add_record t t0 interval ts msg s) = ld_nb_record s + 1"
    by (simp add: add_record_def Let_def split: prod.split)
qed

lemma fold_add_records:
  "ld_records (fold (\<lambda>(ts, msg). add_record t t0 interval ts msg) rs s)
     = ld_records s @ map (\<lambda>(ts, msg). fst (make_record t ts msg [])) rs
   \<and> ld_nb_record (fold (\<lambda>(ts, msg). add_record t t0 interval ts msg) rs s) = ld_nb_record s + length rs"
  by (induction rs arbitrary: s) (auto simp: add_record_simps)

section \<open>The index of the ticks\<close>

text \<open>When no two successive records are a tick or more apart, the \<open>k\<close>-th entry of the index is the first
  record at or after the end of the \<open>k\<close>-th interval.\<close>

definition rec_time :: "raw_record list \<Rightarrow> nat \<Rightarrow> int" where
  "rec_time rs i = dt_micros (rr_timestamp (rs ! i))"

definition tick_at :: "int \<Rightarrow> nat \<Rightarrow> raw_record list \<Rightarrow> nat \<Rightarrow> nat \<Rightarrow> bool" where
  "tick_at t0 interval rs k i \<longleftrightarrow> i < length rs \<and> t0 + int interval * (int k + 1) * 1000000 \<le> rec_time rs i
     \<and> (\<forall>j < i. rec_time rs j < t0 + int interval * (int k + 1) * 1000000)"

definition ticks_ok :: "int \<Rightarrow> nat \<Rightarrow> raw_load \<Rightarrow> bool" where
  "ticks_ok t0 interval s \<longleftrightarrow> ld_nb_record s = length (ld_records s) \<and> ld_nb_tick s = length (ld_tick_index s)
     \<and> ld_next_tick s = t0 + int interval * (int (ld_nb_tick s) + 1) * 1000000 \<and> ld_records s \<noteq> []
     \<and> (\<forall>j < length (ld_records s). rec_time (ld_records s) j < ld_next_tick s)
     \<and> (\<forall>k < ld_nb_tick s. tick_at t0 interval (ld_records s) k (ld_tick_index s ! k))"

lemma rec_time_append: "j < length rs \<Longrightarrow> rec_time (rs @ [r]) j = rec_time rs j"
  "rec_time (rs @ [r]) (length rs) = dt_micros (rr_timestamp r)"
  by (simp_all add: rec_time_def nth_append)

lemma tick_at_append: "tick_at t0 interval rs k i \<Longrightarrow> tick_at t0 interval (rs @ [r]) k i"
  by (auto simp: tick_at_def rec_time_append)

lemma make_record_time: "rr_timestamp (fst (make_record t ts msg ss)) = ts"
  by (cases t) (simp_all add: make_record_def)

lemma add_record_ticks:
  assumes "ticks_ok t0 interval s"
    and "dt_micros ts < rec_time (ld_records s) (length (ld_records s) - 1) + int interval * 1000000"
  shows "ticks_ok t0 interval (add_record t t0 interval ts msg s)"
proof -
  obtain r ss where mk: "make_record t ts msg (ld_sources s) = (r, ss)" by (cases "make_record t ts msg (ld_sources s)")
  then have rt: "dt_micros (rr_timestamp r) = dt_micros ts" using make_record_time by (metis fst_conv)
  let ?rs = "ld_records s" and ?nt = "ld_next_tick s"
  note ok = assms(1) [unfolded ticks_ok_def]
  have "length ?rs - 1 < length ?rs" using ok by (cases ?rs) auto
  then have "rec_time ?rs (length ?rs - 1) < ?nt" using ok by blast
  then have lt: "dt_micros ts < ?nt + int interval * 1000000" using assms(2) by simp
  have old: "rec_time (?rs @ [r]) j < ?nt" if "j < length ?rs" for j
    unfolding rec_time_append(1) [OF that] using that ok by blast
  have keep: "tick_at t0 interval (?rs @ [r]) k (ld_tick_index s ! k)" if "k < ld_nb_tick s" for k
    using that ok tick_at_append by blast
  show ?thesis
  proof (cases "?nt \<le> dt_micros ts")
    case True
    let ?nt' = "t0 + int interval * (int (ld_nb_tick s + 1) + 1) * 1000000"
    have nt': "?nt' = ?nt + int interval * 1000000" using ok by (simp add: algebra_simps)
    have new: "tick_at t0 interval (?rs @ [r]) (ld_nb_tick s) (length ?rs)"
      using True ok old rt by (simp add: tick_at_def rec_time_append)
    have all: "rec_time (?rs @ [r]) j < ?nt'" if "j < length (?rs @ [r])" for j
    proof (cases "j = length ?rs")
      case True
      then show ?thesis using lt rt nt' by (simp add: rec_time_append)
    next
      case False
      then have "rec_time (?rs @ [r]) j < ?nt" using that old by simp
      also have "\<dots> \<le> ?nt'" unfolding nt' by simp
      finally show ?thesis .
    qed
    have ticks: "tick_at t0 interval (?rs @ [r]) k ((ld_tick_index s @ [length ?rs]) ! k)" if "k < ld_nb_tick s + 1" for k
      using that keep new ok by (cases "k = ld_nb_tick s") (auto simp: nth_append)
    have "add_record t t0 interval ts msg s = s\<lparr>ld_records := ?rs @ [r], ld_sources := ss,
        ld_tick_index := ld_tick_index s @ [length ?rs], ld_nb_tick := ld_nb_tick s + 1, ld_next_tick := ?nt',
        ld_nb_record := length ?rs + 1\<rparr>"
      using True ok by (simp add: add_record_def mk Let_def)
    then show ?thesis using ok all ticks by (simp add: ticks_ok_def)
  next
    case False
    have all: "rec_time (?rs @ [r]) j < ?nt" if "j < length (?rs @ [r])" for j
      using that old False rt by (cases "j = length ?rs") (auto simp: rec_time_append)
    have "add_record t t0 interval ts msg s = s\<lparr>ld_records := ?rs @ [r], ld_sources := ss, ld_nb_record := length ?rs + 1\<rparr>"
      using False ok by (simp add: add_record_def mk Let_def)
    then show ?thesis using ok all keep by (simp add: ticks_ok_def)
  qed
qed

fun close_by :: "nat \<Rightarrow> int \<Rightarrow> (datetime \<times> ustr) list \<Rightarrow> bool" where
  "close_by interval t [] = True"
| "close_by interval t ((ts, msg) # rs) =
     (dt_micros ts < t + int interval * 1000000 \<and> close_by interval (dt_micros ts) rs)"

lemma fold_ticks:
  assumes "ticks_ok t0 interval s"
    and "close_by interval (rec_time (ld_records s) (length (ld_records s) - 1)) rs"
  shows "ticks_ok t0 interval (fold (\<lambda>(ts, msg). add_record t t0 interval ts msg) rs s)"
  using assms
proof (induction rs arbitrary: s)
  case (Cons r rs)
  obtain ts msg where r: "r = (ts, msg)" by (cases r)
  let ?s1 = "add_record t t0 interval ts msg s"
  have "rec_time (ld_records ?s1) (length (ld_records ?s1) - 1) = dt_micros ts"
    by (simp add: add_record_simps rec_time_append make_record_time)
  moreover have "ticks_ok t0 interval ?s1"
    using add_record_ticks [OF Cons.prems(1)] Cons.prems(2) by (simp add: r)
  ultimately show ?case using Cons.IH [of ?s1] Cons.prems(2) by (simp add: r)
qed simp

lemma first_record_traced:
  assumes "\<forall>(n, ts, dir, s) \<in> set xs. valid_date ts \<and> 62 \<notin> set s" "traced_in xs = (ts, m) # rest"
  shows "\<exists>ys. first_record (map traced xs) = Inr ((ts, m), map traced ys) \<and> traced_in ys = rest \<and> set ys \<subseteq> set xs"
  using assms
proof (induction xs)
  case (Cons x xs)
  obtain n ts1 dir msg where x: "x = (n, ts1, dir, msg)" by (cases x)
  then have v: "valid_date ts1" "62 \<notin> set msg" using Cons.prems by auto
  show ?case
  proof (cases dir)
    case TraceIn
    then have "ts1 = ts" "msg = m" "traced_in xs = rest" using Cons.prems(2) by (auto simp: x traced_in_def)
    then show ?thesis using read_decode_record(1) [OF v(1)] TraceIn
      by (intro exI [of _ xs]) (auto simp: x traced_def trace_n2k_raw_can_def)
  next
    case TraceOut
    then have "traced_in xs = (ts, m) # rest" using Cons.prems(2) by (simp add: x traced_in_def)
    then obtain ys where "first_record (map traced xs) = Inr ((ts, m), map traced ys)" "traced_in ys = rest" "set ys \<subseteq> set xs"
      using Cons by auto
    moreover have "read_decode (traced x) = Inl ValueError"
      using read_decode_record(2) [OF v] TraceOut by (simp add: x traced_def trace_n2k_raw_can_def)
    ultimately show ?thesis by (intro exI [of _ ys]) auto
  qed
qed (simp add: traced_in_def)

lemma header_type_trace: "124 \<notin> set tt \<Longrightarrow> header_type (trace_header tt) = Inr tt"
proof -
  assume a: "124 \<notin> set tt"
  have "trace_header tt = [72, 48] @ 124 # (tt @ 124 # (text_of ''V1.4'' @ [10]))"
    by (simp add: trace_header_def text_of_def)
  then have "split_on 124 (trace_header tt) = [72, 48] # tt # split_on 124 (text_of ''V1.4'' @ [10])"
    using a split_on_append [of 124 "[72, 48]"] split_on_append [OF a] by simp
  then show ?thesis by (simp add: header_type_def trace_header_def text_of_def py_get_def py_pos_def)
qed

text \<open>The records a trace holds.\<close>

definition records_of :: "raw_type \<Rightarrow> (datetime \<times> ustr) list \<Rightarrow> raw_record list" where
  "records_of t rs = map (\<lambda>(ts, m). fst (make_record t ts m [])) rs"

definition load_start :: "raw_type \<Rightarrow> nat \<Rightarrow> datetime \<Rightarrow> ustr \<Rightarrow> raw_load" where
  "load_start t interval ts m =
     (let (r, sources) = make_record t ts m []
      in \<lparr>ld_records = [r], ld_tick_index = [], ld_nb_tick = 0, ld_next_tick = dt_micros ts + int interval * 1000000,
          ld_nb_record = 1, ld_sources = sources\<rparr>)"

definition load_rest :: "raw_type \<Rightarrow> nat \<Rightarrow> datetime \<Rightarrow> ustr \<Rightarrow> (datetime \<times> ustr) list \<Rightarrow> raw_load" where
  "load_rest t interval ts m rest =
     fold (\<lambda>(t1, msg). add_record t (dt_micros ts) interval t1 msg) rest (load_start t interval ts m)"

lemma load_traced:
  assumes "raw_type_of tt = Inr t" "124 \<notin> set tt" "\<forall>n. \<not> abort n"
    and "\<forall>(n, ts, dir, s) \<in> set xs. valid_date ts \<and> 62 \<notin> set s" "traced_in xs = (ts, m) # rest"
  shows "\<exists>g. load_file abort interval (trace_header tt # map traced xs) = Inr g \<and> lg_type g = t
    \<and> lg_records g = records_of t ((ts, m) # rest) \<and> lg_nb_record g = length rest + 1 \<and> lg_start_date g = ts
    \<and> lg_interval g = interval \<and> \<not> lg_lock g
    \<and> lg_tick_index g = ld_tick_index (load_rest t interval ts m rest)
    \<and> lg_nb_tick g = ld_nb_tick (load_rest t interval ts m rest)
    \<and> (0 < interval \<and> close_by interval (dt_micros ts) rest \<longrightarrow>
        lg_nb_tick g = length (lg_tick_index g)
        \<and> (\<forall>k < lg_nb_tick g. tick_at (dt_micros ts) interval (lg_records g) k (lg_tick_index g ! k)))"
proof -
  obtain ys where ys: "first_record (map traced xs) = Inr ((ts, m), map traced ys)" "traced_in ys = rest" "set ys \<subseteq> set xs"
    using first_record_traced [OF assms(4,5)] by blast
  obtain r ss where mk: "make_record t ts m [] = (r, ss)" by (cases "make_record t ts m []")
  have rt: "rr_timestamp r = ts" using make_record_time [of t ts m "[]"] mk by simp
  let ?init = "\<lparr>ld_records = [r], ld_tick_index = [], ld_nb_tick = 0, ld_next_tick = dt_micros ts + int interval * 1000000,
            ld_nb_record = 1, ld_sources = ss\<rparr>"
  have init: "?init = load_start t interval ts m" by (simp add: load_start_def mk)
  let ?fin = "fold (\<lambda>(t1, msg). add_record t (dt_micros ts) interval t1 msg) rest ?init"
  have ld: "load_lines abort t (dt_micros ts) interval 1 (map traced ys) ?init = Inr ?fin"
    using load_lines_traced [of ys abort t "dt_micros ts" interval 1 ?init] assms(3,4) ys(2,3) by blast
  have rec: "ld_records ?fin = records_of t ((ts, m) # rest)" "ld_nb_record ?fin = length rest + 1"
    using fold_add_records [of t "dt_micros ts" interval rest ?init] mk by (auto simp: records_of_def)
  have "ld_records ?fin \<noteq> []" "int (ld_nb_record ?fin) - 1 = int (length rest)" "length (ld_records ?fin) = length rest + 1"
    using rec by (simp_all add: records_of_def)
  then have last_r: "py_get (ld_records ?fin) (int (ld_nb_record ?fin) - 1) = Inr (ld_records ?fin ! length rest)"
    by simp
  have tick: "ticks_ok (dt_micros ts) interval ?fin" if "0 < interval" "close_by interval (dt_micros ts) rest"
    using that by (intro fold_ticks) (simp_all add: ticks_ok_def rec_time_def rt)
  show ?thesis
    using assms(1) header_type_trace [OF assms(2)] ys(1) mk ld last_r rec tick
    by (auto simp: load_file_def ticks_ok_def Let_def load_rest_def init [symmetric])
qed


definition sample_date :: "nat \<Rightarrow> datetime" where
  "sample_date sec = \<lparr>dt_year = 2024, dt_month = 2, dt_day = 29, dt_hour = 23, dt_minute = 59, dt_second = sec,
     dt_micro = 250000\<rparr>"

definition sample_can_log :: "(nat \<times> datetime \<times> trace_direction \<times> ustr) list" where
  "sample_can_log =
     [(1, sample_date 10, TraceIn, text_of ''09f80102,00aa''), (2, sample_date 11, TraceOut, text_of ''09f80103,01''),
      (3, sample_date 11, TraceIn, text_of ''09f80102,02''), (4, sample_date 12, TraceIn, text_of ''09f80103,03'')]"

lemma sample_dates: "sec < 60 \<Longrightarrow> valid_date (sample_date sec)"
  "dt_micros (sample_date sec) = dt_micros (sample_date 0) + int sec * 1000000"
  by (simp_all add: sample_date_def valid_date_def days_in_month_def leap_year_def dt_micros_def)

lemma sample_can_log_ok:
  "\<forall>(n, ts, dir, s) \<in> set sample_can_log. valid_date ts \<and> 62 \<notin> set s"
  "traced_in sample_can_log = (sample_date 10, text_of ''09f80102,00aa'')
     # [(sample_date 11, text_of ''09f80102,02''), (sample_date 12, text_of ''09f80103,03'')]"
  "raw_type_of (text_of ''SocketCANInterface'') = Inr RawCan" "124 \<notin> set (text_of ''SocketCANInterface'')"
  by (auto simp: sample_can_log_def sample_dates(1) text_of_def traced_in_def raw_type_of_def)


section \<open>Reading\<close>

text \<open>A client that asks for the next message each time some delay after it got the previous one.\<close>

fun read_run :: "raw_log \<Rightarrow> real \<Rightarrow> real list \<Rightarrow> (raw_record \<times> real) list" where
  "read_run g now [] = []"
| "read_run g now (d # ds) =
     (case read_message (now + d) g of
        Some (g1, Inr (r, t)) \<Rightarrow> (r, t) # read_run g1 t ds
      | _ \<Rightarrow> [])"

text \<open>The state between two reads, once the first record has been delivered: the next position, the reference
  date and the start of the replay.\<close>

definition reading :: "raw_log \<Rightarrow> nat \<Rightarrow> datetime \<Rightarrow> real \<Rightarrow> bool" where
  "reading g i t0 start \<longleftrightarrow> \<not> lg_lock g \<and> \<not> lg_first_record g \<and> lg_index g = i \<and> lg_t0 g = Some t0
     \<and> lg_start_replay g = start"

definition log_delta :: "datetime \<Rightarrow> raw_record \<Rightarrow> real" where
  "log_delta t0 r = real_of_int (dt_micros (rr_timestamp r) - dt_micros t0) / 1000000"

lemma read_next:
  assumes "reading g i t0 start" "i + 1 < length (lg_records g)"
  shows "\<exists>g1 t. read_message now g = Some (g1, Inr (lg_records g ! (i + 1), t)) \<and> reading g1 (i + 1) t0 start
    \<and> lg_records g1 = lg_records g \<and> lg_current_replay g1 = t - start \<and> now \<le> t
    \<and> now + log_delta t0 (lg_records g ! (i + 1)) - lg_current_replay g \<le> t"
proof -
  have "py_get (lg_records g) (int (i + 1)) = Inr (lg_records g ! (i + 1))" using assms(2) by (rule py_get_nat)
  with assms(1) show ?thesis
    by (simp add: read_message_def reading_def log_delta_def Let_def)
qed

lemma read_end:
  assumes "reading g i t0 start" "length (lg_records g) \<le> i + 1"
  shows "\<exists>g1. read_message now g = Some (g1, Inl LogReadError)"
proof -
  have "py_get (lg_records g) (int (i + 1)) = Inl IndexError" using assms(2) by (rule py_get_out)
  with assms(1) show ?thesis by (simp add: read_message_def reading_def Let_def)
qed

lemma read_run_next:
  assumes "reading g i t0 start" "\<forall>d \<in> set ds. 0 \<le> d"
  shows "map fst (read_run g now ds) = take (length ds) (drop (i + 1) (lg_records g))
    \<and> (lg_current_replay g = now - start \<longrightarrow> (\<forall>(r, t) \<in> set (read_run g now ds). start + log_delta t0 r \<le> t))"
  using assms
proof (induction ds arbitrary: g i now)
  case (Cons d ds)
  show ?case
  proof (cases "i + 1 < length (lg_records g)")
    case True
    obtain g1 t where g1: "read_message (now + d) g = Some (g1, Inr (lg_records g ! (i + 1), t))"
      "reading g1 (i + 1) t0 start" "lg_records g1 = lg_records g" "lg_current_replay g1 = t - start"
      "now + d + log_delta t0 (lg_records g ! (i + 1)) - lg_current_replay g \<le> t"
      using read_next [OF Cons.prems(1) True, of "now + d"] by blast
    have IH: "map fst (read_run g1 t ds) = take (length ds) (drop (i + 1 + 1) (lg_records g))"
      "\<forall>(r, t) \<in> set (read_run g1 t ds). start + log_delta t0 r \<le> t"
      using Cons.IH [OF g1(2), of t] Cons.prems(2) g1(3,4) by auto
    have "drop (i + 1) (lg_records g) = lg_records g ! (i + 1) # drop (i + 1 + 1) (lg_records g)"
      using True by (metis Cons_nth_drop_Suc Suc_eq_plus1)
    then show ?thesis using g1(1,5) IH Cons.prems(2) by auto
  next
    case False
    then show ?thesis using read_end [OF Cons.prems(1), of "now + d"] by auto
  qed
qed simp

text \<open>A replay delivers the records of the file from the chosen one on, in order, none lost and none twice,
  up to the end of the file, however slowly the client asks for them. Once the second record is out, each
  is delivered no earlier than its distance in time from the first.\<close>

theorem log_replay_order:
  assumes "prepare_read now first_i g = Inr g1" "\<not> lg_lock g" "\<forall>d \<in> set ds. 0 \<le> d"
  shows "map fst (read_run g1 now ds) = take (length ds) (drop first_i (lg_records g))
    \<and> (\<forall>(r, t) \<in> set (drop 2 (read_run g1 now ds)). now + log_delta (rr_timestamp (lg_records g ! first_i)) r \<le> t)"
proof -
  let ?rs = "lg_records g"
  have i: "first_i < length ?rs"
    using assms(1) py_get_out [of ?rs first_i]
    by (cases "first_i < length ?rs") (auto simp: prepare_read_def set_references_def)
  then have g1: "g1 = g\<lparr>lg_index := first_i, lg_previous := Some (?rs ! first_i), lg_t0 := Some (rr_timestamp (?rs ! first_i)),
      lg_start_replay := now, lg_current_replay := now, lg_first_record := True, lg_running := True\<rparr>"
    using assms(1) by (simp add: prepare_read_def set_references_def)
  show ?thesis
  proof (cases ds)
    case (Cons d ds1)
    let ?g2 = "g1\<lparr>lg_first_record := False\<rparr>"
    have r1: "read_message (now + d) g1 = Some (?g2, Inr (?rs ! first_i, now + d))"
      using assms(2) by (simp add: g1 read_message_def)
    have rd: "reading ?g2 first_i (rr_timestamp (?rs ! first_i)) now" using assms(2) by (simp add: g1 reading_def)
    have rs2: "lg_records ?g2 = ?rs" by (simp add: g1)
    have hd: "drop first_i ?rs = ?rs ! first_i # drop (first_i + 1) ?rs"
      using i by (metis Cons_nth_drop_Suc Suc_eq_plus1)
    have pos: "\<forall>d \<in> set ds1. 0 \<le> d" using assms(3) Cons by simp
    have ord: "map fst (read_run ?g2 (now + d) ds1) = take (length ds1) (drop (first_i + 1) ?rs)"
      using read_run_next [OF rd pos] rs2 by simp
    have late: "\<forall>(r, t) \<in> set (drop 1 (read_run ?g2 (now + d) ds1)). now + log_delta (rr_timestamp (?rs ! first_i)) r \<le> t"
    proof (cases ds1)
      case inner: (Cons d2 ds2)
      show ?thesis
      proof (cases "first_i + 1 < length ?rs")
        case True
        then obtain g3 t where "read_message (now + d + d2) ?g2 = Some (g3, Inr (?rs ! (first_i + 1), t))"
          "reading g3 (first_i + 1) (rr_timestamp (?rs ! first_i)) now" "lg_current_replay g3 = t - now"
          using read_next [OF rd, of "now + d + d2"] rs2 by auto
        with read_run_next [of g3 "first_i + 1" _ now ds2 t] pos inner show ?thesis by auto
      next
        case False
        then show ?thesis using read_end [OF rd, of "now + d + d2"] rs2 inner by auto
      qed
    qed simp
    show ?thesis using r1 ord hd late by (simp add: Cons numeral_2_eq_2)
  qed simp
qed

definition sample_read_log :: raw_log where
  "sample_read_log =
     \<lparr>lg_type = RawCan, lg_records = records_of RawCan (traced_in sample_can_log), lg_tick_index = [1], lg_nb_tick = 1,
      lg_nb_record = 3, lg_interval = 2, lg_start_date = sample_date 10, lg_tend = sample_date 12, lg_t0 = None,
      lg_start_replay = 0, lg_current_replay = 0, lg_previous = None, lg_index = 0, lg_running = False,
      lg_first_record = False, lg_lock = False\<rparr>"

theorem log_replay_order_witness:
  "\<exists>g1. prepare_read 100 1 sample_read_log = Inr g1
    \<and> map fst (read_run g1 100 [0, 5, 0]) = take (length [0, 5, 0 :: real]) (drop 1 (lg_records sample_read_log))"
proof -
  have "\<exists>g1. prepare_read 100 1 sample_read_log = Inr g1"
    by (simp add: prepare_read_def set_references_def sample_read_log_def sample_can_log_ok records_of_def
      py_get_nat [of 1, simplified])
  then obtain g1 where g1: "prepare_read 100 1 sample_read_log = Inr g1" ..
  have "\<not> lg_lock sample_read_log" by (simp add: sample_read_log_def)
  have d: "\<forall>d \<in> set [0, 5, 0 :: real]. 0 \<le> d" by simp
  show ?thesis by (intro exI conjI, rule g1, rule conjunct1 [OF log_replay_order [OF g1 \<open>\<not> lg_lock sample_read_log\<close> d]])
qed

text \<open>When the records of a log are close enough together, a move to a date leads to the first record at or
  after the end of the tick interval next to the nearest tick: the index is built from the first interval
  on, and the rounded quotient counts from zero. (A date whose quotient rounds out of the index raises
  ValueError and leaves the position where it was.)\<close>

theorem log_move_to_date:
  assumes "raw_type_of tt = Inr t" "124 \<notin> set tt" "\<forall>n. \<not> abort n"
    and "\<forall>(n, ts, dir, s) \<in> set xs. valid_date ts \<and> 62 \<notin> set s" "traced_in xs = (ts, m) # rest"
    and "0 < interval" "close_by interval (dt_micros ts) rest"
    and "load_file abort interval (trace_header tt # map traced xs) = Inr g"
    and "move_to_date now target g = Some (g1, Inr ())"
  shows "tick_at (dt_micros ts) interval (lg_records g)
      (nat (py_round (real_of_int (dt_micros target - dt_micros ts) / (real interval * 1000000)))) (lg_index g1)
    \<and> lg_first_record g1 \<and> \<not> lg_lock g1"
proof -
  let ?k = "py_round (real_of_int (dt_micros target - dt_micros ts) / (real interval * 1000000))"
  have g: "lg_start_date g = ts" "lg_interval g = interval" "\<not> lg_lock g" "lg_nb_tick g = length (lg_tick_index g)"
    "\<forall>k < lg_nb_tick g. tick_at (dt_micros ts) interval (lg_records g) k (lg_tick_index g ! k)"
    using load_traced [OF assms(1-5), of interval] assms(6-8) by auto
  have k: "0 \<le> ?k" "?k \<le> int (lg_nb_tick g) - 1"
    using assms(6,9) g(1-3) by (auto simp: move_to_date_def Let_def simp del: of_int_diff split: if_splits)
  then have kn: "?k = int (nat ?k)" "nat ?k < length (lg_tick_index g)" using g(4) by auto
  then have get: "py_get (lg_tick_index g) ?k = Inr (lg_tick_index g ! nat ?k)" by (metis py_get_nat)
  have "move_to_date now target g =
      (case set_references now (g\<lparr>lg_index := lg_tick_index g ! nat ?k\<rparr>) of
         Inl e \<Rightarrow> Some (g\<lparr>lg_index := lg_tick_index g ! nat ?k, lg_lock := True\<rparr>, Inl e)
       | Inr g1 \<Rightarrow> Some (g1, Inr ()))"
    using assms(6) g(1-3) k get by (auto simp: move_to_date_def Let_def set_references_def bind_r_def simp del: of_int_diff split: sum.splits)
  then have "set_references now (g\<lparr>lg_index := lg_tick_index g ! nat ?k\<rparr>) = Inr g1"
    using assms(9) by (simp split: sum.splits)
  then have "lg_index g1 = lg_tick_index g ! nat ?k" "lg_first_record g1" "lg_lock g1 = lg_lock g"
    by (auto simp: set_references_def bind_r_Inr_iff)
  with g(3,4,5) kn(2) show ?thesis by simp
qed

theorem log_move_to_date_witness:
  "\<exists>g g1. load_file (\<lambda>n. False) 2 (trace_header (text_of ''SocketCANInterface'') # map traced sample_can_log) = Inr g
    \<and> move_to_date 9 (sample_date 11) g = Some (g1, Inr ())
    \<and> tick_at (dt_micros (sample_date 10)) 2 (lg_records g)
        (nat (py_round (real_of_int (dt_micros (sample_date 11) - dt_micros (sample_date 10)) / (real 2 * 1000000)))) (lg_index g1)"
proof -
  note tr = sample_can_log_ok(3,4) _ sample_can_log_ok(1,2)
  obtain g where g: "load_file (\<lambda>n. False) 2 (trace_header (text_of ''SocketCANInterface'') # map traced sample_can_log) = Inr g"
    "lg_start_date g = sample_date 10" "lg_interval g = 2" "\<not> lg_lock g"
    "lg_records g = records_of RawCan ((sample_date 10, text_of ''09f80102,00aa'')
       # [(sample_date 11, text_of ''09f80102,02''), (sample_date 12, text_of ''09f80103,03'')])"
    "lg_tick_index g = ld_tick_index (load_rest RawCan 2 (sample_date 10) (text_of ''09f80102,00aa'')
       [(sample_date 11, text_of ''09f80102,02''), (sample_date 12, text_of ''09f80103,03'')])"
    "lg_nb_tick g = ld_nb_tick (load_rest RawCan 2 (sample_date 10) (text_of ''09f80102,00aa'')
       [(sample_date 11, text_of ''09f80102,02''), (sample_date 12, text_of ''09f80103,03'')])"
    using load_traced [OF tr, of "\<lambda>n. False" 2] by auto
  have ld: "ld_tick_index (load_rest RawCan 2 (sample_date 10) (text_of ''09f80102,00aa'')
       [(sample_date 11, text_of ''09f80102,02''), (sample_date 12, text_of ''09f80103,03'')]) = [2]"
    "ld_nb_tick (load_rest RawCan 2 (sample_date 10) (text_of ''09f80102,00aa'')
       [(sample_date 11, text_of ''09f80102,02''), (sample_date 12, text_of ''09f80103,03'')]) = 1"
    by (simp_all add: load_rest_def load_start_def add_record_def make_record_def Let_def sample_dates(2) [of 11]
        sample_dates(2) [of 12] sample_dates(2) [of 10] split: sum.splits)
  have d: "dt_micros (sample_date 11) = dt_micros (sample_date 10) + 1000000"
    "dt_micros (sample_date 12) = dt_micros (sample_date 10) + 2000000"
    by (simp_all add: sample_dates(2) [of 11] sample_dates(2) [of 12] sample_dates(2) [of 10])
  have "\<exists>g1. move_to_date 9 (sample_date 11) g = Some (g1, Inr ())"
    using g ld d by (simp add: move_to_date_def set_references_def py_get_def py_pos_def py_round_def records_of_def)
  then obtain g1 where g1: "move_to_date 9 (sample_date 11) g = Some (g1, Inr ())" ..
  have "close_by 2 (dt_micros (sample_date 10))
      [(sample_date 11, text_of ''09f80102,02''), (sample_date 12, text_of ''09f80103,03'')]"
    by (simp add: d)
  from log_move_to_date [OF tr _ this g(1) g1] g(1) g1 show ?thesis by auto
qed

text \<open>Moving forward never works: it raises TypeError in any state and leaves the lock of the reader taken,
  so that every later read, move or restart blocks for ever.\<close>

theorem log_move_forward_blocks:
  assumes "\<not> lg_lock g" "lg_index g < length (lg_records g)"
  shows "\<exists>g1. move_forward seconds g = Some (g1, Inl TypeError) \<and> read_message now g1 = None
    \<and> move_to_date now target g1 = None \<and> log_restart now g1 = None \<and> move_forward s2 g1 = None"
  using assms by (simp add: move_forward_def read_message_def move_to_date_def log_restart_def)

theorem log_move_forward_blocks_witness:
  "\<exists>g1. move_forward 10 sample_read_log = Some (g1, Inl TypeError) \<and> read_message 7 g1 = None
    \<and> move_to_date 7 (sample_date 11) g1 = None \<and> log_restart 7 g1 = None \<and> move_forward 1 g1 = None"
  by (rule log_move_forward_blocks)
    (simp_all add: sample_read_log_def sample_can_log_ok records_of_def)

end
