(* ===== verification/LogReplay.thy ===== *)
theory LogReplay
  imports RawLog CanInterface Coupler Gateways
begin

text \<open>
  \<^verbatim>\<open>log_replay/raw_log_coupler.py\<close>: the coupler that replays a trace file. A thread (\<^verbatim>\<open>AsynchLogReader\<close>,
  \<open>log_reader_turn\<close>) takes the records one by one from the reader of \<^theory_text>\<open>RawLog\<close>, turns each into a message and
  puts it in the unbounded queue from which \<^verbatim>\<open>_read\<close> takes. The clock at each turn is an argument. A turn gives
  what becomes of the thread: an exception that the loop does not catch ends it.
\<close>

section \<open>State\<close>

datatype log_process = ProcessNmea0183 | ProcessN2k | ProcessCan | ForwardCan

record log_reader =
  ar_stop :: bool
  ar_suspend :: bool
  ar_suspend_date :: real
  ar_process :: log_process

text \<open>\<open>lc_opened\<close>: there is a file object; \<open>lc_logfile\<close>: and it is loaded.\<close>

record log_coupler =
  lc_base :: coupler
  lc_opened :: bool
  lc_logfile :: "raw_log option"
  lc_fp :: fp_handler
  lc_queue :: "nav_msg list option"
  lc_reader :: "log_reader option"
  lc_white_list :: "nat list option"
  lc_black_list :: "int list"

definition new_log_reader :: "log_process \<Rightarrow> log_reader" where
  "new_log_reader p = \<lparr>ar_stop = False, ar_suspend = False, ar_suspend_date = 0, ar_process = p\<rparr>"

definition new_log_coupler :: "coupler \<Rightarrow> string option \<Rightarrow> nat list option \<Rightarrow> log_coupler result" where
  "new_log_coupler c filename pgn_white_list =
     (case filename of
        None \<Rightarrow> Inl ValueError
      | Some f \<Rightarrow>
          Inr \<lparr>lc_base = c\<lparr>c_direction := ReadOnly, c_max_attempt := 1\<rparr>, lc_opened = False, lc_logfile = None, lc_fp = new_fp_handler,
               lc_queue = None, lc_reader = None,
               lc_white_list = (case pgn_white_list of Some (p # ps) \<Rightarrow> Some (p # ps) | _ \<Rightarrow> None),
               lc_black_list = []\<rparr>)"

definition lc_put :: "nav_msg \<Rightarrow> log_coupler \<Rightarrow> log_coupler" where
  "lc_put m lc = lc\<lparr>lc_queue := map_option (\<lambda>q. q @ [m]) (lc_queue lc)\<rparr>"

section \<open>From records to messages\<close>

text \<open>\<^verbatim>\<open>process_shipmodul_frame\<close> expects a record and takes its \<^verbatim>\<open>message\<close>; its two callers give it the bytes.\<close>

datatype shipmodul_arg = ArgRecord raw_record | ArgFrame raw_message

definition process_shipmodul_frame :: "real \<Rightarrow> shipmodul_arg \<Rightarrow> nav_msg result" where
  "process_shipmodul_frame now arg =
     (case arg of
        ArgFrame _ \<Rightarrow> Inl AttributeError
      | ArgRecord r \<Rightarrow>
          (case rr_message r of
             RawText _ \<Rightarrow> Inl NotModelled
           | RawBytes frame \<Rightarrow>
               (case new_n0183 now frame True None of
                  Inr m \<Rightarrow> Inr (NavN0183 m)
                | Inl e \<Rightarrow> if e = ValueError then Inr NavNull
                           else if e = NMEAInvalidFrame then Inl IncompleteMessage else Inl e)))"

definition log_process_nmea0183 :: "real \<Rightarrow> raw_record \<Rightarrow> nav_msg result" where
  "log_process_nmea0183 now r = process_shipmodul_frame now (ArgFrame (rr_message r))"

text \<open>Nothing after the call of \<^verbatim>\<open>process_shipmodul_frame\<close> can be reached.\<close>

definition log_process_n2k :: "real \<Rightarrow> raw_record \<Rightarrow> nav_msg result" where
  "log_process_n2k now r =
     bind_r (process_shipmodul_frame now (ArgFrame (rr_message r))) (\<lambda>_. Inl NotModelled)"

definition can_fields :: "ustr \<Rightarrow> (int \<times> bytes) result" where
  "can_fields frame =
     bind_r (on_ascii (parse_int 16) (py_slice frame 0 8)) (\<lambda>can_id.
     bind_r (on_ascii from_hex (drop 9 frame)) (\<lambda>data. Inr (can_id, data)))"

text \<open>\<^verbatim>\<open>process_can_frame\<close>. The frame that opens a fast packet is fed outside the \<^verbatim>\<open>try\<close>, and its result dropped.\<close>

definition process_can_frame ::
    "'f pgn_definitions \<Rightarrow> real \<Rightarrow> ustr \<Rightarrow> log_coupler \<Rightarrow> log_coupler \<times> nav_msg result" where
  "process_can_frame ds now frame lc =
     (case can_fields frame of
        Inl e \<Rightarrow> (lc, Inl (if e = ValueError then IncompleteMessage else e))
      | Inr (can_id, data) \<Rightarrow>
          let (pgn, da) = pgn_pdu1_adjust (nat (drop_bit 8 can_id AND 0x1FFFF)); sa = nat (can_id AND 0xFF) in
          if int sa \<in> set (lc_black_list lc) then (lc, Inl IncompleteMessage)
          else if (case lc_white_list lc of None \<Rightarrow> False | Some ps \<Rightarrow> pgn \<notin> set ps) then (lc, Inl IncompleteMessage)
          else
            let prio = nat (drop_bit 26 can_id AND 7);
                emit = (\<lambda>lc1 d. (lc1, map_sum id (NavN2k None) (new_n2k_msg now pgn prio sa da (Some d) 0)))
            in case is_pgn_active (lc_fp lc) pgn sa data of
                 Inl e \<Rightarrow> (lc, Inl e)
               | Inr True \<Rightarrow>
                   (let (fp, r) = process_frame now (lc_fp lc) pgn sa data; lc1 = lc\<lparr>lc_fp := fp\<rparr>
                    in case r of
                         Inl e \<Rightarrow> (lc1, Inl (if e = FastPacketException then IncompleteMessage else e))
                       | Inr None \<Rightarrow> (lc1, Inl IncompleteMessage)
                       | Inr (Some d) \<Rightarrow> emit lc1 d)
               | Inr False \<Rightarrow>
                   (case fast_packet_check ds pgn of
                      Inl e \<Rightarrow> (lc, Inl e)
                    | Inr True \<Rightarrow>
                        (let (fp, r) = process_frame now (lc_fp lc) pgn sa data; lc1 = lc\<lparr>lc_fp := fp\<rparr>
                         in (lc1, Inl (case r of Inl e \<Rightarrow> e | Inr _ \<Rightarrow> IncompleteMessage)))
                    | Inr False \<Rightarrow> emit lc data))"

definition forward_can_frame :: "raw_record \<Rightarrow> nav_msg result" where
  "forward_can_frame r =
     (case rr_message r of RawText t \<Rightarrow> Inr (NavTransparent (utf8_encode t)) | RawBytes b \<Rightarrow> Inr (NavTransparent b))"

definition log_process ::
    "'f pgn_definitions \<Rightarrow> real \<Rightarrow> log_process \<Rightarrow> raw_record \<Rightarrow> log_coupler \<Rightarrow> log_coupler \<times> nav_msg result" where
  "log_process ds now p r lc =
     (case p of
        ProcessNmea0183 \<Rightarrow> (lc, log_process_nmea0183 now r)
      | ProcessN2k \<Rightarrow> (lc, log_process_n2k now r)
      | ForwardCan \<Rightarrow> (lc, forward_can_frame r)
      | ProcessCan \<Rightarrow>
          (case rr_message r of
             RawText t \<Rightarrow> process_can_frame ds now t lc
           | RawBytes _ \<Rightarrow> (lc, Inl NotModelled)))"

section \<open>The reading thread\<close>

datatype reader_turn = TurnNext | TurnEnd | TurnRaised py_error | TurnBlocked

definition log_reader_turn ::
    "'f pgn_definitions \<Rightarrow> real \<Rightarrow> log_coupler \<Rightarrow> log_coupler \<times> reader_turn" where
  "log_reader_turn ds now lc =
     (case (lc_reader lc, lc_logfile lc) of
        (Some ar, Some g) \<Rightarrow>
          if ar_stop ar then (lc, TurnEnd)
          else if ar_suspend ar then (lc, TurnNext)
          else (case read_message now g of
             None \<Rightarrow> (lc, TurnBlocked)
           | Some (g1, Inl e) \<Rightarrow>
               let lc1 = lc\<lparr>lc_logfile := Some g1\<rparr>
               in if e = LogReadError then (lc_put NavNull lc1, TurnEnd) else (lc1, TurnRaised e)
           | Some (g1, Inr (r, t)) \<Rightarrow>
               (case log_process ds t (ar_process ar) r (lc\<lparr>lc_logfile := Some g1\<rparr>) of
                  (lc1, Inr m) \<Rightarrow> (lc_put m lc1, TurnNext)
                | (lc1, Inl e) \<Rightarrow> (lc1, if e = IncompleteMessage then TurnNext else TurnRaised e)))
      | _ \<Rightarrow> (lc, TurnRaised AttributeError))"

fun log_reader_run ::
    "'f pgn_definitions \<Rightarrow> log_coupler \<Rightarrow> real list \<Rightarrow> log_coupler \<times> reader_turn" where
  "log_reader_run ds lc [] = (lc, TurnNext)"
| "log_reader_run ds lc (now # nows) =
     (case log_reader_turn ds now lc of
        (lc1, TurnNext) \<Rightarrow> log_reader_run ds lc1 nows
      | r \<Rightarrow> r)"

definition log_reader_stop :: "log_coupler \<Rightarrow> log_coupler" where
  "log_reader_stop lc = lc_put NavNull (lc\<lparr>lc_reader := map_option (ar_stop_update (\<lambda>_. True)) (lc_reader lc)\<rparr>)"

definition log_suspend :: "real \<Rightarrow> log_coupler \<Rightarrow> log_coupler result" where
  "log_suspend now lc =
     (case lc_reader lc of
        None \<Rightarrow> Inl AttributeError
      | Some ar \<Rightarrow> Inr (lc\<lparr>lc_reader := Some (ar\<lparr>ar_suspend := True, ar_suspend_date := now\<rparr>)\<rparr>))"

text \<open>\<open>None\<close>: the lock of the file is never given back.\<close>

definition log_resume :: "real \<Rightarrow> log_coupler \<Rightarrow> log_coupler result option" where
  "log_resume now lc =
     (case (lc_reader lc, lc_logfile lc) of
        (Some ar, Some g) \<Rightarrow>
          map_option (\<lambda>g1. Inr (lc\<lparr>lc_logfile := Some g1, lc_reader := Some (ar\<lparr>ar_suspend := False\<rparr>)\<rparr>))
            (shift_start_replay (now - ar_suspend_date ar) g)
      | _ \<Rightarrow> Some (Inl AttributeError))"

section \<open>The coupler\<close>

text \<open>\<^verbatim>\<open>_open\<close>: \<open>file\<close> is the lines of the file, or \<open>None\<close> when it cannot be opened. A \<open>LogReadError\<close> of the
  loading gives false and any other exception leaves the method; in both cases the file is already noted.\<close>

definition log_open_file ::
    "(nat \<Rightarrow> bool) \<Rightarrow> nat \<Rightarrow> ustr list option \<Rightarrow> log_coupler \<Rightarrow> log_coupler \<times> open_result" where
  "log_open_file abort interval file lc =
     (if lc_opened lc then (lc, OpenIsRefused)
      else case file of
        None \<Rightarrow> (lc, OpenReturned False)
      | Some lines \<Rightarrow>
          let lc1 = lc\<lparr>lc_opened := True\<rparr>
          in case load_file abort interval lines of
               Inl e \<Rightarrow> (lc1, if e = LogReadError then OpenReturned False else OpenRaises e)
             | Inr g \<Rightarrow> (lc1\<lparr>lc_logfile := Some g, lc_queue := Some []\<rparr>, OpenReturned True))"

definition start_log_read :: "real \<Rightarrow> log_coupler \<Rightarrow> log_coupler \<times> open_result" where
  "start_log_read now lc =
     (case (lc_reader lc, lc_logfile lc) of
        (Some ar, Some g) \<Rightarrow>
          (case prepare_read now 0 g of
             Inl e \<Rightarrow> (lc\<lparr>lc_base := (lc_base lc)\<lparr>c_state := Open\<rparr>\<rparr>, OpenRaises e)
           | Inr g1 \<Rightarrow>
               (lc\<lparr>lc_logfile := Some g1, lc_base := (lc_base lc)\<lparr>c_state := Connected\<rparr>\<rparr>, OpenReturned True))
      | _ \<Rightarrow> (lc, OpenRaises AttributeError))"

text \<open>The classes differ in the reader they make: the transparent one reads CAN traces only. A file of type
  \<open>RawVeDirect\<close> has no branch, so that the reader stays \<^verbatim>\<open>None\<close>.\<close>

definition log_choose_reader :: "bool \<Rightarrow> log_coupler \<Rightarrow> log_process option" where
  "log_choose_reader transparent lc =
     (case map_option lg_type (lc_logfile lc) of
        Some RawCan \<Rightarrow> Some (if transparent then ForwardCan else ProcessCan)
      | Some RawShipModul \<Rightarrow>
          if transparent then None
          else Some (if c_mode (lc_base lc) = ModeNMEA0183 then ProcessNmea0183 else ProcessN2k)
      | _ \<Rightarrow> None)"

definition log_open ::
    "bool \<Rightarrow> (nat \<Rightarrow> bool) \<Rightarrow> nat \<Rightarrow> real \<Rightarrow> ustr list option \<Rightarrow> log_coupler \<Rightarrow> log_coupler \<times> open_result" where
  "log_open transparent abort interval now file lc =
     (case log_open_file abort interval file lc of
        (lc1, OpenReturned True) \<Rightarrow>
          (case log_choose_reader transparent lc1 of
             Some p \<Rightarrow> start_log_read now (lc1\<lparr>lc_reader := Some (new_log_reader p)\<rparr>)
           | None \<Rightarrow> if transparent then (lc1, OpenReturned False) else start_log_read now lc1)
      | r \<Rightarrow> r)"

definition log_close :: "log_coupler \<Rightarrow> log_coupler" where
  "log_close lc =
     (let lc1 = lc\<lparr>lc_base := (lc_base lc)\<lparr>c_state := NotReady\<rparr>\<rparr>
      in if lc_reader lc1 = None then lc1 else log_reader_stop lc1)"

definition log_stop :: "log_coupler \<Rightarrow> log_coupler" where
  "log_stop lc = log_close (lc\<lparr>lc_base := coupler_stop (lc_base lc)\<rparr>)"

text \<open>\<^verbatim>\<open>_read\<close>, which waits (\<open>None\<close>) when the queue is empty.\<close>

definition log_read :: "log_coupler \<Rightarrow> (log_coupler \<times> nav_msg result) option" where
  "log_read lc =
     (let lc1 = lc\<lparr>lc_base := increment_msg_raw (lc_base lc)\<rparr>
      in case lc_queue lc1 of
           None \<Rightarrow> Some (lc1, Inl AttributeError)
         | Some [] \<Rightarrow> None
         | Some (m # ms) \<Rightarrow> Some (lc1\<lparr>lc_queue := Some ms\<rparr>, Inr m))"

section \<open>Remote control\<close>

definition log_current_date :: "log_coupler \<Rightarrow> datetime option result" where
  "log_current_date lc =
     (if c_state (lc_base lc) = Active
      then (case lc_logfile lc of
              None \<Rightarrow> Inl AttributeError
            | Some g \<Rightarrow> map_sum id Some (get_current_log_date g))
      else Inr None)"

text \<open>The three moves, on the coupler and with their exception; \<open>None\<close> when the lock is never given back.\<close>

definition on_log :: "(raw_log \<Rightarrow> (raw_log \<times> unit result) option) \<Rightarrow> log_coupler \<Rightarrow> (log_coupler \<times> unit result) option" where
  "on_log f lc =
     (if c_state (lc_base lc) \<noteq> Active then Some (lc, Inr ())
      else case lc_logfile lc of
        None \<Rightarrow> Some (lc, Inl AttributeError)
      | Some g \<Rightarrow> map_option (\<lambda>(g1, r). (lc\<lparr>lc_logfile := Some g1\<rparr>, r)) (f g))"

definition log_move_index :: "real option \<Rightarrow> log_coupler \<Rightarrow> (log_coupler \<times> unit result) option" where
  "log_move_index delta lc =
     (case delta of None \<Rightarrow> Some (lc, Inr ()) | Some d \<Rightarrow> on_log (move_forward d) lc)"

definition log_move_date :: "real \<Rightarrow> datetime option \<Rightarrow> log_coupler \<Rightarrow> (log_coupler \<times> unit result) option" where
  "log_move_date now target lc =
     (case target of None \<Rightarrow> Some (lc, Inr ()) | Some d \<Rightarrow> on_log (move_to_date now d) lc)"

definition log_coupler_restart :: "real \<Rightarrow> log_coupler \<Rightarrow> (log_coupler \<times> unit result) option" where
  "log_coupler_restart now lc = on_log (log_restart now) lc"

definition remove_sa :: "int option \<Rightarrow> log_coupler \<Rightarrow> log_coupler" where
  "remove_sa address lc =
     (let sa = (case address of None \<Rightarrow> 256 | Some a \<Rightarrow> a)
      in if 253 < sa then lc else lc\<lparr>lc_black_list := lc_black_list lc @ [sa]\<rparr>)"

definition add_sa :: "int option \<Rightarrow> log_coupler \<Rightarrow> log_coupler" where
  "add_sa address lc =
     (let sa = (case address of None \<Rightarrow> 256 | Some a \<Rightarrow> a)
      in if 253 < sa then lc else lc\<lparr>lc_black_list := remove1 sa (lc_black_list lc)\<rparr>)"

section \<open>Lemmas on the fast packet handler\<close>

text \<open>The clock enters a reassembly only as its time stamp, which nothing but the cleaning reads: with the stamps
  erased, the handler does the same at any time.\<close>

definition erase_fp :: "fast_packet \<Rightarrow> fast_packet" where
  "erase_fp p = p\<lparr>fp_timestamp := 0\<rparr>"

definition erase_h :: "fp_handler \<Rightarrow> fp_handler" where
  "erase_h h = h\<lparr>sequences := map (\<lambda>(k, p). (k, erase_fp p)) (sequences h)\<rparr>"

lemma dict_map_values:
  "dict_get (map (\<lambda>(k, v). (k, f v)) d) k = map_option f (dict_get d k)"
  "dict_set k (f v) (map (\<lambda>(k, v). (k, f v)) d) = map (\<lambda>(k, v). (k, f v)) (dict_set k v d)"
  "dict_del k (map (\<lambda>(k, v). (k, f v)) d) = map (\<lambda>(k, v). (k, f v)) (dict_del k d)"
  by (induction d) (auto simp: AList.delete_eq)

lemma sequences_erase [simp]: "sequences (erase_h h) = map (\<lambda>(k, p). (k, erase_fp p)) (sequences h)"
  by (simp add: erase_h_def)

lemma erase_packet:
  "first_packet (erase_fp p) frame = map_sum id erase_fp (first_packet p frame)"
  "add_packet (erase_fp p) frame = map_sum id erase_fp (add_packet p frame)"
  "check_complete (erase_fp p) = check_complete p" "total_frame (erase_fp p) = total_frame p"
  "erase_fp (new_fast_packet now pgn addr seq) = new_fast_packet 0 pgn addr seq"
  by (auto simp: first_packet_def add_packet_def bind_r_def erase_fp_def Let_def check_complete_def total_frame_def
      new_fast_packet_def split: sum.splits option.splits)

lemma erase_update: "erase_h (h\<lparr>sequences := d\<rparr>) = (erase_h h)\<lparr>sequences := map (\<lambda>(k, p). (k, erase_fp p)) d\<rparr>"
  by (simp add: erase_h_def)

definition feed_packet :: "nat \<Rightarrow> nat \<Rightarrow> bytes \<Rightarrow> fp_handler \<Rightarrow> fast_packet \<Rightarrow> fp_handler \<times> bytes option result" where
  "feed_packet key counter frame h p =
     (case (if counter = 0 then first_packet p frame else add_packet p frame) of
        Inl e \<Rightarrow> (if counter \<noteq> 0 \<and> e = FastPacketException
               then h\<lparr>sequences := dict_del key (sequences h)\<rparr> else h, Inl e)
      | Inr q \<Rightarrow> if check_complete q
          then (h\<lparr>sequences := dict_del key (sequences h)\<rparr>, map_sum id Some (total_frame q))
          else (h\<lparr>sequences := dict_set key q (sequences h)\<rparr>, Inr None))"

lemma process_frame_feed:
  "process_frame now h pgn addr frame =
     (case py_get frame 0 of
        Inl e \<Rightarrow> (h, Inl e)
      | Inr b0 \<Rightarrow>
          let key = compute_key pgn addr (frame_seq b0); counter = frame_counter b0
          in case dict_get (sequences h) key of
               None \<Rightarrow>
                 if counter \<noteq> 0 then (h, Inl FastPacketException)
                 else let p = new_fast_packet now pgn addr (frame_seq b0)
                      in feed_packet key counter frame (h\<lparr>sequences := dict_set key p (sequences h)\<rparr>) p
             | Some p \<Rightarrow> feed_packet key counter frame h p)"
  by (simp add: process_frame_def feed_packet_def Let_def split: option.splits sum.splits)

lemma erase_feed:
  "feed_packet key counter frame (erase_h h) (erase_fp p) = map_prod erase_h id (feed_packet key counter frame h p)"
proof -
  have fed: "(if counter = 0 then first_packet (erase_fp p) frame else add_packet (erase_fp p) frame)
      = map_sum id erase_fp (if counter = 0 then first_packet p frame else add_packet p frame)"
    by (simp add: erase_packet)
  show ?thesis
    unfolding feed_packet_def fed
    by (cases "if counter = 0 then first_packet p frame else add_packet p frame")
      (simp_all add: erase_update dict_map_values erase_packet)
qed

lemma erase_process_frame:
  "process_frame 0 (erase_h h) pgn addr frame = map_prod erase_h id (process_frame now h pgn addr frame)"
proof (cases "py_get frame 0")
  case (Inr b0)
  let ?p = "new_fast_packet now pgn addr (frame_seq b0)" and ?key = "compute_key pgn addr (frame_seq b0)"
  let ?h1 = "h\<lparr>sequences := dict_set ?key ?p (sequences h)\<rparr>"
  have h1: "(erase_h h)\<lparr>sequences := dict_set ?key (new_fast_packet 0 pgn addr (frame_seq b0)) (sequences (erase_h h))\<rparr>
      = erase_h ?h1"
    by (simp add: erase_update dict_map_values flip: erase_packet(5) [of now])
  have get: "dict_get (sequences (erase_h h)) ?key = map_option erase_fp (dict_get (sequences h) ?key)"
    by (simp add: dict_map_values(1))
  show ?thesis
  proof (cases "dict_get (sequences h) ?key")
    case None
    then have n: "dict_get (sequences (erase_h h)) ?key = None" using get by simp
    from erase_feed [of ?key "frame_counter b0" frame ?h1 ?p]
    show ?thesis
      unfolding process_frame_feed Let_def Inr sum.case n None option.case h1
      by (cases "frame_counter b0 = 0") (simp_all add: erase_packet(5) del: sequences_erase)
  next
    case (Some p)
    with get erase_feed [of ?key "frame_counter b0" frame h p] Inr show ?thesis
      by (simp add: process_frame_feed Let_def del: sequences_erase)
  qed
qed (simp add: process_frame_feed)

lemma same_process_frame:
  assumes "erase_h h1 = erase_h h2"
  shows "erase_h (fst (process_frame n1 h1 pgn addr frame)) = erase_h (fst (process_frame n2 h2 pgn addr frame))"
    and "snd (process_frame n1 h1 pgn addr frame) = snd (process_frame n2 h2 pgn addr frame)"
  using erase_process_frame [of h1 pgn addr frame n1] erase_process_frame [of h2 pgn addr frame n2] assms
  by (metis fst_map_prod, metis snd_map_prod id_apply)

lemma erase_active: "is_pgn_active (erase_h h) pgn addr frame = is_pgn_active h pgn addr frame"
  by (auto simp: is_pgn_active_def dict_map_values Let_def bind_r_def split: sum.splits option.splits)

section \<open>The frames of a trace\<close>

lemma hex_pad_ascii: "n < 16 ^ w \<Longrightarrow> 0 < w \<Longrightarrow> length (hex_pad w n) = w \<and> (\<forall>c \<in> set (hex_pad w n). unat c < 128)"
proof -
  assume n: "n < 16 ^ w" "0 < w"
  have "list_all (\<lambda>d. unat (hex_byte d) < 128) [0..<16]" by code_simp
  then have "unat (hex_byte d) < 128" if "d < 16" for d using that by (auto simp: list_all_iff)
  with hex_digits [OF n] show ?thesis by (auto simp: hex_pad_eq)
qed

lemma on_ascii_bytes: "\<forall>c \<in> set bs. unat c < 128 \<Longrightarrow> on_ascii f (map unat bs) = f bs"
  by (simp add: on_ascii_def comp_def)

lemma can_fields_trace:
  assumes "can_id < 0x20000000"
  shows "can_fields (can_trace_text can_id d) = Inr (int can_id, d)"
proof -
  have n: "can_id < 16 ^ 8" using assms by simp
  note h = hex_pad_ascii [OF n]
  have "py_slice (can_trace_text can_id d) 0 8 = map unat (hex_pad 8 can_id)"
    using py_slice_nat [of "can_trace_text can_id d" 0 8] h by (simp add: can_trace_text_def)
  moreover have "drop 9 (can_trace_text can_id d) = map unat (hex_of d)"
    using h by (simp add: can_trace_text_def drop_Cons')
  ultimately show ?thesis
    using h hex_of_plain(2) [of d] parse_hex_pad [OF n] from_hex_of [of d] by (simp add: can_fields_def on_ascii_bytes)
qed

lemma can_id_ints:
  "nat (drop_bit 8 (int n) AND 0x1FFFF) = drop_bit 8 n AND 0x1FFFF" "nat (int n AND 0xFF) = n AND 0xFF"
  "nat (drop_bit 26 (int n) AND 7) = drop_bit 26 n AND 7"
proof -
  have "int (drop_bit 8 n AND 0x1FFFF) = drop_bit 8 (int n) AND 0x1FFFF" "int (n AND 0xFF) = int n AND 0xFF"
    "int (drop_bit 26 n AND 7) = drop_bit 26 (int n) AND 7"
    by (simp_all only: of_nat_and_eq drop_bit_of_nat of_nat_numeral)
  then show "nat (drop_bit 8 (int n) AND 0x1FFFF) = drop_bit 8 n AND 0x1FFFF" "nat (int n AND 0xFF) = n AND 0xFF"
    "nat (drop_bit 26 (int n) AND 7) = drop_bit 26 n AND 7"
    by (metis nat_int)+
qed

text \<open>What the reader of a trace needs of the frames a live interface received: they are addressed to it, are of
  neither transport protocol PGN, and a fast packet opens with a frame that does not complete it.\<close>

fun long_starts :: "'f pgn_definitions \<Rightarrow> fp_handler \<Rightarrow> can_frame list \<Rightarrow> bool" where
  "long_starts ds h [] = True"
| "long_starts ds h (f # fs) =
     (let (pgn, da, sa, prio) = parse_arbitration_id (cf_id f); active = is_pgn_active h pgn sa (cf_data f)
      in if active = Inr True \<or> fast_packet_check ds pgn = Inr True
         then let (h1, r) = process_frame 0 h pgn sa (cf_data f)
              in (active = Inr True \<or> r = Inr None) \<and> long_starts ds h1 fs
         else long_starts ds h fs)"

definition replayable :: "nat list \<Rightarrow> can_frame \<Rightarrow> bool" where
  "replayable addresses f =
     (let (pgn, da, sa, prio) = parse_arbitration_id (cf_id f)
      in cf_id f < 0x20000000 \<and> cf_data f \<noteq> [] \<and> da \<in> set addresses \<and> pgn \<notin> {60416, 60160})"

text \<open>A message but for the time at which it was made.\<close>

fun untimed :: "nav_msg \<Rightarrow> nav_msg" where
  "untimed (NavN2k raw m) = NavN2k raw (m\<lparr>m_ts := 0\<rparr>)"
| "untimed m = m"

lemma same_active: "erase_h h1 = erase_h h2 \<Longrightarrow> is_pgn_active h1 pgn sa d = is_pgn_active h2 pgn sa d"
  by (metis erase_active)

lemma long_starts_erase: "erase_h h1 = erase_h h2 \<Longrightarrow> long_starts ds h1 fs = long_starts ds h2 fs"
proof (induction fs arbitrary: h1 h2)
  case (Cons f fs)
  obtain pgn da sa prio where p: "parse_arbitration_id (cf_id f) = (pgn, da, sa, prio)" by (metis surj_pair)
  obtain g1 r1 g2 r2 where g: "process_frame 0 h1 pgn sa (cf_data f) = (g1, r1)" "process_frame 0 h2 pgn sa (cf_data f) = (g2, r2)"
    by fastforce
  with same_process_frame [OF Cons.prems, of 0 pgn sa "cf_data f" 0] have e: "erase_h g1 = erase_h g2" "r1 = r2" by simp_all
  note ih = Cons.IH [OF e(1)] Cons.IH [OF Cons.prems]
  show ?case using p g same_active [OF Cons.prems, of pgn sa "cf_data f"] ih e(2) by simp
qed simp

lemma replay_step:
  assumes "replayable (if_addresses s) f" "process_receive_msg ds now s f = (s1, Inr ())"
    and "erase_h (lc_fp lc) = erase_h (if_fp s)" "lc_white_list lc = None" "lc_black_list lc = []"
    and "q_max (if_queue s) = 0" "long_starts ds (if_fp s) (f # fs)"
  shows "\<exists>lc1 r. process_can_frame ds t (can_trace_text (cf_id f) (cf_data f)) lc = (lc1, r)
    \<and> lc1 = lc\<lparr>lc_fp := lc_fp lc1\<rparr> \<and> erase_h (lc_fp lc1) = erase_h (if_fp s1)
    \<and> q_max (if_queue s1) = 0 \<and> if_addresses s1 = if_addresses s \<and> long_starts ds (if_fp s1) fs
    \<and> (case r of
          Inl e \<Rightarrow> e = IncompleteMessage \<and> q_items (if_queue s1) = q_items (if_queue s)
        | Inr m \<Rightarrow> \<exists>m'. q_items (if_queue s1) = q_items (if_queue s) @ [m'] \<and> untimed m = untimed (NavN2k None m'))"
proof -
  let ?d = "cf_data f" and ?s = "s\<lparr>if_total_msg_in := if_total_msg_in s + 1\<rparr>"
  obtain pgn da sa prio where p: "parse_arbitration_id (cf_id f) = (pgn, da, sa, prio)" by (metis surj_pair)
  then have q: "pgn_pdu1_adjust (drop_bit 8 (cf_id f) AND 0x1FFFF) = (pgn, da)" "cf_id f AND 0xFF = sa"
    "drop_bit 26 (cf_id f) AND 7 = prio"
    by (auto simp: parse_arbitration_id_def split: prod.splits)
  have ok: "cf_id f < 0x20000000" "?d \<noteq> []" "da \<in> set (if_addresses s)" "pgn \<notin> {60416, 60160}"
    using assms(1) p by (auto simp: replayable_def)
  note fields = can_fields_trace [OF ok(1), of ?d]
  have put: "q_put m (if_queue s) = Inr ((if_queue s)\<lparr>q_items := q_items (if_queue s) @ [m]\<rparr>)" for m
    using assms(6) by (simp add: q_put_room)
  obtain a where a1: "is_pgn_active (if_fp s) pgn sa ?d = Inr a"
    using py_get_nat [of 0 ?d] ok(2) by (simp add: is_pgn_active_def)
  with same_active [OF assms(3)] have a: "is_pgn_active (if_fp s) pgn sa ?d = Inr a"
    "is_pgn_active (lc_fp lc) pgn sa ?d = Inr a" by simp_all
  note same = same_process_frame [OF assms(3), of t pgn sa ?d now]
  show ?thesis
  proof (cases "a \<or> fast_packet_check ds pgn = Inr True")
    case True
    obtain h1 r h2 where pf: "process_frame now (if_fp s) pgn sa ?d = (h1, r)" "process_frame t (lc_fp lc) pgn sa ?d = (h2, r)"
      "erase_h h2 = erase_h h1"
      using same by (metis prod.collapse)
    obtain h0 where z: "process_frame 0 (if_fp s) pgn sa ?d = (h0, r)" "erase_h h0 = erase_h h1"
      using same_process_frame [OF refl, of 0 "if_fp s" pgn sa ?d now] pf(1) by (metis prod.collapse fst_conv snd_conv)
    have ls: "a \<or> r = Inr None" "long_starts ds h1 fs"
      using assms(7) p a(1) z True long_starts_erase [OF z(2)] by auto
    have live: "process_receive_msg ds now s f
        = (case reassemble now ?s pgn sa ?d of
             (s2, Inl e) \<Rightarrow> (s2, Inl e)
           | (s2, Inr None) \<Rightarrow> (s2, Inr ())
           | (s2, Inr (Some d)) \<Rightarrow> (push_received (received_msg now pgn prio sa da d) s2, Inr ()))"
      using p ok(3,4) a(1) True
      by (auto simp: process_receive_msg_def Let_def new_n2k_msg_def received_msg_def split: sum.splits option.splits prod.splits)
    have replay: "process_can_frame ds t (can_trace_text (cf_id f) ?d) lc
        = (lc\<lparr>lc_fp := h2\<rparr>,
           if a then (case r of
               Inl e \<Rightarrow> Inl (if e = FastPacketException then IncompleteMessage else e)
             | Inr None \<Rightarrow> Inl IncompleteMessage
             | Inr (Some d) \<Rightarrow> Inr (NavN2k None (received_msg t pgn prio sa da d)))
           else Inl (case r of Inl e \<Rightarrow> e | Inr _ \<Rightarrow> IncompleteMessage))"
      using assms(4,5) q a(2) True fields pf(2)
      by (auto simp: process_can_frame_def Let_def can_id_ints new_n2k_msg_def received_msg_def split: sum.splits option.splits)
    have re: "reassemble now ?s pgn sa ?d = (?s\<lparr>if_fp := h1\<rparr>,
        case r of Inl e \<Rightarrow> (if e = FastPacketException then Inr None else Inl e) | Inr d \<Rightarrow> Inr d)"
      using pf(1) by (simp add: reassemble_def)
    show ?thesis
      using live replay re ls pf(3) assms(2,6) put
      by (cases r; cases a) (auto simp: push_received_def received_msg_def split: option.splits if_splits)
  next
    case False
    show ?thesis
    proof (cases "fast_packet_check ds pgn")
      case (Inl e)
      with False have "process_receive_msg ds now s f = (?s, Inl e)"
        using p ok(3,4) a(1) by (simp add: process_receive_msg_def Let_def)
      with assms(2) show ?thesis by simp
    next
      case (Inr b)
      with False have b: "fast_packet_check ds pgn = Inr False" "\<not> a" by simp_all
      have "process_receive_msg ds now s f = (push_received (received_msg now pgn prio sa da ?d) ?s, Inr ())"
        using p ok(3,4) a(1) b by (simp add: process_receive_msg_def Let_def new_n2k_msg_def received_msg_def)
      moreover have "process_can_frame ds t (can_trace_text (cf_id f) ?d) lc
          = (lc, Inr (NavN2k None (received_msg t pgn prio sa da ?d)))"
        using assms(4,5) q a(2) b fields
        by (simp add: process_can_frame_def Let_def can_id_ints new_n2k_msg_def received_msg_def)
      moreover have "long_starts ds (if_fp s) fs" using assms(7) p a(1) b by simp
      ultimately show ?thesis
        using assms(2,3,6) put by (auto simp: push_received_def received_msg_def)
    qed
  qed
qed

definition replay_at :: "raw_log \<Rightarrow> nat \<Rightarrow> raw_record list \<Rightarrow> bool" where
  "replay_at g i rs \<longleftrightarrow> lg_records g = rs \<and> \<not> lg_lock g \<and> lg_t0 g \<noteq> None
     \<and> (if lg_first_record g then i < length rs \<and> lg_index g = i \<and> lg_previous g = Some (rs ! i) else lg_index g + 1 = i)"

lemma replay_at_next:
  assumes "replay_at g i rs" "i < length rs"
  shows "\<exists>g1 t. read_message now g = Some (g1, Inr (rs ! i, t)) \<and> replay_at g1 (i + 1) rs"
proof -
  obtain t0 where g: "lg_records g = rs" "\<not> lg_lock g" "lg_t0 g = Some t0" using assms(1) by (auto simp: replay_at_def)
  show ?thesis
  proof (cases "lg_first_record g")
    case True
    with assms(1) g show ?thesis by (simp add: replay_at_def read_message_def)
  next
    case False
    then have i: "i = lg_index g + 1" using assms(1) by (simp add: replay_at_def)
    then have "py_get rs (int (lg_index g + 1)) = Inr (rs ! i)" using py_get_nat [OF assms(2)] by simp
    with g i False show ?thesis by (simp add: replay_at_def read_message_def Let_def)
  qed
qed

lemma replay_at_end:
  assumes "replay_at g i rs" "length rs \<le> i"
  shows "\<exists>g1. read_message now g = Some (g1, Inl LogReadError)"
proof -
  have g: "lg_records g = rs" "\<not> lg_lock g" "\<not> lg_first_record g" "lg_index g + 1 = i"
    using assms by (auto simp: replay_at_def split: if_splits)
  have "py_get rs (int (lg_index g + 1)) = Inl IndexError" using assms(2) g(4) by (intro py_get_out) simp
  with g show ?thesis by (simp add: read_message_def Let_def)
qed

lemma replay_at_start: "prepare_read now i g = Inr g1 \<Longrightarrow> \<not> lg_lock g \<Longrightarrow> i < length (lg_records g) \<Longrightarrow>
    replay_at g1 i (lg_records g)"
  by (auto simp: prepare_read_def set_references_def replay_at_def)

definition trace_texts :: "can_frame list \<Rightarrow> raw_message list" where
  "trace_texts fs = map (\<lambda>f. RawText (can_trace_text (cf_id f) (cf_data f))) fs"

definition log_running :: "log_coupler \<Rightarrow> bool" where
  "log_running lc \<longleftrightarrow> lc_white_list lc = None \<and> lc_black_list lc = []
     \<and> (\<exists>ar. lc_reader lc = Some ar \<and> \<not> ar_stop ar \<and> \<not> ar_suspend ar \<and> ar_process ar = ProcessCan)"

lemma replay_run:
  assumes "\<forall>(now, f) \<in> set rx. replayable (if_addresses s) f"
    and "can_nrun ds s (map (\<lambda>(now, f). (now, BusFrame f True False)) rx) = (s', Inr ())"
    and "erase_h (lc_fp lc) = erase_h (if_fp s)" "q_max (if_queue s) = 0" "long_starts ds (if_fp s) (map snd rx)"
    and "log_running lc" "lc_logfile lc = Some g" "lc_queue lc = Some q"
    and "replay_at g i rs" "map rr_message (drop i rs) = trace_texts (map snd rx)" "length nows = length rx + 1"
  shows "\<exists>lc' out ms. log_reader_run ds lc nows = (lc', TurnEnd) \<and> lc_queue lc' = Some (q @ out @ [NavNull])
    \<and> q_items (if_queue s') = q_items (if_queue s) @ ms \<and> map untimed out = map (untimed \<circ> NavN2k None) ms"
  using assms
proof (induction rx arbitrary: s lc g i q nows)
  case Nil
  then obtain now where nows: "nows = [now]" by (cases nows) auto
  have "length rs \<le> i" using Nil.prems(10) by (simp add: trace_texts_def)
  from replay_at_end [OF Nil.prems(9) this, of now] Nil.prems show ?case
    by (auto simp: nows log_reader_turn_def log_running_def lc_put_def Let_def split: option.splits)
next
  case (Cons x rx)
  obtain now0 f where x: "x = (now0, f)" by (cases x)
  obtain now nows1 where nows: "nows = now # nows1" "length nows1 = length rx + 1"
    using Cons.prems(11) by (cases nows) auto
  have i: "i < length rs" using Cons.prems(10) by (auto simp: trace_texts_def intro: ccontr)
  then have dr: "drop i rs = rs ! i # drop (i + 1) rs" by (metis Cons_nth_drop_Suc Suc_eq_plus1)
  then have msg: "rr_message (rs ! i) = RawText (can_trace_text (cf_id f) (cf_data f))"
    "map rr_message (drop (i + 1) rs) = trace_texts (map snd rx)"
    using Cons.prems(10) x by (simp_all add: trace_texts_def)
  obtain g1 t where rd: "read_message now g = Some (g1, Inr (rs ! i, t))" "replay_at g1 (i + 1) rs"
    using replay_at_next [OF Cons.prems(9) i] by blast
  obtain s1 where s1: "process_receive_msg ds now0 s f = (s1, Inr ())"
    "can_nrun ds s1 (map (\<lambda>(now, f). (now, BusFrame f True False)) rx) = (s', Inr ())"
    using Cons.prems(2) x by (auto split: prod.splits sum.splits)
  let ?lc = "lc\<lparr>lc_logfile := Some g1\<rparr>"
  have "replayable (if_addresses s) f" using Cons.prems(1) x by simp
  moreover have "erase_h (lc_fp ?lc) = erase_h (if_fp s)" "lc_white_list ?lc = None" "lc_black_list ?lc = []"
    using Cons.prems(3,6) by (simp_all add: log_running_def)
  moreover have "long_starts ds (if_fp s) (f # map snd rx)" using Cons.prems(5) x by simp
  ultimately obtain lc1 r where st:
      "process_can_frame ds t (can_trace_text (cf_id f) (cf_data f)) ?lc = (lc1, r)"
      "lc1 = ?lc\<lparr>lc_fp := lc_fp lc1\<rparr>" "erase_h (lc_fp lc1) = erase_h (if_fp s1)"
      "q_max (if_queue s1) = 0" "if_addresses s1 = if_addresses s" "long_starts ds (if_fp s1) (map snd rx)"
      "case r of Inl e \<Rightarrow> e = IncompleteMessage \<and> q_items (if_queue s1) = q_items (if_queue s)
        | Inr m \<Rightarrow> \<exists>m'. q_items (if_queue s1) = q_items (if_queue s) @ [m'] \<and> untimed m = untimed (NavN2k None m')"
    using replay_step [OF _ s1(1), of ?lc "map snd rx" t] Cons.prems(4) by blast
  obtain ar where ar: "lc_reader lc = Some ar" "\<not> ar_stop ar" "\<not> ar_suspend ar" "ar_process ar = ProcessCan"
    using Cons.prems(6) by (auto simp: log_running_def)
  have lc1: "lc_reader lc1 = Some ar" "lc_logfile lc1 = Some g1" "lc_queue lc1 = Some q" "log_running lc1"
    using st(2) ar Cons.prems(6,8) by (simp_all add: log_running_def)
      (metis (no_types, lifting) log_coupler.ext_inject log_coupler.surjective log_coupler.update_convs)+
  have adr: "\<forall>(now, f) \<in> set rx. replayable (if_addresses s1) f" using Cons.prems(1) st(5) by auto
  show ?case
  proof (cases r)
    case (Inl e)
    with st(7) have e: "e = IncompleteMessage" "q_items (if_queue s1) = q_items (if_queue s)" by simp_all
    have "log_reader_run ds lc nows = log_reader_run ds lc1 nows1"
      using ar Cons.prems(7) rd(1) msg(1) st(1) Inl e(1) nows(1) by (simp add: log_reader_turn_def log_process_def)
    with Cons.IH [OF adr s1(2) st(3,4,6) lc1(4,2,3) rd(2) msg(2) nows(2)] e(2) show ?thesis by simp
  next
    case (Inr m)
    with st(7) obtain m' where m': "q_items (if_queue s1) = q_items (if_queue s) @ [m']"
      "untimed m = untimed (NavN2k None m')" by auto
    let ?lc2 = "lc_put m lc1"
    have "log_reader_run ds lc nows = log_reader_run ds ?lc2 nows1"
      using ar Cons.prems(7) rd(1) msg(1) st(1) Inr nows(1) by (simp add: log_reader_turn_def log_process_def)
    moreover have "erase_h (lc_fp ?lc2) = erase_h (if_fp s1)" "log_running ?lc2" "lc_logfile ?lc2 = Some g1"
      "lc_queue ?lc2 = Some (q @ [m])"
      using st(3) lc1 by (simp_all add: lc_put_def log_running_def)
    ultimately obtain lc' out ms where "log_reader_run ds lc nows = (lc', TurnEnd)"
      "lc_queue lc' = Some (q @ (m # out) @ [NavNull])" "q_items (if_queue s') = q_items (if_queue s) @ m' # ms"
      "map untimed out = map (untimed \<circ> NavN2k None) ms"
      using Cons.IH [OF adr s1(2) _ st(4,6) _ _ _ rd(2) msg(2) nows(2), of ?lc2 "q @ [m]"] m'(1) by auto
    with m'(2) show ?thesis by (intro exI [of _ lc'] exI [of _ "m # out"] exI [of _ "m' # ms"]) simp
  qed
qed

lemma log_open_traced:
  assumes "\<forall>(n, ts, dir, txt) \<in> set xs. valid_date ts \<and> 62 \<notin> set txt" "traced_in xs \<noteq> []"
    and "new_log_coupler c (Some name) None = Inr lc"
  shows "\<exists>lc1 g. log_open False (\<lambda>n. False) interval now
        (Some (trace_header (text_of ''SocketCANInterface'') # map traced xs)) lc = (lc1, OpenReturned True)
    \<and> log_running lc1 \<and> lc_logfile lc1 = Some g \<and> lc_queue lc1 = Some [] \<and> lc_fp lc1 = new_fp_handler
    \<and> replay_at g 0 (records_of RawCan (traced_in xs))"
proof -
  obtain ts m rest where tr: "traced_in xs = (ts, m) # rest" using assms(2) by (cases "traced_in xs") auto
  obtain g where g: "load_file (\<lambda>n. False) interval (trace_header (text_of ''SocketCANInterface'') # map traced xs) = Inr g"
    "lg_type g = RawCan" "lg_records g = records_of RawCan (traced_in xs)" "\<not> lg_lock g"
    using load_traced [OF sample_can_log_ok(3,4) _ assms(1) tr, of "\<lambda>n. False" interval] tr by auto
  have len: "0 < length (lg_records g)" using g(3) tr by (simp add: records_of_def)
  then obtain g1 where g1: "prepare_read now 0 g = Inr g1"
    using py_get_nat [OF len] by (auto simp: prepare_read_def set_references_def)
  from replay_at_start [OF g1 g(4) len] g g1 assms(3) show ?thesis
    by (auto simp: log_open_def log_open_file_def log_choose_reader_def start_log_read_def new_log_coupler_def
        new_log_reader_def log_running_def Let_def)
qed

section \<open>Properties\<close>


text \<open>A fast packet message that one frame carries (six bytes at most) is queued live and dropped in the replay.\<close>

theorem replay_drops_short_packet:
  assumes "replayable (if_addresses s) f" "parse_arbitration_id (cf_id f) = (pgn, da, sa, prio)"
    and "fast_packet_check ds pgn = Inr True" "if_fp s = lc_fp lc" "q_max (if_queue s) = 0"
    and "is_pgn_active (lc_fp lc) pgn sa (cf_data f) = Inr False" "lc_white_list lc = None" "lc_black_list lc = []"
    and "process_frame t (lc_fp lc) pgn sa (cf_data f) = (h1, Inr (Some d))"
  shows "(\<exists>s1. process_receive_msg ds t s f = (s1, Inr ())
          \<and> q_items (if_queue s1) = q_items (if_queue s) @ [received_msg t pgn prio sa da d])
      \<and> process_can_frame ds t (can_trace_text (cf_id f) (cf_data f)) lc = (lc\<lparr>lc_fp := h1\<rparr>, Inl IncompleteMessage)"
proof -
  have q: "pgn_pdu1_adjust (drop_bit 8 (cf_id f) AND 0x1FFFF) = (pgn, da)" "cf_id f AND 0xFF = sa"
    using assms(2) by (auto simp: parse_arbitration_id_def split: prod.splits)
  have ok: "cf_id f < 0x20000000" "cf_data f \<noteq> []" "da \<in> set (if_addresses s)" "pgn \<notin> {60416, 60160}"
    using assms(1,2) by (auto simp: replayable_def)
  have put: "q_put m (if_queue s) = Inr ((if_queue s)\<lparr>q_items := q_items (if_queue s) @ [m]\<rparr>)" for m
    using assms(5) by (simp add: q_put_room)
  have "process_receive_msg ds t s f
      = (push_received (received_msg t pgn prio sa da d) (s\<lparr>if_total_msg_in := if_total_msg_in s + 1, if_fp := h1\<rparr>), Inr ())"
    using assms(2,3,4,6,9) ok(3,4)
    by (simp add: process_receive_msg_def Let_def reassemble_def new_n2k_msg_def received_msg_def)
  with put can_fields_trace [OF ok(1), of "cf_data f"] q assms(3,6,7,8,9) show ?thesis
    by (simp add: push_received_def process_can_frame_def Let_def can_id_ints)
qed

text \<open>A frame that continues a fast packet whose start is not in the file, as the first frames of a trace do, is
  passed over by the live interface. In the replay it ends the reading thread and leaves the queue as it is,
  without the null message, so that the coupler waits for ever.\<close>

theorem replay_ends_mid_sequence:
  assumes "replayable (if_addresses s) f" "parse_arbitration_id (cf_id f) = (pgn, da, sa, prio)"
    and "fast_packet_check ds pgn = Inr True" "if_fp s = lc_fp lc"
    and "is_pgn_active (lc_fp lc) pgn sa (cf_data f) = Inr False" "frame_counter (cf_data f ! 0) \<noteq> 0"
    and "log_running lc" "lc_logfile lc = Some g" "read_message now g = Some (g1, Inr (r, t))"
    and "rr_message r = RawText (can_trace_text (cf_id f) (cf_data f))" "lc_queue lc = Some []"
  shows "(\<exists>s1. process_receive_msg ds t s f = (s1, Inr ()) \<and> if_queue s1 = if_queue s)
    \<and> (\<exists>lc1. log_reader_turn ds now lc = (lc1, TurnRaised FastPacketException) \<and> log_read lc1 = None)"
proof -
  have q: "pgn_pdu1_adjust (drop_bit 8 (cf_id f) AND 0x1FFFF) = (pgn, da)" "cf_id f AND 0xFF = sa"
    using assms(2) by (auto simp: parse_arbitration_id_def split: prod.splits)
  have ok: "cf_id f < 0x20000000" "cf_data f \<noteq> []" "da \<in> set (if_addresses s)" "pgn \<notin> {60416, 60160}"
    using assms(1,2) by (auto simp: replayable_def)
  have get: "py_get (cf_data f) 0 = Inr (cf_data f ! 0)" using py_get_nat [of 0 "cf_data f"] ok(2) by simp
  with assms(5) have "dict_get (sequences (lc_fp lc)) (compute_key pgn sa (frame_seq (cf_data f ! 0))) = None"
    by (auto simp: is_pgn_active_def Let_def split: option.splits)
  with get assms(6) have pf: "process_frame n (lc_fp lc) pgn sa (cf_data f) = (lc_fp lc, Inl FastPacketException)" for n
    by (simp add: process_frame_def Let_def)
  obtain ar where ar: "lc_reader lc = Some ar" "\<not> ar_stop ar" "\<not> ar_suspend ar" "ar_process ar = ProcessCan"
    "lc_white_list lc = None" "lc_black_list lc = []"
    using assms(7) by (auto simp: log_running_def)
  have "log_reader_turn ds now lc = (lc\<lparr>lc_logfile := Some g1, lc_fp := lc_fp lc\<rparr>, TurnRaised FastPacketException)"
    using ar assms(3,5,8,9,10) can_fields_trace [OF ok(1), of "cf_data f"] q pf
    by (simp add: log_reader_turn_def log_process_def process_can_frame_def Let_def can_id_ints)
  moreover have "process_receive_msg ds t s f
      = (s\<lparr>if_total_msg_in := if_total_msg_in s + 1, if_fp := lc_fp lc\<rparr>, Inr ())"
    using assms(2,3,4,5) pf ok(3,4) by (simp add: process_receive_msg_def Let_def reassemble_def)
  ultimately show ?thesis using assms(11) by (simp add: log_read_def Let_def)
qed

lemma load_file_unlocked: "load_file abort interval lines = Inr g \<Longrightarrow> \<not> lg_lock g"
  by (auto simp: load_file_def bind_r_Inr_iff Let_def split_beta)

text \<open>No ShipModul log can be replayed: the reading thread ends with AttributeError at its first record,
  whatever the protocol of the coupler, and leaves the queue empty, so that the coupler waits for ever.\<close>

theorem shipmodul_replay_fails:
  assumes "load_file abort interval lines = Inr g" "lg_type g = RawShipModul" "new_log_coupler c (Some name) wl = Inr lc"
    and "log_open False abort interval now (Some lines) lc = (lc1, OpenReturned True)" "nows \<noteq> []"
  shows "\<exists>lc'. log_reader_run ds lc1 nows = (lc', TurnRaised AttributeError) \<and> log_read lc' = None"
proof -
  let ?p = "if c_mode (lc_base lc) = ModeNMEA0183 then ProcessNmea0183 else ProcessN2k"
  obtain g1 where g1: "prepare_read now 0 g = Inr g1"
    and lc1: "lc_logfile lc1 = Some g1" "lc_queue lc1 = Some []" "lc_reader lc1 = Some (new_log_reader ?p)"
    using assms(1-4)
    by (auto simp: log_open_def log_open_file_def log_choose_reader_def start_log_read_def new_log_coupler_def Let_def
        split: sum.splits)
  have "\<not> lg_lock g" using assms(1) by (rule load_file_unlocked)
  with g1 obtain r where "read_message n g1 = Some (g1\<lparr>lg_first_record := False\<rparr>, Inr (r, n))" for n
    by (auto simp: prepare_read_def set_references_def bind_r_def read_message_def split: sum.splits)
  with lc1 assms(5) show ?thesis
    by (cases nows)
      (auto simp: log_reader_turn_def new_log_reader_def log_process_def log_process_nmea0183_def log_process_n2k_def
        process_shipmodul_frame_def log_read_def Let_def)
qed

text \<open>A log is replayed once: whatever came of an attempt that found the file, the next one is refused, and the
  coupler ends.\<close>

lemma log_open_once:
  assumes "log_open transparent abort interval now (Some lines) lc = (lc1, res)"
  shows "log_open transparent abort2 interval2 now2 file lc1 = (lc1, OpenIsRefused)"
proof -
  have "lc_opened lc1"
    using assms by (auto simp: log_open_def log_open_file_def start_log_read_def Let_def
        split: if_splits sum.splits open_result.splits option.splits bool.splits)
  then show ?thesis by (simp add: log_open_def log_open_file_def)
qed

section \<open>Witnesses\<close>

text \<open>Frames of PGN 129025, which is no fast packet, and the traces of them.\<close>

definition sample_defs :: "unit pgn_definitions" where
  "sample_defs = new_pgn_definitions"

definition sample_rx :: "(real \<times> can_frame) list" where
  "sample_rx = [(1, \<lparr>cf_id = 0x0CFF0002, cf_data = [1, 2, 3]\<rparr>), (2, \<lparr>cf_id = 0x0CFF0102, cf_data = [4]\<rparr>)]"

definition sample_rx_trace :: "(nat \<times> datetime \<times> trace_direction \<times> ustr) list" where
  "sample_rx_trace =
     [(1, sample_date 10, TraceIn, can_trace_text 0x0CFF0002 [1, 2, 3]),
      (2, sample_date 11, TraceOut, can_trace_text 0x0CFF0003 [9]),
      (3, sample_date 11, TraceIn, can_trace_text 0x0CFF0102 [4])]"

definition sample_coupler :: coupler where
  "sample_coupler =
     \<lparr>c_state = NotReady, c_publishers = [], c_configmode = False, c_total_msg = 0, c_total_msg_raw = 0,
      c_total_msg_s = 0, c_last_msg_count = 0, c_max_attempt = 1, c_attempts = 0, c_direction = ReadOnly,
      c_mode = ModeNMEA2000, c_writer = False, c_stopflag = False, c_suspend = False, c_autostart = True,
      c_has_run = True, c_timer = False, c_reader = None\<rparr>"

definition sample_lc :: log_coupler where
  "sample_lc =
     \<lparr>lc_base = sample_coupler, lc_opened = False, lc_logfile = None, lc_fp = new_fp_handler, lc_queue = None,
      lc_reader = None, lc_white_list = None, lc_black_list = []\<rparr>"

lemma sample_ids:
  "parse_arbitration_id 0x0CFF0002 = (65280, 255, 2, 3)" "parse_arbitration_id 0x0CFF0102 = (65281, 255, 2, 3)"
  "parse_arbitration_id 0x09FF0402 = (130820, 255, 2, 2)"
  by (simp_all add: parse_arbitration_id_def pgn_pdu1_adjust_def pdu_format_of_def)

lemma sample_checks:
  "fast_packet_check sample_defs 65280 = Inr False" "fast_packet_check sample_defs 65281 = Inr False"
  "fast_packet_check sample_defs 130820 = Inr True"
  by (simp_all add: fast_packet_check_def pgn_ranges_def find_range_def)

lemma sample_new: "new_log_coupler sample_coupler (Some ''trace.log'') None = Inr sample_lc"
  by (simp add: new_log_coupler_def sample_lc_def sample_coupler_def)

lemma can_trace_text_plain: "n < 16 ^ 8 \<Longrightarrow> 62 \<notin> set (can_trace_text n d)"
proof -
  have "list_all (\<lambda>d. hex_byte d \<noteq> 62 \<and> hex_lower d \<noteq> 62) [0..<16]" by code_simp
  then have h: "hex_byte d \<noteq> 62" "hex_lower d \<noteq> 62" if "d < 16" for d using that by (auto simp: list_all_iff)
  have u: "unat b = 62 \<longleftrightarrow> b = 62" for b :: byte by (simp add: word_unat_eq_iff)
  assume n: "n < 16 ^ 8"
  have "62 \<notin> set (hex_pad 8 n)" using hex_digits(2) [OF n] h(1) by (auto simp: hex_pad_eq dest: sym)
  moreover have "62 \<notin> set (hex_of d)"
    using h(2) byte_hex_digits(2,3) by (auto simp: hex_of_def byte_hex_def dest: sym)
  ultimately show ?thesis by (auto simp: can_trace_text_def u dest: sym [of 62])
qed

lemma sample_rx_trace_ok:
  "\<forall>(n, ts, dir, txt) \<in> set sample_rx_trace. valid_date ts \<and> 62 \<notin> set txt"
  by (simp add: sample_rx_trace_def sample_dates can_trace_text_plain)


lemma sample_mid_frame:
  "replayable [255] \<lparr>cf_id = 0x09FF0402, cf_data = [0x21, 9, 9]\<rparr>" "frame_counter 0x21 = 1" "frame_seq 0x21 = 1"
  by (simp_all add: replayable_def sample_ids frame_counter_def frame_seq_def)

theorem replay_ends_mid_sequence_witness:
  "\<exists>lc g. lc_logfile lc = Some g \<and> lc_queue lc = Some []
    \<and> (\<exists>lc1. log_reader_turn sample_defs 7 lc = (lc1, TurnRaised FastPacketException) \<and> log_read lc1 = None)"
proof -
  let ?f = "\<lparr>cf_id = 0x09FF0402, cf_data = [0x21, 9, 9]\<rparr>"
  let ?r = "\<lparr>rr_timestamp = sample_date 10, rr_message = RawText (can_trace_text (cf_id ?f) (cf_data ?f))\<rparr>"
  let ?g = "sample_read_log\<lparr>lg_records := [?r], lg_first_record := True, lg_previous := Some ?r\<rparr>"
  let ?lc = "sample_lc\<lparr>lc_logfile := Some ?g, lc_queue := Some [], lc_reader := Some (new_log_reader ProcessCan)\<rparr>"
  have "read_message 7 ?g = Some (?g\<lparr>lg_first_record := False\<rparr>, Inr (?r, 7))"
    by (simp add: read_message_def sample_read_log_def)
  from replay_ends_mid_sequence [OF _ _ sample_checks(3) _ _ _ _ _ this, of "new_can_if (new_queue 0)" ?f 255 2 2 ?lc]
  have "\<exists>lc1. log_reader_turn sample_defs 7 ?lc = (lc1, TurnRaised FastPacketException) \<and> log_read lc1 = None"
    by (simp add: sample_mid_frame sample_ids new_can_if_def sample_lc_def is_pgn_active_def Let_def py_get_def py_pos_def
        new_fp_handler_def log_running_def new_log_reader_def)
  then show ?thesis by (intro exI [of _ ?lc] exI [of _ ?g]) simp
qed

theorem shipmodul_replay_fails_witness:
  "\<exists>lc1 lc'. log_open False (\<lambda>n. False) 300 50
        (Some (trace_header (text_of ''ShipModulInterface'') # map traced sample_rx_trace)) sample_lc = (lc1, OpenReturned True)
    \<and> log_reader_run sample_defs lc1 [60] = (lc', TurnRaised AttributeError) \<and> log_read lc' = None"
proof -
  let ?file = "trace_header (text_of ''ShipModulInterface'') # map traced sample_rx_trace"
  have tt: "raw_type_of (text_of ''ShipModulInterface'') = Inr RawShipModul" "124 \<notin> set (text_of ''ShipModulInterface'')"
    by (simp_all add: raw_type_of_def text_of_def)
  have tr: "traced_in sample_rx_trace = (sample_date 10, can_trace_text 0x0CFF0002 [1, 2, 3])
      # [(sample_date 11, can_trace_text 0x0CFF0102 [4])]"
    by (simp add: traced_in_def sample_rx_trace_def)
  obtain g where g: "load_file (\<lambda>n. False) 300 ?file = Inr g" "lg_type g = RawShipModul" "lg_records g \<noteq> []"
    using load_traced [OF tt _ sample_rx_trace_ok tr, of "\<lambda>n. False" 300] by (auto simp: records_of_def)
  have "\<exists>lc1. log_open False (\<lambda>n. False) 300 50 (Some ?file) sample_lc = (lc1, OpenReturned True)"
    using g py_get_nat [of 0 "lg_records g"]
    by (simp add: log_open_def log_open_file_def log_choose_reader_def start_log_read_def sample_lc_def sample_coupler_def
        Let_def prepare_read_def set_references_def)
  then obtain lc1 where lc1: "log_open False (\<lambda>n. False) 300 50 (Some ?file) sample_lc = (lc1, OpenReturned True)" ..
  from shipmodul_replay_fails [OF g(1,2) sample_new lc1, of "[60]"] lc1 show ?thesis by blast
qed

end
