(* ===== verification/Engine.thy ===== *)
theory Engine
  imports RawLog "HOL-Library.Product_Lexorder"
begin

text \<open>
  \<^verbatim>\<open>navigation_data/engine_service.py\<close>: the state of each engine (\<^verbatim>\<open>EngineData\<close>), its day of events and the files
  in which both survive a restart, and the service that keeps the engines (\<^verbatim>\<open>EngineDataService\<close>). An operation
  reads the calendar clock once (\<open>now\<close>) and the clock of \<^verbatim>\<open>time.time\<close> (\<open>t\<close>); the file system is a map from the
  two kinds of files to JSON objects, which the \<^verbatim>\<open>json\<close> module of the standard library writes and reads back.
  I/O errors other than a missing file are not modelled.
\<close>

section \<open>Dates in ISO form\<close>

type_synonym day = "nat \<times> nat \<times> nat"

definition day_of :: "datetime \<Rightarrow> day" where
  "day_of d = (dt_year d, dt_month d, dt_day d)"

text \<open>\<^verbatim>\<open>isoformat\<close> leaves the microseconds out when they are 0.\<close>

definition isoformat :: "datetime \<Rightarrow> ustr" where
  "isoformat d =
     dec_pad 4 (dt_year d) @ [45] @ dec_pad 2 (dt_month d) @ [45] @ dec_pad 2 (dt_day d) @ [84]
       @ dec_pad 2 (dt_hour d) @ [58] @ dec_pad 2 (dt_minute d) @ [58] @ dec_pad 2 (dt_second d)
       @ (if dt_micro d = 0 then [] else 46 # dec_pad 6 (dt_micro d))"

text \<open>\<^verbatim>\<open>fromisoformat\<close> on texts of the two lengths that \<^verbatim>\<open>isoformat\<close> gives.\<close>

definition fromisoformat :: "ustr \<Rightarrow> datetime result" where
  "fromisoformat s =
     (if length s \<noteq> 19 \<and> length s \<noteq> 26 then Inl NotModelled
      else if s ! 4 \<noteq> 45 \<or> s ! 7 \<noteq> 45 \<or> s ! 13 \<noteq> 58 \<or> s ! 16 \<noteq> 58 \<or> (length s = 26 \<and> s ! 19 \<noteq> 46) then Inl ValueError
      else case do {
             y \<leftarrow> num_field 4 4 1 9999 (take 4 s);
             mo \<leftarrow> num_field 2 2 1 12 (take 2 (drop 5 s));
             d \<leftarrow> num_field 2 2 1 31 (take 2 (drop 8 s));
             h \<leftarrow> num_field 2 2 0 23 (take 2 (drop 11 s));
             mi \<leftarrow> num_field 2 2 0 59 (take 2 (drop 14 s));
             sec \<leftarrow> num_field 2 2 0 59 (take 2 (drop 17 s));
             f \<leftarrow> (if length s = 26 then num_field 6 6 0 999999 (drop 20 s) else Some 0);
             (if d \<le> days_in_month y mo
              then Some \<lparr>dt_year = y, dt_month = mo, dt_day = d, dt_hour = h, dt_minute = mi, dt_second = sec, dt_micro = f\<rparr>
              else None)
           } of
             None \<Rightarrow> Inl ValueError
           | Some d \<Rightarrow> Inr d)"

section \<open>JSON objects and files\<close>

datatype json = JNull | JInt int | JReal real | JText ustr

type_synonym json_object = "(string, json) dict"

definition json_get :: "json_object \<Rightarrow> string \<Rightarrow> json result" where
  "json_get ob key = (case dict_get ob key of None \<Rightarrow> Inl KeyError | Some v \<Rightarrow> Inr v)"

text \<open>Typed reads of what the program wrote; a value of another kind, which the program would keep as it is, is
  not modelled.\<close>

definition json_real :: "json_object \<Rightarrow> string \<Rightarrow> real result" where
  "json_real ob key = bind_r (json_get ob key) (\<lambda>v. case v of JReal r \<Rightarrow> Inr r | JInt i \<Rightarrow> Inr (of_int i) | _ \<Rightarrow> Inl NotModelled)"

definition json_datetime :: "json_object \<Rightarrow> string \<Rightarrow> datetime result" where
  "json_datetime ob key = bind_r (json_get ob key) (\<lambda>v. case v of JText s \<Rightarrow> fromisoformat s | _ \<Rightarrow> Inl TypeError)"

definition json_datetime_opt :: "json_object \<Rightarrow> string \<Rightarrow> datetime option result" where
  "json_datetime_opt ob key =
     bind_r (json_get ob key) (\<lambda>v. case v of JNull \<Rightarrow> Inr None | JText s \<Rightarrow> map_sum id Some (fromisoformat s) | _ \<Rightarrow> Inl TypeError)"

text \<open>The files of an engine, named after its number and, for the events, the day.\<close>

datatype engine_path = StatusFile nat | EventFile nat day
datatype engine_file = StatusText json_object | EventLines "json_object list"

type_synonym engine_fs = "engine_path \<Rightarrow> engine_file option"

section \<open>Engine states\<close>

text \<open>\<^verbatim>\<open>(OFF, ON, RUNNING) = range(0, 3)\<close>, ordered by their numbers.\<close>

datatype engine_state = EngineOff | EngineOn | EngineRunning

fun state_code :: "engine_state \<Rightarrow> int" where
  "state_code EngineOff = 0"
| "state_code EngineOn = 1"
| "state_code EngineRunning = 2"

lemma state_code_inject: "state_code s = state_code s' \<longleftrightarrow> s = s'"
  by (cases s; cases s') simp_all

instantiation engine_state :: linorder
begin

definition less_eq_engine_state :: "engine_state \<Rightarrow> engine_state \<Rightarrow> bool" where
  "less_eq_engine_state s s' \<longleftrightarrow> state_code s \<le> state_code s'"

definition less_engine_state :: "engine_state \<Rightarrow> engine_state \<Rightarrow> bool" where
  "less_engine_state s s' \<longleftrightarrow> state_code s < state_code s'"

instance
  by standard (auto simp: less_eq_engine_state_def less_engine_state_def state_code_inject)

end

definition state_of :: "json \<Rightarrow> engine_state result" where
  "state_of v =
     (case v of
        JInt i \<Rightarrow> if i = 0 then Inr EngineOff else if i = 1 then Inr EngineOn else if i = 2 then Inr EngineRunning
                 else Inl NotModelled
      | _ \<Rightarrow> Inl NotModelled)"

lemma state_of_code [simp]: "state_of (JInt (state_code s)) = Inr s"
  by (cases s) (simp_all add: state_of_def)

section \<open>Events\<close>

record engine_event =
  ev_ts :: datetime
  ev_total_hours :: real
  ev_previous :: engine_state
  ev_current :: engine_state

definition event_as_dict :: "engine_event \<Rightarrow> json_object" where
  "event_as_dict e =
     [(''ts'', JText (isoformat (ev_ts e))), (''total_hours'', JReal (ev_total_hours e)),
      (''current_state'', JInt (state_code (ev_current e))), (''previous_state'', JInt (state_code (ev_previous e)))]"

definition event_of_dict :: "json_object \<Rightarrow> engine_event result" where
  "event_of_dict ob =
     bind_r (json_real ob ''total_hours'') (\<lambda>h.
     bind_r (bind_r (json_get ob ''previous_state'') state_of) (\<lambda>p.
     bind_r (bind_r (json_get ob ''current_state'') state_of) (\<lambda>c.
     bind_r (json_datetime ob ''ts'') (\<lambda>ts.
       Inr \<lparr>ev_ts = ts, ev_total_hours = h, ev_previous = p, ev_current = c\<rparr>))))"

record event_pb =
  evp_engine_id :: nat
  evp_timestamp :: ustr
  evp_total_hours :: real
  evp_current :: engine_state
  evp_previous :: engine_state

definition event_as_protobuf :: "nat \<Rightarrow> engine_event \<Rightarrow> event_pb" where
  "event_as_protobuf engine_id e =
     \<lparr>evp_engine_id = engine_id, evp_timestamp = isoformat (ev_ts e), evp_total_hours = ev_total_hours e,
      evp_current = ev_current e, evp_previous = ev_previous e\<rparr>"

section \<open>One engine\<close>

record engine =
  en_id :: nat
  en_date :: day
  en_state :: engine_state
  en_speed :: real
  en_first_on :: datetime
  en_last_message :: real
  en_temperature :: real
  en_total_hours :: real
  en_voltage :: real
  en_start :: "datetime option"
  en_stop :: "datetime option"
  en_events :: "engine_event list"

text \<open>\<^verbatim>\<open>check_date\<close>: the date names the file of the events.\<close>

definition check_date :: "datetime \<Rightarrow> engine \<Rightarrow> engine" where
  "check_date now e = (if day_of now \<noteq> en_date e then e\<lparr>en_date := day_of now\<rparr> else e)"

definition new_engine :: "datetime \<Rightarrow> real \<Rightarrow> nat \<Rightarrow> engine" where
  "new_engine now t engine_id =
     \<lparr>en_id = engine_id, en_date = day_of now, en_state = EngineOff, en_speed = 0, en_first_on = now,
      en_last_message = t, en_temperature = 0, en_total_hours = 0, en_voltage = 0, en_start = None, en_stop = None,
      en_events = []\<rparr>"

definition json_date :: "datetime option \<Rightarrow> json" where
  "json_date d = (case d of None \<Rightarrow> JNull | Some x \<Rightarrow> JText (isoformat x))"

definition engine_as_dict :: "datetime \<Rightarrow> engine \<Rightarrow> json_object" where
  "engine_as_dict now e =
     [(''last_save'', JText (isoformat now)), (''state'', JInt (state_code (en_state e))),
      (''first_on'', json_date (Some (en_first_on e))), (''last_message'', JReal (en_last_message e)),
      (''speed'', JReal (en_speed e)), (''total_hours'', JReal (en_total_hours e)),
      (''temperature'', JReal (en_temperature e)), (''alternator_voltage'', JReal (en_voltage e)),
      (''start_time'', json_date (en_start e)), (''stop_time'', json_date (en_stop e))]"

definition save_status :: "datetime \<Rightarrow> engine \<times> engine_fs \<Rightarrow> engine \<times> engine_fs" where
  "save_status now s = (case s of (e, fs) \<Rightarrow> (e, fs(StatusFile (en_id e) \<mapsto> StatusText (engine_as_dict now e))))"

text \<open>A line added at the end of a file of events, which is made if need be.\<close>

definition append_event :: "engine_path \<Rightarrow> json_object \<Rightarrow> engine_fs \<Rightarrow> engine_fs" where
  "append_event p line fs = fs(p \<mapsto> EventLines (case fs p of Some (EventLines ls) \<Rightarrow> ls @ [line] | _ \<Rightarrow> [line]))"

definition add_event :: "datetime \<Rightarrow> engine_state \<Rightarrow> engine \<times> engine_fs \<Rightarrow> engine \<times> engine_fs" where
  "add_event now current_state s =
     (case s of (e, fs) \<Rightarrow>
        let event = \<lparr>ev_ts = now, ev_total_hours = en_total_hours e, ev_previous = en_state e, ev_current = current_state\<rparr>;
            e1 = check_date now (e\<lparr>en_events := en_events e @ [event]\<rparr>);
            fs1 = append_event (EventFile (en_id e1) (en_date e1)) (event_as_dict event) fs
        in save_status now (e1\<lparr>en_state := current_state\<rparr>, fs1))"

definition update_speed :: "datetime \<Rightarrow> real \<Rightarrow> engine \<times> engine_fs \<Rightarrow> engine \<times> engine_fs" where
  "update_speed now speed s =
     (let (e1, fs1) =
        (if 0 < speed then
           (if en_state (fst s) \<noteq> EngineRunning
            then let (e1, fs1) = add_event now EngineRunning s in (e1\<lparr>en_start := Some now\<rparr>, fs1)
            else s)
         else if speed = 0 then
           (if en_state (fst s) = EngineRunning then add_event now EngineOn ((fst s)\<lparr>en_stop := Some now\<rparr>, snd s)
            else if en_state (fst s) = EngineOff then add_event now EngineOn s
            else s)
         else s)
      in (e1\<lparr>en_speed := speed\<rparr>, fs1))"

definition new_message :: "real \<Rightarrow> engine \<times> engine_fs \<Rightarrow> engine \<times> engine_fs" where
  "new_message t s = (case s of (e, fs) \<Rightarrow> (e\<lparr>en_last_message := t\<rparr>, fs))"

text \<open>The fields of PGN 127489 that the engine keeps.\<close>

record engine_params =
  ep_temperature :: real
  ep_voltage :: real
  ep_total_hours :: real

definition update_data :: "datetime \<Rightarrow> engine_params \<Rightarrow> engine \<times> engine_fs \<Rightarrow> engine \<times> engine_fs" where
  "update_data now msg s =
     (let (e1, fs1) =
        (if en_state (fst s) = EngineOff
         then let (e1, fs1) = add_event now EngineOn s in (e1\<lparr>en_state := EngineOn\<rparr>, fs1)
         else s)
      in (e1\<lparr>en_temperature := ep_temperature msg, en_voltage := ep_voltage msg, en_total_hours := ep_total_hours msg\<rparr>, fs1))"

definition check_off :: "datetime \<Rightarrow> real \<Rightarrow> engine \<times> engine_fs \<Rightarrow> (engine \<times> engine_fs) \<times> bool" where
  "check_off now t s =
     (if en_state (fst s) = EngineOff then (s, True)
      else if 30 < t - en_last_message (fst s) then
        let e = (if en_state (fst s) = EngineRunning then (fst s)\<lparr>en_stop := Some now\<rparr> else fst s);
            (e1, fs1) = add_event now EngineOff (e, snd s)
        in ((e1\<lparr>en_state := EngineOff, en_speed := 0, en_temperature := 0\<rparr>, fs1), True)
      else (s, False))"

record engine_data_pb =
  edp_engine_id :: nat
  edp_state :: engine_state
  edp_total_hours :: real
  edp_speed :: real
  edp_temperature :: real
  edp_voltage :: real
  edp_last_start :: "ustr option"
  edp_last_stop :: "ustr option"

definition get_data :: "engine \<Rightarrow> engine_data_pb" where
  "get_data e =
     \<lparr>edp_engine_id = en_id e, edp_state = en_state e, edp_total_hours = en_total_hours e, edp_speed = en_speed e,
      edp_temperature = en_temperature e, edp_voltage = en_voltage e,
      edp_last_start = map_option isoformat (en_start e), edp_last_stop = map_option isoformat (en_stop e)\<rparr>"

definition get_events_pb :: "engine \<Rightarrow> event_pb list" where
  "get_events_pb e = map (event_as_protobuf (en_id e)) (en_events e)"

section \<open>Reading an engine back\<close>

fun read_events :: "json_object list \<Rightarrow> engine_event list result" where
  "read_events [] = Inr []"
| "read_events (l # ls) = bind_r (event_of_dict l) (\<lambda>e. map_sum id (\<lambda>es. e # es) (read_events ls))"

definition load_engine :: "datetime \<Rightarrow> nat \<Rightarrow> engine_fs \<Rightarrow> engine result" where
  "load_engine now engine_id fs =
     (case fs (StatusFile engine_id) of
        Some (StatusText ob) \<Rightarrow>
          bind_r (json_datetime ob ''last_save'') (\<lambda>last_save.
          bind_r (bind_r (json_get ob ''state'') state_of) (\<lambda>st.
          bind_r (json_real ob ''speed'') (\<lambda>speed.
          bind_r (json_datetime ob ''first_on'') (\<lambda>first_on.
          bind_r (if day_of last_save = day_of now
                  then bind_r (json_real ob ''last_message'') (\<lambda>m.
                       bind_r (json_real ob ''temperature'') (\<lambda>temp.
                       bind_r (json_real ob ''alternator_voltage'') (\<lambda>v. Inr (m, temp, v))))
                  else Inr (0, 0, 0)) (\<lambda>(m, temp, v).
          bind_r (json_real ob ''total_hours'') (\<lambda>hours.
          bind_r (json_datetime_opt ob ''start_time'') (\<lambda>start.
          bind_r (json_datetime_opt ob ''stop_time'') (\<lambda>stop.
          bind_r (case fs (EventFile engine_id (day_of now)) of
                    None \<Rightarrow> Inr []
                  | Some (EventLines ls) \<Rightarrow> read_events ls
                  | Some _ \<Rightarrow> Inl NotModelled) (\<lambda>evs.
            Inr \<lparr>en_id = engine_id, en_date = day_of now, en_state = st, en_speed = speed, en_first_on = first_on,
                 en_last_message = m, en_temperature = temp, en_total_hours = hours, en_voltage = v,
                 en_start = start, en_stop = stop, en_events = evs\<rparr>)))))))))
      | Some _ \<Rightarrow> Inl NotModelled
      | None \<Rightarrow> Inl OSError)"

section \<open>The service\<close>

record engine_service =
  es_engines :: "(nat, engine) dict"
  es_fs :: engine_fs

text \<open>The constructor, on the numbers of the directories found: an engine whose files cannot be read is left out
  when the error is an I/O error; any other ends the construction.\<close>

fun start_engines :: "datetime \<Rightarrow> nat list \<Rightarrow> engine_service \<Rightarrow> engine_service result" where
  "start_engines now [] s = Inr s"
| "start_engines now (i # ids) s =
     (case load_engine now i (es_fs s) of
        Inr e \<Rightarrow> start_engines now ids (s\<lparr>es_engines := dict_set i e (es_engines s)\<rparr>)
      | Inl err \<Rightarrow> if err = OSError then start_engines now ids s else Inl err)"

definition start_service :: "datetime \<Rightarrow> nat list \<Rightarrow> engine_fs \<Rightarrow> engine_service result" where
  "start_service now ids fs = start_engines now ids \<lparr>es_engines = [], es_fs = fs\<rparr>"

definition get_engine :: "datetime \<Rightarrow> real \<Rightarrow> nat \<Rightarrow> engine_service \<Rightarrow> engine_service \<times> engine" where
  "get_engine now t engine_id s =
     (case dict_get (es_engines s) engine_id of
        Some e \<Rightarrow> (s, e)
      | None \<Rightarrow>
          let e = new_engine now t engine_id in (s\<lparr>es_engines := dict_set engine_id e (es_engines s)\<rparr>, e))"

text \<open>An operation on an engine of the service, which shares the object and the files.\<close>

definition on_engine :: "nat \<Rightarrow> (engine \<times> engine_fs \<Rightarrow> engine \<times> engine_fs) \<Rightarrow> engine \<Rightarrow> engine_service \<Rightarrow> engine_service" where
  "on_engine i f e s =
     (let (e1, fs1) = f (e, es_fs s) in s\<lparr>es_engines := dict_set i e1 (es_engines s), es_fs := fs1\<rparr>)"

definition p127488 :: "datetime \<Rightarrow> real \<Rightarrow> nat \<Rightarrow> real \<Rightarrow> engine_service \<Rightarrow> engine_service" where
  "p127488 now t instance speed s =
     (let (s1, e) = get_engine now t instance s
      in on_engine instance (update_speed now speed \<circ> new_message t) e s1)"

definition p127489 :: "datetime \<Rightarrow> real \<Rightarrow> nat \<Rightarrow> engine_params \<Rightarrow> engine_service \<Rightarrow> engine_service" where
  "p127489 now t instance msg s =
     (let (s1, e) = get_engine now t instance s
      in on_engine instance (update_data now msg \<circ> new_message t) e s1)"

text \<open>The timer: every engine in turn, and how many are not off.\<close>

fun check_engines :: "datetime \<Rightarrow> real \<Rightarrow> nat list \<Rightarrow> engine_service \<Rightarrow> engine_service \<times> nat" where
  "check_engines now t [] s = (s, length (es_engines s))"
| "check_engines now t (i # ids) s =
     (case dict_get (es_engines s) i of
        None \<Rightarrow> check_engines now t ids s
      | Some e \<Rightarrow>
          let ((e1, fs1), off) = check_off now t (save_status now (e, es_fs s));
              (s2, nb) = check_engines now t ids (s\<lparr>es_engines := dict_set i e1 (es_engines s), es_fs := fs1\<rparr>)
          in (s2, if off then nb - 1 else nb))"

definition check_off_engines :: "datetime \<Rightarrow> real \<Rightarrow> engine_service \<Rightarrow> engine_service \<times> nat" where
  "check_off_engines now t s = check_engines now t (dict_keys (es_engines s)) s"

text \<open>The requests: \<open>None\<close> is the answer \<^verbatim>\<open>NO_ENGINE\<close>.\<close>

definition get_engine_data :: "nat \<Rightarrow> engine_service \<Rightarrow> engine_data_pb option" where
  "get_engine_data i s = map_option get_data (dict_get (es_engines s) i)"

definition get_engine_events :: "nat \<Rightarrow> engine_service \<Rightarrow> event_pb list option" where
  "get_engine_events i s = map_option get_events_pb (dict_get (es_engines s) i)"

section \<open>Lemmas on the files\<close>

lemma fromisoformat_isoformat:
  assumes "valid_date d"
  shows "fromisoformat (isoformat d) = Inr d"
proof -
  have v: "dt_year d < 10 ^ 4" "dt_month d < 10 ^ 2" "dt_day d < 10 ^ 2" "dt_hour d < 10 ^ 2" "dt_minute d < 10 ^ 2"
    "dt_second d < 10 ^ 2" "dt_micro d < 10 ^ 6"
    using assms days_in_month_le [of "dt_year d" "dt_month d"] by (auto simp: valid_date_def)
  have len: "length (dec_pad 4 (dt_year d)) = 4" "length (dec_pad 2 (dt_month d)) = 2" "length (dec_pad 2 (dt_day d)) = 2"
    "length (dec_pad 2 (dt_hour d)) = 2" "length (dec_pad 2 (dt_minute d)) = 2" "length (dec_pad 2 (dt_second d)) = 2"
    "length (dec_pad 6 (dt_micro d)) = 6"
    using v by (simp_all add: dec_pad_digits(1))
  have nums: "num_field 4 4 1 9999 (dec_pad 4 (dt_year d)) = Some (dt_year d)"
    "num_field 2 2 1 12 (dec_pad 2 (dt_month d)) = Some (dt_month d)"
    "num_field 2 2 1 31 (dec_pad 2 (dt_day d)) = Some (dt_day d)"
    "num_field 2 2 0 23 (dec_pad 2 (dt_hour d)) = Some (dt_hour d)"
    "num_field 2 2 0 59 (dec_pad 2 (dt_minute d)) = Some (dt_minute d)"
    "num_field 2 2 0 59 (dec_pad 2 (dt_second d)) = Some (dt_second d)"
    "num_field 6 6 0 999999 (dec_pad 6 (dt_micro d)) = Some (dt_micro d)"
    using v assms days_in_month_le [of "dt_year d" "dt_month d"]
    by (auto intro!: num_field_pad simp: valid_date_def)
  show ?thesis
    using assms
    by (simp add: fromisoformat_def isoformat_def len nth_append nums nums [unfolded One_nat_def] valid_date_def drop_Cons')
qed

lemma json_simps [simp]:
  "json_real ob k = (case dict_get ob k of None \<Rightarrow> Inl KeyError | Some (JReal r) \<Rightarrow> Inr r | Some (JInt i) \<Rightarrow> Inr (of_int i)
     | Some _ \<Rightarrow> Inl NotModelled)"
  "json_datetime ob k = (case dict_get ob k of None \<Rightarrow> Inl KeyError | Some (JText s) \<Rightarrow> fromisoformat s | Some _ \<Rightarrow> Inl TypeError)"
  by (simp_all add: json_real_def json_datetime_def json_get_def split: option.splits json.splits)

lemma json_datetime_opt_saved:
  "dict_get ob k = Some (json_date d) \<Longrightarrow> (\<forall>x. d = Some x \<longrightarrow> valid_date x) \<Longrightarrow> json_datetime_opt ob k = Inr d"
  by (cases d) (simp_all add: json_datetime_opt_def json_get_def json_date_def fromisoformat_isoformat)

lemma event_roundtrip: "valid_date (ev_ts e) \<Longrightarrow> event_of_dict (event_as_dict e) = Inr e"
  by (simp add: event_of_dict_def event_as_dict_def json_get_def fromisoformat_isoformat)

lemma read_events_written:
  "\<forall>e \<in> set es. valid_date (ev_ts e) \<Longrightarrow> read_events (map event_as_dict es) = Inr es"
  by (induction es) (simp_all add: event_roundtrip)

definition dates_ok :: "engine \<Rightarrow> bool" where
  "dates_ok e \<longleftrightarrow> valid_date (en_first_on e) \<and> (\<forall>d. en_start e = Some d \<longrightarrow> valid_date d)
     \<and> (\<forall>d. en_stop e = Some d \<longrightarrow> valid_date d)"

text \<open>What comes back of a saved engine: all of it on the same day, without the last measures on another.\<close>

definition restored :: "datetime \<Rightarrow> datetime \<Rightarrow> engine_event list \<Rightarrow> engine \<Rightarrow> engine" where
  "restored saved now evs e =
     (let e1 = (if day_of saved = day_of now then e
                else e\<lparr>en_last_message := 0, en_temperature := 0, en_voltage := 0\<rparr>)
      in e1\<lparr>en_date := day_of now, en_events := evs\<rparr>)"

lemma load_saved:
  assumes "fs (StatusFile i) = Some (StatusText (engine_as_dict saved e))" "valid_date saved" "dates_ok e" "en_id e = i"
    and "fs (EventFile i (day_of now)) = (if evs = [] then None else Some (EventLines (map event_as_dict evs)))"
    and "\<forall>ev \<in> set evs. valid_date (ev_ts ev)"
  shows "load_engine now i fs = Inr (restored saved now evs e)"
proof -
  let ?ob = "engine_as_dict saved e"
  have ob: "dict_get ?ob ''last_save'' = Some (JText (isoformat saved))" "dict_get ?ob ''state'' = Some (JInt (state_code (en_state e)))"
    "dict_get ?ob ''first_on'' = Some (JText (isoformat (en_first_on e)))" "dict_get ?ob ''last_message'' = Some (JReal (en_last_message e))"
    "dict_get ?ob ''speed'' = Some (JReal (en_speed e))" "dict_get ?ob ''total_hours'' = Some (JReal (en_total_hours e))"
    "dict_get ?ob ''temperature'' = Some (JReal (en_temperature e))" "dict_get ?ob ''alternator_voltage'' = Some (JReal (en_voltage e))"
    "dict_get ?ob ''start_time'' = Some (json_date (en_start e))" "dict_get ?ob ''stop_time'' = Some (json_date (en_stop e))"
    by (simp_all add: engine_as_dict_def json_date_def)
  have d: "json_datetime_opt ?ob ''start_time'' = Inr (en_start e)" "json_datetime_opt ?ob ''stop_time'' = Inr (en_stop e)"
    using assms(3) by (auto intro!: json_datetime_opt_saved ob simp: dates_ok_def)
  have evs: "(case fs (EventFile i (day_of now)) of None \<Rightarrow> Inr [] | Some (EventLines ls) \<Rightarrow> read_events ls | Some _ \<Rightarrow> Inl NotModelled)
      = Inr evs"
    using assms(5,6) by (simp add: read_events_written)
  show ?thesis
    using assms(2,3,4)
    by (simp add: load_engine_def assms(1) ob d evs json_get_def fromisoformat_isoformat dates_ok_def restored_def Let_def)
qed

section \<open>The history of an engine\<close>

text \<open>The events of an engine since its files were made: each starts from the state where the one before ended, the
  first from the state off, and none leads from a state to itself.\<close>

definition end_state :: "engine_event list \<Rightarrow> engine_state" where
  "end_state h = (if h = [] then EngineOff else ev_current (last h))"

inductive event_chain :: "engine_event list \<Rightarrow> bool" where
  chain_nil: "event_chain []"
| chain_snoc: "event_chain h \<Longrightarrow> ev_previous ev = end_state h \<Longrightarrow> ev_current ev \<noteq> ev_previous ev \<Longrightarrow> event_chain (h @ [ev])"

inductive_simps event_chain_snoc_iff: "event_chain (h @ [ev])"

definition on_day :: "day \<Rightarrow> engine_event list \<Rightarrow> engine_event list" where
  "on_day d h = filter (\<lambda>ev. day_of (ev_ts ev) = d) h"

text \<open>The files of the engine \<open>i\<close> hold the history \<open>h\<close>, which ends on the day \<open>today\<close> at the latest: the file of a day has
  the events of that day, and the last status saved is in the state the history ends with.\<close>

definition files_hold :: "day \<Rightarrow> nat \<Rightarrow> engine_fs \<Rightarrow> engine_event list \<Rightarrow> bool" where
  "files_hold today i fs h \<longleftrightarrow> event_chain h \<and> sorted (map (day_of \<circ> ev_ts) h)
     \<and> (\<forall>ev \<in> set h. valid_date (ev_ts ev) \<and> day_of (ev_ts ev) \<le> today)
     \<and> (\<forall>d. fs (EventFile i d) =
          (if on_day d h = [] then None else Some (EventLines (map event_as_dict (on_day d h)))))
     \<and> (case fs (StatusFile i) of
          None \<Rightarrow> h = []
        | Some f \<Rightarrow> \<exists>saved e. f = StatusText (engine_as_dict saved e) \<and> valid_date saved \<and> dates_ok e \<and> en_id e = i
                     \<and> en_state e = end_state h)"

text \<open>The engine as it stands in the program: its list of events lacks at most those of the days before today.\<close>

definition engine_holds :: "day \<Rightarrow> nat \<Rightarrow> engine \<Rightarrow> engine_event list \<Rightarrow> bool" where
  "engine_holds today i e h \<longleftrightarrow> en_id e = i \<and> dates_ok e \<and> en_state e = end_state h
     \<and> (\<exists>old. h = old @ en_events e \<and> (\<forall>ev \<in> set old. day_of (ev_ts ev) < today))"

definition engine_inv :: "day \<Rightarrow> nat \<Rightarrow> engine \<times> engine_fs \<Rightarrow> engine_event list \<Rightarrow> bool" where
  "engine_inv today i s h \<longleftrightarrow> files_hold today i (snd s) h \<and> engine_holds today i (fst s) h"

lemma engine_invI: "files_hold today i fs h \<Longrightarrow> engine_holds today i e h \<Longrightarrow> engine_inv today i (e, fs) h"
  by (simp add: engine_inv_def)

lemma engine_holds_later: "engine_holds today i e h \<Longrightarrow> today \<le> later \<Longrightarrow> engine_holds later i e h"
  by (fastforce simp: engine_holds_def)

lemma files_hold_later: "files_hold today i fs h \<Longrightarrow> today \<le> later \<Longrightarrow> files_hold later i fs h"
  by (auto simp: files_hold_def intro: order_trans)

lemma save_status_inv:
  assumes "engine_inv today i s h" "valid_date now"
  shows "engine_inv today i (save_status now s) h"
  using assms by (cases s) (auto simp: engine_inv_def save_status_def files_hold_def engine_holds_def)

lemma add_event_inv:
  assumes "engine_inv today i s h" "valid_date now" "today \<le> day_of now" "st \<noteq> en_state (fst s)"
  shows "\<exists>ev. engine_inv (day_of now) i (add_event now st s) (h @ [ev]) \<and> ev_current ev = st \<and> ev_ts ev = now
    \<and> fst (add_event now st s) = (fst s)\<lparr>en_date := day_of now, en_state := st, en_events := en_events (fst s) @ [ev]\<rparr>"
proof -
  obtain e fs where s: "s = (e, fs)" by (cases s)
  let ?ev = "\<lparr>ev_ts = now, ev_total_hours = en_total_hours e, ev_previous = en_state e, ev_current = st\<rparr>"
  let ?fs = "append_event (EventFile i (day_of now)) (event_as_dict ?ev) fs"
  let ?e = "e\<lparr>en_events := en_events e @ [?ev], en_date := day_of now, en_state := st\<rparr>"
  have f: "files_hold today i fs h" and g: "engine_holds today i e h" using assms(1) by (simp_all add: s engine_inv_def)
  have add: "add_event now st (e, fs) = (?e, ?fs(StatusFile i \<mapsto> StatusText (engine_as_dict now ?e)))"
    using g by (auto simp: s add_event_def check_date_def save_status_def engine_holds_def Let_def)
  have chain: "event_chain (h @ [?ev])"
    using f g assms(4) by (auto simp: s files_hold_def engine_holds_def intro: chain_snoc)
  have "sorted (map (day_of \<circ> ev_ts) (h @ [?ev]))"
    using f assms(3) by (auto simp: files_hold_def sorted_append intro: order_trans)
  moreover have "\<forall>ev \<in> set (h @ [?ev]). valid_date (ev_ts ev) \<and> day_of (ev_ts ev) \<le> day_of now"
    using f assms(2,3) by (auto simp: files_hold_def intro: order_trans)
  moreover have "?fs (EventFile i d) = (if on_day d (h @ [?ev]) = [] then None
      else Some (EventLines (map event_as_dict (on_day d (h @ [?ev])))))" for d
  proof -
    have "fs (EventFile i d) = (if on_day d h = [] then None else Some (EventLines (map event_as_dict (on_day d h))))"
      using f unfolding files_hold_def by blast
    then show ?thesis by (cases "d = day_of now") (simp_all add: append_event_def on_day_def)
  qed
  moreover have "dates_ok ?e" "en_id ?e = i" using g by (simp_all add: engine_holds_def dates_ok_def)
  ultimately have "files_hold (day_of now) i (?fs(StatusFile i \<mapsto> StatusText (engine_as_dict now ?e))) (h @ [?ev])"
    using chain assms(2) by (auto simp: files_hold_def end_state_def intro!: exI [of _ now] exI [of _ ?e])
  moreover have "engine_holds (day_of now) i ?e (h @ [?ev])"
    using engine_holds_later [OF g assms(3)] by (auto simp: engine_holds_def dates_ok_def end_state_def)
  ultimately show ?thesis
    by (intro exI [of _ ?ev]) (simp add: add engine_inv_def s)
qed

lemma add_event_obtain:
  assumes "engine_inv today i s h" "valid_date now" "today \<le> day_of now" "st \<noteq> en_state (fst s)"
  obtains e1 fs1 ev where "add_event now st s = (e1, fs1)" "engine_inv (day_of now) i (e1, fs1) (h @ [ev])"
    "en_state e1 = st"
  using add_event_inv [OF assms] by (cases "add_event now st s") auto

text \<open>Every operation of the service keeps the invariant, with a history that only grows.\<close>

lemma set_fields_inv:
  "engine_inv today i (e, fs) h \<Longrightarrow> en_id e' = en_id e \<Longrightarrow> en_state e' = en_state e \<Longrightarrow> en_events e' = en_events e
    \<Longrightarrow> dates_ok e' \<Longrightarrow> engine_inv today i (e', fs) h"
  by (simp add: engine_inv_def engine_holds_def)

lemma inv_later: "engine_inv today i s h \<Longrightarrow> today \<le> later \<Longrightarrow> engine_inv later i s h"
  by (auto simp: engine_inv_def intro: files_hold_later engine_holds_later)

lemma inv_dates: "engine_inv today i (e, fs) h \<Longrightarrow> dates_ok e"
  by (simp add: engine_inv_def engine_holds_def)

lemma new_message_inv: "engine_inv today i s h \<Longrightarrow> engine_inv today i (new_message t s) h"
  by (cases s) (simp add: new_message_def engine_inv_def engine_holds_def dates_ok_def)

lemma update_speed_inv:
  assumes "engine_inv today i s h" "valid_date now" "today \<le> day_of now"
  shows "\<exists>g. engine_inv (day_of now) i (update_speed now speed s) (h @ g)"
proof -
  obtain e fs where s: "s = (e, fs)" by (cases s)
  have d: "dates_ok e" using assms(1) s by (auto dest: inv_dates)
  have keep: "engine_inv (day_of now) i (e\<lparr>en_speed := speed\<rparr>, fs) (h @ [])"
    using inv_later [OF assms(1,3)] d by (auto simp: s dates_ok_def intro: set_fields_inv)
  have d1: "engine_inv today i (e\<lparr>en_stop := Some now\<rparr>, fs) h"
    using assms(1,2) d by (auto simp: s dates_ok_def intro: set_fields_inv)
  consider (run) "0 < speed" "en_state e \<noteq> EngineRunning" | (stop) "speed = 0" "en_state e = EngineRunning"
    | (on) "speed = 0" "en_state e = EngineOff" | (same) "update_speed now speed s = (e\<lparr>en_speed := speed\<rparr>, fs)"
    by (cases "0 < speed"; cases "speed = 0"; cases "en_state e") (auto simp: update_speed_def s)
  then show ?thesis
  proof cases
    case run
    obtain ev e1 fs1 where a: "add_event now EngineRunning s = (e1, fs1)" "engine_inv (day_of now) i (e1, fs1) (h @ [ev])"
      using add_event_obtain [OF assms] run(2) s by (metis fst_conv)
    with run show ?thesis
      using inv_dates [OF a(2)] assms(2) set_fields_inv [OF a(2), of "e1\<lparr>en_start := Some now, en_speed := speed\<rparr>"]
      by (auto simp: update_speed_def s dates_ok_def)
  next
    case stop
    have "EngineOn \<noteq> en_state (fst (e\<lparr>en_stop := Some now\<rparr>, fs))" using stop(2) by simp
    then obtain ev e1 fs1 where a: "add_event now EngineOn (e\<lparr>en_stop := Some now\<rparr>, fs) = (e1, fs1)"
      "engine_inv (day_of now) i (e1, fs1) (h @ [ev])"
      using add_event_obtain [OF d1 assms(2,3)] by metis
    with stop show ?thesis
      using inv_dates [OF a(2)] set_fields_inv [OF a(2), of "e1\<lparr>en_speed := speed\<rparr>"]
      by (auto simp: update_speed_def s dates_ok_def)
  next
    case on
    obtain ev e1 fs1 where a: "add_event now EngineOn s = (e1, fs1)" "engine_inv (day_of now) i (e1, fs1) (h @ [ev])"
      using add_event_obtain [OF assms] on(2) s by (metis engine_state.distinct(1) fst_conv)
    with on show ?thesis
      using inv_dates [OF a(2)] set_fields_inv [OF a(2), of "e1\<lparr>en_speed := speed\<rparr>"]
      by (auto simp: update_speed_def s dates_ok_def)
  next
    case same
    with keep show ?thesis by metis
  qed
qed

lemma update_data_inv:
  assumes "engine_inv today i s h" "valid_date now" "today \<le> day_of now"
  shows "\<exists>g. engine_inv (day_of now) i (update_data now msg s) (h @ g)"
proof -
  obtain e fs where s: "s = (e, fs)" by (cases s)
  let ?set = "\<lambda>e :: engine. e\<lparr>en_temperature := ep_temperature msg, en_voltage := ep_voltage msg, en_total_hours := ep_total_hours msg\<rparr>"
  show ?thesis
  proof (cases "en_state e = EngineOff")
    case True
    obtain ev e1 fs1 where a: "add_event now EngineOn s = (e1, fs1)" "engine_inv (day_of now) i (e1, fs1) (h @ [ev])"
      "en_state e1 = EngineOn"
      using add_event_obtain [OF assms] True s by (metis engine_state.distinct(1) fst_conv)
    with True show ?thesis
      using inv_dates [OF a(2)] set_fields_inv [OF a(2), of "?set (e1\<lparr>en_state := EngineOn\<rparr>)"]
      by (auto simp: update_data_def s dates_ok_def)
  next
    case False
    have i: "engine_inv (day_of now) i (e, fs) (h @ [])" using inv_later [OF assms(1,3)] s by simp
    with False show ?thesis
      using inv_dates [OF i] set_fields_inv [OF i, of "?set e"]
      by (intro exI [of _ "[]"]) (simp add: update_data_def s dates_ok_def)
  qed
qed

lemma check_off_inv:
  assumes "engine_inv today i s h" "valid_date now" "today \<le> day_of now"
  shows "\<exists>g. engine_inv (day_of now) i (fst (check_off now t s)) (h @ g)"
proof -
  obtain e fs where s: "s = (e, fs)" by (cases s)
  have d: "dates_ok e" using assms(1) s by (auto dest: inv_dates)
  show ?thesis
  proof (cases "en_state e \<noteq> EngineOff \<and> 30 < t - en_last_message e")
    case True
    let ?e = "if en_state e = EngineRunning then e\<lparr>en_stop := Some now\<rparr> else e"
    have "engine_inv today i (?e, fs) h"
      using assms(1,2) d by (auto simp: s dates_ok_def intro: set_fields_inv)
    moreover have "EngineOff \<noteq> en_state (fst (?e, fs))" using True by auto
    ultimately obtain ev e1 fs1 where a: "add_event now EngineOff (?e, fs) = (e1, fs1)"
      "engine_inv (day_of now) i (e1, fs1) (h @ [ev])" "en_state e1 = EngineOff"
      using add_event_obtain [OF _ assms(2,3)] by blast
    with True show ?thesis
      using inv_dates [OF a(2)] set_fields_inv [OF a(2), of "e1\<lparr>en_state := EngineOff, en_speed := 0, en_temperature := 0\<rparr>"]
      by (auto simp: check_off_def s dates_ok_def Let_def)
  next
    case False
    then have "fst (check_off now t s) = s" by (auto simp: check_off_def s)
    then show ?thesis using inv_later [OF assms(1,3)] by (metis append_Nil2)
  qed
qed

section \<open>Lemmas on the service\<close>

fun path_id :: "engine_path \<Rightarrow> nat" where
  "path_id (StatusFile i) = i"
| "path_id (EventFile i d) = i"

lemma files_hold_frame: "(\<And>p. path_id p = i \<Longrightarrow> fs' p = fs p) \<Longrightarrow> files_hold today i fs' h = files_hold today i fs h"
  by (simp add: files_hold_def)

lemma save_status_frame: "path_id p \<noteq> en_id (fst s) \<Longrightarrow> snd (save_status now s) p = snd s p"
  by (cases s; cases p) (auto simp: save_status_def)

lemma add_event_frame: "path_id p \<noteq> en_id (fst s) \<Longrightarrow> snd (add_event now st s) p = snd s p"
  by (cases s; cases p) (auto simp: add_event_def save_status_def append_event_def check_date_def Let_def)

lemma update_speed_frame: "path_id p \<noteq> en_id (fst s) \<Longrightarrow> snd (update_speed now v s) p = snd s p"
  using add_event_frame [of p s now EngineRunning] add_event_frame [of p s now EngineOn]
    add_event_frame [of p "((fst s)\<lparr>en_stop := Some now\<rparr>, snd s)" now EngineOn]
  by (auto simp: update_speed_def split: prod.splits)

lemma update_data_frame: "path_id p \<noteq> en_id (fst s) \<Longrightarrow> snd (update_data now msg s) p = snd s p"
  using add_event_frame [of p s now EngineOn] by (auto simp: update_data_def split: prod.splits)

lemma check_off_frame: "path_id p \<noteq> en_id (fst s) \<Longrightarrow> snd (fst (check_off now t s)) p = snd s p"
  using add_event_frame [of p "(if en_state (fst s) = EngineRunning then (fst s)\<lparr>en_stop := Some now\<rparr> else fst s, snd s)" now EngineOff]
  by (auto simp: check_off_def Let_def split: prod.splits if_splits)

text \<open>The histories of all engines, and what holds of the service: an engine it does not know has no history.\<close>

definition service_holds :: "day \<Rightarrow> engine_service \<Rightarrow> (nat \<Rightarrow> engine_event list) \<Rightarrow> bool" where
  "service_holds today s h \<longleftrightarrow>
     (\<forall>i. files_hold today i (es_fs s) (h i)
        \<and> (case dict_get (es_engines s) i of None \<Rightarrow> h i = [] | Some e \<Rightarrow> engine_holds today i e (h i)))"

lemma service_holds_later:
  assumes "service_holds today s h" "today \<le> later"
  shows "service_holds later s h"
  unfolding service_holds_def
proof
  fix i
  have "files_hold today i (es_fs s) (h i)"
    "case dict_get (es_engines s) i of None \<Rightarrow> h i = [] | Some e \<Rightarrow> engine_holds today i e (h i)"
    using assms(1) by (simp_all add: service_holds_def)
  then show "files_hold later i (es_fs s) (h i)
      \<and> (case dict_get (es_engines s) i of None \<Rightarrow> h i = [] | Some e \<Rightarrow> engine_holds later i e (h i))"
    using files_hold_later [OF _ assms(2)] engine_holds_later [OF _ assms(2)]
    by (cases "dict_get (es_engines s) i") auto
qed

text \<open>What the service needs of an operation on an engine: it keeps the invariant of that engine and leaves the files
  of the others alone.\<close>

locale engine_op =
  fixes op :: "datetime \<Rightarrow> engine \<times> engine_fs \<Rightarrow> engine \<times> engine_fs"
  assumes keeps: "engine_inv today i s h \<Longrightarrow> valid_date now \<Longrightarrow> today \<le> day_of now \<Longrightarrow>
      \<exists>g. engine_inv (day_of now) i (op now s) (h @ g)"
    and frame: "path_id p \<noteq> en_id (fst s) \<Longrightarrow> snd (op now s) p = snd s p"
begin

lemma on_engine_holds:
  assumes "service_holds today s h" "engine_holds today i e (h i)" "valid_date now" "today \<le> day_of now"
  shows "\<exists>g. service_holds (day_of now) (on_engine i (op now) e s) (h(i := h i @ g))"
proof -
  have "engine_inv today i (e, es_fs s) (h i)" using assms(1,2) by (simp add: service_holds_def engine_inv_def)
  from keeps [OF this assms(3,4)] obtain g where g: "engine_inv (day_of now) i (op now (e, es_fs s)) (h i @ g)" ..
  have "files_hold (day_of now) j (snd (op now (e, es_fs s))) (h j)" if "j \<noteq> i" for j
  proof -
    have "en_id e = i" using assms(2) by (simp add: engine_holds_def)
    then have "files_hold (day_of now) j (snd (op now (e, es_fs s))) (h j) = files_hold (day_of now) j (es_fs s) (h j)"
      using frame [of _ "(e, es_fs s)" now] that by (intro files_hold_frame) auto
    moreover have "files_hold (day_of now) j (es_fs s) (h j)"
      using assms(1,4) by (auto simp: service_holds_def intro: files_hold_later)
    ultimately show ?thesis by simp
  qed
  note others = this
  have eng: "case dict_get (es_engines s) j of None \<Rightarrow> h j = [] | Some e \<Rightarrow> engine_holds (day_of now) j e (h j)" for j
    using service_holds_later [OF assms(1,4)] unfolding service_holds_def by blast
  obtain e1 fs1 where o: "op now (e, es_fs s) = (e1, fs1)" by fastforce
  have "files_hold (day_of now) j fs1 ((h(i := h i @ g)) j)
      \<and> (case dict_get (dict_set i e1 (es_engines s)) j of
           None \<Rightarrow> (h(i := h i @ g)) j = [] | Some e \<Rightarrow> engine_holds (day_of now) j e ((h(i := h i @ g)) j))" for j
    using g others [of j] eng [of j] o by (cases "j = i"; cases "dict_get (es_engines s) j") (simp_all add: engine_inv_def update_conv')
  then show ?thesis by (intro exI [of _ g]) (simp add: service_holds_def on_engine_def o)
qed

lemma on_known_engine:
  assumes "service_holds today s h" "dict_get (es_engines s) i = Some e" "valid_date now" "today \<le> day_of now"
  shows "\<exists>h'. service_holds (day_of now) (on_engine i (op now) e s) h'"
proof -
  have "engine_holds today i e (h i)" using assms(1,2) by (auto simp: service_holds_def dest: spec [of _ i])
  from on_engine_holds [OF assms(1) this assms(3,4)] show ?thesis by blast
qed

lemma on_got_engine:
  assumes "service_holds today s h" "get_engine now t i s = (s1, e)" "valid_date now" "today \<le> day_of now"
  shows "\<exists>h'. service_holds (day_of now) (on_engine i (op now) e s1) h'"
proof (cases "dict_get (es_engines s) i")
  case None
  then have e: "e = new_engine now t i" "s1 = s\<lparr>es_engines := dict_set i e (es_engines s)\<rparr>" "h i = []"
    using assms(1,2) by (auto simp: get_engine_def Let_def service_holds_def dest: spec [of _ i])
  then have "engine_holds today i e (h i)"
    using assms(3) by (simp add: engine_holds_def new_engine_def dates_ok_def end_state_def)
  moreover from this have "service_holds today s1 h"
    using assms(1) e(2) by (auto simp: service_holds_def update_conv')
  ultimately show ?thesis using on_engine_holds assms(3,4) by blast
next
  case (Some e1)
  with assms(2) have "s1 = s" "e = e1" by (simp_all add: get_engine_def)
  with on_known_engine [OF assms(1) Some assms(3,4)] show ?thesis by simp
qed

end

interpretation speed_op: engine_op "\<lambda>now. update_speed now speed \<circ> new_message t" for speed t
  by unfold_locales
    (auto simp: new_message_def update_speed_frame split_beta intro!: update_speed_inv dest: new_message_inv [of _ _ _ _ t])

interpretation data_op: engine_op "\<lambda>now. update_data now msg \<circ> new_message t" for msg t
  by unfold_locales
    (auto simp: new_message_def update_data_frame split_beta intro!: update_data_inv dest: new_message_inv [of _ _ _ _ t])

interpretation timer_op: engine_op "\<lambda>now s. fst (check_off now t (save_status now s))" for t
  by unfold_locales (auto simp: check_off_frame save_status_frame save_status_def split_beta
      intro!: check_off_inv dest: save_status_inv)

lemma check_engines_holds:
  assumes "service_holds today s h" "valid_date now" "today \<le> day_of now"
  shows "\<exists>h'. service_holds (day_of now) (fst (check_engines now t ids s)) h'"
  using assms
proof (induction ids arbitrary: s h today)
  case Nil
  then have "service_holds (day_of now) s h" using service_holds_later by blast
  then show ?case by auto
next
  case (Cons i ids)
  show ?case
  proof (cases "dict_get (es_engines s) i")
    case None
    with Cons show ?thesis by simp
  next
    case (Some e)
    let ?s1 = "on_engine i (\<lambda>s. fst (check_off now t (save_status now s))) e s"
    obtain h1 where "service_holds (day_of now) ?s1 h1"
      using timer_op.on_known_engine [OF Cons.prems(1) Some Cons.prems(2,3)] by blast
    from Cons.IH [OF this Cons.prems(2) order_refl] Some show ?thesis
      by (simp add: on_engine_def split_beta Let_def)
  qed
qed

lemma on_last_day:
  assumes "sorted (map (day_of \<circ> ev_ts) h)" "\<forall>ev \<in> set h. day_of (ev_ts ev) \<le> d"
  shows "\<exists>old. h = old @ on_day d h \<and> (\<forall>ev \<in> set old. day_of (ev_ts ev) < d)"
  using assms
proof (induction h)
  case (Cons ev h)
  show ?case
  proof (cases "day_of (ev_ts ev) = d")
    case True
    with Cons.prems have "\<forall>x \<in> set h. day_of (ev_ts x) = d" by (auto intro: antisym)
    with True have "on_day d (ev # h) = ev # h" by (simp add: on_day_def)
    then show ?thesis by simp
  next
    case False
    with Cons obtain old where "h = old @ on_day d h" "\<forall>ev \<in> set old. day_of (ev_ts ev) < d" by auto
    with False Cons.prems(2) show ?thesis
      by (intro exI [of _ "ev # old"]) (auto simp: on_day_def)
  qed
qed (simp add: on_day_def)

text \<open>The number of an engine whose status was saved at some time can be read back.\<close>

lemma load_holds:
  assumes "files_hold today i fs h" "fs (StatusFile i) \<noteq> None" "today \<le> day_of now"
  shows "\<exists>e. load_engine now i fs = Inr e \<and> engine_holds (day_of now) i e h"
proof -
  obtain saved e where e: "fs (StatusFile i) = Some (StatusText (engine_as_dict saved e))" "valid_date saved" "dates_ok e"
    "en_id e = i" "en_state e = end_state h"
    using assms(1,2) by (auto simp: files_hold_def split: option.splits)
  have "\<forall>ev \<in> set (on_day (day_of now) h). valid_date (ev_ts ev)"
    using assms(1) by (auto simp: files_hold_def on_day_def)
  moreover have "fs (EventFile i (day_of now)) = (if on_day (day_of now) h = [] then None
      else Some (EventLines (map event_as_dict (on_day (day_of now) h))))"
    using assms(1) unfolding files_hold_def by blast
  ultimately have "load_engine now i fs = Inr (restored saved now (on_day (day_of now) h) e)"
    using load_saved [of fs i saved e now "on_day (day_of now) h"] e(1-4) by blast
  moreover have "\<exists>old. h = old @ on_day (day_of now) h \<and> (\<forall>ev \<in> set old. day_of (ev_ts ev) < day_of now)"
    using assms(1,3) by (intro on_last_day) (auto simp: files_hold_def intro: order_trans)
  ultimately show ?thesis
    using e(3-5) by (auto simp: engine_holds_def restored_def dates_ok_def Let_def)
qed

lemma start_engines_holds:
  assumes "\<forall>i. files_hold today i (es_fs s) (h i)" "today \<le> day_of now"
    and "\<forall>i e. dict_get (es_engines s) i = Some e \<longrightarrow> engine_holds (day_of now) i e (h i)"
  shows "\<exists>s1. start_engines now ids s = Inr s1 \<and> es_fs s1 = es_fs s
    \<and> (\<forall>i e. dict_get (es_engines s1) i = Some e \<longrightarrow> engine_holds (day_of now) i e (h i))
    \<and> (\<forall>i. i \<in> set ids \<and> es_fs s (StatusFile i) \<noteq> None \<or> dict_get (es_engines s) i \<noteq> None \<longrightarrow> dict_get (es_engines s1) i \<noteq> None)"
  using assms
proof (induction ids arbitrary: s)
  case (Cons i ids)
  show ?case
  proof (cases "es_fs s (StatusFile i)")
    case None
    then have "load_engine now i (es_fs s) = Inl OSError" by (simp add: load_engine_def)
    with Cons.IH [OF Cons.prems] None show ?thesis by auto
  next
    case (Some f)
    then obtain e where e: "load_engine now i (es_fs s) = Inr e" "engine_holds (day_of now) i e (h i)"
      using load_holds [of today i "es_fs s" "h i" now] Cons.prems(1,2) by blast
    let ?s = "s\<lparr>es_engines := dict_set i e (es_engines s)\<rparr>"
    have "\<forall>j e'. dict_get (es_engines ?s) j = Some e' \<longrightarrow> engine_holds (day_of now) j e' (h j)"
      using e(2) Cons.prems(3) by (simp add: update_conv')
    from Cons.IH [of ?s, OF _ Cons.prems(2) this] Cons.prems(1) obtain s1 where
      "start_engines now ids ?s = Inr s1" "es_fs s1 = es_fs s"
      "\<forall>i e. dict_get (es_engines s1) i = Some e \<longrightarrow> engine_holds (day_of now) i e (h i)"
      "\<forall>j. j \<in> set ids \<and> es_fs s (StatusFile j) \<noteq> None \<or> dict_get (es_engines ?s) j \<noteq> None \<longrightarrow> dict_get (es_engines s1) j \<noteq> None"
      by auto
    with e(1) show ?thesis by (auto simp: update_conv')
  qed
qed auto

lemma restart_holds:
  assumes "service_holds today s h" "today \<le> day_of now" "\<forall>i. es_fs s (StatusFile i) \<noteq> None \<longrightarrow> i \<in> set ids"
  shows "\<exists>s1. start_service now ids (es_fs s) = Inr s1 \<and> service_holds (day_of now) s1 h"
proof -
  let ?s = "\<lparr>es_engines = [], es_fs = es_fs s\<rparr>"
  have files: "\<forall>i. files_hold today i (es_fs ?s) (h i)" using assms(1) by (simp add: service_holds_def)
  obtain s1 where s1: "start_engines now ids ?s = Inr s1" "es_fs s1 = es_fs s"
    "\<forall>i e. dict_get (es_engines s1) i = Some e \<longrightarrow> engine_holds (day_of now) i e (h i)"
    "\<forall>i. i \<in> set ids \<and> es_fs s (StatusFile i) \<noteq> None \<longrightarrow> dict_get (es_engines s1) i \<noteq> None"
    using start_engines_holds [OF files assms(2), of ids] by auto
  have "case dict_get (es_engines s1) i of None \<Rightarrow> h i = [] | Some e \<Rightarrow> engine_holds (day_of now) i e (h i)" for i
  proof (cases "dict_get (es_engines s1) i")
    case None
    with s1(4) assms(3) have "es_fs s (StatusFile i) = None" by blast
    moreover have "files_hold today i (es_fs s) (h i)" using files by simp
    ultimately show ?thesis using None by (simp add: files_hold_def)
  next
    case (Some e)
    with s1(3) show ?thesis by simp
  qed
  moreover have "\<forall>i. files_hold (day_of now) i (es_fs s) (h i)" using files files_hold_later [OF _ assms(2)] by simp
  ultimately show ?thesis
    using s1(1,2) by (auto simp: start_service_def service_holds_def)
qed

section \<open>Runs of the service\<close>

text \<open>The states the service reaches, with the day of the last operation: it starts on empty files, the clock does
  not go back to an earlier day, and a restart finds the directories of all engines that were saved.\<close>

inductive service_reach :: "engine_service \<Rightarrow> day \<Rightarrow> bool" where
  begin_empty: "service_reach \<lparr>es_engines = [], es_fs = (\<lambda>p. None)\<rparr> d"
| rapid: "service_reach s d \<Longrightarrow> valid_date now \<Longrightarrow> d \<le> day_of now \<Longrightarrow> service_reach (p127488 now t i speed s) (day_of now)"
| params: "service_reach s d \<Longrightarrow> valid_date now \<Longrightarrow> d \<le> day_of now \<Longrightarrow> service_reach (p127489 now t i msg s) (day_of now)"
| timer: "service_reach s d \<Longrightarrow> valid_date now \<Longrightarrow> d \<le> day_of now \<Longrightarrow>
    service_reach (fst (check_off_engines now t s)) (day_of now)"
| restart: "service_reach s d \<Longrightarrow> d \<le> day_of now \<Longrightarrow> \<forall>i. es_fs s (StatusFile i) \<noteq> None \<longrightarrow> i \<in> set ids \<Longrightarrow>
    start_service now ids (es_fs s) = Inr s1 \<Longrightarrow> service_reach s1 (day_of now)"

lemma service_reach_holds: "service_reach s d \<Longrightarrow> \<exists>h. service_holds d s h"
proof (induction rule: service_reach.induct)
  case (begin_empty d)
  then show ?case
    by (intro exI [of _ "\<lambda>i. []"]) (simp add: service_holds_def files_hold_def on_day_def chain_nil)
next
  case (rapid s d now t i speed)
  then show ?case
    using speed_op.on_got_engine [of d s] by (fastforce simp: p127488_def split: prod.split)
next
  case (params s d now t i msg)
  then show ?case
    using data_op.on_got_engine [of d s] by (fastforce simp: p127489_def split: prod.split)
next
  case (timer s d now t)
  then show ?case using check_engines_holds [of d s] by (auto simp: check_off_engines_def)
next
  case (restart s d now ids s1)
  then show ?case using restart_holds [of d s _ now ids] by fastforce
qed

lemma start_engines_distinct:
  "distinct (dict_keys (es_engines s)) \<Longrightarrow> start_engines now ids s = Inr s1 \<Longrightarrow> distinct (dict_keys (es_engines s1))"
proof (induction ids arbitrary: s)
  case (Cons i ids)
  show ?case
  proof (cases "load_engine now i (es_fs s)")
    case (Inl err)
    with Cons show ?thesis by (simp split: if_splits)
  next
    case (Inr e)
    with Cons.IH [of "s\<lparr>es_engines := dict_set i e (es_engines s)\<rparr>"] Cons.prems show ?thesis
      by (simp add: distinct_update)
  qed
qed simp

lemma service_reach_distinct: "service_reach s d \<Longrightarrow> distinct (dict_keys (es_engines s))"
proof (induction rule: service_reach.induct)
  case (timer s d now t)
  have "distinct (dict_keys (es_engines s)) \<Longrightarrow> distinct (dict_keys (es_engines (fst (check_engines now t ids s))))" for ids
    by (induction ids arbitrary: s) (auto simp: Let_def split_beta distinct_update split: option.splits)
  with timer show ?case by (simp add: check_off_engines_def)
next
  case (restart s d now ids s1)
  then show ?case
    using start_engines_distinct [of "\<lparr>es_engines = [], es_fs = es_fs s\<rparr>" now ids s1] by (simp add: start_service_def)
qed (auto simp: p127488_def p127489_def get_engine_def on_engine_def Let_def split_beta distinct_update split: option.splits)

definition after_check :: "datetime \<Rightarrow> real \<Rightarrow> engine \<Rightarrow> engine" where
  "after_check now t e = fst (fst (check_off now t (e, \<lambda>p. None)))"

lemma check_off_engine: "fst (fst (check_off now t (save_status now (e, fs)))) = after_check now t e"
  by (simp add: after_check_def check_off_def save_status_def add_event_def Let_def)

lemma check_engines_get:
  "distinct ids \<Longrightarrow> dict_get (es_engines (fst (check_engines now t ids s))) i
    = (if i \<in> set ids then map_option (after_check now t) (dict_get (es_engines s) i) else dict_get (es_engines s) i)"
proof (induction ids arbitrary: s)
  case (Cons j ids)
  show ?case
  proof (cases "dict_get (es_engines s) j")
    case None
    with Cons show ?thesis by auto
  next
    case (Some e)
    obtain e1 fs1 off where c: "check_off now t (save_status now (e, es_fs s)) = ((e1, fs1), off)" by (metis surj_pair)
    then have "e1 = after_check now t e" using check_off_engine [of now t e "es_fs s"] by simp
    with Cons Some c show ?thesis by (auto simp: Let_def split_beta update_conv')
  qed
qed simp

section \<open>Properties\<close>

text \<open>C40. In every run of the service, with any number of engines, messages, timer checks and restarts, each engine has
  one history of events: each starts in the state the one before ended in, the first in the state off, and none
  stays in its state. The engine is in the state the history ends with, the events it lists are the end of the
  history, and the file of a day has exactly the events of that day, in order.\<close>

theorem engine_history:
  assumes "service_reach s d" "dict_get (es_engines s) i = Some e"
  shows "\<exists>h old. event_chain h \<and> en_state e = end_state h \<and> h = old @ en_events e
    \<and> (\<forall>day. es_fs s (EventFile i day) =
          (if on_day day h = [] then None else Some (EventLines (map event_as_dict (on_day day h)))))"
proof -
  obtain h where "service_holds d s h" using service_reach_holds [OF assms(1)] ..
  then have h: "files_hold d i (es_fs s) (h i)" "engine_holds d i e (h i)"
    using assms(2) by (auto simp: service_holds_def dest: spec [of _ i])
  from h(2) obtain old where "en_state e = end_state (h i)" "h i = old @ en_events e"
    by (auto simp: engine_holds_def)
  moreover have "event_chain (h i)" "\<forall>day. es_fs s (EventFile i day) =
      (if on_day day (h i) = [] then None else Some (EventLines (map event_as_dict (on_day day (h i)))))"
    using h(1) unfolding files_hold_def by blast+
  ultimately show ?thesis by blast
qed

text \<open>An engine of a running service that is saved and read back later comes back whole, but for the events
  of other days and, when the day has changed, the time of its last message, its temperature and its voltage.\<close>

theorem engine_restart:
  assumes "service_reach s d" "dict_get (es_engines s) i = Some e" "valid_date saved" "d \<le> day_of now"
  shows "load_engine now i (snd (save_status saved (e, es_fs s)))
    = Inr (restored saved now (on_day (day_of now) (en_events e)) e)"
proof -
  obtain h where "service_holds d s h" using service_reach_holds [OF assms(1)] ..
  then have h: "files_hold d i (es_fs s) (h i)" "engine_holds d i e (h i)"
    using assms(2) by (auto simp: service_holds_def dest: spec [of _ i])
  then obtain old where e: "en_id e = i" "dates_ok e" "h i = old @ en_events e" "\<forall>ev \<in> set old. day_of (ev_ts ev) < d"
    by (auto simp: engine_holds_def)
  have "on_day (day_of now) old = []" using e(4) assms(4) by (fastforce simp: on_day_def filter_empty_conv)
  then have on: "on_day (day_of now) (h i) = on_day (day_of now) (en_events e)" using e(3) by (simp add: on_day_def)
  have "es_fs s (EventFile i (day_of now)) = (if on_day (day_of now) (h i) = [] then None
      else Some (EventLines (map event_as_dict (on_day (day_of now) (h i)))))"
    using h(1) unfolding files_hold_def by blast
  moreover have "\<forall>ev \<in> set (on_day (day_of now) (en_events e)). valid_date (ev_ts ev)"
    using h(1) e(3) by (auto simp: files_hold_def on_day_def)
  ultimately show ?thesis
    using load_saved [of "snd (save_status saved (e, es_fs s))" i saved e now "on_day (day_of now) (en_events e)"]
      assms(3) e(1,2) on by (simp add: save_status_def)
qed

text \<open>The timer turns off exactly the engines that were silent for more than 30 seconds: each is off afterwards,
  with its speed cleared, the event recorded and, if it was running, the time noted; the others are as they were.\<close>

theorem engine_off_detection:
  assumes "service_reach s d" "dict_get (es_engines s) i = Some e"
  shows "\<exists>e1. dict_get (es_engines (fst (check_off_engines now t s))) i = Some e1
    \<and> (if en_state e = EngineOff \<or> t - en_last_message e \<le> 30 then e1 = e
       else en_state e1 = EngineOff \<and> en_speed e1 = 0 \<and> (en_state e = EngineRunning \<longrightarrow> en_stop e1 = Some now)
         \<and> en_events e1 = en_events e @ [\<lparr>ev_ts = now, ev_total_hours = en_total_hours e, ev_previous = en_state e,
              ev_current = EngineOff\<rparr>])"
proof -
  have "i \<in> set (dict_keys (es_engines s))" using assms(2) by (force dest: map_of_SomeD)
  then have "dict_get (es_engines (fst (check_off_engines now t s))) i = Some (after_check now t e)"
    using check_engines_get [OF service_reach_distinct [OF assms(1)]] assms(2) by (simp add: check_off_engines_def)
  then show ?thesis
    by (auto simp: after_check_def check_off_def add_event_def save_status_def check_date_def Let_def)
qed

text \<open>The time at which an engine starts is noted after the status is saved: read back before the next save, the
  engine is running since its previous start.\<close>

theorem engine_start_saved_late:
  assumes "0 < speed" "en_state e \<noteq> EngineRunning" "dates_ok e"
    and "load_engine now (en_id e) (snd (update_speed now speed (e, fs))) = Inr e1"
  shows "en_start (fst (update_speed now speed (e, fs))) = Some now \<and> en_state e1 = EngineRunning \<and> en_start e1 = en_start e"
proof -
  obtain e2 fs2 where a: "add_event now EngineRunning (e, fs) = (e2, fs2)" by fastforce
  then have u: "update_speed now speed (e, fs) = (e2\<lparr>en_start := Some now, en_speed := speed\<rparr>, fs2)"
    using assms(1,2) by (simp add: update_speed_def)
  have st: "fs2 (StatusFile (en_id e)) = Some (StatusText (engine_as_dict now e2))" "en_start e2 = en_start e"
    "en_state e2 = EngineRunning"
    using a by (auto simp: add_event_def save_status_def check_date_def Let_def split: if_splits)
  let ?ob = "engine_as_dict now e2"
  have ob: "dict_get ?ob ''start_time'' = Some (json_date (en_start e))" "dict_get ?ob ''state'' = Some (JInt (state_code EngineRunning))"
    by (simp_all add: engine_as_dict_def st(2,3))
  have "json_datetime_opt ?ob ''start_time'' = Inr (en_start e)"
    using assms(3) by (intro json_datetime_opt_saved ob) (auto simp: dates_ok_def)
  with assms(4) u st(1) ob(2) show ?thesis
    by (auto simp: load_engine_def bind_r_Inr_iff json_get_def simp del: json_simps state_code.simps split: prod.splits)
qed

section \<open>Witnesses\<close>

text \<open>Engine 0 starts on a first day, and the service is restarted on it.\<close>

definition sample_start :: engine_service where
  "sample_start = p127488 (sample_date 10) 5 0 850 \<lparr>es_engines = [], es_fs = (\<lambda>p. None)\<rparr>"

definition sample_engine :: engine where
  "sample_engine =
     \<lparr>en_id = 0, en_date = (2024, 2, 29), en_state = EngineRunning, en_speed = 850, en_first_on = sample_date 10,
      en_last_message = 5, en_temperature = 0, en_total_hours = 0, en_voltage = 0, en_start = Some (sample_date 10),
      en_stop = None,
      en_events = [\<lparr>ev_ts = sample_date 10, ev_total_hours = 0, ev_previous = EngineOff, ev_current = EngineRunning\<rparr>]\<rparr>"

lemma sample_day: "day_of (sample_date n) = (2024, 2, 29)"
  by (simp add: day_of_def sample_date_def)

lemma sample_start_reach: "service_reach sample_start (2024, 2, 29)"
  using service_reach.rapid [OF service_reach.begin_empty [of "(2024, 2, 29)"] sample_dates(1) [of 10], of 5 0 850]
  by (simp add: sample_start_def sample_day)

lemma sample_start_engine: "dict_get (es_engines sample_start) 0 = Some sample_engine"
  by (simp add: sample_start_def p127488_def get_engine_def on_engine_def update_speed_def new_message_def new_engine_def
      add_event_def check_date_def save_status_def sample_day sample_engine_def Let_def)

theorem engine_history_witness:
  "\<exists>h old. event_chain h \<and> en_state sample_engine = end_state h \<and> h = old @ en_events sample_engine
    \<and> (\<forall>day. es_fs sample_start (EventFile 0 day) =
          (if on_day day h = [] then None else Some (EventLines (map event_as_dict (on_day day h)))))"
  by (rule engine_history [OF sample_start_reach sample_start_engine])

theorem engine_restart_witness:
  "load_engine (sample_date 30) 0 (snd (save_status (sample_date 20) (sample_engine, es_fs sample_start))) = Inr sample_engine"
  using engine_restart [OF sample_start_reach sample_start_engine, of "sample_date 20" "sample_date 30"]
  by (simp add: sample_dates sample_day restored_def on_day_def) (simp add: sample_engine_def sample_day)

theorem engine_off_detection_witness:
  "\<exists>e1. dict_get (es_engines (fst (check_off_engines (sample_date 50) 36 sample_start))) 0 = Some e1
    \<and> en_state e1 = EngineOff \<and> en_speed e1 = 0 \<and> en_stop e1 = Some (sample_date 50)"
  using engine_off_detection [OF sample_start_reach sample_start_engine, of "sample_date 50" 36]
  by (auto simp: sample_engine_def)

theorem engine_start_saved_late_witness:
  "\<exists>e1. load_engine (sample_date 12) 1 (snd (update_speed (sample_date 12) 900 (new_engine (sample_date 11) 3 1, \<lambda>p. None)))
      = Inr e1 \<and> en_state e1 = EngineRunning \<and> en_start e1 = None"
proof -
  let ?e = "new_engine (sample_date 11) 3 1"
  have d: "dates_ok ?e" by (simp add: new_engine_def dates_ok_def sample_dates)
  have "\<exists>e1. load_engine (sample_date 12) (en_id ?e) (snd (update_speed (sample_date 12) 900 (?e, \<lambda>p. None))) = Inr e1"
    by (simp add: load_engine_def update_speed_def add_event_def save_status_def check_date_def append_event_def
        new_engine_def engine_as_dict_def json_get_def json_datetime_opt_def json_date_def Let_def sample_day
        fromisoformat_isoformat sample_dates event_roundtrip state_of_def)
  then obtain e1 where e1: "load_engine (sample_date 12) (en_id ?e) (snd (update_speed (sample_date 12) 900 (?e, \<lambda>p. None))) = Inr e1" ..
  from engine_start_saved_late [OF _ _ d e1] e1 show ?thesis by (auto simp: new_engine_def)
qed

end
