(* ===== verification/GenBase.thy ===== *)
theory GenBase
  imports N2kMessage PyFloat
begin

text \<open>
  \<^verbatim>\<open>nmea2000_datamodel/generated_base.py\<close>: what the generated message classes share: reading and writing the fields
  of a payload with the \<^verbatim>\<open>struct\<close> module, scaled numbers, fixed and variable strings, the message header and the
  conversion to a message of the bus. A message object is the dictionary of its attributes (without the leading
  underscore). Floating point arithmetic is exact arithmetic followed by a rounding \<open>fl\<close>, a parameter of which
  \<open>ieee_rounding\<close> states what IEEE 754 doubles guarantee; \<open>None\<close> is the value \<^verbatim>\<open>nan\<close>.
\<close>

section \<open>Numbers\<close>

type_synonym rounding = "real \<Rightarrow> real"

definition ieee_rounding :: "rounding \<Rightarrow> bool" where
  "ieee_rounding fl \<longleftrightarrow>
     (\<forall>x. \<bar>x\<bar> \<le> 2 ^ 200 \<longrightarrow> \<bar>fl x - x\<bar> \<le> \<bar>x\<bar> / 2 ^ 52 + 1 / 2 ^ 200) \<and> (\<forall>x. fl (fl x) = fl x) \<and> fl 0 = 0"

datatype attr = AInt int | AFloat "real option" | AText ustr | AList "(string \<times> attr) list list"

type_synonym attrs = "(string, attr) dict"

definition trunc_int :: "real \<Rightarrow> int" where
  "trunc_int x = (if 0 \<le> x then \<lfloor>x\<rfloor> else - \<lfloor>- x\<rfloor>)"

definition check_valid :: "int \<Rightarrow> int \<Rightarrow> int \<Rightarrow> int" where
  "check_valid value msk dflt = (if value = msk then dflt else value)"

definition check_convert_float :: "rounding \<Rightarrow> int \<Rightarrow> int \<Rightarrow> real \<Rightarrow> real \<Rightarrow> attr" where
  "check_convert_float fl val invalid_mask scale offset =
     (if val = -1 \<or> val = invalid_mask then AFloat None
      else AFloat (Some (fl (fl (fl (of_int val) * fl scale) + offset))))"

text \<open>The value may be an integer; anything but a number is refused by \<^verbatim>\<open>math.isnan\<close>. The scale may be \<^verbatim>\<open>None\<close>.\<close>

definition as_number :: "attr \<Rightarrow> real option result" where
  "as_number a = (case a of AInt i \<Rightarrow> Inr (Some (of_int i)) | AFloat r \<Rightarrow> Inr r | _ \<Rightarrow> Inl TypeError)"

definition convert_to_int :: "rounding \<Rightarrow> attr \<Rightarrow> int \<Rightarrow> real option \<Rightarrow> real \<Rightarrow> int result" where
  "convert_to_int fl value invalid_mask scale offset =
     bind_r (as_number value) (\<lambda>v.
       case v of
         None \<Rightarrow> Inr invalid_mask
       | Some x \<Rightarrow>
           (case scale of
              None \<Rightarrow> Inl TypeError
            | Some s \<Rightarrow> Inr (trunc_int (fl (fl (x - offset) / fl s)))))"

section \<open>Attributes\<close>

definition get_attr :: "attrs \<Rightarrow> string \<Rightarrow> attr result" where
  "get_attr m name = (case dict_get m name of None \<Rightarrow> Inl AttributeError | Some a \<Rightarrow> Inr a)"

definition assign :: "(string \<times> attr) list \<Rightarrow> attrs \<Rightarrow> attrs" where
  "assign xs m = fold (\<lambda>(name, a). dict_set name a) xs m"

definition attr_to_int :: "rounding \<Rightarrow> attrs \<Rightarrow> string \<Rightarrow> int \<Rightarrow> real option \<Rightarrow> int result" where
  "attr_to_int fl m name invalid_mask scale =
     bind_r (get_attr m name) (\<lambda>a. convert_to_int fl a invalid_mask scale 0)"

text \<open>\<^verbatim>\<open>self._attr & mask\<close>.\<close>

definition attr_bits :: "attrs \<Rightarrow> string \<Rightarrow> int \<Rightarrow> int result" where
  "attr_bits m name msk =
     bind_r (get_attr m name) (\<lambda>a. case a of AInt i \<Rightarrow> Inr (i AND msk) | _ \<Rightarrow> Inl TypeError)"

section \<open>The struct module\<close>

text \<open>The little-endian integer formats: size in bytes and whether signed.\<close>

definition format_of :: "char \<Rightarrow> (nat \<times> bool) option" where
  "format_of c =
     (if c = CHR ''B'' then Some (1, False) else if c = CHR ''b'' then Some (1, True)
      else if c = CHR ''H'' then Some (2, False) else if c = CHR ''h'' then Some (2, True)
      else if c = CHR ''I'' then Some (4, False) else if c = CHR ''i'' then Some (4, True)
      else if c = CHR ''Q'' then Some (8, False) else if c = CHR ''q'' then Some (8, True) else None)"

definition formats :: "string \<Rightarrow> (nat \<times> bool) list" where
  "formats s = List.map_filter format_of s"

definition struct_size :: "string \<Rightarrow> nat" where
  "struct_size s = sum_list (map fst (formats s))"

definition read_int :: "nat \<Rightarrow> bool \<Rightarrow> bytes \<Rightarrow> int" where
  "read_int n sgn_fmt bs =
     (let v = int (le_decode bs) in if sgn_fmt \<and> 2 ^ (8 * n - 1) \<le> v then v - 2 ^ (8 * n) else v)"

fun unpack_list :: "(nat \<times> bool) list \<Rightarrow> bytes \<Rightarrow> int list" where
  "unpack_list [] bs = []"
| "unpack_list ((n, sgn_fmt) # fs) bs = read_int n sgn_fmt (take n bs) # unpack_list fs (drop n bs)"

definition unpack_from :: "string \<Rightarrow> bytes \<Rightarrow> nat \<Rightarrow> int list result" where
  "unpack_from s payload start =
     (if length payload < start + struct_size s then Inl StructError
      else Inr (unpack_list (formats s) (drop start payload)))"

definition in_format :: "nat \<Rightarrow> bool \<Rightarrow> int \<Rightarrow> bool" where
  "in_format n sgn_fmt v \<longleftrightarrow>
     (if sgn_fmt then - (2 ^ (8 * n - 1)) \<le> v \<and> v < 2 ^ (8 * n - 1) else 0 \<le> v \<and> v < 2 ^ (8 * n))"

fun pack_list :: "(nat \<times> bool) list \<Rightarrow> attr list \<Rightarrow> bytes result" where
  "pack_list [] [] = Inr []"
| "pack_list ((n, sgn_fmt) # fs) (AInt v # vs) =
     (if in_format n sgn_fmt v
      then map_sum id (\<lambda>bs. le_encode n (nat (v mod 2 ^ (8 * n))) @ bs) (pack_list fs vs)
      else Inl StructError)"
| "pack_list _ _ = Inl StructError"

text \<open>The arguments are evaluated from left to right before the call.\<close>

fun all_results :: "'a result list \<Rightarrow> 'a list result" where
  "all_results [] = Inr []"
| "all_results (r # rs) = bind_r r (\<lambda>x. map_sum id (\<lambda>xs. x # xs) (all_results rs))"

definition put_at :: "bytes \<Rightarrow> nat \<Rightarrow> bytes \<Rightarrow> bytes" where
  "put_at buffer off bs = take off buffer @ bs @ drop (off + length bs) buffer"

definition pack_into :: "string \<Rightarrow> bytes \<Rightarrow> nat \<Rightarrow> attr result list \<Rightarrow> bytes result" where
  "pack_into s buffer off args =
     bind_r (all_results args) (\<lambda>vs.
       if length buffer < off + struct_size s then Inl StructError
       else map_sum id (put_at buffer off) (pack_list (formats s) vs))"

section \<open>Strings\<close>

text \<open>\<^verbatim>\<open>clean_string\<close>: up to the first 0xFF, then up to the first 0, decoded, without trailing @, blanks and nulls;
  empty when the rest is not printable. Whether a character beyond ASCII is printable is not modelled.\<close>

definition clean_string :: "bytes \<Rightarrow> ustr result" where
  "clean_string bs =
     (let bs1 = takeWhile (\<lambda>b. b \<noteq> 0xFF) bs; bs2 = takeWhile (\<lambda>b. b \<noteq> 0) bs1
      in if bs2 = [] then Inr []
         else case utf8_decode bs2 of
           Inl _ \<Rightarrow> Inr []
         | Inr s \<Rightarrow>
             let r = rev (dropWhile (\<lambda>c. c \<in> {64, 32, 0}) (rev s))
             in if \<exists>c \<in> set r. 128 \<le> c then Inl NotModelled
                else Inr (if \<forall>c \<in> set r. 32 \<le> c \<and> c < 127 then r else []))"

definition extract_var_str :: "bytes \<Rightarrow> nat \<Rightarrow> (ustr \<times> nat) result" where
  "extract_var_str payload start_byte =
     bind_r (py_get payload (int start_byte)) (\<lambda>b.
       let total_len = unat b; str_len = int total_len - 2
       in bind_r (py_get payload (int (start_byte + 1))) (\<lambda>c.
            if c \<noteq> 1 then Inr ([], total_len)
            else if str_len = 0 then Inr ([], total_len)
            else map_sum id (\<lambda>s. (s, total_len))
                   (clean_string (py_slice payload (int (start_byte + 2)) (int (start_byte + total_len))))))"

definition insert_var_str :: "bytes \<Rightarrow> nat \<Rightarrow> attr \<Rightarrow> (bytes \<times> nat) result" where
  "insert_var_str payload start_byte a =
     (case a of
        AText s \<Rightarrow>
          let bs = utf8_encode s; str_len = length bs
          in bind_r (to_byte (str_len + 2)) (\<lambda>n.
             bind_r (py_set payload (int start_byte) n) (\<lambda>p1.
             bind_r (py_set p1 (int (start_byte + 1)) 1) (\<lambda>p2.
               Inr (if 0 < str_len then py_slice_assign p2 (int (start_byte + 2)) (int (start_byte + str_len + 2)) bs else p2,
                    str_len + 2))))
      | _ \<Rightarrow> Inl AttributeError)"

text \<open>\<^verbatim>\<open>insert_string\<close>: the length is counted in characters. The bytes replace as many of the buffer, the rest of the
  field is set to 0xFF byte by byte.\<close>

fun pad_ff :: "bytes \<Rightarrow> nat list \<Rightarrow> bytes result" where
  "pad_ff buffer [] = Inr buffer"
| "pad_ff buffer (i # idx) = bind_r (py_set buffer (int i) 0xFF) (\<lambda>b. pad_ff b idx)"

definition insert_string :: "bytes \<Rightarrow> nat \<Rightarrow> nat \<Rightarrow> attr \<Rightarrow> bytes result" where
  "insert_string buffer start len a =
     (case a of
        AText s \<Rightarrow>
          let delta_l = int len - int (length s);
              bs = (if delta_l < 0 then utf8_encode (take len s) else utf8_encode s);
              last_to_insert = start + length bs;
              b1 = py_slice_assign buffer (int start) (int last_to_insert) bs
          in (if 0 < delta_l then pad_ff b1 [last_to_insert..<start + len] else Inr b1)
      | _ \<Rightarrow> Inl TypeError)"

section \<open>Repeated groups\<close>

fun decode_repeat :: "nat \<Rightarrow> (nat \<Rightarrow> (attrs \<times> nat) result) \<Rightarrow> nat \<Rightarrow> attrs list \<Rightarrow> (attrs list \<times> nat) result" where
  "decode_repeat 0 f start acc = Inr (acc, start)"
| "decode_repeat (Suc n) f start acc = bind_r (f start) (\<lambda>(m, next_start). decode_repeat n f next_start (acc @ [m]))"

fun encode_repeat :: "(attrs \<Rightarrow> bytes \<Rightarrow> nat \<Rightarrow> (bytes \<times> nat) result) \<Rightarrow> attrs list \<Rightarrow> bytes \<Rightarrow> nat \<Rightarrow> (bytes \<times> nat) result" where
  "encode_repeat f [] buffer start = Inr (buffer, start)"
| "encode_repeat f (m # ms) buffer start = bind_r (f m buffer start) (\<lambda>(b, s). encode_repeat f ms b s)"

definition attr_list :: "attrs \<Rightarrow> string \<Rightarrow> attrs list result" where
  "attr_list m name = bind_r (get_attr m name) (\<lambda>a. case a of AList xs \<Rightarrow> Inr xs | _ \<Rightarrow> Inl TypeError)"

text \<open>\<^verbatim>\<open>range(0, n)\<close> on an attribute.\<close>

definition attr_count :: "attrs \<Rightarrow> string \<Rightarrow> nat result" where
  "attr_count m name = bind_r (get_attr m name) (\<lambda>a. case a of AInt i \<Rightarrow> Inr (nat i) | _ \<Rightarrow> Inl TypeError)"

text \<open>\<^verbatim>\<open>v = (self._a & m) << s\<close>, \<^verbatim>\<open>v |= m << s\<close>.\<close>

definition attr_field :: "attrs \<Rightarrow> string \<Rightarrow> int \<Rightarrow> nat \<Rightarrow> int result" where
  "attr_field m name msk s = map_sum id (push_bit s) (attr_bits m name msk)"

definition pad_bits :: "int \<Rightarrow> nat \<Rightarrow> int result" where
  "pad_bits v s = Inr (push_bit s v)"

definition or_fields :: "int result list \<Rightarrow> int result" where
  "or_fields rs = map_sum id (foldl (OR) 0) (all_results rs)"

definition DEFAULT_BUFFER_SIZE :: nat where
  "DEFAULT_BUFFER_SIZE = 31 * 7 + 6"

section \<open>Classes\<close>

text \<open>The sets of names for values: those of a class, and those loaded from the definitions, by their name.\<close>

datatype enum_def = LocalEnum "(int \<times> string) list" | GlobalEnum string

type_synonym enum_set = "(string, (int, string) dict) dict"

text \<open>How a field is written in JSON: attribute, name of the field, the value that stands for none, or the format
  of the number with the coefficient, offset and format of its other unit.\<close>

datatype formatter =
    GenericFormatter string string int
  | FloatFormatter string string string "(real \<times> real \<times> string) option"
  | EnumFormatter string string int enum_def
  | TextFormatter string string
  | RepeatedFormatter string string string

record gen_header =
  gh_name :: string
  gh_pgn :: "nat option"
  gh_title :: string
  gh_manufacturer :: "nat option"
  gh_structs :: "string list"
  gh_slots :: "string list"
  gh_static :: "nat option"
  gh_enums :: "(string \<times> enum_def) list"
  gh_json :: "formatter list"
  gh_init :: attrs

text \<open>The properties read and written, the texts of enumerations (property, enumeration, attribute), and the methods
  that add an item (method, list, count).\<close>

record gen_access =
  ga_get :: "string list"
  ga_set :: "string list"
  ga_text :: "(string \<times> string \<times> string) list"
  ga_add :: "(string \<times> string \<times> string) list"

text \<open>The fields copied to and from protobuf, with their protobuf type; a repeated group with the attribute that
  counts it.\<close>

datatype pb_field = PbField string string | PbList string string "(string \<times> string) list"

record gen_class =
  gc_header :: gen_header
  gc_access :: gen_access
  gc_decode :: "rounding \<Rightarrow> bytes \<Rightarrow> nat \<Rightarrow> attrs \<Rightarrow> (attrs \<times> nat) result"
  gc_encode :: "(rounding \<Rightarrow> attrs \<Rightarrow> bytes result) option"
  gc_fields :: "pb_field list"
  gc_items :: "(string \<times> gen_header) list"

section \<open>Properties\<close>

definition get_property :: "gen_access \<Rightarrow> string \<Rightarrow> attrs \<Rightarrow> attr result" where
  "get_property acc p self = (if p \<in> set (ga_get acc) then get_attr self p else Inl AttributeError)"

definition set_property :: "gen_access \<Rightarrow> string \<Rightarrow> attr \<Rightarrow> attrs \<Rightarrow> attrs result" where
  "set_property acc p value self = (if p \<in> set (ga_set acc) then Inr (dict_set p value self) else Inl AttributeError)"

text \<open>A text for the value of an attribute: the class falls back on a text of its own, the loaded enumerations raise.
  Values other than integers are not modelled.\<close>

definition text_property :: "enum_set \<Rightarrow> gen_class \<Rightarrow> string \<Rightarrow> attrs \<Rightarrow> string result" where
  "text_property genums c p self =
     (case dict_get (ga_text (gc_access c)) p of
        None \<Rightarrow> Inl AttributeError
      | Some (e, a) \<Rightarrow>
          bind_r (get_attr self a) (\<lambda>v.
            case (v, dict_get (gh_enums (gc_header c)) e) of
              (AInt i, Some (LocalEnum t)) \<Rightarrow>
                Inr (case dict_get t i of Some s \<Rightarrow> s | None \<Rightarrow> a @ '' key error'')
            | (AInt i, Some (GlobalEnum g)) \<Rightarrow>
                (case dict_get genums g of
                   None \<Rightarrow> Inl KeyError
                 | Some t \<Rightarrow> (case dict_get t i of Some s \<Rightarrow> Inr s | None \<Rightarrow> Inl KeyError))
            | (_, None) \<Rightarrow> Inl AttributeError
            | _ \<Rightarrow> Inl NotModelled))"

definition add_item :: "gen_access \<Rightarrow> string \<Rightarrow> attrs \<Rightarrow> attrs \<Rightarrow> attrs result" where
  "add_item acc p item self =
     (case dict_get (ga_add acc) p of
        None \<Rightarrow> Inl AttributeError
      | Some (l, n) \<Rightarrow>
          bind_r (attr_list self l) (\<lambda>items.
          bind_r (get_attr self n) (\<lambda>v.
            case v of
              AInt k \<Rightarrow> set_property acc n (AInt (k + 1)) (dict_set l (AList (items @ [item])) self)
            | _ \<Rightarrow> Inl TypeError)))"

section \<open>Protobuf\<close>

text \<open>A protobuf message is the dictionary of its fields; \<open>store\<close> is what a field of a type holds after an assignment,
  or the exception the assignment raises. A field that was not set reads as the default of its type.\<close>

type_synonym pb_store = "string \<Rightarrow> attr \<Rightarrow> attr result"

definition pb_default :: "string \<Rightarrow> attr" where
  "pb_default ty =
     (if ty = ''string'' then AText [] else if ty \<in> {''float'', ''double''} then AFloat (Some 0) else AInt 0)"

definition pb_get :: "attrs \<Rightarrow> string \<Rightarrow> string \<Rightarrow> attr" where
  "pb_get pb f ty = (case dict_get pb f of Some a \<Rightarrow> a | None \<Rightarrow> pb_default ty)"

definition pb_items :: "attrs \<Rightarrow> string \<Rightarrow> attrs list" where
  "pb_items pb f = (case dict_get pb f of Some (AList xs) \<Rightarrow> xs | _ \<Rightarrow> [])"

definition from_plain :: "(string \<times> string) list \<Rightarrow> attrs \<Rightarrow> attrs \<Rightarrow> attrs" where
  "from_plain fs pb self = assign (map (\<lambda>(f, ty). (f, pb_get pb f ty)) fs) self"

fun set_plain :: "pb_store \<Rightarrow> (string \<times> string) list \<Rightarrow> attrs \<Rightarrow> attrs \<Rightarrow> attrs result" where
  "set_plain store [] self pb = Inr pb"
| "set_plain store ((f, ty) # fs) self pb =
     bind_r (get_attr self f) (\<lambda>a. bind_r (store ty a) (\<lambda>b. set_plain store fs self (dict_set f b pb)))"

fun from_protobuf :: "pb_field list \<Rightarrow> attrs \<Rightarrow> attrs \<Rightarrow> attrs result" where
  "from_protobuf [] pb self = Inr self"
| "from_protobuf (PbField f ty # fs) pb self = from_protobuf fs pb (from_plain [(f, ty)] pb self)"
| "from_protobuf (PbList l n sub # fs) pb self =
     bind_r (attr_list self l) (\<lambda>items.
       let all_items = items @ map (\<lambda>x. from_plain sub x []) (pb_items pb l)
       in from_protobuf fs pb (dict_set n (AInt (int (length all_items))) (dict_set l (AList all_items) self)))"

text \<open>\<^verbatim>\<open>set_protobuf\<close> on a message, and \<^verbatim>\<open>as_protobuf\<close> on a new one. The count of a group is written as it is before it
  is set to the length of the list.\<close>

fun set_protobuf :: "pb_store \<Rightarrow> pb_field list \<Rightarrow> attrs \<Rightarrow> attrs \<Rightarrow> (attrs \<times> attrs) result" where
  "set_protobuf store [] self pb = Inr (pb, self)"
| "set_protobuf store (PbField f ty # fs) self pb =
     bind_r (set_plain store [(f, ty)] self pb) (\<lambda>pb1. set_protobuf store fs self pb1)"
| "set_protobuf store (PbList l n sub # fs) self pb =
     bind_r (attr_list self l) (\<lambda>items.
     bind_r (all_results (map (\<lambda>x. set_plain store sub x []) items)) (\<lambda>subs.
       set_protobuf store fs (dict_set n (AInt (int (length items))) self)
         (dict_set l (AList (pb_items pb l @ subs)) pb)))"

definition as_protobuf :: "pb_store \<Rightarrow> pb_field list \<Rightarrow> attrs \<Rightarrow> (attrs \<times> attrs) result" where
  "as_protobuf store fs self = set_protobuf store fs self []"

section \<open>Message objects\<close>

record gen_obj =
  go_class :: gen_class
  go_sa :: nat
  go_da :: nat
  go_ts :: real
  go_prio :: nat
  go_attrs :: attrs

definition gen_of_message :: "rounding \<Rightarrow> gen_class \<Rightarrow> n2k_msg \<Rightarrow> gen_obj result" where
  "gen_of_message fl c m =
     map_sum id (\<lambda>(a, _). \<lparr>go_class = c, go_sa = m_sa m, go_da = m_da m, go_ts = m_ts m, go_prio = m_prio m, go_attrs = a\<rparr>)
       (gc_decode c fl (m_payload m) 0 (gh_init (gc_header c)))"

text \<open>The protobuf form: the header, and the payload with the name of its class. Unpacking a payload of another class
  leaves the defaults.\<close>

record decoded_pb =
  dp_pgn :: nat
  dp_sa :: nat
  dp_da :: nat
  dp_ts :: real
  dp_prio :: nat
  dp_payload :: "string \<times> attrs"

definition gen_of_protobuf :: "gen_class \<Rightarrow> decoded_pb \<Rightarrow> gen_obj result" where
  "gen_of_protobuf c pb =
     map_sum id (\<lambda>a. \<lparr>go_class = c, go_sa = dp_sa pb, go_da = dp_da pb, go_ts = dp_ts pb, go_prio = dp_prio pb, go_attrs = a\<rparr>)
       (from_protobuf (gc_fields c) (if fst (dp_payload pb) = gh_name (gc_header c) then snd (dp_payload pb) else [])
          (gh_init (gc_header c)))"

definition new_gen_obj :: "real \<Rightarrow> gen_class \<Rightarrow> gen_obj" where
  "new_gen_obj now c =
     \<lparr>go_class = c, go_sa = 0, go_da = 255, go_ts = now, go_prio = 7, go_attrs = gh_init (gc_header c)\<rparr>"

definition go_pgn :: "gen_obj \<Rightarrow> nat" where
  "go_pgn ob = (case gh_pgn (gc_header (go_class ob)) of Some p \<Rightarrow> p | None \<Rightarrow> 0)"

definition gen_protobuf_message :: "pb_store \<Rightarrow> gen_obj \<Rightarrow> (decoded_pb \<times> gen_obj) result" where
  "gen_protobuf_message store ob =
     map_sum id (\<lambda>(pb, a).
         (\<lparr>dp_pgn = go_pgn ob, dp_sa = go_sa ob, dp_da = go_da ob, dp_ts = go_ts ob, dp_prio = go_prio ob,
           dp_payload = (gh_name (gc_header (go_class ob)), pb)\<rparr>, ob\<lparr>go_attrs := a\<rparr>))
       (as_protobuf store (gc_fields (go_class ob)) (go_attrs ob))"

definition gen_message :: "rounding \<Rightarrow> real \<Rightarrow> gen_obj \<Rightarrow> n2k_msg result" where
  "gen_message fl now ob =
     bind_r (case gc_encode (go_class ob) of
               None \<Rightarrow> Inl NotImplementedError
             | Some f \<Rightarrow> (case f fl (go_attrs ob) of
                           Inl e \<Rightarrow> Inl (if e = StructError then NMEA2000EncodeDecodeError else e)
                         | Inr p \<Rightarrow> Inr p))
       (\<lambda>p. new_n2k_msg now (go_pgn ob) (go_prio ob) (go_sa ob) (go_da ob) (Some p) (go_ts ob))"

definition set_obj_sa :: "nat \<Rightarrow> gen_obj \<Rightarrow> gen_obj" where
  "set_obj_sa sa ob = ob\<lparr>go_sa := sa AND 0xFF\<rparr>"

definition set_obj_da :: "nat \<Rightarrow> gen_obj \<Rightarrow> gen_obj" where
  "set_obj_da da ob = ob\<lparr>go_da := da AND 0xFF\<rparr>"

definition set_obj_priority :: "nat \<Rightarrow> gen_obj \<Rightarrow> gen_obj" where
  "set_obj_priority prio ob = ob\<lparr>go_prio := prio AND 7\<rparr>"

definition set_obj_timestamp :: "real \<Rightarrow> gen_obj \<Rightarrow> gen_obj" where
  "set_obj_timestamp ts ob = ob\<lparr>go_ts := ts\<rparr>"

section \<open>JSON\<close>

text \<open>The options are bits: resolve enumerations, leave out invalid fields, use the other unit.\<close>

definition int_text :: "int \<Rightarrow> ustr" where
  "int_text i = (if i < 0 then 45 # dec_text (nat (- i)) else dec_text (nat i))"

definition quoted :: "ustr \<Rightarrow> ustr" where
  "quoted s = 34 # s @ [34]"

text \<open>\<^verbatim>\<open>str(value)\<close> of an integer or a text; that of a float or a list is not modelled.\<close>

definition str_attr :: "attr \<Rightarrow> ustr result" where
  "str_attr a = (case a of AInt i \<Rightarrow> Inr (int_text i) | AText s \<Rightarrow> Inr s | _ \<Rightarrow> Inl NotModelled)"

text \<open>The formats of the source are \<^verbatim>\<open>{:.<n>f}\<close> with one digit.\<close>

definition fixed_digits :: "string \<Rightarrow> nat option" where
  "fixed_digits s =
     (if length s = 6 \<and> take 3 s = ''{:.'' \<and> drop 4 s = ''f}'' then Some ((of_char (s ! 3) :: nat) - 48) else None)"

definition format_real :: "string \<Rightarrow> real \<Rightarrow> ustr result" where
  "format_real s x = (case fixed_digits s of Some p \<Rightarrow> Inr (fmt_fixed p x) | None \<Rightarrow> Inl NotModelled)"

definition json_float :: "rounding \<Rightarrow> nat \<Rightarrow> string \<Rightarrow> (real \<times> real \<times> string) option \<Rightarrow> attr \<Rightarrow> ustr result" where
  "json_float fl opt fmt alternative a =
     bind_r (as_number a) (\<lambda>v.
       case v of
         None \<Rightarrow> Inr (quoted (text_of ''nan''))
       | Some x \<Rightarrow>
           (case alternative of
              None \<Rightarrow> format_real fmt x
            | Some (coefficient, offset, alt_fmt) \<Rightarrow>
                format_real alt_fmt (if opt AND 4 \<noteq> 0 then fl (fl (x * coefficient) + offset) else x)))"

definition json_enum :: "enum_set \<Rightarrow> nat \<Rightarrow> enum_def \<Rightarrow> attr \<Rightarrow> ustr result" where
  "json_enum genums opt ed a =
     (if opt AND 1 = 0 then str_attr a
      else bind_r (case ed of LocalEnum t \<Rightarrow> Inr t
                   | GlobalEnum g \<Rightarrow> (case dict_get genums g of None \<Rightarrow> Inl KeyError | Some t \<Rightarrow> Inr t)) (\<lambda>t.
        case a of
          AInt i \<Rightarrow>
            Inr (quoted (case dict_get t i of Some s \<Rightarrow> text_of s
                         | None \<Rightarrow> text_of ''Value out of range '' @ int_text i))
        | _ \<Rightarrow> Inl NotModelled))"

text \<open>The name and the value of a field that is no group.\<close>

definition json_label :: "string \<Rightarrow> ustr" where
  "json_label s = quoted (text_of s) @ [58]"

definition json_plain :: "rounding \<Rightarrow> enum_set \<Rightarrow> nat \<Rightarrow> attrs \<Rightarrow> formatter \<Rightarrow> ustr result" where
  "json_plain fl genums opt self f =
     (case f of
        GenericFormatter a s _ \<Rightarrow> map_sum id ((@) (json_label s)) (bind_r (get_attr self a) str_attr)
      | FloatFormatter a s fmt alt \<Rightarrow> map_sum id ((@) (json_label s)) (bind_r (get_attr self a) (json_float fl opt fmt alt))
      | EnumFormatter a s _ ed \<Rightarrow> map_sum id ((@) (json_label s)) (bind_r (get_attr self a) (json_enum genums opt ed))
      | TextFormatter a s \<Rightarrow>
          bind_r (get_attr self a) (\<lambda>v. case v of AText t \<Rightarrow> Inr (json_label s @ quoted t) | _ \<Rightarrow> Inl TypeError)
      | RepeatedFormatter a s _ \<Rightarrow> map_sum id ((@) (json_label s)) (bind_r (get_attr self a) str_attr))"

text \<open>\<^verbatim>\<open>check_valid\<close>: the value differs from the one that stands for none, a number is not \<^verbatim>\<open>nan\<close>.\<close>

definition json_valid :: "attrs \<Rightarrow> formatter \<Rightarrow> bool result" where
  "json_valid self f =
     (let differs = (\<lambda>msk a. case a of AInt i \<Rightarrow> i \<noteq> msk | AFloat (Some x) \<Rightarrow> x \<noteq> of_int msk | _ \<Rightarrow> True)
      in case f of
        GenericFormatter a _ msk \<Rightarrow> map_sum id (differs msk) (get_attr self a)
      | FloatFormatter a _ _ _ \<Rightarrow> bind_r (get_attr self a) (\<lambda>v. map_sum id (\<lambda>x. x \<noteq> None) (as_number v))
      | EnumFormatter a _ msk _ \<Rightarrow> map_sum id (differs msk) (get_attr self a)
      | TextFormatter a _ \<Rightarrow> Inr True
      | RepeatedFormatter a _ _ \<Rightarrow> map_sum id (differs 0) (get_attr self a))"

fun valid_formatters :: "attrs \<Rightarrow> formatter list \<Rightarrow> formatter list result" where
  "valid_formatters self [] = Inr []"
| "valid_formatters self (f # fs) =
     bind_r (json_valid self f) (\<lambda>ok. map_sum id (\<lambda>gs. if ok then f # gs else gs) (valid_formatters self fs))"

definition chosen_formatters :: "nat \<Rightarrow> attrs \<Rightarrow> formatter list \<Rightarrow> formatter list result" where
  "chosen_formatters opt self fs = (if opt AND 2 \<noteq> 0 then valid_formatters self fs else Inr fs)"

definition json_object_text :: "rounding \<Rightarrow> enum_set \<Rightarrow> nat \<Rightarrow> formatter list \<Rightarrow> attrs \<Rightarrow> ustr result" where
  "json_object_text fl genums opt fs item =
     bind_r (chosen_formatters opt item fs) (\<lambda>gs.
       map_sum id (\<lambda>ts. 123 # join_on 44 ts @ [125]) (all_results (map (json_plain fl genums opt item) gs)))"

text \<open>The items of a group: a comma follows each as long as fewer were written than the count says.\<close>

fun json_items :: "int \<Rightarrow> int \<Rightarrow> ustr list \<Rightarrow> ustr" where
  "json_items n k [] = []"
| "json_items n k (t # ts) = t @ (if k + 1 < n then [44] else []) @ json_items n (k + 1) ts"

definition json_field :: "rounding \<Rightarrow> enum_set \<Rightarrow> nat \<Rightarrow> gen_class \<Rightarrow> attrs \<Rightarrow> formatter \<Rightarrow> ustr result" where
  "json_field fl genums opt c self f =
     (case f of
        RepeatedFormatter a s l \<Rightarrow>
          bind_r (json_plain fl genums opt self f) (\<lambda>t.
          bind_r (get_attr self a) (\<lambda>v.
            case v of
              AInt n \<Rightarrow>
                if n \<le> 0 then Inr t
                else bind_r (attr_list self l) (\<lambda>items.
                  case (items, dict_get (gc_items c) l) of
                    ([], _) \<Rightarrow> Inl IndexError
                  | (_, None) \<Rightarrow> Inl AttributeError
                  | (_, Some h) \<Rightarrow>
                      map_sum id (\<lambda>ts. t @ text_of '',\"list\":['' @ json_items n 0 ts @ [93])
                        (all_results (map (json_object_text fl genums opt (gh_json h)) items)))
            | _ \<Rightarrow> Inl TypeError))
      | _ \<Rightarrow> json_plain fl genums opt self f)"

text \<open>\<^verbatim>\<open>push_json\<close>: what is written when no exception interrupts it. The date is the text \<open>iso_date\<close>.\<close>

definition json_header :: "ustr \<Rightarrow> gen_obj \<Rightarrow> ustr" where
  "json_header iso_date ob =
     text_of ''{\"timestamp:\":\"'' @ iso_date @ text_of ''\",\"prio\":'' @ dec_text (go_prio ob) @ text_of '',\"navigation_server\":''
       @ dec_text (go_sa ob) @ text_of '',\"dst\":'' @ dec_text (go_da ob) @ text_of '',\"pgn\":'' @ dec_text (go_pgn ob)
       @ text_of '',\"description\":\"'' @ text_of (gh_title (gc_header (go_class ob))) @ text_of ''\", \"fields\":{''"

definition push_json :: "rounding \<Rightarrow> enum_set \<Rightarrow> nat \<Rightarrow> ustr \<Rightarrow> gen_obj \<Rightarrow> ustr result" where
  "push_json fl genums opt iso_date ob =
     bind_r (chosen_formatters opt (go_attrs ob) (gh_json (gc_header (go_class ob)))) (\<lambda>fs.
       if fs = [] then Inl AssertionError
       else map_sum id (\<lambda>ts. json_header iso_date ob @ join_on 44 ts @ [125, 125])
              (all_results (map (json_field fl genums opt (go_class ob) (go_attrs ob)) fs)))"

end
