(* ===== verification/GenLemmas.thy ===== *)
theory GenLemmas
  imports GenBase
begin

text \<open>
  What the classes share of facts: packing and unpacking with \<^verbatim>\<open>struct\<close>, the conversion of numbers to their integers
  and back, the copies to and from protobuf.
\<close>

section \<open>Packing\<close>

lemma formats_simps [simp]:
  "formats [] = []"
  "formats (CHR ''B'' # s) = (1, False) # formats s" "formats (CHR ''b'' # s) = (1, True) # formats s"
  "formats (CHR ''H'' # s) = (2, False) # formats s" "formats (CHR ''h'' # s) = (2, True) # formats s"
  "formats (CHR ''I'' # s) = (4, False) # formats s" "formats (CHR ''i'' # s) = (4, True) # formats s"
  "formats (CHR ''Q'' # s) = (8, False) # formats s" "formats (CHR ''q'' # s) = (8, True) # formats s"
  "formats (CHR ''<'' # s) = formats s"
  by (simp_all add: formats_def format_of_def List.map_filter_simps)

lemma length_pack_list: "pack_list fs vs = Inr bs \<Longrightarrow> length bs = sum_list (map fst fs)"
  by (induction fs vs arbitrary: bs rule: pack_list.induct) (auto simp: map_sum_Inr_iff split: if_splits)

lemma length_put_at: "off + length bs \<le> length buffer \<Longrightarrow> length (put_at buffer off bs) = length buffer"
  by (simp add: put_at_def)

lemma all_results_Inr [simp]: "all_results (map Inr xs) = Inr xs"
  by (induction xs) simp_all

lemma pack_into_length: "pack_into s buffer off args = Inr q \<Longrightarrow> length q = length buffer"
  by (auto simp: pack_into_def bind_r_Inr_iff map_sum_Inr_iff struct_size_def length_put_at
      dest: length_pack_list split: if_splits)

lemma pack_into_room: "pack_into s buffer off args = Inr q \<Longrightarrow> off + struct_size s \<le> length buffer"
  by (auto simp: pack_into_def bind_r_Inr_iff split: if_splits)

lemma format_sizes: "\<forall>(n, sgn_fmt) \<in> set (formats s). 0 < n"
  by (induction s) (auto simp: formats_def format_of_def List.map_filter_def split: if_splits)

lemma read_int_encode:
  assumes "in_format n sgn_fmt v" "0 < n"
  shows "read_int n sgn_fmt (le_encode n (nat (v mod 2 ^ (8 * n)))) = v"
proof -
  have p: "(2 :: int) ^ (8 * n) = 2 * 2 ^ (8 * n - 1)"
    using assms(2) by (metis Suc_diff_1 mult_pos_pos power_Suc zero_less_numeral)
  have "nat (v mod 2 ^ (8 * n)) < 256 ^ n"
  proof -
    have "v mod 2 ^ (8 * n) < 2 ^ (8 * n)" by simp
    moreover have "(256 :: int) ^ n = 2 ^ (8 * n)" by (simp add: power_mult)
    moreover have "0 \<le> v mod 2 ^ (8 * n)" by simp
    ultimately have "int (nat (v mod 2 ^ (8 * n))) < int (256 ^ n)" by simp
    then show ?thesis by linarith
  qed
  then have d: "int (le_decode (le_encode n (nat (v mod 2 ^ (8 * n))))) = v mod 2 ^ (8 * n)"
    by (simp add: le_decode_encode_id)
  show ?thesis
  proof (cases "0 \<le> v")
    case True
    then have "v mod 2 ^ (8 * n) = v" using assms(1) p by (simp add: in_format_def split: if_splits)
    with d True assms(1) show ?thesis by (simp add: read_int_def in_format_def Let_def split: if_splits)
  next
    case False
    then have s: "sgn_fmt" "- (2 ^ (8 * n - 1)) \<le> v" using assms(1) by (auto simp: in_format_def split: if_splits)
    then have "0 \<le> v + 2 ^ (8 * n)" "v + 2 ^ (8 * n) < 2 ^ (8 * n)" using False p by linarith+
    then have "(v + 2 ^ (8 * n)) mod 2 ^ (8 * n) = v + 2 ^ (8 * n)" by (rule mod_pos_pos_trivial)
    then have "v mod 2 ^ (8 * n) = v + 2 ^ (8 * n)" by simp
    then show ?thesis using d s p False by (simp add: read_int_def Let_def)
  qed
qed

lemma unpack_pack_list:
  assumes "pack_list fs (map AInt vs) = Inr bs" "\<forall>(n, sgn_fmt) \<in> set fs. 0 < n"
  shows "unpack_list fs (bs @ r) = vs"
  using assms
proof (induction fs arbitrary: vs bs)
  case Nil
  then show ?case by (cases vs) auto
next
  case (Cons f fs)
  obtain n sgn_fmt where f: "f = (n, sgn_fmt)" by (cases f)
  obtain v ws where vs: "vs = v # ws" using Cons.prems(1) by (cases vs) (auto simp: f)
  from Cons.prems(1) obtain b where b: "in_format n sgn_fmt v" "pack_list fs (map AInt ws) = Inr b"
    "bs = le_encode n (nat (v mod 2 ^ (8 * n))) @ b"
    by (auto simp: f vs map_sum_Inr_iff split: if_splits)
  then show ?case using Cons.IH [OF b(2)] Cons.prems(2) by (simp add: f vs read_int_encode)
qed

lemma pack_list_fits:
  assumes "list_all2 (\<lambda>(n, sgn_fmt) v. in_format n sgn_fmt v) fs vs"
  shows "\<exists>bs. pack_list fs (map AInt vs) = Inr bs"
  using assms by (induction rule: list_all2_induct) auto

text \<open>Numbers that fit their formats are packed, and unpacked again; the rest of the buffer is kept.\<close>

lemma pack_into_fits:
  assumes "all_results args = Inr (map AInt vs)" "list_all2 (\<lambda>(n, sgn_fmt) v. in_format n sgn_fmt v) (formats s) vs"
    "off + struct_size s \<le> length buffer"
  obtains q where "pack_into s buffer off args = Inr q" "length q = length buffer" "unpack_from s q off = Inr vs"
    "take off q = take off buffer" "drop (off + struct_size s) q = drop (off + struct_size s) buffer"
proof -
  obtain bs where bs: "pack_list (formats s) (map AInt vs) = Inr bs" using pack_list_fits [OF assms(2)] by blast
  have l: "length bs = struct_size s" using length_pack_list [OF bs] by (simp add: struct_size_def)
  let ?q = "put_at buffer off bs"
  have q: "pack_into s buffer off args = Inr ?q" using assms(1,3) bs by (simp add: pack_into_def)
  have lq: "length ?q = length buffer" using l assms(3) by (simp add: length_put_at)
  have "drop off ?q = bs @ drop (off + length bs) buffer" using assms(3) by (simp add: put_at_def)
  then have "unpack_from s ?q off = Inr vs"
    using unpack_pack_list [OF bs format_sizes] l lq assms(3) by (simp add: unpack_from_def)
  with q lq l assms(3) show ?thesis by (intro that [of ?q]) (auto simp: put_at_def)
qed

lemma read_int_range:
  assumes "length bs = n" "0 < n"
  shows "in_format n sgn_fmt (read_int n sgn_fmt bs)"
proof -
  have "le_decode bs < 256 ^ n" using le_decode_bound [of bs] assms(1) by simp
  then have "int (le_decode bs) < int (256 ^ n)" by linarith
  then have b: "int (le_decode bs) < 2 ^ (8 * n)" by (simp add: power_mult)
  have p: "(2 :: int) ^ (8 * n) = 2 * 2 ^ (8 * n - 1)"
    using assms(2) by (metis Suc_diff_1 mult_pos_pos power_Suc zero_less_numeral)
  show ?thesis using b p by (auto simp: in_format_def read_int_def Let_def)
qed

lemma unpack_list_range:
  assumes "\<forall>(n, sgn_fmt) \<in> set fs. 0 < n" "sum_list (map fst fs) \<le> length bs"
  shows "list_all2 (\<lambda>(n, sgn_fmt) v. in_format n sgn_fmt v) fs (unpack_list fs bs)"
  using assms by (induction fs bs rule: unpack_list.induct) (auto simp: read_int_range)

lemma unpack_from_range:
  assumes "unpack_from s payload start = Inr vs"
  shows "list_all2 (\<lambda>(n, sgn_fmt) v. in_format n sgn_fmt v) (formats s) vs"
    and "start + struct_size s \<le> length payload"
  using assms unpack_list_range [OF format_sizes, of s "drop start payload"]
  by (auto simp: unpack_from_def struct_size_def split: if_splits)

lemma unpack_from_ok:
  "start + struct_size s \<le> length payload \<Longrightarrow> \<exists>vs. unpack_from s payload start = Inr vs"
  by (simp add: unpack_from_def)

section \<open>Numbers\<close>

lemma trunc_int_bounds:
  "0 \<le> x \<Longrightarrow> of_int (trunc_int x) \<le> x" "0 \<le> x \<Longrightarrow> x < of_int (trunc_int x) + 1"
  "x < 0 \<Longrightarrow> x \<le> of_int (trunc_int x)" "x < 0 \<Longrightarrow> of_int (trunc_int x) - 1 < x"
  unfolding trunc_int_def by (auto; linarith)+

text \<open>The integer a number read from the bus is written back as.\<close>

definition rewritten :: "rounding \<Rightarrow> int \<Rightarrow> int \<Rightarrow> real \<Rightarrow> int" where
  "rewritten fl raw msk scale =
     (if raw = -1 \<or> raw = msk then msk
      else trunc_int (fl (fl (fl (fl (fl (of_int raw) * fl scale) + 0) - 0) / fl scale)))"

lemma convert_check [simp]:
  "convert_to_int fl (check_convert_float fl raw msk scale 0) msk (Some scale) 0 = Inr (rewritten fl raw msk scale)"
  by (simp add: convert_to_int_def check_convert_float_def as_number_def rewritten_def)

lemma ieee_error: "ieee_rounding fl \<Longrightarrow> \<bar>x\<bar> \<le> 2 ^ 60 \<Longrightarrow> \<bar>fl x - x\<bar> \<le> \<bar>x\<bar> / 2 ^ 52 + 1 / 2 ^ 200"
  by (auto simp: ieee_rounding_def)

lemma ieee_again: "ieee_rounding fl \<Longrightarrow> fl (fl x) = fl x" "ieee_rounding fl \<Longrightarrow> fl 0 = 0"
  by (auto simp: ieee_rounding_def)

text \<open>Reading a number of at most 33 bits and writing it again is off by less than half a unit before the fraction
  is cut.\<close>

lemma rewrite_error:
  assumes fl: "ieee_rounding fl" and sc: "1 / 10 ^ 16 \<le> scale" "scale \<le> 1000" and r: "\<bar>real_of_int raw\<bar> \<le> 2 ^ 33"
  shows "\<bar>fl (fl (fl (fl (fl (of_int raw) * fl scale) + 0) - 0) / fl scale) - of_int raw\<bar> < 1 / 2"
proof -
  define a where "a = fl (of_int raw)"
  define s where "s = fl scale"
  define b where "b = fl (a * s)"
  have a: "\<bar>a - of_int raw\<bar> \<le> 1 / 2 ^ 18" "\<bar>a\<bar> \<le> 2 ^ 34"
  proof -
    have "\<bar>a - of_int raw\<bar> \<le> \<bar>of_int raw\<bar> / 2 ^ 52 + 1 / 2 ^ 200"
      unfolding a_def using r by (intro ieee_error [OF fl]) simp
    also have "\<dots> \<le> 2 ^ 33 / 2 ^ 52 + 1 / 2 ^ 200" using r by (simp add: divide_right_mono)
    also have "\<dots> \<le> 1 / 2 ^ 18" by simp
    finally show "\<bar>a - of_int raw\<bar> \<le> 1 / 2 ^ 18" .
    moreover have "(2 :: real) ^ 33 + 1 / 2 ^ 18 \<le> 2 ^ 34" by simp
    ultimately show "\<bar>a\<bar> \<le> 2 ^ 34" using r by linarith
  qed
  have "\<bar>s - scale\<bar> \<le> \<bar>scale\<bar> / 2 ^ 52 + 1 / 2 ^ 200" unfolding s_def using sc by (intro ieee_error [OF fl]) simp
  moreover have "1 / 2 ^ 200 \<le> scale / 4" using sc(1) by simp
  moreover have "0 < scale" using sc(1) by (rule less_le_trans [rotated]) simp
  ultimately have s: "scale / 2 \<le> s" "s \<le> 2 * scale" "0 < s" by (simp_all add: abs_le_iff)
  have s2: "1 / 10 ^ 17 \<le> s" "s \<le> 2000" using s sc by simp_all
  have "\<bar>a * s\<bar> \<le> 2 ^ 34 * 2000" unfolding abs_mult using a(2) s2 s(3) by (intro mult_mono) simp_all
  then have "\<bar>a * s\<bar> \<le> 2 ^ 60" by simp
  then have "\<bar>b - a * s\<bar> \<le> \<bar>a * s\<bar> / 2 ^ 52 + 1 / 2 ^ 200" unfolding b_def by (rule ieee_error [OF fl])
  then have "\<bar>b - a * s\<bar> / s \<le> (\<bar>a * s\<bar> / 2 ^ 52 + 1 / 2 ^ 200) / s" using s(3) by (intro divide_right_mono) simp_all
  also have "\<dots> = \<bar>a\<bar> / 2 ^ 52 + 1 / 2 ^ 200 / s" using s(3) by (simp add: abs_mult add_divide_distrib)
  also have "\<dots> \<le> 2 ^ 34 / 2 ^ 52 + 1 / 2 ^ 200 / (1 / 10 ^ 17)"
    using a(2) s2(1) s(3) by (intro add_mono divide_right_mono divide_left_mono) simp_all
  also have "\<dots> \<le> 1 / 2 ^ 17" by simp
  finally have bs: "\<bar>b / s - a\<bar> \<le> 1 / 2 ^ 17"
    using s(3) by (simp add: abs_divide field_simps flip: abs_mult)
  then have b: "\<bar>b / s\<bar> \<le> 2 ^ 35"
  proof -
    have "(1 :: real) / 2 ^ 17 + 2 ^ 34 \<le> 2 ^ 35" by simp
    with bs a(2) show ?thesis by linarith
  qed
  have "\<bar>fl (b / s) - b / s\<bar> \<le> \<bar>b / s\<bar> / 2 ^ 52 + 1 / 2 ^ 200" using b by (intro ieee_error [OF fl]) simp
  also have "\<dots> \<le> 2 ^ 35 / 2 ^ 52 + 1 / 2 ^ 200" using b by (simp add: divide_right_mono)
  also have "\<dots> \<le> 1 / 2 ^ 16" by simp
  finally have "\<bar>fl (b / s) - b / s\<bar> \<le> 1 / 2 ^ 16" .
  moreover have "(1 :: real) / 2 ^ 16 \<le> 1 / 10" "(1 :: real) / 2 ^ 17 \<le> 1 / 10" "(1 :: real) / 2 ^ 18 \<le> 1 / 10" by simp_all
  ultimately have "\<bar>fl (b / s) - of_int raw\<bar> < 1 / 2" using bs a(1) by linarith
  then show ?thesis by (simp add: ieee_again [OF fl] a_def b_def s_def)
qed

lemma rewritten_between:
  assumes fl: "ieee_rounding fl" and sc: "1 / 10 ^ 16 \<le> scale" "scale \<le> 1000" and r: "\<bar>real_of_int raw\<bar> \<le> 2 ^ 33"
    and n: "raw \<noteq> -1" "raw \<noteq> msk"
  shows "0 \<le> raw \<Longrightarrow> 0 \<le> rewritten fl raw msk scale \<and> rewritten fl raw msk scale \<le> raw"
    and "raw < 0 \<Longrightarrow> raw \<le> rewritten fl raw msk scale \<and> rewritten fl raw msk scale \<le> 0"
    and "\<bar>rewritten fl raw msk scale - raw\<bar> \<le> 1"
proof -
  define e where "e = fl (fl (fl (fl (fl (of_int raw) * fl scale) + 0) - 0) / fl scale)"
  have e: "\<bar>e - of_int raw\<bar> < 1 / 2" unfolding e_def by (rule rewrite_error [OF fl sc r])
  have w: "rewritten fl raw msk scale = trunc_int e" using n by (simp add: rewritten_def e_def)
  have z: "raw = 0 \<Longrightarrow> trunc_int e = 0" by (simp add: e_def ieee_again [OF fl] trunc_int_def)
  have p: "0 \<le> e" if "0 < raw"
  proof -
    from that have "1 \<le> real_of_int raw" by simp
    with e show ?thesis by linarith
  qed
  have m: "e < 0" if "raw < 0"
  proof -
    from that have "real_of_int raw \<le> -1" by simp
    with e show ?thesis by linarith
  qed
  consider "raw = 0" | "0 < raw" | "raw < 0" by linarith
  then have "(0 \<le> raw \<longrightarrow> 0 \<le> trunc_int e \<and> trunc_int e \<le> raw) \<and> (raw < 0 \<longrightarrow> raw \<le> trunc_int e \<and> trunc_int e \<le> 0)
      \<and> \<bar>trunc_int e - raw\<bar> \<le> 1"
  proof cases
    case 2
    have "trunc_int e \<le> raw" "raw - 1 \<le> trunc_int e"
      using trunc_int_bounds(1,2) [OF p [OF 2]] e by (simp_all add: abs_less_iff; linarith)+
    then show ?thesis using 2 by auto
  next
    case 3
    have "raw \<le> trunc_int e" "trunc_int e \<le> raw + 1"
      using trunc_int_bounds(3,4) [OF m [OF 3]] e by (simp_all add: abs_less_iff; linarith)+
    then show ?thesis using 3 by auto
  qed (simp add: z)
  then show "0 \<le> raw \<Longrightarrow> 0 \<le> rewritten fl raw msk scale \<and> rewritten fl raw msk scale \<le> raw"
    "raw < 0 \<Longrightarrow> raw \<le> rewritten fl raw msk scale \<and> rewritten fl raw msk scale \<le> 0"
    "\<bar>rewritten fl raw msk scale - raw\<bar> \<le> 1"
    by (auto simp: w)
qed

text \<open>A scale keeps its size when it is rounded.\<close>

lemma scale_rounded:
  assumes fl: "ieee_rounding fl" and sc: "1 / 10 ^ 16 \<le> scale" "scale \<le> 1000"
  shows "0 < scale" "1 / 2 ^ 200 \<le> scale / 2 ^ 100" "\<bar>fl scale - scale\<bar> \<le> scale / 2 ^ 50"
    "scale / 2 \<le> fl scale" "fl scale \<le> scale * (1001 / 1000)" "0 < fl scale"
proof -
  show p: "0 < scale" "1 / 2 ^ 200 \<le> scale / 2 ^ 100"
    using sc(1) by (rule less_le_trans [rotated], simp) (use sc(1) in simp)
  show s: "\<bar>fl scale - scale\<bar> \<le> scale / 2 ^ 50"
  proof -
    have "\<bar>fl scale - scale\<bar> \<le> \<bar>scale\<bar> / 2 ^ 52 + 1 / 2 ^ 200" using sc p by (intro ieee_error [OF fl]) simp
    also have "\<dots> \<le> scale / 2 ^ 52 + scale / 2 ^ 100" using p by simp
    also have "\<dots> \<le> scale / 2 ^ 50" using p(1) by simp
    finally show ?thesis .
  qed
  moreover have "scale / 2 ^ 50 \<le> scale / 1000" using p(1) by simp
  ultimately show "scale / 2 \<le> fl scale" "fl scale \<le> scale * (1001 / 1000)" "0 < fl scale" using p(1) by linarith+
qed

text \<open>A number written to the bus and read back is off by little more than a unit, its integer by little more than one.\<close>

lemma quantised_quotient:
  assumes fl: "ieee_rounding fl" and sc: "1 / 10 ^ 16 \<le> scale" "scale \<le> 1000" and x: "\<bar>x\<bar> \<le> scale * 2 ^ 32"
  shows "\<bar>x / scale\<bar> \<le> 2 ^ 32" "\<bar>fl x - x\<bar> \<le> scale / 2 ^ 18" "\<bar>fl (fl x / fl scale) - fl x / fl scale\<bar> \<le> 1 / 1000"
    "\<bar>fl (fl x / fl scale) - x / scale\<bar> \<le> 1 / 100"
proof -
  define y where "y = fl x"
  define s where "s = fl scale"
  define q where "q = fl (y / s)"
  note p = scale_rounded(1,2) [OF fl sc]
  note s = scale_rounded(3) [OF fl sc, folded s_def] and s2 = scale_rounded(4,5,6) [OF fl sc, folded s_def]
  have y: "\<bar>y - x\<bar> \<le> scale / 2 ^ 18"
  proof -
    have "\<bar>x\<bar> \<le> 2 ^ 60" using x sc(2) by simp
    then have "\<bar>y - x\<bar> \<le> \<bar>x\<bar> / 2 ^ 52 + 1 / 2 ^ 200" unfolding y_def by (rule ieee_error [OF fl])
    also have "\<dots> \<le> scale * 2 ^ 32 / 2 ^ 52 + scale / 2 ^ 100" using p x by (intro add_mono divide_right_mono) simp_all
    also have "\<dots> \<le> scale / 2 ^ 18" using p(1) by simp
    finally show ?thesis .
  qed
  have "scale / 2 ^ 50 \<le> scale / 1000" using p(1) by simp
  then have s2: "scale / 2 \<le> s" "s \<le> scale * (1001 / 1000)" "0 < s" using s p(1) by linarith+
  have ys: "\<bar>y / s - x / scale\<bar> \<le> 1 / 1000"
  proof -
    have d: "y / s - x / scale = (y - x) / s - (s - scale) / s * (x / scale)"
      using p(1) s2(3) by (simp add: field_simps)
    have "\<bar>(y - x) / s\<bar> \<le> 1 / 2 ^ 17"
      using y s2 by (simp add: abs_divide pos_divide_le_eq)
    also have "(1 :: real) / 2 ^ 17 \<le> 1 / 2000" by simp
    finally have y1: "\<bar>(y - x) / s\<bar> \<le> 1 / 2000" .
    have "\<bar>(s - scale) / s\<bar> \<le> 1 / 2 ^ 49" using s s2 by (simp add: abs_divide pos_divide_le_eq)
    moreover have "\<bar>x / scale\<bar> \<le> 2 ^ 32" using x p(1) by (simp add: abs_divide pos_divide_le_eq mult.commute)
    ultimately have "\<bar>(s - scale) / s\<bar> * \<bar>x / scale\<bar> \<le> 1 / 2 ^ 49 * 2 ^ 32" by (intro mult_mono) simp_all
    also have "\<dots> \<le> (1 :: real) / 2000" by simp
    finally have "\<bar>(s - scale) / s * (x / scale)\<bar> \<le> 1 / 2000" unfolding abs_mult .
    with d y1 show ?thesis by linarith
  qed
  have xs: "\<bar>x / scale\<bar> \<le> 2 ^ 32" using x p(1) by (simp add: abs_divide pos_divide_le_eq mult.commute)
  have q: "\<bar>q - y / s\<bar> \<le> 1 / 1000"
  proof -
    have b: "\<bar>y / s\<bar> \<le> 2 ^ 33"
    proof -
      have "(1 :: real) / 1000 + 2 ^ 32 \<le> 2 ^ 33" by simp
      with ys xs show ?thesis by linarith
    qed
    then have "\<bar>q - y / s\<bar> \<le> \<bar>y / s\<bar> / 2 ^ 52 + 1 / 2 ^ 200" unfolding q_def by (intro ieee_error [OF fl]) simp
    also have "\<dots> \<le> 2 ^ 33 / 2 ^ 52 + 1 / 2 ^ 200" using b by (intro add_mono divide_right_mono) simp_all
    also have "\<dots> \<le> 1 / 1000" by simp
    finally show ?thesis .
  qed
  have e: "(1 :: real) / 2 ^ 10 + 1 / 1000 \<le> 1 / 100" by simp
  have qx: "\<bar>q - x / scale\<bar> \<le> 1 / 100" using q ys by linarith
  with xs y q show "\<bar>x / scale\<bar> \<le> 2 ^ 32" "\<bar>fl x - x\<bar> \<le> scale / 2 ^ 18"
    "\<bar>fl (fl x / fl scale) - fl x / fl scale\<bar> \<le> 1 / 1000" "\<bar>fl (fl x / fl scale) - x / scale\<bar> \<le> 1 / 100"
    by (simp_all add: q_def y_def s_def)
qed

lemma quantised:
  assumes fl: "ieee_rounding fl" and sc: "1 / 10 ^ 16 \<le> scale" "scale \<le> 1000" and x: "\<bar>x\<bar> \<le> scale * 2 ^ 32"
  defines "i \<equiv> trunc_int (fl (fl (x - 0) / fl scale))"
  shows "\<bar>fl (fl (fl (of_int i) * fl scale) + 0) - x\<bar> \<le> scale * (101 / 100)"
proof -
  define y where "y = fl x"
  define s where "s = fl scale"
  define q where "q = fl (y / s)"
  note p = scale_rounded(1,2) [OF fl sc] and s2 = scale_rounded(4,5,6) [OF fl sc, folded s_def]
  note xs = quantised_quotient(1) [OF fl sc x] and y = quantised_quotient(2) [OF fl sc x, folded y_def]
    and q = quantised_quotient(3) [OF fl sc x, folded y_def s_def, folded q_def]
    and qx = quantised_quotient(4) [OF fl sc x, folded y_def s_def, folded q_def]
  have i: "\<bar>of_int i - q\<bar> \<le> 1"
    using trunc_int_bounds [of q] unfolding i_def by (simp add: q_def y_def s_def) linarith
  have ib: "\<bar>real_of_int i\<bar> \<le> 2 ^ 33"
  proof -
    have "(1 :: real) + 1 / 100 + 2 ^ 32 \<le> 2 ^ 33" by simp
    with i qx xs show ?thesis by linarith
  qed
  define a where "a = fl (of_int i)"
  have a: "\<bar>a - of_int i\<bar> \<le> 1 / 2 ^ 18"
  proof -
    have "\<bar>a - of_int i\<bar> \<le> \<bar>of_int i\<bar> / 2 ^ 52 + 1 / 2 ^ 200" unfolding a_def using ib by (intro ieee_error [OF fl]) simp
    also have "\<dots> \<le> 2 ^ 33 / 2 ^ 52 + 1 / 2 ^ 200" using ib by (intro add_mono divide_right_mono) simp_all
    also have "\<dots> \<le> 1 / 2 ^ 18" by simp
    finally show ?thesis .
  qed
  have ay: "\<bar>a - y / s\<bar> \<le> 1002 / 1000"
  proof -
    have "(1 :: real) / 2 ^ 18 + 1 + 1 / 1000 \<le> 1002 / 1000" by simp
    with a i q show ?thesis by linarith
  qed
  then have "\<bar>a * s - y\<bar> \<le> s * (1002 / 1000)"
  proof -
    have "\<bar>a - y / s\<bar> * s \<le> 1002 / 1000 * s" using ay s2(3) by (intro mult_right_mono) simp_all
    moreover have "\<bar>a - y / s\<bar> * s = \<bar>a * s - y\<bar>" using s2(3) by (simp add: abs_mult_pos left_diff_distrib flip: abs_mult)
    ultimately show ?thesis by (simp add: mult.commute)
  qed
  moreover have "s * (1002 / 1000) \<le> scale * (1001 / 1000) * (1002 / 1000)" using s2(2) by (intro mult_right_mono) simp_all
  ultimately have as: "\<bar>a * s - y\<bar> \<le> scale * (1004 / 1000)" using p(1) by simp
  have ab: "\<bar>a * s\<bar> \<le> scale * 2 ^ 34"
  proof -
    have "(1 :: real) / 2 ^ 18 \<le> 1" by simp
    with a ib have "\<bar>a\<bar> \<le> 2 ^ 33 + 1" by linarith
    then have "\<bar>a\<bar> * \<bar>s\<bar> \<le> (2 ^ 33 + 1) * (scale * (1001 / 1000))" using s2 by (intro mult_mono) simp_all
    then show ?thesis using p(1) by (simp add: abs_mult)
  qed
  have "\<bar>a * s\<bar> \<le> 2 ^ 60" using ab sc(2) by simp
  then have "\<bar>fl (a * s) - a * s\<bar> \<le> \<bar>a * s\<bar> / 2 ^ 52 + 1 / 2 ^ 200" by (rule ieee_error [OF fl])
  also have "\<dots> \<le> scale * 2 ^ 34 / 2 ^ 52 + scale / 2 ^ 100" using ab p by (intro add_mono divide_right_mono) simp_all
  also have "\<dots> \<le> scale / 2 ^ 17" using p(1) by simp
  finally have "\<bar>fl (a * s) - x\<bar> \<le> scale / 2 ^ 17 + scale * (1004 / 1000) + scale / 2 ^ 18" using as y by linarith
  also have "\<dots> \<le> scale * (101 / 100)" using p(1) by simp
  finally show "\<bar>fl (fl (fl (of_int i) * fl scale) + 0) - x\<bar> \<le> scale * (101 / 100)"
    by (simp add: a_def s_def ieee_again [OF fl])
qed

section \<open>Messages written again\<close>

text \<open>What a field of a received payload may have become when the message is written again: it is the same up to one
  unit, or bits of it that the class does not read were set; the number -1, which the classes take for no value, becomes
  the value that stands for none.\<close>

definition field_kept :: "int \<Rightarrow> int \<Rightarrow> bool" where
  "field_kept v w \<longleftrightarrow> \<bar>w - v\<bar> \<le> 1 \<or> v = -1 \<or> v OR w = w"

definition ints_of :: "attr result list \<Rightarrow> int list" where
  "ints_of args = map (\<lambda>r. case r of Inr (AInt i) \<Rightarrow> i | _ \<Rightarrow> 0) args"

definition fits :: "nat \<times> bool \<Rightarrow> int \<Rightarrow> bool" where
  "fits f v = in_format (fst f) (snd f) v"

lemma fits_eq: "(\<lambda>(n, sgn_fmt) v. in_format n sgn_fmt v) = fits"
  by (auto simp: fits_def fun_eq_iff)

lemma field_kept_same [simp]: "field_kept v v"
  by (simp add: field_kept_def)

lemma rewritten_fits:
  assumes "ieee_rounding fl" "fits (n, sgn_fmt) raw" "fits (n, sgn_fmt) msk" "n \<le> 4" "0 < n"
    "1 / 10 ^ 16 \<le> scale" "scale \<le> 1000"
  shows "fits (n, sgn_fmt) (rewritten fl raw msk scale)" and "field_kept raw (rewritten fl raw msk scale)"
proof -
  have n: "n \<in> {1, 2, 3, 4}" using assms(4,5) by auto
  have r: "\<bar>real_of_int raw\<bar> \<le> 2 ^ 33"
  proof -
    have "\<bar>raw\<bar> \<le> 2 ^ 33" using assms(2) n by (auto simp: fits_def in_format_def split: if_splits)
    then have "real_of_int \<bar>raw\<bar> \<le> real_of_int (2 ^ 33)" by (rule of_int_le_iff [THEN iffD2])
    then show ?thesis by simp
  qed
  have "raw = -1 \<or> raw = msk \<or> (raw \<noteq> -1 \<and> raw \<noteq> msk)" by blast
  then show "fits (n, sgn_fmt) (rewritten fl raw msk scale)"
  proof (elim disjE)
    assume "raw \<noteq> -1 \<and> raw \<noteq> msk"
    then have b: "0 \<le> raw \<Longrightarrow> 0 \<le> rewritten fl raw msk scale \<and> rewritten fl raw msk scale \<le> raw"
      "raw < 0 \<Longrightarrow> raw \<le> rewritten fl raw msk scale \<and> rewritten fl raw msk scale \<le> 0"
      using rewritten_between [OF assms(1,6,7) r] by blast+
    have "(0 :: int) < 2 ^ (8 * n - 1)" by simp
    with b assms(2) show ?thesis by (cases "0 \<le> raw") (auto simp: fits_def in_format_def)
  qed (use assms(3) in \<open>simp_all add: rewritten_def\<close>)
  show "field_kept raw (rewritten fl raw msk scale)"
    using rewritten_between(3) [OF assms(1,6,7) r, of msk] by (auto simp: field_kept_def rewritten_def)
qed

lemma packed_ints:
  assumes "list_all2 fits (formats s) (ints_of args)" "args = map (\<lambda>i. Inr (AInt i)) (ints_of args)"
  obtains q where "pack_into s (replicate (struct_size s) 0) 0 args = Inr q" "length q = struct_size s"
    "unpack_from s q 0 = Inr (ints_of args)"
proof -
  have "all_results (map Inr (map AInt (ints_of args))) = Inr (map AInt (ints_of args))" by (rule all_results_Inr)
  with assms(2) have r: "all_results args = Inr (map AInt (ints_of args))" by (simp add: comp_def)
  show thesis
    using pack_into_fits [OF r, of s 0 "replicate (struct_size s) 0"] assms(1) that by (auto simp: fits_eq)
qed

text \<open>A class of one structure whose payloads can be decoded and written again.\<close>

definition rewritable :: "rounding \<Rightarrow> gen_class \<Rightarrow> bool" where
  "rewritable fl c \<longleftrightarrow>
     (\<forall>payload m n. gc_decode c fl payload 0 [] = Inr (m, n) \<longrightarrow>
        (\<exists>s k f vs q ws. gh_structs (gc_header c) = [s] \<and> gh_static (gc_header c) = Some k \<and> gc_encode c = Some f
           \<and> unpack_from s payload 0 = Inr vs \<and> f fl m = Inr q \<and> length q = k \<and> unpack_from s q 0 = Inr ws
           \<and> list_all2 field_kept vs ws))"

lemma rewritableI:
  assumes "gh_structs (gc_header c) = [s]" "gh_static (gc_header c) = Some (struct_size s)" "gc_encode c = Some f"
    and "\<And>payload m n. gc_decode c fl payload 0 [] = Inr (m, n) \<Longrightarrow> \<exists>vs. unpack_from s payload 0 = Inr vs \<and>
           (list_all2 fits (formats s) vs \<longrightarrow>
              (\<exists>args. f fl m = pack_into s (replicate (struct_size s) 0) 0 args \<and> args = map (\<lambda>i. Inr (AInt i)) (ints_of args)
                 \<and> list_all2 fits (formats s) (ints_of args) \<and> list_all2 field_kept vs (ints_of args)))"
  shows "rewritable fl c"
  unfolding rewritable_def
proof (intro allI impI)
  fix payload m n
  assume "gc_decode c fl payload 0 [] = Inr (m, n)"
  from assms(4) [OF this] obtain vs where vs: "unpack_from s payload 0 = Inr vs"
    and i: "list_all2 fits (formats s) vs \<longrightarrow>
              (\<exists>args. f fl m = pack_into s (replicate (struct_size s) 0) 0 args \<and> args = map (\<lambda>i. Inr (AInt i)) (ints_of args)
                 \<and> list_all2 fits (formats s) (ints_of args) \<and> list_all2 field_kept vs (ints_of args))" by blast
  from unpack_from_range(1) [OF vs] i obtain args where a: "f fl m = pack_into s (replicate (struct_size s) 0) 0 args"
    "args = map (\<lambda>i. Inr (AInt i)) (ints_of args)" "list_all2 fits (formats s) (ints_of args)"
    "list_all2 field_kept vs (ints_of args)" by (auto simp: fits_eq)
  from packed_ints [OF a(3,2)] obtain q where "pack_into s (replicate (struct_size s) 0) 0 args = Inr q"
    "length q = struct_size s" "unpack_from s q 0 = Inr (ints_of args)" .
  then show "\<exists>s k f vs q ws. gh_structs (gc_header c) = [s] \<and> gh_static (gc_header c) = Some k \<and> gc_encode c = Some f
           \<and> unpack_from s payload 0 = Inr vs \<and> f fl m = Inr q \<and> length q = k \<and> unpack_from s q 0 = Inr ws
           \<and> list_all2 field_kept vs ws"
    using assms(1-3) vs a(1,4) by metis
qed

lemma rewritable_class:
  assumes "gh_structs (gc_header c) = [s]" "gh_static (gc_header c) = Some (struct_size s)" "gc_encode c \<noteq> None"
    and d: "\<And>payload e. unpack_from s payload 0 = Inl e \<Longrightarrow> gc_decode c fl payload 0 [] = Inl e"
    and w: "\<And>payload vs m n. unpack_from s payload 0 = Inr vs \<Longrightarrow> list_all2 fits (formats s) vs \<Longrightarrow>
           gc_decode c fl payload 0 [] = Inr (m, n) \<Longrightarrow>
           \<exists>args. the (gc_encode c) fl m = pack_into s (replicate (struct_size s) 0) 0 args \<and> args = map (\<lambda>i. Inr (AInt i)) (ints_of args)
             \<and> list_all2 fits (formats s) (ints_of args) \<and> list_all2 field_kept vs (ints_of args)"
  shows "rewritable fl c"
proof (rule rewritableI [where f = "the (gc_encode c)"])
  fix payload m n
  assume "gc_decode c fl payload 0 [] = Inr (m, n)"
  with d w [of payload _ m n] show "\<exists>vs. unpack_from s payload 0 = Inr vs \<and> (list_all2 fits (formats s) vs \<longrightarrow>
      (\<exists>args. the (gc_encode c) fl m = pack_into s (replicate (struct_size s) 0) 0 args \<and> args = map (\<lambda>i. Inr (AInt i)) (ints_of args)
        \<and> list_all2 fits (formats s) (ints_of args) \<and> list_all2 field_kept vs (ints_of args)))"
    by (cases "unpack_from s payload 0") auto
qed (use assms(1-3) in auto)

text \<open>What the conversions are made of, and what keeps a field.\<close>

lemmas gen_simps = list_all2_Cons1 bind_r_simps assign_def get_attr_def attr_to_int_def attr_field_def attr_bits_def pad_bits_def or_fields_def

lemma bind_r_Inr_right [simp]: "bind_r r Inr = r"
  by (cases r) (simp_all add: bind_r_simps)

text \<open>The bits of a field, put back where they came from.\<close>

lemma push_bit_drop_bit_and:
  "take_bit s m = 0 \<Longrightarrow> push_bit s (drop_bit s v) AND m = (v :: int) AND m"
  "take_bit s m = 0 \<Longrightarrow> m AND push_bit s (drop_bit s v) = (v :: int) AND m"
proof -
  assume "take_bit s m = 0"
  then have "\<not> bit m k" if "k < s" for k using that by (metis bit_0_eq bit_take_bit_iff bot_apply bot_bool_def)
  then show "push_bit s (drop_bit s v) AND m = v AND m" "m AND push_bit s (drop_bit s v) = v AND m"
    by (auto intro!: bit_eqI simp: bit_simps) (metis le_add_diff_inverse linorder_not_le)+
qed

lemma and_or_merge:
  "((v :: int) AND a) OR (v AND b) = v AND (a OR b)"
  "((v AND a) OR numeral c) OR (v AND b) = (v AND (a OR b)) OR numeral c"
  "((v AND a) OR numeral c) OR numeral d = (v AND a) OR (numeral c OR numeral d)"
  "numeral c OR (v AND a) = (v AND a) OR numeral c"
  by (simp_all add: bit.conj_disj_distrib ac_simps)

lemma fits_and:
  "fits (n, False) v \<Longrightarrow> fits (n, False) (v AND numeral a)" "fits (n, False) v \<Longrightarrow> fits (n, False) (v AND 1)"
  unfolding fits_def in_format_def by (auto intro: order.strict_trans1 [OF AND_upper1])

lemma fits_or: "fits (n, False) v \<Longrightarrow> fits (n, False) w \<Longrightarrow> fits (n, False) (v OR w)"
  unfolding fits_def in_format_def by (auto simp: OR_upper)

lemma fits_numeral:
  "fits (n, False) (numeral k) \<longleftrightarrow> numeral k < (2 :: int) ^ (8 * n)"
  "fits (n, True) (numeral k) \<longleftrightarrow> numeral k < (2 :: int) ^ (8 * n - 1)"
  by (auto simp: fits_def in_format_def intro: order.trans [of _ 0])

lemma bits_kept:
  assumes "fits (n, False) v" "a OR b = 2 ^ (8 * n) - 1"
  shows "field_kept v ((v AND a) OR b)"
proof -
  have "v AND (a OR b) = take_bit (8 * n) v" by (simp add: assms(2) take_bit_eq_mask mask_eq_exp_minus_1)
  also have "\<dots> = v" using assms(1) by (simp add: fits_def in_format_def take_bit_int_eq_self_iff)
  finally have "v AND (a OR b) = v" .
  then have "bit a k \<or> bit b k" if "bit v k" for k using that by (metis bit_and_iff bit_or_iff)
  then have "v OR ((v AND a) OR b) = (v AND a) OR b" by (intro bit_eqI) (auto simp: bit_or_iff bit_and_iff)
  then show ?thesis by (simp add: field_kept_def)
qed

lemma bits_kept_all:
  assumes "fits (n, False) v" "a = 2 ^ (8 * n) - 1"
  shows "field_kept v (v AND a)" "field_kept v a"
  using bits_kept [OF assms(1), of a 0] bits_kept [OF assms(1), of 0 a] assms(2) by simp_all

lemmas gen_kept = push_bit_drop_bit_and and_or_merge fits_and fits_or fits_numeral bits_kept bits_kept_all rewritten_fits ints_of_def

lemma fits_masked: "numeral a < (2 :: int) ^ (8 * n) \<Longrightarrow> fits (n, False) (x AND numeral a)" "fits (n, False) 0"
  by (auto simp: fits_def in_format_def intro: order.strict_trans1 [OF AND_upper2])

lemma one_bit: "drop_bit (Suc 0) v * 2 AND 2 = (v :: int) AND 2"
  using push_bit_drop_bit_and(1) [of 1 2 v] by (simp add: push_bit_eq_mult)

lemmas word_kept = gen_kept fits_masked one_bit and.assoc

end
