(* ===== verification/GenVessel.thy ===== *)
theory GenVessel
  imports GenBase
begin

text \<open>
  The classes of \<^verbatim>\<open>generated/nmea2000_classes_gen.py\<close> for time, heading, rudder, engine, battery, speed, depth and log messages, and those of the autopilot.
  Of each: its constants (\<open>_header\<close>), its properties (\<open>_access\<close>), its two conversions and the fields it copies
  to and from protobuf (\<open>_fields\<close>), in the order of the source.
\<close>

section \<open>65359: Raymarine: Pilot heading\<close>

definition pgn65359_header :: gen_header where
  "pgn65359_header =
     \<lparr>gh_name = ''Pgn65359Mfg1851Class'', gh_pgn = Some 65359, gh_title = ''Raymarine: Pilot heading'',
      gh_manufacturer = Some 1851, gh_structs = [''<HBHH''],
      gh_slots = [''sequence_id'', ''true_heading'', ''magnetic_heading''], gh_static = Some 7, gh_enums = [],
      gh_json =
       [GenericFormatter ''sequence_id'' ''SID'' 0xFF,
        FloatFormatter ''true_heading'' ''True Heading'' ''{:.4f}'' None,
        FloatFormatter ''magnetic_heading'' ''Magnetic Heading'' ''{:.4f}'' None],
      gh_init = []\<rparr>"

definition pgn65359_access :: gen_access where
  "pgn65359_access =
     \<lparr>ga_get = [''sequence_id'', ''true_heading'', ''magnetic_heading''], ga_set = [], ga_text = [], ga_add = []\<rparr>"

definition pgn65359_decode :: "rounding \<Rightarrow> bytes \<Rightarrow> nat \<Rightarrow> attrs \<Rightarrow> (attrs \<times> nat) result" where
  "pgn65359_decode fl payload start_byte self =
     bind_r (unpack_from ''<HBHH'' payload start_byte) (\<lambda>val.
     let self = assign [(''sequence_id'', AInt (val ! 1)),
         (''true_heading'', check_convert_float fl (val ! 2) 0xFFFF (1 / 10000) 0),
         (''magnetic_heading'', check_convert_float fl (val ! 3) 0xFFFF (1 / 10000) 0)] self in
     Inr (self, start_byte + 7))"

definition pgn65359_fields :: "pb_field list" where
  "pgn65359_fields =
     [PbField ''sequence_id'' ''uint32'', PbField ''true_heading'' ''float'',
      PbField ''magnetic_heading'' ''float'']"

definition pgn65359 :: gen_class where
  "pgn65359 =
     \<lparr>gc_header = pgn65359_header, gc_access = pgn65359_access, gc_decode = pgn65359_decode,
      gc_encode = None, gc_fields = pgn65359_fields,
      gc_items = []\<rparr>"

section \<open>65379: Raymarine: Pilot mode\<close>

definition pgn65379_header :: gen_header where
  "pgn65379_header =
     \<lparr>gh_name = ''Pgn65379Mfg1851Class'', gh_pgn = Some 65379, gh_title = ''Raymarine: Pilot mode'',
      gh_manufacturer = Some 1851, gh_structs = [''<HBBBB''],
      gh_slots = [''sequence_id'', ''pilot_mode'', ''sub_mode'', ''pilot_mode_data''], gh_static = Some 6,
      gh_enums = [],
      gh_json =
       [GenericFormatter ''sequence_id'' ''SID'' 0xFF, GenericFormatter ''pilot_mode'' ''Pilot Mode'' 0xFF,
        GenericFormatter ''sub_mode'' ''Sub Mode'' 0xFF,
        GenericFormatter ''pilot_mode_data'' ''Pilot Mode Data'' 0xFF],
      gh_init = []\<rparr>"

definition pgn65379_access :: gen_access where
  "pgn65379_access =
     \<lparr>ga_get = [''sequence_id'', ''pilot_mode'', ''sub_mode'', ''pilot_mode_data''],
      ga_set = [''sequence_id'', ''pilot_mode'', ''sub_mode'', ''pilot_mode_data''], ga_text = [], ga_add = []\<rparr>"

definition pgn65379_decode :: "rounding \<Rightarrow> bytes \<Rightarrow> nat \<Rightarrow> attrs \<Rightarrow> (attrs \<times> nat) result" where
  "pgn65379_decode fl payload start_byte self =
     bind_r (unpack_from ''<HBBBB'' payload start_byte) (\<lambda>val.
     let self = assign [(''sequence_id'', AInt (val ! 1)), (''pilot_mode'', AInt (val ! 2)), (''sub_mode'', AInt (val ! 3)),
         (''pilot_mode_data'', AInt (val ! 4))] self in
     Inr (self, start_byte + 6))"

definition pgn65379_encode :: "rounding \<Rightarrow> attrs \<Rightarrow> bytes result" where
  "pgn65379_encode fl self =
     (let buffer = replicate 6 0 in
      bind_r (or_fields [pad_bits 0x7FF 0]) (\<lambda>v0.
      bind_r (pack_into ''<HBBBB'' buffer 0
        [Inr (AInt v0), get_attr self ''sequence_id'', get_attr self ''pilot_mode'', get_attr self ''sub_mode'',
         get_attr self ''pilot_mode_data'']) (\<lambda>buffer.
      Inr buffer)))"

definition pgn65379_fields :: "pb_field list" where
  "pgn65379_fields =
     [PbField ''sequence_id'' ''uint32'', PbField ''pilot_mode'' ''uint32'', PbField ''sub_mode'' ''uint32'',
      PbField ''pilot_mode_data'' ''uint32'']"

definition pgn65379 :: gen_class where
  "pgn65379 =
     \<lparr>gc_header = pgn65379_header, gc_access = pgn65379_access, gc_decode = pgn65379_decode,
      gc_encode = Some pgn65379_encode, gc_fields = pgn65379_fields,
      gc_items = []\<rparr>"

section \<open>126992: System Time\<close>

definition pgn126992_source_enum :: "(int \<times> string) list" where
  "pgn126992_source_enum =
     [(0, ''GPS''), (1, ''GLONASS''), (2, ''Radio Station''), (3, ''Local Cesium clock''),
      (4, ''Local Rubidium clock''), (5, ''Local Crystal clock'')]"

definition pgn126992_header :: gen_header where
  "pgn126992_header =
     \<lparr>gh_name = ''Pgn126992Class'', gh_pgn = Some 126992, gh_title = ''System Time'', gh_manufacturer = None,
      gh_structs = [''<BBHI''], gh_slots = [''sequence_id'', ''source'', ''date'', ''time''],
      gh_static = Some 8, gh_enums = [(''source_enum'', LocalEnum pgn126992_source_enum)],
      gh_json =
       [GenericFormatter ''sequence_id'' ''SID'' 0xFF,
        EnumFormatter ''source'' ''Source'' 0xF (LocalEnum pgn126992_source_enum),
        GenericFormatter ''date'' ''Date'' 0xFFFF, FloatFormatter ''time'' ''Time'' ''{:.2f}'' None],
      gh_init = []\<rparr>"

definition pgn126992_access :: gen_access where
  "pgn126992_access =
     \<lparr>ga_get = [''sequence_id'', ''source'', ''date'', ''time''],
      ga_set = [''sequence_id'', ''source'', ''date'', ''time''],
      ga_text = [(''source_text'', ''source_enum'', ''source'')], ga_add = []\<rparr>"

definition pgn126992_decode :: "rounding \<Rightarrow> bytes \<Rightarrow> nat \<Rightarrow> attrs \<Rightarrow> (attrs \<times> nat) result" where
  "pgn126992_decode fl payload start_byte self =
     bind_r (unpack_from ''<BBHI'' payload start_byte) (\<lambda>val.
     let self = assign [(''sequence_id'', AInt (val ! 0)), (''source'', AInt (drop_bit 4 (val ! 1) AND 0xF)),
         (''date'', AInt (val ! 2)), (''time'', check_convert_float fl (val ! 3) 0xFFFFFFFF (1 / 10000) 0)] self in
     Inr (self, start_byte + 8))"

definition pgn126992_encode :: "rounding \<Rightarrow> attrs \<Rightarrow> bytes result" where
  "pgn126992_encode fl self =
     (let buffer = replicate 8 0 in
      bind_r (or_fields [pad_bits 0xF 0, attr_field self ''source'' 0xF 4]) (\<lambda>v0.
      bind_r (attr_to_int fl self ''time'' 0xFFFFFFFF (Some (1 / 10000))) (\<lambda>v1.
      bind_r (pack_into ''<BBHI'' buffer 0
        [get_attr self ''sequence_id'', Inr (AInt v0), get_attr self ''date'', Inr (AInt v1)]) (\<lambda>buffer.
      Inr buffer))))"

definition pgn126992_fields :: "pb_field list" where
  "pgn126992_fields =
     [PbField ''sequence_id'' ''uint32'', PbField ''source'' ''uint32'', PbField ''date'' ''uint32'',
      PbField ''time'' ''float'']"

definition pgn126992 :: gen_class where
  "pgn126992 =
     \<lparr>gc_header = pgn126992_header, gc_access = pgn126992_access, gc_decode = pgn126992_decode,
      gc_encode = Some pgn126992_encode, gc_fields = pgn126992_fields,
      gc_items = []\<rparr>"

section \<open>127245: Rudder\<close>

definition pgn127245_direction_enum :: "(int \<times> string) list" where
  "pgn127245_direction_enum =
     [(0, ''No direction order''), (1, ''Move to starboard''), (2, ''Move to port''), (7, ''Unavailable'')]"

definition pgn127245_header :: gen_header where
  "pgn127245_header =
     \<lparr>gh_name = ''Pgn127245Class'', gh_pgn = Some 127245, gh_title = ''Rudder'', gh_manufacturer = None,
      gh_structs = [''<BBhhH''], gh_slots = [''instance'', ''direction'', ''angle'', ''position''],
      gh_static = Some 8, gh_enums = [(''direction_enum'', LocalEnum pgn127245_direction_enum)],
      gh_json =
       [GenericFormatter ''instance'' ''Instance'' 0xFF,
        EnumFormatter ''direction'' ''Direction Order'' 7 (LocalEnum pgn127245_direction_enum),
        FloatFormatter ''angle'' ''Angle Order'' ''{:.4f}'' None,
        FloatFormatter ''position'' ''Position'' ''{:.4f}'' None],
      gh_init = []\<rparr>"

definition pgn127245_access :: gen_access where
  "pgn127245_access =
     \<lparr>ga_get = [''instance'', ''direction'', ''angle'', ''position''],
      ga_set = [''instance'', ''direction'', ''angle'', ''position''],
      ga_text = [(''direction_text'', ''direction_enum'', ''direction'')], ga_add = []\<rparr>"

definition pgn127245_decode :: "rounding \<Rightarrow> bytes \<Rightarrow> nat \<Rightarrow> attrs \<Rightarrow> (attrs \<times> nat) result" where
  "pgn127245_decode fl payload start_byte self =
     bind_r (unpack_from ''<BBhhH'' payload start_byte) (\<lambda>val.
     let self = assign [(''instance'', AInt (val ! 0)), (''direction'', AInt (drop_bit 5 (val ! 1) AND 7)),
         (''angle'', check_convert_float fl (val ! 2) 0x7FFF (1 / 10000) 0),
         (''position'', check_convert_float fl (val ! 3) 0x7FFF (1 / 10000) 0)] self in
     Inr (self, start_byte + 8))"

definition pgn127245_encode :: "rounding \<Rightarrow> attrs \<Rightarrow> bytes result" where
  "pgn127245_encode fl self =
     (let buffer = replicate 8 0 in
      bind_r (or_fields [pad_bits 0x1F 0, attr_field self ''direction'' 7 5]) (\<lambda>v0.
      bind_r (attr_to_int fl self ''angle'' 0x7FFF (Some (1 / 10000))) (\<lambda>v1.
      bind_r (attr_to_int fl self ''position'' 0x7FFF (Some (1 / 10000))) (\<lambda>v2.
      let v3 = (0xFFFF :: int) in
      bind_r (pack_into ''<BBhhH'' buffer 0
        [get_attr self ''instance'', Inr (AInt v0), Inr (AInt v1), Inr (AInt v2), Inr (AInt v3)]) (\<lambda>buffer.
      Inr buffer)))))"

definition pgn127245_fields :: "pb_field list" where
  "pgn127245_fields =
     [PbField ''instance'' ''uint32'', PbField ''direction'' ''uint32'', PbField ''angle'' ''float'',
      PbField ''position'' ''float'']"

definition pgn127245 :: gen_class where
  "pgn127245 =
     \<lparr>gc_header = pgn127245_header, gc_access = pgn127245_access, gc_decode = pgn127245_decode,
      gc_encode = Some pgn127245_encode, gc_fields = pgn127245_fields,
      gc_items = []\<rparr>"

section \<open>127250: Vessel Heading\<close>

definition pgn127250_reference_enum :: "(int \<times> string) list" where
  "pgn127250_reference_enum =
     [(0, ''True''), (1, ''Magnetic''), (2, ''Error'')]"

definition pgn127250_header :: gen_header where
  "pgn127250_header =
     \<lparr>gh_name = ''Pgn127250Class'', gh_pgn = Some 127250, gh_title = ''Vessel Heading'', gh_manufacturer = None,
      gh_structs = [''<BHhhB''],
      gh_slots = [''sequence_id'', ''heading'', ''deviation'', ''variation'', ''reference''],
      gh_static = Some 8, gh_enums = [(''reference_enum'', LocalEnum pgn127250_reference_enum)],
      gh_json =
       [GenericFormatter ''sequence_id'' ''SID'' 0xFF, FloatFormatter ''heading'' ''Heading'' ''{:.4f}'' None,
        FloatFormatter ''deviation'' ''Deviation'' ''{:.4f}'' None,
        FloatFormatter ''variation'' ''Variation'' ''{:.4f}'' None,
        EnumFormatter ''reference'' ''Reference'' 3 (LocalEnum pgn127250_reference_enum)],
      gh_init = []\<rparr>"

definition pgn127250_access :: gen_access where
  "pgn127250_access =
     \<lparr>ga_get = [''sequence_id'', ''heading'', ''deviation'', ''variation'', ''reference''],
      ga_set = [''sequence_id'', ''heading'', ''deviation'', ''variation'', ''reference''],
      ga_text = [(''reference_text'', ''reference_enum'', ''reference'')], ga_add = []\<rparr>"

definition pgn127250_decode :: "rounding \<Rightarrow> bytes \<Rightarrow> nat \<Rightarrow> attrs \<Rightarrow> (attrs \<times> nat) result" where
  "pgn127250_decode fl payload start_byte self =
     bind_r (unpack_from ''<BHhhB'' payload start_byte) (\<lambda>val.
     let self = assign [(''sequence_id'', AInt (val ! 0)),
         (''heading'', check_convert_float fl (val ! 1) 0xFFFF (1 / 10000) 0),
         (''deviation'', check_convert_float fl (val ! 2) 0x7FFF (1 / 10000) 0),
         (''variation'', check_convert_float fl (val ! 3) 0x7FFF (1 / 10000) 0),
         (''reference'', AInt (val ! 4 AND 3))] self in
     Inr (self, start_byte + 8))"

definition pgn127250_encode :: "rounding \<Rightarrow> attrs \<Rightarrow> bytes result" where
  "pgn127250_encode fl self =
     (let buffer = replicate 8 0 in
      bind_r (attr_to_int fl self ''heading'' 0xFFFF (Some (1 / 10000))) (\<lambda>v0.
      bind_r (attr_to_int fl self ''deviation'' 0x7FFF (Some (1 / 10000))) (\<lambda>v1.
      bind_r (attr_to_int fl self ''variation'' 0x7FFF (Some (1 / 10000))) (\<lambda>v2.
      bind_r (or_fields [attr_field self ''reference'' 3 0, pad_bits 0x3F 2]) (\<lambda>v3.
      bind_r (pack_into ''<BHhhB'' buffer 0
        [get_attr self ''sequence_id'', Inr (AInt v0), Inr (AInt v1), Inr (AInt v2), Inr (AInt v3)]) (\<lambda>buffer.
      Inr buffer))))))"

definition pgn127250_fields :: "pb_field list" where
  "pgn127250_fields =
     [PbField ''sequence_id'' ''uint32'', PbField ''heading'' ''float'', PbField ''deviation'' ''float'',
      PbField ''variation'' ''float'', PbField ''reference'' ''uint32'']"

definition pgn127250 :: gen_class where
  "pgn127250 =
     \<lparr>gc_header = pgn127250_header, gc_access = pgn127250_access, gc_decode = pgn127250_decode,
      gc_encode = Some pgn127250_encode, gc_fields = pgn127250_fields,
      gc_items = []\<rparr>"

section \<open>127258: Magnetic Variation\<close>

definition pgn127258_source_enum :: "(int \<times> string) list" where
  "pgn127258_source_enum =
     [(0, ''Manual''), (1, ''Automatic Chart''), (2, ''Automatic Table''), (3, ''Automatic Calculation''),
      (4, ''WMM 2000''), (5, ''WMM 2005''), (6, ''WMM 2010''), (7, ''WMM 2015''), (8, ''WMM 2020'')]"

definition pgn127258_header :: gen_header where
  "pgn127258_header =
     \<lparr>gh_name = ''Pgn127258Class'', gh_pgn = Some 127258, gh_title = ''Magnetic Variation'',
      gh_manufacturer = None, gh_structs = [''<BBHh''],
      gh_slots = [''sequence_id'', ''source'', ''age_of_service'', ''variation''], gh_static = Some 6,
      gh_enums = [(''source_enum'', LocalEnum pgn127258_source_enum)],
      gh_json =
       [GenericFormatter ''sequence_id'' ''SID'' 0xFF,
        EnumFormatter ''source'' ''Source'' 0xF (LocalEnum pgn127258_source_enum),
        GenericFormatter ''age_of_service'' ''Age of service'' 0xFFFF,
        FloatFormatter ''variation'' ''Variation'' ''{:.4f}'' None],
      gh_init = []\<rparr>"

definition pgn127258_access :: gen_access where
  "pgn127258_access =
     \<lparr>ga_get = [''sequence_id'', ''source'', ''age_of_service'', ''variation''],
      ga_set = [''sequence_id'', ''source'', ''age_of_service'', ''variation''],
      ga_text = [(''source_text'', ''source_enum'', ''source'')], ga_add = []\<rparr>"

definition pgn127258_decode :: "rounding \<Rightarrow> bytes \<Rightarrow> nat \<Rightarrow> attrs \<Rightarrow> (attrs \<times> nat) result" where
  "pgn127258_decode fl payload start_byte self =
     bind_r (unpack_from ''<BBHh'' payload start_byte) (\<lambda>val.
     let self = assign [(''sequence_id'', AInt (val ! 0)), (''source'', AInt (val ! 1 AND 0xF)),
         (''age_of_service'', AInt (val ! 2)),
         (''variation'', check_convert_float fl (val ! 3) 0x7FFF (1 / 10000) 0)] self in
     Inr (self, start_byte + 6))"

definition pgn127258_encode :: "rounding \<Rightarrow> attrs \<Rightarrow> bytes result" where
  "pgn127258_encode fl self =
     (let buffer = replicate 6 0 in
      bind_r (or_fields [attr_field self ''source'' 0xF 0, pad_bits 0xF 4]) (\<lambda>v0.
      bind_r (attr_to_int fl self ''variation'' 0x7FFF (Some (1 / 10000))) (\<lambda>v1.
      bind_r (pack_into ''<BBHh'' buffer 0
        [get_attr self ''sequence_id'', Inr (AInt v0), get_attr self ''age_of_service'', Inr (AInt v1)]) (\<lambda>buffer.
      Inr buffer))))"

definition pgn127258_fields :: "pb_field list" where
  "pgn127258_fields =
     [PbField ''sequence_id'' ''uint32'', PbField ''source'' ''uint32'', PbField ''age_of_service'' ''uint32'',
      PbField ''variation'' ''float'']"

definition pgn127258 :: gen_class where
  "pgn127258 =
     \<lparr>gc_header = pgn127258_header, gc_access = pgn127258_access, gc_decode = pgn127258_decode,
      gc_encode = Some pgn127258_encode, gc_fields = pgn127258_fields,
      gc_items = []\<rparr>"

section \<open>127488: Engine Parameters, Rapid Update\<close>

definition pgn127488_header :: gen_header where
  "pgn127488_header =
     \<lparr>gh_name = ''Pgn127488Class'', gh_pgn = Some 127488, gh_title = ''Engine Parameters, Rapid Update'',
      gh_manufacturer = None, gh_structs = [''<BHHbH''], gh_slots = [''engine_instance'', ''engine_speed''],
      gh_static = Some 8, gh_enums = [],
      gh_json =
       [GenericFormatter ''engine_instance'' ''Engine Instance'' 0xFF,
        FloatFormatter ''engine_speed'' ''Engine Speed'' ''{:.0f}'' None],
      gh_init = []\<rparr>"

definition pgn127488_access :: gen_access where
  "pgn127488_access =
     \<lparr>ga_get = [''engine_instance'', ''engine_speed''], ga_set = [''engine_instance'', ''engine_speed''],
      ga_text = [], ga_add = []\<rparr>"

definition pgn127488_decode :: "rounding \<Rightarrow> bytes \<Rightarrow> nat \<Rightarrow> attrs \<Rightarrow> (attrs \<times> nat) result" where
  "pgn127488_decode fl payload start_byte self =
     bind_r (unpack_from ''<BHHbH'' payload start_byte) (\<lambda>val.
     let self = assign [(''engine_instance'', AInt (val ! 0)),
         (''engine_speed'', check_convert_float fl (val ! 1) 0xFFFF (1 / 4) 0)] self in
     Inr (self, start_byte + 8))"

definition pgn127488_encode :: "rounding \<Rightarrow> attrs \<Rightarrow> bytes result" where
  "pgn127488_encode fl self =
     (let buffer = replicate 8 0 in
      bind_r (attr_to_int fl self ''engine_speed'' 0xFFFF (Some (1 / 4))) (\<lambda>v0.
      let v1 = (0xFFFF :: int) in
      let v2 = (0x7F :: int) in
      let v3 = (0xFFFF :: int) in
      bind_r (pack_into ''<BHHbH'' buffer 0
        [get_attr self ''engine_instance'', Inr (AInt v0), Inr (AInt v1), Inr (AInt v2), Inr (AInt v3)]) (\<lambda>buffer.
      Inr buffer)))"

definition pgn127488_fields :: "pb_field list" where
  "pgn127488_fields =
     [PbField ''engine_instance'' ''uint32'', PbField ''engine_speed'' ''float'']"

definition pgn127488 :: gen_class where
  "pgn127488 =
     \<lparr>gc_header = pgn127488_header, gc_access = pgn127488_access, gc_decode = pgn127488_decode,
      gc_encode = Some pgn127488_encode, gc_fields = pgn127488_fields,
      gc_items = []\<rparr>"

section \<open>127489: Engine Parameters, Dynamic\<close>

definition pgn127489_header :: gen_header where
  "pgn127489_header =
     \<lparr>gh_name = ''Pgn127489Class'', gh_pgn = Some 127489, gh_title = ''Engine Parameters, Dynamic'',
      gh_manufacturer = None, gh_structs = [''<BHHHhhIHHBhhbb''],
      gh_slots = [''engine_instance'', ''oil_pressure'', ''oil_temperature'', ''temperature'', ''alternator_voltage'',
        ''fuel_rate'', ''total_engine_hours''],
      gh_static = Some 26, gh_enums = [],
      gh_json =
       [GenericFormatter ''engine_instance'' ''Engine Instance'' 0xFF,
        FloatFormatter ''oil_pressure'' ''Oil pressure'' ''{:.0f}'' None,
        FloatFormatter ''oil_temperature'' ''Oil temperature'' ''{:.1f}'' None,
        FloatFormatter ''temperature'' ''Temperature'' ''{:.1f}'' None,
        FloatFormatter ''alternator_voltage'' ''Alternator Potential'' ''{:.2f}'' None,
        FloatFormatter ''fuel_rate'' ''Fuel Rate'' ''{:.2f}'' None,
        FloatFormatter ''total_engine_hours'' ''Total Engine hours'' ''{:.2f}'' None],
      gh_init = []\<rparr>"

definition pgn127489_access :: gen_access where
  "pgn127489_access =
     \<lparr>ga_get = [''engine_instance'', ''oil_pressure'', ''oil_temperature'', ''temperature'', ''alternator_voltage'',
        ''fuel_rate'', ''total_engine_hours''],
      ga_set = [''engine_instance'', ''oil_pressure'', ''oil_temperature'', ''temperature'', ''alternator_voltage'',
        ''fuel_rate'', ''total_engine_hours''],
      ga_text = [], ga_add = []\<rparr>"

definition pgn127489_decode :: "rounding \<Rightarrow> bytes \<Rightarrow> nat \<Rightarrow> attrs \<Rightarrow> (attrs \<times> nat) result" where
  "pgn127489_decode fl payload start_byte self =
     bind_r (unpack_from ''<BHHHhhIHHBhhbb'' payload start_byte) (\<lambda>val.
     let self = assign [(''engine_instance'', AInt (val ! 0)),
         (''oil_pressure'', check_convert_float fl (val ! 1) 0xFFFF 100 0),
         (''oil_temperature'', check_convert_float fl (val ! 2) 0xFFFF (1 / 10) 0),
         (''temperature'', check_convert_float fl (val ! 3) 0xFFFF (1 / 100) 0),
         (''alternator_voltage'', check_convert_float fl (val ! 4) 0x7FFF (1 / 100) 0),
         (''fuel_rate'', check_convert_float fl (val ! 5) 0x7FFF (1 / 10) 0),
         (''total_engine_hours'', AFloat (Some (fl (of_int (val ! 6)))))] self in
     Inr (self, start_byte + 26))"

definition pgn127489_encode :: "rounding \<Rightarrow> attrs \<Rightarrow> bytes result" where
  "pgn127489_encode fl self =
     (let buffer = replicate 26 0 in
      bind_r (attr_to_int fl self ''oil_pressure'' 0xFFFF (Some 100)) (\<lambda>v0.
      bind_r (attr_to_int fl self ''oil_temperature'' 0xFFFF (Some (1 / 10))) (\<lambda>v1.
      bind_r (attr_to_int fl self ''temperature'' 0xFFFF (Some (1 / 100))) (\<lambda>v2.
      bind_r (attr_to_int fl self ''alternator_voltage'' 0x7FFF (Some (1 / 100))) (\<lambda>v3.
      bind_r (attr_to_int fl self ''fuel_rate'' 0x7FFF (Some (1 / 10))) (\<lambda>v4.
      bind_r (attr_to_int fl self ''total_engine_hours'' 0xFFFFFFFF None) (\<lambda>v5.
      let v6 = (0xFFFF :: int) in
      let v7 = (0xFFFF :: int) in
      let v8 = (0xFF :: int) in
      let v9 = (0x7FFF :: int) in
      let v10 = (0x7FFF :: int) in
      let v11 = (0x7F :: int) in
      let v12 = (0x7F :: int) in
      bind_r (pack_into ''<BHHHhhIHHBhhbb'' buffer 0
        [get_attr self ''engine_instance'', Inr (AInt v0), Inr (AInt v1), Inr (AInt v2), Inr (AInt v3),
         Inr (AInt v4), Inr (AInt v5), Inr (AInt v6), Inr (AInt v7), Inr (AInt v8), Inr (AInt v9),
         Inr (AInt v10), Inr (AInt v11), Inr (AInt v12)]) (\<lambda>buffer.
      Inr buffer))))))))"

definition pgn127489_fields :: "pb_field list" where
  "pgn127489_fields =
     [PbField ''engine_instance'' ''uint32'', PbField ''oil_pressure'' ''float'',
      PbField ''oil_temperature'' ''float'', PbField ''temperature'' ''float'',
      PbField ''alternator_voltage'' ''float'', PbField ''fuel_rate'' ''float'',
      PbField ''total_engine_hours'' ''float'']"

definition pgn127489 :: gen_class where
  "pgn127489 =
     \<lparr>gc_header = pgn127489_header, gc_access = pgn127489_access, gc_decode = pgn127489_decode,
      gc_encode = Some pgn127489_encode, gc_fields = pgn127489_fields,
      gc_items = []\<rparr>"

section \<open>127507: Charger Status\<close>

definition pgn127507_header :: gen_header where
  "pgn127507_header =
     \<lparr>gh_name = ''Pgn127507Class'', gh_pgn = Some 127507, gh_title = ''Charger Status'', gh_manufacturer = None,
      gh_structs = [''<BBBBBH''],
      gh_slots = [''charger_instance'', ''battery_instance'', ''operating_state'', ''charger_mode'', ''charger_enable'',
        ''equalization_pending'', ''eq_time_remaining''],
      gh_static = Some 7, gh_enums = [],
      gh_json =
       [GenericFormatter ''charger_instance'' ''Charger Instance'' 0xFF,
        GenericFormatter ''battery_instance'' ''Battery Instance'' 0xFF,
        GenericFormatter ''operating_state'' ''Operating State'' 0xFF,
        GenericFormatter ''charger_mode'' ''Charge Mode'' 0xFF,
        GenericFormatter ''charger_enable'' ''Charger Enable/Disable'' 3,
        GenericFormatter ''equalization_pending'' ''Equalization Pending'' 3,
        GenericFormatter ''eq_time_remaining'' ''Equalization Time Remaining'' 0xFFFF],
      gh_init = []\<rparr>"

definition pgn127507_access :: gen_access where
  "pgn127507_access =
     \<lparr>ga_get = [''charger_instance'', ''battery_instance'', ''operating_state'', ''charger_mode'', ''charger_enable'',
        ''equalization_pending'', ''eq_time_remaining''],
      ga_set = [''charger_instance'', ''battery_instance'', ''operating_state'', ''charger_mode'', ''charger_enable'',
        ''equalization_pending'', ''eq_time_remaining''],
      ga_text = [], ga_add = []\<rparr>"

definition pgn127507_decode :: "rounding \<Rightarrow> bytes \<Rightarrow> nat \<Rightarrow> attrs \<Rightarrow> (attrs \<times> nat) result" where
  "pgn127507_decode fl payload start_byte self =
     bind_r (unpack_from ''<BBBBBH'' payload start_byte) (\<lambda>val.
     let self = assign [(''charger_instance'', AInt (val ! 0)), (''battery_instance'', AInt (val ! 1)),
         (''operating_state'', AInt (val ! 2)), (''charger_mode'', AInt (val ! 3)),
         (''charger_enable'', AInt (val ! 4 AND 3)),
         (''equalization_pending'', AInt (drop_bit 2 (val ! 4) AND 3)), (''eq_time_remaining'', AInt (val ! 5))] self in
     Inr (self, start_byte + 7))"

definition pgn127507_encode :: "rounding \<Rightarrow> attrs \<Rightarrow> bytes result" where
  "pgn127507_encode fl self =
     (let buffer = replicate 7 0 in
      bind_r (or_fields [attr_field self ''charger_enable'' 3 0, attr_field self ''equalization_pending'' 3 2, pad_bits 0xF 4]) (\<lambda>v0.
      bind_r (pack_into ''<BBBBBH'' buffer 0
        [get_attr self ''charger_instance'', get_attr self ''battery_instance'',
         get_attr self ''operating_state'', get_attr self ''charger_mode'', Inr (AInt v0),
         get_attr self ''eq_time_remaining'']) (\<lambda>buffer.
      Inr buffer)))"

definition pgn127507_fields :: "pb_field list" where
  "pgn127507_fields =
     [PbField ''charger_instance'' ''uint32'', PbField ''battery_instance'' ''uint32'',
      PbField ''operating_state'' ''uint32'', PbField ''charger_mode'' ''uint32'',
      PbField ''charger_enable'' ''uint32'', PbField ''equalization_pending'' ''uint32'',
      PbField ''eq_time_remaining'' ''uint32'']"

definition pgn127507 :: gen_class where
  "pgn127507 =
     \<lparr>gc_header = pgn127507_header, gc_access = pgn127507_access, gc_decode = pgn127507_decode,
      gc_encode = Some pgn127507_encode, gc_fields = pgn127507_fields,
      gc_items = []\<rparr>"

section \<open>127508: Battery Status\<close>

definition pgn127508_header :: gen_header where
  "pgn127508_header =
     \<lparr>gh_name = ''Pgn127508Class'', gh_pgn = Some 127508, gh_title = ''Battery Status'', gh_manufacturer = None,
      gh_structs = [''<BhhHB''],
      gh_slots = [''battery_instance'', ''voltage'', ''current'', ''temperature'', ''sequence_id''],
      gh_static = Some 8, gh_enums = [],
      gh_json =
       [GenericFormatter ''battery_instance'' ''Battery Instance'' 0xFF,
        FloatFormatter ''voltage'' ''Voltage'' ''{:.2f}'' None,
        FloatFormatter ''current'' ''Current'' ''{:.2f}'' None,
        FloatFormatter ''temperature'' ''Temperature'' ''{:.1f}'' None,
        GenericFormatter ''sequence_id'' ''SID'' 0xFF],
      gh_init = []\<rparr>"

definition pgn127508_access :: gen_access where
  "pgn127508_access =
     \<lparr>ga_get = [''battery_instance'', ''voltage'', ''current'', ''temperature'', ''sequence_id''],
      ga_set = [''battery_instance'', ''voltage'', ''current'', ''temperature'', ''sequence_id''], ga_text = [],
      ga_add = []\<rparr>"

definition pgn127508_decode :: "rounding \<Rightarrow> bytes \<Rightarrow> nat \<Rightarrow> attrs \<Rightarrow> (attrs \<times> nat) result" where
  "pgn127508_decode fl payload start_byte self =
     bind_r (unpack_from ''<BhhHB'' payload start_byte) (\<lambda>val.
     let self = assign [(''battery_instance'', AInt (val ! 0)),
         (''voltage'', check_convert_float fl (val ! 1) 0x7FFF (1 / 100) 0),
         (''current'', check_convert_float fl (val ! 2) 0x7FFF (1 / 10) 0),
         (''temperature'', check_convert_float fl (val ! 3) 0xFFFF (1 / 100) 0),
         (''sequence_id'', AInt (val ! 4))] self in
     Inr (self, start_byte + 8))"

definition pgn127508_encode :: "rounding \<Rightarrow> attrs \<Rightarrow> bytes result" where
  "pgn127508_encode fl self =
     (let buffer = replicate 8 0 in
      bind_r (attr_to_int fl self ''voltage'' 0x7FFF (Some (1 / 100))) (\<lambda>v0.
      bind_r (attr_to_int fl self ''current'' 0x7FFF (Some (1 / 10))) (\<lambda>v1.
      bind_r (attr_to_int fl self ''temperature'' 0xFFFF (Some (1 / 100))) (\<lambda>v2.
      bind_r (pack_into ''<BhhHB'' buffer 0
        [get_attr self ''battery_instance'', Inr (AInt v0), Inr (AInt v1), Inr (AInt v2),
         get_attr self ''sequence_id'']) (\<lambda>buffer.
      Inr buffer)))))"

definition pgn127508_fields :: "pb_field list" where
  "pgn127508_fields =
     [PbField ''battery_instance'' ''uint32'', PbField ''voltage'' ''float'', PbField ''current'' ''float'',
      PbField ''temperature'' ''float'', PbField ''sequence_id'' ''uint32'']"

definition pgn127508 :: gen_class where
  "pgn127508 =
     \<lparr>gc_header = pgn127508_header, gc_access = pgn127508_access, gc_decode = pgn127508_decode,
      gc_encode = Some pgn127508_encode, gc_fields = pgn127508_fields,
      gc_items = []\<rparr>"

section \<open>127751: DC Voltage/Current\<close>

definition pgn127751_header :: gen_header where
  "pgn127751_header =
     \<lparr>gh_name = ''Pgn127751Class'', gh_pgn = Some 127751, gh_title = ''DC Voltage/Current'',
      gh_manufacturer = None, gh_structs = [''<BBHhbB''],
      gh_slots = [''sequence_id'', ''connection_number'', ''voltage'', ''current''], gh_static = Some 8,
      gh_enums = [],
      gh_json =
       [GenericFormatter ''sequence_id'' ''SID'' 0xFF,
        GenericFormatter ''connection_number'' ''Connection number'' 0xFF,
        FloatFormatter ''voltage'' ''DC voltage'' ''{:.2f}'' None,
        FloatFormatter ''current'' ''DC Current'' ''{:.2f}'' None],
      gh_init = []\<rparr>"

definition pgn127751_access :: gen_access where
  "pgn127751_access =
     \<lparr>ga_get = [''sequence_id'', ''connection_number'', ''voltage'', ''current''],
      ga_set = [''sequence_id'', ''connection_number'', ''voltage'', ''current''], ga_text = [], ga_add = []\<rparr>"

definition pgn127751_decode :: "rounding \<Rightarrow> bytes \<Rightarrow> nat \<Rightarrow> attrs \<Rightarrow> (attrs \<times> nat) result" where
  "pgn127751_decode fl payload start_byte self =
     bind_r (unpack_from ''<BBHhbB'' payload start_byte) (\<lambda>val.
     let self = assign [(''sequence_id'', AInt (val ! 0)), (''connection_number'', AInt (val ! 1)),
         (''voltage'', check_convert_float fl (val ! 2) 0xFFFF (1 / 10) 0)] self in
     let word = val ! 3 + push_bit 16 (val ! 4) in
     let self = assign [(''current'', check_convert_float fl word 0x7FFFFF (1 / 100) 0)] self in
     Inr (self, start_byte + 8))"

definition pgn127751_encode :: "rounding \<Rightarrow> attrs \<Rightarrow> bytes result" where
  "pgn127751_encode fl self =
     (let buffer = replicate 8 0 in
      bind_r (attr_to_int fl self ''voltage'' 0xFFFF (Some (1 / 10))) (\<lambda>v0.
      bind_r (attr_to_int fl self ''current'' 0x7FFFFF (Some (1 / 100))) (\<lambda>word.
      let v1 = word AND 0xFFFF in
      let v2 = drop_bit 16 word AND 0xFF in
      let v3 = (0xFF :: int) in
      bind_r (pack_into ''<BBHhbB'' buffer 0
        [get_attr self ''sequence_id'', get_attr self ''connection_number'', Inr (AInt v0), Inr (AInt v1),
         Inr (AInt v2), Inr (AInt v3)]) (\<lambda>buffer.
      Inr buffer))))"

definition pgn127751_fields :: "pb_field list" where
  "pgn127751_fields =
     [PbField ''sequence_id'' ''uint32'', PbField ''connection_number'' ''uint32'',
      PbField ''voltage'' ''float'', PbField ''current'' ''float'']"

definition pgn127751 :: gen_class where
  "pgn127751 =
     \<lparr>gc_header = pgn127751_header, gc_access = pgn127751_access, gc_decode = pgn127751_decode,
      gc_encode = Some pgn127751_encode, gc_fields = pgn127751_fields,
      gc_items = []\<rparr>"

section \<open>128259: Speed\<close>

definition pgn128259_speed_through_water_reference_enum :: "(int \<times> string) list" where
  "pgn128259_speed_through_water_reference_enum =
     [(0, ''Paddle wheel''), (1, ''Pitot tube''), (2, ''Doppler log''), (3, ''Correlation log (Ultra-Sound)''),
      (4, ''EM log (Electro-Magnetic)'')]"

definition pgn128259_header :: gen_header where
  "pgn128259_header =
     \<lparr>gh_name = ''Pgn128259Class'', gh_pgn = Some 128259, gh_title = ''Speed'', gh_manufacturer = None,
      gh_structs = [''<BhhBH''],
      gh_slots = [''sequence_id'', ''speed_through_water'', ''speed_over_ground'', ''speed_through_water_reference''],
      gh_static = Some 8,
      gh_enums = [(''speed_through_water_reference_enum'', LocalEnum pgn128259_speed_through_water_reference_enum)],
      gh_json =
       [GenericFormatter ''sequence_id'' ''SID'' 0xFF,
        FloatFormatter ''speed_through_water'' ''Speed Water Referenced'' ''{:.2f}'' None,
        FloatFormatter ''speed_over_ground'' ''Speed Ground Referenced'' ''{:.2f}'' None,
        EnumFormatter ''speed_through_water_reference'' ''Speed Water Referenced Type'' 0xFF (LocalEnum pgn128259_speed_through_water_reference_enum)],
      gh_init = []\<rparr>"

definition pgn128259_access :: gen_access where
  "pgn128259_access =
     \<lparr>ga_get = [''sequence_id'', ''speed_through_water'', ''speed_over_ground'', ''speed_through_water_reference''],
      ga_set = [''sequence_id'', ''speed_through_water'', ''speed_over_ground'', ''speed_through_water_reference''],
      ga_text = [(''speed_through_water_reference_text'', ''speed_through_water_reference_enum'', ''speed_through_water_reference'')],
      ga_add = []\<rparr>"

definition pgn128259_decode :: "rounding \<Rightarrow> bytes \<Rightarrow> nat \<Rightarrow> attrs \<Rightarrow> (attrs \<times> nat) result" where
  "pgn128259_decode fl payload start_byte self =
     bind_r (unpack_from ''<BhhBH'' payload start_byte) (\<lambda>val.
     let self = assign [(''sequence_id'', AInt (val ! 0)),
         (''speed_through_water'', check_convert_float fl (val ! 1) 0x7FFF (1 / 100) 0),
         (''speed_over_ground'', check_convert_float fl (val ! 2) 0x7FFF (1 / 100) 0),
         (''speed_through_water_reference'', AInt (val ! 3))] self in
     Inr (self, start_byte + 8))"

definition pgn128259_encode :: "rounding \<Rightarrow> attrs \<Rightarrow> bytes result" where
  "pgn128259_encode fl self =
     (let buffer = replicate 8 0 in
      bind_r (attr_to_int fl self ''speed_through_water'' 0x7FFF (Some (1 / 100))) (\<lambda>v0.
      bind_r (attr_to_int fl self ''speed_over_ground'' 0x7FFF (Some (1 / 100))) (\<lambda>v1.
      let v2 = (0xFFFF :: int) in
      bind_r (pack_into ''<BhhBH'' buffer 0
        [get_attr self ''sequence_id'', Inr (AInt v0), Inr (AInt v1),
         get_attr self ''speed_through_water_reference'', Inr (AInt v2)]) (\<lambda>buffer.
      Inr buffer))))"

definition pgn128259_fields :: "pb_field list" where
  "pgn128259_fields =
     [PbField ''sequence_id'' ''uint32'', PbField ''speed_through_water'' ''float'',
      PbField ''speed_over_ground'' ''float'', PbField ''speed_through_water_reference'' ''uint32'']"

definition pgn128259 :: gen_class where
  "pgn128259 =
     \<lparr>gc_header = pgn128259_header, gc_access = pgn128259_access, gc_decode = pgn128259_decode,
      gc_encode = Some pgn128259_encode, gc_fields = pgn128259_fields,
      gc_items = []\<rparr>"

section \<open>128267: Water Depth\<close>

definition pgn128267_header :: gen_header where
  "pgn128267_header =
     \<lparr>gh_name = ''Pgn128267Class'', gh_pgn = Some 128267, gh_title = ''Water Depth'', gh_manufacturer = None,
      gh_structs = [''<BIhB''], gh_slots = [''sequence_id'', ''depth'', ''offset'', ''range''],
      gh_static = Some 8, gh_enums = [],
      gh_json =
       [GenericFormatter ''sequence_id'' ''SID'' 0xFF, FloatFormatter ''depth'' ''Depth'' ''{:.1f}'' None,
        FloatFormatter ''offset'' ''Offset'' ''{:.1f}'' None, FloatFormatter ''range'' ''Range'' ''{:.1f}'' None],
      gh_init = []\<rparr>"

definition pgn128267_access :: gen_access where
  "pgn128267_access =
     \<lparr>ga_get = [''sequence_id'', ''depth'', ''offset'', ''range''],
      ga_set = [''sequence_id'', ''depth'', ''offset'', ''range''], ga_text = [], ga_add = []\<rparr>"

definition pgn128267_decode :: "rounding \<Rightarrow> bytes \<Rightarrow> nat \<Rightarrow> attrs \<Rightarrow> (attrs \<times> nat) result" where
  "pgn128267_decode fl payload start_byte self =
     bind_r (unpack_from ''<BIhB'' payload start_byte) (\<lambda>val.
     let self = assign [(''sequence_id'', AInt (val ! 0)),
         (''depth'', check_convert_float fl (val ! 1) 0xFFFFFFFF (1 / 100) 0),
         (''offset'', check_convert_float fl (val ! 2) 0x7FFF (1 / 1000) 0),
         (''range'', check_convert_float fl (val ! 3) 0xFF 10 0)] self in
     Inr (self, start_byte + 8))"

definition pgn128267_encode :: "rounding \<Rightarrow> attrs \<Rightarrow> bytes result" where
  "pgn128267_encode fl self =
     (let buffer = replicate 8 0 in
      bind_r (attr_to_int fl self ''depth'' 0xFFFFFFFF (Some (1 / 100))) (\<lambda>v0.
      bind_r (attr_to_int fl self ''offset'' 0x7FFF (Some (1 / 1000))) (\<lambda>v1.
      bind_r (attr_to_int fl self ''range'' 0xFF (Some 10)) (\<lambda>v2.
      bind_r (pack_into ''<BIhB'' buffer 0
        [get_attr self ''sequence_id'', Inr (AInt v0), Inr (AInt v1), Inr (AInt v2)]) (\<lambda>buffer.
      Inr buffer)))))"

definition pgn128267_fields :: "pb_field list" where
  "pgn128267_fields =
     [PbField ''sequence_id'' ''uint32'', PbField ''depth'' ''float'', PbField ''offset'' ''float'',
      PbField ''range'' ''float'']"

definition pgn128267 :: gen_class where
  "pgn128267 =
     \<lparr>gc_header = pgn128267_header, gc_access = pgn128267_access, gc_decode = pgn128267_decode,
      gc_encode = Some pgn128267_encode, gc_fields = pgn128267_fields,
      gc_items = []\<rparr>"

section \<open>128275: Distance Log\<close>

definition pgn128275_header :: gen_header where
  "pgn128275_header =
     \<lparr>gh_name = ''Pgn128275Class'', gh_pgn = Some 128275, gh_title = ''Distance Log'', gh_manufacturer = None,
      gh_structs = [''<HIII''], gh_slots = [''date'', ''time'', ''total_log'', ''trip_log''],
      gh_static = Some 14, gh_enums = [],
      gh_json =
       [GenericFormatter ''date'' ''Date'' 0xFFFF, FloatFormatter ''time'' ''Time'' ''{:.2f}'' None,
        GenericFormatter ''total_log'' ''Log'' 0xFFFFFFFF, GenericFormatter ''trip_log'' ''Trip Log'' 0xFFFFFFFF],
      gh_init = []\<rparr>"

definition pgn128275_access :: gen_access where
  "pgn128275_access =
     \<lparr>ga_get = [''date'', ''time'', ''total_log'', ''trip_log''],
      ga_set = [''date'', ''time'', ''total_log'', ''trip_log''], ga_text = [], ga_add = []\<rparr>"

definition pgn128275_decode :: "rounding \<Rightarrow> bytes \<Rightarrow> nat \<Rightarrow> attrs \<Rightarrow> (attrs \<times> nat) result" where
  "pgn128275_decode fl payload start_byte self =
     bind_r (unpack_from ''<HIII'' payload start_byte) (\<lambda>val.
     let self = assign [(''date'', AInt (val ! 0)), (''time'', check_convert_float fl (val ! 1) 0xFFFFFFFF (1 / 10000) 0),
         (''total_log'', AInt (val ! 2)), (''trip_log'', AInt (val ! 3))] self in
     Inr (self, start_byte + 14))"

definition pgn128275_encode :: "rounding \<Rightarrow> attrs \<Rightarrow> bytes result" where
  "pgn128275_encode fl self =
     (let buffer = replicate 14 0 in
      bind_r (attr_to_int fl self ''time'' 0xFFFFFFFF (Some (1 / 10000))) (\<lambda>v0.
      bind_r (pack_into ''<HIII'' buffer 0
        [get_attr self ''date'', Inr (AInt v0), get_attr self ''total_log'', get_attr self ''trip_log'']) (\<lambda>buffer.
      Inr buffer)))"

definition pgn128275_fields :: "pb_field list" where
  "pgn128275_fields =
     [PbField ''date'' ''uint32'', PbField ''time'' ''float'', PbField ''total_log'' ''uint32'',
      PbField ''trip_log'' ''uint32'']"

definition pgn128275 :: gen_class where
  "pgn128275 =
     \<lparr>gc_header = pgn128275_header, gc_access = pgn128275_access, gc_decode = pgn128275_decode,
      gc_encode = Some pgn128275_encode, gc_fields = pgn128275_fields,
      gc_items = []\<rparr>"

end
