(* ===== verification/GenNav.thy ===== *)
theory GenNav
  imports GenBase
begin

text \<open>
  The classes of \<^verbatim>\<open>generated/nmea2000_classes_gen.py\<close> for position, satellites, navigation and routes.
  Of each: its constants (\<open>_header\<close>), its properties (\<open>_access\<close>), its two conversions and the fields it copies
  to and from protobuf (\<open>_fields\<close>), in the order of the source.
\<close>

section \<open>129025: Position, Rapid Update\<close>

definition pgn129025_header :: gen_header where
  "pgn129025_header =
     \<lparr>gh_name = ''Pgn129025Class'', gh_pgn = Some 129025, gh_title = ''Position, Rapid Update'',
      gh_manufacturer = None, gh_structs = [''<ii''], gh_slots = [''latitude'', ''longitude''],
      gh_static = Some 8, gh_enums = [],
      gh_json =
       [FloatFormatter ''latitude'' ''Latitude'' ''{:.6f}'' None,
        FloatFormatter ''longitude'' ''Longitude'' ''{:.6f}'' None],
      gh_init = []\<rparr>"

definition pgn129025_access :: gen_access where
  "pgn129025_access =
     \<lparr>ga_get = [''latitude'', ''longitude''], ga_set = [''latitude'', ''longitude''], ga_text = [], ga_add = []\<rparr>"

definition pgn129025_decode :: "rounding \<Rightarrow> bytes \<Rightarrow> nat \<Rightarrow> attrs \<Rightarrow> (attrs \<times> nat) result" where
  "pgn129025_decode fl payload start_byte self =
     bind_r (unpack_from ''<ii'' payload start_byte) (\<lambda>val.
     let self = assign [(''latitude'', check_convert_float fl (val ! 0) 0x7FFFFFFF (1 / 10000000) 0),
         (''longitude'', check_convert_float fl (val ! 1) 0x7FFFFFFF (1 / 10000000) 0)] self in
     Inr (self, start_byte + 8))"

definition pgn129025_encode :: "rounding \<Rightarrow> attrs \<Rightarrow> bytes result" where
  "pgn129025_encode fl self =
     (let buffer = replicate 8 0 in
      bind_r (attr_to_int fl self ''latitude'' 0x7FFFFFFF (Some (1 / 10000000))) (\<lambda>v0.
      bind_r (attr_to_int fl self ''longitude'' 0x7FFFFFFF (Some (1 / 10000000))) (\<lambda>v1.
      bind_r (pack_into ''<ii'' buffer 0
        [Inr (AInt v0), Inr (AInt v1)]) (\<lambda>buffer.
      Inr buffer))))"

definition pgn129025_fields :: "pb_field list" where
  "pgn129025_fields =
     [PbField ''latitude'' ''float'', PbField ''longitude'' ''float'']"

definition pgn129025 :: gen_class where
  "pgn129025 =
     \<lparr>gc_header = pgn129025_header, gc_access = pgn129025_access, gc_decode = pgn129025_decode,
      gc_encode = Some pgn129025_encode, gc_fields = pgn129025_fields,
      gc_items = []\<rparr>"

section \<open>129026: COG & SOG, Rapid Update\<close>

definition pgn129026_COG_reference_enum :: "(int \<times> string) list" where
  "pgn129026_COG_reference_enum =
     [(0, ''True''), (1, ''Magnetic''), (2, ''Error'')]"

definition pgn129026_header :: gen_header where
  "pgn129026_header =
     \<lparr>gh_name = ''Pgn129026Class'', gh_pgn = Some 129026, gh_title = ''COG & SOG, Rapid Update'',
      gh_manufacturer = None, gh_structs = [''<BBHHH''],
      gh_slots = [''sequence_id'', ''COG_reference'', ''COG'', ''SOG''], gh_static = Some 8,
      gh_enums = [(''COG_reference_enum'', LocalEnum pgn129026_COG_reference_enum)],
      gh_json =
       [GenericFormatter ''sequence_id'' ''SID'' 0xFF,
        EnumFormatter ''COG_reference'' ''COG Reference'' 3 (LocalEnum pgn129026_COG_reference_enum),
        FloatFormatter ''COG'' ''COG'' ''{:.4f}'' None, FloatFormatter ''SOG'' ''SOG'' ''{:.2f}'' None],
      gh_init = []\<rparr>"

definition pgn129026_access :: gen_access where
  "pgn129026_access =
     \<lparr>ga_get = [''sequence_id'', ''COG_reference'', ''COG'', ''SOG''],
      ga_set = [''sequence_id'', ''COG_reference'', ''COG'', ''SOG''],
      ga_text = [(''COG_reference_text'', ''COG_reference_enum'', ''COG_reference'')], ga_add = []\<rparr>"

definition pgn129026_decode :: "rounding \<Rightarrow> bytes \<Rightarrow> nat \<Rightarrow> attrs \<Rightarrow> (attrs \<times> nat) result" where
  "pgn129026_decode fl payload start_byte self =
     bind_r (unpack_from ''<BBHHH'' payload start_byte) (\<lambda>val.
     let self = assign [(''sequence_id'', AInt (val ! 0))] self in
     if get_attr self ''sequence_id'' = Inr (AInt 255) then Inl N2KInvalidMessageException else
     let self = assign [(''COG_reference'', AInt (val ! 1 AND 3)),
         (''COG'', check_convert_float fl (val ! 2) 0xFFFF (1 / 10000) 0),
         (''SOG'', check_convert_float fl (val ! 3) 0xFFFF (1 / 100) 0)] self in
     Inr (self, start_byte + 8))"

definition pgn129026_encode :: "rounding \<Rightarrow> attrs \<Rightarrow> bytes result" where
  "pgn129026_encode fl self =
     (let buffer = replicate 8 0 in
      bind_r (or_fields [attr_field self ''COG_reference'' 3 0, pad_bits 0x3F 2]) (\<lambda>v0.
      bind_r (attr_to_int fl self ''COG'' 0xFFFF (Some (1 / 10000))) (\<lambda>v1.
      bind_r (attr_to_int fl self ''SOG'' 0xFFFF (Some (1 / 100))) (\<lambda>v2.
      let v3 = (0xFFFF :: int) in
      bind_r (pack_into ''<BBHHH'' buffer 0
        [get_attr self ''sequence_id'', Inr (AInt v0), Inr (AInt v1), Inr (AInt v2), Inr (AInt v3)]) (\<lambda>buffer.
      Inr buffer)))))"

definition pgn129026_fields :: "pb_field list" where
  "pgn129026_fields =
     [PbField ''sequence_id'' ''uint32'', PbField ''COG_reference'' ''uint32'', PbField ''COG'' ''float'',
      PbField ''SOG'' ''float'']"

definition pgn129026 :: gen_class where
  "pgn129026 =
     \<lparr>gc_header = pgn129026_header, gc_access = pgn129026_access, gc_decode = pgn129026_decode,
      gc_encode = Some pgn129026_encode, gc_fields = pgn129026_fields,
      gc_items = []\<rparr>"

section \<open>129029: GNSS Position Data\<close>

definition pgn129029_ref_stations_header :: gen_header where
  "pgn129029_ref_stations_header =
     \<lparr>gh_name = ''Ref_StationsClass'', gh_pgn = None, gh_title = [], gh_manufacturer = None,
      gh_structs = [''<Hh''], gh_slots = [''GNSS_type'', ''station_id'', ''age_DGNSS_correction''],
      gh_static = Some 4, gh_enums = [(''GNSS_type_enum'', GlobalEnum ''GNSS type'')],
      gh_json =
       [EnumFormatter ''GNSS_type'' ''Reference Station Type'' 0xF (GlobalEnum ''GNSS type''),
        GenericFormatter ''station_id'' ''Reference Station ID'' 0xFFF,
        FloatFormatter ''age_DGNSS_correction'' ''Age of DGNSS Corrections'' ''{:.2f}'' None],
      gh_init = []\<rparr>"

definition pgn129029_ref_stations_access :: gen_access where
  "pgn129029_ref_stations_access =
     \<lparr>ga_get = [''GNSS_type'', ''station_id'', ''age_DGNSS_correction''],
      ga_set = [''GNSS_type'', ''station_id'', ''age_DGNSS_correction''],
      ga_text = [(''GNSS_type_text'', ''GNSS_type_enum'', ''GNSS_type'')], ga_add = []\<rparr>"

definition pgn129029_ref_stations_decode :: "rounding \<Rightarrow> bytes \<Rightarrow> nat \<Rightarrow> attrs \<Rightarrow> (attrs \<times> nat) result" where
  "pgn129029_ref_stations_decode fl payload start_byte self =
     bind_r (unpack_from ''<Hh'' payload start_byte) (\<lambda>val.
     let self = assign [(''GNSS_type'', AInt (val ! 0 AND 0xF)), (''station_id'', AInt (drop_bit 4 (val ! 0) AND 0xFFF)),
         (''age_DGNSS_correction'', check_convert_float fl (val ! 1) 0x7FFF (1 / 100) 0)] self in
     Inr (self, start_byte + 4))"

definition pgn129029_ref_stations_encode :: "rounding \<Rightarrow> attrs \<Rightarrow> bytes \<Rightarrow> nat \<Rightarrow> (bytes \<times> nat) result" where
  "pgn129029_ref_stations_encode fl self buffer start_byte =
     (bind_r (or_fields [attr_field self ''GNSS_type'' 0xF 0, attr_field self ''station_id'' 0xFFF 4]) (\<lambda>v0.
      bind_r (attr_to_int fl self ''age_DGNSS_correction'' 0x7FFF (Some (1 / 100))) (\<lambda>v1.
      bind_r (pack_into ''<Hh'' buffer start_byte
        [Inr (AInt v0), Inr (AInt v1)]) (\<lambda>buffer.
      Inr (buffer, 4 + start_byte)))))"

definition pgn129029_ref_stations_fields :: "(string \<times> string) list" where
  "pgn129029_ref_stations_fields =
     [(''GNSS_type'', ''uint32''), (''station_id'', ''uint32''), (''age_DGNSS_correction'', ''float'')]"

definition pgn129029_method_enum :: "(int \<times> string) list" where
  "pgn129029_method_enum =
     [(0, ''no GNSS''), (1, ''GNSS fix''), (2, ''DGNSS fix''), (3, ''Precise GNSS''),
      (4, ''RTK Fixed Integer''), (5, ''RTK float''), (6, ''Estimated (DR) mode''), (7, ''Manual Input''),
      (8, ''Simulate mode'')]"

definition pgn129029_integrity_enum :: "(int \<times> string) list" where
  "pgn129029_integrity_enum =
     [(0, ''No integrity checking''), (1, ''Safe''), (2, ''Caution'')]"

definition pgn129029_header :: gen_header where
  "pgn129029_header =
     \<lparr>gh_name = ''Pgn129029Class'', gh_pgn = Some 129029, gh_title = ''GNSS Position Data'',
      gh_manufacturer = None, gh_structs = [''<BHIqqqBBBhhiB''],
      gh_slots = [''sequence_id'', ''date'', ''time'', ''latitude'', ''longitude'', ''altitude'', ''GNSS_type'',
        ''method'', ''integrity'', ''number_of_sv'', ''HDOP'', ''PDOP'', ''geoidal_separation'',
        ''nb_ref_stations'', ''ref_stations''],
      gh_static = None,
      gh_enums = [(''GNSS_type_enum'', GlobalEnum ''GNSS type''), (''method_enum'', LocalEnum pgn129029_method_enum),
        (''integrity_enum'', LocalEnum pgn129029_integrity_enum)],
      gh_json =
       [GenericFormatter ''sequence_id'' ''SID'' 0xFF, GenericFormatter ''date'' ''Date'' 0xFFFF,
        FloatFormatter ''time'' ''Time'' ''{:.2f}'' None,
        FloatFormatter ''latitude'' ''Latitude'' ''{:.6f}'' None,
        FloatFormatter ''longitude'' ''Longitude'' ''{:.6f}'' None,
        FloatFormatter ''altitude'' ''Altitude'' ''{:.1f}'' None,
        EnumFormatter ''GNSS_type'' ''GNSS type'' 0xF (GlobalEnum ''GNSS type''),
        EnumFormatter ''method'' ''Method'' 0xF (LocalEnum pgn129029_method_enum),
        EnumFormatter ''integrity'' ''Integrity'' 3 (LocalEnum pgn129029_integrity_enum),
        GenericFormatter ''number_of_sv'' ''Number of SVs'' 0xFF,
        FloatFormatter ''HDOP'' ''HDOP'' ''{:.0f}'' None, FloatFormatter ''PDOP'' ''PDOP'' ''{:.0f}'' None,
        FloatFormatter ''geoidal_separation'' ''Geoidal Separation'' ''{:.0f}'' None,
        RepeatedFormatter ''nb_ref_stations'' ''nStations'' ''ref_stations''],
      gh_init = [(''nb_ref_stations'', AInt 0), (''ref_stations'', AList [])]\<rparr>"

definition pgn129029_access :: gen_access where
  "pgn129029_access =
     \<lparr>ga_get = [''sequence_id'', ''date'', ''time'', ''latitude'', ''longitude'', ''altitude'', ''GNSS_type'',
        ''method'', ''integrity'', ''number_of_sv'', ''HDOP'', ''PDOP'', ''geoidal_separation'',
        ''nb_ref_stations'', ''ref_stations''],
      ga_set = [''sequence_id'', ''date'', ''time'', ''latitude'', ''longitude'', ''altitude'', ''GNSS_type'',
        ''method'', ''integrity'', ''number_of_sv'', ''HDOP'', ''PDOP'', ''geoidal_separation'',
        ''nb_ref_stations''],
      ga_text = [(''GNSS_type_text'', ''GNSS_type_enum'', ''GNSS_type''), (''method_text'', ''method_enum'', ''method''),
        (''integrity_text'', ''integrity_enum'', ''integrity'')],
      ga_add = []\<rparr>"

definition pgn129029_decode :: "rounding \<Rightarrow> bytes \<Rightarrow> nat \<Rightarrow> attrs \<Rightarrow> (attrs \<times> nat) result" where
  "pgn129029_decode fl payload start_byte self =
     bind_r (unpack_from ''<BHIqqqBBBhhiB'' payload start_byte) (\<lambda>val.
     let self = assign [(''sequence_id'', AInt (val ! 0)), (''date'', AInt (val ! 1)),
         (''time'', check_convert_float fl (val ! 2) 0xFFFFFFFF (1 / 10000) 0),
         (''latitude'', check_convert_float fl (val ! 3) 0x7FFFFFFFFFFFFFFF (1 / 10000000000000000) 0),
         (''longitude'', check_convert_float fl (val ! 4) 0x7FFFFFFFFFFFFFFF (1 / 10000000000000000) 0),
         (''altitude'', check_convert_float fl (val ! 5) 0x7FFFFFFFFFFFFFFF (1 / 1000000) 0),
         (''GNSS_type'', AInt (val ! 6 AND 0xF)), (''method'', AInt (drop_bit 4 (val ! 6) AND 0xF)),
         (''integrity'', AInt (val ! 7 AND 3)), (''number_of_sv'', AInt (val ! 8)),
         (''HDOP'', check_convert_float fl (val ! 9) 0x7FFF (1 / 100) 0),
         (''PDOP'', check_convert_float fl (val ! 10) 0x7FFF (1 / 100) 0),
         (''geoidal_separation'', check_convert_float fl (val ! 11) 0x7FFFFFFF (1 / 100) 0),
         (''nb_ref_stations'', AInt (check_valid (val ! 12) 0xFF 0))] self in
     bind_r (attr_count self ''nb_ref_stations'') (\<lambda>n.
     bind_r (attr_list self ''ref_stations'') (\<lambda>items.
     bind_r (decode_repeat n (\<lambda>start. map_sum id (\<lambda>(item, _). (item, start + 4)) (pgn129029_ref_stations_decode fl payload start [])) (start_byte + 43) items) (\<lambda>(items, start_byte1).
     let self = assign [(''ref_stations'', AList items)] self in
     Inr (self, start_byte1)))))"

definition pgn129029_encode :: "rounding \<Rightarrow> attrs \<Rightarrow> bytes result" where
  "pgn129029_encode fl self =
     (let buffer = replicate DEFAULT_BUFFER_SIZE 0 in
      bind_r (attr_to_int fl self ''time'' 0xFFFFFFFF (Some (1 / 10000))) (\<lambda>v0.
      bind_r (attr_to_int fl self ''latitude'' 0x7FFFFFFFFFFFFFFF (Some (1 / 10000000000000000))) (\<lambda>v1.
      bind_r (attr_to_int fl self ''longitude'' 0x7FFFFFFFFFFFFFFF (Some (1 / 10000000000000000))) (\<lambda>v2.
      bind_r (attr_to_int fl self ''altitude'' 0x7FFFFFFFFFFFFFFF (Some (1 / 1000000))) (\<lambda>v3.
      bind_r (or_fields [attr_field self ''GNSS_type'' 0xF 0, attr_field self ''method'' 0xF 4]) (\<lambda>v4.
      bind_r (or_fields [attr_field self ''integrity'' 3 0, pad_bits 0x3F 2]) (\<lambda>v5.
      bind_r (attr_to_int fl self ''HDOP'' 0x7FFF (Some (1 / 100))) (\<lambda>v6.
      bind_r (attr_to_int fl self ''PDOP'' 0x7FFF (Some (1 / 100))) (\<lambda>v7.
      bind_r (attr_to_int fl self ''geoidal_separation'' 0x7FFFFFFF (Some (1 / 100))) (\<lambda>v8.
      bind_r (pack_into ''<BHIqqqBBBhhiB'' buffer 0
        [get_attr self ''sequence_id'', get_attr self ''date'', Inr (AInt v0), Inr (AInt v1), Inr (AInt v2),
         Inr (AInt v3), Inr (AInt v4), Inr (AInt v5), get_attr self ''number_of_sv'', Inr (AInt v6),
         Inr (AInt v7), Inr (AInt v8), get_attr self ''nb_ref_stations'']) (\<lambda>buffer.
      bind_r (attr_list self ''ref_stations'') (\<lambda>items.
      bind_r (encode_repeat (pgn129029_ref_stations_encode fl) items buffer 43) (\<lambda>(buffer, start_byte1).
      Inr (take start_byte1 buffer))))))))))))))"

definition pgn129029_fields :: "pb_field list" where
  "pgn129029_fields =
     [PbField ''sequence_id'' ''uint32'', PbField ''date'' ''uint32'', PbField ''time'' ''float'',
      PbField ''latitude'' ''double'', PbField ''longitude'' ''double'', PbField ''altitude'' ''double'',
      PbField ''GNSS_type'' ''uint32'', PbField ''method'' ''uint32'', PbField ''integrity'' ''uint32'',
      PbField ''number_of_sv'' ''uint32'', PbField ''HDOP'' ''float'', PbField ''PDOP'' ''float'',
      PbField ''geoidal_separation'' ''float'', PbField ''nb_ref_stations'' ''uint32'',
      PbList ''ref_stations'' ''nb_ref_stations'' pgn129029_ref_stations_fields]"

definition pgn129029 :: gen_class where
  "pgn129029 =
     \<lparr>gc_header = pgn129029_header, gc_access = pgn129029_access, gc_decode = pgn129029_decode,
      gc_encode = Some pgn129029_encode, gc_fields = pgn129029_fields,
      gc_items = [(''ref_stations'', pgn129029_ref_stations_header)]\<rparr>"

section \<open>129283: Cross Track Error\<close>

definition pgn129283_XTE_mode_enum :: "(int \<times> string) list" where
  "pgn129283_XTE_mode_enum =
     [(0, ''Autonomous''), (1, ''Differential enhanced''), (2, ''Estimated''), (3, ''Simulator''),
      (4, ''Manual'')]"

definition pgn129283_navigation_terminated_enum :: "(int \<times> string) list" where
  "pgn129283_navigation_terminated_enum =
     [(0, ''No''), (1, ''Yes'')]"

definition pgn129283_header :: gen_header where
  "pgn129283_header =
     \<lparr>gh_name = ''Pgn129283Class'', gh_pgn = Some 129283, gh_title = ''Cross Track Error'',
      gh_manufacturer = None, gh_structs = [''<BBi''],
      gh_slots = [''sequence_id'', ''XTE_mode'', ''navigation_terminated'', ''XTE''], gh_static = Some 6,
      gh_enums = [(''XTE_mode_enum'', LocalEnum pgn129283_XTE_mode_enum),
        (''navigation_terminated_enum'', LocalEnum pgn129283_navigation_terminated_enum)],
      gh_json =
       [GenericFormatter ''sequence_id'' ''SID'' 0xFF,
        EnumFormatter ''XTE_mode'' ''XTE mode'' 0xF (LocalEnum pgn129283_XTE_mode_enum),
        EnumFormatter ''navigation_terminated'' ''Navigation Terminated'' 3 (LocalEnum pgn129283_navigation_terminated_enum),
        FloatFormatter ''XTE'' ''XTE'' ''{:.1f}'' None],
      gh_init = []\<rparr>"

definition pgn129283_access :: gen_access where
  "pgn129283_access =
     \<lparr>ga_get = [''sequence_id'', ''XTE_mode'', ''navigation_terminated'', ''XTE''],
      ga_set = [''sequence_id'', ''XTE_mode'', ''navigation_terminated'', ''XTE''],
      ga_text = [(''XTE_mode_text'', ''XTE_mode_enum'', ''XTE_mode''),
        (''navigation_terminated_text'', ''navigation_terminated_enum'', ''navigation_terminated'')],
      ga_add = []\<rparr>"

definition pgn129283_decode :: "rounding \<Rightarrow> bytes \<Rightarrow> nat \<Rightarrow> attrs \<Rightarrow> (attrs \<times> nat) result" where
  "pgn129283_decode fl payload start_byte self =
     bind_r (unpack_from ''<BBi'' payload start_byte) (\<lambda>val.
     let self = assign [(''sequence_id'', AInt (val ! 0)), (''XTE_mode'', AInt (val ! 1 AND 0xF)),
         (''navigation_terminated'', AInt (drop_bit 6 (val ! 1) AND 3)),
         (''XTE'', check_convert_float fl (val ! 2) 0x7FFFFFFF (1 / 100) 0)] self in
     Inr (self, start_byte + 6))"

definition pgn129283_encode :: "rounding \<Rightarrow> attrs \<Rightarrow> bytes result" where
  "pgn129283_encode fl self =
     (let buffer = replicate 6 0 in
      bind_r (or_fields [attr_field self ''XTE_mode'' 0xF 0, pad_bits 3 4, attr_field self ''navigation_terminated'' 3 6]) (\<lambda>v0.
      bind_r (attr_to_int fl self ''XTE'' 0x7FFFFFFF (Some (1 / 100))) (\<lambda>v1.
      bind_r (pack_into ''<BBi'' buffer 0
        [get_attr self ''sequence_id'', Inr (AInt v0), Inr (AInt v1)]) (\<lambda>buffer.
      Inr buffer))))"

definition pgn129283_fields :: "pb_field list" where
  "pgn129283_fields =
     [PbField ''sequence_id'' ''uint32'', PbField ''XTE_mode'' ''uint32'',
      PbField ''navigation_terminated'' ''uint32'', PbField ''XTE'' ''float'']"

definition pgn129283 :: gen_class where
  "pgn129283 =
     \<lparr>gc_header = pgn129283_header, gc_access = pgn129283_access, gc_decode = pgn129283_decode,
      gc_encode = Some pgn129283_encode, gc_fields = pgn129283_fields,
      gc_items = []\<rparr>"

section \<open>129284: Navigation Data\<close>

definition pgn129284_bearing_reference_enum :: "(int \<times> string) list" where
  "pgn129284_bearing_reference_enum =
     [(0, ''True''), (1, ''Magnetic'')]"

definition pgn129284_perpendicular_crossed_enum :: "(int \<times> string) list" where
  "pgn129284_perpendicular_crossed_enum =
     [(0, ''No''), (1, ''Yes'')]"

definition pgn129284_arrival_circle_entered_enum :: "(int \<times> string) list" where
  "pgn129284_arrival_circle_entered_enum =
     [(0, ''No''), (1, ''Yes'')]"

definition pgn129284_calculation_type_enum :: "(int \<times> string) list" where
  "pgn129284_calculation_type_enum =
     [(0, ''Great Circle''), (1, ''Rhumb Line'')]"

definition pgn129284_header :: gen_header where
  "pgn129284_header =
     \<lparr>gh_name = ''Pgn129284Class'', gh_pgn = Some 129284, gh_title = ''Navigation Data'',
      gh_manufacturer = None, gh_structs = [''<BIBIHHHIIiih''],
      gh_slots = [''sequence_id'', ''distance_to_waypoint'', ''bearing_reference'', ''perpendicular_crossed'',
        ''arrival_circle_entered'', ''calculation_type'', ''ETA_time'', ''ETA_date'',
        ''bearing_origin_to_destination'', ''bearing_position_to_destination'', ''origin_waypoint'',
        ''destination_waypoint'', ''destination_latitude'', ''destination_longitude'', ''WCV''],
      gh_static = Some 34,
      gh_enums = [(''bearing_reference_enum'', LocalEnum pgn129284_bearing_reference_enum),
        (''perpendicular_crossed_enum'', LocalEnum pgn129284_perpendicular_crossed_enum),
        (''arrival_circle_entered_enum'', LocalEnum pgn129284_arrival_circle_entered_enum),
        (''calculation_type_enum'', LocalEnum pgn129284_calculation_type_enum)],
      gh_json =
       [GenericFormatter ''sequence_id'' ''SID'' 0xFF,
        FloatFormatter ''distance_to_waypoint'' ''Distance to Waypoint'' ''{:.1f}'' None,
        EnumFormatter ''bearing_reference'' ''Course/Bearing reference'' 3 (LocalEnum pgn129284_bearing_reference_enum),
        EnumFormatter ''perpendicular_crossed'' ''Perpendicular Crossed'' 3 (LocalEnum pgn129284_perpendicular_crossed_enum),
        EnumFormatter ''arrival_circle_entered'' ''Arrival Circle Entered'' 3 (LocalEnum pgn129284_arrival_circle_entered_enum),
        EnumFormatter ''calculation_type'' ''Calculation Type'' 3 (LocalEnum pgn129284_calculation_type_enum),
        FloatFormatter ''ETA_time'' ''ETA Time'' ''{:.2f}'' None,
        GenericFormatter ''ETA_date'' ''ETA Date'' 0xFFFF,
        FloatFormatter ''bearing_origin_to_destination'' ''Bearing, Origin to Destination Waypoint'' ''{:.4f}'' None,
        FloatFormatter ''bearing_position_to_destination'' ''Bearing, Position to Destination Waypoint'' ''{:.4f}'' None,
        GenericFormatter ''origin_waypoint'' ''Origin Waypoint Number'' 0xFFFFFFFF,
        GenericFormatter ''destination_waypoint'' ''Destination Waypoint Number'' 0xFFFFFFFF,
        FloatFormatter ''destination_latitude'' ''Destination Latitude'' ''{:.6f}'' None,
        FloatFormatter ''destination_longitude'' ''Destination Longitude'' ''{:.6f}'' None,
        FloatFormatter ''WCV'' ''Waypoint Closing Velocity'' ''{:.2f}'' None],
      gh_init = []\<rparr>"

definition pgn129284_access :: gen_access where
  "pgn129284_access =
     \<lparr>ga_get = [''sequence_id'', ''distance_to_waypoint'', ''bearing_reference'', ''perpendicular_crossed'',
        ''arrival_circle_entered'', ''calculation_type'', ''ETA_time'', ''ETA_date'',
        ''bearing_origin_to_destination'', ''bearing_position_to_destination'', ''origin_waypoint'',
        ''destination_waypoint'', ''destination_latitude'', ''destination_longitude'', ''WCV''],
      ga_set = [''sequence_id'', ''distance_to_waypoint'', ''bearing_reference'', ''perpendicular_crossed'',
        ''arrival_circle_entered'', ''calculation_type'', ''ETA_time'', ''ETA_date'',
        ''bearing_origin_to_destination'', ''bearing_position_to_destination'', ''origin_waypoint'',
        ''destination_waypoint'', ''destination_latitude'', ''destination_longitude'', ''WCV''],
      ga_text = [(''bearing_reference_text'', ''bearing_reference_enum'', ''bearing_reference''),
        (''perpendicular_crossed_text'', ''perpendicular_crossed_enum'', ''perpendicular_crossed''),
        (''arrival_circle_entered_text'', ''arrival_circle_entered_enum'', ''arrival_circle_entered''),
        (''calculation_type_text'', ''calculation_type_enum'', ''calculation_type'')],
      ga_add = []\<rparr>"

definition pgn129284_decode :: "rounding \<Rightarrow> bytes \<Rightarrow> nat \<Rightarrow> attrs \<Rightarrow> (attrs \<times> nat) result" where
  "pgn129284_decode fl payload start_byte self =
     bind_r (unpack_from ''<BIBIHHHIIiih'' payload start_byte) (\<lambda>val.
     let self = assign [(''sequence_id'', AInt (val ! 0)),
         (''distance_to_waypoint'', check_convert_float fl (val ! 1) 0xFFFFFFFF (1 / 100) 0),
         (''bearing_reference'', AInt (val ! 2 AND 3)),
         (''perpendicular_crossed'', AInt (drop_bit 2 (val ! 2) AND 3)),
         (''arrival_circle_entered'', AInt (drop_bit 4 (val ! 2) AND 3)),
         (''calculation_type'', AInt (drop_bit 6 (val ! 2) AND 3)),
         (''ETA_time'', check_convert_float fl (val ! 3) 0xFFFFFFFF (1 / 10000) 0),
         (''ETA_date'', AInt (val ! 4)),
         (''bearing_origin_to_destination'', check_convert_float fl (val ! 5) 0xFFFF (1 / 1000) 0),
         (''bearing_position_to_destination'', check_convert_float fl (val ! 6) 0xFFFF (1 / 10000) 0),
         (''origin_waypoint'', AInt (val ! 7)), (''destination_waypoint'', AInt (val ! 8)),
         (''destination_latitude'', check_convert_float fl (val ! 9) 0x7FFFFFFF (1 / 10000000) 0),
         (''destination_longitude'', check_convert_float fl (val ! 10) 0x7FFFFFFF (1 / 10000000) 0),
         (''WCV'', check_convert_float fl (val ! 11) 0x7FFF (1 / 100) 0)] self in
     Inr (self, start_byte + 34))"

definition pgn129284_encode :: "rounding \<Rightarrow> attrs \<Rightarrow> bytes result" where
  "pgn129284_encode fl self =
     (let buffer = replicate 34 0 in
      bind_r (attr_to_int fl self ''distance_to_waypoint'' 0xFFFFFFFF (Some (1 / 100))) (\<lambda>v0.
      bind_r (or_fields [attr_field self ''bearing_reference'' 3 0, attr_field self ''perpendicular_crossed'' 3 2,
         attr_field self ''arrival_circle_entered'' 3 4, attr_field self ''calculation_type'' 3 6]) (\<lambda>v1.
      bind_r (attr_to_int fl self ''ETA_time'' 0xFFFFFFFF (Some (1 / 10000))) (\<lambda>v2.
      bind_r (attr_to_int fl self ''bearing_origin_to_destination'' 0xFFFF (Some (1 / 1000))) (\<lambda>v3.
      bind_r (attr_to_int fl self ''bearing_position_to_destination'' 0xFFFF (Some (1 / 10000))) (\<lambda>v4.
      bind_r (attr_to_int fl self ''destination_latitude'' 0x7FFFFFFF (Some (1 / 10000000))) (\<lambda>v5.
      bind_r (attr_to_int fl self ''destination_longitude'' 0x7FFFFFFF (Some (1 / 10000000))) (\<lambda>v6.
      bind_r (attr_to_int fl self ''WCV'' 0x7FFF (Some (1 / 100))) (\<lambda>v7.
      bind_r (pack_into ''<BIBIHHHIIiih'' buffer 0
        [get_attr self ''sequence_id'', Inr (AInt v0), Inr (AInt v1), Inr (AInt v2), get_attr self ''ETA_date'',
         Inr (AInt v3), Inr (AInt v4), get_attr self ''origin_waypoint'',
         get_attr self ''destination_waypoint'', Inr (AInt v5), Inr (AInt v6), Inr (AInt v7)]) (\<lambda>buffer.
      Inr buffer))))))))))"

definition pgn129284_fields :: "pb_field list" where
  "pgn129284_fields =
     [PbField ''sequence_id'' ''uint32'', PbField ''distance_to_waypoint'' ''float'',
      PbField ''bearing_reference'' ''uint32'', PbField ''perpendicular_crossed'' ''uint32'',
      PbField ''arrival_circle_entered'' ''uint32'', PbField ''calculation_type'' ''uint32'',
      PbField ''ETA_time'' ''float'', PbField ''ETA_date'' ''uint32'',
      PbField ''bearing_origin_to_destination'' ''float'',
      PbField ''bearing_position_to_destination'' ''float'', PbField ''origin_waypoint'' ''uint32'',
      PbField ''destination_waypoint'' ''uint32'', PbField ''destination_latitude'' ''float'',
      PbField ''destination_longitude'' ''float'', PbField ''WCV'' ''float'']"

definition pgn129284 :: gen_class where
  "pgn129284 =
     \<lparr>gc_header = pgn129284_header, gc_access = pgn129284_access, gc_decode = pgn129284_decode,
      gc_encode = Some pgn129284_encode, gc_fields = pgn129284_fields,
      gc_items = []\<rparr>"

section \<open>129285: Navigation - Route/WP Information\<close>

definition pgn129285_wp_definitions_header :: gen_header where
  "pgn129285_wp_definitions_header =
     \<lparr>gh_name = ''Wp_DefinitionsClass'', gh_pgn = None, gh_title = [], gh_manufacturer = None,
      gh_structs = [''<H'', ''<ii''],
      gh_slots = [''waypoint_id'', ''waypoint_name'', ''waypoint_latitude'', ''waypoint_longitude''],
      gh_static = None, gh_enums = [],
      gh_json =
       [GenericFormatter ''waypoint_id'' ''WP ID'' 0xFFFF, TextFormatter ''waypoint_name'' ''WP Name'',
        FloatFormatter ''waypoint_latitude'' ''WP Latitude'' ''{:.6f}'' None,
        FloatFormatter ''waypoint_longitude'' ''WP Longitude'' ''{:.6f}'' None],
      gh_init = []\<rparr>"

definition pgn129285_wp_definitions_access :: gen_access where
  "pgn129285_wp_definitions_access =
     \<lparr>ga_get = [''waypoint_id'', ''waypoint_name'', ''waypoint_latitude'', ''waypoint_longitude''],
      ga_set = [''waypoint_id'', ''waypoint_name'', ''waypoint_latitude'', ''waypoint_longitude''],
      ga_text = [], ga_add = []\<rparr>"

definition pgn129285_wp_definitions_decode :: "rounding \<Rightarrow> bytes \<Rightarrow> nat \<Rightarrow> attrs \<Rightarrow> (attrs \<times> nat) result" where
  "pgn129285_wp_definitions_decode fl payload start_byte self =
     bind_r (unpack_from ''<H'' payload start_byte) (\<lambda>val.
     let self = assign [(''waypoint_id'', AInt (val ! 0))] self in
     bind_r (extract_var_str payload (start_byte + 2)) (\<lambda>(dec_str, dec_str_len).
     let self = assign [(''waypoint_name'', AText dec_str)] self in
     let start_byte1 = start_byte + 2 + dec_str_len in
     bind_r (unpack_from ''<ii'' payload start_byte1) (\<lambda>val.
     let self = assign [(''waypoint_latitude'', check_convert_float fl (val ! 0) 0x7FFFFFFF (1 / 10000000) 0),
         (''waypoint_longitude'', check_convert_float fl (val ! 1) 0x7FFFFFFF (1 / 10000000) 0)] self in
     Inr (self, start_byte1 + 8))))"

definition pgn129285_wp_definitions_encode :: "rounding \<Rightarrow> attrs \<Rightarrow> bytes \<Rightarrow> nat \<Rightarrow> (bytes \<times> nat) result" where
  "pgn129285_wp_definitions_encode fl self buffer start_byte =
     (bind_r (pack_into ''<H'' buffer start_byte
        [get_attr self ''waypoint_id'']) (\<lambda>buffer.
      bind_r (get_attr self ''waypoint_name'') (\<lambda>a.
      bind_r (insert_var_str buffer (start_byte + 2) a) (\<lambda>(buffer, inserted_len).
      let start_byte1 = start_byte + 2 + inserted_len in
      bind_r (attr_to_int fl self ''waypoint_latitude'' 0x7FFFFFFF (Some (1 / 10000000))) (\<lambda>v0.
      bind_r (attr_to_int fl self ''waypoint_longitude'' 0x7FFFFFFF (Some (1 / 10000000))) (\<lambda>v1.
      bind_r (pack_into ''<ii'' buffer start_byte1
        [Inr (AInt v0), Inr (AInt v1)]) (\<lambda>buffer.
      Inr (buffer, start_byte1 + 8))))))))"

definition pgn129285_wp_definitions_fields :: "(string \<times> string) list" where
  "pgn129285_wp_definitions_fields =
     [(''waypoint_id'', ''uint32''), (''waypoint_name'', ''string''), (''waypoint_latitude'', ''float''),
      (''waypoint_longitude'', ''float'')]"

definition pgn129285_header :: gen_header where
  "pgn129285_header =
     \<lparr>gh_name = ''Pgn129285Class'', gh_pgn = Some 129285, gh_title = ''Navigation - Route/WP Information'',
      gh_manufacturer = None, gh_structs = [''<HHHHB'', ''<B''],
      gh_slots = [''start_waypoint_id'', ''nb_items'', ''database_id'', ''route_id'', ''navigation_direction'',
        ''supplementary_data'', ''route_name'', ''WP_definitions''],
      gh_static = None, gh_enums = [],
      gh_json =
       [GenericFormatter ''start_waypoint_id'' ''Start RPS#'' 0xFFFF,
        RepeatedFormatter ''nb_items'' ''nItems'' ''WP_definitions'',
        GenericFormatter ''database_id'' ''Database ID'' 0xFFFF,
        GenericFormatter ''route_id'' ''Route ID'' 0xFFFF,
        GenericFormatter ''navigation_direction'' ''Navigation direction in route'' 7,
        GenericFormatter ''supplementary_data'' ''Supplementary Route/WP data available'' 3,
        TextFormatter ''route_name'' ''Route Name''],
      gh_init = [(''nb_items'', AInt 0), (''WP_definitions'', AList [])]\<rparr>"

definition pgn129285_access :: gen_access where
  "pgn129285_access =
     \<lparr>ga_get = [''start_waypoint_id'', ''nb_items'', ''database_id'', ''route_id'', ''navigation_direction'',
        ''supplementary_data'', ''route_name'', ''WP_definitions''],
      ga_set = [''start_waypoint_id'', ''nb_items'', ''database_id'', ''route_id'', ''navigation_direction'',
        ''supplementary_data'', ''route_name''],
      ga_text = [], ga_add = [(''add_Wp_Definitions'', ''WP_definitions'', ''nb_items'')]\<rparr>"

definition pgn129285_decode :: "rounding \<Rightarrow> bytes \<Rightarrow> nat \<Rightarrow> attrs \<Rightarrow> (attrs \<times> nat) result" where
  "pgn129285_decode fl payload start_byte self =
     bind_r (unpack_from ''<HHHHB'' payload start_byte) (\<lambda>val.
     let self = assign [(''start_waypoint_id'', AInt (val ! 0)), (''nb_items'', AInt (check_valid (val ! 1) 0xFFFF 0)),
         (''database_id'', AInt (val ! 2)), (''route_id'', AInt (val ! 3)),
         (''navigation_direction'', AInt (val ! 4 AND 7)),
         (''supplementary_data'', AInt (drop_bit 3 (val ! 4) AND 3))] self in
     bind_r (extract_var_str payload (start_byte + 9)) (\<lambda>(dec_str, dec_str_len).
     let self = assign [(''route_name'', AText dec_str)] self in
     let start_byte1 = start_byte + 9 + dec_str_len in
     bind_r (unpack_from ''<B'' payload start_byte1) (\<lambda>val.
     bind_r (attr_count self ''nb_items'') (\<lambda>n.
     bind_r (attr_list self ''WP_definitions'') (\<lambda>items.
     bind_r (decode_repeat n (\<lambda>start. pgn129285_wp_definitions_decode fl payload start []) (start_byte1 + 1) items) (\<lambda>(items, start_byte2).
     let self = assign [(''WP_definitions'', AList items)] self in
     Inr (self, start_byte2)))))))"

definition pgn129285_encode :: "rounding \<Rightarrow> attrs \<Rightarrow> bytes result" where
  "pgn129285_encode fl self =
     (let buffer = replicate DEFAULT_BUFFER_SIZE 0 in
      bind_r (or_fields [attr_field self ''navigation_direction'' 7 0, attr_field self ''supplementary_data'' 3 3, pad_bits 7 5]) (\<lambda>v0.
      bind_r (pack_into ''<HHHHB'' buffer 0
        [get_attr self ''start_waypoint_id'', get_attr self ''nb_items'', get_attr self ''database_id'',
         get_attr self ''route_id'', Inr (AInt v0)]) (\<lambda>buffer.
      bind_r (get_attr self ''route_name'') (\<lambda>a.
      bind_r (insert_var_str buffer 9 a) (\<lambda>(buffer, inserted_len).
      let start_byte1 = 9 + inserted_len in
      let v0 = (0xFF :: int) in
      bind_r (pack_into ''<B'' buffer start_byte1
        [Inr (AInt v0)]) (\<lambda>buffer.
      bind_r (attr_list self ''WP_definitions'') (\<lambda>items.
      bind_r (encode_repeat (pgn129285_wp_definitions_encode fl) items buffer (start_byte1 + 1)) (\<lambda>(buffer, start_byte2).
      Inr (take start_byte2 buffer)))))))))"

definition pgn129285_fields :: "pb_field list" where
  "pgn129285_fields =
     [PbField ''start_waypoint_id'' ''uint32'', PbField ''nb_items'' ''uint32'',
      PbField ''database_id'' ''uint32'', PbField ''route_id'' ''uint32'',
      PbField ''navigation_direction'' ''uint32'', PbField ''supplementary_data'' ''uint32'',
      PbField ''route_name'' ''string'', PbList ''WP_definitions'' ''nb_items'' pgn129285_wp_definitions_fields]"

definition pgn129285 :: gen_class where
  "pgn129285 =
     \<lparr>gc_header = pgn129285_header, gc_access = pgn129285_access, gc_decode = pgn129285_decode,
      gc_encode = Some pgn129285_encode, gc_fields = pgn129285_fields,
      gc_items = [(''WP_definitions'', pgn129285_wp_definitions_header)]\<rparr>"

section \<open>129539: GNSS DOPs\<close>

definition pgn129539_desired_mode_enum :: "(int \<times> string) list" where
  "pgn129539_desired_mode_enum =
     [(0, ''1D''), (1, ''2D''), (2, ''3D''), (3, ''Auto''), (4, ''Reserved''), (5, ''Reserved''),
      (6, ''Error''), (7, ''Unknown'')]"

definition pgn129539_actual_mode_enum :: "(int \<times> string) list" where
  "pgn129539_actual_mode_enum =
     [(0, ''1D''), (1, ''2D''), (2, ''3D''), (3, ''Auto''), (4, ''Reserved''), (5, ''Reserved''),
      (6, ''Error''), (7, ''Unknown'')]"

definition pgn129539_header :: gen_header where
  "pgn129539_header =
     \<lparr>gh_name = ''Pgn129539Class'', gh_pgn = Some 129539, gh_title = ''GNSS DOPs'', gh_manufacturer = None,
      gh_structs = [''<BBhhh''],
      gh_slots = [''sequence_id'', ''desired_mode'', ''actual_mode'', ''HDOP'', ''VDOP'', ''TDOP''],
      gh_static = Some 8,
      gh_enums = [(''desired_mode_enum'', LocalEnum pgn129539_desired_mode_enum),
        (''actual_mode_enum'', LocalEnum pgn129539_actual_mode_enum)],
      gh_json =
       [GenericFormatter ''sequence_id'' ''SID'' 0xFF,
        EnumFormatter ''desired_mode'' ''Desired Mode'' 7 (LocalEnum pgn129539_desired_mode_enum),
        EnumFormatter ''actual_mode'' ''Actual Mode'' 7 (LocalEnum pgn129539_actual_mode_enum),
        FloatFormatter ''HDOP'' ''HDOP'' ''{:.0f}'' None, FloatFormatter ''VDOP'' ''VDOP'' ''{:.0f}'' None,
        FloatFormatter ''TDOP'' ''TDOP'' ''{:.0f}'' None],
      gh_init = []\<rparr>"

definition pgn129539_access :: gen_access where
  "pgn129539_access =
     \<lparr>ga_get = [''sequence_id'', ''desired_mode'', ''actual_mode'', ''HDOP'', ''VDOP'', ''TDOP''],
      ga_set = [''sequence_id'', ''desired_mode'', ''actual_mode'', ''HDOP'', ''VDOP'', ''TDOP''],
      ga_text = [(''desired_mode_text'', ''desired_mode_enum'', ''desired_mode''),
        (''actual_mode_text'', ''actual_mode_enum'', ''actual_mode'')],
      ga_add = []\<rparr>"

definition pgn129539_decode :: "rounding \<Rightarrow> bytes \<Rightarrow> nat \<Rightarrow> attrs \<Rightarrow> (attrs \<times> nat) result" where
  "pgn129539_decode fl payload start_byte self =
     bind_r (unpack_from ''<BBhhh'' payload start_byte) (\<lambda>val.
     let self = assign [(''sequence_id'', AInt (val ! 0)), (''desired_mode'', AInt (val ! 1 AND 7)),
         (''actual_mode'', AInt (drop_bit 5 (val ! 1) AND 7)),
         (''HDOP'', check_convert_float fl (val ! 2) 0x7FFF (1 / 100) 0),
         (''VDOP'', check_convert_float fl (val ! 3) 0x7FFF (1 / 100) 0),
         (''TDOP'', check_convert_float fl (val ! 4) 0x7FFF (1 / 100) 0)] self in
     Inr (self, start_byte + 8))"

definition pgn129539_encode :: "rounding \<Rightarrow> attrs \<Rightarrow> bytes result" where
  "pgn129539_encode fl self =
     (let buffer = replicate 8 0 in
      bind_r (or_fields [attr_field self ''desired_mode'' 7 0, pad_bits 3 3, attr_field self ''actual_mode'' 7 5]) (\<lambda>v0.
      bind_r (attr_to_int fl self ''HDOP'' 0x7FFF (Some (1 / 100))) (\<lambda>v1.
      bind_r (attr_to_int fl self ''VDOP'' 0x7FFF (Some (1 / 100))) (\<lambda>v2.
      bind_r (attr_to_int fl self ''TDOP'' 0x7FFF (Some (1 / 100))) (\<lambda>v3.
      bind_r (pack_into ''<BBhhh'' buffer 0
        [get_attr self ''sequence_id'', Inr (AInt v0), Inr (AInt v1), Inr (AInt v2), Inr (AInt v3)]) (\<lambda>buffer.
      Inr buffer))))))"

definition pgn129539_fields :: "pb_field list" where
  "pgn129539_fields =
     [PbField ''sequence_id'' ''uint32'', PbField ''desired_mode'' ''uint32'',
      PbField ''actual_mode'' ''uint32'', PbField ''HDOP'' ''float'', PbField ''VDOP'' ''float'',
      PbField ''TDOP'' ''float'']"

definition pgn129539 :: gen_class where
  "pgn129539 =
     \<lparr>gc_header = pgn129539_header, gc_access = pgn129539_access, gc_decode = pgn129539_decode,
      gc_encode = Some pgn129539_encode, gc_fields = pgn129539_fields,
      gc_items = []\<rparr>"

section \<open>129540: GNSS Sats in View\<close>

definition pgn129540_satellites_data_status_enum :: "(int \<times> string) list" where
  "pgn129540_satellites_data_status_enum =
     [(0, ''Not tracked''), (1, ''Tracked''), (2, ''Used''), (3, ''Not tracked+Diff''), (4, ''Tracked+Diff''),
      (5, ''Used+Diff'')]"

definition pgn129540_satellites_data_header :: gen_header where
  "pgn129540_satellites_data_header =
     \<lparr>gh_name = ''Satellites_DataClass'', gh_pgn = None, gh_title = [], gh_manufacturer = None,
      gh_structs = [''<BhHHiB''],
      gh_slots = [''satellite_number'', ''elevation'', ''azimuth'', ''signal_noise_ratio'', ''range_residuals'',
        ''status''],
      gh_static = Some 12, gh_enums = [(''status_enum'', LocalEnum pgn129540_satellites_data_status_enum)],
      gh_json =
       [GenericFormatter ''satellite_number'' ''PRN'' 0xFF,
        FloatFormatter ''elevation'' ''Elevation'' ''{:.4f}'' None,
        FloatFormatter ''azimuth'' ''Azimuth'' ''{:.4f}'' None,
        FloatFormatter ''signal_noise_ratio'' ''SNR'' ''{:.0f}'' None,
        GenericFormatter ''range_residuals'' ''Range residuals'' 0x7FFFFFFF,
        EnumFormatter ''status'' ''Status'' 0xF (LocalEnum pgn129540_satellites_data_status_enum)],
      gh_init = []\<rparr>"

definition pgn129540_satellites_data_access :: gen_access where
  "pgn129540_satellites_data_access =
     \<lparr>ga_get = [''satellite_number'', ''elevation'', ''azimuth'', ''signal_noise_ratio'', ''range_residuals'',
        ''status''],
      ga_set = [''satellite_number'', ''elevation'', ''azimuth'', ''signal_noise_ratio'', ''range_residuals'',
        ''status''],
      ga_text = [(''status_text'', ''status_enum'', ''status'')], ga_add = []\<rparr>"

definition pgn129540_satellites_data_decode :: "rounding \<Rightarrow> bytes \<Rightarrow> nat \<Rightarrow> attrs \<Rightarrow> (attrs \<times> nat) result" where
  "pgn129540_satellites_data_decode fl payload start_byte self =
     bind_r (unpack_from ''<BhHHiB'' payload start_byte) (\<lambda>val.
     let self = assign [(''satellite_number'', AInt (val ! 0)),
         (''elevation'', check_convert_float fl (val ! 1) 0x7FFF (1 / 10000) 0),
         (''azimuth'', check_convert_float fl (val ! 2) 0xFFFF (1 / 10000) 0),
         (''signal_noise_ratio'', check_convert_float fl (val ! 3) 0xFFFF (1 / 100) 0),
         (''range_residuals'', AInt (val ! 4)), (''status'', AInt (val ! 5 AND 0xF))] self in
     Inr (self, start_byte + 12))"

definition pgn129540_satellites_data_encode :: "rounding \<Rightarrow> attrs \<Rightarrow> bytes \<Rightarrow> nat \<Rightarrow> (bytes \<times> nat) result" where
  "pgn129540_satellites_data_encode fl self buffer start_byte =
     (bind_r (attr_to_int fl self ''elevation'' 0x7FFF (Some (1 / 10000))) (\<lambda>v0.
      bind_r (attr_to_int fl self ''azimuth'' 0xFFFF (Some (1 / 10000))) (\<lambda>v1.
      bind_r (attr_to_int fl self ''signal_noise_ratio'' 0xFFFF (Some (1 / 100))) (\<lambda>v2.
      bind_r (or_fields [attr_field self ''status'' 0xF 0, pad_bits 0xF 4]) (\<lambda>v3.
      bind_r (pack_into ''<BhHHiB'' buffer start_byte
        [get_attr self ''satellite_number'', Inr (AInt v0), Inr (AInt v1), Inr (AInt v2),
         get_attr self ''range_residuals'', Inr (AInt v3)]) (\<lambda>buffer.
      Inr (buffer, 12 + start_byte)))))))"

definition pgn129540_satellites_data_fields :: "(string \<times> string) list" where
  "pgn129540_satellites_data_fields =
     [(''satellite_number'', ''uint32''), (''elevation'', ''float''), (''azimuth'', ''float''),
      (''signal_noise_ratio'', ''float''), (''range_residuals'', ''int32''), (''status'', ''uint32'')]"

definition pgn129540_mode_enum :: "(int \<times> string) list" where
  "pgn129540_mode_enum =
     [(3, ''Range residuals used to calculate position'')]"

definition pgn129540_header :: gen_header where
  "pgn129540_header =
     \<lparr>gh_name = ''Pgn129540Class'', gh_pgn = Some 129540, gh_title = ''GNSS Sats in View'',
      gh_manufacturer = None, gh_structs = [''<BBB''],
      gh_slots = [''sequence_id'', ''mode'', ''sats_in_view'', ''satellites_data''], gh_static = None,
      gh_enums = [(''mode_enum'', LocalEnum pgn129540_mode_enum)],
      gh_json =
       [GenericFormatter ''sequence_id'' ''SID'' 0xFF,
        EnumFormatter ''mode'' ''Mode'' 3 (LocalEnum pgn129540_mode_enum),
        RepeatedFormatter ''sats_in_view'' ''Sats in View'' ''satellites_data''],
      gh_init = [(''sats_in_view'', AInt 0), (''satellites_data'', AList [])]\<rparr>"

definition pgn129540_access :: gen_access where
  "pgn129540_access =
     \<lparr>ga_get = [''sequence_id'', ''mode'', ''sats_in_view'', ''satellites_data''],
      ga_set = [''sequence_id'', ''mode'', ''sats_in_view''],
      ga_text = [(''mode_text'', ''mode_enum'', ''mode'')], ga_add = []\<rparr>"

definition pgn129540_decode :: "rounding \<Rightarrow> bytes \<Rightarrow> nat \<Rightarrow> attrs \<Rightarrow> (attrs \<times> nat) result" where
  "pgn129540_decode fl payload start_byte self =
     bind_r (unpack_from ''<BBB'' payload start_byte) (\<lambda>val.
     let self = assign [(''sequence_id'', AInt (val ! 0)), (''mode'', AInt (val ! 1 AND 3)),
         (''sats_in_view'', AInt (check_valid (val ! 2) 0xFF 0))] self in
     bind_r (attr_count self ''sats_in_view'') (\<lambda>n.
     bind_r (attr_list self ''satellites_data'') (\<lambda>items.
     bind_r (decode_repeat n (\<lambda>start. map_sum id (\<lambda>(item, _). (item, start + 12)) (pgn129540_satellites_data_decode fl payload start [])) (start_byte + 3) items) (\<lambda>(items, start_byte1).
     let self = assign [(''satellites_data'', AList items)] self in
     Inr (self, start_byte1)))))"

definition pgn129540_encode :: "rounding \<Rightarrow> attrs \<Rightarrow> bytes result" where
  "pgn129540_encode fl self =
     (let buffer = replicate DEFAULT_BUFFER_SIZE 0 in
      bind_r (or_fields [attr_field self ''mode'' 3 0, pad_bits 0x3F 2]) (\<lambda>v0.
      bind_r (pack_into ''<BBB'' buffer 0
        [get_attr self ''sequence_id'', Inr (AInt v0), get_attr self ''sats_in_view'']) (\<lambda>buffer.
      bind_r (attr_list self ''satellites_data'') (\<lambda>items.
      bind_r (encode_repeat (pgn129540_satellites_data_encode fl) items buffer 3) (\<lambda>(buffer, start_byte1).
      Inr (take start_byte1 buffer))))))"

definition pgn129540_fields :: "pb_field list" where
  "pgn129540_fields =
     [PbField ''sequence_id'' ''uint32'', PbField ''mode'' ''uint32'', PbField ''sats_in_view'' ''uint32'',
      PbList ''satellites_data'' ''sats_in_view'' pgn129540_satellites_data_fields]"

definition pgn129540 :: gen_class where
  "pgn129540 =
     \<lparr>gc_header = pgn129540_header, gc_access = pgn129540_access, gc_decode = pgn129540_decode,
      gc_encode = Some pgn129540_encode, gc_fields = pgn129540_fields,
      gc_items = [(''satellites_data'', pgn129540_satellites_data_header)]\<rparr>"

section \<open>130074: Route and WP Service - WP List - WP Name & Position\<close>

definition pgn130074_wp_definitions_header :: gen_header where
  "pgn130074_wp_definitions_header =
     \<lparr>gh_name = ''Wp_DefinitionsClass'', gh_pgn = None, gh_title = [], gh_manufacturer = None,
      gh_structs = [''<H'', ''<ii''],
      gh_slots = [''waypoint_id'', ''waypoint_name'', ''waypoint_latitude'', ''waypoint_longitude''],
      gh_static = None, gh_enums = [],
      gh_json =
       [GenericFormatter ''waypoint_id'' ''WP ID'' 0xFFFF, TextFormatter ''waypoint_name'' ''WP Name'',
        FloatFormatter ''waypoint_latitude'' ''WP Latitude'' ''{:.6f}'' None,
        FloatFormatter ''waypoint_longitude'' ''WP Longitude'' ''{:.6f}'' None],
      gh_init = []\<rparr>"

definition pgn130074_wp_definitions_access :: gen_access where
  "pgn130074_wp_definitions_access =
     \<lparr>ga_get = [''waypoint_id'', ''waypoint_name'', ''waypoint_latitude'', ''waypoint_longitude''],
      ga_set = [''waypoint_id'', ''waypoint_name'', ''waypoint_latitude'', ''waypoint_longitude''],
      ga_text = [], ga_add = []\<rparr>"

definition pgn130074_wp_definitions_decode :: "rounding \<Rightarrow> bytes \<Rightarrow> nat \<Rightarrow> attrs \<Rightarrow> (attrs \<times> nat) result" where
  "pgn130074_wp_definitions_decode fl payload start_byte self =
     bind_r (unpack_from ''<H'' payload start_byte) (\<lambda>val.
     let self = assign [(''waypoint_id'', AInt (val ! 0))] self in
     bind_r (extract_var_str payload (start_byte + 2)) (\<lambda>(dec_str, dec_str_len).
     let self = assign [(''waypoint_name'', AText dec_str)] self in
     let start_byte1 = start_byte + 2 + dec_str_len in
     bind_r (unpack_from ''<ii'' payload start_byte1) (\<lambda>val.
     let self = assign [(''waypoint_latitude'', check_convert_float fl (val ! 0) 0x7FFFFFFF (1 / 10000000) 0),
         (''waypoint_longitude'', check_convert_float fl (val ! 1) 0x7FFFFFFF (1 / 10000000) 0)] self in
     Inr (self, start_byte1 + 8))))"

definition pgn130074_wp_definitions_encode :: "rounding \<Rightarrow> attrs \<Rightarrow> bytes \<Rightarrow> nat \<Rightarrow> (bytes \<times> nat) result" where
  "pgn130074_wp_definitions_encode fl self buffer start_byte =
     (bind_r (pack_into ''<H'' buffer start_byte
        [get_attr self ''waypoint_id'']) (\<lambda>buffer.
      bind_r (get_attr self ''waypoint_name'') (\<lambda>a.
      bind_r (insert_var_str buffer (start_byte + 2) a) (\<lambda>(buffer, inserted_len).
      let start_byte1 = start_byte + 2 + inserted_len in
      bind_r (attr_to_int fl self ''waypoint_latitude'' 0x7FFFFFFF (Some (1 / 10000000))) (\<lambda>v0.
      bind_r (attr_to_int fl self ''waypoint_longitude'' 0x7FFFFFFF (Some (1 / 10000000))) (\<lambda>v1.
      bind_r (pack_into ''<ii'' buffer start_byte1
        [Inr (AInt v0), Inr (AInt v1)]) (\<lambda>buffer.
      Inr (buffer, start_byte1 + 8))))))))"

definition pgn130074_wp_definitions_fields :: "(string \<times> string) list" where
  "pgn130074_wp_definitions_fields =
     [(''waypoint_id'', ''uint32''), (''waypoint_name'', ''string''), (''waypoint_latitude'', ''float''),
      (''waypoint_longitude'', ''float'')]"

definition pgn130074_header :: gen_header where
  "pgn130074_header =
     \<lparr>gh_name = ''Pgn130074Class'', gh_pgn = Some 130074,
      gh_title = ''Route and WP Service - WP List - WP Name & Position'', gh_manufacturer = None,
      gh_structs = [''<HHHHH''],
      gh_slots = [''start_wp_id'', ''nb_items'', ''nb_valid_wp'', ''database_id'', ''WP_definitions''],
      gh_static = None, gh_enums = [],
      gh_json =
       [GenericFormatter ''start_wp_id'' ''Start WP ID'' 0xFFFF,
        RepeatedFormatter ''nb_items'' ''nItems'' ''WP_definitions'',
        GenericFormatter ''nb_valid_wp'' ''Number of valid WPs in the WP-List'' 0xFFFF,
        GenericFormatter ''database_id'' ''Database ID'' 0xFFFF],
      gh_init = [(''nb_items'', AInt 0), (''WP_definitions'', AList [])]\<rparr>"

definition pgn130074_access :: gen_access where
  "pgn130074_access =
     \<lparr>ga_get = [''start_wp_id'', ''nb_items'', ''nb_valid_wp'', ''database_id'', ''WP_definitions''],
      ga_set = [''start_wp_id'', ''nb_items'', ''nb_valid_wp'', ''database_id''], ga_text = [], ga_add = []\<rparr>"

definition pgn130074_decode :: "rounding \<Rightarrow> bytes \<Rightarrow> nat \<Rightarrow> attrs \<Rightarrow> (attrs \<times> nat) result" where
  "pgn130074_decode fl payload start_byte self =
     bind_r (unpack_from ''<HHHHH'' payload start_byte) (\<lambda>val.
     let self = assign [(''start_wp_id'', AInt (val ! 0)), (''nb_items'', AInt (check_valid (val ! 1) 0xFFFF 0)),
         (''nb_valid_wp'', AInt (val ! 2)), (''database_id'', AInt (val ! 3))] self in
     bind_r (attr_count self ''nb_items'') (\<lambda>n.
     bind_r (attr_list self ''WP_definitions'') (\<lambda>items.
     bind_r (decode_repeat n (\<lambda>start. pgn130074_wp_definitions_decode fl payload start []) (start_byte + 10) items) (\<lambda>(items, start_byte1).
     let self = assign [(''WP_definitions'', AList items)] self in
     Inr (self, start_byte1)))))"

definition pgn130074_encode :: "rounding \<Rightarrow> attrs \<Rightarrow> bytes result" where
  "pgn130074_encode fl self =
     (let buffer = replicate DEFAULT_BUFFER_SIZE 0 in
      let v0 = (0xFFFF :: int) in
      bind_r (pack_into ''<HHHHH'' buffer 0
        [get_attr self ''start_wp_id'', get_attr self ''nb_items'', get_attr self ''nb_valid_wp'',
         get_attr self ''database_id'', Inr (AInt v0)]) (\<lambda>buffer.
      bind_r (attr_list self ''WP_definitions'') (\<lambda>items.
      bind_r (encode_repeat (pgn130074_wp_definitions_encode fl) items buffer 10) (\<lambda>(buffer, start_byte1).
      Inr (take start_byte1 buffer)))))"

definition pgn130074_fields :: "pb_field list" where
  "pgn130074_fields =
     [PbField ''start_wp_id'' ''uint32'', PbField ''nb_items'' ''uint32'', PbField ''nb_valid_wp'' ''uint32'',
      PbField ''database_id'' ''uint32'', PbList ''WP_definitions'' ''nb_items'' pgn130074_wp_definitions_fields]"

definition pgn130074 :: gen_class where
  "pgn130074 =
     \<lparr>gc_header = pgn130074_header, gc_access = pgn130074_access, gc_decode = pgn130074_decode,
      gc_encode = Some pgn130074_encode, gc_fields = pgn130074_fields,
      gc_items = [(''WP_definitions'', pgn130074_wp_definitions_header)]\<rparr>"

end
