(* ===== verification/GenAis.thy ===== *)
theory GenAis
  imports GenBase
begin

text \<open>
  The classes of \<^verbatim>\<open>generated/nmea2000_classes_gen.py\<close> for AIS messages.
  Of each: its constants (\<open>_header\<close>), its properties (\<open>_access\<close>), its two conversions and the fields it copies
  to and from protobuf (\<open>_fields\<close>), in the order of the source.
\<close>

section \<open>129038: AIS Class A Position Report\<close>

definition pgn129038_position_accuracy_enum :: "(int \<times> string) list" where
  "pgn129038_position_accuracy_enum =
     [(0, ''Low''), (1, ''High'')]"

definition pgn129038_RAIM_enum :: "(int \<times> string) list" where
  "pgn129038_RAIM_enum =
     [(0, ''not in use''), (1, ''in use'')]"

definition pgn129038_report_timestamp_enum :: "(int \<times> string) list" where
  "pgn129038_report_timestamp_enum =
     [(60, ''Not available''), (61, ''Manual input mode''), (62, ''Dead reckoning mode''),
      (63, ''Positioning system is inoperative'')]"

definition pgn129038_navigation_status_enum :: "(int \<times> string) list" where
  "pgn129038_navigation_status_enum =
     [(0, ''Under way using engine''), (1, ''At anchor''), (2, ''Not under command''),
      (3, ''Restricted manoeuverability''), (4, ''Constrained by her draught''), (5, ''Moored''),
      (6, ''Aground''), (7, ''Engaged in Fishing''), (8, ''Under way sailing'')]"

definition pgn129038_header :: gen_header where
  "pgn129038_header =
     \<lparr>gh_name = ''Pgn129038Class'', gh_pgn = Some 129038, gh_title = ''AIS Class A Position Report'',
      gh_manufacturer = None, gh_structs = [''<BiiiBHHHBHHBB''],
      gh_slots = [''message_id'', ''repeat_indicator'', ''mmsi'', ''longitude'', ''latitude'', ''position_accuracy'',
        ''RAIM'', ''report_timestamp'', ''COG'', ''SOG'', ''communication_state'', ''transceiver_information'',
        ''heading'', ''rate_of_turn'', ''navigation_status''],
      gh_static = Some 27,
      gh_enums = [(''repeat_indicator_enum'', GlobalEnum ''AIS Repeat Indicator''),
        (''position_accuracy_enum'', LocalEnum pgn129038_position_accuracy_enum),
        (''RAIM_enum'', LocalEnum pgn129038_RAIM_enum),
        (''report_timestamp_enum'', LocalEnum pgn129038_report_timestamp_enum),
        (''transceiver_information_enum'', GlobalEnum ''AIS Transceiver information''),
        (''navigation_status_enum'', LocalEnum pgn129038_navigation_status_enum)],
      gh_json =
       [GenericFormatter ''message_id'' ''Message ID'' 0x3F,
        EnumFormatter ''repeat_indicator'' ''Repeat Indicator'' 3 (GlobalEnum ''AIS Repeat Indicator''),
        GenericFormatter ''mmsi'' ''User ID'' 0x7FFFFFFF,
        FloatFormatter ''longitude'' ''Longitude'' ''{:.6f}'' None,
        FloatFormatter ''latitude'' ''Latitude'' ''{:.6f}'' None,
        EnumFormatter ''position_accuracy'' ''Position Accuracy'' 1 (LocalEnum pgn129038_position_accuracy_enum),
        EnumFormatter ''RAIM'' ''RAIM'' 1 (LocalEnum pgn129038_RAIM_enum),
        EnumFormatter ''report_timestamp'' ''Time Stamp'' 0x3F (LocalEnum pgn129038_report_timestamp_enum),
        FloatFormatter ''COG'' ''COG'' ''{:.4f}'' None, FloatFormatter ''SOG'' ''SOG'' ''{:.2f}'' None,
        GenericFormatter ''communication_state'' ''Communication State'' 0x7FFFF,
        EnumFormatter ''transceiver_information'' ''AIS Transceiver information'' 0x1F (GlobalEnum ''AIS Transceiver information''),
        FloatFormatter ''heading'' ''Heading'' ''{:.4f}'' None,
        FloatFormatter ''rate_of_turn'' ''Rate of Turn'' ''{:.4f}'' None,
        EnumFormatter ''navigation_status'' ''Nav Status'' 0xFF (LocalEnum pgn129038_navigation_status_enum)],
      gh_init = []\<rparr>"

definition pgn129038_getters :: "string list" where
  "pgn129038_getters =
     [''message_id'', ''repeat_indicator'', ''mmsi'', ''longitude'', ''latitude'', ''position_accuracy'',
      ''RAIM'', ''report_timestamp'', ''COG'', ''SOG'', ''communication_state'', ''transceiver_information'',
      ''heading'', ''rate_of_turn'', ''navigation_status'']"

definition pgn129038_access :: gen_access where
  "pgn129038_access =
     \<lparr>ga_get = pgn129038_getters,
      ga_set = [''message_id'', ''repeat_indicator'', ''mmsi'', ''longitude'', ''latitude'', ''position_accuracy'',
        ''RAIM'', ''report_timestamp'', ''COG'', ''SOG'', ''communication_state'', ''transceiver_information'',
        ''heading'', ''rate_of_turn'', ''navigation_status''],
      ga_text = [(''repeat_indicator_text'', ''repeat_indicator_enum'', ''repeat_indicator''),
        (''position_accuracy_text'', ''position_accuracy_enum'', ''position_accuracy''),
        (''RAIM_text'', ''RAIM_enum'', ''RAIM''),
        (''report_timestamp_text'', ''report_timestamp_enum'', ''report_timestamp''),
        (''transceiver_information_text'', ''transceiver_information_enum'', ''transceiver_information''),
        (''navigation_status_text'', ''navigation_status_enum'', ''navigation_status'')],
      ga_add = []\<rparr>"

definition pgn129038_decode :: "rounding \<Rightarrow> bytes \<Rightarrow> nat \<Rightarrow> attrs \<Rightarrow> (attrs \<times> nat) result" where
  "pgn129038_decode fl payload start_byte self =
     bind_r (unpack_from ''<BiiiBHHHBHHBB'' payload start_byte) (\<lambda>val.
     let self = assign [(''message_id'', AInt (val ! 0 AND 0x3F)), (''repeat_indicator'', AInt (drop_bit 6 (val ! 0) AND 3)),
         (''mmsi'', AInt (val ! 1)),
         (''longitude'', check_convert_float fl (val ! 2) 0x7FFFFFFF (1 / 10000000) 0),
         (''latitude'', check_convert_float fl (val ! 3) 0x7FFFFFFF (1 / 10000000) 0),
         (''position_accuracy'', AInt (val ! 4 AND 1)), (''RAIM'', AInt (drop_bit 1 (val ! 4) AND 1)),
         (''report_timestamp'', AInt (drop_bit 2 (val ! 4) AND 0x3F)),
         (''COG'', check_convert_float fl (val ! 5) 0xFFFF (1 / 10000) 0),
         (''SOG'', check_convert_float fl (val ! 6) 0xFFFF (1 / 100) 0)] self in
     let word = val ! 7 + push_bit 16 (val ! 8) in
     let self = assign [(''communication_state'', AInt (word AND 0x7FFFF)),
         (''transceiver_information'', AInt (drop_bit 19 (word) AND 0x1F)),
         (''heading'', check_convert_float fl (val ! 9) 0xFFFF (1 / 10000) 0),
         (''rate_of_turn'', check_convert_float fl (val ! 10) 0xFFFF (1 / 10000) 0),
         (''navigation_status'', AInt (val ! 11))] self in
     Inr (self, start_byte + 27))"

definition pgn129038_encode :: "rounding \<Rightarrow> attrs \<Rightarrow> bytes result" where
  "pgn129038_encode fl self =
     (let buffer = replicate 27 0 in
      bind_r (or_fields [attr_field self ''message_id'' 0x3F 0, attr_field self ''repeat_indicator'' 3 6]) (\<lambda>v0.
      bind_r (attr_to_int fl self ''longitude'' 0x7FFFFFFF (Some (1 / 10000000))) (\<lambda>v1.
      bind_r (attr_to_int fl self ''latitude'' 0x7FFFFFFF (Some (1 / 10000000))) (\<lambda>v2.
      bind_r (or_fields [attr_field self ''position_accuracy'' 1 0, attr_field self ''RAIM'' 1 1,
         attr_field self ''report_timestamp'' 0x3F 2]) (\<lambda>v3.
      bind_r (attr_to_int fl self ''COG'' 0xFFFF (Some (1 / 10000))) (\<lambda>v4.
      bind_r (attr_to_int fl self ''SOG'' 0xFFFF (Some (1 / 100))) (\<lambda>v5.
      bind_r (or_fields [attr_field self ''communication_state'' 0x7FFFF 0, attr_field self ''transceiver_information'' 0x1F 19]) (\<lambda>word.
      let v6 = word AND 0xFFFF in
      let v7 = drop_bit 16 (word AND 0xFF) in
      bind_r (attr_to_int fl self ''heading'' 0xFFFF (Some (1 / 10000))) (\<lambda>v8.
      bind_r (attr_to_int fl self ''rate_of_turn'' 0xFFFF (Some (1 / 10000))) (\<lambda>v9.
      let v10 = (0xFF :: int) in
      bind_r (pack_into ''<BiiiBHHHBHHBB'' buffer 0
        [Inr (AInt v0), get_attr self ''mmsi'', Inr (AInt v1), Inr (AInt v2), Inr (AInt v3), Inr (AInt v4),
         Inr (AInt v5), Inr (AInt v6), Inr (AInt v7), Inr (AInt v8), Inr (AInt v9),
         get_attr self ''navigation_status'', Inr (AInt v10)]) (\<lambda>buffer.
      Inr buffer)))))))))))"

definition pgn129038_fields :: "pb_field list" where
  "pgn129038_fields =
     [PbField ''message_id'' ''uint32'', PbField ''repeat_indicator'' ''uint32'', PbField ''mmsi'' ''int32'',
      PbField ''longitude'' ''float'', PbField ''latitude'' ''float'', PbField ''position_accuracy'' ''uint32'',
      PbField ''RAIM'' ''uint32'', PbField ''report_timestamp'' ''uint32'', PbField ''COG'' ''float'',
      PbField ''SOG'' ''float'', PbField ''communication_state'' ''uint32'',
      PbField ''transceiver_information'' ''uint32'', PbField ''heading'' ''float'',
      PbField ''rate_of_turn'' ''float'', PbField ''navigation_status'' ''uint32'']"

definition pgn129038 :: gen_class where
  "pgn129038 =
     \<lparr>gc_header = pgn129038_header, gc_access = pgn129038_access, gc_decode = pgn129038_decode,
      gc_encode = Some pgn129038_encode, gc_fields = pgn129038_fields,
      gc_items = []\<rparr>"

section \<open>129039: AIS Class B Position Report\<close>

definition pgn129039_position_accuracy_enum :: "(int \<times> string) list" where
  "pgn129039_position_accuracy_enum =
     [(0, ''Low''), (1, ''High'')]"

definition pgn129039_RAIM_enum :: "(int \<times> string) list" where
  "pgn129039_RAIM_enum =
     [(0, ''not in use''), (1, ''in use'')]"

definition pgn129039_report_timestamp_enum :: "(int \<times> string) list" where
  "pgn129039_report_timestamp_enum =
     [(60, ''Not available''), (61, ''Manual input mode''), (62, ''Dead reckoning mode''),
      (63, ''Positioning system is inoperative'')]"

definition pgn129039_unit_type_enum :: "(int \<times> string) list" where
  "pgn129039_unit_type_enum =
     [(0, ''SOTDMA''), (1, ''CS'')]"

definition pgn129039_band_enum :: "(int \<times> string) list" where
  "pgn129039_band_enum =
     [(0, ''top 525 kHz of marine band''), (1, ''entire marine band'')]"

definition pgn129039_handle_msg22_enum :: "(int \<times> string) list" where
  "pgn129039_handle_msg22_enum =
     [(0, ''No''), (1, ''Yes'')]"

definition pgn129039_AIS_mode_enum :: "(int \<times> string) list" where
  "pgn129039_AIS_mode_enum =
     [(0, ''Autonomous''), (1, ''Assigned'')]"

definition pgn129039_AIS_communication_state_enum :: "(int \<times> string) list" where
  "pgn129039_AIS_communication_state_enum =
     [(0, ''SOTDMA''), (1, ''ITDMA'')]"

definition pgn129039_header :: gen_header where
  "pgn129039_header =
     \<lparr>gh_name = ''Pgn129039Class'', gh_pgn = Some 129039, gh_title = ''AIS Class B Position Report'',
      gh_manufacturer = None, gh_structs = [''<BiiiBHHHBHBBH''],
      gh_slots = [''message_id'', ''repeat_indicator'', ''mmsi'', ''longitude'', ''latitude'', ''position_accuracy'',
        ''RAIM'', ''report_timestamp'', ''COG'', ''SOG'', ''communication_state'', ''transceiver_info'',
        ''heading'', ''unit_type'', ''band'', ''handle_msg22'', ''AIS_mode'', ''AIS_communication_state''],
      gh_static = Some 27,
      gh_enums = [(''repeat_indicator_enum'', GlobalEnum ''AIS Repeat Indicator''),
        (''position_accuracy_enum'', LocalEnum pgn129039_position_accuracy_enum),
        (''RAIM_enum'', LocalEnum pgn129039_RAIM_enum),
        (''report_timestamp_enum'', LocalEnum pgn129039_report_timestamp_enum),
        (''transceiver_info_enum'', GlobalEnum ''AIS Transceiver information''),
        (''unit_type_enum'', LocalEnum pgn129039_unit_type_enum),
        (''band_enum'', LocalEnum pgn129039_band_enum),
        (''handle_msg22_enum'', LocalEnum pgn129039_handle_msg22_enum),
        (''AIS_mode_enum'', LocalEnum pgn129039_AIS_mode_enum),
        (''AIS_communication_state_enum'', LocalEnum pgn129039_AIS_communication_state_enum)],
      gh_json =
       [GenericFormatter ''message_id'' ''Message ID'' 0x3F,
        EnumFormatter ''repeat_indicator'' ''Repeat Indicator'' 3 (GlobalEnum ''AIS Repeat Indicator''),
        GenericFormatter ''mmsi'' ''User ID'' 0x7FFFFFFF,
        FloatFormatter ''longitude'' ''Longitude'' ''{:.6f}'' None,
        FloatFormatter ''latitude'' ''Latitude'' ''{:.6f}'' None,
        EnumFormatter ''position_accuracy'' ''Position Accuracy'' 1 (LocalEnum pgn129039_position_accuracy_enum),
        EnumFormatter ''RAIM'' ''RAIM'' 1 (LocalEnum pgn129039_RAIM_enum),
        EnumFormatter ''report_timestamp'' ''Time Stamp'' 0x3F (LocalEnum pgn129039_report_timestamp_enum),
        FloatFormatter ''COG'' ''COG'' ''{:.4f}'' None, FloatFormatter ''SOG'' ''SOG'' ''{:.2f}'' None,
        GenericFormatter ''communication_state'' ''Communication State'' 0x7FFFF,
        EnumFormatter ''transceiver_info'' ''AIS Transceiver information'' 0x1F (GlobalEnum ''AIS Transceiver information''),
        FloatFormatter ''heading'' ''Heading'' ''{:.4f}'' None,
        EnumFormatter ''unit_type'' ''Unit type'' 1 (LocalEnum pgn129039_unit_type_enum),
        EnumFormatter ''band'' ''Band'' 1 (LocalEnum pgn129039_band_enum),
        EnumFormatter ''handle_msg22'' ''Can handle Msg 22'' 1 (LocalEnum pgn129039_handle_msg22_enum),
        EnumFormatter ''AIS_mode'' ''AIS mode'' 1 (LocalEnum pgn129039_AIS_mode_enum),
        EnumFormatter ''AIS_communication_state'' ''AIS communication state'' 1 (LocalEnum pgn129039_AIS_communication_state_enum)],
      gh_init = []\<rparr>"

definition pgn129039_getters :: "string list" where
  "pgn129039_getters =
     [''message_id'', ''repeat_indicator'', ''mmsi'', ''longitude'', ''latitude'', ''position_accuracy'',
      ''RAIM'', ''report_timestamp'', ''COG'', ''SOG'', ''communication_state'', ''transceiver_info'',
      ''heading'', ''unit_type'', ''band'', ''handle_msg22'', ''AIS_mode'', ''AIS_communication_state'']"

definition pgn129039_access :: gen_access where
  "pgn129039_access =
     \<lparr>ga_get = pgn129039_getters,
      ga_set = [''message_id'', ''repeat_indicator'', ''mmsi'', ''longitude'', ''latitude'', ''position_accuracy'',
        ''RAIM'', ''report_timestamp'', ''COG'', ''SOG'', ''communication_state'', ''transceiver_info'',
        ''heading'', ''unit_type'', ''band'', ''handle_msg22'', ''AIS_mode'', ''AIS_communication_state''],
      ga_text = [(''repeat_indicator_text'', ''repeat_indicator_enum'', ''repeat_indicator''),
        (''position_accuracy_text'', ''position_accuracy_enum'', ''position_accuracy''),
        (''RAIM_text'', ''RAIM_enum'', ''RAIM''),
        (''report_timestamp_text'', ''report_timestamp_enum'', ''report_timestamp''),
        (''transceiver_info_text'', ''transceiver_info_enum'', ''transceiver_info''),
        (''unit_type_text'', ''unit_type_enum'', ''unit_type''), (''band_text'', ''band_enum'', ''band''),
        (''handle_msg22_text'', ''handle_msg22_enum'', ''handle_msg22''),
        (''AIS_mode_text'', ''AIS_mode_enum'', ''AIS_mode''),
        (''AIS_communication_state_text'', ''AIS_communication_state_enum'', ''AIS_communication_state'')],
      ga_add = []\<rparr>"

definition pgn129039_decode :: "rounding \<Rightarrow> bytes \<Rightarrow> nat \<Rightarrow> attrs \<Rightarrow> (attrs \<times> nat) result" where
  "pgn129039_decode fl payload start_byte self =
     bind_r (unpack_from ''<BiiiBHHHBHBBH'' payload start_byte) (\<lambda>val.
     let self = assign [(''message_id'', AInt (val ! 0 AND 0x3F)), (''repeat_indicator'', AInt (drop_bit 6 (val ! 0) AND 3)),
         (''mmsi'', AInt (val ! 1)),
         (''longitude'', check_convert_float fl (val ! 2) 0x7FFFFFFF (1 / 10000000) 0),
         (''latitude'', check_convert_float fl (val ! 3) 0x7FFFFFFF (1 / 10000000) 0),
         (''position_accuracy'', AInt (val ! 4 AND 1)), (''RAIM'', AInt (drop_bit 1 (val ! 4) AND 1)),
         (''report_timestamp'', AInt (drop_bit 2 (val ! 4) AND 0x3F)),
         (''COG'', check_convert_float fl (val ! 5) 0xFFFF (1 / 10000) 0),
         (''SOG'', check_convert_float fl (val ! 6) 0xFFFF (1 / 100) 0)] self in
     let word = val ! 7 + push_bit 16 (val ! 8) in
     let self = assign [(''communication_state'', AInt (word AND 0x7FFFF)),
         (''transceiver_info'', AInt (drop_bit 19 (word) AND 0x1F)),
         (''heading'', check_convert_float fl (val ! 9) 0xFFFF (1 / 10000) 0),
         (''unit_type'', AInt (drop_bit 2 (val ! 11) AND 1)), (''band'', AInt (drop_bit 5 (val ! 11) AND 1)),
         (''handle_msg22'', AInt (drop_bit 6 (val ! 11) AND 1)),
         (''AIS_mode'', AInt (drop_bit 7 (val ! 11) AND 1)),
         (''AIS_communication_state'', AInt (val ! 12 AND 1))] self in
     Inr (self, start_byte + 27))"

definition pgn129039_encode :: "rounding \<Rightarrow> attrs \<Rightarrow> bytes result" where
  "pgn129039_encode fl self =
     (let buffer = replicate 27 0 in
      bind_r (or_fields [attr_field self ''message_id'' 0x3F 0, attr_field self ''repeat_indicator'' 3 6]) (\<lambda>v0.
      bind_r (attr_to_int fl self ''longitude'' 0x7FFFFFFF (Some (1 / 10000000))) (\<lambda>v1.
      bind_r (attr_to_int fl self ''latitude'' 0x7FFFFFFF (Some (1 / 10000000))) (\<lambda>v2.
      bind_r (or_fields [attr_field self ''position_accuracy'' 1 0, attr_field self ''RAIM'' 1 1,
         attr_field self ''report_timestamp'' 0x3F 2]) (\<lambda>v3.
      bind_r (attr_to_int fl self ''COG'' 0xFFFF (Some (1 / 10000))) (\<lambda>v4.
      bind_r (attr_to_int fl self ''SOG'' 0xFFFF (Some (1 / 100))) (\<lambda>v5.
      bind_r (or_fields [attr_field self ''communication_state'' 0x7FFFF 0, attr_field self ''transceiver_info'' 0x1F 19]) (\<lambda>word.
      let v6 = word AND 0xFFFF in
      let v7 = drop_bit 16 (word AND 0xFF) in
      bind_r (attr_to_int fl self ''heading'' 0xFFFF (Some (1 / 10000))) (\<lambda>v8.
      let v9 = (0xFF :: int) in
      bind_r (or_fields [pad_bits 3 0, attr_field self ''unit_type'' 1 2, pad_bits 1 3, pad_bits 1 4,
         attr_field self ''band'' 1 5, attr_field self ''handle_msg22'' 1 6, attr_field self ''AIS_mode'' 1 7]) (\<lambda>v10.
      bind_r (or_fields [attr_field self ''AIS_communication_state'' 1 0, pad_bits 0x7FFF 1]) (\<lambda>v11.
      bind_r (pack_into ''<BiiiBHHHBHBBH'' buffer 0
        [Inr (AInt v0), get_attr self ''mmsi'', Inr (AInt v1), Inr (AInt v2), Inr (AInt v3), Inr (AInt v4),
         Inr (AInt v5), Inr (AInt v6), Inr (AInt v7), Inr (AInt v8), Inr (AInt v9), Inr (AInt v10),
         Inr (AInt v11)]) (\<lambda>buffer.
      Inr buffer))))))))))))"

definition pgn129039_fields :: "pb_field list" where
  "pgn129039_fields =
     [PbField ''message_id'' ''uint32'', PbField ''repeat_indicator'' ''uint32'', PbField ''mmsi'' ''int32'',
      PbField ''longitude'' ''float'', PbField ''latitude'' ''float'', PbField ''position_accuracy'' ''uint32'',
      PbField ''RAIM'' ''uint32'', PbField ''report_timestamp'' ''uint32'', PbField ''COG'' ''float'',
      PbField ''SOG'' ''float'', PbField ''communication_state'' ''uint32'',
      PbField ''transceiver_info'' ''uint32'', PbField ''heading'' ''float'', PbField ''unit_type'' ''uint32'',
      PbField ''band'' ''uint32'', PbField ''handle_msg22'' ''uint32'', PbField ''AIS_mode'' ''uint32'',
      PbField ''AIS_communication_state'' ''uint32'']"

definition pgn129039 :: gen_class where
  "pgn129039 =
     \<lparr>gc_header = pgn129039_header, gc_access = pgn129039_access, gc_decode = pgn129039_decode,
      gc_encode = Some pgn129039_encode, gc_fields = pgn129039_fields,
      gc_items = []\<rparr>"

section \<open>129794: AIS Class A Static and Voyage Related Data\<close>

definition pgn129794_AIS_version_enum :: "(int \<times> string) list" where
  "pgn129794_AIS_version_enum =
     [(0, ''ITU-R M.1371-1''), (1, ''ITU-R M.1371-3'')]"

definition pgn129794_DTE_enum :: "(int \<times> string) list" where
  "pgn129794_DTE_enum =
     [(0, ''available''), (1, ''not available'')]"

definition pgn129794_header :: gen_header where
  "pgn129794_header =
     \<lparr>gh_name = ''Pgn129794Class'', gh_pgn = Some 129794,
      gh_title = ''AIS Class A Static and Voyage Related Data'', gh_manufacturer = None,
      gh_structs = [''<Bii'', ''<BHHHHHIh'', ''<BB''],
      gh_slots = [''message_id'', ''repeat_indicator'', ''mmsi'', ''IMO_number'', ''callsign'', ''ship_name'',
        ''type_of_ship'', ''length'', ''beam'', ''position_from_starboard'', ''position_from_bow'',
        ''ETA_date'', ''ETA_time'', ''draft'', ''destination'', ''AIS_version'', ''GNSS_type'', ''DTE'',
        ''AIS_transceiver_info''],
      gh_static = Some 75,
      gh_enums = [(''repeat_indicator_enum'', GlobalEnum ''AIS Repeat Indicator''),
        (''type_of_ship_enum'', GlobalEnum ''Type of ship''),
        (''AIS_version_enum'', LocalEnum pgn129794_AIS_version_enum),
        (''GNSS_type_enum'', GlobalEnum ''GNSS type''), (''DTE_enum'', LocalEnum pgn129794_DTE_enum),
        (''AIS_transceiver_info_enum'', GlobalEnum ''AIS Transceiver information'')],
      gh_json =
       [GenericFormatter ''message_id'' ''Message ID'' 0x3F,
        EnumFormatter ''repeat_indicator'' ''Repeat indicator'' 3 (GlobalEnum ''AIS Repeat Indicator''),
        GenericFormatter ''mmsi'' ''User ID'' 0x7FFFFFFF,
        GenericFormatter ''IMO_number'' ''IMO number'' 0x7FFFFFFF, TextFormatter ''callsign'' ''Callsign'',
        TextFormatter ''ship_name'' ''Name'',
        EnumFormatter ''type_of_ship'' ''Type of ship'' 0xFF (GlobalEnum ''Type of ship''),
        FloatFormatter ''length'' ''Length'' ''{:.1f}'' None, FloatFormatter ''beam'' ''Beam'' ''{:.1f}'' None,
        FloatFormatter ''position_from_starboard'' ''Position reference from Starboard'' ''{:.1f}'' None,
        FloatFormatter ''position_from_bow'' ''Position reference from Bow'' ''{:.1f}'' None,
        GenericFormatter ''ETA_date'' ''ETA Date'' 0xFFFF,
        FloatFormatter ''ETA_time'' ''ETA Time'' ''{:.2f}'' None,
        FloatFormatter ''draft'' ''Draft'' ''{:.1f}'' None, TextFormatter ''destination'' ''Destination'',
        EnumFormatter ''AIS_version'' ''AIS version indicator'' 3 (LocalEnum pgn129794_AIS_version_enum),
        EnumFormatter ''GNSS_type'' ''GNSS type'' 0xF (GlobalEnum ''GNSS type''),
        EnumFormatter ''DTE'' ''DTE'' 1 (LocalEnum pgn129794_DTE_enum),
        EnumFormatter ''AIS_transceiver_info'' ''AIS Transceiver information'' 0x1F (GlobalEnum ''AIS Transceiver information'')],
      gh_init = []\<rparr>"

definition pgn129794_getters :: "string list" where
  "pgn129794_getters =
     [''message_id'', ''repeat_indicator'', ''mmsi'', ''IMO_number'', ''callsign'', ''ship_name'',
      ''type_of_ship'', ''length'', ''beam'', ''position_from_starboard'', ''position_from_bow'', ''ETA_date'',
      ''ETA_time'', ''draft'', ''destination'', ''AIS_version'', ''GNSS_type'', ''DTE'',
      ''AIS_transceiver_info'']"

definition pgn129794_access :: gen_access where
  "pgn129794_access =
     \<lparr>ga_get = pgn129794_getters,
      ga_set = [''message_id'', ''repeat_indicator'', ''mmsi'', ''IMO_number'', ''callsign'', ''ship_name'',
        ''type_of_ship'', ''length'', ''beam'', ''position_from_starboard'', ''position_from_bow'',
        ''ETA_date'', ''ETA_time'', ''draft'', ''destination'', ''AIS_version'', ''GNSS_type'', ''DTE'',
        ''AIS_transceiver_info''],
      ga_text = [(''repeat_indicator_text'', ''repeat_indicator_enum'', ''repeat_indicator''),
        (''type_of_ship_text'', ''type_of_ship_enum'', ''type_of_ship''),
        (''AIS_version_text'', ''AIS_version_enum'', ''AIS_version''),
        (''GNSS_type_text'', ''GNSS_type_enum'', ''GNSS_type''), (''DTE_text'', ''DTE_enum'', ''DTE''),
        (''AIS_transceiver_info_text'', ''AIS_transceiver_info_enum'', ''AIS_transceiver_info'')],
      ga_add = []\<rparr>"

definition pgn129794_decode :: "rounding \<Rightarrow> bytes \<Rightarrow> nat \<Rightarrow> attrs \<Rightarrow> (attrs \<times> nat) result" where
  "pgn129794_decode fl payload start_byte self =
     bind_r (unpack_from ''<Bii'' payload start_byte) (\<lambda>val.
     let self = assign [(''message_id'', AInt (val ! 0 AND 0x3F)), (''repeat_indicator'', AInt (drop_bit 6 (val ! 0) AND 3)),
         (''mmsi'', AInt (val ! 1)), (''IMO_number'', AInt (val ! 2))] self in
     bind_r (clean_string (py_slice payload (int (start_byte + 9)) (int (start_byte + 16)))) (\<lambda>s.
     let self = assign [(''callsign'', AText s)] self in
     bind_r (clean_string (py_slice payload (int (start_byte + 16)) (int (start_byte + 36)))) (\<lambda>s.
     let self = assign [(''ship_name'', AText s)] self in
     bind_r (unpack_from ''<BHHHHHIh'' payload (start_byte + 36)) (\<lambda>val.
     let self = assign [(''type_of_ship'', AInt (val ! 0)), (''length'', check_convert_float fl (val ! 1) 0xFFFF (1 / 10) 0),
         (''beam'', check_convert_float fl (val ! 2) 0xFFFF (1 / 10) 0),
         (''position_from_starboard'', check_convert_float fl (val ! 3) 0xFFFF (1 / 10) 0),
         (''position_from_bow'', check_convert_float fl (val ! 4) 0xFFFF (1 / 10) 0),
         (''ETA_date'', AInt (val ! 5)),
         (''ETA_time'', check_convert_float fl (val ! 6) 0xFFFFFFFF (1 / 10000) 0),
         (''draft'', check_convert_float fl (val ! 7) 0x7FFF (1 / 100) 0)] self in
     bind_r (clean_string (py_slice payload (int (start_byte + 53)) (int (start_byte + 73)))) (\<lambda>s.
     let self = assign [(''destination'', AText s)] self in
     bind_r (unpack_from ''<BB'' payload (start_byte + 73)) (\<lambda>val.
     let self = assign [(''AIS_version'', AInt (val ! 0 AND 3)), (''GNSS_type'', AInt (drop_bit 2 (val ! 0) AND 0xF)),
         (''DTE'', AInt (drop_bit 6 (val ! 0) AND 1)), (''AIS_transceiver_info'', AInt (val ! 1 AND 0x1F))] self in
     Inr (self, start_byte + 75)))))))"

definition pgn129794_encode :: "rounding \<Rightarrow> attrs \<Rightarrow> bytes result" where
  "pgn129794_encode fl self =
     (let buffer = replicate 75 0 in
      bind_r (or_fields [attr_field self ''message_id'' 0x3F 0, attr_field self ''repeat_indicator'' 3 6]) (\<lambda>v0.
      bind_r (pack_into ''<Bii'' buffer 0
        [Inr (AInt v0), get_attr self ''mmsi'', get_attr self ''IMO_number'']) (\<lambda>buffer.
      bind_r (get_attr self ''callsign'') (\<lambda>a.
      bind_r (insert_string buffer 9 7 a) (\<lambda>buffer.
      bind_r (get_attr self ''ship_name'') (\<lambda>a.
      bind_r (insert_string buffer 16 20 a) (\<lambda>buffer.
      bind_r (attr_to_int fl self ''length'' 0xFFFF (Some (1 / 10))) (\<lambda>v0.
      bind_r (attr_to_int fl self ''beam'' 0xFFFF (Some (1 / 10))) (\<lambda>v1.
      bind_r (attr_to_int fl self ''position_from_starboard'' 0xFFFF (Some (1 / 10))) (\<lambda>v2.
      bind_r (attr_to_int fl self ''position_from_bow'' 0xFFFF (Some (1 / 10))) (\<lambda>v3.
      bind_r (attr_to_int fl self ''ETA_time'' 0xFFFFFFFF (Some (1 / 10000))) (\<lambda>v4.
      bind_r (attr_to_int fl self ''draft'' 0x7FFF (Some (1 / 100))) (\<lambda>v5.
      bind_r (pack_into ''<BHHHHHIh'' buffer 36
        [get_attr self ''type_of_ship'', Inr (AInt v0), Inr (AInt v1), Inr (AInt v2), Inr (AInt v3),
         get_attr self ''ETA_date'', Inr (AInt v4), Inr (AInt v5)]) (\<lambda>buffer.
      bind_r (get_attr self ''destination'') (\<lambda>a.
      bind_r (insert_string buffer 53 20 a) (\<lambda>buffer.
      bind_r (or_fields [attr_field self ''AIS_version'' 3 0, attr_field self ''GNSS_type'' 0xF 2, attr_field self ''DTE'' 1 6,
         pad_bits 1 7]) (\<lambda>v0.
      bind_r (or_fields [attr_field self ''AIS_transceiver_info'' 0x1F 0]) (\<lambda>v1.
      bind_r (pack_into ''<BB'' buffer 73
        [Inr (AInt v0), Inr (AInt v1)]) (\<lambda>buffer.
      Inr buffer)))))))))))))))))))"

definition pgn129794_fields :: "pb_field list" where
  "pgn129794_fields =
     [PbField ''message_id'' ''uint32'', PbField ''repeat_indicator'' ''uint32'', PbField ''mmsi'' ''int32'',
      PbField ''IMO_number'' ''int32'', PbField ''callsign'' ''string'', PbField ''ship_name'' ''string'',
      PbField ''type_of_ship'' ''uint32'', PbField ''length'' ''float'', PbField ''beam'' ''float'',
      PbField ''position_from_starboard'' ''float'', PbField ''position_from_bow'' ''float'',
      PbField ''ETA_date'' ''uint32'', PbField ''ETA_time'' ''float'', PbField ''draft'' ''float'',
      PbField ''destination'' ''string'', PbField ''AIS_version'' ''uint32'', PbField ''GNSS_type'' ''uint32'',
      PbField ''DTE'' ''uint32'', PbField ''AIS_transceiver_info'' ''uint32'']"

definition pgn129794 :: gen_class where
  "pgn129794 =
     \<lparr>gc_header = pgn129794_header, gc_access = pgn129794_access, gc_decode = pgn129794_decode,
      gc_encode = Some pgn129794_encode, gc_fields = pgn129794_fields,
      gc_items = []\<rparr>"

section \<open>129809: AIS Class B static data (msg 24 Part A)\<close>

definition pgn129809_header :: gen_header where
  "pgn129809_header =
     \<lparr>gh_name = ''Pgn129809Class'', gh_pgn = Some 129809,
      gh_title = ''AIS Class B static data (msg 24 Part A)'', gh_manufacturer = None, gh_structs = [''<Bi''],
      gh_slots = [''message_id'', ''repeat_indicator'', ''mmsi'', ''ship_name''], gh_static = Some 25,
      gh_enums = [(''repeat_indicator_enum'', GlobalEnum ''AIS Repeat Indicator'')],
      gh_json =
       [GenericFormatter ''message_id'' ''Message ID'' 0x3F,
        EnumFormatter ''repeat_indicator'' ''Repeat indicator'' 3 (GlobalEnum ''AIS Repeat Indicator''),
        GenericFormatter ''mmsi'' ''User ID'' 0x7FFFFFFF, TextFormatter ''ship_name'' ''Name''],
      gh_init = []\<rparr>"

definition pgn129809_access :: gen_access where
  "pgn129809_access =
     \<lparr>ga_get = [''message_id'', ''repeat_indicator'', ''mmsi'', ''ship_name''],
      ga_set = [''message_id'', ''repeat_indicator'', ''mmsi'', ''ship_name''],
      ga_text = [(''repeat_indicator_text'', ''repeat_indicator_enum'', ''repeat_indicator'')], ga_add = []\<rparr>"

definition pgn129809_decode :: "rounding \<Rightarrow> bytes \<Rightarrow> nat \<Rightarrow> attrs \<Rightarrow> (attrs \<times> nat) result" where
  "pgn129809_decode fl payload start_byte self =
     bind_r (unpack_from ''<Bi'' payload start_byte) (\<lambda>val.
     let self = assign [(''message_id'', AInt (val ! 0 AND 0x3F)), (''repeat_indicator'', AInt (drop_bit 6 (val ! 0) AND 3)),
         (''mmsi'', AInt (val ! 1))] self in
     bind_r (clean_string (py_slice payload (int (start_byte + 5)) (int (start_byte + 25)))) (\<lambda>s.
     let self = assign [(''ship_name'', AText s)] self in
     Inr (self, start_byte + 25)))"

definition pgn129809_encode :: "rounding \<Rightarrow> attrs \<Rightarrow> bytes result" where
  "pgn129809_encode fl self =
     (let buffer = replicate 25 0 in
      bind_r (or_fields [attr_field self ''message_id'' 0x3F 0, attr_field self ''repeat_indicator'' 3 6]) (\<lambda>v0.
      bind_r (pack_into ''<Bi'' buffer 0
        [Inr (AInt v0), get_attr self ''mmsi'']) (\<lambda>buffer.
      bind_r (get_attr self ''ship_name'') (\<lambda>a.
      bind_r (insert_string buffer 5 20 a) (\<lambda>buffer.
      Inr buffer)))))"

definition pgn129809_fields :: "pb_field list" where
  "pgn129809_fields =
     [PbField ''message_id'' ''uint32'', PbField ''repeat_indicator'' ''uint32'', PbField ''mmsi'' ''int32'',
      PbField ''ship_name'' ''string'']"

definition pgn129809 :: gen_class where
  "pgn129809 =
     \<lparr>gc_header = pgn129809_header, gc_access = pgn129809_access, gc_decode = pgn129809_decode,
      gc_encode = Some pgn129809_encode, gc_fields = pgn129809_fields,
      gc_items = []\<rparr>"

section \<open>129810: AIS Class B static data (msg 24 Part B)\<close>

definition pgn129810_header :: gen_header where
  "pgn129810_header =
     \<lparr>gh_name = ''Pgn129810Class'', gh_pgn = Some 129810,
      gh_title = ''AIS Class B static data (msg 24 Part B)'', gh_manufacturer = None,
      gh_structs = [''<BiB'', ''<HHHHiB''],
      gh_slots = [''message_id'', ''repeat_indicator'', ''mmsi'', ''type_of_ship'', ''vendor_id'', ''call_sign'',
        ''length'', ''beam'', ''position_from_starboard'', ''position_from_bow'', ''mothership_mmsi''],
      gh_static = Some 33,
      gh_enums = [(''repeat_indicator_enum'', GlobalEnum ''AIS Repeat Indicator''),
        (''type_of_ship_enum'', GlobalEnum ''Type of ship'')],
      gh_json =
       [GenericFormatter ''message_id'' ''Message ID'' 0x3F,
        EnumFormatter ''repeat_indicator'' ''Repeat indicator'' 3 (GlobalEnum ''AIS Repeat Indicator''),
        GenericFormatter ''mmsi'' ''User ID'' 0x7FFFFFFF,
        EnumFormatter ''type_of_ship'' ''Type of ship'' 0xFF (GlobalEnum ''Type of ship''),
        TextFormatter ''vendor_id'' ''Vendor ID'', TextFormatter ''call_sign'' ''Callsign'',
        FloatFormatter ''length'' ''Length'' ''{:.1f}'' None, FloatFormatter ''beam'' ''Beam'' ''{:.1f}'' None,
        FloatFormatter ''position_from_starboard'' ''Position reference from Starboard'' ''{:.1f}'' None,
        FloatFormatter ''position_from_bow'' ''Position reference from Bow'' ''{:.1f}'' None,
        GenericFormatter ''mothership_mmsi'' ''Mothership User ID'' 0x7FFFFFFF],
      gh_init = []\<rparr>"

definition pgn129810_access :: gen_access where
  "pgn129810_access =
     \<lparr>ga_get = [''message_id'', ''repeat_indicator'', ''mmsi'', ''type_of_ship'', ''vendor_id'', ''call_sign'',
        ''length'', ''beam'', ''position_from_starboard'', ''position_from_bow'', ''mothership_mmsi''],
      ga_set = [''message_id'', ''repeat_indicator'', ''mmsi'', ''type_of_ship'', ''vendor_id'', ''call_sign'',
        ''length'', ''beam'', ''position_from_starboard'', ''position_from_bow'', ''mothership_mmsi''],
      ga_text = [(''repeat_indicator_text'', ''repeat_indicator_enum'', ''repeat_indicator''),
        (''type_of_ship_text'', ''type_of_ship_enum'', ''type_of_ship'')],
      ga_add = []\<rparr>"

definition pgn129810_decode :: "rounding \<Rightarrow> bytes \<Rightarrow> nat \<Rightarrow> attrs \<Rightarrow> (attrs \<times> nat) result" where
  "pgn129810_decode fl payload start_byte self =
     bind_r (unpack_from ''<BiB'' payload start_byte) (\<lambda>val.
     let self = assign [(''message_id'', AInt (val ! 0 AND 0x3F)), (''repeat_indicator'', AInt (drop_bit 6 (val ! 0) AND 3)),
         (''mmsi'', AInt (val ! 1)), (''type_of_ship'', AInt (val ! 2))] self in
     bind_r (clean_string (py_slice payload (int (start_byte + 6)) (int (start_byte + 13)))) (\<lambda>s.
     let self = assign [(''vendor_id'', AText s)] self in
     bind_r (clean_string (py_slice payload (int (start_byte + 13)) (int (start_byte + 20)))) (\<lambda>s.
     let self = assign [(''call_sign'', AText s)] self in
     bind_r (unpack_from ''<HHHHiB'' payload (start_byte + 20)) (\<lambda>val.
     let self = assign [(''length'', check_convert_float fl (val ! 0) 0xFFFF (1 / 10) 0),
         (''beam'', check_convert_float fl (val ! 1) 0xFFFF (1 / 10) 0),
         (''position_from_starboard'', check_convert_float fl (val ! 2) 0xFFFF (1 / 10) 0),
         (''position_from_bow'', check_convert_float fl (val ! 3) 0xFFFF (1 / 10) 0),
         (''mothership_mmsi'', AInt (val ! 4))] self in
     Inr (self, start_byte + 33)))))"

definition pgn129810_encode :: "rounding \<Rightarrow> attrs \<Rightarrow> bytes result" where
  "pgn129810_encode fl self =
     (let buffer = replicate 33 0 in
      bind_r (or_fields [attr_field self ''message_id'' 0x3F 0, attr_field self ''repeat_indicator'' 3 6]) (\<lambda>v0.
      bind_r (pack_into ''<BiB'' buffer 0
        [Inr (AInt v0), get_attr self ''mmsi'', get_attr self ''type_of_ship'']) (\<lambda>buffer.
      bind_r (get_attr self ''vendor_id'') (\<lambda>a.
      bind_r (insert_string buffer 6 7 a) (\<lambda>buffer.
      bind_r (get_attr self ''call_sign'') (\<lambda>a.
      bind_r (insert_string buffer 13 7 a) (\<lambda>buffer.
      bind_r (attr_to_int fl self ''length'' 0xFFFF (Some (1 / 10))) (\<lambda>v0.
      bind_r (attr_to_int fl self ''beam'' 0xFFFF (Some (1 / 10))) (\<lambda>v1.
      bind_r (attr_to_int fl self ''position_from_starboard'' 0xFFFF (Some (1 / 10))) (\<lambda>v2.
      bind_r (attr_to_int fl self ''position_from_bow'' 0xFFFF (Some (1 / 10))) (\<lambda>v3.
      bind_r (or_fields [pad_bits 3 0, pad_bits 0x3F 2]) (\<lambda>v4.
      bind_r (pack_into ''<HHHHiB'' buffer 20
        [Inr (AInt v0), Inr (AInt v1), Inr (AInt v2), Inr (AInt v3), get_attr self ''mothership_mmsi'',
         Inr (AInt v4)]) (\<lambda>buffer.
      Inr buffer)))))))))))))"

definition pgn129810_fields :: "pb_field list" where
  "pgn129810_fields =
     [PbField ''message_id'' ''uint32'', PbField ''repeat_indicator'' ''uint32'', PbField ''mmsi'' ''int32'',
      PbField ''type_of_ship'' ''uint32'', PbField ''vendor_id'' ''string'', PbField ''call_sign'' ''string'',
      PbField ''length'' ''float'', PbField ''beam'' ''float'', PbField ''position_from_starboard'' ''float'',
      PbField ''position_from_bow'' ''float'', PbField ''mothership_mmsi'' ''int32'']"

definition pgn129810 :: gen_class where
  "pgn129810 =
     \<lparr>gc_header = pgn129810_header, gc_access = pgn129810_access, gc_decode = pgn129810_decode,
      gc_encode = Some pgn129810_encode, gc_fields = pgn129810_fields,
      gc_items = []\<rparr>"

section \<open>130842: Simnet: AIS Class B static data (msg 24 Part B)\<close>

definition pgn130842_header :: gen_header where
  "pgn130842_header =
     \<lparr>gh_name = ''Pgn130842Mfg1857Class'', gh_pgn = Some 130842,
      gh_title = ''Simnet: AIS Class B static data (msg 24 Part B)'', gh_manufacturer = Some 1857,
      gh_structs = [''<HBBBiB'', ''<hhh''],
      gh_slots = [''message_id'', ''repeat_indicator'', ''mmsi'', ''type_of_ship'', ''vendor_id'', ''call_sign'',
        ''length'', ''beam'', ''position_from_starboard''],
      gh_static = Some 30,
      gh_enums = [(''repeat_indicator_enum'', GlobalEnum ''AIS Repeat Indicator''),
        (''type_of_ship_enum'', GlobalEnum ''Type of ship'')],
      gh_json =
       [GenericFormatter ''message_id'' ''Message ID'' 0x3F,
        EnumFormatter ''repeat_indicator'' ''Repeat indicator'' 3 (GlobalEnum ''AIS Repeat Indicator''),
        GenericFormatter ''mmsi'' ''User ID'' 0x7FFFFFFF,
        EnumFormatter ''type_of_ship'' ''Type of ship'' 0xFF (GlobalEnum ''Type of ship''),
        TextFormatter ''vendor_id'' ''Vendor ID'', TextFormatter ''call_sign'' ''Callsign'',
        FloatFormatter ''length'' ''Length'' ''{:.1f}'' None, FloatFormatter ''beam'' ''Beam'' ''{:.1f}'' None,
        FloatFormatter ''position_from_starboard'' ''Position reference from Starboard'' ''{:.1f}'' None],
      gh_init = []\<rparr>"

definition pgn130842_access :: gen_access where
  "pgn130842_access =
     \<lparr>ga_get = [''message_id'', ''repeat_indicator'', ''mmsi'', ''type_of_ship'', ''vendor_id'', ''call_sign'',
        ''length'', ''beam'', ''position_from_starboard''],
      ga_set = [''message_id'', ''repeat_indicator'', ''mmsi'', ''type_of_ship'', ''vendor_id'', ''call_sign'',
        ''length'', ''beam'', ''position_from_starboard''],
      ga_text = [(''repeat_indicator_text'', ''repeat_indicator_enum'', ''repeat_indicator''),
        (''type_of_ship_text'', ''type_of_ship_enum'', ''type_of_ship'')],
      ga_add = []\<rparr>"

definition pgn130842_decode :: "rounding \<Rightarrow> bytes \<Rightarrow> nat \<Rightarrow> attrs \<Rightarrow> (attrs \<times> nat) result" where
  "pgn130842_decode fl payload start_byte self =
     bind_r (unpack_from ''<HBBBiB'' payload start_byte) (\<lambda>val.
     let self = assign [(''message_id'', AInt (val ! 1 AND 0x3F)), (''repeat_indicator'', AInt (drop_bit 6 (val ! 1) AND 3)),
         (''mmsi'', AInt (val ! 4)), (''type_of_ship'', AInt (val ! 5))] self in
     bind_r (clean_string (py_slice payload (int (start_byte + 10)) (int (start_byte + 17)))) (\<lambda>s.
     let self = assign [(''vendor_id'', AText s)] self in
     bind_r (clean_string (py_slice payload (int (start_byte + 17)) (int (start_byte + 24)))) (\<lambda>s.
     let self = assign [(''call_sign'', AText s)] self in
     bind_r (unpack_from ''<hhh'' payload (start_byte + 24)) (\<lambda>val.
     let self = assign [(''length'', check_convert_float fl (val ! 0) 0x7FFF (1 / 10) 0),
         (''beam'', check_convert_float fl (val ! 1) 0x7FFF (1 / 10) 0),
         (''position_from_starboard'', check_convert_float fl (val ! 2) 0x7FFF (1 / 10) 0)] self in
     Inr (self, start_byte + 30)))))"

definition pgn130842_encode :: "rounding \<Rightarrow> attrs \<Rightarrow> bytes result" where
  "pgn130842_encode fl self =
     (let buffer = replicate 30 0 in
      bind_r (or_fields [pad_bits 0x7FF 0, pad_bits 3 11, pad_bits 7 13]) (\<lambda>v0.
      bind_r (or_fields [attr_field self ''message_id'' 0x3F 0, attr_field self ''repeat_indicator'' 3 6]) (\<lambda>v1.
      let v2 = (0xFF :: int) in
      let v3 = (0xFF :: int) in
      bind_r (pack_into ''<HBBBiB'' buffer 0
        [Inr (AInt v0), Inr (AInt v1), Inr (AInt v2), Inr (AInt v3), get_attr self ''mmsi'',
         get_attr self ''type_of_ship'']) (\<lambda>buffer.
      bind_r (get_attr self ''vendor_id'') (\<lambda>a.
      bind_r (insert_string buffer 10 7 a) (\<lambda>buffer.
      bind_r (get_attr self ''call_sign'') (\<lambda>a.
      bind_r (insert_string buffer 17 7 a) (\<lambda>buffer.
      bind_r (attr_to_int fl self ''length'' 0x7FFF (Some (1 / 10))) (\<lambda>v0.
      bind_r (attr_to_int fl self ''beam'' 0x7FFF (Some (1 / 10))) (\<lambda>v1.
      bind_r (attr_to_int fl self ''position_from_starboard'' 0x7FFF (Some (1 / 10))) (\<lambda>v2.
      bind_r (pack_into ''<hhh'' buffer 24
        [Inr (AInt v0), Inr (AInt v1), Inr (AInt v2)]) (\<lambda>buffer.
      Inr buffer))))))))))))"

definition pgn130842_fields :: "pb_field list" where
  "pgn130842_fields =
     [PbField ''message_id'' ''uint32'', PbField ''repeat_indicator'' ''uint32'', PbField ''mmsi'' ''int32'',
      PbField ''type_of_ship'' ''uint32'', PbField ''vendor_id'' ''string'', PbField ''call_sign'' ''string'',
      PbField ''length'' ''float'', PbField ''beam'' ''float'', PbField ''position_from_starboard'' ''float'']"

definition pgn130842 :: gen_class where
  "pgn130842 =
     \<lparr>gc_header = pgn130842_header, gc_access = pgn130842_access, gc_decode = pgn130842_decode,
      gc_encode = Some pgn130842_encode, gc_fields = pgn130842_fields,
      gc_items = []\<rparr>"

end
