(* ===== verification/GenWeather.thy ===== *)
theory GenWeather
  imports GenBase
begin

text \<open>
  The classes of \<^verbatim>\<open>generated/nmea2000_classes_gen.py\<close> for wind, temperatures, pressure and vessel speed components.
  Of each: its constants (\<open>_header\<close>), its properties (\<open>_access\<close>), its two conversions and the fields it copies
  to and from protobuf (\<open>_fields\<close>), in the order of the source.
\<close>

section \<open>130306: Wind Data\<close>

definition pgn130306_reference_enum :: "(int \<times> string) list" where
  "pgn130306_reference_enum =
     [(0, ''True (referenced to North)''), (1, ''Magnetic''), (2, ''Apparent''),
      (3, ''True (boat referenced)''), (4, ''True (water referenced)''), (6, ''Error''), (7, ''Unavailable'')]"

definition pgn130306_header :: gen_header where
  "pgn130306_header =
     \<lparr>gh_name = ''Pgn130306Class'', gh_pgn = Some 130306, gh_title = ''Wind Data'', gh_manufacturer = None,
      gh_structs = [''<BhHHB''], gh_slots = [''sequence_id'', ''wind_speed'', ''wind_angle'', ''reference''],
      gh_static = Some 8, gh_enums = [(''reference_enum'', LocalEnum pgn130306_reference_enum)],
      gh_json =
       [GenericFormatter ''sequence_id'' ''SID'' 0xFF,
        FloatFormatter ''wind_speed'' ''Wind Speed'' ''{:.2f}'' None,
        FloatFormatter ''wind_angle'' ''Wind Angle'' ''{:.4f}'' None,
        EnumFormatter ''reference'' ''Reference'' 7 (LocalEnum pgn130306_reference_enum)],
      gh_init = []\<rparr>"

definition pgn130306_access :: gen_access where
  "pgn130306_access =
     \<lparr>ga_get = [''sequence_id'', ''wind_speed'', ''wind_angle'', ''reference''],
      ga_set = [''sequence_id'', ''wind_speed'', ''wind_angle'', ''reference''],
      ga_text = [(''reference_text'', ''reference_enum'', ''reference'')], ga_add = []\<rparr>"

definition pgn130306_decode :: "rounding \<Rightarrow> bytes \<Rightarrow> nat \<Rightarrow> attrs \<Rightarrow> (attrs \<times> nat) result" where
  "pgn130306_decode fl payload start_byte self =
     bind_r (unpack_from ''<BhHHB'' payload start_byte) (\<lambda>val.
     let self = assign [(''sequence_id'', AInt (val ! 0)),
         (''wind_speed'', check_convert_float fl (val ! 1) 0x7FFF (1 / 100) 0),
         (''wind_angle'', check_convert_float fl (val ! 2) 0xFFFF (1 / 10000) 0)] self in
     let word = val ! 3 + push_bit 16 (val ! 4) in
     let self = assign [(''reference'', AInt (word AND 7))] self in
     Inr (self, start_byte + 8))"

definition pgn130306_encode :: "rounding \<Rightarrow> attrs \<Rightarrow> bytes result" where
  "pgn130306_encode fl self =
     (let buffer = replicate 8 0 in
      bind_r (attr_to_int fl self ''wind_speed'' 0x7FFF (Some (1 / 100))) (\<lambda>v0.
      bind_r (attr_to_int fl self ''wind_angle'' 0xFFFF (Some (1 / 10000))) (\<lambda>v1.
      bind_r (or_fields [attr_field self ''reference'' 7 0, pad_bits 0x1FFFFF 3]) (\<lambda>word.
      let v2 = word AND 0xFFFF in
      let v3 = drop_bit 16 (word AND 0xFF) in
      bind_r (pack_into ''<BhHHB'' buffer 0
        [get_attr self ''sequence_id'', Inr (AInt v0), Inr (AInt v1), Inr (AInt v2), Inr (AInt v3)]) (\<lambda>buffer.
      Inr buffer)))))"

definition pgn130306_fields :: "pb_field list" where
  "pgn130306_fields =
     [PbField ''sequence_id'' ''uint32'', PbField ''wind_speed'' ''float'', PbField ''wind_angle'' ''float'',
      PbField ''reference'' ''uint32'']"

definition pgn130306 :: gen_class where
  "pgn130306 =
     \<lparr>gc_header = pgn130306_header, gc_access = pgn130306_access, gc_decode = pgn130306_decode,
      gc_encode = Some pgn130306_encode, gc_fields = pgn130306_fields,
      gc_items = []\<rparr>"

section \<open>130310: Environmental Parameters\<close>

definition pgn130310_header :: gen_header where
  "pgn130310_header =
     \<lparr>gh_name = ''Pgn130310Class'', gh_pgn = Some 130310, gh_title = ''Environmental Parameters'',
      gh_manufacturer = None, gh_structs = [''<BHHHB''],
      gh_slots = [''sequence_id'', ''water_temperature'', ''outside_air_temperature'', ''atmospheric_pressure''],
      gh_static = Some 8, gh_enums = [],
      gh_json =
       [GenericFormatter ''sequence_id'' ''SID'' 0xFF,
        FloatFormatter ''water_temperature'' ''Water Temperature'' ''{:.1f}'' None,
        FloatFormatter ''outside_air_temperature'' ''Outside Ambient Air Temperature'' ''{:.1f}'' None,
        FloatFormatter ''atmospheric_pressure'' ''Atmospheric Pressure'' ''{:.0f}'' None],
      gh_init = []\<rparr>"

definition pgn130310_access :: gen_access where
  "pgn130310_access =
     \<lparr>ga_get = [''sequence_id'', ''water_temperature'', ''outside_air_temperature'', ''atmospheric_pressure''],
      ga_set = [''sequence_id'', ''water_temperature'', ''outside_air_temperature'', ''atmospheric_pressure''],
      ga_text = [], ga_add = []\<rparr>"

definition pgn130310_decode :: "rounding \<Rightarrow> bytes \<Rightarrow> nat \<Rightarrow> attrs \<Rightarrow> (attrs \<times> nat) result" where
  "pgn130310_decode fl payload start_byte self =
     bind_r (unpack_from ''<BHHHB'' payload start_byte) (\<lambda>val.
     let self = assign [(''sequence_id'', AInt (val ! 0)),
         (''water_temperature'', check_convert_float fl (val ! 1) 0xFFFF (1 / 100) 0),
         (''outside_air_temperature'', check_convert_float fl (val ! 2) 0xFFFF (1 / 100) 0),
         (''atmospheric_pressure'', check_convert_float fl (val ! 3) 0xFFFF 100 0)] self in
     Inr (self, start_byte + 8))"

definition pgn130310_encode :: "rounding \<Rightarrow> attrs \<Rightarrow> bytes result" where
  "pgn130310_encode fl self =
     (let buffer = replicate 8 0 in
      bind_r (attr_to_int fl self ''water_temperature'' 0xFFFF (Some (1 / 100))) (\<lambda>v0.
      bind_r (attr_to_int fl self ''outside_air_temperature'' 0xFFFF (Some (1 / 100))) (\<lambda>v1.
      bind_r (attr_to_int fl self ''atmospheric_pressure'' 0xFFFF (Some 100)) (\<lambda>v2.
      let v3 = (0xFF :: int) in
      bind_r (pack_into ''<BHHHB'' buffer 0
        [get_attr self ''sequence_id'', Inr (AInt v0), Inr (AInt v1), Inr (AInt v2), Inr (AInt v3)]) (\<lambda>buffer.
      Inr buffer)))))"

definition pgn130310_fields :: "pb_field list" where
  "pgn130310_fields =
     [PbField ''sequence_id'' ''uint32'', PbField ''water_temperature'' ''float'',
      PbField ''outside_air_temperature'' ''float'', PbField ''atmospheric_pressure'' ''float'']"

definition pgn130310 :: gen_class where
  "pgn130310 =
     \<lparr>gc_header = pgn130310_header, gc_access = pgn130310_access, gc_decode = pgn130310_decode,
      gc_encode = Some pgn130310_encode, gc_fields = pgn130310_fields,
      gc_items = []\<rparr>"

section \<open>130311: Environmental Parameters\<close>

definition pgn130311_temperature_instance_enum :: "(int \<times> string) list" where
  "pgn130311_temperature_instance_enum =
     [(0, ''Sea Temperature''), (1, ''Outside Temperature''), (2, ''Inside Temperature''),
      (3, ''Engine Room Temperature''), (4, ''Main Cabin Temperature'')]"

definition pgn130311_humidity_instance_enum :: "(int \<times> string) list" where
  "pgn130311_humidity_instance_enum =
     [(0, ''Inside''), (1, ''Outside'')]"

definition pgn130311_header :: gen_header where
  "pgn130311_header =
     \<lparr>gh_name = ''Pgn130311Class'', gh_pgn = Some 130311, gh_title = ''Environmental Parameters'',
      gh_manufacturer = None, gh_structs = [''<BBHhH''],
      gh_slots = [''sequence_id'', ''temperature_instance'', ''humidity_instance'', ''temperature'', ''humidity'',
        ''atmospheric_pressure''],
      gh_static = Some 8,
      gh_enums = [(''temperature_instance_enum'', LocalEnum pgn130311_temperature_instance_enum),
        (''humidity_instance_enum'', LocalEnum pgn130311_humidity_instance_enum)],
      gh_json =
       [GenericFormatter ''sequence_id'' ''SID'' 0xFF,
        EnumFormatter ''temperature_instance'' ''Temperature Instance'' 0x3F (LocalEnum pgn130311_temperature_instance_enum),
        EnumFormatter ''humidity_instance'' ''Humidity Instance'' 3 (LocalEnum pgn130311_humidity_instance_enum),
        FloatFormatter ''temperature'' ''Temperature'' ''{:.1f}'' None,
        FloatFormatter ''humidity'' ''Humidity'' ''{:.0f}'' None,
        FloatFormatter ''atmospheric_pressure'' ''Atmospheric Pressure'' ''{:.0f}'' None],
      gh_init = []\<rparr>"

definition pgn130311_access :: gen_access where
  "pgn130311_access =
     \<lparr>ga_get = [''sequence_id'', ''temperature_instance'', ''humidity_instance'', ''temperature'', ''humidity'',
        ''atmospheric_pressure''],
      ga_set = [''sequence_id'', ''temperature_instance'', ''humidity_instance'', ''temperature'', ''humidity'',
        ''atmospheric_pressure''],
      ga_text = [(''temperature_instance_text'', ''temperature_instance_enum'', ''temperature_instance''),
        (''humidity_instance_text'', ''humidity_instance_enum'', ''humidity_instance'')],
      ga_add = []\<rparr>"

definition pgn130311_decode :: "rounding \<Rightarrow> bytes \<Rightarrow> nat \<Rightarrow> attrs \<Rightarrow> (attrs \<times> nat) result" where
  "pgn130311_decode fl payload start_byte self =
     bind_r (unpack_from ''<BBHhH'' payload start_byte) (\<lambda>val.
     let self = assign [(''sequence_id'', AInt (val ! 0)), (''temperature_instance'', AInt (val ! 1 AND 0x3F)),
         (''humidity_instance'', AInt (drop_bit 6 (val ! 1) AND 3)),
         (''temperature'', check_convert_float fl (val ! 2) 0xFFFF (1 / 100) 0),
         (''humidity'', check_convert_float fl (val ! 3) 0x7FFF (1 / 250) 0),
         (''atmospheric_pressure'', check_convert_float fl (val ! 4) 0xFFFF 100 0)] self in
     Inr (self, start_byte + 8))"

definition pgn130311_encode :: "rounding \<Rightarrow> attrs \<Rightarrow> bytes result" where
  "pgn130311_encode fl self =
     (let buffer = replicate 8 0 in
      bind_r (or_fields [attr_field self ''temperature_instance'' 0x3F 0, attr_field self ''humidity_instance'' 3 6]) (\<lambda>v0.
      bind_r (attr_to_int fl self ''temperature'' 0xFFFF (Some (1 / 100))) (\<lambda>v1.
      bind_r (attr_to_int fl self ''humidity'' 0x7FFF (Some (1 / 250))) (\<lambda>v2.
      bind_r (attr_to_int fl self ''atmospheric_pressure'' 0xFFFF (Some 100)) (\<lambda>v3.
      bind_r (pack_into ''<BBHhH'' buffer 0
        [get_attr self ''sequence_id'', Inr (AInt v0), Inr (AInt v1), Inr (AInt v2), Inr (AInt v3)]) (\<lambda>buffer.
      Inr buffer))))))"

definition pgn130311_fields :: "pb_field list" where
  "pgn130311_fields =
     [PbField ''sequence_id'' ''uint32'', PbField ''temperature_instance'' ''uint32'',
      PbField ''humidity_instance'' ''uint32'', PbField ''temperature'' ''float'',
      PbField ''humidity'' ''float'', PbField ''atmospheric_pressure'' ''float'']"

definition pgn130311 :: gen_class where
  "pgn130311 =
     \<lparr>gc_header = pgn130311_header, gc_access = pgn130311_access, gc_decode = pgn130311_decode,
      gc_encode = Some pgn130311_encode, gc_fields = pgn130311_fields,
      gc_items = []\<rparr>"

section \<open>130312: Temperature\<close>

definition pgn130312_header :: gen_header where
  "pgn130312_header =
     \<lparr>gh_name = ''Pgn130312Class'', gh_pgn = Some 130312, gh_title = ''Temperature'', gh_manufacturer = None,
      gh_structs = [''<BBBHHB''],
      gh_slots = [''sequence_id'', ''temperature_instance'', ''temperature_source'', ''actual_temperature'',
        ''set_temperature''],
      gh_static = Some 8, gh_enums = [(''temperature_source_enum'', GlobalEnum ''Temperature Source'')],
      gh_json =
       [GenericFormatter ''sequence_id'' ''SID'' 0xFF,
        GenericFormatter ''temperature_instance'' ''Temperature Instance'' 0xFF,
        EnumFormatter ''temperature_source'' ''Temperature Source'' 0xFF (GlobalEnum ''Temperature Source''),
        FloatFormatter ''actual_temperature'' ''Actual Temperature'' ''{:.1f}'' None,
        FloatFormatter ''set_temperature'' ''Set Temperature'' ''{:.1f}'' None],
      gh_init = []\<rparr>"

definition pgn130312_access :: gen_access where
  "pgn130312_access =
     \<lparr>ga_get = [''sequence_id'', ''temperature_instance'', ''temperature_source'', ''actual_temperature'',
        ''set_temperature''],
      ga_set = [''sequence_id'', ''temperature_instance'', ''temperature_source'', ''actual_temperature'',
        ''set_temperature''],
      ga_text = [(''temperature_source_text'', ''temperature_source_enum'', ''temperature_source'')],
      ga_add = []\<rparr>"

definition pgn130312_decode :: "rounding \<Rightarrow> bytes \<Rightarrow> nat \<Rightarrow> attrs \<Rightarrow> (attrs \<times> nat) result" where
  "pgn130312_decode fl payload start_byte self =
     bind_r (unpack_from ''<BBBHHB'' payload start_byte) (\<lambda>val.
     let self = assign [(''sequence_id'', AInt (val ! 0)), (''temperature_instance'', AInt (val ! 1)),
         (''temperature_source'', AInt (val ! 2)),
         (''actual_temperature'', check_convert_float fl (val ! 3) 0xFFFF (1 / 100) 0),
         (''set_temperature'', check_convert_float fl (val ! 4) 0xFFFF (1 / 100) 0)] self in
     Inr (self, start_byte + 8))"

definition pgn130312_encode :: "rounding \<Rightarrow> attrs \<Rightarrow> bytes result" where
  "pgn130312_encode fl self =
     (let buffer = replicate 8 0 in
      bind_r (attr_to_int fl self ''actual_temperature'' 0xFFFF (Some (1 / 100))) (\<lambda>v0.
      bind_r (attr_to_int fl self ''set_temperature'' 0xFFFF (Some (1 / 100))) (\<lambda>v1.
      let v2 = (0xFF :: int) in
      bind_r (pack_into ''<BBBHHB'' buffer 0
        [get_attr self ''sequence_id'', get_attr self ''temperature_instance'',
         get_attr self ''temperature_source'', Inr (AInt v0), Inr (AInt v1), Inr (AInt v2)]) (\<lambda>buffer.
      Inr buffer))))"

definition pgn130312_fields :: "pb_field list" where
  "pgn130312_fields =
     [PbField ''sequence_id'' ''uint32'', PbField ''temperature_instance'' ''uint32'',
      PbField ''temperature_source'' ''uint32'', PbField ''actual_temperature'' ''float'',
      PbField ''set_temperature'' ''float'']"

definition pgn130312 :: gen_class where
  "pgn130312 =
     \<lparr>gc_header = pgn130312_header, gc_access = pgn130312_access, gc_decode = pgn130312_decode,
      gc_encode = Some pgn130312_encode, gc_fields = pgn130312_fields,
      gc_items = []\<rparr>"

section \<open>130314: Actual Pressure\<close>

definition pgn130314_pressure_source_enum :: "(int \<times> string) list" where
  "pgn130314_pressure_source_enum =
     [(0, ''Atmospheric''), (1, ''Water''), (2, ''Steam''), (3, ''Compressed Air''), (4, ''Hydraulic'')]"

definition pgn130314_header :: gen_header where
  "pgn130314_header =
     \<lparr>gh_name = ''Pgn130314Class'', gh_pgn = Some 130314, gh_title = ''Actual Pressure'',
      gh_manufacturer = None, gh_structs = [''<BBBIB''],
      gh_slots = [''sequence_id'', ''pressure_instance'', ''pressure_source'', ''pressure''],
      gh_static = Some 8, gh_enums = [(''pressure_source_enum'', LocalEnum pgn130314_pressure_source_enum)],
      gh_json =
       [GenericFormatter ''sequence_id'' ''SID'' 0xFF,
        GenericFormatter ''pressure_instance'' ''Pressure Instance'' 0xFF,
        EnumFormatter ''pressure_source'' ''Pressure Source'' 0xFF (LocalEnum pgn130314_pressure_source_enum),
        FloatFormatter ''pressure'' ''Pressure'' ''{:.0f}'' None],
      gh_init = []\<rparr>"

definition pgn130314_access :: gen_access where
  "pgn130314_access =
     \<lparr>ga_get = [''sequence_id'', ''pressure_instance'', ''pressure_source'', ''pressure''],
      ga_set = [''sequence_id'', ''pressure_instance'', ''pressure_source'', ''pressure''],
      ga_text = [(''pressure_source_text'', ''pressure_source_enum'', ''pressure_source'')], ga_add = []\<rparr>"

definition pgn130314_decode :: "rounding \<Rightarrow> bytes \<Rightarrow> nat \<Rightarrow> attrs \<Rightarrow> (attrs \<times> nat) result" where
  "pgn130314_decode fl payload start_byte self =
     bind_r (unpack_from ''<BBBIB'' payload start_byte) (\<lambda>val.
     let self = assign [(''sequence_id'', AInt (val ! 0)), (''pressure_instance'', AInt (val ! 1)),
         (''pressure_source'', AInt (val ! 2)),
         (''pressure'', check_convert_float fl (val ! 3) 0xFFFFFFFF (1 / 10) 0)] self in
     Inr (self, start_byte + 8))"

definition pgn130314_encode :: "rounding \<Rightarrow> attrs \<Rightarrow> bytes result" where
  "pgn130314_encode fl self =
     (let buffer = replicate 8 0 in
      bind_r (attr_to_int fl self ''pressure'' 0xFFFFFFFF (Some (1 / 10))) (\<lambda>v0.
      let v1 = (0xFF :: int) in
      bind_r (pack_into ''<BBBIB'' buffer 0
        [get_attr self ''sequence_id'', get_attr self ''pressure_instance'', get_attr self ''pressure_source'',
         Inr (AInt v0), Inr (AInt v1)]) (\<lambda>buffer.
      Inr buffer)))"

definition pgn130314_fields :: "pb_field list" where
  "pgn130314_fields =
     [PbField ''sequence_id'' ''uint32'', PbField ''pressure_instance'' ''uint32'',
      PbField ''pressure_source'' ''uint32'', PbField ''pressure'' ''float'']"

definition pgn130314 :: gen_class where
  "pgn130314 =
     \<lparr>gc_header = pgn130314_header, gc_access = pgn130314_access, gc_decode = pgn130314_decode,
      gc_encode = Some pgn130314_encode, gc_fields = pgn130314_fields,
      gc_items = []\<rparr>"

section \<open>130316: Temperature Extended Range\<close>

definition pgn130316_header :: gen_header where
  "pgn130316_header =
     \<lparr>gh_name = ''Pgn130316Class'', gh_pgn = Some 130316, gh_title = ''Temperature Extended Range'',
      gh_manufacturer = None, gh_structs = [''<BBBHBH''],
      gh_slots = [''sequence_id'', ''temperature_instance'', ''temperature_source'', ''actual_temperature'',
        ''set_temperature''],
      gh_static = Some 8, gh_enums = [(''temperature_source_enum'', GlobalEnum ''Temperature Source'')],
      gh_json =
       [GenericFormatter ''sequence_id'' ''SID'' 0xFF,
        GenericFormatter ''temperature_instance'' ''Temperature Instance'' 0xFF,
        EnumFormatter ''temperature_source'' ''Temperature Source'' 0xFF (GlobalEnum ''Temperature Source''),
        FloatFormatter ''actual_temperature'' ''Actual Temperature'' ''{:.1f}'' None,
        FloatFormatter ''set_temperature'' ''Set Temperature'' ''{:.1f}'' None],
      gh_init = []\<rparr>"

definition pgn130316_access :: gen_access where
  "pgn130316_access =
     \<lparr>ga_get = [''sequence_id'', ''temperature_instance'', ''temperature_source'', ''actual_temperature'',
        ''set_temperature''],
      ga_set = [''sequence_id'', ''temperature_instance'', ''temperature_source'', ''actual_temperature'',
        ''set_temperature''],
      ga_text = [(''temperature_source_text'', ''temperature_source_enum'', ''temperature_source'')],
      ga_add = []\<rparr>"

definition pgn130316_decode :: "rounding \<Rightarrow> bytes \<Rightarrow> nat \<Rightarrow> attrs \<Rightarrow> (attrs \<times> nat) result" where
  "pgn130316_decode fl payload start_byte self =
     bind_r (unpack_from ''<BBBHBH'' payload start_byte) (\<lambda>val.
     let self = assign [(''sequence_id'', AInt (val ! 0)), (''temperature_instance'', AInt (val ! 1)),
         (''temperature_source'', AInt (val ! 2))] self in
     let word = val ! 3 + push_bit 16 (val ! 4) in
     let self = assign [(''actual_temperature'', check_convert_float fl word 0xFFFFFF (1 / 1000) 0),
         (''set_temperature'', check_convert_float fl (val ! 5) 0xFFFF (1 / 10) 0)] self in
     Inr (self, start_byte + 8))"

definition pgn130316_encode :: "rounding \<Rightarrow> attrs \<Rightarrow> bytes result" where
  "pgn130316_encode fl self =
     (let buffer = replicate 8 0 in
      bind_r (attr_to_int fl self ''actual_temperature'' 0xFFFFFF (Some (1 / 1000))) (\<lambda>word.
      let v0 = word AND 0xFFFF in
      let v1 = drop_bit 16 word AND 0xFF in
      bind_r (attr_to_int fl self ''set_temperature'' 0xFFFF (Some (1 / 10))) (\<lambda>v2.
      bind_r (pack_into ''<BBBHBH'' buffer 0
        [get_attr self ''sequence_id'', get_attr self ''temperature_instance'',
         get_attr self ''temperature_source'', Inr (AInt v0), Inr (AInt v1), Inr (AInt v2)]) (\<lambda>buffer.
      Inr buffer))))"

definition pgn130316_fields :: "pb_field list" where
  "pgn130316_fields =
     [PbField ''sequence_id'' ''uint32'', PbField ''temperature_instance'' ''uint32'',
      PbField ''temperature_source'' ''uint32'', PbField ''actual_temperature'' ''float'',
      PbField ''set_temperature'' ''float'']"

definition pgn130316 :: gen_class where
  "pgn130316 =
     \<lparr>gc_header = pgn130316_header, gc_access = pgn130316_access, gc_decode = pgn130316_decode,
      gc_encode = Some pgn130316_encode, gc_fields = pgn130316_fields,
      gc_items = []\<rparr>"

section \<open>130578: Vessel Speed Components\<close>

definition pgn130578_header :: gen_header where
  "pgn130578_header =
     \<lparr>gh_name = ''Pgn130578Class'', gh_pgn = Some 130578, gh_title = ''Vessel Speed Components'',
      gh_manufacturer = None, gh_structs = [''<hhhhhh''],
      gh_slots = [''longitudinal_speed_water'', ''transverse_speed_water'', ''longitudinal_speed_ground'',
        ''transverse_speed_ground'', ''stern_speed_water'', ''stern_speed_ground''],
      gh_static = Some 12, gh_enums = [],
      gh_json =
       [FloatFormatter ''longitudinal_speed_water'' ''Longitudinal Speed, Water-referenced'' ''{:.2f}'' None,
        FloatFormatter ''transverse_speed_water'' ''Transverse Speed, Water-referenced'' ''{:.2f}'' None,
        FloatFormatter ''longitudinal_speed_ground'' ''Longitudinal Speed, Ground-referenced'' ''{:.2f}'' None,
        FloatFormatter ''transverse_speed_ground'' ''Transverse Speed, Ground-referenced'' ''{:.2f}'' None,
        FloatFormatter ''stern_speed_water'' ''Stern Speed, Water-referenced'' ''{:.2f}'' None,
        FloatFormatter ''stern_speed_ground'' ''Stern Speed, Ground-referenced'' ''{:.2f}'' None],
      gh_init = []\<rparr>"

definition pgn130578_access :: gen_access where
  "pgn130578_access =
     \<lparr>ga_get = [''longitudinal_speed_water'', ''transverse_speed_water'', ''longitudinal_speed_ground'',
        ''transverse_speed_ground'', ''stern_speed_water'', ''stern_speed_ground''],
      ga_set = [''longitudinal_speed_water'', ''transverse_speed_water'', ''longitudinal_speed_ground'',
        ''transverse_speed_ground'', ''stern_speed_water'', ''stern_speed_ground''],
      ga_text = [], ga_add = []\<rparr>"

definition pgn130578_decode :: "rounding \<Rightarrow> bytes \<Rightarrow> nat \<Rightarrow> attrs \<Rightarrow> (attrs \<times> nat) result" where
  "pgn130578_decode fl payload start_byte self =
     bind_r (unpack_from ''<hhhhhh'' payload start_byte) (\<lambda>val.
     let self = assign [(''longitudinal_speed_water'', check_convert_float fl (val ! 0) 0x7FFF (1 / 1000) 0),
         (''transverse_speed_water'', check_convert_float fl (val ! 1) 0x7FFF (1 / 1000) 0),
         (''longitudinal_speed_ground'', check_convert_float fl (val ! 2) 0x7FFF (1 / 1000) 0),
         (''transverse_speed_ground'', check_convert_float fl (val ! 3) 0x7FFF (1 / 1000) 0),
         (''stern_speed_water'', check_convert_float fl (val ! 4) 0x7FFF (1 / 1000) 0),
         (''stern_speed_ground'', check_convert_float fl (val ! 5) 0x7FFF (1 / 1000) 0)] self in
     Inr (self, start_byte + 12))"

definition pgn130578_encode :: "rounding \<Rightarrow> attrs \<Rightarrow> bytes result" where
  "pgn130578_encode fl self =
     (let buffer = replicate 12 0 in
      bind_r (attr_to_int fl self ''longitudinal_speed_water'' 0x7FFF (Some (1 / 1000))) (\<lambda>v0.
      bind_r (attr_to_int fl self ''transverse_speed_water'' 0x7FFF (Some (1 / 1000))) (\<lambda>v1.
      bind_r (attr_to_int fl self ''longitudinal_speed_ground'' 0x7FFF (Some (1 / 1000))) (\<lambda>v2.
      bind_r (attr_to_int fl self ''transverse_speed_ground'' 0x7FFF (Some (1 / 1000))) (\<lambda>v3.
      bind_r (attr_to_int fl self ''stern_speed_water'' 0x7FFF (Some (1 / 1000))) (\<lambda>v4.
      bind_r (attr_to_int fl self ''stern_speed_ground'' 0x7FFF (Some (1 / 1000))) (\<lambda>v5.
      bind_r (pack_into ''<hhhhhh'' buffer 0
        [Inr (AInt v0), Inr (AInt v1), Inr (AInt v2), Inr (AInt v3), Inr (AInt v4), Inr (AInt v5)]) (\<lambda>buffer.
      Inr buffer))))))))"

definition pgn130578_fields :: "pb_field list" where
  "pgn130578_fields =
     [PbField ''longitudinal_speed_water'' ''float'', PbField ''transverse_speed_water'' ''float'',
      PbField ''longitudinal_speed_ground'' ''float'', PbField ''transverse_speed_ground'' ''float'',
      PbField ''stern_speed_water'' ''float'', PbField ''stern_speed_ground'' ''float'']"

definition pgn130578 :: gen_class where
  "pgn130578 =
     \<lparr>gc_header = pgn130578_header, gc_access = pgn130578_access, gc_decode = pgn130578_decode,
      gc_encode = Some pgn130578_encode, gc_fields = pgn130578_fields,
      gc_items = []\<rparr>"

end
