(* ===== verification/GenClasses.thy ===== *)
theory GenClasses
  imports GenVessel GenNav GenAis GenWeather
begin

text \<open>
  The table of the generated classes (\<^verbatim>\<open>generated/nmea2000_classes_gen.py\<close>) and the choice of the class of a message
  (\<^verbatim>\<open>nmea2000/nmea2k_decode_dispatch.py\<close>).
\<close>

section \<open>The table\<close>

definition nmea2k_generated_classes :: "(nat, gen_class) dict" where
  "nmea2k_generated_classes =
     [(65359, pgn65359), (65379, pgn65379), (126992, pgn126992), (127245, pgn127245), (127250, pgn127250),
      (127258, pgn127258), (127488, pgn127488), (127489, pgn127489), (127507, pgn127507), (127508, pgn127508),
      (127751, pgn127751), (128259, pgn128259), (128267, pgn128267), (128275, pgn128275), (129025, pgn129025),
      (129026, pgn129026), (129029, pgn129029), (129038, pgn129038), (129039, pgn129039), (129283, pgn129283),
      (129284, pgn129284), (129285, pgn129285), (129539, pgn129539), (129540, pgn129540), (129794, pgn129794),
      (129809, pgn129809), (129810, pgn129810), (130074, pgn130074), (130306, pgn130306), (130310, pgn130310),
      (130311, pgn130311), (130312, pgn130312), (130314, pgn130314), (130316, pgn130316), (130578, pgn130578),
      (130842, pgn130842)]"

text \<open>No entry of the table is a table by manufacturer, so the manufacturer of the message is never looked at.\<close>

definition get_n2k_decoded_object :: "rounding \<Rightarrow> n2k_msg \<Rightarrow> gen_obj result" where
  "get_n2k_decoded_object fl m =
     (case dict_get nmea2k_generated_classes (m_pgn m) of
        None \<Rightarrow> Inl N2KMissingDecodeEncodeException
      | Some c \<Rightarrow> bind_r (is_pgn_proprietary (m_pgn m)) (\<lambda>_. gen_of_message fl c m))"

definition get_n2k_object_from_protobuf :: "decoded_pb \<Rightarrow> gen_obj result" where
  "get_n2k_object_from_protobuf pb =
     (case dict_get nmea2k_generated_classes (dp_pgn pb) of
        None \<Rightarrow> Inl N2KMissingDecodeEncodeException
      | Some c \<Rightarrow> gen_of_protobuf c pb)"

end
