(* ===== verification/GenRoundTrip.thy ===== *)
theory GenRoundTrip
  imports GenLemmas GenClasses
begin

text \<open>
  What happens to the messages of the bus that the generated classes decode and write again: the fields that are kept,
  the precision of a position, and the classes that lose or refuse values.
\<close>

section \<open>Received and sent again\<close>

lemma pgn126992_rewritable: "ieee_rounding fl \<Longrightarrow> rewritable fl pgn126992"
  by (rule rewritable_class [where s = "''<BBHI''"];
      clarsimp simp: pgn126992_def pgn126992_header_def pgn126992_decode_def pgn126992_encode_def struct_size_def gen_simps split: if_splits;
      (rule exI, rule conjI, rule refl, simp add: gen_kept)?)

lemma pgn127245_rewritable: "ieee_rounding fl \<Longrightarrow> rewritable fl pgn127245"
  by (rule rewritable_class [where s = "''<BBhhH''"];
      clarsimp simp: pgn127245_def pgn127245_header_def pgn127245_decode_def pgn127245_encode_def struct_size_def gen_simps split: if_splits;
      (rule exI, rule conjI, rule refl, simp add: gen_kept)?)

lemma pgn127250_rewritable: "ieee_rounding fl \<Longrightarrow> rewritable fl pgn127250"
  by (rule rewritable_class [where s = "''<BHhhB''"];
      clarsimp simp: pgn127250_def pgn127250_header_def pgn127250_decode_def pgn127250_encode_def struct_size_def gen_simps split: if_splits;
      (rule exI, rule conjI, rule refl, simp add: gen_kept)?)

lemma pgn127258_rewritable: "ieee_rounding fl \<Longrightarrow> rewritable fl pgn127258"
  by (rule rewritable_class [where s = "''<BBHh''"];
      clarsimp simp: pgn127258_def pgn127258_header_def pgn127258_decode_def pgn127258_encode_def struct_size_def gen_simps split: if_splits;
      (rule exI, rule conjI, rule refl, simp add: gen_kept)?)

lemma size_127507: "struct_size ''<BBBBBH'' = 7"
  by (simp add: struct_size_def)

lemma pgn127507_rewritable: "ieee_rounding fl \<Longrightarrow> rewritable fl pgn127507"
  by (rule rewritable_class [where s = "''<BBBBBH''"];
      clarsimp simp: pgn127507_def pgn127507_header_def pgn127507_decode_def pgn127507_encode_def size_127507 gen_simps split: if_splits;
      (rule exI, rule conjI, rule refl, simp add: gen_kept)?)

lemma pgn127508_rewritable: "ieee_rounding fl \<Longrightarrow> rewritable fl pgn127508"
  by (rule rewritable_class [where s = "''<BhhHB''"];
      clarsimp simp: pgn127508_def pgn127508_header_def pgn127508_decode_def pgn127508_encode_def struct_size_def gen_simps split: if_splits;
      (rule exI, rule conjI, rule refl, simp add: gen_kept)?)

lemma pgn128259_rewritable: "ieee_rounding fl \<Longrightarrow> rewritable fl pgn128259"
  by (rule rewritable_class [where s = "''<BhhBH''"];
      clarsimp simp: pgn128259_def pgn128259_header_def pgn128259_decode_def pgn128259_encode_def struct_size_def gen_simps split: if_splits;
      (rule exI, rule conjI, rule refl, simp add: gen_kept)?)

lemma pgn128267_rewritable: "ieee_rounding fl \<Longrightarrow> rewritable fl pgn128267"
  by (rule rewritable_class [where s = "''<BIhB''"];
      clarsimp simp: pgn128267_def pgn128267_header_def pgn128267_decode_def pgn128267_encode_def struct_size_def gen_simps split: if_splits;
      (rule exI, rule conjI, rule refl, simp add: gen_kept)?)

lemma pgn128275_rewritable: "ieee_rounding fl \<Longrightarrow> rewritable fl pgn128275"
  by (rule rewritable_class [where s = "''<HIII''"];
      clarsimp simp: pgn128275_def pgn128275_header_def pgn128275_decode_def pgn128275_encode_def struct_size_def gen_simps split: if_splits;
      (rule exI, rule conjI, rule refl, simp add: gen_kept)?)

lemma pgn129025_rewritable: "ieee_rounding fl \<Longrightarrow> rewritable fl pgn129025"
  by (rule rewritable_class [where s = "''<ii''"];
      clarsimp simp: pgn129025_def pgn129025_header_def pgn129025_decode_def pgn129025_encode_def struct_size_def gen_simps split: if_splits;
      (rule exI, rule conjI, rule refl, simp add: gen_kept)?)

lemma pgn129026_rewritable: "ieee_rounding fl \<Longrightarrow> rewritable fl pgn129026"
  by (rule rewritable_class [where s = "''<BBHHH''"];
      clarsimp simp: pgn129026_def pgn129026_header_def pgn129026_decode_def pgn129026_encode_def struct_size_def gen_simps split: if_splits;
      (rule exI, rule conjI, rule refl, simp add: gen_kept)?)

lemma pgn129283_rewritable: "ieee_rounding fl \<Longrightarrow> rewritable fl pgn129283"
  by (rule rewritable_class [where s = "''<BBi''"];
      clarsimp simp: pgn129283_def pgn129283_header_def pgn129283_decode_def pgn129283_encode_def struct_size_def gen_simps split: if_splits;
      (rule exI, rule conjI, rule refl, simp add: gen_kept)?)

lemma pgn129284_rewritable: "ieee_rounding fl \<Longrightarrow> rewritable fl pgn129284"
  by (rule rewritable_class [where s = "''<BIBIHHHIIiih''"];
      clarsimp simp: pgn129284_def pgn129284_header_def pgn129284_decode_def pgn129284_encode_def struct_size_def gen_simps split: if_splits;
      (rule exI, rule conjI, rule refl, simp add: gen_kept)?)

lemma pgn129539_rewritable: "ieee_rounding fl \<Longrightarrow> rewritable fl pgn129539"
  by (rule rewritable_class [where s = "''<BBhhh''"];
      clarsimp simp: pgn129539_def pgn129539_header_def pgn129539_decode_def pgn129539_encode_def struct_size_def gen_simps split: if_splits;
      (rule exI, rule conjI, rule refl, simp add: gen_kept)?)

lemma pgn130310_rewritable: "ieee_rounding fl \<Longrightarrow> rewritable fl pgn130310"
  by (rule rewritable_class [where s = "''<BHHHB''"];
      clarsimp simp: pgn130310_def pgn130310_header_def pgn130310_decode_def pgn130310_encode_def struct_size_def gen_simps split: if_splits;
      (rule exI, rule conjI, rule refl, simp add: gen_kept)?)

lemma pgn130311_rewritable: "ieee_rounding fl \<Longrightarrow> rewritable fl pgn130311"
  by (rule rewritable_class [where s = "''<BBHhH''"];
      clarsimp simp: pgn130311_def pgn130311_header_def pgn130311_decode_def pgn130311_encode_def struct_size_def gen_simps split: if_splits;
      (rule exI, rule conjI, rule refl, simp add: gen_kept)?)

lemma pgn130312_rewritable: "ieee_rounding fl \<Longrightarrow> rewritable fl pgn130312"
  by (rule rewritable_class [where s = "''<BBBHHB''"];
      clarsimp simp: pgn130312_def pgn130312_header_def pgn130312_decode_def pgn130312_encode_def struct_size_def gen_simps split: if_splits;
      (rule exI, rule conjI, rule refl, simp add: gen_kept)?)

lemma pgn130314_rewritable: "ieee_rounding fl \<Longrightarrow> rewritable fl pgn130314"
  by (rule rewritable_class [where s = "''<BBBIB''"];
      clarsimp simp: pgn130314_def pgn130314_header_def pgn130314_decode_def pgn130314_encode_def struct_size_def gen_simps split: if_splits;
      (rule exI, rule conjI, rule refl, simp add: gen_kept)?)

lemma pgn130578_rewritable: "ieee_rounding fl \<Longrightarrow> rewritable fl pgn130578"
  by (rule rewritable_class [where s = "''<hhhhhh''"];
      clarsimp simp: pgn130578_def pgn130578_header_def pgn130578_decode_def pgn130578_encode_def struct_size_def gen_simps split: if_splits;
      (rule exI, rule conjI, rule refl, simp add: gen_kept)?)


definition rewritable_pgns :: "nat list" where
  "rewritable_pgns =
     [126992, 127245, 127250, 127258, 127507, 127508, 128259, 128267, 128275, 129025, 129026, 129283, 129284, 129539,
      130310, 130311, 130312, 130314, 130578]"

lemma rewritable_table:
  "dict_get nmea2k_generated_classes 126992 = Some pgn126992"
  "dict_get nmea2k_generated_classes 127245 = Some pgn127245"
  "dict_get nmea2k_generated_classes 127250 = Some pgn127250"
  "dict_get nmea2k_generated_classes 127258 = Some pgn127258"
  "dict_get nmea2k_generated_classes 127507 = Some pgn127507"
  "dict_get nmea2k_generated_classes 127508 = Some pgn127508"
  "dict_get nmea2k_generated_classes 128259 = Some pgn128259"
  "dict_get nmea2k_generated_classes 128267 = Some pgn128267"
  "dict_get nmea2k_generated_classes 128275 = Some pgn128275"
  "dict_get nmea2k_generated_classes 129025 = Some pgn129025"
  "dict_get nmea2k_generated_classes 129026 = Some pgn129026"
  "dict_get nmea2k_generated_classes 129283 = Some pgn129283"
  "dict_get nmea2k_generated_classes 129284 = Some pgn129284"
  "dict_get nmea2k_generated_classes 129539 = Some pgn129539"
  "dict_get nmea2k_generated_classes 130310 = Some pgn130310"
  "dict_get nmea2k_generated_classes 130311 = Some pgn130311"
  "dict_get nmea2k_generated_classes 130312 = Some pgn130312"
  "dict_get nmea2k_generated_classes 130314 = Some pgn130314"
  "dict_get nmea2k_generated_classes 130578 = Some pgn130578"
  by (simp_all add: nmea2k_generated_classes_def)

lemma rewritable_heads:
  "gh_init (gc_header pgn126992) = [] \<and> gh_pgn (gc_header pgn126992) = Some 126992"
  "gh_init (gc_header pgn127245) = [] \<and> gh_pgn (gc_header pgn127245) = Some 127245"
  "gh_init (gc_header pgn127250) = [] \<and> gh_pgn (gc_header pgn127250) = Some 127250"
  "gh_init (gc_header pgn127258) = [] \<and> gh_pgn (gc_header pgn127258) = Some 127258"
  "gh_init (gc_header pgn127507) = [] \<and> gh_pgn (gc_header pgn127507) = Some 127507"
  "gh_init (gc_header pgn127508) = [] \<and> gh_pgn (gc_header pgn127508) = Some 127508"
  "gh_init (gc_header pgn128259) = [] \<and> gh_pgn (gc_header pgn128259) = Some 128259"
  "gh_init (gc_header pgn128267) = [] \<and> gh_pgn (gc_header pgn128267) = Some 128267"
  "gh_init (gc_header pgn128275) = [] \<and> gh_pgn (gc_header pgn128275) = Some 128275"
  "gh_init (gc_header pgn129025) = [] \<and> gh_pgn (gc_header pgn129025) = Some 129025"
  "gh_init (gc_header pgn129026) = [] \<and> gh_pgn (gc_header pgn129026) = Some 129026"
  "gh_init (gc_header pgn129283) = [] \<and> gh_pgn (gc_header pgn129283) = Some 129283"
  "gh_init (gc_header pgn129284) = [] \<and> gh_pgn (gc_header pgn129284) = Some 129284"
  "gh_init (gc_header pgn129539) = [] \<and> gh_pgn (gc_header pgn129539) = Some 129539"
  "gh_init (gc_header pgn130310) = [] \<and> gh_pgn (gc_header pgn130310) = Some 130310"
  "gh_init (gc_header pgn130311) = [] \<and> gh_pgn (gc_header pgn130311) = Some 130311"
  "gh_init (gc_header pgn130312) = [] \<and> gh_pgn (gc_header pgn130312) = Some 130312"
  "gh_init (gc_header pgn130314) = [] \<and> gh_pgn (gc_header pgn130314) = Some 130314"
  "gh_init (gc_header pgn130578) = [] \<and> gh_pgn (gc_header pgn130578) = Some 130578"
  by (simp_all add: pgn126992_def pgn126992_header_def pgn127245_def pgn127245_header_def
     pgn127250_def pgn127250_header_def pgn127258_def pgn127258_header_def pgn127507_def pgn127507_header_def
     pgn127508_def pgn127508_header_def pgn128259_def pgn128259_header_def pgn128267_def pgn128267_header_def
     pgn128275_def pgn128275_header_def pgn129025_def pgn129025_header_def pgn129026_def pgn129026_header_def
     pgn129283_def pgn129283_header_def pgn129284_def pgn129284_header_def pgn129539_def pgn129539_header_def
     pgn130310_def pgn130310_header_def pgn130311_def pgn130311_header_def pgn130312_def pgn130312_header_def
     pgn130314_def pgn130314_header_def pgn130578_def pgn130578_header_def)

lemmas rewritable_classes = pgn126992_rewritable pgn127245_rewritable pgn127250_rewritable
     pgn127258_rewritable pgn127507_rewritable pgn127508_rewritable pgn128259_rewritable pgn128267_rewritable
     pgn128275_rewritable pgn129025_rewritable pgn129026_rewritable pgn129283_rewritable pgn129284_rewritable
     pgn129539_rewritable pgn130310_rewritable pgn130311_rewritable pgn130312_rewritable pgn130314_rewritable
     pgn130578_rewritable

lemma rewritable_pgn_class:
  assumes "ieee_rounding fl" "pgn \<in> set rewritable_pgns"
  obtains c where "dict_get nmea2k_generated_classes pgn = Some c" "rewritable fl c" "gh_init (gc_header c) = []"
    "gh_pgn (gc_header c) = Some pgn"
  using assms(2) unfolding rewritable_pgns_def
  by (auto simp: rewritable_table rewritable_heads intro: rewritable_classes [OF assms(1)] that)


lemma decoded_objectE:
  assumes "get_n2k_decoded_object fl m = Inr ob" "dict_get nmea2k_generated_classes (m_pgn m) = Some c"
  obtains a n where "gc_decode c fl (m_payload m) 0 (gh_init (gc_header c)) = Inr (a, n)"
    "ob = \<lparr>go_class = c, go_sa = m_sa m, go_da = m_da m, go_ts = m_ts m, go_prio = m_prio m, go_attrs = a\<rparr>"
  using assms by (auto simp: get_n2k_decoded_object_def gen_of_message_def bind_r_Inr_iff map_sum_Inr_iff)

lemma gen_messageE:
  assumes "gen_message fl now ob = Inr m"
  obtains f where "gc_encode (go_class ob) = Some f" "f fl (go_attrs ob) = Inr (m_payload m)"
  using assms by (auto simp: gen_message_def bind_r_Inr_iff new_n2k_msg_def split: option.splits sum.splits)

section \<open>Positions\<close>

lemma position_integer:
  assumes fl: "ieee_rounding fl" and x: "\<bar>x\<bar> \<le> 200" "x \<le> - 202 / 10 ^ 9 \<or> - 98 / 10 ^ 9 \<le> x"
  obtains i where "convert_to_int fl (AFloat (Some x)) 0x7FFFFFFF (Some (1 / 10000000)) 0 = Inr i" "fits (4, True) i"
    "\<exists>y. check_convert_float fl i 0x7FFFFFFF (1 / 10000000) 0 = AFloat (Some y) \<and> \<bar>y - x\<bar> \<le> 101 / 10 ^ 9"
proof -
  let ?s = "1 / 10000000 :: real"
  define q where "q = fl (fl (x - 0) / fl ?s)"
  have s: "1 / 10 ^ 16 \<le> ?s" "?s \<le> 1000" "\<bar>x\<bar> \<le> ?s * 2 ^ 32" using x(1) by simp_all
  have q: "\<bar>q - x * 10000000\<bar> \<le> 1 / 100" using quantised_quotient(4) [OF fl s] by (simp add: q_def)
  have i: "0 \<le> q \<Longrightarrow> of_int (trunc_int q) \<le> q \<and> q < of_int (trunc_int q) + 1"
    "q < 0 \<Longrightarrow> q \<le> of_int (trunc_int q) \<and> of_int (trunc_int q) - 1 < q" using trunc_int_bounds by blast+
  have b: "\<bar>real_of_int (trunc_int q)\<bar> \<le> 2000000002" using q x(1) i by (cases "0 \<le> q") linarith+
  then have "\<bar>trunc_int q\<bar> \<le> 2000000002" by linarith
  then have f: "fits (4, True) (trunc_int q)" "trunc_int q \<noteq> 0x7FFFFFFF" by (auto simp: fits_def in_format_def)
  have m: "trunc_int q \<noteq> -1"
  proof
    assume "trunc_int q = -1"
    with i have "-2 < q" "q \<le> -1" by (cases "0 \<le> q"; simp)+
    moreover from x(2) have "x * 10000000 \<le> - (202 / 100) \<or> - (98 / 100) \<le> x * 10000000" by auto
    ultimately show False using q by linarith
  qed
  show thesis
    using f m quantised [OF fl s]
    by (intro that [of "trunc_int q"]) (auto simp: convert_to_int_def as_number_def bind_r_simps check_convert_float_def q_def)
qed

lemma not_proprietary: "0x1EFFF < pgn \<Longrightarrow> pgn \<le> 0x1FEFF \<Longrightarrow> is_pgn_proprietary pgn = Inr False"
  by (simp add: is_pgn_proprietary_def find_range_eq pgn_ranges_nth bind_r_simps)

lemma position_sent:
  assumes "ieee_rounding fl" "\<bar>lat\<bar> \<le> 200" "lat \<le> - 202 / 10 ^ 9 \<or> - 98 / 10 ^ 9 \<le> lat"
    "\<bar>long\<bar> \<le> 200" "long \<le> - 202 / 10 ^ 9 \<or> - 98 / 10 ^ 9 \<le> long"
    "bind_r (set_property pgn129025_access ''latitude'' (AFloat (Some lat)) (go_attrs (new_gen_obj now pgn129025)))
       (set_property pgn129025_access ''longitude'' (AFloat (Some long))) = Inr a"
  shows "\<exists>m ob x y. gen_message fl now1 ((new_gen_obj now pgn129025)\<lparr>go_attrs := a\<rparr>) = Inr m \<and> length (m_payload m) = 8
     \<and> get_n2k_decoded_object fl m = Inr ob
     \<and> get_property pgn129025_access ''latitude'' (go_attrs ob) = Inr (AFloat (Some x)) \<and> \<bar>x - lat\<bar> \<le> 101 / 10 ^ 9
     \<and> get_property pgn129025_access ''longitude'' (go_attrs ob) = Inr (AFloat (Some y)) \<and> \<bar>y - long\<bar> \<le> 101 / 10 ^ 9"
proof -
  have a: "a = [(''latitude'', AFloat (Some lat)), (''longitude'', AFloat (Some long))]"
    using assms(6) by (simp add: set_property_def pgn129025_access_def new_gen_obj_def bind_r_simps pgn129025_def pgn129025_header_def)
  obtain i x where i: "convert_to_int fl (AFloat (Some lat)) 0x7FFFFFFF (Some (1 / 10000000)) 0 = Inr i" "fits (4, True) i"
    "check_convert_float fl i 0x7FFFFFFF (1 / 10000000) 0 = AFloat (Some x)" "\<bar>x - lat\<bar> \<le> 101 / 10 ^ 9"
    using position_integer [OF assms(1-3)] by blast
  obtain j y where j: "convert_to_int fl (AFloat (Some long)) 0x7FFFFFFF (Some (1 / 10000000)) 0 = Inr j" "fits (4, True) j"
    "check_convert_float fl j 0x7FFFFFFF (1 / 10000000) 0 = AFloat (Some y)" "\<bar>y - long\<bar> \<le> 101 / 10 ^ 9"
    using position_integer [OF assms(1,4,5)] by blast
  obtain q where q: "pack_into ''<ii'' (replicate 8 0) 0 [Inr (AInt i), Inr (AInt j)] = Inr q" "length q = 8"
    "unpack_from ''<ii'' q 0 = Inr [i, j]"
    using i(2) j(2) pack_into_fits [of "[Inr (AInt i), Inr (AInt j)]" "[i, j]" "''<ii''" 0 "replicate 8 0"]
    by (auto simp: bind_r_simps fits_eq struct_size_def)
  define m where "m = \<lparr>m_pgn = 129025, m_prio = 7, m_sa = 0, m_da = 255, m_is_iso = msg_is_iso 129025,
      m_ts = (if now = 0 then now1 else now), m_fast_packet = msg_fast_packet 129025 q, m_payload = q\<rparr>"
  have "gen_message fl now1 ((new_gen_obj now pgn129025)\<lparr>go_attrs := a\<rparr>) = Inr m"
    using q i j by (simp add: a gen_message_def new_gen_obj_def pgn129025_def pgn129025_header_def pgn129025_encode_def
      attr_to_int_def get_attr_def bind_r_simps go_pgn_def new_n2k_msg_def m_def)
  moreover have "get_n2k_decoded_object fl m = Inr \<lparr>go_class = pgn129025, go_sa = 0, go_da = 255, go_ts = (if now = 0 then now1 else now), go_prio = 7,
      go_attrs = [(''latitude'', AFloat (Some x)), (''longitude'', AFloat (Some y))]\<rparr>"
    using q i j by (simp add: m_def get_n2k_decoded_object_def gen_of_message_def nmea2k_generated_classes_def
      not_proprietary bind_r_simps pgn129025_def pgn129025_header_def pgn129025_decode_def assign_def)
  ultimately show ?thesis using q i j by (auto simp: m_def get_property_def pgn129025_access_def get_attr_def)
qed

text \<open>C11. A position whose latitude and longitude are set, sent, and read by another node is the same to little more than
  a tenth of a millionth of a degree. Excepted is a coordinate of one such unit below zero, which is sent as -1 and read as
  no value.\<close>

theorem position_precision:
  assumes "ieee_rounding fl" "\<bar>lat\<bar> \<le> 200" "lat \<le> - 202 / 10 ^ 9 \<or> - 98 / 10 ^ 9 \<le> lat"
    "\<bar>long\<bar> \<le> 200" "long \<le> - 202 / 10 ^ 9 \<or> - 98 / 10 ^ 9 \<le> long"
    "bind_r (set_property pgn129025_access ''latitude'' (AFloat (Some lat)) (go_attrs (new_gen_obj now pgn129025)))
       (set_property pgn129025_access ''longitude'' (AFloat (Some long))) = Inr a"
  shows "\<exists>m ob x y. gen_message fl now1 ((new_gen_obj now pgn129025)\<lparr>go_attrs := a\<rparr>) = Inr m \<and> length (m_payload m) = 8
     \<and> get_n2k_decoded_object fl m = Inr ob
     \<and> get_property pgn129025_access ''latitude'' (go_attrs ob) = Inr (AFloat (Some x)) \<and> \<bar>x - lat\<bar> \<le> 101 / 10 ^ 9
     \<and> get_property pgn129025_access ''longitude'' (go_attrs ob) = Inr (AFloat (Some y)) \<and> \<bar>y - long\<bar> \<le> 101 / 10 ^ 9"
  using assms by (rule position_sent)

lemma ieee_exact [simp]: "ieee_rounding (\<lambda>x. x)"
  by (simp add: ieee_rounding_def)

theorem position_precision_witness:
  "\<exists>m ob x y. gen_message (\<lambda>x. x) 6 ((new_gen_obj 5 pgn129025)\<lparr>go_attrs :=
       [(''latitude'', AFloat (Some (43 / 2))), (''longitude'', AFloat (Some (- 7)))]\<rparr>) = Inr m \<and> length (m_payload m) = 8
     \<and> get_n2k_decoded_object (\<lambda>x. x) m = Inr ob
     \<and> get_property pgn129025_access ''latitude'' (go_attrs ob) = Inr (AFloat (Some x)) \<and> \<bar>x - 43 / 2\<bar> \<le> 101 / 10 ^ 9
     \<and> get_property pgn129025_access ''longitude'' (go_attrs ob) = Inr (AFloat (Some y)) \<and> \<bar>y - (- 7)\<bar> \<le> 101 / 10 ^ 9"
  by (rule position_precision)
    (simp_all add: set_property_def pgn129025_access_def new_gen_obj_def bind_r_simps pgn129025_def pgn129025_header_def)

section \<open>Values lost or refused\<close>

lemma convert_no_scale: "convert_to_int fl (AFloat (Some x)) msk None off = Inl TypeError"
  by (simp add: convert_to_int_def as_number_def bind_r_simps)

lemma pgn127489_encode_decoded:
  "pgn127489_decode fl payload 0 [] = Inr (a, n) \<Longrightarrow> pgn127489_encode fl a = Inl TypeError"
  by (auto simp: pgn127489_decode_def pgn127489_encode_def bind_r_Inr_iff gen_simps convert_no_scale)

text \<open>C18. Engine parameters that were received can never be sent again: the hours of the engine are always a number, and
  the class converts them with no scale, which is a type error.\<close>

theorem engine_parameters_not_sent:
  assumes "m_pgn m = 127489" "get_n2k_decoded_object fl m = Inr ob"
  shows "gen_message fl now ob = Inl TypeError"
proof -
  have "dict_get nmea2k_generated_classes (m_pgn m) = Some pgn127489" by (simp add: assms(1) nmea2k_generated_classes_def)
  from decoded_objectE [OF assms(2) this] obtain a n
    where d: "gc_decode pgn127489 fl (m_payload m) 0 (gh_init (gc_header pgn127489)) = Inr (a, n)"
      and ob: "ob = \<lparr>go_class = pgn127489, go_sa = m_sa m, go_da = m_da m, go_ts = m_ts m, go_prio = m_prio m, go_attrs = a\<rparr>" .
  have "pgn127489_decode fl (m_payload m) 0 [] = Inr (a, n)"
    using d by (simp add: pgn127489_def pgn127489_header_def)
  from pgn127489_encode_decoded [OF this] show ?thesis by (simp add: gen_message_def ob bind_r_simps pgn127489_def)
qed

lemma dc_fields:
  assumes "k < 0x7FFFFF"
  shows "unpack_from ''<BBHhbB'' ([sid, con, v0, v1] @ le_encode 3 k @ [0xFF]) 0 =
     Inr [int (unat sid), int (unat con), int (unat v0 + 256 * unat v1),
          (if 32768 \<le> k mod 65536 then int (k mod 65536) - 65536 else int (k mod 65536)), int (k div 65536), 255]"
proof -
  have e: "le_encode 3 k = [of_nat (k mod 256), of_nat (k div 256 mod 256), of_nat (k div 256 div 256 mod 256)]" by (simp add: numeral_3_eq_3)
  have "k mod 256 + 256 * (k div 256 mod 256) = k mod 65536" using mod_mult2_eq [of k 256 256] by simp
  then have lo: "int (k mod 256) + 256 * int (k div 256 mod 256) = int (k mod 65536)" by linarith
  have hi: "k div 256 div 256 = k div 65536" "k div 65536 mod 256 = k div 65536" "k div 65536 < 128"
    using assms by (simp_all flip: div_mult2_eq)
  have "unat (of_nat (k div 65536) :: byte) = k div 65536" using hi(3) by simp
  then have w: "uint (of_nat (k div 65536) :: byte) = int (k div 65536)" by (metis of_nat_unat unsigned_of_nat uint_nat)
  show ?thesis unfolding e
    by (simp add: unpack_from_def struct_size_def read_int_def Let_def lo hi w hi(3) [unfolded not_le [symmetric]])
qed

text \<open>The current of a DC source is three bytes on the bus. The class reads the lower two as a signed number: a
  current whose sixteenth bit is set comes out 655.36 A too small.\<close>

theorem dc_current_misread:
  assumes "m_pgn m = 127751" "m_payload m = [sid, con, v0, v1] @ le_encode 3 (nat i) @ [0xFF]" "0 \<le> i" "i < 0x7FFFFF"
  shows "\<exists>ob. get_n2k_decoded_object fl m = Inr ob \<and> get_property pgn127751_access ''current'' (go_attrs ob) =
     Inr (check_convert_float fl (if 32768 \<le> i mod 65536 then i - 65536 else i) 0x7FFFFF (1 / 100) 0)"
proof -
  have c: "dict_get nmea2k_generated_classes 127751 = Some pgn127751" by (simp add: nmea2k_generated_classes_def)
  have "nat i < 0x7FFFFF" using assms(3,4) by simp
  note u = dc_fields [OF this, of sid con v0 v1, folded assms(2)]
  define k where "k = nat i"
  have "i = int k" "int (k mod 65536) = int k mod 65536" "int (k div 65536) = int k div 65536"
    "int k mod 65536 + int k div 65536 * 65536 = int k"
    using assms(3) by (simp_all add: k_def zmod_int zdiv_int)
  then have "(if 32768 \<le> nat i mod 65536 then int (nat i mod 65536) - 65536 else int (nat i mod 65536))
      + push_bit 16 (int (nat i div 65536)) = (if 32768 \<le> i mod 65536 then i - 65536 else i)"
    unfolding push_bit_eq_mult k_def [symmetric] by auto
  with u show ?thesis
    by (simp add: assms(1) c get_n2k_decoded_object_def not_proprietary gen_of_message_def bind_r_simps pgn127751_def
      pgn127751_header_def pgn127751_decode_def gen_simps get_property_def pgn127751_access_def)
qed

text \<open>A message of the satellites in view with more than 18 of them is refused: the rest does not fit the buffer.\<close>

lemma satellite_encoded:
  assumes "pgn129540_satellites_data_encode fl m buffer start = Inr (b, n)"
  shows "n = 12 + start" "length b = length buffer" "start + 12 \<le> length buffer"
  using assms
  by (auto simp: bind_r_Inr_iff pgn129540_satellites_data_encode_def struct_size_def dest: pack_into_length pack_into_room)

lemma satellites_encoded:
  assumes "encode_repeat (pgn129540_satellites_data_encode fl) items buffer start = Inr (b, n)"
  shows "n = start + 12 * length items \<and> length b = length buffer \<and> (items \<noteq> [] \<longrightarrow> n \<le> length buffer)"
  using assms
proof (induction items arbitrary: buffer start)
  case (Cons m ms)
  from Cons.prems obtain b' n' where b': "pgn129540_satellites_data_encode fl m buffer start = Inr (b', n')"
    "encode_repeat (pgn129540_satellites_data_encode fl) ms b' n' = Inr (b, n)" by (auto simp: bind_r_Inr_iff)
  with Cons.IH [OF b'(2)] satellite_encoded [OF b'(1)] show ?case by (cases ms) auto
qed simp

lemma default_buffer_size: "DEFAULT_BUFFER_SIZE = 223"
  by (simp add: DEFAULT_BUFFER_SIZE_def)

theorem satellites_in_view_bound:
  assumes "gen_message fl now ob = Inr m" "go_class ob = pgn129540" "get_attr (go_attrs ob) ''satellites_data'' = Inr (AList sats)"
  shows "length sats \<le> 18 \<and> length (m_payload m) = 3 + 12 * length sats"
proof -
  have "gc_encode pgn129540 = Some pgn129540_encode" by (simp add: pgn129540_def)
  with assms(1,2) obtain p where p: "pgn129540_encode fl (go_attrs ob) = Inr p" "m_payload m = p"
    by (elim gen_messageE) simp
  then obtain buffer b n where "encode_repeat (pgn129540_satellites_data_encode fl) sats buffer 3 = Inr (b, n)"
    "length buffer = DEFAULT_BUFFER_SIZE" "p = take n b"
    using assms(3) by (auto simp: pgn129540_encode_def bind_r_Inr_iff attr_list_def dest!: pack_into_length)
  with satellites_encoded [OF this(1)] p(2) show ?thesis by (cases "sats = []") (auto simp: default_buffer_size)
qed

lemma pgn129038_sent:
  assumes "ieee_rounding fl" "pgn129038_decode fl payload 0 [] = Inr (a, n)"
  shows "\<exists>args. pgn129038_encode fl a = pack_into ''<BiiiBHHHBHHBB'' (replicate 27 0) 0 args
     \<and> args = map (\<lambda>i. Inr (AInt i)) (ints_of args) \<and> list_all2 fits (formats ''<BiiiBHHHBHHBB'') (ints_of args)
     \<and> ints_of args ! 8 = 0 \<and> (\<exists>w. get_attr a ''communication_state'' = Inr (AInt w) \<and> ints_of args ! 7 = w AND 0xFFFF)"
  using assms(2)
  apply (simp add: pgn129038_decode_def bind_r_Inr_iff)
  apply clarify
  apply (frule unpack_from_range(1))
  apply (clarsimp simp: fits_eq gen_simps pgn129038_encode_def Let_def)
  apply (rule exI, rule conjI, rule refl)
  apply (simp add: word_kept assms(1))
  done

lemma pgn129039_sent:
  assumes "ieee_rounding fl" "pgn129039_decode fl payload 0 [] = Inr (a, n)"
  shows "\<exists>args. pgn129039_encode fl a = pack_into ''<BiiiBHHHBHBBH'' (replicate 27 0) 0 args
     \<and> args = map (\<lambda>i. Inr (AInt i)) (ints_of args) \<and> list_all2 fits (formats ''<BiiiBHHHBHBBH'') (ints_of args)
     \<and> ints_of args ! 8 = 0 \<and> (\<exists>w. get_attr a ''communication_state'' = Inr (AInt w) \<and> ints_of args ! 7 = w AND 0xFFFF)"
  using assms(2)
  apply (simp add: pgn129039_decode_def bind_r_Inr_iff)
  apply clarify
  apply (frule unpack_from_range(1))
  apply (clarsimp simp: fits_eq gen_simps pgn129039_encode_def Let_def)
  apply (rule exI, rule conjI, rule refl)
  apply (simp add: word_kept assms(1))
  done

definition ais_reduced :: "string \<Rightarrow> attrs \<Rightarrow> attrs \<Rightarrow> bool" where
  "ais_reduced transceiver a b \<longleftrightarrow>
     (\<exists>w. get_attr a ''communication_state'' = Inr (AInt w) \<and> get_attr b ''communication_state'' = Inr (AInt (w AND 0xFFFF)))
     \<and> get_attr b transceiver = Inr (AInt 0)"

lemma pgn129038_again:
  assumes "ieee_rounding fl" "gc_decode pgn129038 fl payload 0 [] = Inr (a, n)"
  shows "\<exists>q b k. pgn129038_encode fl a = Inr q \<and> gc_decode pgn129038 fl q 0 [] = Inr (b, k) \<and> ais_reduced ''transceiver_information'' a b"
proof -
  have d: "gc_decode pgn129038 = pgn129038_decode" by (simp add: pgn129038_def)
  from pgn129038_sent [OF assms(1) assms(2) [unfolded d]] obtain args w
    where e: "pgn129038_encode fl a = pack_into ''<BiiiBHHHBHHBB'' (replicate 27 0) 0 args"
      and i: "args = map (\<lambda>i. Inr (AInt i)) (ints_of args)" "list_all2 fits (formats ''<BiiiBHHHBHHBB'') (ints_of args)"
        "ints_of args ! 8 = 0" "get_attr a ''communication_state'' = Inr (AInt w)" "ints_of args ! 7 = w AND 0xFFFF" by blast
  have s: "struct_size ''<BiiiBHHHBHHBB'' = 27" by (simp add: struct_size_def)
  from packed_ints [OF i(2,1)] obtain q
    where "pgn129038_encode fl a = Inr q" "unpack_from ''<BiiiBHHHBHHBB'' q 0 = Inr (ints_of args)"
    unfolding e s by blast
  with i(3-5) show ?thesis
    by (simp add: d pgn129038_decode_def bind_r_simps assign_def get_attr_def and.assoc drop_bit_and ais_reduced_def)
qed

lemma pgn129039_again:
  assumes "ieee_rounding fl" "gc_decode pgn129039 fl payload 0 [] = Inr (a, n)"
  shows "\<exists>q b k. pgn129039_encode fl a = Inr q \<and> gc_decode pgn129039 fl q 0 [] = Inr (b, k) \<and> ais_reduced ''transceiver_info'' a b"
proof -
  have d: "gc_decode pgn129039 = pgn129039_decode" by (simp add: pgn129039_def)
  from pgn129039_sent [OF assms(1) assms(2) [unfolded d]] obtain args w
    where e: "pgn129039_encode fl a = pack_into ''<BiiiBHHHBHBBH'' (replicate 27 0) 0 args"
      and i: "args = map (\<lambda>i. Inr (AInt i)) (ints_of args)" "list_all2 fits (formats ''<BiiiBHHHBHBBH'') (ints_of args)"
        "ints_of args ! 8 = 0" "get_attr a ''communication_state'' = Inr (AInt w)" "ints_of args ! 7 = w AND 0xFFFF" by blast
  have s: "struct_size ''<BiiiBHHHBHBBH'' = 27" by (simp add: struct_size_def)
  from packed_ints [OF i(2,1)] obtain q
    where "pgn129039_encode fl a = Inr q" "unpack_from ''<BiiiBHHHBHBBH'' q 0 = Inr (ints_of args)"
    unfolding e s by blast
  with i(3-5) show ?thesis
    by (simp add: d pgn129039_decode_def bind_r_simps assign_def get_attr_def and.assoc drop_bit_and ais_reduced_def)
qed

lemma message_again:
  assumes "get_n2k_decoded_object fl m = Inr ob" "dict_get nmea2k_generated_classes (m_pgn m) = Some c"
    "gh_pgn (gc_header c) = Some (m_pgn m)" "gh_init (gc_header c) = []" "gc_encode c = Some f"
    "0x1EFFF < m_pgn m" "m_pgn m \<le> 0x1FEFF"
    and "\<And>a n. gc_decode c fl (m_payload m) 0 [] = Inr (a, n) \<Longrightarrow>
           \<exists>q b k. f fl a = Inr q \<and> gc_decode c fl q 0 [] = Inr (b, k) \<and> P a b"
  shows "\<exists>m' ob'. gen_message fl now ob = Inr m' \<and> get_n2k_decoded_object fl m' = Inr ob' \<and> P (go_attrs ob) (go_attrs ob')"
proof -
  from decoded_objectE [OF assms(1,2)] obtain a n where d: "gc_decode c fl (m_payload m) 0 [] = Inr (a, n)"
    and ob: "ob = \<lparr>go_class = c, go_sa = m_sa m, go_da = m_da m, go_ts = m_ts m, go_prio = m_prio m, go_attrs = a\<rparr>"
    unfolding assms(4) .
  from assms(8) [OF d] obtain q b k where q: "f fl a = Inr q" "gc_decode c fl q 0 [] = Inr (b, k)" "P a b" by blast
  then show ?thesis
    by (simp add: ob gen_message_def assms(3,5) go_pgn_def bind_r_simps new_n2k_msg_def get_n2k_decoded_object_def assms(2,4)
      not_proprietary assms(6,7) gen_of_message_def)
qed

text \<open>C17. A position report of the AIS that is sent again loses the state of its communication beyond the sixteenth bit,
  and what it says of its transceiver: the byte that carries them is always written as zero.\<close>

theorem ais_report_loses_state:
  assumes "ieee_rounding fl" "m_pgn m \<in> {129038, 129039}" "get_n2k_decoded_object fl m = Inr ob"
  shows "\<exists>m' ob' w. gen_message fl now ob = Inr m' \<and> get_n2k_decoded_object fl m' = Inr ob'
     \<and> get_attr (go_attrs ob) ''communication_state'' = Inr (AInt w)
     \<and> get_attr (go_attrs ob') ''communication_state'' = Inr (AInt (w AND 0xFFFF))
     \<and> get_attr (go_attrs ob') (if m_pgn m = 129038 then ''transceiver_information'' else ''transceiver_info'') = Inr (AInt 0)"
proof -
  have c: "dict_get nmea2k_generated_classes 129038 = Some pgn129038" "gh_pgn (gc_header pgn129038) = Some 129038"
    "gh_init (gc_header pgn129038) = []" "gc_encode pgn129038 = Some pgn129038_encode"
    "dict_get nmea2k_generated_classes 129039 = Some pgn129039" "gh_pgn (gc_header pgn129039) = Some 129039"
    "gh_init (gc_header pgn129039) = []" "gc_encode pgn129039 = Some pgn129039_encode"
    by (simp_all add: nmea2k_generated_classes_def pgn129038_def pgn129038_header_def pgn129039_def pgn129039_header_def)
  note again = pgn129038_again [OF assms(1)] pgn129039_again [OF assms(1)]
  consider "m_pgn m = 129038" | "m_pgn m = 129039" using assms(2) by blast
  then show ?thesis
  proof cases
    case 1
    with c have "\<exists>m' ob'. gen_message fl now ob = Inr m' \<and> get_n2k_decoded_object fl m' = Inr ob'
        \<and> ais_reduced ''transceiver_information'' (go_attrs ob) (go_attrs ob')"
      by (intro message_again [OF assms(3), where c = pgn129038 and f = pgn129038_encode] again) simp_all
    with 1 show ?thesis unfolding ais_reduced_def by auto
  next
    case 2
    with c have "\<exists>m' ob'. gen_message fl now ob = Inr m' \<and> get_n2k_decoded_object fl m' = Inr ob'
        \<and> ais_reduced ''transceiver_info'' (go_attrs ob) (go_attrs ob')"
      by (intro message_again [OF assms(3), where c = pgn129039 and f = pgn129039_encode] again) simp_all
    with 2 show ?thesis unfolding ais_reduced_def by auto
  qed
qed

section \<open>Witnesses\<close>

definition sample_frame :: "nat \<Rightarrow> bytes \<Rightarrow> n2k_msg" where
  "sample_frame pgn p =
     \<lparr>m_pgn = pgn, m_prio = 3, m_sa = 35, m_da = 255, m_is_iso = False, m_ts = 7, m_fast_packet = False, m_payload = p\<rparr>"

lemma sample_position_decoded:
  "\<exists>ob. get_n2k_decoded_object (\<lambda>x. x) (sample_frame 129025 [10, 20, 30, 4, 250, 255, 255, 255]) = Inr ob"
  by (simp add: get_n2k_decoded_object_def sample_frame_def nmea2k_generated_classes_def not_proprietary gen_of_message_def
    bind_r_simps pgn129025_def pgn129025_decode_def unpack_from_def struct_size_def)


theorem engine_parameters_not_sent_witness:
  "\<exists>ob. get_n2k_decoded_object (\<lambda>x. x) (sample_frame 127489 (replicate 26 1)) = Inr ob
     \<and> gen_message (\<lambda>x. x) 9 ob = Inl TypeError"
proof -
  have "\<exists>ob. get_n2k_decoded_object (\<lambda>x. x) (sample_frame 127489 (replicate 26 1)) = Inr ob"
    by (simp add: get_n2k_decoded_object_def sample_frame_def nmea2k_generated_classes_def not_proprietary gen_of_message_def
      bind_r_simps pgn127489_def pgn127489_decode_def unpack_from_def struct_size_def)
  moreover have "m_pgn (sample_frame 127489 (replicate 26 1)) = 127489" by (simp add: sample_frame_def)
  ultimately show ?thesis using engine_parameters_not_sent by blast
qed

theorem dc_current_misread_witness:
  "\<exists>ob. get_n2k_decoded_object (\<lambda>x. x) (sample_frame 127751 ([0, 1, 244, 1] @ le_encode 3 40000 @ [0xFF])) = Inr ob
     \<and> get_property pgn127751_access ''current'' (go_attrs ob) = Inr (AFloat (Some (- 255.36)))"
proof -
  have p: "m_pgn (sample_frame 127751 p) = 127751" "m_payload (sample_frame 127751 p) = p" for p
    by (simp_all add: sample_frame_def)
  show ?thesis
    using dc_current_misread [OF p(1), of "[0, 1, 244, 1] @ le_encode 3 40000 @ [0xFF]" 0 1 244 1 40000 "\<lambda>x. x"] p(2)
    by (simp add: check_convert_float_def)
qed

definition sample_satellite :: attrs where
  "sample_satellite =
     [(''satellite_number'', AInt 12), (''elevation'', AFloat (Some 1)), (''azimuth'', AFloat (Some 2)),
      (''signal_noise_ratio'', AFloat (Some 40)), (''range_residuals'', AInt 0x7FFFFFFF), (''status'', AInt 2)]"

definition sample_view :: gen_obj where
  "sample_view =
     (new_gen_obj 5 pgn129540)\<lparr>go_attrs := [(''sequence_id'', AInt 1), (''mode'', AInt 0), (''sats_in_view'', AInt 1),
       (''satellites_data'', AList [sample_satellite])]\<rparr>"

lemma buffer_room: "\<not> DEFAULT_BUFFER_SIZE < 3" "\<not> DEFAULT_BUFFER_SIZE < 15" "\<not> DEFAULT_BUFFER_SIZE < Suc (Suc (Suc 0))"
  "Suc (Suc (Suc 0)) \<le> DEFAULT_BUFFER_SIZE" "3 \<le> DEFAULT_BUFFER_SIZE"
  by (simp_all add: default_buffer_size)

lemma sample_view_encoded: "\<exists>p. pgn129540_encode (\<lambda>x. x) (go_attrs sample_view) = Inr p"
  by (simp add: sample_view_def sample_satellite_def pgn129540_encode_def pgn129540_satellites_data_encode_def gen_simps attr_list_def
    pack_into_def struct_size_def length_put_at buffer_room convert_to_int_def as_number_def trunc_int_def in_format_def Let_def)

theorem satellites_in_view_bound_witness:
  "\<exists>m. gen_message (\<lambda>x. x) 9 sample_view = Inr m
     \<and> length [sample_satellite] \<le> 18 \<and> length (m_payload m) = 3 + 12 * length [sample_satellite]"
proof -
  have "go_class sample_view = pgn129540" "gc_encode pgn129540 = Some pgn129540_encode"
    by (simp_all add: sample_view_def new_gen_obj_def pgn129540_def)
  moreover from this obtain m where "gen_message (\<lambda>x. x) 9 sample_view = Inr m"
    using sample_view_encoded by (auto simp: gen_message_def new_n2k_msg_def bind_r_simps)
  moreover have "get_attr (go_attrs sample_view) ''satellites_data'' = Inr (AList [sample_satellite])"
    by (simp add: sample_view_def get_attr_def)
  ultimately show ?thesis using satellites_in_view_bound by blast
qed

theorem ais_report_loses_state_witness:
  "\<exists>ob m' ob' w. get_n2k_decoded_object (\<lambda>x. x) (sample_frame 129038 (replicate 27 0x7F)) = Inr ob
     \<and> gen_message (\<lambda>x. x) 9 ob = Inr m' \<and> get_n2k_decoded_object (\<lambda>x. x) m' = Inr ob'
     \<and> get_attr (go_attrs ob) ''communication_state'' = Inr (AInt w)
     \<and> get_attr (go_attrs ob') ''communication_state'' = Inr (AInt (w AND 0xFFFF))
     \<and> get_attr (go_attrs ob') ''transceiver_information'' = Inr (AInt 0)"
proof -
  have "\<exists>ob. get_n2k_decoded_object (\<lambda>x. x) (sample_frame 129038 (replicate 27 0x7F)) = Inr ob"
    by (simp add: get_n2k_decoded_object_def sample_frame_def nmea2k_generated_classes_def not_proprietary gen_of_message_def
      bind_r_simps pgn129038_def pgn129038_decode_def unpack_from_def struct_size_def Let_def)
  then obtain ob where ob: "get_n2k_decoded_object (\<lambda>x. x) (sample_frame 129038 (replicate 27 0x7F)) = Inr ob" by blast
  have p: "m_pgn (sample_frame 129038 (replicate 27 0x7F)) = 129038" by (simp add: sample_frame_def)
  show ?thesis
    using ais_report_loses_state [OF ieee_exact _ ob, of 9] ob by (auto simp: p)
qed

end
