(* ===== verification/GenProtobuf.thy ===== *)
theory GenProtobuf
  imports GenLemmas GenClasses
begin

text \<open>
  The generated classes through protobuf: what a client of the message server gets back of the attributes of a message.
\<close>

fun pb_name :: "pb_field \<Rightarrow> string" where
  "pb_name (PbField f ty) = f"
| "pb_name (PbList l n sub) = l"

definition pb_plain :: "(string \<times> string) list \<Rightarrow> pb_field list" where
  "pb_plain ps = map (\<lambda>(f, ty). PbField f ty) ps"

lemma pb_plain_of:
  assumes "\<forall>l n sub. PbList l n sub \<notin> set fs"
  obtains ps where "fs = pb_plain ps"
proof -
  have "\<exists>ps. fs = pb_plain ps" using assms
  proof (induction fs)
    case (Cons x fs)
    then obtain ps where ps: "fs = pb_plain ps" by auto
    obtain f ty where x: "x = PbField f ty" using Cons.prems by (cases x) auto
    have "x # fs = pb_plain ((f, ty) # ps)" by (simp add: ps x pb_plain_def)
    then show ?case by blast
  qed (auto simp: pb_plain_def)
  then show thesis using that by blast
qed

lemma set_protobuf_plain:
  "set_protobuf store (pb_plain ps) self pb = map_sum id (\<lambda>p. (p, self)) (set_plain store ps self pb)"
proof (induction ps arbitrary: pb)
  case (Cons p ps)
  obtain f ty where p: "p = (f, ty)" by (cases p)
  show ?case
  proof (cases "bind_r (get_attr self f) (store ty)")
    case (Inl e)
    then show ?thesis by (cases "get_attr self f") (auto simp: p pb_plain_def bind_r_simps)
  next
    case (Inr b)
    then show ?thesis using Cons.IH by (cases "get_attr self f") (auto simp: p pb_plain_def bind_r_simps)
  qed
qed (simp add: pb_plain_def)

lemma from_protobuf_plain: "from_protobuf (pb_plain ps) pb self = Inr (from_plain ps pb self)"
  by (induction ps arbitrary: self) (auto simp: pb_plain_def from_plain_def assign_def)

lemma set_plain_fields:
  assumes "set_plain store ps self pb = Inr pb'" "distinct (map fst ps)"
  shows "(f, ty) \<in> set ps \<Longrightarrow> \<exists>a b. get_attr self f = Inr a \<and> store ty a = Inr b \<and> dict_get pb' f = Some b"
    and "f \<notin> fst ` set ps \<Longrightarrow> dict_get pb' f = dict_get pb f"
  using assms
proof (induction ps arbitrary: pb)
  case (Cons p ps)
  {
    case 1
    then show ?case using Cons.IH by (cases p) (fastforce simp: bind_r_Inr_iff)
  next
    case 2
    then show ?case using Cons.IH(2) by (cases p) (auto simp: bind_r_Inr_iff al.get_put_other)
  }
qed auto

lemma from_plain_fields:
  assumes "distinct (map fst ps)"
  shows "(f, ty) \<in> set ps \<Longrightarrow> dict_get (from_plain ps pb self) f = Some (pb_get pb f ty)"
    and "f \<notin> fst ` set ps \<Longrightarrow> dict_get (from_plain ps pb self) f = dict_get self f"
  using assms
proof (induction ps arbitrary: self)
  case (Cons p ps)
  {
    case 1
    then show ?case using Cons.IH by (cases p) (fastforce simp: from_plain_def assign_def)
  next
    case 2
    then show ?case using Cons.IH(2) by (cases p) (auto simp: from_plain_def assign_def al.get_put_other)
  }
qed (auto simp: from_plain_def assign_def)

text \<open>Every class is found under its number, and names no field twice.\<close>

definition class_named :: "nat \<times> gen_class \<Rightarrow> bool" where
  "class_named e \<longleftrightarrow> gh_pgn (gc_header (snd e)) = Some (fst e) \<and> distinct (map pb_name (gc_fields (snd e)))"

lemma classes_named: "list_all class_named nmea2k_generated_classes"
  by (simp add: nmea2k_generated_classes_def class_named_def
     pgn65359_def pgn65359_header_def pgn65359_fields_def pgn65379_def pgn65379_header_def pgn65379_fields_def
     pgn126992_def pgn126992_header_def pgn126992_fields_def
     pgn127245_def pgn127245_header_def pgn127245_fields_def
     pgn127250_def pgn127250_header_def pgn127250_fields_def
     pgn127258_def pgn127258_header_def pgn127258_fields_def
     pgn127488_def pgn127488_header_def pgn127488_fields_def
     pgn127489_def pgn127489_header_def pgn127489_fields_def
     pgn127507_def pgn127507_header_def pgn127507_fields_def
     pgn127508_def pgn127508_header_def pgn127508_fields_def
     pgn127751_def pgn127751_header_def pgn127751_fields_def
     pgn128259_def pgn128259_header_def pgn128259_fields_def
     pgn128267_def pgn128267_header_def pgn128267_fields_def
     pgn128275_def pgn128275_header_def pgn128275_fields_def
     pgn129025_def pgn129025_header_def pgn129025_fields_def
     pgn129026_def pgn129026_header_def pgn129026_fields_def
     pgn129029_def pgn129029_header_def pgn129029_fields_def
     pgn129038_def pgn129038_header_def pgn129038_fields_def
     pgn129039_def pgn129039_header_def pgn129039_fields_def
     pgn129283_def pgn129283_header_def pgn129283_fields_def
     pgn129284_def pgn129284_header_def pgn129284_fields_def
     pgn129285_def pgn129285_header_def pgn129285_fields_def
     pgn129539_def pgn129539_header_def pgn129539_fields_def
     pgn129540_def pgn129540_header_def pgn129540_fields_def
     pgn129794_def pgn129794_header_def pgn129794_fields_def
     pgn129809_def pgn129809_header_def pgn129809_fields_def
     pgn129810_def pgn129810_header_def pgn129810_fields_def
     pgn130074_def pgn130074_header_def pgn130074_fields_def
     pgn130306_def pgn130306_header_def pgn130306_fields_def
     pgn130310_def pgn130310_header_def pgn130310_fields_def
     pgn130311_def pgn130311_header_def pgn130311_fields_def
     pgn130312_def pgn130312_header_def pgn130312_fields_def
     pgn130314_def pgn130314_header_def pgn130314_fields_def
     pgn130316_def pgn130316_header_def pgn130316_fields_def
     pgn130578_def pgn130578_header_def pgn130578_fields_def
     pgn130842_def pgn130842_header_def pgn130842_fields_def)

lemma class_found: "dict_get nmea2k_generated_classes pgn = Some c \<Longrightarrow> class_named (pgn, c)"
  using classes_named by (auto simp: list_all_iff dest: map_of_SomeD)



end
