(* ===== verification/N0183Convert.thy ===== *)
theory N0183Convert
  imports Pdgy RawLog GenRoundTrip
begin

text \<open>
  \<^verbatim>\<open>nmea2000/nmea0183_to_nmea2k.py\<close>: NMEA 0183 sentences turned into the generated NMEA 2000 classes. The converter
  keeps sequence numbers, the date and time of the last fix, and the satellites of a sequence of GSV sentences. Its
  methods change this state also when they raise, so each returns the state with its result. Numbers read from text and
  every operation on them are rounded by \<open>fl\<close>; \<open>fl pi\<close> is \<^verbatim>\<open>math.pi\<close>.
\<close>

section \<open>Operations that may raise, on a state\<close>

type_synonym ('s, 'a) op = "'s \<Rightarrow> 's \<times> 'a result"

definition calc :: "'a result \<Rightarrow> ('s, 'a) op" where
  "calc r s = (s, r)"

definition and_then :: "('s, 'a) op \<Rightarrow> ('a \<Rightarrow> ('s, 'b) op) \<Rightarrow> ('s, 'b) op" where
  "and_then m f s = (case m s of (s1, Inl e) \<Rightarrow> (s1, Inl e) | (s1, Inr x) \<Rightarrow> f x s1)"

definition update_state :: "('s \<Rightarrow> 's) \<Rightarrow> ('s, unit) op" where
  "update_state f s = (f s, Inr ())"

lemma op_simps [simp]:
  "and_then (calc (Inr x)) f = f x"
  "and_then (calc (Inl e)) f s = (s, Inl e)"
  "and_then (update_state g) k s = k () (g s)"
  "calc r s = (s, r)"
  "update_state g s = (g s, Inr ())"
  by (auto simp: and_then_def calc_def update_state_def)

lemma and_then_Inr:
  "and_then m f s = (s2, Inr y) \<longleftrightarrow> (\<exists>s1 x. m s = (s1, Inr x) \<and> f x s1 = (s2, Inr y))"
  by (auto simp: and_then_def split: prod.splits sum.splits)

lemma calc_Inr: "calc r s = (s1, Inr x) \<longleftrightarrow> s1 = s \<and> r = Inr x"
  by (auto simp: calc_def)

section \<open>Numbers in sentences\<close>

definition py_float :: "rounding \<Rightarrow> bytes \<Rightarrow> real result" where
  "py_float fl bs = map_sum id fl (parse_float bs)"

definition field_at :: "bytes list \<Rightarrow> nat \<Rightarrow> bytes result" where
  "field_at fs i = py_get fs (int i)"

definition float_at :: "rounding \<Rightarrow> bytes list \<Rightarrow> nat \<Rightarrow> real result" where
  "float_at fl fs i = bind_r (field_at fs i) (py_float fl)"

definition int_at :: "bytes list \<Rightarrow> nat \<Rightarrow> int result" where
  "int_at fs i = bind_r (field_at fs i) (parse_int 10)"

definition knots_to_ms :: "rounding \<Rightarrow> real" where
  "knots_to_ms fl = fl (1852 / 3600)"

definition deg_to_radian :: "rounding \<Rightarrow> real" where
  "deg_to_radian fl = fl (fl pi / 180)"

definition jan170 :: int where
  "jan170 = 719163"

text \<open>The hundredths of a second are multiplied by 1e-6.\<close>

definition convert_time :: "rounding \<Rightarrow> bytes \<Rightarrow> real result" where
  "convert_time fl bs =
     bind_r (parse_int 10 (py_slice bs 0 2)) (\<lambda>h.
     bind_r (parse_int 10 (py_slice bs 2 4)) (\<lambda>m.
     bind_r (parse_int 10 (py_slice bs 4 6)) (\<lambda>s.
     bind_r (parse_int 10 (py_slice bs 7 9)) (\<lambda>ms.
       Inr (fl (of_int (h * 3600 + m * 60 + s) + fl (of_int ms * fl (1 / 1000000))))))))"

definition convert_date :: "bytes \<Rightarrow> int result" where
  "convert_date bs =
     bind_r (parse_int 10 (py_slice bs 0 2)) (\<lambda>d.
     bind_r (parse_int 10 (py_slice bs 2 4)) (\<lambda>m.
     bind_r (parse_int 10 (py_slice bs 4 6)) (\<lambda>y.
       let y = y + 2000
       in if 1 \<le> y \<and> y \<le> 9999 \<and> 1 \<le> m \<and> m \<le> 12 \<and> 1 \<le> d \<and> d \<le> int (days_in_month (nat y) (nat m))
          then Inr (int (date_ordinal (nat y) (nat m) (nat d)) - jan170) else Inl ValueError)))"

definition convert_latitude :: "rounding \<Rightarrow> bytes \<Rightarrow> bytes \<Rightarrow> real result" where
  "convert_latitude fl ns_indicator bs =
     bind_r (py_float fl (py_slice bs 0 2)) (\<lambda>d.
     bind_r (py_float fl (py_slice bs 2 7)) (\<lambda>m.
       let lat = fl (d + fl (m / 60)) in Inr (if ns_indicator = bytes_of ''S'' then - lat else lat)))"

definition convert_longitude :: "rounding \<Rightarrow> bytes \<Rightarrow> bytes \<Rightarrow> real result" where
  "convert_longitude fl ew_indicator bs =
     bind_r (py_float fl (py_slice bs 0 3)) (\<lambda>d.
     bind_r (py_float fl (py_slice bs 3 8)) (\<lambda>m.
       let long = fl (d + fl (m / 60)) in Inr (if ew_indicator = bytes_of ''W'' then - long else long)))"

text \<open>A position is two fields: the indicator is read first.\<close>

definition latitude_at :: "rounding \<Rightarrow> bytes list \<Rightarrow> nat \<Rightarrow> real result" where
  "latitude_at fl fs i =
     bind_r (field_at fs (i + 1)) (\<lambda>ns. bind_r (field_at fs i) (convert_latitude fl ns))"

definition longitude_at :: "rounding \<Rightarrow> bytes list \<Rightarrow> nat \<Rightarrow> real result" where
  "longitude_at fl fs i =
     bind_r (field_at fs (i + 1)) (\<lambda>ew. bind_r (field_at fs i) (convert_longitude fl ew))"

text \<open>An empty field is \<^verbatim>\<open>nan\<close>.\<close>

definition optional_at :: "rounding \<Rightarrow> (real \<Rightarrow> real) \<Rightarrow> bytes list \<Rightarrow> nat \<Rightarrow> real option result" where
  "optional_at fl conv fs i =
     bind_r (field_at fs i) (\<lambda>f.
       if 0 < length f then map_sum id (\<lambda>x. Some (conv x)) (py_float fl f) else Inr None)"

section \<open>The converter\<close>

record sat_in_view =
  sv_prn :: int
  sv_elevation :: "real option"
  sv_azimuth :: "real option"
  sv_snr :: "real option"
  sv_status :: int

record satellites_data =
  sd_ts :: real
  sd_nb_sats :: nat
  sd_sats_list :: "int list"
  sd_hdop :: real
  sd_pdop :: real
  sd_vdop :: real

record n0183_converter =
  nc_sequences :: "(string, nat) dict"
  nc_gsv_data :: "sat_in_view list option"
  nc_gsa_data :: "satellites_data option"
  nc_gsv_nb_sat :: int
  nc_gsv_nb_seq :: int
  nc_gsv_seq :: "bool list option"
  nc_gsv_sat_count :: int
  nc_time_fix :: real
  nc_date :: int
  nc_default_source :: nat

definition new_n0183_converter :: "nat \<Rightarrow> n0183_converter" where
  "new_n0183_converter source =
     \<lparr>nc_sequences = [(''GPS'', 0), (''Wind'', 0), (''Depth'', 0), (''Speed'', 0), (''Heading'', 0), (''GPSDOP'', 0), (''GPSGSV'', 0)],
      nc_gsv_data = None, nc_gsa_data = None, nc_gsv_nb_sat = 0, nc_gsv_nb_seq = 0, nc_gsv_seq = None,
      nc_gsv_sat_count = 0, nc_time_fix = 0, nc_date = 0, nc_default_source = source\<rparr>"

type_synonym 'a conv = "(n0183_converter, 'a) op"

definition next_sequence :: "nat \<Rightarrow> nat" where
  "next_sequence n = (if n = 253 then 0 else n + 1)"

definition get_next_sequence :: "string \<Rightarrow> nat conv" where
  "get_next_sequence seq s =
     (case dict_get (nc_sequences s) seq of
        None \<Rightarrow> (s, Inr 0)
      | Some n \<Rightarrow> (s\<lparr>nc_sequences := dict_set seq (next_sequence n) (nc_sequences s)\<rparr>, Inr (next_sequence n)))"

text \<open>A new object of a class whose properties are assigned in turn.\<close>

fun set_properties :: "gen_access \<Rightarrow> (string \<times> attr) list \<Rightarrow> attrs \<Rightarrow> attrs result" where
  "set_properties acc [] a = Inr a"
| "set_properties acc ((p, v) # ps) a = bind_r (set_property acc p v a) (set_properties acc ps)"

definition made :: "real \<Rightarrow> gen_class \<Rightarrow> (string \<times> attr) list \<Rightarrow> gen_obj result" where
  "made now c ps =
     map_sum id (\<lambda>a. (new_gen_obj now c)\<lparr>go_attrs := a\<rparr>) (set_properties (gc_access c) ps (gh_init (gc_header c)))"

definition num :: "real \<Rightarrow> attr" where
  "num x = AFloat (Some x)"

definition seq_attr :: "nat \<Rightarrow> string \<times> attr" where
  "seq_attr n = (''sequence_id'', AInt (int n))"

definition convertRMC :: "rounding \<Rightarrow> real \<Rightarrow> bytes list \<Rightarrow> gen_obj list conv" where
  "convertRMC fl now fs =
     and_then (calc (field_at fs 1)) (\<lambda>valid.
     if valid \<noteq> bytes_of ''A'' then calc (Inl NMEAInvalidFrame)
     else
       and_then (calc (latitude_at fl fs 2)) (\<lambda>lat.
       and_then (calc (longitude_at fl fs 4)) (\<lambda>long.
       and_then (get_next_sequence ''GPS'') (\<lambda>n.
       and_then (calc (float_at fl fs 6)) (\<lambda>sog.
       and_then (calc (float_at fl fs 7)) (\<lambda>cog.
       and_then (calc (bind_r (field_at fs 0) (convert_time fl))) (\<lambda>t.
       and_then (update_state (\<lambda>s. s\<lparr>nc_time_fix := t\<rparr>)) (\<lambda>_.
       and_then (calc (bind_r (field_at fs 8) convert_date)) (\<lambda>d.
       and_then (update_state (\<lambda>s. s\<lparr>nc_date := d\<rparr>)) (\<lambda>_.
       calc (all_results
         [made now pgn129025 [(''latitude'', num lat), (''longitude'', num long)],
          made now pgn129026 [seq_attr n, (''COG_reference'', AInt 0), (''SOG'', num (fl (sog * knots_to_ms fl))),
            (''COG'', num (fl (cog * deg_to_radian fl)))]])))))))))))"

definition convertVTG :: "rounding \<Rightarrow> real \<Rightarrow> bytes list \<Rightarrow> gen_obj list conv" where
  "convertVTG fl now fs =
     and_then (get_next_sequence ''GPS'') (\<lambda>n.
     and_then (calc (float_at fl fs 4)) (\<lambda>sog.
     and_then (calc (float_at fl fs 0)) (\<lambda>cog.
     calc (all_results
       [made now pgn129026 [seq_attr n, (''COG_reference'', AInt 0), (''SOG'', num (fl (sog * knots_to_ms fl))),
          (''COG'', num (fl (cog * deg_to_radian fl)))]]))))"

definition wind_speed :: "rounding \<Rightarrow> bytes list \<Rightarrow> real result" where
  "wind_speed fl fs =
     bind_r (field_at fs 3) (\<lambda>u.
       if u = bytes_of ''N'' then map_sum id (\<lambda>x. fl (x * knots_to_ms fl)) (float_at fl fs 2)
       else if u = bytes_of ''M'' then float_at fl fs 2
       else if u = bytes_of ''K'' then map_sum id (\<lambda>x. fl (x / fl (36 / 10))) (float_at fl fs 2)
       else Inl NMEAInvalidFrame)"

definition convertMWV :: "rounding \<Rightarrow> real \<Rightarrow> bytes list \<Rightarrow> gen_obj list conv" where
  "convertMWV fl now fs =
     and_then (calc (field_at fs 4)) (\<lambda>valid.
     if valid \<noteq> bytes_of ''A'' then calc (Inl NMEAInvalidFrame)
     else
       and_then (get_next_sequence ''Wind'') (\<lambda>n.
       and_then (calc (float_at fl fs 0)) (\<lambda>angle.
       and_then (calc (field_at fs 1)) (\<lambda>r.
       and_then (calc (if r = bytes_of ''R'' then Inr 2 else if r = bytes_of ''T'' then Inr 3 else Inl NMEAInvalidFrame)) (\<lambda>ref.
       and_then (calc (wind_speed fl fs)) (\<lambda>speed.
       calc (all_results
         [made now pgn130306 [seq_attr n, (''wind_angle'', num (fl (angle * deg_to_radian fl))), (''reference'', AInt ref),
            (''wind_speed'', num speed)]])))))))"

definition convertDPT :: "rounding \<Rightarrow> real \<Rightarrow> bytes list \<Rightarrow> gen_obj list conv" where
  "convertDPT fl now fs =
     and_then (get_next_sequence ''Depth'') (\<lambda>n.
     and_then (calc (float_at fl fs 0)) (\<lambda>depth.
     and_then (calc (optional_at fl id fs 1)) (\<lambda>offset.
     and_then (calc (optional_at fl id fs 2)) (\<lambda>range.
     calc (all_results
       [made now pgn128267 [seq_attr n, (''depth'', num depth), (''offset'', AFloat offset), (''range'', AFloat range)]])))))"

text \<open>The satellites in use: the numbers among twelve fields.\<close>

definition sats_in_use :: "bytes list \<Rightarrow> int list result" where
  "sats_in_use fs = all_results (map (parse_int 10) (filter (\<lambda>f. length f \<noteq> 0) (py_slice fs 2 14)))"

definition convertGSA :: "rounding \<Rightarrow> real \<Rightarrow> bytes list \<Rightarrow> gen_obj list conv" where
  "convertGSA fl now fs =
     and_then (calc (field_at fs 0)) (\<lambda>mode.
     if mode = bytes_of ''1'' then calc (Inl NMEAInvalidFrame)
     else
       and_then (calc (sats_in_use fs)) (\<lambda>sats.
       and_then (calc (float_at fl fs 14)) (\<lambda>pdop.
       and_then (calc (float_at fl fs 15)) (\<lambda>hdop.
       and_then (calc (float_at fl fs 16)) (\<lambda>vdop.
       and_then (update_state (\<lambda>s. s\<lparr>nc_gsa_data := Some \<lparr>sd_ts = now, sd_nb_sats = length sats, sd_sats_list = sats,
           sd_hdop = hdop, sd_pdop = pdop, sd_vdop = vdop\<rparr>\<rparr>)) (\<lambda>_.
       and_then (get_next_sequence ''GPSDOP'') (\<lambda>n.
       and_then (calc (int_at fs 1)) (\<lambda>actual.
       calc (all_results
         [made now pgn129539 [seq_attr n, (''desired_mode'', AInt (if mode = bytes_of ''A'' then 3 else 2)),
            (''actual_mode'', AInt (actual - 1)), (''HDOP'', num hdop), (''VDOP'', num vdop), (''TDOP'', num pdop)]])))))))))"

text \<open>A new sequence of GSV sentences.\<close>

definition start_gsv :: "bytes list \<Rightarrow> unit conv" where
  "start_gsv fs =
     and_then (calc (field_at fs 1)) (\<lambda>f1.
     if f1 \<noteq> bytes_of ''1'' then calc (Inl IncompleteMessage)
     else
       and_then (update_state (\<lambda>s. s\<lparr>nc_gsv_data := Some []\<rparr>)) (\<lambda>_.
       and_then (calc (int_at fs 0)) (\<lambda>nb_seq.
       and_then (update_state (\<lambda>s. s\<lparr>nc_gsv_nb_seq := nb_seq, nc_gsv_seq := Some (replicate (nat nb_seq) False)\<rparr>)) (\<lambda>_.
       and_then (calc (int_at fs 2)) (\<lambda>nb_sat.
       update_state (\<lambda>s. s\<lparr>nc_gsv_nb_sat := nb_sat, nc_gsv_sat_count := 0\<rparr>))))))"

definition mark_gsv :: "int \<Rightarrow> unit conv" where
  "mark_gsv seq_num s =
     (case nc_gsv_seq s of
        None \<Rightarrow> (s, Inl TypeError)
      | Some l \<Rightarrow>
          (case py_set l (seq_num - 1) True of
             Inl e \<Rightarrow> (s, Inl e)
           | Inr l1 \<Rightarrow> (s\<lparr>nc_gsv_seq := Some l1\<rparr>, Inr ())))"

definition sat_status :: "satellites_data option \<Rightarrow> int \<Rightarrow> real option \<Rightarrow> int" where
  "sat_status gsa prn elevation =
     (if (case gsa of None \<Rightarrow> False | Some d \<Rightarrow> prn \<in> set (sd_sats_list d)) then 2
      else if elevation = None then 0 else 1)"

definition read_sat :: "rounding \<Rightarrow> satellites_data option \<Rightarrow> bytes list \<Rightarrow> nat \<Rightarrow> sat_in_view result" where
  "read_sat fl gsa fs idx =
     bind_r (int_at fs idx) (\<lambda>prn.
     bind_r (optional_at fl (\<lambda>x. fl (x * deg_to_radian fl)) fs (idx + 1)) (\<lambda>elevation.
     bind_r (optional_at fl (\<lambda>x. fl (x * deg_to_radian fl)) fs (idx + 2)) (\<lambda>azimuth.
     bind_r (optional_at fl id fs (idx + 3)) (\<lambda>snr.
       Inr \<lparr>sv_prn = prn, sv_elevation = elevation, sv_azimuth = azimuth, sv_snr = snr,
         sv_status = sat_status gsa prn elevation\<rparr>))))"

text \<open>At most four satellites in a sentence, and no more than there are in view.\<close>

fun gsv_loop :: "rounding \<Rightarrow> bytes list \<Rightarrow> nat \<Rightarrow> nat \<Rightarrow> unit conv" where
  "gsv_loop fl fs 0 idx s = (s, Inr ())"
| "gsv_loop fl fs (Suc n) idx s =
     (case read_sat fl (nc_gsa_data s) fs idx of
        Inl e \<Rightarrow> (s, Inl e)
      | Inr sat \<Rightarrow>
          let s1 = s\<lparr>nc_gsv_data := map_option (\<lambda>l. l @ [sat]) (nc_gsv_data s), nc_gsv_sat_count := nc_gsv_sat_count s + 1\<rparr>
          in if nc_gsv_nb_sat s1 \<le> nc_gsv_sat_count s1 then (s1, Inr ()) else gsv_loop fl fs n (idx + 4) s1)"

text \<open>The angles of a satellite, already in radians, are multiplied again.\<close>

definition sat_object :: "rounding \<Rightarrow> sat_in_view \<Rightarrow> attrs result" where
  "sat_object fl sat =
     set_properties pgn129540_satellites_data_access
       [(''satellite_number'', AInt (sv_prn sat)),
        (''elevation'', AFloat (map_option (\<lambda>x. fl (x * deg_to_radian fl)) (sv_elevation sat))),
        (''azimuth'', AFloat (map_option (\<lambda>x. fl (x * deg_to_radian fl)) (sv_azimuth sat))),
        (''signal_noise_ratio'', AFloat (sv_snr sat)), (''range_residuals'', AInt 0x7FFFFFFF),
        (''status'', AInt (sv_status sat))] []"

text \<open>\<^verbatim>\<open>obj.satellites_data.append(item)\<close>.\<close>

definition append_items :: "string \<Rightarrow> attrs list \<Rightarrow> gen_obj \<Rightarrow> gen_obj result" where
  "append_items l items ob =
     bind_r (get_property (gc_access (go_class ob)) l (go_attrs ob)) (\<lambda>a.
       case a of AList xs \<Rightarrow> Inr (ob\<lparr>go_attrs := dict_set l (AList (xs @ items)) (go_attrs ob)\<rparr>) | _ \<Rightarrow> Inl AttributeError)"

definition view_object :: "rounding \<Rightarrow> real \<Rightarrow> nat \<Rightarrow> int \<Rightarrow> sat_in_view list \<Rightarrow> gen_obj result" where
  "view_object fl now n nb_sat sats =
     bind_r (made now pgn129540 [seq_attr n, (''mode'', AInt 0), (''sats_in_view'', AInt nb_sat)]) (\<lambda>ob.
     bind_r (all_results (map (sat_object fl) sats)) (\<lambda>items. append_items ''satellites_data'' items ob))"

definition finish_gsv :: "rounding \<Rightarrow> real \<Rightarrow> gen_obj list conv" where
  "finish_gsv fl now s =
     (if nc_gsv_seq s \<noteq> None \<and> False \<in> set (the (nc_gsv_seq s)) then (s, Inl IncompleteMessage)
      else
        and_then (get_next_sequence ''GPSGSV'') (\<lambda>n s1.
          case view_object fl now n (nc_gsv_nb_sat s1) (case nc_gsv_data s1 of Some l \<Rightarrow> l | None \<Rightarrow> []) of
            Inl e \<Rightarrow> (s1, Inl e)
          | Inr ob \<Rightarrow> (s1\<lparr>nc_gsv_data := None\<rparr>, Inr [ob])) s)"

definition convertGSV :: "rounding \<Rightarrow> real \<Rightarrow> bytes list \<Rightarrow> gen_obj list conv" where
  "convertGSV fl now fs s =
     and_then (if nc_gsv_data s = None then start_gsv fs else calc (Inr ())) (\<lambda>_.
     and_then (calc (int_at fs 1)) (\<lambda>seq_num.
     and_then (mark_gsv seq_num) (\<lambda>_.
     and_then (gsv_loop fl fs 4 3) (\<lambda>_. finish_gsv fl now)))) s"

definition convertGGA :: "rounding \<Rightarrow> real \<Rightarrow> bytes list \<Rightarrow> gen_obj list conv" where
  "convertGGA fl now fs =
     and_then (calc (field_at fs 5)) (\<lambda>quality.
     if quality = bytes_of ''0'' then calc (Inl NMEAInvalidFrame)
     else
       and_then (calc (bind_r (field_at fs 0) (convert_time fl))) (\<lambda>t.
       and_then (update_state (\<lambda>s. s\<lparr>nc_time_fix := t\<rparr>)) (\<lambda>_.
       and_then (get_next_sequence ''GPS'') (\<lambda>n.
       and_then (calc (latitude_at fl fs 1)) (\<lambda>lat.
       and_then (calc (longitude_at fl fs 3)) (\<lambda>long.
       and_then (calc (float_at fl fs 8)) (\<lambda>altitude.
       and_then (calc (int_at fs 6)) (\<lambda>nb.
       and_then (calc (parse_int 10 quality)) (\<lambda>method.
       and_then (calc (float_at fl fs 7)) (\<lambda>hdop.
       (\<lambda>s. calc (all_results
         [made now pgn129029 [seq_attr n, (''latitude'', num lat), (''longitude'', num long), (''altitude'', num altitude),
            (''number_of_sv'', AInt nb), (''date'', AInt (if nc_date s = 0 then 0xFFFF else nc_date s)),
            (''time'', num (nc_time_fix s)), (''GNSS_type'', AInt 0), (''method'', AInt method), (''integrity'', AInt 0),
            (''HDOP'', num hdop), (''geoidal_separation'', num altitude),
            (''PDOP'', AFloat (map_option sd_pdop (nc_gsa_data s))), (''nb_ref_stations'', AInt 0)]]) s)))))))))))"

definition convertVBW :: "rounding \<Rightarrow> real \<Rightarrow> bytes list \<Rightarrow> gen_obj list conv" where
  "convertVBW fl now fs =
     and_then (get_next_sequence ''Speed'') (\<lambda>n.
     and_then (calc (float_at fl fs 0)) (\<lambda>speed.
     calc (all_results
       [made now pgn128259 [seq_attr n, (''speed_through_water'', num (fl (speed * knots_to_ms fl))),
          (''speed_over_ground'', AFloat None), (''speed_through_water_reference'', AInt 0)]])))"

definition convertHDG :: "rounding \<Rightarrow> real \<Rightarrow> bytes list \<Rightarrow> gen_obj list conv" where
  "convertHDG fl now fs =
     and_then (get_next_sequence ''Heading'') (\<lambda>n.
     and_then (calc (float_at fl fs 0)) (\<lambda>heading.
     calc (all_results
       [made now pgn127250 [seq_attr n, (''heading'', num (fl (heading * deg_to_radian fl))), (''reference'', AInt 1),
          (''deviation'', AFloat None), (''variation'', AFloat None)]])))"

section \<open>Sentences\<close>

definition convert_vector :: "rounding \<Rightarrow> (string, real \<Rightarrow> bytes list \<Rightarrow> gen_obj list conv) dict" where
  "convert_vector fl =
     [(''RMC'', convertRMC fl), (''VTG'', convertVTG fl), (''MWV'', convertMWV fl), (''DPT'', convertDPT fl),
      (''GSA'', convertGSA fl), (''GSV'', convertGSV fl), (''GGA'', convertGGA fl), (''VBW'', convertVBW fl),
      (''HDG'', convertHDG fl)]"

text \<open>The objects a sentence gives, and the exception that ends it.\<close>

definition convert_sentence :: "rounding \<Rightarrow> real \<Rightarrow> n0183_msg \<Rightarrow> n0183_converter \<Rightarrow> n0183_converter \<times> gen_obj generator" where
  "convert_sentence fl now m s =
     (case bind_r (formatter m) utf8_decode of
        Inl e \<Rightarrow> (s, ([], Some e))
      | Inr f \<Rightarrow>
          (case dict_get (map (\<lambda>(k, h). (text_of k, h)) (convert_vector fl)) f of
             None \<Rightarrow> (s, ([], Some NMEAInvalidFrame))
           | Some h \<Rightarrow>
               (case h now (n_fields m) s of
                  (s1, Inl e) \<Rightarrow> (s1, ([], Some (if e = KeyError then NMEAInvalidFrame else e)))
                | (s1, Inr obs) \<Rightarrow> (s1, (obs, None)))))"

fun encode_objects :: "rounding \<Rightarrow> real \<Rightarrow> nat \<Rightarrow> gen_obj list \<Rightarrow> py_error option \<Rightarrow> nav_msg generator" where
  "encode_objects fl now source [] e = ([], e)"
| "encode_objects fl now source (ob # obs) e =
     (case gen_message fl now ob of
        Inl e1 \<Rightarrow> ([], Some e1)
      | Inr m \<Rightarrow> gen_cons (nav_n2k None (Some (m\<lparr>m_sa := source\<rparr>))) (encode_objects fl now source obs e))"

definition convert_to_n2kmsg :: "rounding \<Rightarrow> real \<Rightarrow> n0183_msg \<Rightarrow> n0183_converter \<Rightarrow> n0183_converter \<times> nav_msg generator" where
  "convert_to_n2kmsg fl now m s =
     (let (s1, obs, e) = convert_sentence fl now m s in (s1, encode_objects fl now (nc_default_source s1) obs e))"


section \<open>Positions\<close>

lemma dec_not_word: "is_dec b \<Longrightarrow> lower_case b \<notin> {105, 110}" 
  by (auto simp: is_dec_def lower_case_def)

lemma parse_ufloat_fraction:
  assumes "list_all is_dec ip" "list_all is_dec fp" "ip \<noteq> []"
  shows "parse_ufloat (ip @ 46 # fp) = Inr (real (dec_value (ip @ fp)) / 10 ^ length fp)"
proof -
  have d: "\<not> is_dec 46" by (simp add: is_dec_def)
  have t: "takeWhile is_dec (ip @ 46 # fp) = ip" "dropWhile is_dec (ip @ 46 # fp) = 46 # fp"
    "takeWhile is_dec fp = fp" "dropWhile is_dec fp = []"
    using assms(1,2) d by (simp_all add: list_all_iff takeWhile_append2 dropWhile_append2)
  obtain b r where b: "ip = b # r" "is_dec b" using assms(1,3) by (cases ip) auto
  have "map lower_case (ip @ 46 # fp) \<notin> set (map (map of_char) [''inf'', ''infinity'', ''nan''])"
    using dec_not_word [OF b(2)] by (auto simp: b(1))
  then show ?thesis using assms(3) by (simp add: parse_ufloat_def t)
qed

lemma dec_not_space: "is_dec b \<Longrightarrow> \<not> is_space b" "is_dec b \<Longrightarrow> b \<noteq> 45" "is_dec b \<Longrightarrow> b \<noteq> 43"
  by (auto simp: is_dec_def is_space_def)

lemma parse_float_unsigned:
  assumes "list_all (\<lambda>b. is_dec b \<or> b = 46) bs" "bs \<noteq> []" "is_dec (hd bs)"
  shows "parse_float bs = parse_ufloat bs"
proof -
  have "strip_with is_space bs = bs"
    using assms(1) dec_not_space by (intro strip_plain) (auto simp: list_all_iff is_space_def)
  then show ?thesis using assms(2,3) dec_not_space by (cases bs) (auto simp: parse_float_def)
qed

lemma parse_float_digits:
  assumes "list_all is_dec ds" "ds \<noteq> []"
  shows "parse_float ds = Inr (real (dec_value ds))"
  using assms by (subst parse_float_unsigned) (auto simp: list_all_iff parse_ufloat_digits)

lemma parse_float_fraction:
  assumes "list_all is_dec ip" "list_all is_dec fp" "ip \<noteq> []"
  shows "parse_float (ip @ 46 # fp) = Inr (real (dec_value (ip @ fp)) / 10 ^ length fp)"
  using assms by (subst parse_float_unsigned) (auto simp: list_all_iff parse_ufloat_fraction)

text \<open>A coordinate in degrees and minutes, with at least two decimals, and its value. The converter reads two.\<close>

definition coordinate_field :: "nat \<Rightarrow> bytes \<Rightarrow> bytes \<Rightarrow> bytes \<Rightarrow> bytes \<Rightarrow> bool" where
  "coordinate_field n dd mm ff bs \<longleftrightarrow>
     bs = dd @ mm @ 46 # ff \<and> length dd = n \<and> length mm = 2 \<and> 2 \<le> length ff \<and> list_all is_dec (dd @ mm @ ff)"

definition coordinate_value :: "bytes \<Rightarrow> bytes \<Rightarrow> bytes \<Rightarrow> real" where
  "coordinate_value dd mm ff = real (dec_value dd) + real (dec_value (mm @ ff)) / 10 ^ length ff / 60"

definition read_minutes :: "bytes \<Rightarrow> bytes \<Rightarrow> real" where
  "read_minutes mm ff = real (dec_value (mm @ take 2 ff)) / 100"

lemma dec_value_append: "dec_value (xs @ ys) = dec_value xs * 10 ^ length ys + dec_value ys"
  by (simp add: dec_value_def number_of_append)

lemma dec_value_less:
  assumes "list_all is_dec ds"
  shows "dec_value ds < 10 ^ length ds"
proof -
  have "\<forall>d \<in> set (map (\<lambda>b. unat b - 48) ds). d < 10"
    using assms by (fastforce simp: list_all_iff is_dec_def)
  from number_of_bound [OF this] show ?thesis by (simp add: dec_value_def)
qed

lemma hundredth: "(q :: real) < 1 \<Longrightarrow> 0 \<le> q \<Longrightarrow> x = (k + q) / 100 \<Longrightarrow> k / 100 \<le> x \<and> x < k / 100 + 1 / 100"
  by simp

lemma sign_diff: "\<bar>(if b then - v else v) - (if b then - c else c)\<bar> = \<bar>v - c :: real\<bar>"
  by (simp add: abs_minus_commute)

lemma read_minutes_error:
  assumes "list_all is_dec ff" "2 \<le> length ff"
  shows "read_minutes mm ff \<le> real (dec_value (mm @ ff)) / 10 ^ length ff"
    and "real (dec_value (mm @ ff)) / 10 ^ length ff < read_minutes mm ff + 1 / 100"
proof -
  define r where "r = drop 2 ff"
  define k where "k = dec_value (mm @ take 2 ff)"
  have f: "mm @ ff = (mm @ take 2 ff) @ r" by (simp add: r_def)
  have l: "length ff = 2 + length r" using assms(2) by (simp add: r_def)
  have v: "dec_value (mm @ ff) = k * 10 ^ length r + dec_value r" unfolding f dec_value_append [of "mm @ take 2 ff"] by (simp add: k_def)
  have "list_all is_dec r" using assms(1) by (auto simp: r_def list_all_iff dest: in_set_dropD)
  then have "real (dec_value r) < real (10 ^ length r)" unfolding of_nat_less_iff by (rule dec_value_less)
  then have b: "real (dec_value r) / 10 ^ length r < 1" "0 \<le> real (dec_value r) / 10 ^ length r" by simp_all
  have "real (dec_value (mm @ ff)) / 10 ^ length ff = (real k + real (dec_value r) / 10 ^ length r) / 100"
    unfolding v l by (simp add: power_add field_simps)
  then show "read_minutes mm ff \<le> real (dec_value (mm @ ff)) / 10 ^ length ff"
    "real (dec_value (mm @ ff)) / 10 ^ length ff < read_minutes mm ff + 1 / 100"
    unfolding read_minutes_def k_def [symmetric] using hundredth [OF b] by blast+
qed

lemma convert_latitude_field:
  assumes "coordinate_field 2 dd mm ff bs"
  shows "convert_latitude fl ns bs =
    Inr (let v = fl (fl (real (dec_value dd)) + fl (fl (read_minutes mm ff) / 60)) in if ns = bytes_of ''S'' then - v else v)"
proof -
  have l: "length dd = 2" "length mm = 2" "2 \<le> length ff" and bs: "bs = dd @ mm @ 46 # ff"
    and d: "list_all is_dec dd" "list_all is_dec mm" "list_all is_dec (take 2 ff)"
    using assms by (auto simp: coordinate_field_def list_all_iff dest: in_set_takeD)
  have "py_slice bs 0 2 = dd" using l by (simp add: bs py_slice_nat [of _ 0 2, simplified])
  moreover have "py_slice bs 2 7 = mm @ 46 # take 2 ff" using l by (simp add: bs py_slice_nat [of _ 2 7, simplified])
  moreover have "dd \<noteq> []" "mm \<noteq> []" using l by auto
  ultimately show ?thesis
    using parse_float_digits [OF d(1)] parse_float_fraction [OF d(2,3)] l
    by (simp add: convert_latitude_def py_float_def read_minutes_def Let_def)
qed

lemma convert_longitude_field:
  assumes "coordinate_field 3 dd mm ff bs"
  shows "convert_longitude fl ew bs =
    Inr (let v = fl (fl (real (dec_value dd)) + fl (fl (read_minutes mm ff) / 60)) in if ew = bytes_of ''W'' then - v else v)"
proof -
  have l: "length dd = 3" "length mm = 2" "2 \<le> length ff" and bs: "bs = dd @ mm @ 46 # ff"
    and d: "list_all is_dec dd" "list_all is_dec mm" "list_all is_dec (take 2 ff)"
    using assms by (auto simp: coordinate_field_def list_all_iff dest: in_set_takeD)
  have "py_slice bs 0 3 = dd" using l by (simp add: bs py_slice_nat [of _ 0 3, simplified])
  moreover have "py_slice bs 3 8 = mm @ 46 # take 2 ff" using l by (simp add: bs py_slice_nat [of _ 3 8, simplified])
  moreover have "dd \<noteq> []" "mm \<noteq> []" using l by auto
  ultimately show ?thesis
    using parse_float_digits [OF d(1)] parse_float_fraction [OF d(2,3)] l
    by (simp add: convert_longitude_def py_float_def read_minutes_def Let_def)
qed

lemma coordinate_rounded:
  assumes fl: "ieee_rounding fl" and c: "coordinate_field n dd mm ff bs" and b: "coordinate_value dd mm ff \<le> 190"
  defines "v \<equiv> fl (fl (real (dec_value dd)) + fl (fl (read_minutes mm ff) / 60))"
  shows "\<bar>v\<bar> \<le> 200" "\<bar>v - coordinate_value dd mm ff\<bar> \<le> 1 / 6000 + 1 / 10 ^ 8" "v = 0 \<or> 1 / 6001 \<le> v"
proof -
  define D where "D = real (dec_value dd)"
  define M where "M = read_minutes mm ff"
  define T where "T = real (dec_value (mm @ ff)) / 10 ^ length ff"
  have ff: "list_all is_dec ff" "2 \<le> length ff" using c by (auto simp: coordinate_field_def)
  have m: "M \<le> T" "T < M + 1 / 100" "0 \<le> M" "0 \<le> D"
    using read_minutes_error [OF ff, of mm] by (simp_all add: M_def T_def D_def read_minutes_def)
  have cv: "coordinate_value dd mm ff = D + T / 60" by (simp add: coordinate_value_def D_def T_def)
  have D: "D \<le> 190" and M: "M \<le> 12000" using b m unfolding cv by linarith+
  have e: "\<bar>fl x - x\<bar> \<le> 1 / 10 ^ 10" if "\<bar>x\<bar> \<le> 12001" for x
  proof -
    have "\<bar>fl x - x\<bar> \<le> \<bar>x\<bar> / 2 ^ 52 + 1 / 2 ^ 200" using that by (intro ieee_error [OF fl]) simp
    also have "\<dots> \<le> 12001 / 2 ^ 52 + 1 / 2 ^ 200" using that by (intro add_mono divide_right_mono) simp_all
    also have "\<dots> \<le> 1 / 10 ^ 10" by simp
    finally show ?thesis .
  qed
  have t: "(1 :: real) / 10 ^ 10 \<le> 1 / 1000" by simp
  have e1: "\<bar>fl D - D\<bar> \<le> 1 / 10 ^ 10" using D m by (intro e) simp
  have e2: "\<bar>fl M - M\<bar> \<le> 1 / 10 ^ 10" using M m by (intro e) simp
  have e3: "\<bar>fl (fl M / 60) - fl M / 60\<bar> \<le> 1 / 10 ^ 10" using e2 M m t by (intro e) linarith
  have e4: "\<bar>v - (fl D + fl (fl M / 60))\<bar> \<le> 1 / 10 ^ 10"
    unfolding v_def D_def [symmetric] M_def [symmetric] using e1 e2 e3 D M m t by (intro e) linarith
  have tt: "(4 :: real) / 10 ^ 10 \<le> 1 / 10 ^ 8" by simp
  have v: "\<bar>v - (D + M / 60)\<bar> \<le> 1 / 10 ^ 8" using e1 e2 e3 e4 tt by linarith
  have tu: "(1 :: real) / 10 ^ 8 \<le> 1 / 1000" by simp
  show "\<bar>v\<bar> \<le> 200" using v b m tu unfolding cv by linarith
  show "\<bar>v - coordinate_value dd mm ff\<bar> \<le> 1 / 6000 + 1 / 10 ^ 8" using v m unfolding cv by linarith
  show "v = 0 \<or> 1 / 6001 \<le> v"
  proof (cases "dec_value dd = 0 \<and> dec_value (mm @ take 2 ff) = 0")
    case True
    then have "v = fl (fl 0 + fl (fl 0 / 60))" unfolding v_def read_minutes_def by simp
    then show ?thesis by (simp add: ieee_again [OF fl])
  next
    case False
    then have "1 \<le> D \<or> 1 / 100 \<le> M" by (auto simp: D_def M_def read_minutes_def)
    then have "1 / 6000 \<le> D + M / 60" using m by (elim disjE) linarith+
    moreover have "(1 :: real) / 6001 + 1 / 10 ^ 8 \<le> 1 / 6000" by simp
    ultimately show ?thesis using v by linarith
  qed
qed


lemma coordinate_near:
  assumes "\<bar>x - l\<bar> \<le> 101 / 10 ^ 9" "\<bar>l - c\<bar> \<le> 1 / 6000 + 1 / 10 ^ 8"
  shows "\<bar>x - c :: real\<bar> \<le> 1 / 6000 + 2 / 10 ^ 7"
proof -
  have "(1 :: real) / 10 ^ 8 + 101 / 10 ^ 9 \<le> 2 / 10 ^ 7" by simp
  with assms show ?thesis by linarith
qed

lemma set_properties_one: "set_properties acc [(p, v)] = set_property acc p v"
proof -
  have "set_properties acc [] = Inr" by (rule ext) simp
  then show ?thesis by (intro ext) simp
qed

text \<open>C12. The position a node reads from the message made of a valid RMC sentence differs from that of the sentence by at
  most a hundredth of a minute, whatever the number of decimals: the converter cuts the minutes after the second one.\<close>

theorem rmc_position:
  assumes "ieee_rounding fl" "convertRMC fl now fs s = (s1, Inr obs)"
    "coordinate_field 2 latd latm latf (fs ! 2)" "coordinate_value latd latm latf \<le> 190"
    "coordinate_field 3 longd longm longf (fs ! 4)" "coordinate_value longd longm longf \<le> 190"
  shows "\<exists>m ob x y. gen_message fl now1 (hd obs) = Inr m \<and> get_n2k_decoded_object fl m = Inr ob
     \<and> get_property pgn129025_access ''latitude'' (go_attrs ob) = Inr (AFloat (Some x))
     \<and> get_property pgn129025_access ''longitude'' (go_attrs ob) = Inr (AFloat (Some y))
     \<and> \<bar>x - (if fs ! 3 = bytes_of ''S'' then - coordinate_value latd latm latf else coordinate_value latd latm latf)\<bar>
         \<le> 1 / 6000 + 2 / 10 ^ 7
     \<and> \<bar>y - (if fs ! 5 = bytes_of ''W'' then - coordinate_value longd longm longf else coordinate_value longd longm longf)\<bar>
         \<le> 1 / 6000 + 2 / 10 ^ 7"
proof -
  obtain n lat long a ob2 where lat: "latitude_at fl fs 2 = Inr lat" and long: "longitude_at fl fs 4 = Inr long"
    and o: "obs = [(new_gen_obj now pgn129025)\<lparr>go_attrs := a\<rparr>, ob2]"
    and p: "set_properties (gc_access pgn129025) [(''latitude'', num lat), (''longitude'', num long)] (gh_init (gc_header pgn129025)) = Inr a"
    using assms(2) by (auto simp: convertRMC_def and_then_Inr calc_Inr bind_r_Inr_iff map_sum_Inr_iff made_def simp del: set_properties.simps split: if_splits)
  have a: "bind_r (set_property pgn129025_access ''latitude'' (AFloat (Some lat)) (go_attrs (new_gen_obj now pgn129025)))
      (set_property pgn129025_access ''longitude'' (AFloat (Some long))) = Inr a"
    using p by (simp add: num_def new_gen_obj_def pgn129025_def set_properties_one)
  have len: "5 < length fs"
    using long by (cases "5 < length fs") (auto simp: longitude_at_def field_at_def py_get_out [of fs 5, simplified])
  let ?v = "fl (fl (real (dec_value latd)) + fl (fl (read_minutes latm latf) / 60))"
  let ?w = "fl (fl (real (dec_value longd)) + fl (fl (read_minutes longm longf) / 60))"
  have f: "field_at fs i = Inr (fs ! i)" if "i \<le> 5" for i using that len by (simp add: field_at_def)
  have lat_def: "lat = (if fs ! 3 = bytes_of ''S'' then - ?v else ?v)"
    using lat convert_latitude_field [OF assms(3), of fl] by (simp add: latitude_at_def f Let_def)
  have long_def: "long = (if fs ! 5 = bytes_of ''W'' then - ?w else ?w)"
    using long convert_longitude_field [OF assms(5), of fl] by (simp add: longitude_at_def f Let_def)
  note v = coordinate_rounded [OF assms(1,3,4)] and w = coordinate_rounded [OF assms(1,5,6)]
  have e: "(202 :: real) / 10 ^ 9 \<le> 1 / 6001" by simp
  have "\<bar>lat\<bar> \<le> 200" "\<bar>long\<bar> \<le> 200" using v(1) w(1) by (auto simp: lat_def long_def)
  moreover have "lat \<le> - 202 / 10 ^ 9 \<or> - 98 / 10 ^ 9 \<le> lat" "long \<le> - 202 / 10 ^ 9 \<or> - 98 / 10 ^ 9 \<le> long"
    using v(3) w(3) e unfolding lat_def long_def by (auto split: if_splits)
  ultimately obtain m ob x y where "gen_message fl now1 ((new_gen_obj now pgn129025)\<lparr>go_attrs := a\<rparr>) = Inr m"
    "get_n2k_decoded_object fl m = Inr ob"
    "get_property pgn129025_access ''latitude'' (go_attrs ob) = Inr (AFloat (Some x))" "\<bar>x - lat\<bar> \<le> 101 / 10 ^ 9"
    "get_property pgn129025_access ''longitude'' (go_attrs ob) = Inr (AFloat (Some y))" "\<bar>y - long\<bar> \<le> 101 / 10 ^ 9"
    using position_sent [OF assms(1) _ _ _ _ a, of now1] by blast
  moreover have "\<bar>lat - (if fs ! 3 = bytes_of ''S'' then - coordinate_value latd latm latf else coordinate_value latd latm latf)\<bar>
      \<le> 1 / 6000 + 1 / 10 ^ 8"
    using v(2) unfolding lat_def sign_diff .
  moreover have "\<bar>long - (if fs ! 5 = bytes_of ''W'' then - coordinate_value longd longm longf else coordinate_value longd longm longf)\<bar>
      \<le> 1 / 6000 + 1 / 10 ^ 8"
    using w(2) unfolding long_def sign_diff .
  ultimately show ?thesis unfolding o list.sel using coordinate_near by blast
qed


definition sample_rmc :: "bytes list" where
  "sample_rmc = map bytes_of [''123519.00'', ''A'', ''4807.0389'', ''S'', ''01131.0001'', ''E'', ''022.4'', ''084.4'', ''230324'']"

lemma sample_rmc_bytes:
  "bytes_of ''4807.0389'' = [52, 56] @ [48, 55] @ 46 # [48, 51, 56, 57]"
  "bytes_of ''01131.0001'' = [48, 49, 49] @ [51, 49] @ 46 # [48, 48, 48, 49]"
  "bytes_of ''022.4'' = [48, 50, 50] @ 46 # [52]" "bytes_of ''084.4'' = [48, 56, 52] @ 46 # [52]"
  by code_simp+

lemma sample_rmc_coordinates:
  "coordinate_field 2 [52, 56] [48, 55] [48, 51, 56, 57] (sample_rmc ! 2)"
  "coordinate_field 3 [48, 49, 49] [51, 49] [48, 48, 48, 49] (sample_rmc ! 4)"
  "coordinate_value [52, 56] [48, 55] [48, 51, 56, 57] \<le> 190"
  "coordinate_value [48, 49, 49] [51, 49] [48, 48, 48, 49] \<le> 190"
  by (simp_all add: sample_rmc_def sample_rmc_bytes coordinate_field_def is_dec_def coordinate_value_def dec_value_def number_of_def)

lemma sample_rmc_time:
  "\<exists>t. convert_time (\<lambda>x. x) (bytes_of ''123519.00'') = Inr t" "convert_date (bytes_of ''230324'') = Inr 19805"
proof -
  have "parse_int 10 (py_slice (bytes_of ''123519.00'') 0 2) = Inr 12" "parse_int 10 (py_slice (bytes_of ''123519.00'') 2 4) = Inr 35"
    "parse_int 10 (py_slice (bytes_of ''123519.00'') 4 6) = Inr 19" "parse_int 10 (py_slice (bytes_of ''123519.00'') 7 9) = Inr 0"
    by code_simp+
  then show "\<exists>t. convert_time (\<lambda>x. x) (bytes_of ''123519.00'') = Inr t" by (simp add: convert_time_def)
  have "parse_int 10 (py_slice (bytes_of ''230324'') 0 2) = Inr 23" "parse_int 10 (py_slice (bytes_of ''230324'') 2 4) = Inr 3"
    "parse_int 10 (py_slice (bytes_of ''230324'') 4 6) = Inr 24"
    by code_simp+
  then show "convert_date (bytes_of ''230324'') = Inr 19805"
    by (simp add: convert_date_def Let_def days_in_month_def date_ordinal_def jan170_def leap_year_def upt_rec)
qed

lemma sample_rmc_converted:
  "\<exists>s1 obs. convertRMC (\<lambda>x. x) 5 sample_rmc (new_n0183_converter 251) = (s1, Inr obs)"
proof -
  have f: "field_at sample_rmc i = Inr (sample_rmc ! i)" if "i < 9" for i
    using that by (simp add: field_at_def sample_rmc_def)
  obtain t where t: "convert_time (\<lambda>x. x) (sample_rmc ! 0) = Inr t" using sample_rmc_time(1) by (auto simp: sample_rmc_def)
  have d: "convert_date (sample_rmc ! 8) = Inr 19805" using sample_rmc_time(2) by (simp add: sample_rmc_def)
  have "sample_rmc ! 6 = [48, 50, 50] @ 46 # [52]" "sample_rmc ! 7 = [48, 56, 52] @ 46 # [52]"
    by (simp_all add: sample_rmc_def sample_rmc_bytes)
  then have n: "py_float (\<lambda>x. x) (sample_rmc ! 6) = Inr (real (dec_value [48, 50, 50, 52]) / 10)"
    "py_float (\<lambda>x. x) (sample_rmc ! 7) = Inr (real (dec_value [48, 56, 52, 52]) / 10)"
    using parse_float_fraction [of "[48, 50, 50]" "[52]"] parse_float_fraction [of "[48, 56, 52]" "[52]"]
    by (simp_all add: py_float_def is_dec_def)
  obtain lat long where p: "latitude_at (\<lambda>x. x) sample_rmc 2 = Inr lat" "longitude_at (\<lambda>x. x) sample_rmc 4 = Inr long"
    using convert_latitude_field [OF sample_rmc_coordinates(1)] convert_longitude_field [OF sample_rmc_coordinates(2)]
    by (simp add: latitude_at_def longitude_at_def f)
  have "sample_rmc ! 1 = bytes_of ''A''" by (simp add: sample_rmc_def)
  then show ?thesis
    using f t d n p
    by (simp add: convertRMC_def float_at_def and_then_def update_state_def get_next_sequence_def new_n0183_converter_def made_def seq_attr_def
      set_property_def pgn129025_def pgn129025_access_def pgn129026_def pgn129026_access_def)
qed

theorem rmc_position_witness:
  "\<exists>obs m ob x y. gen_message (\<lambda>x. x) 6 (hd obs) = Inr m \<and> get_n2k_decoded_object (\<lambda>x. x) m = Inr ob
     \<and> get_property pgn129025_access ''latitude'' (go_attrs ob) = Inr (AFloat (Some x))
     \<and> get_property pgn129025_access ''longitude'' (go_attrs ob) = Inr (AFloat (Some y))
     \<and> \<bar>x - (- coordinate_value [52, 56] [48, 55] [48, 51, 56, 57])\<bar> \<le> 1 / 6000 + 2 / 10 ^ 7
     \<and> \<bar>y - coordinate_value [48, 49, 49] [51, 49] [48, 48, 48, 49]\<bar> \<le> 1 / 6000 + 2 / 10 ^ 7"
proof -
  obtain s1 obs where o: "convertRMC (\<lambda>x. x) 5 sample_rmc (new_n0183_converter 251) = (s1, Inr obs)"
    using sample_rmc_converted by blast
  have i: "sample_rmc ! 3 = bytes_of ''S''" "sample_rmc ! 5 \<noteq> bytes_of ''W''"
    by (simp_all add: sample_rmc_def) (code_simp)
  show ?thesis
    using rmc_position [OF ieee_exact o sample_rmc_coordinates(1,3,2,4), of 6] by (simp only: i if_True if_False simp_thms) blast
qed

section \<open>Sequences of GSV sentences\<close>

text \<open>Sentence \<open>i\<close> of \<open>k\<close>, for \<open>n\<close> satellites in view, with the satellites it carries.\<close>

definition gsv_sentence ::
    "rounding \<Rightarrow> satellites_data option \<Rightarrow> nat \<Rightarrow> nat \<Rightarrow> nat \<Rightarrow> bytes list \<Rightarrow> sat_in_view list \<Rightarrow> bool" where
  "gsv_sentence fl gsa k i n fs sats \<longleftrightarrow>
     int_at fs 0 = Inr (int k) \<and> int_at fs 1 = Inr (int i) \<and> int_at fs 2 = Inr (int n)
     \<and> (i = 1 \<longrightarrow> field_at fs 1 = Inr (bytes_of ''1''))
     \<and> (\<forall>j < length sats. read_sat fl gsa fs (3 + 4 * j) = Inr (sats ! j))"

fun gsv_run :: "rounding \<Rightarrow> real \<Rightarrow> bytes list list \<Rightarrow> n0183_converter \<Rightarrow> n0183_converter \<times> gen_obj list result list" where
  "gsv_run fl now [] s = (s, [])"
| "gsv_run fl now (fs # fss) s =
     (let (s1, r) = convertGSV fl now fs s; (s2, rs) = gsv_run fl now fss s1 in (s2, r # rs))"

lemma gsv_loop_group:
  assumes "\<forall>j < length g. read_sat fl (nc_gsa_data s) fs (idx + 4 * j) = Inr (g ! j)" "length g \<le> m"
    "nc_gsv_data s = Some l" "nc_gsv_sat_count s = int c" "nc_gsv_nb_sat s = int n" "c + length g \<le> n"
    "length g = m \<or> c + length g = n" "c < n"
  shows "gsv_loop fl fs m idx s = (s\<lparr>nc_gsv_data := Some (l @ g), nc_gsv_sat_count := int (c + length g)\<rparr>, Inr ())"
  using assms
proof (induction m arbitrary: g idx s l c)
  case 0
  then show ?case by simp
next
  case (Suc m)
  then obtain x g' where g: "g = x # g'" by (cases g) auto
  have r: "read_sat fl (nc_gsa_data s) fs idx = Inr x" using Suc.prems(1) by (auto simp: g dest: spec [of _ 0])
  let ?s = "s\<lparr>nc_gsv_data := Some (l @ [x]), nc_gsv_sat_count := int c + 1\<rparr>"
  show ?case
  proof (cases "c + 1 = n")
    case True
    then have "g' = []" using Suc.prems(6) by (cases g') (simp_all add: g)
    then show ?thesis using r True Suc.prems by (simp add: g)
  next
    case False
    have "\<forall>j < length g'. read_sat fl (nc_gsa_data ?s) fs (idx + 4 + 4 * j) = Inr (g' ! j)"
    proof (intro allI impI)
      fix j
      assume "j < length g'"
      with Suc.prems(1) [rule_format, of "Suc j"] show "read_sat fl (nc_gsa_data ?s) fs (idx + 4 + 4 * j) = Inr (g' ! j)"
        by (simp add: g add.assoc)
    qed
    from Suc.IH [OF this, of "l @ [x]" "c + 1"] have "gsv_loop fl fs m (idx + 4) ?s =
        (?s\<lparr>nc_gsv_data := Some (l @ [x] @ g'), nc_gsv_sat_count := int (c + 1 + length g')\<rparr>, Inr ())"
      using Suc.prems False by (simp add: g)
    then show ?thesis using r False Suc.prems by (simp add: g)
  qed
qed

text \<open>The converter in the middle of a sequence.\<close>

definition gsv_state :: "nat \<Rightarrow> nat \<Rightarrow> nat \<Rightarrow> sat_in_view list \<Rightarrow> n0183_converter \<Rightarrow> n0183_converter" where
  "gsv_state k d n sats s =
     s\<lparr>nc_gsv_data := Some sats, nc_gsv_nb_seq := int k, nc_gsv_seq := Some (replicate d True @ replicate (k - d) False),
       nc_gsv_nb_sat := int n, nc_gsv_sat_count := int (length sats)\<rparr>"

lemma view_object_ok: "\<exists>ob. view_object fl now q n sats = Inr ob"
proof -
  have "\<exists>a. sat_object fl x = Inr a" for x
    by (simp add: sat_object_def set_property_def pgn129540_satellites_data_access_def)
  then obtain f where "\<And>x. sat_object fl x = Inr (f x)" by metis
  then have "map (sat_object fl) sats = map Inr (map f sats)" by simp
  then have "all_results (map (sat_object fl) sats) = Inr (map f sats)" by (simp only: all_results_Inr)
  then show ?thesis
    by (simp add: view_object_def made_def seq_attr_def set_property_def pgn129540_def pgn129540_access_def pgn129540_header_def
      append_items_def get_property_def get_attr_def new_gen_obj_def)
qed

lemma start_gsv_ok:
  assumes "gsv_sentence fl gsa k 1 n fs g"
  shows "start_gsv fs s = (gsv_state k 0 n [] s, Inr ())"
  using assms by (simp add: gsv_sentence_def start_gsv_def gsv_state_def)

lemma gsv_sentence_step:
  assumes "gsv_sentence fl (nc_gsa_data s) k (Suc d) n fs g" "d < k" "length g \<le> 4" "length sats + length g \<le> n"
    "length g = 4 \<or> length sats + length g = n" "g \<noteq> []"
  shows "convertGSV fl now fs (gsv_state k d n sats s) = finish_gsv fl now (gsv_state k (Suc d) n (sats @ g) s)"
proof -
  let ?s = "s\<lparr>nc_gsv_data := Some sats, nc_gsv_nb_seq := int k, nc_gsv_seq := Some (replicate (Suc d) True @ replicate (k - Suc d) False),
       nc_gsv_nb_sat := int n, nc_gsv_sat_count := int (length sats)\<rparr>"
  have "(replicate d True @ replicate (k - d) False)[d := True] = replicate (Suc d) True @ replicate (k - Suc d) False"
  proof -
    obtain m where m: "k - d = Suc m" "k - Suc d = m" using assms(2) by (cases "k - d") auto
    show ?thesis by (simp add: m list_update_append replicate_app_Cons_same)
  qed
  then have m: "mark_gsv (int (Suc d)) (gsv_state k d n sats s) = (?s, Inr ())"
    using assms(2) by (simp add: mark_gsv_def gsv_state_def py_set_def py_pos_def)
  have "gsv_loop fl fs 4 3 ?s = (?s\<lparr>nc_gsv_data := Some (sats @ g), nc_gsv_sat_count := int (length sats + length g)\<rparr>, Inr ())"
    using assms by (intro gsv_loop_group [where n = n]) (auto simp: gsv_sentence_def)
  also have "?s\<lparr>nc_gsv_data := Some (sats @ g), nc_gsv_sat_count := int (length sats + length g)\<rparr> = gsv_state k (Suc d) n (sats @ g) s"
    by (cases s) (simp add: gsv_state_def)
  finally have l: "gsv_loop fl fs 4 3 ?s = (gsv_state k (Suc d) n (sats @ g) s, Inr ())" .
  have "nc_gsv_data (gsv_state k d n sats s) = Some sats" "int_at fs 1 = Inr (int (Suc d))"
    using assms(1) by (simp_all add: gsv_state_def gsv_sentence_def)
  then show ?thesis unfolding convertGSV_def and_then_def using m l by simp
qed


lemma finish_gsv_state:
  assumes "d \<le> k"
  shows "d < k \<Longrightarrow> finish_gsv fl now (gsv_state k d n sats s) = (gsv_state k d n sats s, Inl IncompleteMessage)"
    and "d = k \<Longrightarrow> \<exists>s1 q ob. finish_gsv fl now (gsv_state k d n sats s) = (s1, Inr [ob]) \<and> nc_gsv_data s1 = None
           \<and> view_object fl now q (int n) sats = Inr ob"
proof -
  show "d < k \<Longrightarrow> finish_gsv fl now (gsv_state k d n sats s) = (gsv_state k d n sats s, Inl IncompleteMessage)"
    by (simp add: finish_gsv_def gsv_state_def)
next
  assume "d = k"
  obtain s1 q where g: "get_next_sequence ''GPSGSV'' (gsv_state k d n sats s) = (s1, Inr q)"
    "nc_gsv_data s1 = Some sats" "nc_gsv_nb_sat s1 = int n"
    by (cases "dict_get (nc_sequences s) ''GPSGSV''") (simp_all add: get_next_sequence_def gsv_state_def)
  obtain ob where ob: "view_object fl now q (int n) sats = Inr ob" using view_object_ok by blast
  have "finish_gsv fl now (gsv_state k d n sats s) = (s1\<lparr>nc_gsv_data := None\<rparr>, Inr [ob])"
    using g ob \<open>d = k\<close> by (simp add: finish_gsv_def and_then_def) (simp add: gsv_state_def)
  with ob show "\<exists>s1 q ob. finish_gsv fl now (gsv_state k d n sats s) = (s1, Inr [ob]) \<and> nc_gsv_data s1 = None
           \<and> view_object fl now q (int n) sats = Inr ob"
    by (intro exI [of _ "s1\<lparr>nc_gsv_data := None\<rparr>"]) auto
qed

lemma gsa_gsv_state [simp]: "nc_gsa_data (gsv_state k d n sats s) = nc_gsa_data s"
  by (simp add: gsv_state_def)

text \<open>Groups of four satellites, the last of the rest.\<close>

fun gsv_groups :: "nat \<Rightarrow> sat_in_view list list \<Rightarrow> bool" where
  "gsv_groups n [] \<longleftrightarrow> False"
| "gsv_groups n [g] \<longleftrightarrow> g \<noteq> [] \<and> length g \<le> 4 \<and> length g = n"
| "gsv_groups n (g # gs) \<longleftrightarrow> length g = 4 \<and> 4 < n \<and> gsv_groups (n - 4) gs"

lemma gsv_run_rest:
  assumes "\<forall>i < length gs. gsv_sentence fl (nc_gsa_data s) k (Suc (d + i)) n (fss ! i) (gs ! i)" "length fss = length gs"
    "k = d + length gs" "gsv_groups (n - length sats) gs" "length sats \<le> n"
  shows "\<exists>s1 q ob. gsv_run fl now fss (gsv_state k d n sats s) = (s1, replicate (length gs - 1) (Inl IncompleteMessage) @ [Inr [ob]])
     \<and> nc_gsv_data s1 = None \<and> view_object fl now q (int n) (sats @ concat gs) = Inr ob"
  using assms
proof (induction gs arbitrary: fss d sats)
  case (Cons g gs)
  then obtain fs fss' where fss: "fss = fs # fss'" by (cases fss) auto
  have s: "gsv_sentence fl (nc_gsa_data s) k (Suc d) n fs g" using Cons.prems(1) by (auto simp: fss dest: spec [of _ 0])
  show ?case
  proof (cases gs)
    case Nil
    have "convertGSV fl now fs (gsv_state k d n sats s) = finish_gsv fl now (gsv_state k (Suc d) n (sats @ g) s)"
      using s Cons.prems(3-5) Nil by (intro gsv_sentence_step) auto
    moreover obtain s1 q ob where f: "finish_gsv fl now (gsv_state k (Suc d) n (sats @ g) s) = (s1, Inr [ob])"
      "nc_gsv_data s1 = None" "view_object fl now q (int n) (sats @ g) = Inr ob"
      using finish_gsv_state(2) [of "Suc d" k fl now n "sats @ g" s] Cons.prems(3) Nil by fastforce
    moreover have "fss' = []" using Cons.prems(2) Nil by (simp add: fss)
    ultimately have "gsv_run fl now fss (gsv_state k d n sats s) = (s1, [Inr [ob]])" by (simp add: fss)
    with f Nil show ?thesis by (intro exI [of _ s1] exI [of _ q] exI [of _ ob]) simp
  next
    case (Cons g2 gs2)
    note gs = this
    have l: "length g = 4" "4 < n - length sats" "gsv_groups (n - length sats - 4) gs"
      using Cons.prems(4) by (simp_all add: gs)
    have "convertGSV fl now fs (gsv_state k d n sats s) = finish_gsv fl now (gsv_state k (Suc d) n (sats @ g) s)"
      using s Cons.prems(3) l by (intro gsv_sentence_step) auto
    also have "\<dots> = (gsv_state k (Suc d) n (sats @ g) s, Inl IncompleteMessage)"
      using Cons.prems(3) gs by (intro finish_gsv_state(1)) auto
    finally have c: "convertGSV fl now fs (gsv_state k d n sats s) = (gsv_state k (Suc d) n (sats @ g) s, Inl IncompleteMessage)" .
    have "\<exists>s1 q ob. gsv_run fl now fss' (gsv_state k (Suc d) n (sats @ g) s) =
        (s1, replicate (length gs - 1) (Inl IncompleteMessage) @ [Inr [ob]])
      \<and> nc_gsv_data s1 = None \<and> view_object fl now q (int n) ((sats @ g) @ concat gs) = Inr ob"
    proof (rule Cons.IH)
      show "\<forall>i < length gs. gsv_sentence fl (nc_gsa_data s) k (Suc (Suc d + i)) n (fss' ! i) (gs ! i)"
      proof (intro allI impI)
        fix i
        assume "i < length gs"
        with Cons.prems(1) [rule_format, of "Suc i"] show "gsv_sentence fl (nc_gsa_data s) k (Suc (Suc d + i)) n (fss' ! i) (gs ! i)"
          by (simp add: fss)
      qed
    qed (use Cons.prems(2,3) l in \<open>simp_all add: fss\<close>)
    then obtain s1 q ob where "gsv_run fl now fss' (gsv_state k (Suc d) n (sats @ g) s) =
        (s1, replicate (length gs - 1) (Inl IncompleteMessage) @ [Inr [ob]])"
      "nc_gsv_data s1 = None" "view_object fl now q (int n) ((sats @ g) @ concat gs) = Inr ob" by blast
    with c show ?thesis by (auto simp: fss gs)
  qed
qed simp



definition sample_sat :: "int \<Rightarrow> sat_in_view" where
  "sample_sat prn = \<lparr>sv_prn = prn, sv_elevation = None, sv_azimuth = None, sv_snr = None, sv_status = 0\<rparr>"

definition sample_gsv :: "bytes list list" where
  "sample_gsv =
     [map bytes_of [''2'', ''1'', ''5'', ''1'', [], [], [], ''2'', [], [], [], ''3'', [], [], [], ''4'', [], [], []],
      map bytes_of [''2'', ''2'', ''5'', ''7'', [], [], []]]"

lemma sample_gsv_ints:
  "parse_int 10 (bytes_of ''1'') = Inr 1" "parse_int 10 (bytes_of ''2'') = Inr 2" "parse_int 10 (bytes_of ''3'') = Inr 3"
  "parse_int 10 (bytes_of ''4'') = Inr 4" "parse_int 10 (bytes_of ''5'') = Inr 5" "parse_int 10 (bytes_of ''7'') = Inr 7"
  "bytes_of [] = []"
  by code_simp+

lemma nth_py_get: "i < length xs \<Longrightarrow> field_at xs i = Inr (xs ! i)"
  by (simp add: field_at_def)

lemma all_less_four: "(\<forall>j < Suc (Suc (Suc (Suc 0))). P j) \<longleftrightarrow> P 0 \<and> P 1 \<and> P 2 \<and> P (3 :: nat)"
  by (auto simp: less_Suc_eq numeral_eq_Suc)

lemma sample_gsv_sentences:
  "gsv_sentence fl None 2 1 5 (sample_gsv ! 0) [sample_sat 1, sample_sat 2, sample_sat 3, sample_sat 4]"
  "gsv_sentence fl None 2 2 5 (sample_gsv ! 1) [sample_sat 7]"
  by (simp_all add: gsv_sentence_def sample_gsv_def int_at_def nth_py_get sample_gsv_ints all_less_four
    read_sat_def optional_at_def sample_sat_def sat_status_def)


end
