(* ===== verification/Gnss.thy ===== *)
theory Gnss
  imports N0183Convert Queues
begin

text \<open>
  \<^verbatim>\<open>gnss/gnss_data.py\<close> and the reader of \<^verbatim>\<open>gnss/gnss_service.py\<close>: the sentences of a GNSS receiver, the data kept of
  the fix and of the constellations, and the NMEA 2000 messages pushed to the queue of the client. A constellation is
  known by the identifier of its system, so the list of those in the fix is a list of identifiers. The conversions of
  fields are those of \<^verbatim>\<open>N0183Convert\<close>, which the source repeats.
\<close>

section \<open>Systems, satellites, constellations\<close>

record gnss_system =
  gs_name :: string
  gs_talker :: string
  gs_system_id :: int
  gs_ubx_id :: int
  gs_n2k_fix :: int

definition gnss_systems :: "gnss_system list" where
  "gnss_systems =
     map (\<lambda>(n, t, i, u, f). \<lparr>gs_name = n, gs_talker = t, gs_system_id = i, gs_ubx_id = u, gs_n2k_fix = f\<rparr>)
       [(''GNSS'', ''GN'', 0, 0, 0), (''GPS'', ''GP'', 1, 0, 1), (''GPS-SBAS'', ''GP'', 1, 1, 1), (''Galileo'', ''GA'', 3, 2, 8),
        (''Beidou'', ''GB'', 4, 3, 0), (''QZSS'', ''GQ'', 5, 5, 0), (''GLONASS'', ''GL'', 2, 6, 2), (''NavIC'', ''GI'', 6, 7, 0)]"

text \<open>\<^verbatim>\<open>dict([(key(s), s) ...])\<close>: the last system of a key is the one kept.\<close>

definition system_by :: "(gnss_system \<Rightarrow> 'k) \<Rightarrow> 'k \<Rightarrow> gnss_system option" where
  "system_by key k = dict_get (map (\<lambda>s. (key s, s)) (rev gnss_systems)) k"

record gnss_satellite =
  ns_svn :: int
  ns_elevation :: "real option"
  ns_azimuth :: "real option"
  ns_cno :: "real option"
  ns_ts :: real
  ns_status :: int

record constellation =
  cn_gnss :: gnss_system
  cn_nb_satellites :: int
  cn_satellites :: "(int, gnss_satellite) dict"
  cn_gsv_nb_seq :: int
  cn_gsv_seq_recv :: "bool list option"
  cn_satellites_in_fix :: "int list option"
  cn_nb_sats_in_fix :: int
  cn_gsv_in_progress :: bool
  cn_signal_id :: "bytes option"

definition new_constellation :: "gnss_system \<Rightarrow> constellation" where
  "new_constellation g =
     \<lparr>cn_gnss = g, cn_nb_satellites = 0, cn_satellites = [], cn_gsv_nb_seq = 0, cn_gsv_seq_recv = None,
      cn_satellites_in_fix = None, cn_nb_sats_in_fix = 0, cn_gsv_in_progress = False, cn_signal_id = None\<rparr>"

text \<open>A number is always different from \<^verbatim>\<open>float('nan')\<close>, so no satellite gets the status 0.\<close>

definition update_status :: "int list \<Rightarrow> constellation \<Rightarrow> constellation" where
  "update_status in_use c =
     c\<lparr>cn_satellites := map (\<lambda>(k, s). (k, s\<lparr>ns_status := (if ns_svn s \<in> set in_use then 2 else 1)\<rparr>)) (cn_satellites c)\<rparr>"

section \<open>Statistics of the input\<close>

record gnss_input_stat =
  gi_count :: nat
  gi_last_time :: real
  gi_first_time :: real
  gi_interval :: real

definition new_input_stat :: "real \<Rightarrow> gnss_input_stat" where
  "new_input_stat ticks = \<lparr>gi_count = 0, gi_last_time = ticks, gi_first_time = ticks, gi_interval = 0\<rparr>"

definition stat_seen :: "real \<Rightarrow> gnss_input_stat \<Rightarrow> gnss_input_stat" where
  "stat_seen ticks st =
     st\<lparr>gi_count := gi_count st + 1, gi_interval := ticks - gi_last_time st, gi_last_time := ticks\<rparr>"

definition average_interval :: "real \<Rightarrow> gnss_input_stat \<Rightarrow> real result" where
  "average_interval ticks st =
     (if gi_count st = 0 then Inl ZeroDivisionError else Inr ((ticks - gi_first_time st) / real (gi_count st)))"

section \<open>The forwarder\<close>

record n2k_forwarder =
  fw_pgn_set :: "nat set"
  fw_queue :: "n2k_msg bqueue"
  fw_suspended :: bool
  fw_lost :: nat
  fw_total :: nat
  fw_system :: "gnss_system option"

definition new_forwarder :: "nat set \<Rightarrow> n2k_msg bqueue \<Rightarrow> string option \<Rightarrow> n2k_forwarder" where
  "new_forwarder pgns q constellation =
     \<lparr>fw_pgn_set = pgns, fw_queue = q, fw_suspended = True, fw_lost = 0, fw_total = 1,
      fw_system = (case constellation of None \<Rightarrow> None | Some n \<Rightarrow> system_by gs_name n)\<rparr>"

definition forwarder_push :: "rounding \<Rightarrow> real \<Rightarrow> gen_obj \<Rightarrow> n2k_forwarder \<Rightarrow> n2k_forwarder \<times> unit result" where
  "forwarder_push fl now ob fw =
     (if fw_suspended fw then (fw, Inr ())
      else if go_pgn ob \<in> fw_pgn_set fw then
        (case gen_message fl now ob of
           Inl e \<Rightarrow> (fw, if e = NMEA2000EncodeDecodeError then Inr () else Inl e)
         | Inr m \<Rightarrow>
             let fw1 = fw\<lparr>fw_total := fw_total fw + 1\<rparr>
             in case q_put m (fw_queue fw) of
                  Inl _ \<Rightarrow> (fw1\<lparr>fw_lost := fw_lost fw + 1\<rparr>, Inr ())
                | Inr q \<Rightarrow> (fw1\<lparr>fw_queue := q\<rparr>, Inr ()))
      else (fw, Inr ()))"

definition pgn_in_set :: "nat \<Rightarrow> constellation option \<Rightarrow> n2k_forwarder \<Rightarrow> bool" where
  "pgn_in_set pgn c fw \<longleftrightarrow>
     (case (fw_system fw, c) of
        (Some g, Some cn) \<Rightarrow> gs_system_id (cn_gnss cn) = gs_system_id g \<and> pgn \<in> fw_pgn_set fw
      | _ \<Rightarrow> pgn \<in> fw_pgn_set fw)"

definition forwarder_suspend :: "n2k_forwarder \<Rightarrow> n2k_forwarder" where
  "forwarder_suspend fw = fw\<lparr>fw_suspended := True\<rparr>"

definition forwarder_resume :: "n2k_forwarder \<Rightarrow> n2k_forwarder" where
  "forwarder_resume fw = fw\<lparr>fw_suspended := False\<rparr>"

definition percentage_lost :: "n2k_forwarder \<Rightarrow> real" where
  "percentage_lost fw = real (fw_lost fw) / real (fw_total fw)"

section \<open>The data manager\<close>

record gnss_data =
  gd_fix :: bool
  gd_mode :: int
  gd_const_in_fix :: "int list"
  gd_fix_time :: real
  gd_latitude :: real
  gd_longitude :: real
  gd_utc_time :: real
  gd_SOG :: real
  gd_COG :: "real option"
  gd_date :: int
  gd_nb_sats_in_fix :: int
  gd_PDOP :: real
  gd_HDOP :: real
  gd_VDOP :: real
  gd_altitude :: real
  gd_geoidal_separation :: real
  gd_constellations :: "(int, constellation) dict"
  gd_sequence :: nat
  gd_stats :: "(ustr, gnss_input_stat) dict"

definition new_gnss_data :: gnss_data where
  "new_gnss_data =
     \<lparr>gd_fix = False, gd_mode = 0, gd_const_in_fix = [], gd_fix_time = 0, gd_latitude = 0, gd_longitude = 0, gd_utc_time = 0,
      gd_SOG = 0, gd_COG = Some 0, gd_date = 0, gd_nb_sats_in_fix = 0, gd_PDOP = 0, gd_HDOP = 0, gd_VDOP = 0, gd_altitude = 0,
      gd_geoidal_separation = 0, gd_constellations = [], gd_sequence = 0, gd_stats = []\<rparr>"

text \<open>The data with the forwarder a message is processed for; it may have been cleared.\<close>

record gnss_world =
  gw_data :: gnss_data
  gw_forwarder :: "n2k_forwarder option"

type_synonym 'a gnss = "(gnss_world, 'a) op"

definition upd :: "(gnss_data \<Rightarrow> gnss_data) \<Rightarrow> unit gnss" where
  "upd f = update_state (\<lambda>w. w\<lparr>gw_data := f (gw_data w)\<rparr>)"

definition look :: "(gnss_data \<Rightarrow> 'a) \<Rightarrow> 'a gnss" where
  "look f w = (w, Inr (f (gw_data w)))"

definition set_fix :: "real \<Rightarrow> gnss_data \<Rightarrow> gnss_data" where
  "set_fix now d = (if \<not> gd_fix d then d\<lparr>gd_fix_time := now, gd_fix := True\<rparr> else d)"

text \<open>The guard is that of \<^verbatim>\<open>set_fix\<close>: nothing changes when there is a fix to lose.\<close>

definition lost_fix :: "gnss_data \<Rightarrow> gnss_data" where
  "lost_fix d = (if \<not> gd_fix d then d\<lparr>gd_fix := False, gd_const_in_fix := [], gd_nb_sats_in_fix := 0\<rparr> else d)"

definition set_constellation :: "constellation \<Rightarrow> gnss_data \<Rightarrow> gnss_data" where
  "set_constellation c d = d\<lparr>gd_constellations := dict_set (gs_system_id (cn_gnss c)) c (gd_constellations d)\<rparr>"

text \<open>The constellation of a system, created when it is new.\<close>

definition constellation_of :: "gnss_system \<Rightarrow> constellation gnss" where
  "constellation_of g =
     and_then (look (\<lambda>d. dict_get (gd_constellations d) (gs_system_id g))) (\<lambda>r.
       case r of
         Some c \<Rightarrow> calc (Inr c)
       | None \<Rightarrow> and_then (upd (set_constellation (new_constellation g))) (\<lambda>_. calc (Inr (new_constellation g))))"

definition get_constellation :: "string \<Rightarrow> constellation gnss" where
  "get_constellation tk =
     (case system_by gs_talker tk of None \<Rightarrow> calc (Inl KeyError) | Some g \<Rightarrow> constellation_of g)"

definition get_constellation_from_id :: "int \<Rightarrow> constellation gnss" where
  "get_constellation_from_id signal_id =
     and_then (look (\<lambda>d. dict_get (gd_constellations d) signal_id)) (\<lambda>r.
       case r of
         Some c \<Rightarrow> calc (Inr c)
       | None \<Rightarrow>
           (case system_by gs_system_id signal_id of
              None \<Rightarrow> calc (Inl KeyError)
            | Some g \<Rightarrow> and_then (upd (set_constellation (new_constellation g))) (\<lambda>_. calc (Inr (new_constellation g)))))"

definition adjust_sequence :: "real \<Rightarrow> gnss_data \<Rightarrow> gnss_data" where
  "adjust_sequence t d =
     (if t \<noteq> gd_utc_time d then d\<lparr>gd_sequence := next_sequence (gd_sequence d), gd_utc_time := t\<rparr> else d)"

text \<open>\<^verbatim>\<open>forwarder.pgn_in_set\<close>, \<^verbatim>\<open>forwarder.push\<close>.\<close>

definition wanted :: "nat \<Rightarrow> constellation option \<Rightarrow> bool gnss" where
  "wanted pgn c w =
     (case gw_forwarder w of None \<Rightarrow> (w, Inl AttributeError) | Some fw \<Rightarrow> (w, Inr (pgn_in_set pgn c fw)))"

definition push_object :: "rounding \<Rightarrow> real \<Rightarrow> gen_obj result \<Rightarrow> unit gnss" where
  "push_object fl now r w =
     (case r of
        Inl e \<Rightarrow> (w, Inl e)
      | Inr ob \<Rightarrow>
          (case gw_forwarder w of
             None \<Rightarrow> (w, Inl AttributeError)
           | Some fw \<Rightarrow> let (fw1, x) = forwarder_push fl now ob fw in (w\<lparr>gw_forwarder := Some fw1\<rparr>, x)))"

text \<open>\<open>if forwarder.pgn_in_set(pgn, c): forwarder.push(obj)\<close>.\<close>

definition push_wanted ::
    "rounding \<Rightarrow> real \<Rightarrow> nat \<Rightarrow> constellation option \<Rightarrow> (gnss_data \<Rightarrow> gen_obj result) \<Rightarrow> unit gnss" where
  "push_wanted fl now pgn c mk =
     and_then (wanted pgn c) (\<lambda>b.
       if b then and_then (look mk) (\<lambda>r. push_object fl now r) else calc (Inr ()))"

abbreviation skip :: "unit gnss" where
  "skip \<equiv> calc (Inr ())"

section \<open>Satellites in view\<close>

text \<open>The constellation a sentence is about is read and written back; its methods see the state it has then.\<close>

definition update_constellation :: "int \<Rightarrow> (constellation \<Rightarrow> constellation) \<Rightarrow> unit gnss" where
  "update_constellation i f =
     upd (\<lambda>d. d\<lparr>gd_constellations := map (\<lambda>(k, c). (k, if k = i then f c else c)) (gd_constellations d)\<rparr>)"

definition mark_received :: "int \<Rightarrow> constellation \<Rightarrow> constellation result" where
  "mark_received seq_num c =
     (case cn_gsv_seq_recv c of
        None \<Rightarrow> Inl TypeError
      | Some l \<Rightarrow> map_sum id (\<lambda>l1. c\<lparr>cn_gsv_seq_recv := Some l1\<rparr>) (py_set l (seq_num - 1) True))"

definition seen_satellite ::
    "real \<Rightarrow> int \<Rightarrow> real option \<Rightarrow> real option \<Rightarrow> real option \<Rightarrow> (int, gnss_satellite) dict \<Rightarrow> (int, gnss_satellite) dict" where
  "seen_satellite now i elevation azimuth snr sats =
     (case dict_get sats i of
        Some s \<Rightarrow> dict_set i (s\<lparr>ns_elevation := elevation, ns_azimuth := azimuth, ns_cno := snr\<rparr>) sats
      | None \<Rightarrow> dict_set i \<lparr>ns_svn = i, ns_elevation = elevation, ns_azimuth = azimuth, ns_cno = snr, ns_ts = now,
          ns_status = 0\<rparr> sats)"

text \<open>At most four satellites; the index of the field after them. The last field is the signal.\<close>

fun gsv_satellites :: "rounding \<Rightarrow> real \<Rightarrow> int \<Rightarrow> bytes list \<Rightarrow> nat \<Rightarrow> nat \<Rightarrow> nat gnss" where
  "gsv_satellites fl now i fs 0 idx w = (w, Inr idx)"
| "gsv_satellites fl now i fs (Suc n) idx w =
     (if int (length fs) - 1 \<le> int idx then (w, Inr idx)
      else
        and_then (calc (int_at fs idx)) (\<lambda>sat_id.
        and_then (calc (optional_at fl (\<lambda>x. fl (x * deg_to_radian fl)) fs (idx + 1))) (\<lambda>elevation.
        and_then (calc (optional_at fl (\<lambda>x. fl (x * deg_to_radian fl)) fs (idx + 2))) (\<lambda>azimuth.
        and_then (calc (optional_at fl id fs (idx + 3))) (\<lambda>snr.
        and_then (update_constellation i (\<lambda>c. c\<lparr>cn_satellites := seen_satellite now sat_id elevation azimuth snr (cn_satellites c)\<rparr>)) (\<lambda>_.
          gsv_satellites fl now i fs n (idx + 4)))))) w)"

definition satellite_object :: "rounding \<Rightarrow> gnss_satellite \<Rightarrow> attrs result" where
  "satellite_object fl s =
     sat_object fl \<lparr>sv_prn = ns_svn s, sv_elevation = ns_elevation s, sv_azimuth = ns_azimuth s, sv_snr = ns_cno s,
       sv_status = ns_status s\<rparr>"

definition constellation_object :: "rounding \<Rightarrow> real \<Rightarrow> nat \<Rightarrow> constellation \<Rightarrow> gen_obj result" where
  "constellation_object fl now n c =
     bind_r (made now pgn129540 [seq_attr n, (''mode'', AInt 0), (''sats_in_view'', AInt (cn_nb_satellites c))]) (\<lambda>ob.
     bind_r (all_results (map (\<lambda>(_, s). satellite_object fl s) (cn_satellites c))) (\<lambda>items.
       append_items ''satellites_data'' items ob))"

definition the_constellation :: "int \<Rightarrow> gnss_data \<Rightarrow> constellation" where
  "the_constellation i d = the (dict_get (gd_constellations d) i)"

text \<open>Outside a sequence only its first sentence counts; it starts the sequence.\<close>

definition start_sequence :: "bytes list \<Rightarrow> int \<Rightarrow> constellation \<Rightarrow> bool gnss" where
  "start_sequence fs i c =
     (if cn_gsv_in_progress c then calc (Inr True)
      else
        and_then (calc (field_at fs 1)) (\<lambda>f1.
        if f1 \<noteq> bytes_of ''1'' then calc (Inr False)
        else
          and_then (calc (int_at fs 2)) (\<lambda>nb.
          and_then (update_constellation i (\<lambda>c. c\<lparr>cn_nb_satellites := nb\<rparr>)) (\<lambda>_.
          and_then (calc (int_at fs 0)) (\<lambda>nb_seq.
          and_then (update_constellation i (\<lambda>c. c\<lparr>cn_gsv_nb_seq := nb_seq,
              cn_gsv_seq_recv := Some (replicate (nat nb_seq) False), cn_gsv_in_progress := True\<rparr>)) (\<lambda>_.
            calc (Inr True)))))))"

definition read_gsv :: "rounding \<Rightarrow> real \<Rightarrow> bytes list \<Rightarrow> int \<Rightarrow> unit gnss" where
  "read_gsv fl now fs i =
     and_then (calc (int_at fs 1)) (\<lambda>seq_num.
     and_then (look (\<lambda>d. mark_received seq_num (the_constellation i d))) (\<lambda>r.
     and_then (calc r) (\<lambda>c1.
     and_then (update_constellation i (\<lambda>c. c\<lparr>cn_gsv_seq_recv := cn_gsv_seq_recv c1\<rparr>)) (\<lambda>_.
     and_then (gsv_satellites fl now i fs 4 3) (\<lambda>idx.
     and_then (calc (field_at fs idx)) (\<lambda>signal.
     and_then (update_constellation i (\<lambda>c. c\<lparr>cn_signal_id := Some signal\<rparr>)) (\<lambda>_.
     and_then (look (the_constellation i)) (\<lambda>c2.
       if False \<in> set (case cn_gsv_seq_recv c2 of Some l \<Rightarrow> l | None \<Rightarrow> []) then skip
       else
         and_then (update_constellation i (\<lambda>c. c\<lparr>cn_gsv_in_progress := False\<rparr>)) (\<lambda>_.
           push_wanted fl now 129540 (Some c2)
             (\<lambda>d. constellation_object fl now (gd_sequence d) (the_constellation i d)))))))))))"

definition processGSV :: "rounding \<Rightarrow> real \<Rightarrow> string \<Rightarrow> bytes list \<Rightarrow> unit gnss" where
  "processGSV fl now tk fs =
     and_then (get_constellation tk) (\<lambda>c.
     let i = gs_system_id (cn_gnss c)
     in and_then (start_sequence fs i c) (\<lambda>go. if go then read_gsv fl now fs i else skip))"

section \<open>Fix and position\<close>

definition processGNS :: "bytes list \<Rightarrow> unit gnss" where
  "processGNS fs = and_then (calc (field_at fs 5)) (\<lambda>_. skip)"

definition assert_gn :: "string \<Rightarrow> unit result" where
  "assert_gn tk = (if tk = ''GN'' then Inr () else Inl AssertionError)"

definition dop_object :: "real \<Rightarrow> bytes \<Rightarrow> int \<Rightarrow> gnss_data \<Rightarrow> gen_obj result" where
  "dop_object now mode actual d =
     made now pgn129539 [seq_attr (gd_sequence d), (''desired_mode'', AInt (if mode = bytes_of ''A'' then 3 else 2)),
       (''actual_mode'', AInt (actual - 1)), (''HDOP'', num (gd_HDOP d)), (''VDOP'', num (gd_VDOP d)), (''TDOP'', num (gd_PDOP d))]"

definition fix_satellites :: "rounding \<Rightarrow> real \<Rightarrow> bytes list \<Rightarrow> int list \<Rightarrow> int \<Rightarrow> unit gnss" where
  "fix_satellites fl now fs sats i =
     and_then (upd (\<lambda>d. if i \<in> set (gd_const_in_fix d) then d else d\<lparr>gd_const_in_fix := gd_const_in_fix d @ [i]\<rparr>)) (\<lambda>_.
     and_then (update_constellation i (\<lambda>c. c\<lparr>cn_nb_sats_in_fix := int (length sats), cn_satellites_in_fix := Some sats\<rparr>)) (\<lambda>_.
     and_then (calc (float_at fl fs 14)) (\<lambda>pdop.
     and_then (upd (\<lambda>d. d\<lparr>gd_PDOP := pdop\<rparr>)) (\<lambda>_.
     and_then (calc (float_at fl fs 15)) (\<lambda>hdop.
     and_then (upd (\<lambda>d. d\<lparr>gd_HDOP := hdop\<rparr>)) (\<lambda>_.
     and_then (calc (float_at fl fs 16)) (\<lambda>vdop.
     and_then (upd (\<lambda>d. d\<lparr>gd_VDOP := vdop\<rparr>)) (\<lambda>_.
     and_then (update_constellation i (update_status sats)) (\<lambda>_.
     and_then (look (the_constellation i)) (\<lambda>c.
     and_then (calc (field_at fs 0)) (\<lambda>mode.
     and_then (calc (int_at fs 1)) (\<lambda>actual.
       push_wanted fl now 129539 (Some c) (dop_object now mode actual)))))))))))))"

definition processGSA :: "rounding \<Rightarrow> real \<Rightarrow> string \<Rightarrow> bytes list \<Rightarrow> unit gnss" where
  "processGSA fl now tk fs =
     and_then (calc (assert_gn tk)) (\<lambda>_.
     and_then (calc (int_at fs 1)) (\<lambda>mode.
     and_then (upd (\<lambda>d. d\<lparr>gd_mode := mode\<rparr>)) (\<lambda>_.
     if mode < 2 then upd lost_fix
     else
       and_then (upd (set_fix now)) (\<lambda>_.
       and_then (calc (field_at fs 17)) (\<lambda>f17.
       if length f17 = 0 then skip
       else
         and_then (calc (parse_int 10 f17)) (\<lambda>signal_id.
         and_then (get_constellation_from_id signal_id) (\<lambda>c.
         and_then (calc (sats_in_use fs)) (\<lambda>sats.
           if sats = [] then skip else fix_satellites fl now fs sats (gs_system_id (cn_gnss c))))))))))"

definition position_data_object :: "real \<Rightarrow> int \<Rightarrow> real \<Rightarrow> gnss_data \<Rightarrow> gen_obj result" where
  "position_data_object now method hdop d =
     map_sum id (set_obj_priority 3)
       (made now pgn129029
         [seq_attr (gd_sequence d), (''latitude'', num (gd_latitude d)), (''longitude'', num (gd_longitude d)),
          (''altitude'', num (gd_altitude d)), (''number_of_sv'', AInt (gd_nb_sats_in_fix d)),
          (''date'', AInt (if gd_date d = 0 then 0xFFFF else gd_date d)), (''time'', num (gd_utc_time d)), (''GNSS_type'', AInt 0),
          (''method'', AInt method), (''integrity'', AInt 0), (''HDOP'', num hdop),
          (''geoidal_separation'', num (gd_geoidal_separation d)), (''PDOP'', num (gd_PDOP d)), (''nb_ref_stations'', AInt 0)])"

definition processGGA :: "rounding \<Rightarrow> real \<Rightarrow> string \<Rightarrow> bytes list \<Rightarrow> unit gnss" where
  "processGGA fl now tk fs =
     and_then (calc (assert_gn tk)) (\<lambda>_.
     and_then (calc (field_at fs 5)) (\<lambda>quality.
     if quality = bytes_of ''0'' then upd lost_fix
     else
       and_then (upd (set_fix now)) (\<lambda>_.
       and_then (calc (bind_r (field_at fs 0) (convert_time fl))) (\<lambda>t.
       and_then (upd (adjust_sequence t)) (\<lambda>_.
       and_then (calc (latitude_at fl fs 1)) (\<lambda>lat.
       and_then (upd (\<lambda>d. d\<lparr>gd_latitude := lat\<rparr>)) (\<lambda>_.
       and_then (calc (longitude_at fl fs 3)) (\<lambda>long.
       and_then (upd (\<lambda>d. d\<lparr>gd_longitude := long\<rparr>)) (\<lambda>_.
       and_then (calc (float_at fl fs 8)) (\<lambda>altitude.
       and_then (upd (\<lambda>d. d\<lparr>gd_altitude := altitude\<rparr>)) (\<lambda>_.
       and_then (calc (float_at fl fs 10)) (\<lambda>geoidal.
       and_then (upd (\<lambda>d. d\<lparr>gd_geoidal_separation := geoidal,
           gd_nb_sats_in_fix := sum_list (map (\<lambda>i. cn_nb_sats_in_fix (the_constellation i d)) (gd_const_in_fix d))\<rparr>)) (\<lambda>_.
       and_then (wanted 129029 None) (\<lambda>b.
       if \<not> b then skip
       else
         and_then (calc (parse_int 10 quality)) (\<lambda>method.
         and_then (calc (float_at fl fs 7)) (\<lambda>hdop.
         and_then (look (position_data_object now method hdop)) (\<lambda>r. push_object fl now r)))))))))))))))))"

definition processRMC :: "rounding \<Rightarrow> real \<Rightarrow> bytes list \<Rightarrow> unit gnss" where
  "processRMC fl now fs =
     and_then (calc (field_at fs 1)) (\<lambda>valid.
     if valid \<noteq> bytes_of ''A'' then upd lost_fix
     else
       and_then (calc (bind_r (field_at fs 0) (convert_time fl))) (\<lambda>t.
       and_then (upd (adjust_sequence t)) (\<lambda>_.
       and_then (calc (latitude_at fl fs 2)) (\<lambda>lat.
       and_then (upd (\<lambda>d. d\<lparr>gd_latitude := lat\<rparr>)) (\<lambda>_.
       and_then (calc (longitude_at fl fs 4)) (\<lambda>long.
       and_then (upd (\<lambda>d. d\<lparr>gd_longitude := long\<rparr>)) (\<lambda>_.
       and_then (calc (float_at fl fs 6)) (\<lambda>sog.
       and_then (upd (\<lambda>d. d\<lparr>gd_SOG := fl (sog * knots_to_ms fl)\<rparr>)) (\<lambda>_.
       and_then (calc (optional_at fl (\<lambda>x. fl (x * deg_to_radian fl)) fs 7)) (\<lambda>cog.
       and_then (upd (\<lambda>d. d\<lparr>gd_COG := cog\<rparr>)) (\<lambda>_.
       and_then (calc (bind_r (field_at fs 8) convert_date)) (\<lambda>date.
       and_then (upd (\<lambda>d. d\<lparr>gd_date := date\<rparr>)) (\<lambda>_.
       and_then (push_wanted fl now 129025 None (\<lambda>d. map_sum id (set_obj_priority 3)
           (made now pgn129025 [(''latitude'', num lat), (''longitude'', num long)]))) (\<lambda>_.
         push_wanted fl now 129026 None (\<lambda>d. map_sum id (set_obj_priority 3)
           (made now pgn129026 [seq_attr (gd_sequence d), (''COG_reference'', AInt 0), (''SOG'', num (gd_SOG d)),
              (''COG'', AFloat (gd_COG d))]))))))))))))))))"

definition processTXT :: "bytes list \<Rightarrow> unit gnss" where
  "processTXT fs =
     and_then (calc (int_at fs 2)) (\<lambda>_. and_then (calc (bind_r (field_at fs 3) utf8_decode)) (\<lambda>_. skip))"

section \<open>Sentences\<close>

definition process_vector :: "rounding \<Rightarrow> (string, real \<Rightarrow> string \<Rightarrow> bytes list \<Rightarrow> unit gnss) dict" where
  "process_vector fl =
     [(''GSV'', processGSV fl), (''GNS'', \<lambda>now tk. processGNS), (''GSA'', processGSA fl), (''GGA'', processGGA fl),
      (''RMC'', \<lambda>now tk. processRMC fl now), (''TXT'', \<lambda>now tk. processTXT)]"

text \<open>Every exception of the processing is logged. The decoding of formatter and talker is outside.\<close>

definition process_nmea0183 :: "rounding \<Rightarrow> real \<Rightarrow> real \<Rightarrow> n0183_msg \<Rightarrow> unit gnss" where
  "process_nmea0183 fl now ticks m w =
     (case bind_r (bind_r (formatter m) utf8_decode) (\<lambda>f. map_sum id (Pair f) (bind_r (talker m) utf8_decode)) of
        Inl e \<Rightarrow> (w, Inl e)
      | Inr (f, t) \<Rightarrow>
          let st = (case dict_get (gd_stats (gw_data w)) f of Some st \<Rightarrow> stat_seen ticks st | None \<Rightarrow> new_input_stat ticks);
              w1 = w\<lparr>gw_data := (gw_data w)\<lparr>gd_stats := dict_set f st (gd_stats (gw_data w))\<rparr>\<rparr>
          in case dict_get (map (\<lambda>(k, h). (text_of k, h)) (process_vector fl)) f of
               None \<Rightarrow> (w1, Inr ())
             | Some h \<Rightarrow> (fst (h now (map char_of t) (n_fields m) w1), Inr ()))"


section \<open>The reader\<close>

record gnss_reader =
  gr_traced :: bool
  gr_world :: gnss_world
  gr_subscriber :: "(bytes list \<times> n0183_msg bqueue) option"
  gr_nb_msg :: nat
  gr_nb_msg_err :: nat

text \<open>\<^verbatim>\<open>N0183Subscriber.push\<close>: a message that does not fit the queue is dropped.\<close>

definition subscriber_push :: "n0183_msg \<Rightarrow> bytes list \<times> n0183_msg bqueue \<Rightarrow> (bytes list \<times> n0183_msg bqueue) result" where
  "subscriber_push m sub =
     (case sub of (fmts, q) \<Rightarrow>
       bind_r (formatter m) (\<lambda>f.
         Inr (if f \<in> set fmts then (fmts, (case q_put m q of Inl _ \<Rightarrow> q | Inr q1 \<Rightarrow> q1)) else (fmts, q))))"

definition known_talkers :: "bytes list" where
  "known_talkers = map bytes_of [''GN'', ''GP'', ''GA'']"

text \<open>One line of the serial port, at a time and a tick of the clock; an exception ends the thread.\<close>

definition reader_line :: "rounding \<Rightarrow> real \<Rightarrow> real \<Rightarrow> bytes \<Rightarrow> (gnss_reader, unit) op" where
  "reader_line fl now ticks line r =
     (case line of
        [] \<Rightarrow> (r, Inr ())
      | b # _ \<Rightarrow>
          if b \<noteq> 36 then (r\<lparr>gr_nb_msg_err := gr_nb_msg_err r + 1\<rparr>, Inr ())
          else
            let r1 = r\<lparr>gr_nb_msg := gr_nb_msg r + 1\<rparr>
            in if py_slice line 1 3 \<notin> set known_talkers then (r1, Inr ())
               else
                 (case new_n0183 now line True None of
                    Inl e \<Rightarrow> if e = NMEAInvalidFrame then (r1\<lparr>gr_nb_msg_err := gr_nb_msg_err r1 + 1\<rparr>, Inr ()) else (r1, Inl e)
                  | Inr m \<Rightarrow>
                      (case (case gr_subscriber r1 of None \<Rightarrow> Inr None | Some sub \<Rightarrow> map_sum id Some (subscriber_push m sub)) of
                         Inl e \<Rightarrow> (r1, Inl e)
                       | Inr sub \<Rightarrow>
                           let (w, x) = process_nmea0183 fl now ticks m (gr_world r1)
                           in (r1\<lparr>gr_subscriber := sub, gr_world := w\<rparr>, x))))"

text \<open>What the reader meets: a line, an error of the port, the stop flag, or calls of other threads that set or clear
  the subscribers or let the client suspend and resume the forwarder.\<close>

datatype gnss_event =
    GLine real real bytes
  | GSerialError
  | GStop
  | GSetN2k n2k_forwarder
  | GClearN2k
  | GSetN0183 "bytes list" "n0183_msg bqueue"
  | GClearN0183
  | GSuspend
  | GResume

definition on_forwarder :: "(n2k_forwarder \<Rightarrow> n2k_forwarder) \<Rightarrow> gnss_reader \<Rightarrow> gnss_reader" where
  "on_forwarder f r = r\<lparr>gr_world := (gr_world r)\<lparr>gw_forwarder := map_option f (gw_forwarder (gr_world r))\<rparr>\<rparr>"

definition set_n2k_subscriber :: "n2k_forwarder \<Rightarrow> gnss_reader \<Rightarrow> gnss_reader" where
  "set_n2k_subscriber fw r = r\<lparr>gr_world := (gr_world r)\<lparr>gw_forwarder := Some fw\<rparr>\<rparr>"

definition clear_n2k_subscriber :: "gnss_reader \<Rightarrow> gnss_reader" where
  "clear_n2k_subscriber r = r\<lparr>gr_world := (gr_world r)\<lparr>gw_forwarder := None\<rparr>\<rparr>"

fun gnss_step :: "rounding \<Rightarrow> gnss_event \<Rightarrow> (gnss_reader, unit) op" where
  "gnss_step fl (GLine now ticks line) r = reader_line fl now ticks line r"
| "gnss_step fl (GSetN2k fw) r = (set_n2k_subscriber fw r, Inr ())"
| "gnss_step fl GClearN2k r = (clear_n2k_subscriber r, Inr ())"
| "gnss_step fl (GSetN0183 fmts q) r = (r\<lparr>gr_subscriber := Some (fmts, q)\<rparr>, Inr ())"
| "gnss_step fl GClearN0183 r = (r\<lparr>gr_subscriber := None\<rparr>, Inr ())"
| "gnss_step fl GSuspend r = (on_forwarder forwarder_suspend r, Inr ())"
| "gnss_step fl GResume r = (on_forwarder forwarder_resume r, Inr ())"
| "gnss_step fl GSerialError r = (r, Inr ())"
| "gnss_step fl GStop r = (r, Inr ())"

text \<open>After the loop the trace is stopped, even when there is none.\<close>

definition reader_end :: "gnss_reader \<Rightarrow> unit result" where
  "reader_end r = (if gr_traced r then Inr () else Inl AttributeError)"

text \<open>The loop ends at an error of the port, at the stop flag and at the first exception; the events that were left are
  not read.\<close>

fun gnss_run :: "rounding \<Rightarrow> gnss_event list \<Rightarrow> (gnss_reader, unit) op" where
  "gnss_run fl [] r = (r, Inr ())"
| "gnss_run fl (e # es) r =
     (if e = GSerialError \<or> e = GStop then (r, reader_end r)
      else and_then (gnss_step fl e) (\<lambda>_. gnss_run fl es) r)"

definition new_gnss_reader :: "bool \<Rightarrow> gnss_reader" where
  "new_gnss_reader tr =
     \<lparr>gr_traced = tr, gr_world = \<lparr>gw_data = new_gnss_data, gw_forwarder = Some (new_forwarder {} (new_queue 0) None)\<rparr>,
      gr_subscriber = None, gr_nb_msg = 0, gr_nb_msg_err = 0\<rparr>"


section \<open>What every operation keeps\<close>

text \<open>A property of the state that an operation keeps, whether or not it raises.\<close>

named_theorems keeps_intros \<open>operations keep a property\<close>

definition keeps :: "('s \<Rightarrow> bool) \<Rightarrow> ('s, 'a) op \<Rightarrow> bool" where
  "keeps P m \<longleftrightarrow> (\<forall>w. P w \<longrightarrow> P (fst (m w)))"

lemma keepsD: "keeps P m \<Longrightarrow> P w \<Longrightarrow> P (fst (m w))"
  by (simp add: keeps_def)

lemma keeps_calc [keeps_intros]: "keeps P (calc r)"
  by (simp add: keeps_def)

lemma keeps_look [keeps_intros]: "keeps P (look f)"
  by (simp add: keeps_def look_def)

lemma keeps_wanted [keeps_intros]: "keeps P (wanted pgn c)"
  by (simp add: keeps_def wanted_def split: option.split)

lemma keeps_and_then [keeps_intros]:
  assumes "keeps P m" "\<And>x. keeps P (f x)"
  shows "keeps P (and_then m f)"
  unfolding keeps_def
proof (intro allI impI)
  fix w
  assume "P w"
  then have "P (fst (m w))" using assms(1) by (simp add: keeps_def)
  then show "P (fst (and_then m f w))" using assms(2) by (auto simp: and_then_def keeps_def split: prod.split sum.split)
qed

lemma keeps_if [keeps_intros]: "(b \<Longrightarrow> keeps P m) \<Longrightarrow> (\<not> b \<Longrightarrow> keeps P m') \<Longrightarrow> keeps P (if b then m else m')"
  by simp

lemma keeps_option [keeps_intros]:
  "keeps P m \<Longrightarrow> (\<And>x. keeps P (f x)) \<Longrightarrow> keeps P (case r of None \<Rightarrow> m | Some x \<Rightarrow> f x)"
  by (simp split: option.split)

lemma keeps_let [keeps_intros]: "keeps P (f x) \<Longrightarrow> keeps P (Let x f)"
  by simp

lemma system_by_id: "system_by key k = Some g \<Longrightarrow> key g = k"
  by (auto simp: system_by_def dest!: map_of_SomeD)

text \<open>A property that holds of the data and of the forwarder.\<close>

locale gnss_property =
  fixes D :: "gnss_data \<Rightarrow> bool" and F :: "n2k_forwarder \<Rightarrow> bool"
  assumes sets_fix: "D d \<Longrightarrow> D (set_fix now d)"
    and loses_fix: "D d \<Longrightarrow> D (lost_fix d)"
    and new_const: "D d \<Longrightarrow> dict_get (gd_constellations d) (gs_system_id g) = None \<Longrightarrow> D (set_constellation (new_constellation g) d)"
    and next_seq: "D d \<Longrightarrow> D (adjust_sequence t d)"
    and same_const: "D d \<Longrightarrow> (\<And>c. cn_gnss (f c) = cn_gnss c) \<Longrightarrow>
           D (d\<lparr>gd_constellations := map (\<lambda>(k, c). (k, if k = i then f c else c)) (gd_constellations d)\<rparr>)"
    and other_fields: "D d \<Longrightarrow> gd_fix d1 = gd_fix d \<Longrightarrow> gd_sequence d1 = gd_sequence d \<Longrightarrow>
           gd_constellations d1 = gd_constellations d \<Longrightarrow> D d1"
    and pushes: "F fw \<Longrightarrow> F (fst (forwarder_push fl now ob fw))"
begin

definition W :: "gnss_world \<Rightarrow> bool" where
  "W w \<longleftrightarrow> D (gw_data w) \<and> (\<forall>fw. gw_forwarder w = Some fw \<longrightarrow> F fw)"

lemma keeps_push_object [keeps_intros]: "keeps W (push_object fl now r)"
proof -
  have "F fw1" if "forwarder_push fl now ob fw = (fw1, x)" "F fw" for ob fw fw1 x
    using pushes [OF that(2), of fl now ob] that(1) by simp
  then show ?thesis by (auto simp: keeps_def push_object_def W_def split: sum.split option.split prod.split)
qed

lemma keeps_push_wanted [keeps_intros]: "keeps W (push_wanted fl now pgn c mk)"
  unfolding push_wanted_def by (intro keeps_intros)

lemma keeps_upd: "(\<And>d. D d \<Longrightarrow> D (f d)) \<Longrightarrow> keeps W (upd f)"
  by (auto simp: keeps_def upd_def W_def)

lemma keeps_upds [keeps_intros]:
  "keeps W (upd (set_fix now))" "keeps W (upd lost_fix)" "keeps W (upd (adjust_sequence t))"
  by (blast intro: keeps_upd sets_fix loses_fix next_seq)+

lemma keeps_upd_fields [keeps_intros]:
  "keeps W (upd (\<lambda>d. d\<lparr>gd_mode := m\<rparr>))" "keeps W (upd (\<lambda>d. d\<lparr>gd_latitude := x\<rparr>))" "keeps W (upd (\<lambda>d. d\<lparr>gd_longitude := x\<rparr>))"
  "keeps W (upd (\<lambda>d. d\<lparr>gd_altitude := x\<rparr>))" "keeps W (upd (\<lambda>d. d\<lparr>gd_SOG := x\<rparr>))" "keeps W (upd (\<lambda>d. d\<lparr>gd_COG := y\<rparr>))"
  "keeps W (upd (\<lambda>d. d\<lparr>gd_date := m\<rparr>))" "keeps W (upd (\<lambda>d. d\<lparr>gd_PDOP := x\<rparr>))" "keeps W (upd (\<lambda>d. d\<lparr>gd_HDOP := x\<rparr>))"
  "keeps W (upd (\<lambda>d. d\<lparr>gd_VDOP := x\<rparr>))" "keeps W (upd (\<lambda>d. d\<lparr>gd_geoidal_separation := x, gd_nb_sats_in_fix := k d\<rparr>))"
  "keeps W (upd (\<lambda>d. if i \<in> set (gd_const_in_fix d) then d else d\<lparr>gd_const_in_fix := gd_const_in_fix d @ [i]\<rparr>))"
  by (rule keeps_upd, erule other_fields; simp)+

lemma keeps_update_constellation [keeps_intros]:
  "(\<And>c. cn_gnss (f c) = cn_gnss c) \<Longrightarrow> keeps W (update_constellation i f)"
  unfolding update_constellation_def by (intro keeps_upd same_const)

lemma keeps_constellation_of [keeps_intros]: "keeps W (constellation_of g)"
  by (auto simp: keeps_def constellation_of_def and_then_def look_def calc_def upd_def update_state_def W_def new_const
      split: option.split)

lemma keeps_get_constellation [keeps_intros]:
  "keeps W (get_constellation t)" "keeps W (get_constellation_from_id n)"
  unfolding get_constellation_def
  by (intro keeps_intros)
    (auto simp: keeps_def get_constellation_from_id_def and_then_def look_def calc_def upd_def update_state_def W_def
      intro!: new_const dest: system_by_id split: option.split)

lemma keeps_gsv_satellites [keeps_intros]: "keeps W (gsv_satellites fl now i fs n idx)"
proof (induction n arbitrary: idx)
  case 0
  show ?case by (simp add: keeps_def)
next
  case (Suc n)
  have "gsv_satellites fl now i fs (Suc n) idx =
      (if int (length fs) - 1 \<le> int idx then calc (Inr idx)
       else
         and_then (calc (int_at fs idx)) (\<lambda>sat_id.
         and_then (calc (optional_at fl (\<lambda>x. fl (x * deg_to_radian fl)) fs (idx + 1))) (\<lambda>elevation.
         and_then (calc (optional_at fl (\<lambda>x. fl (x * deg_to_radian fl)) fs (idx + 2))) (\<lambda>azimuth.
         and_then (calc (optional_at fl id fs (idx + 3))) (\<lambda>snr.
         and_then (update_constellation i (\<lambda>c. c\<lparr>cn_satellites := seen_satellite now sat_id elevation azimuth snr (cn_satellites c)\<rparr>)) (\<lambda>_.
           gsv_satellites fl now i fs n (idx + 4)))))))"
    by (rule ext) simp
  then show ?case by (simp only:) (intro keeps_intros Suc.IH, simp)
qed

lemma keeps_gsv:
  "keeps W (start_sequence fs i c)" "keeps W (read_gsv fl now fs i)"
  unfolding start_sequence_def read_gsv_def by (intro keeps_intros; simp)+

lemma keeps_processGSV: "keeps W (processGSV fl now t fs)"
  unfolding processGSV_def by (intro keeps_intros keeps_gsv)

lemma keeps_fix_satellites: "keeps W (fix_satellites fl now fs sats i)"
  unfolding fix_satellites_def by (intro keeps_intros; simp add: update_status_def)

lemma keeps_processGSA: "keeps W (processGSA fl now t fs)"
  unfolding processGSA_def by (intro keeps_intros keeps_fix_satellites)

lemma keeps_processGGA: "keeps W (processGGA fl now t fs)"
  unfolding processGGA_def by (intro keeps_intros)

lemma keeps_processRMC: "keeps W (processRMC fl now fs)"
  unfolding processRMC_def by (intro keeps_intros)

lemma keeps_others: "keeps W (processGNS fs)" "keeps W (processTXT fs)"
  unfolding processGNS_def processTXT_def by (intro keeps_intros)+

lemmas keeps_processes = keeps_processGSV keeps_processGSA keeps_processGGA keeps_processRMC keeps_others

lemma keeps_handler:
  assumes "dict_get (map (\<lambda>(k, h). (text_of k, h)) (process_vector fl)) f = Some h"
  shows "keeps W (h now t fs)"
  using assms keeps_processes by (simp add: process_vector_def split: if_splits) blast+

lemma keeps_process: "keeps W (process_nmea0183 fl now ticks m)"
  unfolding keeps_def
proof (intro allI impI)
  fix w
  assume w: "W w"
  then have s: "W (w\<lparr>gw_data := (gw_data w)\<lparr>gd_stats := st\<rparr>\<rparr>)" for st by (auto simp: W_def intro: other_fields)
  show "W (fst (process_nmea0183 fl now ticks m w))"
    unfolding process_nmea0183_def Let_def
    by (simp add: w s keepsD [OF keeps_handler] split: sum.split prod.split option.split)
qed

text \<open>What a run keeps; the forwarders the client brings have the property as well.\<close>

lemma run_keeps:
  assumes "W (gr_world r)" "\<And>fw. GSetN2k fw \<in> set es \<Longrightarrow> F fw"
    and "\<And>fw. F fw \<Longrightarrow> F (forwarder_suspend fw)" "\<And>fw. F fw \<Longrightarrow> F (forwarder_resume fw)"
  shows "W (gr_world (fst (gnss_run fl es r)))"
  using assms(1,2)
proof (induction es arbitrary: r)
  case (Cons e es)
  have "W (gr_world (fst (gnss_step fl e r)))"
  proof (cases e)
    case (GLine now ticks line)
    have p: "W w" if "process_nmea0183 fl now ticks m (gr_world r) = (w, x)" for m w x
      using keepsD [OF keeps_process Cons.prems(1), of fl now ticks m] that by simp
    show ?thesis
      using Cons.prems(1) unfolding GLine gnss_step.simps reader_line_def Let_def
      by (auto split: list.split sum.split prod.split dest: p)
  qed (use Cons.prems assms(3,4) in \<open>auto simp: on_forwarder_def set_n2k_subscriber_def clear_n2k_subscriber_def W_def\<close>)
  with Cons.IH Cons.prems(2) show ?case by (auto simp: and_then_def split: prod.split sum.split)
qed simp

end

section \<open>The fix is never lost\<close>

interpretation fix_kept: gnss_property gd_fix "\<lambda>_. True"
  by unfold_locales (auto simp: set_fix_def lost_fix_def set_constellation_def adjust_sequence_def)

text \<open>C15. Once the receiver had a fix, the data keep saying so whatever the receiver sends, a position marked void and a
  quality 0 included, and whatever the other threads do: the guard of \<^verbatim>\<open>lost_fix\<close> is that of \<^verbatim>\<open>set_fix\<close>.\<close>

theorem fix_never_lost:
  assumes "gd_fix (gw_data (gr_world r))"
  shows "gd_fix (gw_data (gr_world (fst (gnss_run fl es r))))"
  using fix_kept.run_keeps [of r es fl] assms by (simp add: fix_kept.W_def)

lemma fix_never_lost_witness:
  "gd_fix (gw_data (gr_world (fst (gnss_run (\<lambda>x. x) [GLine 0 0 (36 # bytes_of ''GNRMC,120000.00,V,,,,,,,010125,,,N*62'' @ [13, 10]), GStop]
     \<lparr>gr_traced = False, gr_world = \<lparr>gw_data = new_gnss_data\<lparr>gd_fix := True\<rparr>, gw_forwarder = None\<rparr>, gr_subscriber = None,
      gr_nb_msg = 0, gr_nb_msg_err = 0\<rparr>))))"
  by (rule fix_never_lost) simp

section \<open>The state of the reader\<close>

text \<open>The sequence number fits its byte with 253 the last, each system has one constellation, under its identifier, and
  the forwarder lost fewer messages than it counts.\<close>

definition constellations_ok :: "(int, constellation) dict \<Rightarrow> bool" where
  "constellations_ok cs \<longleftrightarrow> distinct (map fst cs) \<and> (\<forall>(k, c) \<in> set cs. gs_system_id (cn_gnss c) = k)"

definition gnss_data_ok :: "gnss_data \<Rightarrow> bool" where
  "gnss_data_ok d \<longleftrightarrow> gd_sequence d \<le> 253 \<and> constellations_ok (gd_constellations d)"

definition forwarder_ok :: "n2k_forwarder \<Rightarrow> bool" where
  "forwarder_ok fw \<longleftrightarrow> fw_lost fw < fw_total fw"

lemma forwarder_push_ok: "forwarder_ok fw \<Longrightarrow> forwarder_ok (fst (forwarder_push fl now ob fw))"
  by (auto simp: forwarder_push_def forwarder_ok_def Let_def split: sum.split)

lemma constellations_ok_set:
  assumes "constellations_ok cs" "dict_get cs (gs_system_id (cn_gnss c)) = None"
  shows "constellations_ok (dict_set (gs_system_id (cn_gnss c)) c cs)"
proof -
  have "gs_system_id (cn_gnss c) \<notin> fst ` set cs" using assms(2) by (simp add: map_of_eq_None_iff)
  then have "dict_set (gs_system_id (cn_gnss c)) c cs = cs @ [(gs_system_id (cn_gnss c), c)]" by (induction cs) auto
  then show ?thesis using assms(1) \<open>_ \<notin> fst ` set cs\<close> by (auto simp: constellations_ok_def)
qed

lemma constellations_ok_map:
  assumes "constellations_ok cs" "\<And>c. cn_gnss (f c) = cn_gnss c"
  shows "constellations_ok (map (\<lambda>(k, c). (k, if k = i then f c else c)) cs)"
proof -
  have "map fst (map (\<lambda>(k, c). (k, if k = i then f c else c)) cs) = map fst cs" by (induction cs) auto
  then have "distinct (map fst (map (\<lambda>(k, c). (k, if k = i then f c else c)) cs))"
    using assms(1) by (simp only: constellations_ok_def)
  then show ?thesis using assms unfolding constellations_ok_def by fastforce
qed

interpretation reader_ok: gnss_property gnss_data_ok forwarder_ok
proof unfold_locales
  fix d :: gnss_data and g :: gnss_system
  assume "gnss_data_ok d" "dict_get (gd_constellations d) (gs_system_id g) = None"
  then show "gnss_data_ok (set_constellation (new_constellation g) d)"
    using constellations_ok_set [of "gd_constellations d" "new_constellation g"]
    by (simp add: gnss_data_ok_def set_constellation_def new_constellation_def)
qed (auto simp: gnss_data_ok_def set_fix_def lost_fix_def adjust_sequence_def next_sequence_def forwarder_push_ok intro: constellations_ok_map)

text \<open>C14. In every run of the reader from its start the sequence number of the messages stays at 253 or below, no system
  has two constellations and each is stored under its own identifier, and the share of lost messages of the forwarder is
  defined and below 1, when the forwarders the clients bring are so.\<close>

theorem gnss_reader_invariant:
  assumes "\<And>fw. GSetN2k fw \<in> set es \<Longrightarrow> forwarder_ok fw"
  shows "gnss_data_ok (gw_data (gr_world (fst (gnss_run fl es (new_gnss_reader tr)))))
    \<and> (\<forall>fw. gw_forwarder (gr_world (fst (gnss_run fl es (new_gnss_reader tr)))) = Some fw
         \<longrightarrow> 0 \<le> percentage_lost fw \<and> percentage_lost fw < 1)"
proof -
  have "reader_ok.W (gr_world (fst (gnss_run fl es (new_gnss_reader tr))))"
    by (rule reader_ok.run_keeps)
      (use assms in \<open>auto simp: reader_ok.W_def new_gnss_reader_def new_gnss_data_def new_forwarder_def gnss_data_ok_def
        constellations_ok_def forwarder_ok_def forwarder_suspend_def forwarder_resume_def\<close>)
  then show ?thesis by (auto simp: reader_ok.W_def percentage_lost_def forwarder_ok_def)
qed

lemma gnss_reader_invariant_witness:
  "gnss_data_ok (gw_data (gr_world (fst (gnss_run (\<lambda>x. x)
     [GSetN2k (new_forwarder {129025} (new_queue 20) (Some ''GPS'')), GResume,
      GLine 0 0 (36 # bytes_of ''GPGSV,1,1,01,05,40,083,41,1*68'' @ [13, 10])] (new_gnss_reader True)))))"
proof -
  have "forwarder_ok (new_forwarder {129025} (new_queue 20) (Some ''GPS''))" by (simp add: forwarder_ok_def new_forwarder_def)
  then show ?thesis by (intro gnss_reader_invariant [THEN conjunct1]) auto
qed

section \<open>A line that ends the reader\<close>

text \<open>C16. A line of a known talker whose two checksum characters are no hexadecimal number ends the reader with the
  \<^verbatim>\<open>ValueError\<close>, since only \<^verbatim>\<open>NMEAInvalidFrame\<close> is caught: the line is counted, nothing of it is processed and no later
  line or call is read.\<close>

theorem reader_ends_on_bad_checksum:
  assumes line: "line = 36 # (tk @ body) @ [42] @ hh @ [13, 10]" and hh: "length hh = 2" "parse_int 16 hh = Inl ValueError"
    and tk: "tk \<in> set known_talkers"
  shows "gnss_run fl (GLine now ticks line # es) r = (r\<lparr>gr_nb_msg := gr_nb_msg r + 1\<rparr>, Inl ValueError)"
proof -
  note parts = frame_parts [OF line hh(1)]
  have "length tk = 2" using tk by (auto simp: known_talkers_def bytes_of_def)
  then have t: "py_slice line 1 3 = tk" using py_slice_nat [of line 1 3] by (simp add: line)
  have "new_n0183 now line True None = Inl ValueError"
    using hh(2) by (simp add: new_n0183_def parts(1) check_frame_def parts(2)[simplified] parts(3)[simplified])
  then show ?thesis
    using tk t by (simp add: and_then_def reader_line_def line Let_def)
qed

lemma reader_ends_on_bad_checksum_witness:
  "gnss_run (\<lambda>x. x) (GLine 0 0 (36 # bytes_of ''GNTXT,1*G1'' @ [13, 10]) # [GResume]) (new_gnss_reader True)
     = ((new_gnss_reader True)\<lparr>gr_nb_msg := 1\<rparr>, Inl ValueError)"
proof -
  have "parse_int 16 (bytes_of ''G1'') = Inl ValueError" by code_simp
  moreover have "bytes_of ''GN'' \<in> set known_talkers" by (simp add: known_talkers_def)
  moreover have "36 # bytes_of ''GNTXT,1*G1'' @ [13, 10] = 36 # (bytes_of ''GN'' @ bytes_of ''TXT,1'') @ [42] @ bytes_of ''G1'' @ [13, 10]"
    by code_simp
  moreover have "gr_nb_msg (new_gnss_reader True) = 0" by (simp add: new_gnss_reader_def)
  moreover have "length (bytes_of ''G1'') = 2" by code_simp
  ultimately show ?thesis using reader_ends_on_bad_checksum [of _ "bytes_of ''GN''" "bytes_of ''TXT,1''" "bytes_of ''G1''"] by simp
qed

end
