(* ===== verification/Spec2Isabelle.thy ===== *)
theory Spec2Isabelle
  imports CanInterface PgnCodec Gateways Applications Mppt IKonvert LogReplay Engine GenRoundTrip GenProtobuf Gnss
begin

text \<open>
  Verification library of the navigation server (\<^verbatim>\<open>navigation_server/\<close>), a Python program that routes the
  messages of a boat: NMEA 2000 frames of a CAN bus, NMEA 0183 sentences, and the text forms of the
  gateways that carry one over the other. A coupler reads a stream, its messages pass filters and go to
  publishers, each a queue and a thread; the CAN side has its own interface, a controller that keeps the
  table of the devices on the bus, and local applications that own addresses on it.

  \<^bold>\<open>Theories and code.\<close> Paths are below \<^verbatim>\<open>src/navigation_server/\<close>.

  \<^item> \<^verbatim>\<open>Prelude\<close>: bytes, exceptions as values (\<open>result\<close>), Python indexing, slicing and dictionaries (the locale
    \<open>py_dict\<close>, interpreted on association lists), little-endian numbers, splitting and joining.
    \<^verbatim>\<open>PyText\<close>: numerals, hexadecimal text, UTF-8, rounding. \<^verbatim>\<open>Queues\<close>: \<^verbatim>\<open>queue.Queue\<close> (the locale \<open>fifo\<close>).
    \<^verbatim>\<open>Reassembly\<close>: the locale of a table of reassemblies, in which streams do not interfere.
  \<^item> \<^verbatim>\<open>FastPacket\<close> (\<^verbatim>\<open>nmea2000/nmea2k_fast_packet.py\<close>), \<^verbatim>\<open>IsoTransport\<close> (\<^verbatim>\<open>nmea2000/nmea2k_iso_transport.py\<close>):
    the two transports that cut long payloads into frames. Both interpret the locale of \<^verbatim>\<open>Reassembly\<close>.
  \<^item> \<^verbatim>\<open>PgnDefs\<close> (\<^verbatim>\<open>nmea2000_datamodel/nmea2k_pgn_definition.py\<close>, \<^verbatim>\<open>nmea2k_pgndefs.py\<close>): PGN ranges and the
    dictionary of definitions. \<^verbatim>\<open>N2kMessage\<close> (\<^verbatim>\<open>router_core/nmea2000_msg.py\<close>): messages, protobuf form, the
    29-bit CAN identifier.
  \<^item> \<^verbatim>\<open>CanInterface\<close> (\<^verbatim>\<open>can_interface/nmea2k_can_interface.py\<close>): the reading and writing threads of the bus.
  \<^item> \<^verbatim>\<open>ValueCoders\<close>, \<^verbatim>\<open>FieldDefs\<close>, \<^verbatim>\<open>BitFields\<close>, \<^verbatim>\<open>PgnCodec\<close> (\<^verbatim>\<open>nmea2000_datamodel/nmea2k_encode_decode.py\<close>,
    \<^verbatim>\<open>nmea2k_fielddefs.py\<close>, \<^verbatim>\<open>nmea2k_bitfield_generator.py\<close>, \<^verbatim>\<open>nmea2k_pgn_definition.py\<close>): decoding and encoding
    of payloads by the XML definitions. Floats are reals there; in \<^verbatim>\<open>GenBase\<close> every operation on them is rounded.
  \<^item> \<^verbatim>\<open>Nmea0183\<close> (\<^verbatim>\<open>router_core/nmea0183_msg.py\<close>, \<^verbatim>\<open>router_common/generic_msg.py\<close>): sentences and checksums.
    \<^verbatim>\<open>Pdgy\<close>: NMEA 2000 messages as PDGY sentences, with base64.
  \<^item> \<^verbatim>\<open>Filters\<close> (\<^verbatim>\<open>router_core/filters.py\<close>, \<^verbatim>\<open>nmea0183/nmea0183_filters.py\<close>, \<^verbatim>\<open>nmea2000/nmea2k_filters.py\<close>),
    \<^verbatim>\<open>Publisher\<close> (\<^verbatim>\<open>router_core/publisher.py\<close>).
  \<^item> \<^verbatim>\<open>Coupler\<close> (\<^verbatim>\<open>router_core/coupler.py\<close>, \<^verbatim>\<open>router_core/IPCoupler.py\<close>): the main loop of a coupler as a step
    relation with the operations other threads call; \<^verbatim>\<open>Framing\<close>: the asynchronous reader that cuts a
    stream into frames; \<^verbatim>\<open>Gateways\<close> (\<^verbatim>\<open>couplers/ydn2k_coupler.py\<close>, \<^verbatim>\<open>couplers/shipmodul_if.py\<close>).
  \<^item> \<^verbatim>\<open>IsoName\<close> (\<^verbatim>\<open>nmea2000_datamodel/nmea2k_name.py\<close>), \<^verbatim>\<open>IsoMessages\<close> (\<^verbatim>\<open>nmea2000/nmea2k_iso_messages.py\<close>,
    \<^verbatim>\<open>generated/nmea2000_classes_iso_gen.py\<close>, \<^verbatim>\<open>nmea2000_datamodel/generated_base.py\<close>), \<^verbatim>\<open>Devices\<close>
    (\<^verbatim>\<open>nmea2000/nmea2k_device.py\<close>, \<^verbatim>\<open>nmea2000/nmea2k_controller.py\<close>, \<^verbatim>\<open>nmea2000_datamodel/nmea2k_manufacturers.py\<close>),
    \<^verbatim>\<open>Applications\<close> (\<^verbatim>\<open>can_interface/nmea2k_application.py\<close>, \<^verbatim>\<open>can_interface/nmea2k_active_controller.py\<close>):
    the management of the bus.
  \<^item> \<^verbatim>\<open>Hex\<close>, \<^verbatim>\<open>PyFloat\<close>: hexadecimal text of bytes, numbers with a fraction in text. \<^verbatim>\<open>VeDirect\<close>
    (\<^verbatim>\<open>couplers/vedirect_coupler.py\<close>): the protocol of the solar chargers as an automaton on bytes, its trace and
    replay; \<^verbatim>\<open>Mppt\<close> (\<^verbatim>\<open>energy_mgmt/mppt_service.py\<close>): what the service of a charger keeps and publishes.
    \<^verbatim>\<open>IKonvert\<close> (\<^verbatim>\<open>couplers/ikonvert.py\<close>): the gateway whose coupler waits on a semaphore for the reading thread,
    as interleaved steps of both.
  \<^item> \<^verbatim>\<open>RawLog\<close> (\<^verbatim>\<open>router_common/message_trace.py\<close>, \<^verbatim>\<open>log_replay/raw_log_reader.py\<close>): trace files and their timed
    reading; \<^verbatim>\<open>LogReplay\<close> (\<^verbatim>\<open>log_replay/raw_log_coupler.py\<close>): their replay, compared with the live session.
    \<^verbatim>\<open>Engine\<close> (\<^verbatim>\<open>navigation_data/engine_service.py\<close>): the state of the engines and the files that keep it.
  \<^item> \<^verbatim>\<open>GenBase\<close> (\<^verbatim>\<open>nmea2000_datamodel/generated_base.py\<close>), \<^verbatim>\<open>GenVessel\<close>, \<^verbatim>\<open>GenNav\<close>, \<^verbatim>\<open>GenAis\<close>, \<^verbatim>\<open>GenWeather\<close>
    (\<^verbatim>\<open>generated/nmea2000_classes_gen.py\<close>), \<^verbatim>\<open>GenClasses\<close> (with \<^verbatim>\<open>nmea2000/nmea2k_decode_dispatch.py\<close>): the
    message classes the code generator writes from the definitions, their decoding, encoding, protobuf form and
    JSON, and the table that chooses the class of a message. \<^verbatim>\<open>GenLemmas\<close>, \<^verbatim>\<open>GenRoundTrip\<close>, \<^verbatim>\<open>GenProtobuf\<close>:
    what the proofs about the classes share, their round trips over payloads and over protobuf.
  \<^item> \<^verbatim>\<open>N0183Convert\<close> (\<^verbatim>\<open>nmea2000/nmea0183_to_nmea2k.py\<close>): sentences converted to messages of the generated classes.
    \<^verbatim>\<open>Gnss\<close> (\<^verbatim>\<open>gnss/gnss_data.py\<close>, the reader of \<^verbatim>\<open>gnss/gnss_service.py\<close>): the data kept of a GNSS receiver and
    the messages pushed to the client. The locale \<open>gnss_property\<close> lists what a property of the data has to survive;
    its conclusion, that every run of the reader keeps it, is used by both interpretations.

  \<^bold>\<open>Conventions.\<close> A method is a function from the state of its object to the new state and its result; an
  exception is \<open>Inl\<close> of its class. The clock, the bus, the sockets and what they deliver are arguments.
  Operations of different threads are interleaved as steps; where the code takes a lock that it may never
  get, the outcome is \<open>Blocked\<close>. Logging and traces are left out.

  \<^bold>\<open>What the lemmas show.\<close> Transports: round trips for every payload length that the code carries, the exact
  errors for the lengths it does not, independence of the streams, invariants of the tables. CAN interface:
  a message sent by one interface arrives once in the queue of another; the writer keeps the order of the
  frames through retries. Definitions: round trip and precision of the payload codec, the layout of the
  bit fields, the totality of the decoding. Sentences: the reader accepts what the program writes and
  refuses any single corrupted byte. Filters, publishers, coupler and framing: decisions, rates, order,
  overflow, giving up after the allowed attempts, independence of the fragmentation of the stream. Bus
  management: the layout of the NAME, arbitration of addresses, the progress of the controller and the
  messages that end it. Couplers and services: delivery and checksums of the Victron blocks, the mutual waiting
  of the two iKonvert threads, the trend of a charger as means of its samples, traces that load back and replay
  to the messages of the live session, the chain of engine events and its files. Generated classes: a received
  message of a class with plain fields is sent again with the same content up to the rounding of its numbers, the
  precision of a position, protobuf forms that copy back, and the classes whose own messages do not survive. GNSS:
  the precision of a converted position, satellites collected over a sequence of sentences, the state of the
  reader, the fix it never loses and the line that ends it. The findings that the proofs brought up are part of the
  statements: where the code deviates from its documentation, the theorem says what the code does.

  \<^bold>\<open>Bounds and fuel.\<close> No definition uses fuel: loops are recursive on lists or numbers, or functions with a
  measure (\<open>copy_loop\<close>, \<open>pad_loop\<close>, \<open>scan\<close>); loops on external events run on the finite list of these
  events, so that a property of a run holds for every length. The coupler's loop is an inductive step
  relation, its properties are proved by rule induction. Queue lengths and retry limits are those of
  the code.

  \<^bold>\<open>Not modelled.\<close> The protobuf and gRPC services and their clients, the agent, the modem and network interfaces,
  the GPIO, the code generators and the test programs: they are input and output or command line tools. Of the
  GNSS the services, the push client and the configuration of the chip are left out. The message server, its console
  and the configuration are not modelled. The vendored \<^verbatim>\<open>python_lib\<close> is third-party code. Printable forms are presentation.
\<close>

end
